(* ===== verification/Go_Prelude.thy ===== *)
theory Go_Prelude
  imports Main "HOL-Library.Sublist" "HOL-Library.AList"
begin

text \<open>
  Shared vocabulary of the development: the part of Go's standard library that
  the server uses on strings, and pure results that can fail.

  Go strings are byte strings and are modelled by \<^typ>\<open>string\<close>; letter case is
  folded on the ASCII letters only.  Go's \<open>int\<close> is modelled by \<^typ>\<open>int\<close>.
\<close>

named_theorems go_string_simps
named_theorems keeps_intros
named_theorems em_simps

section \<open>The package \<open>strings\<close>\<close>

fun strings_Split :: "string \<Rightarrow> char \<Rightarrow> string list" where
  "strings_Split [] c = [[]]"
| "strings_Split (x # xs) c =
     (if x = c then [] # strings_Split xs c
      else (case strings_Split xs c of [] \<Rightarrow> [[x]] | w # ws \<Rightarrow> (x # w) # ws))"

fun strings_Join :: "string list \<Rightarrow> string \<Rightarrow> string" where
  "strings_Join [] sep = []"
| "strings_Join [w] sep = w"
| "strings_Join (w # v # ws) sep = w @ sep @ strings_Join (v # ws) sep"

definition strings_HasPrefix :: "string \<Rightarrow> string \<Rightarrow> bool" where
  "strings_HasPrefix s p = (take (length p) s = p)"

definition strings_HasSuffix :: "string \<Rightarrow> string \<Rightarrow> bool" where
  "strings_HasSuffix s p = (length p \<le> length s \<and> drop (length s - length p) s = p)"

definition strings_TrimLeft :: "string \<Rightarrow> char \<Rightarrow> string" where
  "strings_TrimLeft s c = dropWhile (\<lambda>x. x = c) s"

definition strings_TrimRight :: "string \<Rightarrow> char \<Rightarrow> string" where
  "strings_TrimRight s c = rev (dropWhile (\<lambda>x. x = c) (rev s))"

definition strings_TrimPrefix :: "string \<Rightarrow> string \<Rightarrow> string" where
  "strings_TrimPrefix s p = (if strings_HasPrefix s p then drop (length p) s else s)"

definition strings_TrimSuffix :: "string \<Rightarrow> string \<Rightarrow> string" where
  "strings_TrimSuffix s x = (if strings_HasSuffix s x then take (length s - length x) s else s)"

definition is_space_char :: "char \<Rightarrow> bool" where
  "is_space_char c = (of_char c \<in> {9, 10, 11, 12, 13, 32 :: nat})"

definition strings_TrimSpace :: "string \<Rightarrow> string" where
  "strings_TrimSpace s = rev (dropWhile is_space_char (rev (dropWhile is_space_char s)))"

definition char_ToLower :: "char \<Rightarrow> char" where
  "char_ToLower c =
     (if 65 \<le> (of_char c :: nat) \<and> (of_char c :: nat) \<le> 90
      then char_of ((of_char c :: nat) + 32) else c)"

definition strings_ToLower :: "string \<Rightarrow> string" where
  "strings_ToLower s = map char_ToLower s"

text \<open>\<open>strings.Replace(s, old, new, 1)\<close>.\<close>

fun strings_ReplaceFirst :: "string \<Rightarrow> string \<Rightarrow> string \<Rightarrow> string" where
  "strings_ReplaceFirst s old new =
     (if strings_HasPrefix s old then new @ drop (length old) s
      else (case s of [] \<Rightarrow> [] | c # cs \<Rightarrow> c # strings_ReplaceFirst cs old new))"

declare strings_ReplaceFirst.simps [simp del]

text \<open>\<open>strings.Replace(s, c, "", -1)\<close> for a one-character string \<open>c\<close>.\<close>

definition strings_RemoveAll :: "string \<Rightarrow> char \<Rightarrow> string" where
  "strings_RemoveAll s c = filter (\<lambda>x. x \<noteq> c) s"

lemma strings_Split_ne [simp]: "strings_Split s c \<noteq> []"
  by (cases s) (auto split: list.splits)

lemma strings_Join_Split [simp]: "strings_Join (strings_Split s c) [c] = s"
proof (induction s)
  case Nil
  then show ?case by simp
next
  case (Cons x xs)
  obtain w ws where w: "strings_Split xs c = w # ws"
    by (cases "strings_Split xs c") auto
  with Cons.IH show ?case by (cases ws) auto
qed


lemma strings_Split_no_sep:
  "w \<in> set (strings_Split s c) \<Longrightarrow> c \<notin> set w"
proof (induction s arbitrary: w)
  case Nil
  then show ?case by simp
next
  case (Cons x xs)
  obtain v vs where v: "strings_Split xs c = v # vs"
    by (cases "strings_Split xs c") auto
  from Cons.prems Cons.IH show ?case by (auto simp: v split: if_splits)
qed

lemma strings_Split_single: "c \<notin> set w \<Longrightarrow> strings_Split w c = [w]"
  by (induction w) auto

lemma strings_Split_append:
  "c \<notin> set w \<Longrightarrow> strings_Split (w @ c # s) c = w # strings_Split s c"
  by (induction w) auto

lemma strings_Split_Join:
  "ws \<noteq> [] \<Longrightarrow> (\<forall>w\<in>set ws. c \<notin> set w) \<Longrightarrow> strings_Split (strings_Join ws [c]) c = ws"
proof (induction ws "[c]" rule: strings_Join.induct)
  case 1
  then show ?case by simp
next
  case (2 w)
  then show ?case by (simp add: strings_Split_single)
next
  case (3 w v ws)
  then show ?case by (simp add: strings_Split_append)
qed

lemma strings_Split_inject [simp]:
  "strings_Split s c = strings_Split t c \<longleftrightarrow> s = t"
  by (metis strings_Join_Split)

lemma strings_Join_append:
  "xs \<noteq> [] \<Longrightarrow> ys \<noteq> [] \<Longrightarrow>
     strings_Join (xs @ ys) sep = strings_Join xs sep @ sep @ strings_Join ys sep"
proof (induction xs sep rule: strings_Join.induct)
  case (2 w sep)
  then show ?case by (cases ys) auto
qed auto

lemma strings_Split_append_sep:
  "strings_Split (s @ c # t) c = strings_Split s c @ strings_Split t c"
proof -
  have "strings_Join (strings_Split s c @ strings_Split t c) [c] = s @ c # t"
    by (simp add: strings_Join_append)
  then show ?thesis
    using strings_Split_Join [of "strings_Split s c @ strings_Split t c" c]
      strings_Split_no_sep by (metis Un_iff append_is_Nil_conv set_append strings_Split_ne)
qed

lemma strings_HasPrefix_iff [go_string_simps]:
  "strings_HasPrefix s p \<longleftrightarrow> (\<exists>t. s = p @ t)"
  unfolding strings_HasPrefix_def
  by (metis append_eq_conv_conj append_take_drop_id)

lemma strings_HasSuffix_iff [go_string_simps]:
  "strings_HasSuffix s p \<longleftrightarrow> (\<exists>t. s = t @ p)"
proof
  assume "strings_HasSuffix s p"
  then show "\<exists>t. s = t @ p"
    unfolding strings_HasSuffix_def by (metis append_take_drop_id)
qed (auto simp: strings_HasSuffix_def)

text \<open>
  The separator-terminated prefix test on whole strings is the prefix order on
  the lists of components.
\<close>

lemma HasPrefix_sep_iff:
  "strings_HasPrefix s (p @ [c]) \<longleftrightarrow>
     (\<exists>ws. ws \<noteq> [] \<and> strings_Split s c = strings_Split p c @ ws)"
proof
  assume "strings_HasPrefix s (p @ [c])"
  then obtain t where "s = p @ c # t" by (auto simp: strings_HasPrefix_iff)
  then show "\<exists>ws. ws \<noteq> [] \<and> strings_Split s c = strings_Split p c @ ws"
    using strings_Split_append_sep strings_Split_ne by blast
next
  assume "\<exists>ws. ws \<noteq> [] \<and> strings_Split s c = strings_Split p c @ ws"
  then obtain ws where ws: "ws \<noteq> []" "strings_Split s c = strings_Split p c @ ws" by blast
  have "s = strings_Join (strings_Split s c) [c]" by simp
  also have "\<dots> = p @ c # strings_Join ws [c]"
    using ws by (simp add: strings_Join_append)
  finally show "strings_HasPrefix s (p @ [c])" by (auto simp: strings_HasPrefix_iff)
qed

lemma strings_ToLower_idem [simp]: "strings_ToLower (strings_ToLower s) = strings_ToLower s"
proof -
  have "char_ToLower (char_ToLower c) = char_ToLower c" for c
    by (simp add: char_ToLower_def take_bit_eq_mod)
  then show ?thesis by (simp add: strings_ToLower_def)
qed

lemma strings_ReplaceFirst_prefix [simp]:
  "strings_ReplaceFirst (old @ s) old new = new @ s"
  by (subst strings_ReplaceFirst.simps) (simp add: strings_HasPrefix_def)

lemma strings_ReplaceFirst_self [simp]: "strings_ReplaceFirst old old new = new"
  using strings_ReplaceFirst_prefix [of old "[]" new] by simp

definition strings_Contains :: "string \<Rightarrow> string \<Rightarrow> bool" where
  "strings_Contains s t = list_ex (\<lambda>u. strings_HasPrefix u t) (suffixes s)"

lemma ReplaceFirst_absent: "\<not> strings_Contains s old \<Longrightarrow> strings_ReplaceFirst s old new = s"
  by (induction s) (auto simp: strings_Contains_def strings_ReplaceFirst.simps [of "_ # _"] strings_ReplaceFirst.simps [of "[]"])

lemma ReplaceFirst_present:
  "strings_Contains s old \<Longrightarrow> \<exists>a b. s = a @ old @ b \<and> (\<forall>new. strings_ReplaceFirst s old new = a @ new @ b)"
proof (induction s)
  case Nil
  then have "old = []" by (simp add: strings_Contains_def strings_HasPrefix_def)
  then show ?case by (auto simp: strings_ReplaceFirst.simps strings_HasPrefix_def)
next
  case (Cons c s)
  show ?case
  proof (cases "strings_HasPrefix (c # s) old")
    case True
    then have "c # s = [] @ old @ drop (length old) (c # s)"
      by (simp add: strings_HasPrefix_def) (metis append_take_drop_id)
    then show ?thesis using True by (metis append_Nil strings_ReplaceFirst.simps)
  next
    case False
    then have "strings_Contains s old" using Cons.prems by (auto simp: strings_Contains_def)
    from Cons.IH [OF this] obtain a b where "s = a @ old @ b" "\<And>new. strings_ReplaceFirst s old new = a @ new @ b" by blast
    moreover have "strings_ReplaceFirst (c # s) old new = c # strings_ReplaceFirst s old new" for new
      using False by (simp add: strings_ReplaceFirst.simps [of "c # s"])
    ultimately show ?thesis by (metis append_Cons)
  qed
qed

section \<open>Package \<open>strconv\<close>\<close>

definition strconv_ParseBool :: "string \<Rightarrow> bool option" where
  "strconv_ParseBool s =
     (if s \<in> {''1'', ''t'', ''T'', ''true'', ''TRUE'', ''True''} then Some True
      else if s \<in> {''0'', ''f'', ''F'', ''false'', ''FALSE'', ''False''} then Some False
      else None)"

definition digit_val :: "char \<Rightarrow> int option" where
  "digit_val c =
     (if 48 \<le> (of_char c :: int) \<and> (of_char c :: int) \<le> 57
      then Some (of_char c - 48) else None)"

fun digits_val :: "string \<Rightarrow> int \<Rightarrow> int option" where
  "digits_val [] acc = Some acc"
| "digits_val (c # cs) acc =
     (case digit_val c of None \<Rightarrow> None | Some v \<Rightarrow> digits_val cs (10 * acc + v))"

text \<open>\<open>strconv.Atoi\<close>: an optional sign and at least one digit, in the range of a
  64-bit \<open>int\<close>.\<close>

definition strconv_Atoi :: "string \<Rightarrow> int option" where
  "strconv_Atoi s =
     (let (neg, ds) =
        (case s of [] \<Rightarrow> (False, [])
         | c # cs \<Rightarrow> if c = CHR ''-'' then (True, cs)
                    else if c = CHR ''+'' then (False, cs) else (False, s))
      in if ds = [] then None
         else (case digits_val ds 0 of
                 None \<Rightarrow> None
               | Some v \<Rightarrow>
                   (let r = (if neg then - v else v)
                    in if - (2 ^ 63) \<le> r \<and> r < 2 ^ 63 then Some r else None)))"

text \<open>\<open>strconv.Itoa\<close>.\<close>

fun nat_dec :: "nat \<Rightarrow> string" where
  "nat_dec n = (if n < 10 then [char_of (48 + n)] else nat_dec (n div 10) @ [char_of (48 + n mod 10)])"

declare nat_dec.simps [simp del]

definition strconv_Itoa :: "int \<Rightarrow> string" where
  "strconv_Itoa n = (if n < 0 then CHR ''-'' # nat_dec (nat (- n)) else nat_dec (nat n))"

lemma digits_val_snoc: "digits_val (ds @ [c]) acc = (case digits_val ds acc of None \<Rightarrow> None | Some v \<Rightarrow> map_option (\<lambda>d. 10 * v + d) (digit_val c))"
  by (induction ds arbitrary: acc) (auto split: option.splits)

lemma digit_val_dec: "n < 10 \<Longrightarrow> digit_val (char_of (48 + n)) = Some (int n)"
proof -
  assume "n < 10"
  moreover have "(of_char (char_of (48 + n) :: char) :: int) = int ((48 + n) mod 256)" by (metis of_char_of of_nat_of_char)
  ultimately show ?thesis by (simp add: digit_val_def)
qed

lemma digits_val_dec: "digits_val (nat_dec n) 0 = Some (int n)"
proof (induction n rule: nat_dec.induct)
  case (1 n)
  show ?case
  proof (cases "n < 10")
    case True
    then show ?thesis by (simp add: nat_dec.simps [of n] digit_val_dec)
  next
    case False
    with 1 have "digits_val (nat_dec (n div 10)) 0 = Some (int (n div 10))" by simp
    then show ?thesis using False
      by (simp add: nat_dec.simps [of n] digits_val_snoc digit_val_dec) (metis mult_div_mod_eq of_nat_add of_nat_mult of_nat_numeral)
  qed
qed

lemma nat_dec_inj [simp]: "nat_dec m = nat_dec n \<longleftrightarrow> m = n"
  using digits_val_dec [of m] digits_val_dec [of n] by (metis of_nat_eq_iff option.inject)

lemma nat_dec_minus [simp]: "nat_dec m \<noteq> CHR ''-'' # s" "CHR ''-'' # s \<noteq> nat_dec m"
proof -
  have "digits_val (CHR ''-'' # s) 0 = None" by (simp add: digit_val_def)
  then show "nat_dec m \<noteq> CHR ''-'' # s" using digits_val_dec [of m] by (metis option.distinct(1))
  then show "CHR ''-'' # s \<noteq> nat_dec m" by (rule not_sym)
qed

lemma strconv_Itoa_inj [simp]: "strconv_Itoa i = strconv_Itoa j \<longleftrightarrow> i = j"
  by (simp add: strconv_Itoa_def) linarith

section \<open>Lists\<close>

lemma filter_ConsD: "filter P xs = y # ys \<Longrightarrow> y \<in> set xs \<and> P y"
  by (induction xs) (auto split: if_splits)

lemma filter_Nil_iff: "filter P xs = [] \<longleftrightarrow> (\<forall>x \<in> set xs. \<not> P x)"
  by (rule filter_empty_conv)

section \<open>Pure results that can fail\<close>

fun bindR :: "'e + 'a \<Rightarrow> ('a \<Rightarrow> 'e + 'b) \<Rightarrow> 'e + 'b" where
  "bindR (Inl e) f = Inl e"
| "bindR (Inr a) f = f a"

definition requireR :: "bool \<Rightarrow> 'e \<Rightarrow> 'e + unit" where
  "requireR b e = (if b then Inr () else Inl e)"

fun mapErrR :: "('e \<Rightarrow> 'e) \<Rightarrow> 'e + 'a \<Rightarrow> 'e + 'a" where
  "mapErrR g (Inl e) = Inl (g e)"
| "mapErrR g (Inr a) = Inr a"

text \<open>A loop that stops at the first error.\<close>

fun forR :: "'a list \<Rightarrow> ('a \<Rightarrow> 'e + unit) \<Rightarrow> 'e + unit" where
  "forR [] f = Inr ()"
| "forR (x # xs) f = bindR (f x) (\<lambda>_. forR xs f)"

lemma bindR_Inr [simp]: "bindR r f = Inr b \<longleftrightarrow> (\<exists>a. r = Inr a \<and> f a = Inr b)"
  by (cases r) auto

lemma bindR_Inl: "bindR r f = Inl e \<longleftrightarrow> r = Inl e \<or> (\<exists>a. r = Inr a \<and> f a = Inl e)"
  by (cases r) auto

lemma requireR_Inr [simp]: "requireR b e = Inr u \<longleftrightarrow> b"
  by (simp add: requireR_def)

lemma mapErrR_Inr [simp]: "mapErrR g r = Inr a \<longleftrightarrow> r = Inr a"
  by (cases r) auto

lemma forR_Inr [simp]: "forR xs f = Inr u \<longleftrightarrow> (\<forall>x\<in>set xs. f x = Inr ())"
  by (induction xs) auto

end
