(* ===== verification/Server_Error.thy ===== *)
theory Server_Error
  imports Go_Prelude
begin

text \<open>
  The errors of the server, \<open>lib/servererror.go\<close>, and the search for the HTTP error
  in an error's cause chain, \<open>getHTTPErr\<close> of \<open>lib/serverendpoint.go\<close>.

  An error value is an HTTP error, an error of the database driver, an error with a
  plain message, a fatal error, or one of these wrapped by package \<open>errors\<close>
  (\<open>WithCause\<close>; \<open>Wrap\<close>, \<open>Wrapf\<close> and \<open>WithMessage\<close> keep the cause).  \<open>GoPanic\<close> stands
  for a run-time panic, which the HTTP server recovers per request.  The texts of
  messages are kept for plain errors only, as their format strings; the codes of an
  HTTP error are kept in full.
\<close>

section \<open>Error codes\<close>

definition ErrUnknown :: nat where [simp]: "ErrUnknown = 0"
definition ErrMethodNotAllowed :: nat where [simp]: "ErrMethodNotAllowed = 1"
definition ErrNoAuthHdr :: nat where [simp]: "ErrNoAuthHdr = 2"
definition ErrReadingReqBody :: nat where [simp]: "ErrReadingReqBody = 3"
definition ErrEmptyReqBody :: nat where [simp]: "ErrEmptyReqBody = 4"
definition ErrBadReqBody :: nat where [simp]: "ErrBadReqBody = 5"
definition ErrBadReqToken :: nat where [simp]: "ErrBadReqToken = 6"
definition ErrNotRevoker :: nat where [simp]: "ErrNotRevoker = 7"
definition ErrRevCertNotFound :: nat where [simp]: "ErrRevCertNotFound = 8"
definition ErrCertWrongOwner :: nat where [simp]: "ErrCertWrongOwner = 9"
definition ErrRevokeIDNotFound :: nat where [simp]: "ErrRevokeIDNotFound = 10"
definition ErrRevokeUserInfoNotFound :: nat where [simp]: "ErrRevokeUserInfoNotFound = 11"
definition ErrRevokeFailure :: nat where [simp]: "ErrRevokeFailure = 12"
definition ErrRevokeUpdateUser :: nat where [simp]: "ErrRevokeUpdateUser = 13"
definition ErrNoCertsRevoked :: nat where [simp]: "ErrNoCertsRevoked = 14"
definition ErrMissingRevokeArgs :: nat where [simp]: "ErrMissingRevokeArgs = 15"
definition ErrGettingAffiliation :: nat where [simp]: "ErrGettingAffiliation = 16"
definition ErrRevokerNotAffiliated :: nat where [simp]: "ErrRevokerNotAffiliated = 17"
definition ErrSendingResponse :: nat where [simp]: "ErrSendingResponse = 18"
definition ErrCANotFound :: nat where [simp]: "ErrCANotFound = 19"
definition ErrAuthFailure :: nat where [simp]: "ErrAuthFailure = 20"
definition ErrNoUserPass :: nat where [simp]: "ErrNoUserPass = 21"
definition ErrEnrollDisabled :: nat where [simp]: "ErrEnrollDisabled = 22"
definition ErrInvalidUser :: nat where [simp]: "ErrInvalidUser = 23"
definition ErrInvalidPass :: nat where [simp]: "ErrInvalidPass = 24"
definition ErrInvalidToken :: nat where [simp]: "ErrInvalidToken = 25"
definition ErrUntrustedCertificate :: nat where [simp]: "ErrUntrustedCertificate = 26"
definition ErrCertExpired :: nat where [simp]: "ErrCertExpired = 27"
definition ErrCertRevoked :: nat where [simp]: "ErrCertRevoked = 28"
definition ErrCertRevokeCheckFailure :: nat where [simp]: "ErrCertRevokeCheckFailure = 29"
definition ErrCertNotFound :: nat where [simp]: "ErrCertNotFound = 30"
definition ErrBadCSR :: nat where [simp]: "ErrBadCSR = 31"
definition ErrNoPreKey :: nat where [simp]: "ErrNoPreKey = 32"
definition ErrCallerIsNotAuthenticated :: nat where [simp]: "ErrCallerIsNotAuthenticated = 33"
definition ErrConfig :: nat where [simp]: "ErrConfig = 34"
definition ErrNoGenCRLAuth :: nat where [simp]: "ErrNoGenCRLAuth = 35"
definition ErrInvalidRevokedAfter :: nat where [simp]: "ErrInvalidRevokedAfter = 36"
definition ErrInvalidExpiredAfter :: nat where [simp]: "ErrInvalidExpiredAfter = 37"
definition ErrRevokedCertsFromDB :: nat where [simp]: "ErrRevokedCertsFromDB = 38"
definition ErrGetCACert :: nat where [simp]: "ErrGetCACert = 39"
definition ErrGetCASigner :: nat where [simp]: "ErrGetCASigner = 40"
definition ErrGenCRL :: nat where [simp]: "ErrGenCRL = 41"
definition ErrRegAttrAuth :: nat where [simp]: "ErrRegAttrAuth = 42"
definition ErrMissingRegAttr :: nat where [simp]: "ErrMissingRegAttr = 43"
definition ErrCallerNotAffiliated :: nat where [simp]: "ErrCallerNotAffiliated = 44"
definition ErrGettingType :: nat where [simp]: "ErrGettingType = 45"
definition ErrNoCrlSignAuth :: nat where [simp]: "ErrNoCrlSignAuth = 46"
definition ErrDBLevel :: nat where [simp]: "ErrDBLevel = 47"
definition ErrConfigFileLevel :: nat where [simp]: "ErrConfigFileLevel = 48"
definition ErrGettingUser :: nat where [simp]: "ErrGettingUser = 49"
definition ErrHTTPRequest :: nat where [simp]: "ErrHTTPRequest = 50"
definition ErrConnectingDB :: nat where [simp]: "ErrConnectingDB = 51"
definition ErrAddIdentity :: nat where [simp]: "ErrAddIdentity = 52"
definition ErrUpdateConfigAuth :: nat where [simp]: "ErrUpdateConfigAuth = 53"
definition ErrRegistrarInvalidType :: nat where [simp]: "ErrRegistrarInvalidType = 54"
definition ErrRegistrarNotAffiliated :: nat where [simp]: "ErrRegistrarNotAffiliated = 55"
definition ErrRemoveIdentity :: nat where [simp]: "ErrRemoveIdentity = 56"
definition ErrGettingBoolQueryParm :: nat where [simp]: "ErrGettingBoolQueryParm = 57"
definition ErrModifyingIdentity :: nat where [simp]: "ErrModifyingIdentity = 58"
definition ErrMissingRole :: nat where [simp]: "ErrMissingRole = 59"
definition ErrUpdateConfigAddAff :: nat where [simp]: "ErrUpdateConfigAddAff = 60"
definition ErrUpdateConfigRemoveAff :: nat where [simp]: "ErrUpdateConfigRemoveAff = 61"
definition ErrRemoveAffDB :: nat where [simp]: "ErrRemoveAffDB = 62"
definition ErrDBGet :: nat where [simp]: "ErrDBGet = 63"
definition ErrUpdateConfigModifyAff :: nat where [simp]: "ErrUpdateConfigModifyAff = 64"
definition ErrDBDeleteUser :: nat where [simp]: "ErrDBDeleteUser = 65"
definition ErrCertAlreadyRevoked :: nat where [simp]: "ErrCertAlreadyRevoked = 66"
definition ErrGettingCert :: nat where [simp]: "ErrGettingCert = 67"
definition ErrParsingIntEnvVar :: nat where [simp]: "ErrParsingIntEnvVar = 68"
definition ErrCACertFileNotFound :: nat where [simp]: "ErrCACertFileNotFound = 69"

section \<open>Error values\<close>

record httpErr =
  scode :: nat
  lcode :: nat
  rcode :: nat

text \<open>What the database driver reports: no row for a single-row query, a violated
  uniqueness constraint, a wrong number of arguments, or any other failure.\<close>

datatype sql_error = SqlNoRows | SqlUnique | SqlArgs | SqlOther

datatype go_error =
    HttpErr httpErr
  | SqlErr sql_error
  | PlainErr string
  | FatalErr nat
  | WithCause go_error
  | GoPanic string

definition createHTTPErr :: "nat \<Rightarrow> nat \<Rightarrow> httpErr" where
  "createHTTPErr sc code = \<lparr>scode = sc, lcode = code, rcode = code\<rparr>"

definition Remote :: "httpErr \<Rightarrow> nat \<Rightarrow> httpErr" where
  "Remote he code = he\<lparr>rcode := code\<rparr>"

definition newHTTPErr :: "nat \<Rightarrow> nat \<Rightarrow> go_error" where
  "newHTTPErr sc code = WithCause (HttpErr (createHTTPErr sc code))"

definition newAuthErr :: "nat \<Rightarrow> go_error" where
  "newAuthErr code = WithCause (HttpErr (Remote (createHTTPErr 401 code) ErrAuthFailure))"

definition newFatalError :: "nat \<Rightarrow> go_error" where
  "newFatalError code = FatalErr code"

fun errors_Cause :: "go_error \<Rightarrow> go_error" where
  "errors_Cause (WithCause e) = errors_Cause e"
| "errors_Cause e = e"

definition isFatalError :: "go_error \<Rightarrow> bool" where
  "isFatalError e = (case errors_Cause e of FatalErr _ \<Rightarrow> True | _ \<Rightarrow> False)"

text \<open>\<open>getHTTPErr\<close> of a non-nil error; an error without an HTTP error in its chain
  becomes a 500 with the unknown code.\<close>

fun getHTTPErr :: "go_error \<Rightarrow> httpErr" where
  "getHTTPErr (HttpErr he) = he"
| "getHTTPErr (WithCause e) = getHTTPErr e"
| "getHTTPErr e = createHTTPErr 500 ErrUnknown"

lemmas error_defs = createHTTPErr_def Remote_def newHTTPErr_def newAuthErr_def newFatalError_def

lemma newHTTPErr_inject [simp]: "newHTTPErr s c = newHTTPErr s' c' \<longleftrightarrow> s = s' \<and> c = c'"
  by (auto simp: error_defs)

lemma newAuthErr_inject [simp]: "newAuthErr c = newAuthErr c' \<longleftrightarrow> c = c'"
  by (auto simp: error_defs)

lemma getHTTPErr_new [simp]:
  "getHTTPErr (newHTTPErr s c) = \<lparr>scode = s, lcode = c, rcode = c\<rparr>"
  "getHTTPErr (newAuthErr c) = \<lparr>scode = 401, lcode = c, rcode = ErrAuthFailure\<rparr>"
  by (simp_all add: error_defs)

text \<open>The HTTP error found is that of the cause, whatever wraps it.\<close>

lemma getHTTPErr_Cause: "getHTTPErr e = getHTTPErr (errors_Cause e)"
  by (induction e) auto

lemma isFatalError_simps [simp]:
  "isFatalError (WithCause e) = isFatalError e" "isFatalError (FatalErr c)"
  "\<not> isFatalError (HttpErr h)" "\<not> isFatalError (SqlErr q)" "\<not> isFatalError (PlainErr m)"
  "\<not> isFatalError (GoPanic m)"
  by (simp_all add: isFatalError_def)

end
