(* ===== verification/Error_Monad.thy ===== *)
theory Error_Monad
  imports Server_Error
begin

text \<open>
  The monad in which the stateful operations are written, and the invariants of operations.
\<close>

section \<open>Stateful operations that can fail\<close>

text \<open>
  An operation takes the state and returns an error or a value together with the
  new state: a Go function with an \<open>error\<close> result that works on shared mutable
  data.  The state is kept when an error is returned, as Go keeps what was done
  before the early return.
\<close>

type_synonym ('s, 'e, 'a) em = "'s \<Rightarrow> ('e + 'a) \<times> 's"

definition returnE :: "'a \<Rightarrow> ('s, 'e, 'a) em" where
  "returnE a s = (Inr a, s)"

definition throwE :: "'e \<Rightarrow> ('s, 'e, 'a) em" where
  "throwE e s = (Inl e, s)"

definition bindE :: "('s, 'e, 'a) em \<Rightarrow> ('a \<Rightarrow> ('s, 'e, 'b) em) \<Rightarrow> ('s, 'e, 'b) em" where
  "bindE m f s = (case m s of (Inl e, t) \<Rightarrow> (Inl e, t) | (Inr a, t) \<Rightarrow> f a t)"

definition seqE :: "('s, 'e, 'a) em \<Rightarrow> ('s, 'e, 'b) em \<Rightarrow> ('s, 'e, 'b) em" where
  "seqE m n = bindE m (\<lambda>_. n)"

text \<open>\<open>mapErrE\<close> rewrites the error (Go's \<open>errors.Wrap\<close> and friends); \<open>attemptE\<close> hands
  the error to the caller as a value (\<open>x, err := f()\<close>).  Neither touches a panic, which
  unwinds the whole call; \<open>unlessE\<close> is an early return.\<close>

fun isPanic :: "go_error \<Rightarrow> bool" where
  "isPanic (GoPanic _) = True"
| "isPanic _ = False"

definition mapErrE :: "(go_error \<Rightarrow> go_error) \<Rightarrow> ('s, go_error, 'a) em \<Rightarrow> ('s, go_error, 'a) em" where
  "mapErrE g m s =
     (case m s of (Inl e, t) \<Rightarrow> (Inl (if isPanic e then e else g e), t) | (Inr a, t) \<Rightarrow> (Inr a, t))"

definition attemptE :: "('s, go_error, 'a) em \<Rightarrow> ('s, go_error, go_error + 'a) em" where
  "attemptE m s =
     (case m s of (Inl e, t) \<Rightarrow> (if isPanic e then Inl e else Inr (Inl e), t) | (Inr a, t) \<Rightarrow> (Inr (Inr a), t))"

definition unlessE :: "bool \<Rightarrow> 'e \<Rightarrow> ('s, 'e, unit) em" where
  "unlessE b e = (if b then returnE () else throwE e)"

definition liftE :: "'e + 'a \<Rightarrow> ('s, 'e, 'a) em" where
  "liftE r s = (r, s)"

definition getE :: "('s \<Rightarrow> 'a) \<Rightarrow> ('s, 'e, 'a) em" where
  "getE f s = (Inr (f s), s)"

definition modifyE :: "('s \<Rightarrow> 's) \<Rightarrow> ('s, 'e, unit) em" where
  "modifyE f s = (Inr (), f s)"

fun forE :: "'a list \<Rightarrow> ('a \<Rightarrow> ('s, 'e, unit) em) \<Rightarrow> ('s, 'e, unit) em" where
  "forE [] f = returnE ()"
| "forE (x # xs) f = seqE (f x) (forE xs f)"

text \<open>Running an operation of a part of the state.\<close>

definition zoomE :: "('t \<Rightarrow> 's) \<Rightarrow> ('s \<Rightarrow> 't \<Rightarrow> 't) \<Rightarrow> ('s, 'e, 'a) em \<Rightarrow> ('t, 'e, 'a) em" where
  "zoomE get put m t = (case m (get t) of (r, s) \<Rightarrow> (r, put s t))"

lemma returnE_eq [simp]: "returnE a s = (r, t) \<longleftrightarrow> r = Inr a \<and> t = s"
  by (auto simp: returnE_def)

lemma throwE_eq [simp]: "throwE e s = (r, t) \<longleftrightarrow> r = Inl e \<and> t = s"
  by (auto simp: throwE_def)

lemma liftE_eq [simp]: "liftE x s = (r, t) \<longleftrightarrow> r = x \<and> t = s"
  by (auto simp: liftE_def)

lemma getE_eq [simp]: "getE f s = (r, t) \<longleftrightarrow> r = Inr (f s) \<and> t = s"
  by (auto simp: getE_def)

lemma modifyE_eq [simp]: "modifyE f s = (r, t) \<longleftrightarrow> r = Inr () \<and> t = f s"
  by (auto simp: modifyE_def)

lemma unlessE_eq [simp]:
  "unlessE b e s = (r, t) \<longleftrightarrow> t = s \<and> r = (if b then Inr () else Inl e)"
  by (auto simp: unlessE_def)

lemma unlessE_Inr: "unlessE b e s = (Inr u, t) \<longleftrightarrow> b \<and> t = s"
  by simp

lemma liftE_Inr: "liftE x s = (Inr a, t) \<longleftrightarrow> x = Inr a \<and> t = s"
  by auto

lemma bindE_Inr [em_simps]:
  "bindE m f s = (Inr b, u) \<longleftrightarrow> (\<exists>a t. m s = (Inr a, t) \<and> f a t = (Inr b, u))"
  by (auto simp: bindE_def split: prod.splits sum.splits)

lemma bindE_Inl [em_simps]:
  "bindE m f s = (Inl e, u) \<longleftrightarrow>
     m s = (Inl e, u) \<or> (\<exists>a t. m s = (Inr a, t) \<and> f a t = (Inl e, u))"
  by (auto simp: bindE_def split: prod.splits sum.splits)

lemma seqE_Inr [em_simps]:
  "seqE m n s = (Inr b, u) \<longleftrightarrow> (\<exists>a t. m s = (Inr a, t) \<and> n t = (Inr b, u))"
  by (simp add: seqE_def bindE_Inr)

lemma seqE_Inl [em_simps]:
  "seqE m n s = (Inl e, u) \<longleftrightarrow>
     m s = (Inl e, u) \<or> (\<exists>a t. m s = (Inr a, t) \<and> n t = (Inl e, u))"
  by (simp add: seqE_def bindE_Inl)

lemma mapErrE_Inr [em_simps]: "mapErrE g m s = (Inr a, t) \<longleftrightarrow> m s = (Inr a, t)"
  by (auto simp: mapErrE_def split: prod.splits sum.splits)

lemma mapErrE_Inl [em_simps]:
  "mapErrE g m s = (Inl e, t) \<longleftrightarrow> (\<exists>d. m s = (Inl d, t) \<and> e = (if isPanic d then d else g d))"
  by (auto simp: mapErrE_def split: prod.splits sum.splits)

lemma attemptE_eq:
  "attemptE m s = (r, t) \<longleftrightarrow>
     (\<exists>q. m s = (q, t) \<and> r = (case q of Inl e \<Rightarrow> if isPanic e then Inl e else Inr q | Inr _ \<Rightarrow> Inr q))"
  by (auto simp: attemptE_def split: prod.splits sum.splits)

lemma attemptE_Inr:
  "attemptE m s = (Inr q, t) \<longleftrightarrow> m s = (q, t) \<and> (\<forall>e. q = Inl e \<longrightarrow> \<not> isPanic e)"
  by (auto simp: attemptE_def split: prod.splits sum.splits if_splits)

lemma attemptE_Inl: "attemptE m s = (Inl e, t) \<longleftrightarrow> m s = (Inl e, t) \<and> isPanic e"
  by (auto simp: attemptE_def split: prod.splits sum.splits if_splits)

lemma isPanic_new [simp]: "\<not> isPanic (newHTTPErr sc code)" "\<not> isPanic (newAuthErr code)"
  by (simp_all add: error_defs)

lemma zoomE_eq [em_simps]:
  "zoomE get put m t = (r, u) \<longleftrightarrow> (\<exists>s. m (get t) = (r, s) \<and> u = put s t)"
  by (auto simp: zoomE_def split: prod.splits)

lemma case_sum_run:
  "(case x of Inl e \<Rightarrow> f e | Inr a \<Rightarrow> g a) s = q \<longleftrightarrow>
     (\<exists>e. x = Inl e \<and> f e s = q) \<or> (\<exists>a. x = Inr a \<and> g a s = q)"
  by (cases x) auto

lemma case_option_run:
  "(case x of None \<Rightarrow> f | Some a \<Rightarrow> g a) s = q \<longleftrightarrow>
     (x = None \<and> f s = q) \<or> (\<exists>a. x = Some a \<and> g a s = q)"
  by (cases x) auto

text \<open>A run that is known to succeed, as an equation.\<close>

lemma run_of:
  assumes "case fst (m s) of Inl _ \<Rightarrow> False | Inr _ \<Rightarrow> True"
  obtains a where "m s = (Inr a, snd (m s))"
  using assms by (cases "m s") (auto split: sum.splits)

lemmas em_defs = returnE_def throwE_def bindE_def seqE_def mapErrE_def attemptE_def
  unlessE_def liftE_def getE_def modifyE_def zoomE_def

text \<open>The monad laws.\<close>

lemma bindE_returnE [simp]: "bindE (returnE a) f = f a"
  by (rule ext) (simp add: em_defs)

lemma bindE_throwE [simp]: "bindE (throwE e) f = throwE e"
  by (rule ext) (simp add: em_defs)

lemma returnE_bindE [simp]: "bindE m returnE = m"
  by (rule ext) (auto simp: em_defs split: prod.splits sum.splits)

lemma bindE_assoc: "bindE (bindE m f) g = bindE m (\<lambda>a. bindE (f a) g)"
  by (rule ext) (auto simp: em_defs split: prod.splits sum.splits)

lemma seqE_simps [simp]: "seqE (returnE a) n = n" "seqE (throwE e) n = throwE e"
  by (simp_all add: seqE_def)

lemma unlessE_simps [simp]: "unlessE True e = returnE ()" "unlessE False e = throwE e"
  by (simp_all add: unlessE_def)

section \<open>Invariants of operations\<close>

text \<open>\<open>keeps I m\<close>: the operation keeps \<open>I\<close> whether it returns a value or an error.\<close>

definition keeps :: "('s \<Rightarrow> bool) \<Rightarrow> ('s, 'e, 'a) em \<Rightarrow> bool" where
  "keeps I m \<longleftrightarrow> (\<forall>s. I s \<longrightarrow> I (snd (m s)))"

lemma keepsD: "keeps I m \<Longrightarrow> m s = (r, t) \<Longrightarrow> I s \<Longrightarrow> I t"
  unfolding keeps_def by (metis snd_conv)

lemma keepsI: "(\<And>s r t. I s \<Longrightarrow> m s = (r, t) \<Longrightarrow> I t) \<Longrightarrow> keeps I m"
  unfolding keeps_def by (metis prod.collapse)

lemma keeps_atom [keeps_intros]:
  "keeps I (returnE a)" "keeps I (throwE e)" "keeps I (liftE r)" "keeps I (getE f)"
  "keeps I (unlessE b e)"
  by (auto simp: keeps_def em_defs)

lemma keeps_modifyE [keeps_intros]: "(\<And>s. I s \<Longrightarrow> I (f s)) \<Longrightarrow> keeps I (modifyE f)"
  by (auto simp: keeps_def em_defs)

lemma keeps_bindE [keeps_intros]:
  assumes "keeps I m" and "\<And>a. keeps I (f a)"
  shows "keeps I (bindE m f)"
  using assms unfolding keeps_def bindE_def
  by (auto split: prod.splits sum.splits)

lemma keeps_seqE [keeps_intros]: "keeps I m \<Longrightarrow> keeps I n \<Longrightarrow> keeps I (seqE m n)"
  by (simp add: seqE_def keeps_bindE)

lemma keeps_mapErrE [keeps_intros]: "keeps I m \<Longrightarrow> keeps I (mapErrE g m)"
  unfolding keeps_def mapErrE_def by (auto split: prod.splits sum.splits)

lemma keeps_attemptE [keeps_intros]: "keeps I m \<Longrightarrow> keeps I (attemptE m)"
  unfolding keeps_def attemptE_def by (auto split: prod.splits sum.splits)

lemma keeps_forE [keeps_intros]: "(\<And>x. x \<in> set xs \<Longrightarrow> keeps I (f x)) \<Longrightarrow> keeps I (forE xs f)"
  by (induction xs) (auto intro: keeps_intros)

lemma keeps_if [keeps_intros]: "keeps I m \<Longrightarrow> keeps I n \<Longrightarrow> keeps I (if b then m else n)"
  by simp

lemma keeps_option [keeps_intros]:
  "keeps I m \<Longrightarrow> (\<And>a. x = Some a \<Longrightarrow> keeps I (f a)) \<Longrightarrow>
     keeps I (case x of None \<Rightarrow> m | Some a \<Rightarrow> f a)"
  by (cases x) auto

lemma keeps_sum [keeps_intros]:
  "(\<And>e. x = Inl e \<Longrightarrow> keeps I (g e)) \<Longrightarrow> (\<And>a. x = Inr a \<Longrightarrow> keeps I (f a)) \<Longrightarrow>
     keeps I (case x of Inl e \<Rightarrow> g e | Inr a \<Rightarrow> f a)"
  by (cases x) auto

lemma keeps_prod [keeps_intros]:
  "(\<And>a b. x = (a, b) \<Longrightarrow> keeps I (f a b)) \<Longrightarrow> keeps I (case x of (a, b) \<Rightarrow> f a b)"
  by (cases x) auto

lemma keeps_let [keeps_intros]: "keeps I (f x) \<Longrightarrow> keeps I (let a = x in f a)"
  by simp

lemma keeps_zoomE:
  assumes "keeps J m" and "\<And>t. I t \<Longrightarrow> J (get t)" and "\<And>s t. I t \<Longrightarrow> J s \<Longrightarrow> I (put s t)"
  shows "keeps I (zoomE get put m)"
  using assms unfolding keeps_def zoomE_def by (auto split: prod.splits) (metis snd_conv)

text \<open>A conjunction of two kept invariants is kept; a frame is an invariant for every value.\<close>

lemma keeps_conj: "keeps I m \<Longrightarrow> keeps J m \<Longrightarrow> keeps (\<lambda>s. I s \<and> J s) m"
  by (auto simp: keeps_def)

lemma keeps_frame: "(\<And>v. keeps (\<lambda>s. f s = v) m) \<Longrightarrow> m s = (r, t) \<Longrightarrow> f t = f s"
  using keepsD by fastforce

end
