(* ===== verification/Fabric_Util.thy ===== *)
theory Fabric_Util
  imports Error_Monad
begin

text \<open>
  The parts of \<open>util/util.go\<close> the server's decisions rest on: comma-separated lists,
  case-insensitive membership and inclusion, serial numbers in hexadecimal, and the
  normalisation of configured lists.
\<close>

type_synonym 'a result = "go_error + 'a"

section \<open>Comma-separated lists\<close>

fun StrContained :: "string \<Rightarrow> string list \<Rightarrow> bool" where
  "StrContained str [] = False"
| "StrContained str (s # strs) =
     (if strings_ToLower s = strings_ToLower str then True else StrContained str strs)"

definition IsSubsetOf :: "string \<Rightarrow> string \<Rightarrow> unit result" where
  "IsSubsetOf small big =
     (let bigSet = strings_Split big CHR '','';
          smallSet = strings_Split small CHR '',''
      in forR smallSet (\<lambda>s.
           if s \<noteq> [] \<and> \<not> StrContained s bigSet
           then Inl (PlainErr ''is not a member of'') else Inr ()))"

definition GetSliceFromList :: "string \<Rightarrow> char \<Rightarrow> string list" where
  "GetSliceFromList lst delim = strings_Split (strings_RemoveAll lst CHR '' '') delim"

fun listContains_loop :: "string list \<Rightarrow> string \<Rightarrow> bool" where
  "listContains_loop [] needle = False"
| "listContains_loop (item # items) needle =
     (if strings_TrimPrefix item '' '' = needle then True else listContains_loop items needle)"

definition ListContains :: "string \<Rightarrow> string \<Rightarrow> bool" where
  "ListContains list needle = listContains_loop (strings_Split list CHR '','') needle"

lemma StrContained_iff:
  "StrContained str strs \<longleftrightarrow> (\<exists>s\<in>set strs. strings_ToLower s = strings_ToLower str)"
  by (induction strs) auto

lemma ListContains_iff:
  "ListContains list needle \<longleftrightarrow>
     (\<exists>item\<in>set (strings_Split list CHR '',''). strings_TrimPrefix item '' '' = needle)"
proof -
  have "listContains_loop xs needle \<longleftrightarrow> (\<exists>x\<in>set xs. strings_TrimPrefix x '' '' = needle)" for xs
    by (induction xs) auto
  then show ?thesis by (simp add: ListContains_def)
qed

lemma IsSubsetOf_Inr:
  "IsSubsetOf small big = Inr u \<longleftrightarrow>
     (\<forall>s\<in>set (strings_Split small CHR '',''). s \<noteq> [] \<longrightarrow>
        (\<exists>b\<in>set (strings_Split big CHR '',''). strings_ToLower b = strings_ToLower s))"
  by (auto simp: IsSubsetOf_def Let_def StrContained_iff)

text \<open>
  Inclusion of comma-separated lists is reflexive and transitive, where the middle
  list's empty components do not matter.
\<close>

lemma IsSubsetOf_refl: "IsSubsetOf s s = Inr ()"
  by (auto simp: IsSubsetOf_Inr)

lemma strings_ToLower_Nil [simp]: "strings_ToLower s = [] \<longleftrightarrow> s = []"
  by (simp add: strings_ToLower_def)

lemma strings_ToLower_nil [simp]: "strings_ToLower [] = []"
  by (simp add: strings_ToLower_def)

lemma IsSubsetOf_trans:
  assumes "IsSubsetOf a b = Inr ()" and "IsSubsetOf b c = Inr ()"
  shows "IsSubsetOf a c = Inr ()"
  unfolding IsSubsetOf_Inr
proof (intro ballI impI)
  fix s assume s: "s \<in> set (strings_Split a CHR '','')" "s \<noteq> []"
  then obtain t where t: "t \<in> set (strings_Split b CHR '','')"
      "strings_ToLower t = strings_ToLower s"
    using assms(1) unfolding IsSubsetOf_Inr by blast
  then have "t \<noteq> []" using s(2) by (metis strings_ToLower_Nil)
  then show "\<exists>b\<in>set (strings_Split c CHR '',''). strings_ToLower b = strings_ToLower s"
    using assms(2) t unfolding IsSubsetOf_Inr by metis
qed

section \<open>Revocation reasons\<close>

text \<open>\<open>RevocationReasonCodes\<close>; indexing a Go map with an absent key gives 0.\<close>

definition RevocationReasonCodes :: "string \<Rightarrow> int" where
  "RevocationReasonCodes r =
     (case map_of [(''unspecified'', 0), (''keycompromise'', 1), (''cacompromise'', 2),
        (''affiliationchanged'', 3), (''superseded'', 4), (''cessationofoperation'', 5),
        (''certificatehold'', 6), (''removefromcrl'', 8), (''privilegewithdrawn'', 9),
        (''aacompromise'', 10)] r
      of None \<Rightarrow> 0 | Some n \<Rightarrow> n)"

section \<open>Serial numbers\<close>

definition hex_digit :: "nat \<Rightarrow> char" where
  "hex_digit d = (if d < 10 then char_of (48 + d) else char_of (87 + d))"

fun nat_hex :: "nat \<Rightarrow> string" where
  "nat_hex n = (if n < 16 then [hex_digit n] else nat_hex (n div 16) @ [hex_digit (n mod 16)])"

declare nat_hex.simps [simp del]

text \<open>\<open>GetSerialAsHex\<close> is \<open>fmt.Sprintf("%x", serial)\<close> on a \<open>big.Int\<close>.\<close>

definition GetSerialAsHex :: "int \<Rightarrow> string" where
  "GetSerialAsHex n = (if n < 0 then CHR ''-'' # nat_hex (nat (- n)) else nat_hex (nat n))"

text \<open>\<open>EncodeToString\<close> of package \<open>encoding/hex\<close>.\<close>

definition hex_byte :: "nat \<Rightarrow> string" where
  "hex_byte b = [hex_digit (b div 16), hex_digit (b mod 16)]"

definition hex_EncodeToString :: "nat list \<Rightarrow> string" where
  "hex_EncodeToString bs = concat (map hex_byte bs)"

definition hex_val :: "char \<Rightarrow> nat option" where
  "hex_val c =
     (let v = (of_char c :: nat)
      in if 48 \<le> v \<and> v \<le> 57 then Some (v - 48)
         else if 97 \<le> v \<and> v \<le> 102 then Some (v - 87)
         else if 65 \<le> v \<and> v \<le> 70 then Some (v - 55)
         else None)"

fun hex_parse :: "string \<Rightarrow> nat \<Rightarrow> nat option" where
  "hex_parse [] acc = Some acc"
| "hex_parse (c # cs) acc =
     (case hex_val c of None \<Rightarrow> None | Some v \<Rightarrow> hex_parse cs (16 * acc + v))"

text \<open>\<open>SetString(s, 16)\<close> of \<open>math/big\<close> on an unsigned literal.\<close>

definition big_SetString16 :: "string \<Rightarrow> nat option" where
  "big_SetString16 s = (if s = [] then None else hex_parse s 0)"

lemma hex_val_digit [simp]: "d < 16 \<Longrightarrow> hex_val (hex_digit d) = Some d"
  by (auto simp: hex_val_def hex_digit_def Let_def)

lemma hex_parse_append:
  "hex_parse (xs @ ys) acc =
     (case hex_parse xs acc of None \<Rightarrow> None | Some v \<Rightarrow> hex_parse ys v)"
  by (induction xs arbitrary: acc) (auto split: option.splits)

lemma hex_parse_nat_hex: "hex_parse (nat_hex n) 0 = Some n"
proof (induction n rule: nat_hex.induct)
  case (1 n)
  show ?case
  proof (cases "n < 16")
    case True
    then show ?thesis by (simp add: nat_hex.simps [of n])
  next
    case False
    with 1 have "hex_parse (nat_hex (n div 16)) 0 = Some (n div 16)" by simp
    with False show ?thesis
      by (simp add: nat_hex.simps [of n] hex_parse_append)
  qed
qed

lemma nat_hex_ne [simp]: "nat_hex n \<noteq> []"
  by (subst nat_hex.simps) simp

lemma GetSerialAsHex_parse:
  assumes "0 \<le> n"
  shows "big_SetString16 (GetSerialAsHex n) = Some (nat n)"
proof -
  have "GetSerialAsHex n = nat_hex (nat n)" using assms by (simp add: GetSerialAsHex_def)
  then show ?thesis by (simp add: big_SetString16_def hex_parse_nat_hex)
qed

section \<open>Configured lists\<close>

fun NormalizeStringSlice :: "string list \<Rightarrow> string list" where
  "NormalizeStringSlice [] = []"
| "NormalizeStringSlice (item # slice) =
     (let item' = (if strings_HasPrefix item ''['' \<and> strings_HasSuffix item '']''
                   then take (length item - 2) (drop 1 item) else item)
      in (if CHR '','' \<in> set item' then strings_Split item' CHR '','' else [item'])
         @ NormalizeStringSlice slice)"

text \<open>A one-character string that is a quote has a prefix and a suffix quote; the slice
  \<open>str[1:0]\<close> is out of range.\<close>

definition RemoveQuotes :: "string \<Rightarrow> string result" where
  "RemoveQuotes str =
     (if str = [] then Inr str
      else if (strings_HasPrefix str [CHR 0x27] \<and> strings_HasSuffix str [CHR 0x27])
            \<or> (strings_HasPrefix str [CHR 0x22] \<and> strings_HasSuffix str [CHR 0x22])
      then (if length str < 2 then Inl (GoPanic ''slice bounds out of range'')
            else Inr (take (length str - 2) (drop 1 str)))
      else Inr str)"

text \<open>No comma survives normalisation.\<close>

lemma NormalizeStringSlice_no_comma:
  "w \<in> set (NormalizeStringSlice xs) \<Longrightarrow> CHR '','' \<notin> set w"
  by (induction xs) (auto simp: Let_def dest: strings_Split_no_sep split: if_splits)

end
