(* ===== verification/Attribute_Control.thy ===== *)
theory Attribute_Control
  imports Fabric_Util
begin

text \<open>
  The authorisation of attribute registration, \<open>lib/attr/attribute.go\<close>, over the data of
  \<open>api/client.go\<close>.  A registrar or a user is seen through \<open>GetAttribute\<close> alone, as in the
  Go interface \<open>AttributeControl\<close>; the identity being modified is absent (\<open>None\<close>, Go's
  \<open>nil\<close>) when a new identity is being registered.
\<close>

section \<open>Attributes and their kinds\<close>

record Attribute =
  attr_Name :: string
  attr_Value :: string
  attr_ECert :: bool

type_synonym attribute_ctl = "string \<Rightarrow> Attribute result"

datatype attributeType = BOOLEAN | LIST | FIXED | CUSTOM

definition Roles :: string where "Roles = ''hf.Registrar.Roles''"
definition DelegateRoles :: string where "DelegateRoles = ''hf.Registrar.DelegateRoles''"
definition Revoker :: string where "Revoker = ''hf.Revoker''"
definition IntermediateCA :: string where "IntermediateCA = ''hf.IntermediateCA''"
definition GenCRL :: string where "GenCRL = ''hf.GenCRL''"
definition RegistrarAttr :: string where "RegistrarAttr = ''hf.Registrar.Attributes''"
definition AffiliationMgr :: string where "AffiliationMgr = ''hf.AffiliationMgr''"
definition EnrollmentID :: string where "EnrollmentID = ''hf.EnrollmentID''"
definition TypeAttr :: string where "TypeAttr = ''hf.Type''"
definition AffiliationAttr :: string where "AffiliationAttr = ''hf.Affiliation''"

lemmas attr_name_defs = Roles_def DelegateRoles_def Revoker_def IntermediateCA_def GenCRL_def
  RegistrarAttr_def AffiliationMgr_def EnrollmentID_def TypeAttr_def AffiliationAttr_def

record attributeControl =
  ac_name :: string
  requiresOwnership :: bool
  attrType :: attributeType

definition initAttrs :: "(string \<times> attributeControl) list" where
  "initAttrs =
     map (\<lambda>a. (a, \<lparr>ac_name = a, requiresOwnership = True, attrType = BOOLEAN\<rparr>))
       [Revoker, IntermediateCA, GenCRL, AffiliationMgr]
     @ map (\<lambda>a. (a, \<lparr>ac_name = a, requiresOwnership = True, attrType = LIST\<rparr>))
       [Roles, DelegateRoles, RegistrarAttr]
     @ map (\<lambda>a. (a, \<lparr>ac_name = a, requiresOwnership = False, attrType = FIXED\<rparr>))
       [EnrollmentID, TypeAttr, AffiliationAttr]"

definition attributeMap :: "string \<Rightarrow> attributeControl option" where
  "attributeMap = map_of initAttrs"

definition getAttributeControl :: "string \<Rightarrow> attributeControl result" where
  "getAttributeControl attrName =
     (case attributeMap attrName of
        Some attrControl \<Rightarrow> Inr attrControl
      | None \<Rightarrow>
          if strings_HasPrefix attrName ''hf.''
          then Inl (PlainErr ''not a supported reserved attribute'')
          else Inr \<lparr>ac_name = attrName, requiresOwnership = False, attrType = CUSTOM\<rparr>)"

section \<open>Attribute lists\<close>

fun Exists :: "Attribute list \<Rightarrow> string \<Rightarrow> bool" where
  "Exists [] name = False"
| "Exists (a # attrs) name = (if attr_Name a = name then True else Exists attrs name)"

fun GetAttrValue :: "Attribute list \<Rightarrow> string \<Rightarrow> string" where
  "GetAttrValue [] name = []"
| "GetAttrValue (a # attrs) name =
     (if attr_Name a = name then attr_Value a else GetAttrValue attrs name)"

text \<open>\<open>ConvertAttrs\<close> ranges over a Go map; the map is given as the list of its entries
  in the order of the iteration.\<close>

fun ConvertAttrs :: "(string \<times> string) list \<Rightarrow> Attribute list result" where
  "ConvertAttrs [] = Inr []"
| "ConvertAttrs ((name, value) # inAttrs) =
     (let sattr = strings_Split value CHR '':'' in
      if length sattr > 2 then Inl (PlainErr ''Multiple : characters not allowed'')
      else
        (let attrFlag = (if length sattr > 1 then sattr ! 1 else []);
             flag = strings_ToLower attrFlag in
         if flag = [] \<or> flag = ''ecert''
         then bindR (ConvertAttrs inAttrs) (\<lambda>outAttrs.
                Inr (\<lparr>attr_Name = name, attr_Value = sattr ! 0,
                      attr_ECert = (flag = ''ecert'')\<rparr> # outAttrs))
         else Inl (PlainErr ''Invalid attribute flag'')))"

section \<open>Authorisation\<close>

fun canRegisterAttr :: "string \<Rightarrow> string list \<Rightarrow> unit result" where
  "canRegisterAttr requestedAttrName [] =
     Inl (PlainErr ''Attribute is not part of caller's attribute list'')"
| "canRegisterAttr requestedAttrName (regAttr # rest) =
     (if strings_HasSuffix regAttr ''*''
      then (if strings_HasPrefix requestedAttrName (strings_TrimRight regAttr CHR ''*'')
            then Inr () else canRegisterAttr requestedAttrName rest)
      else (if requestedAttrName = regAttr then Inr ()
            else canRegisterAttr requestedAttrName rest))"

definition checkHfRegistrarAttrValues ::
  "Attribute \<Rightarrow> Attribute list \<Rightarrow> attribute_ctl option \<Rightarrow> string list \<Rightarrow> unit result" where
  "checkHfRegistrarAttrValues reqAttr reqAttrs user callerRegisterAttrSlice =
     forR (GetSliceFromList (attr_Value reqAttr) CHR '','') (\<lambda>requestedAttrValue.
       bindR (canRegisterAttr requestedAttrValue callerRegisterAttrSlice) (\<lambda>_.
       if strings_HasPrefix requestedAttrValue ''hf.'' \<and> \<not> Exists reqAttrs requestedAttrValue
       then (case user of
               None \<Rightarrow> Inl (PlainErr ''identity is not being registered with this attribute'')
             | Some u \<Rightarrow>
                 (case u requestedAttrValue of
                    Inl _ \<Rightarrow> Inl (PlainErr ''identity does not possess this attribute'')
                  | Inr _ \<Rightarrow> Inr ()))
       else Inr ()))"

definition checkDelegateRoleValues :: "Attribute list \<Rightarrow> attribute_ctl option \<Rightarrow> unit result" where
  "checkDelegateRoleValues reqAttrs user =
     (let roles0 = GetAttrValue reqAttrs Roles;
          roles = (if roles0 = [] then
                     (case user of None \<Rightarrow> roles0
                      | Some u \<Rightarrow> (case u Roles of Inl _ \<Rightarrow> roles0 | Inr a \<Rightarrow> attr_Value a))
                   else roles0)
      in if ListContains roles ''*'' then Inr ()
         else (case IsSubsetOf (GetAttrValue reqAttrs DelegateRoles) roles of
                 Inl _ \<Rightarrow> Inl (PlainErr ''The delegateRoles field is a superset of roles'')
               | Inr _ \<Rightarrow> Inr ()))"

definition ac_IsSubsetOf :: "attributeControl \<Rightarrow> string \<Rightarrow> string \<Rightarrow> unit result" where
  "ac_IsSubsetOf ac requestedAttrValue callersAttrValue =
     (if (ac_name ac = Roles \<or> ac_name ac = DelegateRoles) \<and> ListContains callersAttrValue ''*''
      then Inr ()
      else mapErrR WithCause (IsSubsetOf requestedAttrValue callersAttrValue))"

definition validateListAttribute ::
  "attributeControl \<Rightarrow> Attribute \<Rightarrow> string \<Rightarrow> Attribute list \<Rightarrow> attribute_ctl option \<Rightarrow> unit result" where
  "validateListAttribute ac requestedAttr callersAttrValue allRequestedAttrs user =
     (let requestedAttrValue = attr_Value requestedAttr in
      if requestedAttrValue = [] then Inr ()
      else
        (let callerRegisterAttrSlice = GetSliceFromList callersAttrValue CHR '','' in
         if ac_name ac = RegistrarAttr
         then checkHfRegistrarAttrValues requestedAttr allRequestedAttrs user callerRegisterAttrSlice
         else bindR (ac_IsSubsetOf ac requestedAttrValue callersAttrValue) (\<lambda>_.
                if ac_name ac = DelegateRoles then checkDelegateRoleValues allRequestedAttrs user
                else Inr ())))"

definition validateBooleanAttribute :: "attributeControl \<Rightarrow> Attribute \<Rightarrow> string \<Rightarrow> unit result" where
  "validateBooleanAttribute ac requestedAttr callersAttrValue =
     (let requestedAttrValue = attr_Value requestedAttr in
      case strconv_ParseBool callersAttrValue of
        None \<Rightarrow> Inl (PlainErr ''Failed to get boolean value'')
      | Some True \<Rightarrow>
          if requestedAttrValue = [] then Inr ()
          else (case strconv_ParseBool requestedAttrValue of
                  None \<Rightarrow> Inl (PlainErr ''Failed to get boolean value'')
                | Some _ \<Rightarrow> Inr ())
      | Some False \<Rightarrow> Inl (PlainErr ''Caller has a value of false for boolean attribute''))"

definition isRegistrarAuthorized ::
  "attributeControl \<Rightarrow> Attribute \<Rightarrow> Attribute list \<Rightarrow> attribute_ctl option \<Rightarrow> attribute_ctl
     \<Rightarrow> unit result" where
  "isRegistrarAuthorized ac requestedAttr allRequestedAttrs user registrar =
     bindR
       (if requiresOwnership ac
        then (case registrar (attr_Name requestedAttr) of
                Inl _ \<Rightarrow> Inl (PlainErr ''requires ownership but the caller does not own this attribute'')
              | Inr a \<Rightarrow> Inr (attr_Value a))
        else Inr [])
       (\<lambda>callersAttrValue.
         (case attrType ac of
            BOOLEAN \<Rightarrow> validateBooleanAttribute ac requestedAttr callersAttrValue
          | LIST \<Rightarrow> validateListAttribute ac requestedAttr callersAttrValue allRequestedAttrs user
          | FIXED \<Rightarrow> Inl (PlainErr ''Cannot register fixed value attribute'')
          | CUSTOM \<Rightarrow> Inr ()))"

definition CanRegisterAttribute ::
  "Attribute \<Rightarrow> Attribute list \<Rightarrow> attribute_ctl option \<Rightarrow> attribute_ctl \<Rightarrow> unit result" where
  "CanRegisterAttribute requestedAttr allRequestedAttrs user registrar =
     (case registrar RegistrarAttr of
        Inl _ \<Rightarrow> Inl (PlainErr ''Failed to get attribute hf.Registrar.Attributes'')
      | Inr registrarAttrs \<Rightarrow>
          if attr_Value registrarAttrs = []
          then Inl (PlainErr ''Registrar does not have any values for hf.Registrar.Attributes'')
          else
            (let callerHfRegisterAttrSlice = GetSliceFromList (attr_Value registrarAttrs) CHR '','';
                 requestedAttrName = attr_Name requestedAttr in
             bindR (canRegisterAttr requestedAttrName callerHfRegisterAttrSlice) (\<lambda>_.
             bindR (getAttributeControl requestedAttrName) (\<lambda>attrControl.
             mapErrR (\<lambda>_. PlainErr ''Registrar is not authorized to register attribute'')
               (isRegistrarAuthorized attrControl requestedAttr allRequestedAttrs user registrar)))))"

definition CanRegisterRequestedAttributes ::
  "Attribute list \<Rightarrow> attribute_ctl option \<Rightarrow> attribute_ctl \<Rightarrow> unit result" where
  "CanRegisterRequestedAttributes reqAttrs user registrar =
     (if reqAttrs = [] then Inr ()
      else forR reqAttrs (\<lambda>reqAttr. CanRegisterAttribute reqAttr reqAttrs user registrar))"

section \<open>What the checks decide\<close>

text \<open>The specification of a pattern of \<open>hf.Registrar.Attributes\<close>: a name, or a prefix
  followed by an asterisk.\<close>

definition name_matches :: "string \<Rightarrow> string \<Rightarrow> bool" where
  "name_matches pat name \<longleftrightarrow>
     (if strings_HasSuffix pat ''*''
      then strings_HasPrefix name (strings_TrimRight pat CHR ''*'') else name = pat)"

definition boolean_names :: "string set" where
  "boolean_names = {Revoker, IntermediateCA, GenCRL, AffiliationMgr}"

definition list_names :: "string set" where
  "list_names = {Roles, DelegateRoles, RegistrarAttr}"

definition fixed_names :: "string set" where
  "fixed_names = {EnrollmentID, TypeAttr, AffiliationAttr}"

lemmas name_set_defs = boolean_names_def list_names_def fixed_names_def

lemma names_distinct [simp]:
  "boolean_names \<inter> list_names = {}" "boolean_names \<inter> fixed_names = {}"
  "list_names \<inter> fixed_names = {}"
  by (auto simp: name_set_defs attr_name_defs)

lemma attr_names_neq [simp]:
  "Roles \<noteq> DelegateRoles" "Roles \<noteq> RegistrarAttr" "DelegateRoles \<noteq> RegistrarAttr"
  "DelegateRoles \<noteq> Roles" "RegistrarAttr \<noteq> Roles" "RegistrarAttr \<noteq> DelegateRoles"
  "EnrollmentID \<noteq> TypeAttr" "EnrollmentID \<noteq> AffiliationAttr" "TypeAttr \<noteq> AffiliationAttr"
  "TypeAttr \<noteq> EnrollmentID" "AffiliationAttr \<noteq> EnrollmentID" "AffiliationAttr \<noteq> TypeAttr"
  by (simp_all add: attr_name_defs)

lemma attributeMap_cases:
  "attributeMap n =
     (if n \<in> boolean_names then Some \<lparr>ac_name = n, requiresOwnership = True, attrType = BOOLEAN\<rparr>
      else if n \<in> list_names then Some \<lparr>ac_name = n, requiresOwnership = True, attrType = LIST\<rparr>
      else if n \<in> fixed_names then Some \<lparr>ac_name = n, requiresOwnership = False, attrType = FIXED\<rparr>
      else None)"
  by (auto simp: attributeMap_def initAttrs_def name_set_defs attr_name_defs)

lemma reserved_prefix:
  "n \<in> boolean_names \<union> list_names \<union> fixed_names \<Longrightarrow> strings_HasPrefix n ''hf.''"
  by (auto simp: name_set_defs attr_name_defs strings_HasPrefix_def)

lemma canRegisterAttr_Inr:
  "canRegisterAttr n pats = Inr u \<longleftrightarrow> (\<exists>p\<in>set pats. name_matches p n)"
proof (induction pats)
  case (Cons p ps)
  have "canRegisterAttr n (p # ps) = (if name_matches p n then Inr () else canRegisterAttr n ps)"
    by (simp add: name_matches_def)
  with Cons.IH show ?case by simp
qed simp

lemma Exists_iff: "Exists attrs n \<longleftrightarrow> n \<in> attr_Name ` set attrs"
  by (induction attrs) auto

text \<open>The specification of the values of the two kinds of attributes that carry authority.\<close>

definition boolean_ok :: "attribute_ctl \<Rightarrow> Attribute \<Rightarrow> bool" where
  "boolean_ok registrar a \<longleftrightarrow>
     (\<exists>own. registrar (attr_Name a) = Inr own \<and> strconv_ParseBool (attr_Value own) = Some True) \<and>
     (attr_Value a = [] \<or> strconv_ParseBool (attr_Value a) \<noteq> None)"

definition included :: "string \<Rightarrow> string \<Rightarrow> bool" where
  "included small big \<longleftrightarrow>
     (\<forall>s\<in>set (strings_Split small CHR '',''). s \<noteq> [] \<longrightarrow>
        (\<exists>b\<in>set (strings_Split big CHR '',''). strings_ToLower b = strings_ToLower s))"

definition roles_ok :: "attribute_ctl \<Rightarrow> Attribute \<Rightarrow> bool" where
  "roles_ok registrar a \<longleftrightarrow>
     (\<exists>own. registrar (attr_Name a) = Inr own \<and>
        (attr_Value a = [] \<or> ListContains (attr_Value own) ''*''
         \<or> included (attr_Value a) (attr_Value own)))"

definition current_roles :: "Attribute list \<Rightarrow> attribute_ctl option \<Rightarrow> string" where
  "current_roles reqAttrs user =
     (if GetAttrValue reqAttrs Roles \<noteq> [] then GetAttrValue reqAttrs Roles
      else (case user of None \<Rightarrow> []
            | Some u \<Rightarrow> (case u Roles of Inl _ \<Rightarrow> [] | Inr a \<Rightarrow> attr_Value a)))"

definition delegate_ok :: "Attribute list \<Rightarrow> attribute_ctl option \<Rightarrow> bool" where
  "delegate_ok reqAttrs user \<longleftrightarrow>
     ListContains (current_roles reqAttrs user) ''*'' \<or>
     included (GetAttrValue reqAttrs DelegateRoles) (current_roles reqAttrs user)"

definition regattrs_ok ::
  "Attribute list \<Rightarrow> attribute_ctl option \<Rightarrow> attribute_ctl \<Rightarrow> Attribute \<Rightarrow> bool" where
  "regattrs_ok reqAttrs user registrar a \<longleftrightarrow>
     (\<exists>own. registrar RegistrarAttr = Inr own \<and>
        (attr_Value a = [] \<or>
         (\<forall>v\<in>set (GetSliceFromList (attr_Value a) CHR '','').
            (\<exists>p\<in>set (GetSliceFromList (attr_Value own) CHR '',''). name_matches p v) \<and>
            (strings_HasPrefix v ''hf.'' \<longrightarrow>
               v \<in> attr_Name ` set reqAttrs \<or>
               (\<exists>u b. user = Some u \<and> u v = Inr b)))))"

definition attr_authorised ::
  "Attribute list \<Rightarrow> attribute_ctl option \<Rightarrow> attribute_ctl \<Rightarrow> Attribute \<Rightarrow> bool" where
  "attr_authorised reqAttrs user registrar a \<longleftrightarrow>
     (\<exists>allowed. registrar RegistrarAttr = Inr allowed \<and> attr_Value allowed \<noteq> [] \<and>
        (\<exists>p\<in>set (GetSliceFromList (attr_Value allowed) CHR '',''). name_matches p (attr_Name a))) \<and>
     attr_Name a \<notin> fixed_names \<and>
     (strings_HasPrefix (attr_Name a) ''hf.'' \<longrightarrow> attr_Name a \<in> boolean_names \<union> list_names) \<and>
     (attr_Name a \<in> boolean_names \<longrightarrow> boolean_ok registrar a) \<and>
     (attr_Name a \<in> {Roles, DelegateRoles} \<longrightarrow> roles_ok registrar a) \<and>
     (attr_Name a = DelegateRoles \<and> attr_Value a \<noteq> [] \<longrightarrow> delegate_ok reqAttrs user) \<and>
     (attr_Name a = RegistrarAttr \<longrightarrow> regattrs_ok reqAttrs user registrar a)"

lemma included_IsSubsetOf: "included small big \<longleftrightarrow> IsSubsetOf small big = Inr ()"
  by (simp add: included_def IsSubsetOf_Inr)

lemma validateBooleanAttribute_Inr:
  "validateBooleanAttribute ac a own = Inr u \<longleftrightarrow>
     strconv_ParseBool own = Some True \<and>
     (attr_Value a = [] \<or> strconv_ParseBool (attr_Value a) \<noteq> None)"
  by (auto simp: validateBooleanAttribute_def Let_def split: option.splits bool.splits if_splits)

lemma checkDelegateRoleValues_Inr:
  "checkDelegateRoleValues reqAttrs user = Inr u \<longleftrightarrow> delegate_ok reqAttrs user"
  by (auto simp: checkDelegateRoleValues_def delegate_ok_def current_roles_def Let_def
      included_IsSubsetOf split: option.splits sum.splits if_splits)

lemma checkHfRegistrarAttrValues_Inr:
  "checkHfRegistrarAttrValues a reqAttrs user pats = Inr u \<longleftrightarrow>
     (\<forall>v\<in>set (GetSliceFromList (attr_Value a) CHR '','').
        (\<exists>p\<in>set pats. name_matches p v) \<and>
        (strings_HasPrefix v ''hf.'' \<longrightarrow>
           v \<in> attr_Name ` set reqAttrs \<or> (\<exists>u b. user = Some u \<and> u v = Inr b)))"
  unfolding checkHfRegistrarAttrValues_def forR_Inr
  by (rule ball_cong) (auto simp: canRegisterAttr_Inr Exists_iff split: option.splits sum.splits)

lemma ac_IsSubsetOf_Inr:
  "ac_IsSubsetOf ac v own = Inr u \<longleftrightarrow>
     ac_name ac \<in> {Roles, DelegateRoles} \<and> ListContains own ''*'' \<or> included v own"
  by (auto simp: ac_IsSubsetOf_def included_IsSubsetOf)

text \<open>An attribute is let through exactly when the specification authorises it.\<close>

lemma CanRegisterAttribute_iff:
  "CanRegisterAttribute a reqAttrs user registrar = Inr u \<longleftrightarrow>
     attr_authorised reqAttrs user registrar a"
proof -
  let ?n = "attr_Name a"
  consider (bool) "?n \<in> boolean_names" | (roles) "?n = Roles" | (deleg) "?n = DelegateRoles"
    | (reg) "?n = RegistrarAttr" | (fixed) "?n \<in> fixed_names"
    | (other) "?n \<notin> boolean_names" "?n \<notin> list_names" "?n \<notin> fixed_names"
    by (auto simp: list_names_def)
  then show ?thesis
  proof cases
    case bool
    then have "?n \<notin> list_names" "?n \<notin> fixed_names"
      using names_distinct by blast+
    with bool show ?thesis
      by (auto simp: CanRegisterAttribute_def attr_authorised_def getAttributeControl_def
          attributeMap_cases isRegistrarAuthorized_def Let_def canRegisterAttr_Inr
          validateBooleanAttribute_Inr boolean_ok_def list_names_def split: sum.splits)
  next
    case roles
    then have "?n \<notin> boolean_names" "?n \<notin> fixed_names" "?n \<in> list_names"
      by (auto simp: name_set_defs attr_name_defs)
    with roles show ?thesis
      by (auto simp: CanRegisterAttribute_def attr_authorised_def getAttributeControl_def
          attributeMap_cases isRegistrarAuthorized_def Let_def canRegisterAttr_Inr
          validateListAttribute_def ac_IsSubsetOf_Inr roles_ok_def split: sum.splits)
  next
    case deleg
    then have "?n \<notin> boolean_names" "?n \<notin> fixed_names" "?n \<in> list_names"
      by (auto simp: name_set_defs attr_name_defs)
    with deleg show ?thesis
      by (auto simp: CanRegisterAttribute_def attr_authorised_def getAttributeControl_def
          attributeMap_cases isRegistrarAuthorized_def Let_def canRegisterAttr_Inr
          validateListAttribute_def ac_IsSubsetOf_Inr roles_ok_def
          checkDelegateRoleValues_Inr split: sum.splits)
  next
    case reg
    then have "?n \<notin> boolean_names" "?n \<notin> fixed_names" "?n \<in> list_names"
      by (auto simp: name_set_defs attr_name_defs)
    with reg show ?thesis
      by (auto simp: CanRegisterAttribute_def attr_authorised_def getAttributeControl_def
          attributeMap_cases isRegistrarAuthorized_def Let_def canRegisterAttr_Inr
          validateListAttribute_def regattrs_ok_def
          checkHfRegistrarAttrValues_Inr split: sum.splits)
  next
    case fixed
    then have "?n \<notin> boolean_names" "?n \<notin> list_names"
      using names_distinct by blast+
    with fixed show ?thesis
      by (auto simp: CanRegisterAttribute_def attr_authorised_def getAttributeControl_def
          attributeMap_cases isRegistrarAuthorized_def Let_def split: sum.splits)
  next
    case other
    then have "?n \<noteq> Roles" "?n \<noteq> DelegateRoles" "?n \<noteq> RegistrarAttr"
      by (auto simp: list_names_def)
    with other show ?thesis
      by (auto simp: CanRegisterAttribute_def attr_authorised_def getAttributeControl_def
          attributeMap_cases isRegistrarAuthorized_def Let_def canRegisterAttr_Inr
          split: sum.splits)
  qed
qed

lemma CanRegisterRequestedAttributes_iff:
  "CanRegisterRequestedAttributes reqAttrs user registrar = Inr u \<longleftrightarrow>
     (\<forall>a\<in>set reqAttrs. attr_authorised reqAttrs user registrar a)"
  by (auto simp: CanRegisterRequestedAttributes_def CanRegisterAttribute_iff)

section \<open>The interface of an attribute owner\<close>

text \<open>
  What the checks may rely on of an identity: \<open>GetAttribute\<close> returns an attribute of the
  name it was asked for.  Then a registrar that may register an attribute it owns can hand
  on its own value: delegation reaches everything the registrar holds itself.
\<close>

locale attribute_owner =
  fixes owner_get :: attribute_ctl
  assumes owner_get_name: "owner_get n = Inr a \<Longrightarrow> attr_Name a = n"
begin

lemma own_roles_registrable:
  assumes "owner_get RegistrarAttr = Inr pats" and "attr_Value pats \<noteq> []"
    and "\<exists>p\<in>set (GetSliceFromList (attr_Value pats) CHR '',''). name_matches p Roles"
    and "owner_get Roles = Inr a"
  shows "CanRegisterAttribute a reqAttrs user owner_get = Inr ()"
proof -
  have n: "attr_Name a = Roles" using assms(4) by (rule owner_get_name)
  have "included (attr_Value a) (attr_Value a)"
    by (simp add: included_IsSubsetOf IsSubsetOf_refl)
  then show ?thesis
    using assms n unfolding CanRegisterAttribute_iff attr_authorised_def roles_ok_def
    by (auto simp: name_set_defs attr_name_defs)
qed

lemma own_boolean_registrable:
  assumes "owner_get RegistrarAttr = Inr pats" and "attr_Value pats \<noteq> []"
    and "\<exists>p\<in>set (GetSliceFromList (attr_Value pats) CHR '',''). name_matches p n"
    and "n \<in> boolean_names" and "owner_get n = Inr a"
  shows "CanRegisterAttribute a reqAttrs user owner_get = Inr () \<longleftrightarrow>
           strconv_ParseBool (attr_Value a) = Some True"
proof -
  have n: "attr_Name a = n" using assms(5) by (rule owner_get_name)
  moreover have "n \<notin> list_names" "n \<notin> fixed_names"
    using assms(4) names_distinct by blast+
  ultimately show ?thesis
    using assms unfolding CanRegisterAttribute_iff attr_authorised_def boolean_ok_def
    by (auto simp: list_names_def)
qed

end

end
