(* ===== verification/SQL_Store.thy ===== *)
theory SQL_Store
  imports Attribute_Control
begin

text \<open>
  The database below the accessors: the tables of \<open>lib/dbutil/dbutil.go\<close>, the SQL
  statements the accessors issue, and transactions.

  A table is the list of its rows.  A statement may fail for a reason outside the
  server (a lost connection, a locked file); which statements fail is given by the list
  \<open>db_faults\<close>, one entry per statement, so that a property that holds for every
  database state holds for every pattern of failures.  The number of rows affected by an
  update is the number of rows it matches.

  The columns \<open>attributes\<close> and \<open>state\<close> of table \<open>users\<close>: the first holds the JSON text
  of a list of attributes and is represented by the list; the second counts completed
  enrollments and is \<open>-1\<close> for a revoked identity.  Points in time are integers, 0 being
  Go's zero time.
\<close>

section \<open>Rows and tables\<close>

record UserRecord =
  ur_Name :: string
  ur_Pass :: string
  ur_Type :: string
  ur_Affiliation :: string
  ur_Attributes :: "Attribute list"
  ur_State :: int
  ur_MaxEnrollments :: int
  ur_Level :: int

record AffiliationRecord =
  ar_ID :: int
  ar_Name :: string
  ar_Prekey :: string
  ar_Level :: int

record CertRecord =
  cr_ID :: string
  cr_Level :: int
  cr_Serial :: string
  cr_AKI :: string
  cr_CALabel :: string
  cr_Status :: string
  cr_Reason :: int
  cr_Expiry :: int
  cr_RevokedAt :: int
  cr_PEM :: string

record Nonce =
  n_Val :: string
  n_Expiry :: int
  n_Level :: int

record RevocationAuthorityInfo =
  ra_Epoch :: int
  ra_NextRevocationHandle :: int
  ra_LastHandleInPool :: int
  ra_Level :: int

record CredRecord =
  cd_ID :: string
  cd_RevocationHandle :: string
  cd_Cred :: string
  cd_CALabel :: string
  cd_Status :: string
  cd_Reason :: int
  cd_Expiry :: int
  cd_RevokedAt :: int
  cd_Level :: int

record sqldb =
  db_set :: bool
  db_driver :: string
  db_initialized :: bool
  db_users :: "UserRecord list"
  db_affiliations :: "AffiliationRecord list"
  db_certificates :: "CertRecord list"
  db_properties :: "(string \<times> string) list"
  db_nonces :: "Nonce list"
  db_rainfo :: "RevocationAuthorityInfo list"
  db_credentials :: "CredRecord list"
  db_faults :: "bool list"

type_synonym 'a dbop = "(sqldb, go_error, 'a) em"

definition empty_db :: sqldb where
  "empty_db =
     \<lparr>db_set = False, db_driver = [], db_initialized = False, db_users = [], db_affiliations = [],
      db_certificates = [], db_properties = [(''identity.level'', ''0'')], db_nonces = [], db_rainfo = [],
      db_credentials = [], db_faults = []\<rparr>"

text \<open>The contents of the database, without the pattern of failures.\<close>

definition tables ::
  "sqldb \<Rightarrow> UserRecord list \<times> AffiliationRecord list \<times> CertRecord list \<times> (string \<times> string) list
     \<times> Nonce list \<times> RevocationAuthorityInfo list \<times> CredRecord list" where
  "tables d = (db_users d, db_affiliations d, db_certificates d, db_properties d, db_nonces d,
     db_rainfo d, db_credentials d)"

section \<open>Statements\<close>

definition faulty :: "sqldb \<Rightarrow> bool" where
  "faulty d = (case db_faults d of [] \<Rightarrow> False | b # _ \<Rightarrow> b)"

definition pop :: "sqldb \<Rightarrow> sqldb" where
  "pop d = d\<lparr>db_faults := tl (db_faults d)\<rparr>"

definition sql :: "(sqldb \<Rightarrow> (sql_error + 'a) \<times> sqldb) \<Rightarrow> 'a dbop" where
  "sql f d =
     (if faulty d then (Inl (SqlErr SqlOther), pop d)
      else (case f (pop d) of (Inl e, d') \<Rightarrow> (Inl (SqlErr e), d') | (Inr a, d') \<Rightarrow> (Inr a, d')))"

definition sql_select :: "(sqldb \<Rightarrow> 'r list) \<Rightarrow> ('r \<Rightarrow> bool) \<Rightarrow> 'r list dbop" where
  "sql_select T P = sql (\<lambda>d. (Inr (filter P (T d)), d))"

definition sql_get :: "(sqldb \<Rightarrow> 'r list) \<Rightarrow> ('r \<Rightarrow> bool) \<Rightarrow> 'r dbop" where
  "sql_get T P = sql (\<lambda>d. (case filter P (T d) of [] \<Rightarrow> Inl SqlNoRows | r # _ \<Rightarrow> Inr r, d))"

definition sql_update ::
  "(sqldb \<Rightarrow> 'r list) \<Rightarrow> (('r list \<Rightarrow> 'r list) \<Rightarrow> sqldb \<Rightarrow> sqldb) \<Rightarrow> ('r \<Rightarrow> bool) \<Rightarrow> ('r \<Rightarrow> 'r) \<Rightarrow> nat dbop" where
  "sql_update T U P f =
     sql (\<lambda>d. (Inr (length (filter P (T d))), U (map (\<lambda>r. if P r then f r else r)) d))"

definition sql_delete ::
  "(sqldb \<Rightarrow> 'r list) \<Rightarrow> (('r list \<Rightarrow> 'r list) \<Rightarrow> sqldb \<Rightarrow> sqldb) \<Rightarrow> ('r \<Rightarrow> bool) \<Rightarrow> nat dbop" where
  "sql_delete T U P =
     sql (\<lambda>d. (Inr (length (filter P (T d))), U (filter (\<lambda>r. \<not> P r)) d))"

text \<open>An insertion that violates a uniqueness constraint of the table fails.\<close>

definition sql_insert ::
  "(sqldb \<Rightarrow> 'r list) \<Rightarrow> (('r list \<Rightarrow> 'r list) \<Rightarrow> sqldb \<Rightarrow> sqldb) \<Rightarrow> (sqldb \<Rightarrow> bool) \<Rightarrow> 'r \<Rightarrow> nat dbop" where
  "sql_insert T U clash r =
     sql (\<lambda>d. if clash d then (Inl SqlUnique, d) else (Inr 1, U (\<lambda>rows. rows @ [r]) d))"

text \<open>\<open>sqlx.In\<close> refuses an empty list of values.\<close>

definition sqlx_In :: "'a list \<Rightarrow> unit dbop" where
  "sqlx_In xs = unlessE (xs \<noteq> []) (PlainErr ''empty slice passed to in query'')"

definition no_faults :: "sqldb \<Rightarrow> bool" where
  "no_faults d \<longleftrightarrow> True \<notin> set (db_faults d)"

lemma no_faults_pop [simp]: "no_faults d \<Longrightarrow> no_faults (pop d)"
  by (cases "db_faults d") (auto simp: no_faults_def pop_def)

lemma no_faults_faulty [simp]: "no_faults d \<Longrightarrow> \<not> faulty d"
  by (cases "db_faults d") (auto simp: no_faults_def faulty_def)

lemma faults_table_updates [simp]:
  "no_faults (db_users_update f d) = no_faults d"
  "no_faults (db_affiliations_update g d) = no_faults d"
  "no_faults (db_certificates_update h d) = no_faults d"
  "no_faults (db_properties_update k d) = no_faults d"
  "no_faults (db_nonces_update l d) = no_faults d"
  "no_faults (db_rainfo_update m d) = no_faults d"
  "no_faults (db_credentials_update n d) = no_faults d"
  "faulty (db_users_update f d) = faulty d"
  "faulty (db_affiliations_update g d) = faulty d"
  "faulty (db_certificates_update h d) = faulty d"
  "faulty (db_properties_update k d) = faulty d"
  "faulty (db_nonces_update l d) = faulty d"
  "faulty (db_rainfo_update m d) = faulty d"
  "faulty (db_credentials_update n d) = faulty d"
  by (simp_all add: no_faults_def faulty_def)

lemma pop_fields [simp]:
  "db_set (pop d) = db_set d" "db_driver (pop d) = db_driver d"
  "db_initialized (pop d) = db_initialized d" "db_users (pop d) = db_users d"
  "db_affiliations (pop d) = db_affiliations d" "db_certificates (pop d) = db_certificates d"
  "db_properties (pop d) = db_properties d" "db_nonces (pop d) = db_nonces d"
  "db_rainfo (pop d) = db_rainfo d" "db_credentials (pop d) = db_credentials d"
  "tables (pop d) = tables d"
  by (simp_all add: pop_def tables_def)

lemma sql_Inr [em_simps]:
  "sql f d = (Inr a, d') \<longleftrightarrow> \<not> faulty d \<and> f (pop d) = (Inr a, d')"
  by (auto simp: sql_def split: prod.splits sum.splits)

lemma sql_Inl [em_simps]:
  "sql f d = (Inl e, d') \<longleftrightarrow>
     (faulty d \<and> e = SqlErr SqlOther \<and> d' = pop d) \<or>
     (\<not> faulty d \<and> (\<exists>q. f (pop d) = (Inl q, d') \<and> e = SqlErr q))"
  by (auto simp: sql_def split: prod.splits sum.splits)

lemma sql_select_Inr [em_simps]:
  "sql_select T P d = (Inr rs, d') \<longleftrightarrow> \<not> faulty d \<and> d' = pop d \<and> rs = filter P (T (pop d))"
  by (auto simp: sql_select_def sql_Inr)

lemma sql_select_Inl [em_simps]:
  "sql_select T P d = (Inl e, d') \<longleftrightarrow> faulty d \<and> d' = pop d \<and> e = SqlErr SqlOther"
  by (auto simp: sql_select_def sql_Inl)

lemma sql_get_Inr [em_simps]:
  "sql_get T P d = (Inr r, d') \<longleftrightarrow>
     \<not> faulty d \<and> d' = pop d \<and> (\<exists>rs. filter P (T (pop d)) = r # rs)"
  by (auto simp: sql_get_def sql_Inr split: list.splits)

lemma sql_get_Inl [em_simps]:
  "sql_get T P d = (Inl e, d') \<longleftrightarrow>
     d' = pop d \<and> (faulty d \<and> e = SqlErr SqlOther \<or>
       \<not> faulty d \<and> filter P (T (pop d)) = [] \<and> e = SqlErr SqlNoRows)"
  by (auto simp: sql_get_def sql_Inl split: list.splits)

lemma sql_update_Inr [em_simps]:
  "sql_update T U P f d = (Inr n, d') \<longleftrightarrow>
     \<not> faulty d \<and> n = length (filter P (T (pop d))) \<and>
     d' = U (map (\<lambda>r. if P r then f r else r)) (pop d)"
  by (auto simp: sql_update_def sql_Inr)

lemma sql_update_Inl [em_simps]:
  "sql_update T U P f d = (Inl e, d') \<longleftrightarrow> faulty d \<and> d' = pop d \<and> e = SqlErr SqlOther"
  by (auto simp: sql_update_def sql_Inl)

lemma sql_delete_Inr [em_simps]:
  "sql_delete T U P d = (Inr n, d') \<longleftrightarrow>
     \<not> faulty d \<and> n = length (filter P (T (pop d))) \<and> d' = U (filter (\<lambda>r. \<not> P r)) (pop d)"
  by (auto simp: sql_delete_def sql_Inr)

lemma sql_delete_Inl [em_simps]:
  "sql_delete T U P d = (Inl e, d') \<longleftrightarrow> faulty d \<and> d' = pop d \<and> e = SqlErr SqlOther"
  by (auto simp: sql_delete_def sql_Inl)

lemma sql_insert_Inr [em_simps]:
  "sql_insert T U clash r d = (Inr n, d') \<longleftrightarrow>
     \<not> faulty d \<and> \<not> clash (pop d) \<and> n = 1 \<and> d' = U (\<lambda>rows. rows @ [r]) (pop d)"
  by (auto simp: sql_insert_def sql_Inr)

lemma sql_insert_Inl [em_simps]:
  "sql_insert T U clash r d = (Inl e, d') \<longleftrightarrow>
     d' = pop d \<and> (faulty d \<and> e = SqlErr SqlOther \<or>
       \<not> faulty d \<and> clash (pop d) \<and> e = SqlErr SqlUnique)"
  by (auto simp: sql_insert_def sql_Inl split: if_splits)

lemma sqlx_In_eq [em_simps]:
  "sqlx_In xs d = (r, d') \<longleftrightarrow>
     d' = d \<and> r = (if xs \<noteq> [] then Inr () else Inl (PlainErr ''empty slice passed to in query''))"
  by (auto simp: sqlx_In_def)

text \<open>Reading statements change nothing but the pattern of failures, so they keep
  every property of the contents.\<close>

lemma keeps_select [keeps_intros]:
  "(\<And>d. I d \<Longrightarrow> I (pop d)) \<Longrightarrow> keeps I (sql_select T P)"
  by (auto simp: keeps_def sql_select_def sql_def split: prod.splits sum.splits)

lemma keeps_get [keeps_intros]:
  "(\<And>d. I d \<Longrightarrow> I (pop d)) \<Longrightarrow> keeps I (sql_get T P)"
  by (auto simp: keeps_def sql_get_def sql_def split: prod.splits sum.splits list.splits)

lemma keeps_update:
  "(\<And>d. I d \<Longrightarrow> I (pop d)) \<Longrightarrow>
   (\<And>d. I d \<Longrightarrow> I (U (map (\<lambda>r. if P r then f r else r)) (pop d))) \<Longrightarrow>
   keeps I (sql_update T U P f)"
  by (auto simp: keeps_def sql_update_def sql_def split: prod.splits sum.splits)

lemma keeps_delete:
  "(\<And>d. I d \<Longrightarrow> I (pop d)) \<Longrightarrow> (\<And>d. I d \<Longrightarrow> I (U (filter (\<lambda>r. \<not> P r)) (pop d))) \<Longrightarrow>
   keeps I (sql_delete T U P)"
  by (auto simp: keeps_def sql_delete_def sql_def split: prod.splits sum.splits)

lemma keeps_insert:
  "(\<And>d. I d \<Longrightarrow> I (pop d)) \<Longrightarrow>
   (\<And>d. I d \<Longrightarrow> \<not> clash (pop d) \<Longrightarrow> I (U (\<lambda>rows. rows @ [r]) (pop d))) \<Longrightarrow>
   keeps I (sql_insert T U clash r)"
  by (auto simp: keeps_def sql_insert_def sql_def split: prod.splits sum.splits if_splits)

lemma keeps_sqlx_In [keeps_intros]: "keeps I (sqlx_In xs)"
  by (simp add: sqlx_In_def keeps_intros)

section \<open>Transactions\<close>

definition checkDB :: "unit dbop" where
  "checkDB = bindE (getE db_set) (\<lambda>ok.
     unlessE ok (PlainErr ''Failed to correctly setup database connection''))"

text \<open>
  \<open>doTransaction\<close>: a failed body is rolled back, a failed commit is reported and leaves
  the database as it was.  Beginning, rolling back and committing are statements of their
  own; a failed rollback does not change the outcome.
\<close>

definition doTransaction :: "'a dbop \<Rightarrow> 'a dbop" where
  "doTransaction doit d =
     (case checkDB d of
        (Inl e, d0) \<Rightarrow> (Inl e, d0)
      | (Inr _, d0) \<Rightarrow>
          if faulty d0 then (Inl (GoPanic ''MustBegin''), pop d0)
          else
            (case doit (pop d0) of
               (Inl e, d1) \<Rightarrow> (Inl e, pop (d0\<lparr>db_faults := db_faults d1\<rparr>))
             | (Inr a, d1) \<Rightarrow>
                 if faulty d1 then (Inl (WithCause (SqlErr SqlOther)), pop (d0\<lparr>db_faults := db_faults d1\<rparr>))
                 else (Inr a, pop d1)))"

lemma checkDB_eq [em_simps]:
  "checkDB d = (r, d') \<longleftrightarrow>
     d' = d \<and> r = (if db_set d then Inr ()
                  else Inl (PlainErr ''Failed to correctly setup database connection''))"
  by (auto simp: checkDB_def bindE_def getE_def unlessE_def returnE_def throwE_def)

lemma keeps_checkDB [keeps_intros]: "keeps I checkDB"
  by (simp add: checkDB_def keeps_intros)

lemma doTransaction_Inr [em_simps]:
  "doTransaction doit d = (Inr a, d') \<longleftrightarrow>
     db_set d \<and> \<not> faulty d \<and> (\<exists>d1. doit (pop d) = (Inr a, d1) \<and> \<not> faulty d1 \<and> d' = pop d1)"
  by (auto simp: doTransaction_def em_simps split: prod.splits sum.splits if_splits)

text \<open>Atomicity: an error leaves the tables as they were.\<close>

lemma doTransaction_Inl:
  assumes "doTransaction doit d = (Inl e, d')"
  shows "tables d' = tables d \<and> db_set d' = db_set d \<and> db_driver d' = db_driver d
    \<and> db_initialized d' = db_initialized d"
  using assms
  by (auto simp: doTransaction_def tables_def em_simps pop_def
      checkDB_def bindE_def getE_def unlessE_def returnE_def throwE_def
      split: prod.splits sum.splits if_splits)

lemma keeps_doTransaction [keeps_intros]:
  assumes "keeps I doit" and "\<And>d. I d \<Longrightarrow> I (pop d)"
    and "\<And>d fs. I d \<Longrightarrow> I (d\<lparr>db_faults := fs\<rparr>)"
  shows "keeps I (doTransaction doit)"
proof (rule keepsI)
  fix d r d' assume I: "I d" and run: "doTransaction doit d = (r, d')"
  obtain r1 d1 where body: "doit (pop d) = (r1, d1)" by (cases "doit (pop d)")
  have "I d1" using keepsD [OF assms(1) body] assms(2) I by blast
  then show "I d'" using run I body assms(2,3)
    by (auto simp: doTransaction_def checkDB_def bindE_def getE_def unlessE_def returnE_def
        throwE_def split: if_splits sum.splits)
qed

end
