(* ===== verification/User_Registry.thy ===== *)
theory User_Registry
  imports SQL_Store
begin

text \<open>
  The identities of the user registry kept in the database: \<open>Accessor\<close> and \<open>DBUser\<close> of
  \<open>lib/dbaccessor.go\<close>, the interfaces of \<open>lib/spi\<close>, and \<open>getNewAttributes\<close> of
  \<open>lib/serveridentities.go\<close>, which both use.

  The password hash is package \<open>bcrypt\<close>, a parameter.  Go's map of a user's attributes is
  kept as an association list; Go iterates over it in an unspecified order, the model in
  the order of insertion.
\<close>

section \<open>Data\<close>

record UserInfo =
  ui_Name :: string
  ui_Pass :: string
  ui_Type :: string
  ui_Affiliation :: string
  ui_Attributes :: "Attribute list"
  ui_State :: int
  ui_MaxEnrollments :: int
  ui_Level :: int

record DBUser = UserInfo +
  du_pass :: string
  du_attrs :: "(string \<times> Attribute) list"

record bcrypt =
  GenerateFromPassword :: "string \<Rightarrow> string option"
  CompareHashAndPassword :: "string \<Rightarrow> string \<Rightarrow> bool"

definition newDBUser :: "UserRecord \<Rightarrow> DBUser" where
  "newDBUser r =
     \<lparr>ui_Name = ur_Name r, ui_Pass = [], ui_Type = ur_Type r, ui_Affiliation = ur_Affiliation r,
      ui_Attributes = ur_Attributes r, ui_State = ur_State r,
      ui_MaxEnrollments = ur_MaxEnrollments r, ui_Level = ur_Level r,
      du_pass = ur_Pass r,
      du_attrs = fold (\<lambda>a m. AList.update (attr_Name a) a m) (ur_Attributes r) []\<rparr>"

definition getError :: "go_error \<Rightarrow> go_error" where
  "getError e = (if e = SqlErr SqlNoRows then newHTTPErr 404 ErrDBGet else newHTTPErr 504 ErrConnectingDB)"

section \<open>Methods of \<open>DBUser\<close> that read\<close>

definition GetAffiliationPath :: "DBUser \<Rightarrow> string list" where
  "GetAffiliationPath u = strings_Split (ui_Affiliation u) CHR ''.''"

definition GetUserAffiliation :: "DBUser \<Rightarrow> string" where
  "GetUserAffiliation u = strings_Join (GetAffiliationPath u) ''.''"

definition GetAttribute :: "DBUser \<Rightarrow> string \<Rightarrow> Attribute result" where
  "GetAttribute u name =
     (case map_of (du_attrs u) name of
        None \<Rightarrow> Inl (PlainErr ''User does not have attribute'')
      | Some value \<Rightarrow> Inr value)"

fun getAttributes_loop :: "DBUser \<Rightarrow> string list \<Rightarrow> Attribute list result" where
  "getAttributes_loop u [] = Inr []"
| "getAttributes_loop u (name # attrNames) =
     (case map_of (du_attrs u) name of
        None \<Rightarrow> Inl (PlainErr ''User does not have attribute'')
      | Some value \<Rightarrow> bindR (getAttributes_loop u attrNames) (\<lambda>attrs. Inr (value # attrs)))"

definition GetAttributes :: "DBUser \<Rightarrow> string list option \<Rightarrow> Attribute list result" where
  "GetAttributes u attrNames =
     (case attrNames of
        None \<Rightarrow> Inr (map snd (du_attrs u))
      | Some names \<Rightarrow> getAttributes_loop u names)"

text \<open>\<open>Login\<close> updates the in-memory limit of the user, so it returns the user.\<close>

definition Login :: "bcrypt \<Rightarrow> DBUser \<Rightarrow> string \<Rightarrow> int \<Rightarrow> DBUser result" where
  "Login B u pass caMaxEnrollments =
     (if \<not> CompareHashAndPassword B (du_pass u) pass then Inl (WithCause (PlainErr ''Password mismatch''))
      else if ui_MaxEnrollments u = 0 then Inl (PlainErr ''Zero is an invalid value for maximum enrollments'')
      else if ui_State u = -1 then Inl (PlainErr ''User is revoked; access denied'')
      else
        (let u' = (if caMaxEnrollments \<noteq> -1 \<and>
                     (ui_MaxEnrollments u > caMaxEnrollments \<or> ui_MaxEnrollments u = -1)
                   then u\<lparr>ui_MaxEnrollments := caMaxEnrollments\<rparr> else u)
         in if ui_MaxEnrollments u' \<noteq> -1 \<and> ui_State u' \<ge> ui_MaxEnrollments u'
            then Inl (PlainErr ''maximum enrollment allowance'') else Inr u'))"

section \<open>Updating attributes\<close>

fun setAttribute :: "Attribute list \<Rightarrow> Attribute \<Rightarrow> Attribute list option" where
  "setAttribute [] a = None"
| "setAttribute (m # ms) a =
     (if attr_Name m = attr_Name a
      then Some (if attr_Value a = [] then ms
                 else m\<lparr>attr_Value := attr_Value a, attr_ECert := attr_ECert a\<rparr> # ms)
      else map_option ((#) m) (setAttribute ms a))"

fun getNewAttributes :: "Attribute list \<Rightarrow> Attribute list \<Rightarrow> Attribute list" where
  "getNewAttributes modifyAttrs [] = modifyAttrs"
| "getNewAttributes modifyAttrs (a # newAttrs) =
     (case setAttribute modifyAttrs a of
        Some modifyAttrs' \<Rightarrow> getNewAttributes modifyAttrs' newAttrs
      | None \<Rightarrow> getNewAttributes (if attr_Value a \<noteq> [] then modifyAttrs @ [a] else modifyAttrs) newAttrs)"

section \<open>Operations of the accessor on identities\<close>

abbreviation is_user :: "string \<Rightarrow> UserRecord \<Rightarrow> bool" where
  "is_user uid \<equiv> \<lambda>r. ur_Name r = uid"

text \<open>Table \<open>users\<close> has a primary key in MySQL only.\<close>

definition users_clash :: "string \<Rightarrow> sqldb \<Rightarrow> bool" where
  "users_clash uid d \<longleftrightarrow> db_driver d = ''mysql'' \<and> uid \<in> ur_Name ` set (db_users d)"

definition userRecord_of :: "UserInfo \<Rightarrow> string \<Rightarrow> UserRecord" where
  "userRecord_of user pwd =
     \<lparr>ur_Name = ui_Name user, ur_Pass = pwd, ur_Type = ui_Type user,
      ur_Affiliation = ui_Affiliation user, ur_Attributes = ui_Attributes user,
      ur_State = ui_State user, ur_MaxEnrollments = ui_MaxEnrollments user, ur_Level = ui_Level user\<rparr>"

definition InsertUser :: "bcrypt \<Rightarrow> UserInfo option \<Rightarrow> unit dbop" where
  "InsertUser B user =
     (case user of
        None \<Rightarrow> throwE (PlainErr ''User is not defined'')
      | Some user \<Rightarrow>
          seqE checkDB
          (case GenerateFromPassword B (ui_Pass user) of
             None \<Rightarrow> throwE (WithCause (PlainErr ''Failed to hash password''))
           | Some pwd \<Rightarrow>
               bindE (mapErrE WithCause
                       (sql_insert db_users db_users_update (users_clash (ui_Name user))
                          (userRecord_of user pwd)))
               (\<lambda>numRowsAffected.
                 if numRowsAffected = 0 then throwE (PlainErr ''Failed to add identity to the database'')
                 else if numRowsAffected \<noteq> 1 then throwE (PlainErr ''Expected to add one record to the database'')
                 else returnE ())))"

definition revoke_row :: "int \<Rightarrow> int \<Rightarrow> CertRecord \<Rightarrow> CertRecord" where
  "revoke_row now reason c = c\<lparr>cr_Status := ''revoked'', cr_RevokedAt := now, cr_Reason := reason\<rparr>"

definition deleteUserTx :: "int \<Rightarrow> string \<Rightarrow> int \<Rightarrow> UserRecord dbop" where
  "deleteUserTx now uid reason =
     bindE (mapErrE getError (sql_get db_users (is_user uid))) (\<lambda>userRec.
     seqE (mapErrE (\<lambda>_. newHTTPErr 500 ErrDBDeleteUser)
             (sql_delete db_users db_users_update (is_user uid)))
     (seqE (mapErrE (\<lambda>_. newHTTPErr 500 ErrDBDeleteUser)
              (sql_update db_certificates db_certificates_update
                 (\<lambda>c. cr_ID c = uid \<and> cr_Status c \<noteq> ''revoked'') (revoke_row now reason)))
     (returnE userRec)))"

definition DeleteUser :: "int \<Rightarrow> string \<Rightarrow> DBUser dbop" where
  "DeleteUser now uid =
     bindE (doTransaction (deleteUserTx now uid 5)) (\<lambda>userRec. returnE (newDBUser userRec))"

definition UpdateUser :: "bcrypt \<Rightarrow> UserInfo option \<Rightarrow> bool \<Rightarrow> unit dbop" where
  "UpdateUser B user updatePass =
     (case user of
        None \<Rightarrow> throwE (PlainErr ''User is not defined'')
      | Some user \<Rightarrow>
          seqE checkDB
          (case (if updatePass then GenerateFromPassword B (ui_Pass user) else Some (ui_Pass user)) of
             None \<Rightarrow> throwE (WithCause (PlainErr ''Failed to hash password''))
           | Some pwd \<Rightarrow>
               bindE (mapErrE WithCause
                       (sql_update db_users db_users_update (is_user (ui_Name user))
                          (\<lambda>_. userRecord_of user pwd)))
               (\<lambda>numRowsAffected.
                 if numRowsAffected = 0 then throwE (PlainErr ''No identity records were updated'')
                 else if numRowsAffected \<noteq> 1 then throwE (PlainErr ''Expected one identity record to be updated'')
                 else returnE ())))"

definition GetUser :: "string \<Rightarrow> DBUser dbop" where
  "GetUser uid =
     seqE checkDB
     (bindE (mapErrE getError (sql_get db_users (is_user uid))) (\<lambda>userRec.
      returnE (newDBUser userRec)))"

definition GetProperties :: "string list \<Rightarrow> (string \<times> string) list dbop" where
  "GetProperties names =
     seqE checkDB
     (seqE (mapErrE WithCause (sqlx_In names))
     (bindE (mapErrE getError (sql_select db_properties (\<lambda>p. fst p \<in> set names))) (\<lambda>properties.
      returnE (fold (\<lambda>p m. AList.update (fst p) (snd p) m) properties []))))"

text \<open>Levels are never NULL in the model.\<close>

definition GetUserLessThanLevel :: "int \<Rightarrow> DBUser list dbop" where
  "GetUserLessThanLevel level =
     (if level = 0 then returnE []
      else bindE (mapErrE WithCause (sql_select db_users (\<lambda>r. ur_Level r < level))) (\<lambda>rows.
           returnE (map newDBUser rows)))"

text \<open>
  The rows a caller may see.  \<open>like value pattern\<close> is the database's \<open>LIKE\<close>.  The query
  for all types below a proper affiliation has two placeholders and is given no argument,
  which the driver refuses.
\<close>

definition GetFilteredUsers ::
  "(string \<Rightarrow> string \<Rightarrow> bool) \<Rightarrow> string \<Rightarrow> string \<Rightarrow> UserRecord list dbop" where
  "GetFilteredUsers like affiliation types =
     seqE checkDB
     (let typesArray = map strings_TrimSpace (strings_Split types CHR '','') in
      if affiliation = [] then
        (if ListContains types ''*'' then mapErrE WithCause (sql_select db_users (\<lambda>_. True))
         else seqE (mapErrE WithCause (sqlx_In typesArray))
                (mapErrE WithCause (sql_select db_users (\<lambda>r. ur_Type r \<in> set typesArray))))
      else
        (let subAffiliation = affiliation @ ''.%'' in
         if ListContains types ''*'' then mapErrE WithCause (sql (\<lambda>d. (Inl SqlArgs, d)))
         else seqE (mapErrE WithCause (sqlx_In typesArray))
                (mapErrE WithCause (sql_select db_users (\<lambda>r.
                   (ur_Affiliation r = affiliation \<or> like (ur_Affiliation r) subAffiliation)
                   \<and> ur_Type r \<in> set typesArray)))))"

section \<open>Methods of \<open>DBUser\<close> that write\<close>

definition one_row :: "nat \<Rightarrow> unit dbop" where
  "one_row numRowsAffected =
     (if numRowsAffected = 0 then throwE (PlainErr ''No rows were affected when updating the identity'')
      else if numRowsAffected \<noteq> 1 then throwE (PlainErr ''rows were affected when updating the identity'')
      else returnE ())"

definition SetLevel :: "DBUser \<Rightarrow> int \<Rightarrow> unit dbop" where
  "SetLevel u level =
     bindE (sql_update db_users db_users_update (is_user (ui_Name u)) (\<lambda>r. r\<lparr>ur_Level := level\<rparr>)) one_row"

definition LoginComplete :: "DBUser \<Rightarrow> unit dbop" where
  "LoginComplete u =
     bindE (mapErrE WithCause
       (if ui_MaxEnrollments u = -1
        then sql_update db_users db_users_update (is_user (ui_Name u))
               (\<lambda>r. r\<lparr>ur_State := ur_State r + 1\<rparr>)
        else sql_update db_users db_users_update
               (\<lambda>r. ur_Name r = ui_Name u \<and> ur_State r < ui_MaxEnrollments u)
               (\<lambda>r. r\<lparr>ur_State := ur_State r + 1\<rparr>)))
     one_row"

definition Revoke :: "DBUser \<Rightarrow> unit dbop" where
  "Revoke u =
     bindE (mapErrE WithCause
       (sql_update db_users db_users_update (is_user (ui_Name u)) (\<lambda>r. r\<lparr>ur_State := -1\<rparr>)))
     one_row"

definition ModifyAttributes :: "DBUser \<Rightarrow> Attribute list \<Rightarrow> unit dbop" where
  "ModifyAttributes u newAttrs =
     (let currentAttrs = map snd (du_attrs u);
          userAttrs = getNewAttributes currentAttrs newAttrs
      in bindE (sql_update db_users db_users_update (is_user (ui_Name u))
                  (\<lambda>r. r\<lparr>ur_Attributes := userAttrs\<rparr>))
         one_row)"

section \<open>Facts about users read from the database\<close>

lemma GetUserAffiliation_eq [simp]: "GetUserAffiliation u = ui_Affiliation u"
  by (simp add: GetUserAffiliation_def GetAffiliationPath_def)

definition attr_index :: "Attribute list \<Rightarrow> string \<rightharpoonup> Attribute" where
  "attr_index attrs = map_of (map (\<lambda>a. (attr_Name a, a)) attrs)"

lemma attr_index_simps [simp]:
  "attr_index [] = Map.empty"
  "attr_index (a # as) = (attr_index as)(attr_Name a \<mapsto> a)"
  by (simp_all add: attr_index_def)

lemma attr_index_append: "attr_index (as @ bs) = attr_index bs ++ attr_index as"
  by (simp add: attr_index_def)

lemma attr_index_None: "attr_index as n = None \<longleftrightarrow> n \<notin> attr_Name ` set as"
  by (induction as) auto

lemma attr_index_Some: "attr_index as n = Some a \<Longrightarrow> attr_Name a = n \<and> a \<in> set as"
  by (induction as) (auto split: if_splits)

lemma map_of_attrs_fold:
  "map_of (fold (\<lambda>a m. AList.update (attr_Name a) a m) attrs m) = map_of m ++ attr_index (rev attrs)"
  by (induction attrs arbitrary: m)
    (auto simp: AList.update_conv' attr_index_append fun_eq_iff map_add_def split: option.splits)

lemma du_attrs_lookup [simp]:
  "map_of (du_attrs (newDBUser r)) = attr_index (rev (ur_Attributes r))"
  by (simp add: newDBUser_def map_of_attrs_fold)

lemma du_attrs_keys:
  "distinct (map fst (du_attrs (newDBUser r)))"
  "(n, a) \<in> set (du_attrs (newDBUser r)) \<Longrightarrow> attr_Name a = n"
proof -
  have "distinct (map fst m) \<Longrightarrow>
      distinct (map fst (fold (\<lambda>a m. AList.update (attr_Name a) a m) attrs m))" for attrs m
    by (induction attrs arbitrary: m) (auto intro: AList.distinct_update)
  from this [of "[]" "ur_Attributes r"]
  show d: "distinct (map fst (du_attrs (newDBUser r)))"
    by (simp add: newDBUser_def)
  assume "(n, a) \<in> set (du_attrs (newDBUser r))"
  then have "map_of (du_attrs (newDBUser r)) n = Some a"
    using d by (metis map_of_is_SomeI)
  then show "attr_Name a = n"
    by (simp add: attr_index_Some)
qed

text \<open>When several attributes of a row share a name, the last one counts.\<close>

lemma GetAttribute_newDBUser:
  "GetAttribute (newDBUser r) n =
     (case attr_index (rev (ur_Attributes r)) n of
        None \<Rightarrow> Inl (PlainErr ''User does not have attribute'') | Some a \<Rightarrow> Inr a)"
  by (simp add: GetAttribute_def)

interpretation db_owner: attribute_owner "GetAttribute (newDBUser r)" for r
  by unfold_locales
    (auto simp: GetAttribute_newDBUser dest: attr_index_Some split: option.splits)

lemma newDBUser_fields [simp]:
  "ui_Name (newDBUser r) = ur_Name r" "ui_Type (newDBUser r) = ur_Type r"
  "ui_Affiliation (newDBUser r) = ur_Affiliation r" "ui_State (newDBUser r) = ur_State r"
  "ui_MaxEnrollments (newDBUser r) = ur_MaxEnrollments r" "ui_Level (newDBUser r) = ur_Level r"
  "du_pass (newDBUser r) = ur_Pass r" "ui_Attributes (newDBUser r) = ur_Attributes r"
  by (simp_all add: newDBUser_def)

section \<open>Attribute updates as updates of a map\<close>

definition apply_request :: "Attribute \<Rightarrow> (string \<rightharpoonup> Attribute) \<Rightarrow> (string \<rightharpoonup> Attribute)" where
  "apply_request a m = m(attr_Name a := (if attr_Value a = [] then None else Some a))"

lemma setAttribute_None: "setAttribute ms a = None \<longleftrightarrow> attr_Name a \<notin> attr_Name ` set ms"
  by (induction ms) auto

lemma setAttribute_Some:
  assumes "setAttribute ms a = Some ms'" and "distinct (map attr_Name ms)"
  shows "attr_index ms' = apply_request a (attr_index ms) \<and> distinct (map attr_Name ms')
    \<and> attr_Name ` set ms' \<subseteq> attr_Name ` set ms"
  using assms
proof (induction ms arbitrary: ms')
  case (Cons m ms)
  show ?case
  proof (cases "attr_Name m = attr_Name a")
    case True
    then have upd: "m\<lparr>attr_Value := attr_Value a, attr_ECert := attr_ECert a\<rparr> = a"
      by (cases m; cases a) simp
    have "attr_index ms (attr_Name a) = None"
      using Cons.prems(2) True by (auto simp: attr_index_None)
    with True Cons.prems upd show ?thesis
      by (auto simp: apply_request_def fun_eq_iff)
  next
    case False
    then obtain ms1 where ms1: "setAttribute ms a = Some ms1" "ms' = m # ms1"
      using Cons.prems(1) by auto
    with Cons.IH [OF ms1(1)] Cons.prems(2) False show ?thesis
      by (auto simp: apply_request_def fun_eq_iff)
  qed
qed simp

lemma getNewAttributes_refines:
  "distinct (map attr_Name ms) \<Longrightarrow>
     attr_index (getNewAttributes ms as) = fold apply_request as (attr_index ms) \<and>
     distinct (map attr_Name (getNewAttributes ms as))"
proof (induction as arbitrary: ms)
  case (Cons a as)
  show ?case
  proof (cases "setAttribute ms a")
    case None
    then have new: "attr_Name a \<notin> attr_Name ` set ms" by (simp add: setAttribute_None)
    let ?ms = "if attr_Value a \<noteq> [] then ms @ [a] else ms"
    have none: "attr_index ms (attr_Name a) = None" using new by (simp add: attr_index_None)
    then have "attr_index ?ms = apply_request a (attr_index ms)"
      by (auto simp: apply_request_def attr_index_append fun_eq_iff map_add_def
          split: option.splits)
    moreover have "distinct (map attr_Name ?ms)" using new Cons.prems by auto
    ultimately show ?thesis using Cons.IH [of ?ms] None by simp
  next
    case (Some ms')
    then show ?thesis using setAttribute_Some [OF Some Cons.prems] Cons.IH [of ms'] by simp
  qed
qed simp

section \<open>Login\<close>

definition effective_max :: "int \<Rightarrow> int \<Rightarrow> int" where
  "effective_max userMax caMax =
     (if caMax \<noteq> -1 \<and> (userMax > caMax \<or> userMax = -1) then caMax else userMax)"

lemma Login_Inr:
  "Login B u pass caMax = Inr u' \<longleftrightarrow>
     CompareHashAndPassword B (du_pass u) pass \<and> ui_MaxEnrollments u \<noteq> 0 \<and> ui_State u \<noteq> -1 \<and>
     u' = u\<lparr>ui_MaxEnrollments := effective_max (ui_MaxEnrollments u) caMax\<rparr> \<and>
     (effective_max (ui_MaxEnrollments u) caMax \<noteq> -1 \<longrightarrow>
        ui_State u < effective_max (ui_MaxEnrollments u) caMax)"
  by (cases u) (auto simp: Login_def effective_max_def Let_def)

section \<open>Results of the operations\<close>

lemma GetUser_Inr [em_simps]:
  "GetUser uid d = (Inr u, d') \<longleftrightarrow>
     db_set d \<and> \<not> faulty d \<and> d' = pop d \<and>
     (\<exists>r rs. filter (is_user uid) (db_users d) = r # rs \<and> u = newDBUser r)"
  by (auto simp: GetUser_def em_simps)

lemma keeps_GetUser [keeps_intros]: "(\<And>d. I d \<Longrightarrow> I (pop d)) \<Longrightarrow> keeps I (GetUser uid)"
  unfolding GetUser_def by (intro keeps_intros)

lemma one_row_eq [simp]: "one_row n d = (Inr (), d') \<longleftrightarrow> n = 1 \<and> d' = d"
  by (auto simp: one_row_def)

lemma one_row_state: "one_row n d = (r, d') \<Longrightarrow> d' = d"
  by (auto simp: one_row_def split: if_splits)

lemma InsertUser_Inr [em_simps]:
  "InsertUser B user d = (Inr (), d') \<longleftrightarrow>
     (\<exists>u pwd. user = Some u \<and> GenerateFromPassword B (ui_Pass u) = Some pwd \<and>
        db_set d \<and> \<not> faulty d \<and> \<not> users_clash (ui_Name u) d \<and>
        d' = db_users_update (\<lambda>rows. rows @ [userRecord_of u pwd]) (pop d))"
  by (auto simp: InsertUser_def em_simps users_clash_def split: option.splits if_splits)

lemma InsertUser_Inl:
  "InsertUser B user d = (Inl e, d') \<Longrightarrow> tables d' = tables d"
  by (auto simp: InsertUser_def em_simps split: option.splits if_splits)

lemma UpdateUser_Inr [em_simps]:
  "UpdateUser B user upd d = (Inr (), d') \<longleftrightarrow>
     (\<exists>u pwd. user = Some u \<and>
        (if upd then GenerateFromPassword B (ui_Pass u) else Some (ui_Pass u)) = Some pwd \<and>
        db_set d \<and> \<not> faulty d \<and> length (filter (is_user (ui_Name u)) (db_users d)) = 1 \<and>
        d' = db_users_update
               (map (\<lambda>r. if ur_Name r = ui_Name u then userRecord_of u pwd else r)) (pop d))"
  by (auto simp: UpdateUser_def em_simps split: option.splits if_splits)

text \<open>Removal of an identity: its rows go, its certificates are revoked with reason
  \<open>cessationofoperation\<close>, nothing else changes.\<close>

lemma DeleteUser_effect:
  assumes "DeleteUser now uid d = (Inr u, d')"
  shows "db_users d' = filter (\<lambda>r. ur_Name r \<noteq> uid) (db_users d)"
    and "db_certificates d' =
           map (\<lambda>c. if cr_ID c = uid \<and> cr_Status c \<noteq> ''revoked'' then revoke_row now 5 c else c)
             (db_certificates d)"
    and "db_affiliations d' = db_affiliations d" and "db_properties d' = db_properties d"
    and "\<exists>r rs. filter (is_user uid) (db_users d) = r # rs \<and> u = newDBUser r"
  using assms by (auto simp: DeleteUser_def deleteUserTx_def em_simps)

lemma DeleteUser_error: "DeleteUser now uid d = (Inl e, d') \<Longrightarrow> tables d' = tables d"
  by (auto simp: DeleteUser_def em_simps dest: doTransaction_Inl)

lemma DeleteUser_succeeds:
  assumes "db_set d" and "no_faults d" and "filter (is_user uid) (db_users d) \<noteq> []"
  shows "\<exists>u d'. DeleteUser now uid d = (Inr u, d')"
proof -
  obtain r rs where r: "filter (is_user uid) (db_users d) = r # rs"
    using assms(3) by (cases "filter (is_user uid) (db_users d)") auto
  show ?thesis
    using assms r by (auto simp: DeleteUser_def deleteUserTx_def em_simps)
qed

end
