(* ===== verification/Affiliation_Registry.thy ===== *)
theory Affiliation_Registry
  imports User_Registry
begin

text \<open>
  The affiliations of the registry, \<open>lib/dbaccessor.go\<close>: adding, reading, removing and
  renaming, with the identities and certificates these touch.  \<open>like value pattern\<close> is the
  database's \<open>LIKE\<close>, a parameter.
\<close>

section \<open>Data\<close>

record Affiliation =
  aff_Name :: string
  aff_Prekey :: string
  aff_Level :: int

record DbTxResult =
  tx_Affiliations :: "Affiliation list"
  tx_Identities :: "DBUser list"

definition NewAffiliation :: "AffiliationRecord \<Rightarrow> Affiliation" where
  "NewAffiliation r = \<lparr>aff_Name = ar_Name r, aff_Prekey = ar_Prekey r, aff_Level = ar_Level r\<rparr>"

definition getResult :: "UserRecord list \<Rightarrow> AffiliationRecord list \<Rightarrow> DbTxResult" where
  "getResult ids affs =
     \<lparr>tx_Affiliations = map NewAffiliation affs, tx_Identities = map newDBUser ids\<rparr>"

abbreviation is_aff :: "string \<Rightarrow> AffiliationRecord \<Rightarrow> bool" where
  "is_aff name \<equiv> \<lambda>r. ar_Name r = name"

section \<open>Reading\<close>

definition GetAffiliation :: "string \<Rightarrow> Affiliation dbop" where
  "GetAffiliation name =
     seqE checkDB
     (bindE (mapErrE getError (sql_get db_affiliations (is_aff name))) (\<lambda>r.
      returnE (NewAffiliation r)))"

definition getAffiliationTreeTx :: "(string \<Rightarrow> string \<Rightarrow> bool) \<Rightarrow> string \<Rightarrow> DbTxResult dbop" where
  "getAffiliationTreeTx like name =
     seqE checkDB
     (bindE (mapErrE (\<lambda>_. newHTTPErr 500 ErrGettingAffiliation)
              (if name = [] then sql_select db_affiliations (\<lambda>_. True)
               else sql_select db_affiliations
                      (\<lambda>r. like (ar_Name r) (name @ ''.%'') \<or> ar_Name r = name)))
      (\<lambda>allAffs. returnE (getResult [] allAffs)))"

definition GetAffiliationTree :: "(string \<Rightarrow> string \<Rightarrow> bool) \<Rightarrow> string \<Rightarrow> DbTxResult dbop" where
  "GetAffiliationTree like name =
     seqE (if name \<noteq> [] then bindE (GetAffiliation name) (\<lambda>_. returnE ()) else returnE ())
          (doTransaction (getAffiliationTreeTx like name))"

definition GetAllAffiliations ::
  "(string \<Rightarrow> string \<Rightarrow> bool) \<Rightarrow> string \<Rightarrow> AffiliationRecord list dbop" where
  "GetAllAffiliations like name =
     seqE checkDB
     (if name = [] then sql_select db_affiliations (\<lambda>_. True)
      else sql_select db_affiliations (\<lambda>r. ar_Name r = name \<or> like (ar_Name r) (name @ ''.%'')))"

section \<open>Adding\<close>

text \<open>Column \<open>name\<close> is unique except in MySQL.\<close>

definition affs_clash :: "string \<Rightarrow> sqldb \<Rightarrow> bool" where
  "affs_clash name d \<longleftrightarrow> db_driver d \<noteq> ''mysql'' \<and> name \<in> ar_Name ` set (db_affiliations d)"

definition InsertAffiliation :: "string \<Rightarrow> string \<Rightarrow> int \<Rightarrow> unit dbop" where
  "InsertAffiliation name prekey level =
     seqE checkDB
     (bindE (getE db_driver) (\<lambda>dbType.
      bindE (if dbType = ''mysql'' then attemptE (GetAffiliation name)
             else returnE (Inl (PlainErr ''not looked up''))) (\<lambda>aff.
      case aff of
        Inr _ \<Rightarrow> returnE ()
      | Inl _ \<Rightarrow>
          bindE (attemptE (sql_insert db_affiliations db_affiliations_update (affs_clash name)
                   \<lparr>ar_ID = 0, ar_Name = name, ar_Prekey = prekey, ar_Level = level\<rparr>)) (\<lambda>res.
          case res of
            Inr _ \<Rightarrow> returnE ()
          | Inl err \<Rightarrow>
              if err \<noteq> SqlErr SqlUnique \<and> (dbType = ''sqlite3'' \<or> dbType = ''postgres'')
              then throwE err else returnE ()))))"

section \<open>Removing\<close>

text \<open>The steps of the transaction: the identities in the affiliation and below it, the
  guard on removing them, their removal, and the removal of the affiliations.\<close>

definition affiliationIds :: "(string \<Rightarrow> string \<Rightarrow> bool) \<Rightarrow> string \<Rightarrow> UserRecord list dbop" where
  "affiliationIds like name =
     bindE (mapErrE (\<lambda>_. newHTTPErr 500 ErrRemoveAffDB)
              (sql_select db_users (\<lambda>r. ur_Affiliation r = name))) (\<lambda>ids.
     bindE (mapErrE (\<lambda>_. newHTTPErr 500 ErrRemoveAffDB)
              (sql_select db_users (\<lambda>r. like (ur_Affiliation r) (name @ ''.%'')))) (\<lambda>subAffIds.
     returnE (ids @ subAffIds)))"

definition guardRemoveIds :: "UserRecord list \<Rightarrow> bool \<Rightarrow> bool \<Rightarrow> bool \<Rightarrow> unit dbop" where
  "guardRemoveIds ids force identityRemoval isRegistrar =
     (if ids \<noteq> [] then
        (if \<not> isRegistrar then throwE (newAuthErr ErrUpdateConfigRemoveAff)
         else if \<not> identityRemoval then throwE (newAuthErr ErrUpdateConfigRemoveAff)
         else if \<not> force then throwE (newAuthErr ErrUpdateConfigRemoveAff)
         else returnE ())
      else returnE ())"

definition removeIds :: "int \<Rightarrow> UserRecord list \<Rightarrow> unit dbop" where
  "removeIds now ids =
     (let idNames = map ur_Name ids in
      if ids \<noteq> [] then
        seqE (mapErrE (\<lambda>_. newHTTPErr 500 ErrRemoveAffDB) (sqlx_In idNames))
        (seqE (mapErrE (\<lambda>_. newHTTPErr 500 ErrRemoveAffDB)
                 (sql_delete db_users db_users_update (\<lambda>r. ur_Name r \<in> set idNames)))
        (seqE (mapErrE (\<lambda>_. newHTTPErr 500 ErrRemoveAffDB) (sqlx_In idNames))
        (bindE (mapErrE (\<lambda>_. newHTTPErr 500 ErrRemoveAffDB)
                 (sql_update db_certificates db_certificates_update
                    (\<lambda>c. cr_ID c \<in> set idNames \<and> cr_Status c \<noteq> ''revoked'')
                    (revoke_row now 3))) (\<lambda>_. returnE ()))))
      else returnE ())"

definition removeAffiliations ::
  "(string \<Rightarrow> string \<Rightarrow> bool) \<Rightarrow> string \<Rightarrow> AffiliationRecord list \<Rightarrow> unit dbop" where
  "removeAffiliations like name allAffs =
     seqE (mapErrE (\<lambda>_. newHTTPErr 500 ErrRemoveAffDB)
             (sql_delete db_affiliations db_affiliations_update (is_aff name)))
     (if length allAffs > 1 then
        bindE (mapErrE (\<lambda>_. newHTTPErr 500 ErrRemoveAffDB)
          (sql_delete db_affiliations db_affiliations_update
             (\<lambda>r. like (ar_Name r) (name @ ''.%'')))) (\<lambda>_. returnE ())
      else returnE ())"

definition deleteAffiliationTx ::
  "(string \<Rightarrow> string \<Rightarrow> bool) \<Rightarrow> int \<Rightarrow> string \<Rightarrow> bool \<Rightarrow> bool \<Rightarrow> bool \<Rightarrow> DbTxResult dbop" where
  "deleteAffiliationTx like now name force identityRemoval isRegistrar =
     bindE (affiliationIds like name) (\<lambda>ids.
     seqE (guardRemoveIds ids force identityRemoval isRegistrar)
     (bindE (mapErrE getError (sql_get db_affiliations (is_aff name))) (\<lambda>aff.
      bindE (mapErrE (\<lambda>_. newHTTPErr 500 ErrRemoveAffDB)
               (sql_select db_affiliations (\<lambda>r. like (ar_Name r) (name @ ''.%'')))) (\<lambda>subAffs.
      seqE (unlessE (subAffs = [] \<or> force) (newAuthErr ErrUpdateConfigRemoveAff))
      (let allAffs = subAffs @ [aff] in
       seqE (removeIds now ids)
       (seqE (removeAffiliations like name allAffs)
       (returnE (getResult ids allAffs))))))))"

definition DeleteAffiliation ::
  "(string \<Rightarrow> string \<Rightarrow> bool) \<Rightarrow> int \<Rightarrow> string \<Rightarrow> bool \<Rightarrow> bool \<Rightarrow> bool \<Rightarrow> DbTxResult dbop" where
  "DeleteAffiliation like now name force identityRemoval isRegistrar =
     seqE (GetAffiliation name)
       (doTransaction (deleteAffiliationTx like now name force identityRemoval isRegistrar))"

section \<open>Renaming\<close>

text \<open>The new value of a user's \<open>hf.Affiliation\<close> attribute, for one of the users found
  under an affiliation being renamed.\<close>

definition renameUserAttr :: "string \<Rightarrow> string \<Rightarrow> UserRecord \<Rightarrow> Attribute list" where
  "renameUserAttr oldAffiliation newAffiliation userRec =
     (let user = newDBUser userRec;
          currentAttrs = map snd (du_attrs user);
          newAff = strings_ReplaceFirst (GetUserAffiliation user) oldAffiliation newAffiliation
      in getNewAttributes currentAttrs
           [\<lparr>attr_Name = AffiliationAttr, attr_Value = newAff, attr_ECert = False\<rparr>])"

definition updateRenamedUser :: "string \<Rightarrow> string \<Rightarrow> UserRecord \<Rightarrow> unit dbop" where
  "updateRenamedUser oldAffiliation newAffiliation userRec =
     bindE (sql_update db_users db_users_update (is_user (ur_Name userRec))
              (\<lambda>r. r\<lparr>ur_Attributes := renameUserAttr oldAffiliation newAffiliation userRec\<rparr>))
     one_row"

text \<open>The body of the loop over the affiliations to rename; it returns the names of the
  identities it moved.\<close>

definition renameAffiliationRow ::
  "string \<Rightarrow> string \<Rightarrow> bool \<Rightarrow> bool \<Rightarrow> AffiliationRecord \<Rightarrow> string list dbop" where
  "renameAffiliationRow oldAffiliation newAffiliation force isRegistrar affiliation =
     (let oldPath = ar_Name affiliation;
          oldParentPath = ar_Prekey affiliation;
          newPath = strings_ReplaceFirst oldPath oldAffiliation newAffiliation;
          newParentPath = strings_ReplaceFirst oldParentPath oldAffiliation newAffiliation in
      bindE (sql_select db_users (\<lambda>r. ur_Affiliation r = oldPath)) (\<lambda>idsWithOldAff.
      let ids = map ur_Name idsWithOldAff in
      seqE (if idsWithOldAff \<noteq> [] then
              (if \<not> isRegistrar then throwE (newAuthErr ErrMissingRegAttr)
               else if force then
                 seqE (mapErrE WithCause (sqlx_In ids))
                 (seqE (mapErrE WithCause
                          (sql_update db_users db_users_update (\<lambda>r. ur_Name r \<in> set ids)
                             (\<lambda>r. r\<lparr>ur_Affiliation := newPath\<rparr>)))
                 (forE idsWithOldAff (updateRenamedUser oldAffiliation newAffiliation)))
               else throwE (newHTTPErr 400 ErrUpdateConfigModifyAff))
            else returnE ())
      (bindE (mapErrE (\<lambda>_. GoPanic ''MustExec'')
               (sql (\<lambda>d.
                  if newPath \<noteq> oldPath \<and> affs_clash newPath d \<and> oldPath \<in> ar_Name ` set (db_affiliations d)
                  then (Inl SqlUnique, d)
                  else (Inr (length (filter (is_aff oldPath) (db_affiliations d))),
                        db_affiliations_update (map (\<lambda>r.
                          if ar_Name r = oldPath then r\<lparr>ar_Name := newPath, ar_Prekey := newParentPath\<rparr>
                          else r)) d)))) (\<lambda>numRowsAffected.
       if numRowsAffected = 0 then throwE (PlainErr ''Failed to update any affiliation records'')
       else returnE ids))))"

fun renameAffiliationRows ::
  "string \<Rightarrow> string \<Rightarrow> bool \<Rightarrow> bool \<Rightarrow> AffiliationRecord list \<Rightarrow> string list \<Rightarrow> string list dbop" where
  "renameAffiliationRows old new force isRegistrar [] idsUpdated = returnE idsUpdated"
| "renameAffiliationRows old new force isRegistrar (aff # affs) idsUpdated =
     bindE (renameAffiliationRow old new force isRegistrar aff) (\<lambda>ids.
       renameAffiliationRows old new force isRegistrar affs (idsUpdated @ ids))"

definition modifyAffiliationTx ::
  "(string \<Rightarrow> string \<Rightarrow> bool) \<Rightarrow> string \<Rightarrow> string \<Rightarrow> bool \<Rightarrow> bool \<Rightarrow> DbTxResult dbop" where
  "modifyAffiliationTx like oldAffiliation newAffiliation force isRegistrar =
     bindE (sql_get db_affiliations (is_aff oldAffiliation)) (\<lambda>oldAffiliationRecord.
     bindE (sql_select db_affiliations (\<lambda>r. like (ar_Name r) (oldAffiliation @ ''.%''))) (\<lambda>subAffs.
     bindE (renameAffiliationRows oldAffiliation newAffiliation force isRegistrar
              (subAffs @ [oldAffiliationRecord]) []) (\<lambda>idsUpdated.
     bindE (if idsUpdated \<noteq> [] then
              seqE (mapErrE WithCause (sqlx_In idsUpdated))
                (mapErrE WithCause (sql_select db_users (\<lambda>r. ur_Name r \<in> set idsUpdated)))
            else returnE []) (\<lambda>idsWithNewAff.
     bindE (mapErrE (\<lambda>_. newHTTPErr 500 ErrGettingAffiliation)
              (sql_select db_affiliations
                 (\<lambda>r. like (ar_Name r) (newAffiliation @ ''.%'') \<or> ar_Name r = newAffiliation)))
     (\<lambda>allNewAffs. returnE (getResult idsWithNewAff allNewAffs))))))"

definition ModifyAffiliation ::
  "(string \<Rightarrow> string \<Rightarrow> bool) \<Rightarrow> string \<Rightarrow> string \<Rightarrow> bool \<Rightarrow> bool \<Rightarrow> DbTxResult dbop" where
  "ModifyAffiliation like oldAffiliation newAffiliation force isRegistrar =
     seqE checkDB
     (seqE (GetAffiliation oldAffiliation)
     (bindE (attemptE (GetAffiliation newAffiliation)) (\<lambda>res.
      case res of
        Inr _ \<Rightarrow> throwE (newHTTPErr 400 ErrUpdateConfigModifyAff)
      | Inl _ \<Rightarrow> doTransaction (modifyAffiliationTx like oldAffiliation newAffiliation force isRegistrar))))"

section \<open>Paths\<close>

text \<open>A path lies under another when it is that path or continues it after a dot.\<close>

definition path_under :: "string \<Rightarrow> string \<Rightarrow> bool" where
  "path_under name p \<longleftrightarrow> p = name \<or> strings_HasPrefix p (name @ ''.'')"

lemma path_under_iff: "path_under name p \<longleftrightarrow> p = name \<or> (\<exists>t. p = name @ CHR ''.'' # t)"
  by (auto simp: path_under_def strings_HasPrefix_iff)

text \<open>It is the prefix order on lists of path components.\<close>

lemma under_prefix:
  "path_under name p \<longleftrightarrow> prefix (strings_Split name CHR ''.'') (strings_Split p CHR ''.'')"
  unfolding path_under_def HasPrefix_sep_iff prefix_def
  by (metis append_Nil2 strings_Split_inject)

lemma under_refl [simp]: "path_under p p"
  by (simp add: path_under_def)

lemma under_trans: "path_under a b \<Longrightarrow> path_under b c \<Longrightarrow> path_under a c"
  unfolding under_prefix by (rule prefix_order.trans)

lemma under_antisym: "path_under a b \<Longrightarrow> path_under b a \<Longrightarrow> a = b"
  unfolding under_prefix by (metis prefix_order.antisym strings_Split_inject)

text \<open>Two paths that contain a common path are comparable.\<close>

lemma under_same: "path_under a p \<Longrightarrow> path_under b p \<Longrightarrow> path_under a b \<or> path_under b a"
  unfolding under_prefix by (rule prefix_same_cases)

text \<open>
  What the accessors assume of \<open>LIKE\<close>: the pattern made of a name, a dot and a percent
  sign matches the paths below that name.  SQL's \<open>LIKE\<close> does this for every name without
  wildcard characters.
\<close>

definition like_prefix :: "(string \<Rightarrow> string \<Rightarrow> bool) \<Rightarrow> string \<Rightarrow> bool" where
  "like_prefix like name \<longleftrightarrow> (\<forall>v. like v (name @ ''.%'') \<longleftrightarrow> strings_HasPrefix v (name @ ''.''))"

fun sql_like :: "string \<Rightarrow> string \<Rightarrow> bool" where
  "sql_like v [] = (v = [])"
| "sql_like [] (c # p) = (c = CHR ''%'' \<and> sql_like [] p)"
| "sql_like (x # v) (c # p) =
     (if c = CHR ''%'' then sql_like (x # v) p \<or> sql_like v (c # p)
      else (c = CHR ''_'' \<or> x = c) \<and> sql_like v p)"

lemma sql_like_any [simp]: "sql_like v ''%''"
  by (induction v) auto

lemma sql_like_literal:
  "CHR ''%'' \<notin> set l \<Longrightarrow> CHR ''_'' \<notin> set l \<Longrightarrow>
     sql_like v (l @ ''%'') \<longleftrightarrow> (\<exists>t. v = l @ t)"
proof (induction l arbitrary: v)
  case (Cons c l)
  then show ?case by (cases v) auto
qed simp

lemma sql_like_prefix:
  "CHR ''%'' \<notin> set name \<Longrightarrow> CHR ''_'' \<notin> set name \<Longrightarrow> like_prefix sql_like name"
  using sql_like_literal [of "name @ ''.''"] by (auto simp: like_prefix_def strings_HasPrefix_iff)

section \<open>Effects of removing\<close>

lemma GetAffiliation_Inr [em_simps]:
  "GetAffiliation name d = (Inr a, d') \<longleftrightarrow>
     db_set d \<and> \<not> faulty d \<and> d' = pop d \<and>
     (\<exists>r rs. filter (is_aff name) (db_affiliations d) = r # rs \<and> a = NewAffiliation r)"
  by (auto simp: GetAffiliation_def em_simps)

lemma GetAffiliation_state: "GetAffiliation name d = (r, d') \<Longrightarrow> d' = d \<or> d' = pop d"
  by (cases r) (auto simp: GetAffiliation_def em_simps split: if_splits)

lemma keeps_GetAffiliation [keeps_intros]:
  "(\<And>d. I d \<Longrightarrow> I (pop d)) \<Longrightarrow> keeps I (GetAffiliation name)"
  unfolding GetAffiliation_def by (intro keeps_intros)

text \<open>An insertion that reports success: the affiliation was added, or it was there, or (in
  the data base kinds whose errors are dropped) a statement failed.\<close>

lemma InsertAffiliation_Inr:
  assumes "InsertAffiliation name prekey level d = (Inr (), d')"
  obtains (added) e where "e \<in> {d, pop d, pop (pop d)}"
      and "d' = db_affiliations_update
             (\<lambda>rows. rows @ [\<lparr>ar_ID = 0, ar_Name = name, ar_Prekey = prekey, ar_Level = level\<rparr>]) e"
    | (present) "d' \<in> {d, pop d, pop (pop d)}" and "name \<in> ar_Name ` set (db_affiliations d)"
    | (dropped) "d' \<in> {d, pop d, pop (pop d)}" and "\<not> no_faults d"
proof -
  let ?row = "\<lparr>ar_ID = 0, ar_Name = name, ar_Prekey = prekey, ar_Level = level\<rparr>"
  have "\<exists>e. (e = d \<or> e = pop d) \<and> (d' = e \<and> name \<in> ar_Name ` set (db_affiliations d) \<or>
      (\<exists>q. sql_insert db_affiliations db_affiliations_update (affs_clash name) ?row e = (q, d')))"
  proof (cases "db_driver d = ''mysql''")
    case True
    obtain q e where q: "GetAffiliation name d = (q, e)" by (cases "GetAffiliation name d")
    have e: "e = d \<or> e = pop d" using q by (rule GetAffiliation_state)
    show ?thesis
    proof (cases q)
      case (Inl err)
      with True q assms e show ?thesis
        by (auto simp: InsertAffiliation_def seqE_Inr bindE_Inr attemptE_Inr checkDB_eq case_sum_run
            split: if_splits)
    next
      case (Inr a)
      then have "name \<in> ar_Name ` set (db_affiliations d)"
        using q by (auto simp: GetAffiliation_Inr dest!: filter_ConsD)
      with True q Inr assms e show ?thesis
        by (auto simp: InsertAffiliation_def seqE_Inr bindE_Inr attemptE_Inr checkDB_eq case_sum_run
            split: if_splits)
    qed
  next
    case False
    with assms show ?thesis
      by (auto simp: InsertAffiliation_def seqE_Inr bindE_Inr attemptE_Inr checkDB_eq case_sum_run
          split: if_splits)
  qed
  then obtain e where look: "e = d \<or> e = pop d"
    and step: "d' = e \<and> name \<in> ar_Name ` set (db_affiliations d) \<or>
      (\<exists>q. sql_insert db_affiliations db_affiliations_update (affs_clash name) ?row e = (q, d'))"
    by blast
  from step show thesis
  proof
    assume "d' = e \<and> name \<in> ar_Name ` set (db_affiliations d)"
    with look present show thesis by blast
  next
    assume "\<exists>q. sql_insert db_affiliations db_affiliations_update (affs_clash name) ?row e = (q, d')"
    then obtain q where q: "sql_insert db_affiliations db_affiliations_update (affs_clash name) ?row e = (q, d')" ..
    show thesis
    proof (cases q)
      case (Inl err)
      with q look have "d' = pop e" "\<not> no_faults d \<or> name \<in> ar_Name ` set (db_affiliations d)"
        by (auto simp: sql_insert_Inl affs_clash_def)
      with look present dropped show thesis by blast
    next
      case (Inr n)
      with q look added [of "pop e"] show thesis by (auto simp: sql_insert_Inr)
    qed
  qed
qed

text \<open>The users removed with an affiliation: those whose name is that of a user in it.\<close>

definition affected_ids :: "(string \<Rightarrow> string \<Rightarrow> bool) \<Rightarrow> string \<Rightarrow> sqldb \<Rightarrow> string set" where
  "affected_ids like name d =
     ur_Name ` {r \<in> set (db_users d). ur_Affiliation r = name \<or> like (ur_Affiliation r) (name @ ''.%'')}"

lemma affiliationIds_Inr [em_simps]:
  "affiliationIds like name d = (Inr ids, d') \<longleftrightarrow>
     \<not> faulty d \<and> \<not> faulty (pop d) \<and> d' = pop (pop d) \<and>
     ids = filter (\<lambda>r. ur_Affiliation r = name) (db_users d) @
           filter (\<lambda>r. like (ur_Affiliation r) (name @ ''.%'')) (db_users d)"
  by (auto simp: affiliationIds_def em_simps)

lemma affiliationIds_names:
  "affiliationIds like name d = (Inr ids, d') \<Longrightarrow> ur_Name ` set ids = affected_ids like name d"
  by (auto simp: em_simps affected_ids_def)

lemma guardRemoveIds_Inr [em_simps]:
  "guardRemoveIds ids force idRemoval isReg d = (Inr (), d') \<longleftrightarrow>
     d' = d \<and> (ids \<noteq> [] \<longrightarrow> isReg \<and> idRemoval \<and> force)"
  by (auto simp: guardRemoveIds_def)

lemma removeIds_effect:
  "removeIds now ids d = (Inr (), d') \<Longrightarrow>
     db_users d' = filter (\<lambda>r. ur_Name r \<notin> ur_Name ` set ids) (db_users d) \<and>
     db_certificates d' =
       map (\<lambda>c. if cr_ID c \<in> ur_Name ` set ids \<and> cr_Status c \<noteq> ''revoked''
                then revoke_row now 3 c else c) (db_certificates d) \<and>
     db_affiliations d' = db_affiliations d"
  by (cases "ids = []") (auto simp: removeIds_def Let_def em_simps)

lemma removeAffiliations_effect:
  assumes "removeAffiliations like name (subs @ [aff]) d = (Inr (), d')"
    and "subs = filter (\<lambda>r. like (ar_Name r) (name @ ''.%'')) (db_affiliations d)"
  shows "db_affiliations d' =
      filter (\<lambda>r. ar_Name r \<noteq> name \<and> \<not> like (ar_Name r) (name @ ''.%'')) (db_affiliations d)
    \<and> db_users d' = db_users d \<and> db_certificates d' = db_certificates d"
proof (cases "subs = []")
  case True
  then have "\<forall>r \<in> set (db_affiliations d). \<not> like (ar_Name r) (name @ ''.%'')"
    using assms(2) by (metis filter_empty_conv)
  then have "filter (\<lambda>r. ar_Name r \<noteq> name) (db_affiliations d) =
      filter (\<lambda>r. ar_Name r \<noteq> name \<and> \<not> like (ar_Name r) (name @ ''.%'')) (db_affiliations d)"
    by (intro filter_cong) auto
  with True assms show ?thesis by (auto simp: removeAffiliations_def em_simps)
next
  case False
  with assms show ?thesis by (auto simp: removeAffiliations_def em_simps conj_commute)
qed

text \<open>The guards that a removal passed, and the tables it leaves.\<close>

lemma deleteAffiliationTx_effect:
  assumes "deleteAffiliationTx like now name force idRemoval isReg d = (Inr res, d')"
  shows "affected_ids like name d \<noteq> {} \<Longrightarrow> isReg \<and> idRemoval \<and> force"
    and "(\<exists>r \<in> set (db_affiliations d). like (ar_Name r) (name @ ''.%'')) \<Longrightarrow> force"
    and "db_users d' = filter (\<lambda>r. ur_Name r \<notin> affected_ids like name d) (db_users d)"
    and "db_certificates d' =
        map (\<lambda>c. if cr_ID c \<in> affected_ids like name d \<and> cr_Status c \<noteq> ''revoked''
                 then revoke_row now 3 c else c) (db_certificates d)"
    and "db_affiliations d' =
        filter (\<lambda>r. ar_Name r \<noteq> name \<and> \<not> like (ar_Name r) (name @ ''.%'')) (db_affiliations d)"
proof -
  let ?subs = "filter (\<lambda>r. like (ar_Name r) (name @ ''.%'')) (db_affiliations d)"
  obtain ids d1 d2 d3 aff where
      ids: "affiliationIds like name d = (Inr ids, d1)"
    and guard: "ids \<noteq> [] \<longrightarrow> isReg \<and> idRemoval \<and> force"
    and subs: "?subs = [] \<or> force"
    and d2: "removeIds now ids (pop (pop d1)) = (Inr (), d2)"
    and d3: "removeAffiliations like name (?subs @ [aff]) d2 = (Inr (), d')"
    using assms unfolding deleteAffiliationTx_def Let_def seqE_Inr bindE_Inr
    by (auto simp: guardRemoveIds_Inr mapErrE_Inr sql_get_Inr sql_select_Inr affiliationIds_Inr
        split: if_splits)
  note names = affiliationIds_names [OF ids]
  have d1: "db_users d1 = db_users d" "db_certificates d1 = db_certificates d"
      "db_affiliations d1 = db_affiliations d"
    using ids by (auto simp: em_simps)
  note eff2 = removeIds_effect [OF d2, simplified names pop_fields d1]
  have "?subs = filter (\<lambda>r. like (ar_Name r) (name @ ''.%'')) (db_affiliations d2)"
    using eff2 by simp
  note eff3 = removeAffiliations_effect [OF d3 this]
  show "affected_ids like name d \<noteq> {} \<Longrightarrow> isReg \<and> idRemoval \<and> force"
    using guard names by auto
  show "(\<exists>r \<in> set (db_affiliations d). like (ar_Name r) (name @ ''.%'')) \<Longrightarrow> force"
    using subs by (auto simp: filter_empty_conv)
  show "db_users d' = filter (\<lambda>r. ur_Name r \<notin> affected_ids like name d) (db_users d)"
    "db_certificates d' =
        map (\<lambda>c. if cr_ID c \<in> affected_ids like name d \<and> cr_Status c \<noteq> ''revoked''
                 then revoke_row now 3 c else c) (db_certificates d)"
    "db_affiliations d' =
        filter (\<lambda>r. ar_Name r \<noteq> name \<and> \<not> like (ar_Name r) (name @ ''.%'')) (db_affiliations d)"
    using eff2 eff3 by simp_all
qed

lemma DeleteAffiliation_Inr:
  assumes "DeleteAffiliation like now name force idRemoval isReg d = (Inr res, d')"
  obtains d1 where "deleteAffiliationTx like now name force idRemoval isReg (pop (pop d)) = (Inr res, d1)"
    and "d' = pop d1"
  using assms by (auto simp: DeleteAffiliation_def em_simps)

lemma affected_ids_pop [simp]: "affected_ids like name (pop d) = affected_ids like name d"
  by (simp add: affected_ids_def)

lemma DeleteAffiliation_error:
  assumes "DeleteAffiliation like now name force idRemoval isReg d = (Inl e, d')"
  shows "tables d' = tables d"
  using assms
  by (auto simp: DeleteAffiliation_def seqE_Inl dest!: doTransaction_Inl GetAffiliation_state)

section \<open>Effects of renaming\<close>

definition rename_path :: "string \<Rightarrow> string \<Rightarrow> string \<Rightarrow> string" where
  "rename_path old new p = (if path_under old p then new @ drop (length old) p else p)"

lemma ReplaceFirst_rename_path:
  "path_under old p \<Longrightarrow> strings_ReplaceFirst p old new = rename_path old new p"
  by (auto simp: rename_path_def path_under_iff)

lemma under_rename_path: "path_under old p \<Longrightarrow> path_under new (rename_path old new p)"
  by (auto simp: rename_path_def path_under_iff)

lemma rename_path_leaves:
  assumes "path_under old p" and "\<not> path_under old new" and "\<not> path_under new old"
  shows "\<not> path_under old (rename_path old new p)"
  using under_rename_path [OF assms(1)] assms(2,3) under_same by blast

definition user_paths :: "sqldb \<Rightarrow> (string \<times> string) list" where
  "user_paths d = map (\<lambda>r. (ur_Name r, ur_Affiliation r)) (db_users d)"

lemma user_paths_simps [simp]:
  "user_paths (pop d) = user_paths d"
  "user_paths (db_affiliations_update f d) = user_paths d"
  by (simp_all add: user_paths_def)

lemma keeps_updateRenamedUser:
  "keeps (\<lambda>d. user_paths d = v \<and> db_affiliations d = w \<and> db_certificates d = c)
     (updateRenamedUser old new r)"
proof -
  have "map (\<lambda>r. (ur_Name r, ur_Affiliation r))
      (map (\<lambda>r. if P r then r\<lparr>ur_Attributes := as\<rparr> else r) rs) =
      map (\<lambda>r. (ur_Name r, ur_Affiliation r)) rs" for P as rs
    by simp
  then show ?thesis
    unfolding updateRenamedUser_def
    by (intro keeps_bindE keeps_update)
      (auto simp: user_paths_def keeps_def one_row_def em_defs)
qed

lemma updateRenamedUsers_frame:
  assumes "forE rs (updateRenamedUser old new) d = (r, d')"
  shows "user_paths d' = user_paths d \<and> db_affiliations d' = db_affiliations d
    \<and> db_certificates d' = db_certificates d"
  using keepsD [OF keeps_forE [OF keeps_updateRenamedUser] assms] by blast

text \<open>One affiliation: its row and the identities in it get the new path.\<close>

definition move_users :: "string \<Rightarrow> string \<Rightarrow> (string \<times> string) list \<Rightarrow> (string \<times> string) list" where
  "move_users oldPath newPath ups =
     map (\<lambda>(n, p). if (n, oldPath) \<in> set ups then (n, newPath) else (n, p)) ups"

lemma move_users_none:
  "oldPath \<notin> snd ` set ups \<Longrightarrow> move_users oldPath newPath ups = ups"
  unfolding move_users_def by (rule map_idI) force

lemma renameAffiliationRow_effect:
  assumes "renameAffiliationRow old new force isReg aff d = (Inr ids, d')"
  shows "db_affiliations d' = map (\<lambda>r. if ar_Name r = ar_Name aff
             then r\<lparr>ar_Name := strings_ReplaceFirst (ar_Name aff) old new,
                    ar_Prekey := strings_ReplaceFirst (ar_Prekey aff) old new\<rparr> else r) (db_affiliations d)
    \<and> user_paths d' = move_users (ar_Name aff) (strings_ReplaceFirst (ar_Name aff) old new) (user_paths d)
    \<and> db_certificates d' = db_certificates d
    \<and> (ar_Name aff \<in> snd ` set (user_paths d) \<longrightarrow> isReg \<and> force)"
proof -
  let ?new = "strings_ReplaceFirst (ar_Name aff) old new"
  let ?hits = "filter (\<lambda>r. ur_Affiliation r = ar_Name aff) (db_users d)"
  have hits: "ar_Name aff \<in> snd ` set (user_paths d) \<longleftrightarrow> ?hits \<noteq> []"
    by (force simp: user_paths_def filter_empty_conv)
  have moved: "user_paths (db_users_update (map (\<lambda>r. if ur_Name r \<in> ur_Name ` set ?hits
        then r\<lparr>ur_Affiliation := ?new\<rparr> else r)) e) =
      move_users (ar_Name aff) ?new (user_paths d)" if "db_users e = db_users d" for e
    using that by (auto simp: user_paths_def move_users_def image_iff)
  show ?thesis
  proof (cases "?hits = []")
    case True
    with hits have "move_users (ar_Name aff) ?new (user_paths d) = user_paths d"
      by (intro move_users_none) blast
    with True assms show ?thesis
      unfolding hits renameAffiliationRow_def Let_def
      by (auto simp: em_simps split: if_splits)
  next
    case False
    from assms False obtain d1 where g: "isReg" "force"
      and d1: "forE ?hits (updateRenamedUser old new)
          (db_users_update (map (\<lambda>r. if ur_Name r \<in> ur_Name ` set ?hits
             then r\<lparr>ur_Affiliation := ?new\<rparr> else r)) (pop (pop d))) = (Inr (), d1)"
      and d': "d' = db_affiliations_update (map (\<lambda>r. if ar_Name r = ar_Name aff
             then r\<lparr>ar_Name := ?new, ar_Prekey := strings_ReplaceFirst (ar_Prekey aff) old new\<rparr>
             else r)) (pop d1)"
      unfolding renameAffiliationRow_def Let_def
      by (auto simp: em_simps split: if_splits)
    show ?thesis
      using updateRenamedUsers_frame [OF d1] moved [of "pop (pop d)"] g d' by simp
  qed
qed

text \<open>All affiliations of a subtree.  The old and the new path are not under one
  another, so that no renamed row is met again.\<close>

definition rename_row :: "string \<Rightarrow> string \<Rightarrow> AffiliationRecord \<Rightarrow> AffiliationRecord" where
  "rename_row old new r =
     r\<lparr>ar_Name := rename_path old new (ar_Name r),
       ar_Prekey := strings_ReplaceFirst (ar_Prekey r) old new\<rparr>"

lemma move_users_distinct:
  "distinct (map fst ups) \<Longrightarrow>
     move_users q q' ups = map (\<lambda>(n, p). (n, if p = q then q' else p)) ups"
  unfolding move_users_def by (intro map_cong refl) (auto dest: eq_key_imp_eq_value)

lemma renameAffiliationRows_effect:
  assumes "renameAffiliationRows old new force isReg affs ids d = (Inr ids', d')"
    and "\<not> path_under old new" and "\<not> path_under new old"
    and "\<forall>a \<in> set affs. path_under old (ar_Name a)" and "distinct (map ar_Name affs)"
    and "\<forall>a \<in> set affs. \<forall>r \<in> set (db_affiliations d). ar_Name r = ar_Name a \<longrightarrow> r = a"
    and "distinct (map fst (user_paths d))"
  shows "db_affiliations d' = map (\<lambda>r. if ar_Name r \<in> ar_Name ` set affs then rename_row old new r else r)
            (db_affiliations d)
    \<and> user_paths d' = map (\<lambda>(n, p). (n, if p \<in> ar_Name ` set affs then rename_path old new p else p))
            (user_paths d)
    \<and> db_certificates d' = db_certificates d
    \<and> (ar_Name ` set affs \<inter> snd ` set (user_paths d) \<noteq> {} \<longrightarrow> isReg \<and> force)"
  using assms
proof (induction affs arbitrary: ids d)
  case (Cons a affs)
  obtain js d1 where d1: "renameAffiliationRow old new force isReg a d = (Inr js, d1)"
    and rest: "renameAffiliationRows old new force isReg affs (ids @ js) d1 = (Inr ids', d')"
    using Cons.prems(1) by (auto simp: bindE_Inr)
  let ?q = "rename_path old new (ar_Name a)"
  have ua: "path_under old (ar_Name a)" and leaves: "\<not> path_under old ?q"
    using Cons.prems(2-4) rename_path_leaves by auto
  note one = renameAffiliationRow_effect [OF d1, unfolded ReplaceFirst_rename_path [OF ua]]
  have affs1: "db_affiliations d1 =
      map (\<lambda>r. if ar_Name r = ar_Name a then rename_row old new r else r) (db_affiliations d)"
    using one Cons.prems(6) by (auto simp: rename_row_def)
  have ups1: "user_paths d1 = map (\<lambda>(n, p). (n, if p = ar_Name a then ?q else p)) (user_paths d)"
    using one Cons.prems(7) by (simp add: move_users_distinct)
  have notq: "?q \<notin> ar_Name ` set affs" using leaves Cons.prems(4) by auto
  have nota: "ar_Name a \<notin> ar_Name ` set affs" using Cons.prems(5) by simp
  have IH: "db_affiliations d' = map (\<lambda>r. if ar_Name r \<in> ar_Name ` set affs then rename_row old new r else r)
            (db_affiliations d1)
    \<and> user_paths d' = map (\<lambda>(n, p). (n, if p \<in> ar_Name ` set affs then rename_path old new p else p))
            (user_paths d1)
    \<and> db_certificates d' = db_certificates d1
    \<and> (ar_Name ` set affs \<inter> snd ` set (user_paths d1) \<noteq> {} \<longrightarrow> isReg \<and> force)"
  proof (rule Cons.IH [OF rest Cons.prems(2,3)])
    show "\<forall>b \<in> set affs. path_under old (ar_Name b)" "distinct (map ar_Name affs)"
      using Cons.prems(4,5) by auto
    show "\<forall>b \<in> set affs. \<forall>r \<in> set (db_affiliations d1). ar_Name r = ar_Name b \<longrightarrow> r = b"
      using Cons.prems(6) notq by (auto simp: affs1 rename_row_def)
    have "map fst (user_paths d1) = map fst (user_paths d)" by (simp add: ups1 case_prod_unfold)
    then show "distinct (map fst (user_paths d1))" using Cons.prems(7) by simp
  qed
  have hit: "ar_Name ` set affs \<inter> snd ` set (user_paths d) \<noteq> {} \<Longrightarrow>
      ar_Name ` set affs \<inter> snd ` set (user_paths d1) \<noteq> {}"
  proof -
    assume "ar_Name ` set affs \<inter> snd ` set (user_paths d) \<noteq> {}"
    then obtain n p where np: "(n, p) \<in> set (user_paths d)" "p \<in> ar_Name ` set affs" by fastforce
    moreover have "p \<noteq> ar_Name a" using np(2) nota by blast
    ultimately have "(n, p) \<in> set (user_paths d1)" unfolding ups1 by force
    with np(2) show ?thesis by force
  qed
  have "db_affiliations d' =
      map (\<lambda>r. if ar_Name r \<in> ar_Name ` set (a # affs) then rename_row old new r else r) (db_affiliations d)"
    unfolding IH [THEN conjunct1] affs1 map_map comp_def
    by (rule map_cong [OF refl]) (use notq nota in \<open>auto simp: rename_row_def\<close>)
  moreover have "user_paths d' = map (\<lambda>(n, p). (n, if p \<in> ar_Name ` set (a # affs)
      then rename_path old new p else p)) (user_paths d)"
    unfolding IH [THEN conjunct2, THEN conjunct1] ups1 map_map comp_def
    by (rule map_cong [OF refl]) (use notq in auto)
  moreover have "db_certificates d' = db_certificates d" using IH one by simp
  moreover have "ar_Name ` set (a # affs) \<inter> snd ` set (user_paths d) \<noteq> {} \<longrightarrow> isReg \<and> force"
  proof -
    have "ar_Name a \<in> snd ` set (user_paths d) \<Longrightarrow> isReg \<and> force"
      and "ar_Name ` set affs \<inter> snd ` set (user_paths d) \<noteq> {} \<Longrightarrow> isReg \<and> force"
      using one IH hit by blast+
    then show ?thesis unfolding list.set(2) image_insert insert_disjoint by blast
  qed
  ultimately show ?case by blast
qed simp

lemma modifyAffiliationTx_Inr:
  assumes "modifyAffiliationTx like old new force isReg d = (Inr res, d')"
  obtains root rs d1 ids d2 where "filter (is_aff old) (db_affiliations d) = root # rs"
    and "tables d1 = tables d"
    and "renameAffiliationRows old new force isReg
           (filter (\<lambda>r. like (ar_Name r) (old @ ''.%'')) (db_affiliations d) @ [root]) [] d1 = (Inr ids, d2)"
    and "tables d' = tables d2"
proof -
  obtain root rs ids d2 where root: "filter (is_aff old) (db_affiliations d) = root # rs"
    and rows: "renameAffiliationRows old new force isReg
           (filter (\<lambda>r. like (ar_Name r) (old @ ''.%'')) (db_affiliations d) @ [root]) [] (pop (pop d))
             = (Inr ids, d2)"
    and d': "d' = pop d2 \<or> d' = pop (pop d2)"
    using assms unfolding modifyAffiliationTx_def bindE_Inr seqE_Inr
    by (auto simp: sql_get_Inr sql_select_Inr mapErrE_Inr seqE_Inr sqlx_In_eq split: if_splits)
  show thesis by (rule that [OF root _ rows]) (use d' in auto)
qed

lemma tables_fields:
  "tables d = tables e \<Longrightarrow> db_users d = db_users e \<and> db_affiliations d = db_affiliations e
     \<and> db_certificates d = db_certificates e \<and> db_properties d = db_properties e"
  by (simp add: tables_def)

lemma ModifyAffiliation_Inr:
  assumes "ModifyAffiliation like old new force isReg d = (Inr res, d')"
  obtains d0 d1 where "tables d0 = tables d"
    and "modifyAffiliationTx like old new force isReg d0 = (Inr res, d1)" and "tables d' = tables d1"
  using assms that [of "pop (pop d)"] that [of "pop (pop (pop d))"]
  by (auto simp: ModifyAffiliation_def bindE_Inr seqE_Inr checkDB_eq attemptE_Inr GetAffiliation_Inr
      doTransaction_Inr case_sum_run dest!: GetAffiliation_state)

lemma ModifyAffiliation_error:
  assumes "ModifyAffiliation like old new force isReg d = (Inl e, d')"
  shows "tables d' = tables d"
  using assms
  by (auto simp: ModifyAffiliation_def bindE_Inl bindE_Inr seqE_Inl seqE_Inr checkDB_eq attemptE_Inr attemptE_Inl
      case_sum_run dest!: GetAffiliation_state doTransaction_Inl split: if_splits)

lemma ModifyAffiliation_effect:
  assumes run: "ModifyAffiliation like old new force isReg d = (Inr res, d')"
    and like: "like_prefix like old"
    and inc: "\<not> path_under old new" "\<not> path_under new old"
    and uniq: "distinct (map ar_Name (db_affiliations d))" "distinct (map ur_Name (db_users d))"
  shows "db_affiliations d' =
      map (\<lambda>r. if path_under old (ar_Name r) then rename_row old new r else r) (db_affiliations d)
    \<and> user_paths d' = map (\<lambda>(n, p). (n, if path_under old p \<and> p \<in> ar_Name ` set (db_affiliations d)
                                    then rename_path old new p else p)) (user_paths d)
    \<and> db_certificates d' = db_certificates d
    \<and> (\<forall>p \<in> snd ` set (user_paths d). path_under old p \<and> p \<in> ar_Name ` set (db_affiliations d) \<longrightarrow> isReg \<and> force)"
proof -
  obtain d0 d3 where d0: "tables d0 = tables d"
    and tx: "modifyAffiliationTx like old new force isReg d0 = (Inr res, d3)" "tables d' = tables d3"
    using ModifyAffiliation_Inr [OF run] .
  obtain root rs d1 ids d2 where root: "filter (is_aff old) (db_affiliations d0) = root # rs"
    and d1: "tables d1 = tables d0"
    and rows: "renameAffiliationRows old new force isReg
        (filter (\<lambda>r. like (ar_Name r) (old @ ''.%'')) (db_affiliations d0) @ [root]) [] d1 = (Inr ids, d2)"
    and d2: "tables d3 = tables d2"
    using modifyAffiliationTx_Inr [OF tx(1)] .
  let ?affs = "filter (\<lambda>r. like (ar_Name r) (old @ ''.%'')) (db_affiliations d0) @ [root]"
  note fs = d0 [THEN tables_fields] d1 [THEN tables_fields] d2 [THEN tables_fields]
    tx(2) [THEN tables_fields]
  have like': "like v (old @ ''.%'') \<longleftrightarrow> path_under old v \<and> v \<noteq> old" for v
    using like by (auto simp: like_prefix_def path_under_iff strings_HasPrefix_iff)
  have in_root: "root \<in> set (db_affiliations d)" "ar_Name root = old"
    using root fs Cons_eq_filterD [OF root [symmetric]] by auto
  have names: "n \<in> ar_Name ` set ?affs \<longleftrightarrow> path_under old n \<and> n \<in> ar_Name ` set (db_affiliations d)" for n
  proof -
    have "set ?affs = {r \<in> set (db_affiliations d). path_under old (ar_Name r) \<and> ar_Name r \<noteq> old} \<union> {root}"
      using fs by (simp add: like' Un_commute)
    then show ?thesis using in_root by auto (metis (mono_tags) imageI)?
  qed
  have sub: "set ?affs \<subseteq> set (db_affiliations d)" using in_root fs by auto
  have eff: "db_affiliations d2 = map (\<lambda>r. if ar_Name r \<in> ar_Name ` set ?affs then rename_row old new r else r)
            (db_affiliations d1)
    \<and> user_paths d2 = map (\<lambda>(n, p). (n, if p \<in> ar_Name ` set ?affs then rename_path old new p else p))
            (user_paths d1)
    \<and> db_certificates d2 = db_certificates d1
    \<and> (ar_Name ` set ?affs \<inter> snd ` set (user_paths d1) \<noteq> {} \<longrightarrow> isReg \<and> force)"
  proof (rule renameAffiliationRows_effect [OF rows inc])
    show "\<forall>a \<in> set ?affs. path_under old (ar_Name a)" using names by blast
    show "distinct (map ar_Name ?affs)"
      using uniq(1) fs in_root by (auto simp: like' distinct_map inj_on_def)
    show "\<forall>a \<in> set ?affs. \<forall>r \<in> set (db_affiliations d1). ar_Name r = ar_Name a \<longrightarrow> r = a"
      using uniq(1) fs sub by (auto simp: distinct_map inj_on_def)
    show "distinct (map fst (user_paths d1))"
      using uniq(2) fs by (simp add: user_paths_def comp_def)
  qed
  have up: "user_paths d1 = user_paths d" "user_paths d' = user_paths d2"
    using fs by (simp_all add: user_paths_def)
  have "\<forall>p \<in> snd ` set (user_paths d1). p \<in> ar_Name ` set ?affs \<longrightarrow> isReg \<and> force"
    using eff by blast
  then show ?thesis
    using eff fs unfolding names up by auto
qed

end
