(* ===== verification/Cert_Store.thy ===== *)
theory Cert_Store
  imports Affiliation_Registry
begin

text \<open>
  The certificates of the database: \<open>CertDBAccessor\<close> of \<open>lib/certdbaccessor.go\<close> with the
  statements of the accessor it delegates to
  (\<open>vendor/github.com/cloudflare/cfssl/certdb/sql\<close>).

  Certificates are decoded by the standard library's X.509 parser, a function
  \<open>parse\<close> from PEM text to the fields the server reads.  The current time of the server and
  of the database is the argument \<open>now\<close>.  The table of OCSP responses, which the server
  never uses, is left out.
\<close>

section \<open>Certificates and requests\<close>

text \<open>A public key: an RSA key by its modulus, an elliptic-curve key by its first coordinate.\<close>

datatype PublicKey = RSAKey nat | ECDSAKey nat | DSAKey

record X509 =
  x_CommonName :: string
  x_SerialNumber :: int
  x_AuthorityKeyId :: "nat list"
  x_NotBefore :: int
  x_NotAfter :: int
  x_IsCA :: bool
  x_KeyUsage :: nat
  x_PublicKey :: PublicKey

type_synonym pem_parser = "string \<Rightarrow> X509 option"

text \<open>The filters of a request for certificates; a time filter may be absent.\<close>

record CertificateRequestImpl =
  rq_ID :: string
  rq_SerialNumber :: string
  rq_Aki :: string
  rq_Notexpired :: bool
  rq_Notrevoked :: bool
  rq_ExpiredTimeStart :: "int option"
  rq_ExpiredTimeEnd :: "int option"
  rq_RevokedTimeStart :: "int option"
  rq_RevokedTimeEnd :: "int option"

definition GetEnrollmentIDFromX509Certificate :: "X509 \<Rightarrow> string" where
  "GetEnrollmentIDFromX509Certificate cert = x_CommonName cert"

definition GetEnrollmentIDFromPEM :: "pem_parser \<Rightarrow> string \<Rightarrow> string result" where
  "GetEnrollmentIDFromPEM parse pem =
     (case parse pem of
        None \<Rightarrow> Inl (PlainErr ''Failed to PEM decode certificate'')
      | Some cert \<Rightarrow> Inr (GetEnrollmentIDFromX509Certificate cert))"

text \<open>\<open>SetString(s, 10)\<close> of \<open>math/big\<close>; a malformed number leaves the zero value.\<close>

definition big_SetString10 :: "string \<Rightarrow> int" where
  "big_SetString10 s =
     (let (neg, ds) = (case s of [] \<Rightarrow> (False, [])
                       | c # cs \<Rightarrow> if c = CHR ''-'' then (True, cs)
                                  else if c = CHR ''+'' then (False, cs) else (False, s))
      in if ds = [] then 0
         else (case digits_val ds 0 of None \<Rightarrow> 0 | Some v \<Rightarrow> if neg then - v else v))"

section \<open>Operations\<close>

abbreviation is_cert :: "string \<Rightarrow> string \<Rightarrow> CertRecord \<Rightarrow> bool" where
  "is_cert serial aki \<equiv> \<lambda>c. cr_Serial c = serial \<and> cr_AKI c = aki"

abbreviation cert_key :: "CertRecord \<Rightarrow> string \<times> string" where
  "cert_key c \<equiv> (cr_Serial c, cr_AKI c)"

text \<open>The primary key of the table.\<close>

definition certs_clash :: "string \<Rightarrow> string \<Rightarrow> sqldb \<Rightarrow> bool" where
  "certs_clash serial aki d \<longleftrightarrow> (serial, aki) \<in> cert_key ` set (db_certificates d)"

definition newCertRecord :: "int \<Rightarrow> string \<Rightarrow> CertRecord \<Rightarrow> CertRecord" where
  "newCertRecord level uid cr =
     cr\<lparr>cr_ID := uid, cr_Level := level,
        cr_Serial := GetSerialAsHex (big_SetString10 (cr_Serial cr)),
        cr_AKI := strings_TrimLeft (cr_AKI cr) CHR ''0''\<rparr>"

definition InsertCertificate :: "pem_parser \<Rightarrow> int \<Rightarrow> CertRecord \<Rightarrow> unit dbop" where
  "InsertCertificate parse level cr =
     seqE checkDB
     (bindE (liftE (GetEnrollmentIDFromPEM parse (cr_PEM cr))) (\<lambda>uid.
      let record = newCertRecord level uid cr in
      bindE (mapErrE WithCause
              (sql_insert db_certificates db_certificates_update
                 (certs_clash (cr_Serial record) (cr_AKI record)) record)) (\<lambda>numRowsAffected.
      if numRowsAffected = 0 then throwE (PlainErr ''Failed to insert the certificate record; no rows affected'')
      else if numRowsAffected \<noteq> 1 then throwE (PlainErr ''Expected to affect 1 entry in certificate database'')
      else returnE ())))"

definition GetCertificatesByID :: "string \<Rightarrow> CertRecord list dbop" where
  "GetCertificatesByID uid =
     seqE checkDB (sql_select db_certificates (\<lambda>c. cr_ID c = uid))"

definition GetCertificate :: "string \<Rightarrow> string \<Rightarrow> CertRecord list dbop" where
  "GetCertificate serial aki =
     seqE checkDB (mapErrE WithCause (sql_select db_certificates (is_cert serial aki)))"

definition GetCertificateWithID :: "string \<Rightarrow> string \<Rightarrow> CertRecord dbop" where
  "GetCertificateWithID serial aki =
     seqE checkDB (mapErrE getError (sql_get db_certificates (is_cert serial aki)))"

definition GetUnexpiredCertificates :: "int \<Rightarrow> CertRecord list dbop" where
  "GetUnexpiredCertificates now =
     seqE checkDB (mapErrE WithCause (sql_select db_certificates (\<lambda>c. now < cr_Expiry c)))"

definition GetRevokedCertificates ::
  "int \<Rightarrow> int \<Rightarrow> int \<Rightarrow> int \<Rightarrow> CertRecord list dbop" where
  "GetRevokedCertificates expiredAfter expiredBefore revokedAfter revokedBefore =
     seqE checkDB
     (let whereConds =
            [\<lambda>c. cr_Status c = ''revoked'' \<and> cr_Expiry c > expiredAfter \<and> cr_RevokedAt c > revokedAfter]
            @ (if expiredBefore \<noteq> 0 then [\<lambda>c. cr_Expiry c < expiredBefore] else [])
            @ (if revokedBefore \<noteq> 0 then [\<lambda>c. cr_RevokedAt c < revokedBefore] else [])
      in mapErrE getError
           (sql_select db_certificates (\<lambda>c. list_all (\<lambda>P. P c) whereConds)))"

definition GetRevokedAndUnexpiredCertificates :: "int \<Rightarrow> CertRecord list dbop" where
  "GetRevokedAndUnexpiredCertificates now =
     seqE checkDB (mapErrE WithCause
       (sql_select db_certificates (\<lambda>c. now < cr_Expiry c \<and> cr_Status c = ''revoked'')))"

definition GetRevokedAndUnexpiredCertificatesByLabel :: "int \<Rightarrow> string \<Rightarrow> CertRecord list dbop" where
  "GetRevokedAndUnexpiredCertificatesByLabel now label =
     seqE checkDB (mapErrE WithCause
       (sql_select db_certificates
          (\<lambda>c. now < cr_Expiry c \<and> cr_Status c = ''revoked'' \<and> cr_CALabel c = label)))"

definition RevokeCertificatesByID :: "int \<Rightarrow> string \<Rightarrow> int \<Rightarrow> CertRecord list dbop" where
  "RevokeCertificatesByID now uid reasonCode =
     seqE checkDB
     (bindE (sql_select db_certificates (\<lambda>c. cr_ID c = uid \<and> cr_Status c \<noteq> ''revoked'')) (\<lambda>crs.
      seqE (sql_update db_certificates db_certificates_update
              (\<lambda>c. cr_ID c = uid \<and> cr_Status c \<noteq> ''revoked'') (revoke_row now reasonCode))
      (returnE crs)))"

definition RevokeCertificate :: "int \<Rightarrow> string \<Rightarrow> string \<Rightarrow> int \<Rightarrow> unit dbop" where
  "RevokeCertificate now serial aki reasonCode =
     seqE checkDB
     (bindE (mapErrE WithCause
              (sql_update db_certificates db_certificates_update (is_cert serial aki)
                 (revoke_row now reasonCode))) (\<lambda>numRowsAffected.
      if numRowsAffected = 0 then throwE (PlainErr ''failed to revoke the certificate: certificate not found'')
      else if numRowsAffected \<noteq> 1 then throwE (PlainErr ''rows are affected, should be 1 row'')
      else returnE ()))"

text \<open>
  \<open>GetCertificates\<close>: the conditions in the order in which the code appends them.  A row of
  the query is a certificate, joined with a user when the caller is not at the root
  affiliation.
\<close>

type_synonym cert_cond = "CertRecord \<times> UserRecord option \<Rightarrow> bool"

definition affiliationConds :: "(string \<Rightarrow> string \<Rightarrow> bool) \<Rightarrow> string \<Rightarrow> cert_cond list" where
  "affiliationConds like callersAffiliation =
     (if callersAffiliation \<noteq> [] then
        [\<lambda>(c, u). case u of None \<Rightarrow> False
           | Some u \<Rightarrow> ur_Affiliation u = callersAffiliation \<or>
                      like (ur_Affiliation u) (callersAffiliation @ ''.%'')]
      else [])"

definition keyConds :: "CertificateRequestImpl \<Rightarrow> cert_cond list" where
  "keyConds req =
     (if rq_ID req \<noteq> [] then [\<lambda>(c, u). cr_ID c = rq_ID req] else [])
     @ (if rq_SerialNumber req \<noteq> []
        then (let serial = strings_TrimLeft (strings_ToLower (rq_SerialNumber req)) CHR ''0''
              in [\<lambda>(c, u). cr_Serial c = serial]) else [])
     @ (if rq_Aki req \<noteq> []
        then (let aki = strings_TrimLeft (strings_ToLower (rq_Aki req)) CHR ''0''
              in [\<lambda>(c, u). cr_AKI c = aki]) else [])"

definition expiryConds :: "int \<Rightarrow> CertificateRequestImpl \<Rightarrow> cert_cond list" where
  "expiryConds now req =
     (if rq_Notexpired req then [\<lambda>(c, u). cr_Expiry c \<ge> now]
      else if rq_ExpiredTimeStart req \<noteq> None \<or> rq_ExpiredTimeEnd req \<noteq> None then
        (case rq_ExpiredTimeStart req of
           Some start \<Rightarrow> [\<lambda>(c, u). cr_Expiry c \<ge> start] | None \<Rightarrow> [\<lambda>(c, u). cr_Expiry c \<ge> 0])
        @ (case rq_ExpiredTimeEnd req of
             Some end_ \<Rightarrow> [\<lambda>(c, u). cr_Expiry c \<le> end_] | None \<Rightarrow> [])
      else [])"

definition revocationConds :: "CertificateRequestImpl \<Rightarrow> cert_cond list" where
  "revocationConds req =
     (if rq_Notrevoked req then [\<lambda>(c, u). cr_RevokedAt c = 0]
      else if rq_RevokedTimeStart req \<noteq> None \<or> rq_RevokedTimeEnd req \<noteq> None then
        (case rq_RevokedTimeStart req of
           Some start \<Rightarrow> [\<lambda>(c, u). cr_RevokedAt c \<ge> start] | None \<Rightarrow> [\<lambda>(c, u). cr_RevokedAt c > 0])
        @ (case rq_RevokedTimeEnd req of
             Some end_ \<Rightarrow> [\<lambda>(c, u). cr_RevokedAt c \<le> end_] | None \<Rightarrow> [])
      else [])"

definition certRows :: "string \<Rightarrow> sqldb \<Rightarrow> (CertRecord \<times> UserRecord option) list" where
  "certRows callersAffiliation d =
     (if callersAffiliation \<noteq> []
      then concat (map (\<lambda>c. map (\<lambda>u. (c, Some u)) (filter (\<lambda>u. ur_Name u = cr_ID c) (db_users d)))
             (db_certificates d))
      else map (\<lambda>c. (c, None)) (db_certificates d))"

definition GetCertificates ::
  "(string \<Rightarrow> string \<Rightarrow> bool) \<Rightarrow> int \<Rightarrow> CertificateRequestImpl \<Rightarrow> string \<Rightarrow> string list dbop" where
  "GetCertificates like now req callersAffiliation =
     seqE checkDB
     (let whereConds = affiliationConds like callersAffiliation @ keyConds req
            @ expiryConds now req @ revocationConds req
      in bindE (mapErrE getError (sql_select (certRows callersAffiliation)
                  (\<lambda>row. list_all (\<lambda>P. P row) whereConds))) (\<lambda>rows.
         returnE (map (\<lambda>(c, u). cr_PEM c) rows)))"

section \<open>Results of the operations\<close>

lemma InsertCertificate_Inr:
  "InsertCertificate parse level cr d = (Inr (), d') \<longleftrightarrow>
     (\<exists>cert record. parse (cr_PEM cr) = Some cert \<and> record = newCertRecord level (x_CommonName cert) cr \<and>
        db_set d \<and> \<not> faulty d \<and> \<not> certs_clash (cr_Serial record) (cr_AKI record) d \<and>
        d' = db_certificates_update (\<lambda>rows. rows @ [record]) (pop d))"
  by (auto simp: InsertCertificate_def GetEnrollmentIDFromPEM_def
      GetEnrollmentIDFromX509Certificate_def Let_def em_simps certs_clash_def
      split: option.splits if_splits)

lemma RevokeCertificate_Inr:
  "RevokeCertificate now serial aki reason d = (Inr (), d') \<longleftrightarrow>
     db_set d \<and> \<not> faulty d \<and> length (filter (is_cert serial aki) (db_certificates d)) = 1 \<and>
     d' = db_certificates_update
            (map (\<lambda>c. if is_cert serial aki c then revoke_row now reason c else c)) (pop d)"
  by (auto simp: RevokeCertificate_def em_simps split: if_splits)

lemma RevokeCertificatesByID_Inr:
  "RevokeCertificatesByID now uid reason d = (Inr crs, d') \<longleftrightarrow>
     db_set d \<and> \<not> faulty d \<and> \<not> faulty (pop d) \<and>
     crs = filter (\<lambda>c. cr_ID c = uid \<and> cr_Status c \<noteq> ''revoked'') (db_certificates d) \<and>
     d' = db_certificates_update
            (map (\<lambda>c. if cr_ID c = uid \<and> cr_Status c \<noteq> ''revoked'' then revoke_row now reason c else c))
            (pop (pop d))"
  by (auto simp: RevokeCertificatesByID_def em_simps)

lemma GetCertificateWithID_Inr:
  "GetCertificateWithID serial aki d = (Inr c, d') \<longleftrightarrow>
     db_set d \<and> \<not> faulty d \<and> d' = pop d \<and>
     (\<exists>cs. filter (is_cert serial aki) (db_certificates d) = c # cs)"
  by (auto simp: GetCertificateWithID_def em_simps)

lemma GetRevokedCertificates_Inr:
  "GetRevokedCertificates ea eb ra rb d = (Inr cs, d') \<longleftrightarrow>
     db_set d \<and> \<not> faulty d \<and> d' = pop d \<and>
     cs = filter (\<lambda>c. cr_Status c = ''revoked'' \<and> cr_Expiry c > ea \<and> cr_RevokedAt c > ra \<and>
            (eb \<noteq> 0 \<longrightarrow> cr_Expiry c < eb) \<and> (rb \<noteq> 0 \<longrightarrow> cr_RevokedAt c < rb)) (db_certificates d)"
  by (auto simp: GetRevokedCertificates_def Let_def em_simps intro!: filter_cong)

section \<open>Invariants\<close>

text \<open>The primary key: no two certificates share serial number and authority key.\<close>

definition cert_keys_ok :: "sqldb \<Rightarrow> bool" where
  "cert_keys_ok d \<longleftrightarrow> distinct (map cert_key (db_certificates d))"

text \<open>The certificates that are revoked; being revoked is permanent.\<close>

definition revoked_keys :: "sqldb \<Rightarrow> (string \<times> string) set" where
  "revoked_keys d = cert_key ` {c \<in> set (db_certificates d). cr_Status c = ''revoked''}"

abbreviation stays_revoked :: "string \<times> string \<Rightarrow> sqldb \<Rightarrow> bool" where
  "stays_revoked k \<equiv> \<lambda>d. k \<in> revoked_keys d"

lemma revoke_row_key [simp]:
  "cr_Serial (revoke_row now reason c) = cr_Serial c" "cr_AKI (revoke_row now reason c) = cr_AKI c"
  "cr_ID (revoke_row now reason c) = cr_ID c" "cr_Status (revoke_row now reason c) = ''revoked''"
  "cr_Expiry (revoke_row now reason c) = cr_Expiry c" "cr_PEM (revoke_row now reason c) = cr_PEM c"
  "cr_RevokedAt (revoke_row now reason c) = now"
  by (simp_all add: revoke_row_def)

lemma cert_invs_pop [simp]:
  "revoked_keys (pop d) = revoked_keys d" "cert_keys_ok (pop d) = cert_keys_ok d"
  "revoked_keys (d\<lparr>db_faults := fs\<rparr>) = revoked_keys d"
  "cert_keys_ok (d\<lparr>db_faults := fs\<rparr>) = cert_keys_ok d"
  "revoked_keys (db_users_update f d) = revoked_keys d"
  "cert_keys_ok (db_users_update f d) = cert_keys_ok d"
  "revoked_keys (db_affiliations_update g d) = revoked_keys d"
  "cert_keys_ok (db_affiliations_update g d) = cert_keys_ok d"
  "revoked_keys (db_properties_update h d) = revoked_keys d"
  "cert_keys_ok (db_properties_update h d) = cert_keys_ok d"
  by (simp_all add: revoked_keys_def cert_keys_ok_def)

lemma revoked_keys_revoke:
  "k \<in> revoked_keys d \<Longrightarrow>
     k \<in> revoked_keys (db_certificates_update (map (\<lambda>c. if P c then revoke_row now reason c else c)) d)"
proof -
  assume "k \<in> revoked_keys d"
  then obtain c where c: "c \<in> set (db_certificates d)" "cr_Status c = ''revoked''" "k = cert_key c"
    by (auto simp: revoked_keys_def)
  let ?c = "if P c then revoke_row now reason c else c"
  have "?c \<in> set (map (\<lambda>c. if P c then revoke_row now reason c else c) (db_certificates d))"
    unfolding set_map by (rule imageI [OF c(1)])
  moreover have "cr_Status ?c = ''revoked''" "cert_key ?c = k" using c by simp_all
  ultimately show ?thesis by (auto simp: revoked_keys_def)
qed

lemma map_cert_key_revoke:
  "map cert_key (map (\<lambda>c. if P c then revoke_row now reason c else c) cs) = map cert_key cs"
  by simp

lemma cert_keys_ok_revoke:
  "cert_keys_ok d \<Longrightarrow>
     cert_keys_ok (db_certificates_update (map (\<lambda>c. if P c then revoke_row now reason c else c)) d)"
  by (simp add: cert_keys_ok_def map_cert_key_revoke del: map_map)

text \<open>
  A property of the database that reading keeps, and one that every change of the tables
  by the server keeps: users, affiliations and properties may change freely, certificates
  may be revoked, and a certificate may be added under a new key.
\<close>

locale db_invariant =
  fixes I :: "sqldb \<Rightarrow> bool"
  assumes I_pop: "I d \<Longrightarrow> I (pop d)"
    and I_faults: "I d \<Longrightarrow> I (d\<lparr>db_faults := fs\<rparr>)"
begin

lemma I_reads:
  "keeps I (sql_select T P)" "keeps I (sql_get T' P')" "keeps I (GetUser uid)"
  "keeps I (GetAffiliation name)"
  by (intro keeps_select keeps_get keeps_GetUser keeps_GetAffiliation I_pop; assumption)+

lemma I_args: "keeps I (sql (\<lambda>d. (Inl e, d)))"
  by (simp add: keeps_def sql_def I_pop)

lemma I_tx: "keeps I m \<Longrightarrow> keeps I (doTransaction m)"
  by (rule keeps_doTransaction [OF _ I_pop I_faults])

lemma I_readers:
  "keeps I (GetProperties names)" "keeps I (GetUserLessThanLevel level)"
  "keeps I (GetFilteredUsers like aff types)" "keeps I (GetAffiliationTree like name)"
  "keeps I (GetAllAffiliations like name)" "keeps I (GetCertificatesByID uid)"
  "keeps I (GetCertificate serial aki)" "keeps I (GetCertificateWithID serial aki)"
  "keeps I (GetUnexpiredCertificates now)" "keeps I (GetRevokedCertificates a b c e)"
  "keeps I (GetRevokedAndUnexpiredCertificates now)" "keeps I (GetCertificates like now req aff)"
  unfolding GetProperties_def GetUserLessThanLevel_def GetFilteredUsers_def GetAffiliationTree_def
    getAffiliationTreeTx_def GetAllAffiliations_def GetCertificatesByID_def GetCertificate_def
    GetCertificateWithID_def GetUnexpiredCertificates_def GetRevokedCertificates_def
    GetRevokedAndUnexpiredCertificates_def GetCertificates_def Let_def
  by (intro keeps_intros I_reads I_tx I_args)+

end

locale cert_invariant = db_invariant +
  assumes I_users: "I d \<Longrightarrow> I (db_users_update fu d)"
    and I_affs: "I d \<Longrightarrow> I (db_affiliations_update fa d)"
    and I_props: "I d \<Longrightarrow> I (db_properties_update fp d)"
    and I_revoke: "I d \<Longrightarrow>
          I (db_certificates_update (map (\<lambda>c. if P c then revoke_row now reason c else c)) d)"
    and I_insert: "I d \<Longrightarrow> \<not> certs_clash (cr_Serial r) (cr_AKI r) d \<Longrightarrow>
          I (db_certificates_update (\<lambda>rows. rows @ [r]) d)"
begin

lemma I_one_row: "keeps I (one_row n)"
  unfolding one_row_def by (intro keeps_intros)

lemma I_writes:
  "keeps I (sql_update db_users db_users_update P f)"
  "keeps I (sql_delete db_users db_users_update P)"
  "keeps I (sql_insert db_users db_users_update clash u)"
  "keeps I (sql_delete db_affiliations db_affiliations_update Q)"
  "keeps I (sql_insert db_affiliations db_affiliations_update clash a)"
  "keeps I (sql_update db_properties db_properties_update R g)"
  "keeps I (sql_update db_certificates db_certificates_update S (revoke_row now reason))"
  by (intro keeps_update keeps_delete keeps_insert I_pop I_users I_affs I_props I_revoke; assumption)+

lemma I_user_ops:
  "keeps I (InsertUser B user)" "keeps I (DeleteUser now uid)" "keeps I (UpdateUser B user upd)"
  "keeps I (SetLevel u level)" "keeps I (LoginComplete u)" "keeps I (Revoke u)"
  "keeps I (ModifyAttributes u as)"
  unfolding InsertUser_def DeleteUser_def deleteUserTx_def UpdateUser_def SetLevel_def
    LoginComplete_def Revoke_def ModifyAttributes_def Let_def
  by (intro keeps_intros I_reads I_writes I_tx I_one_row I_pop; assumption)+

lemma I_aff_ops:
  "keeps I (InsertAffiliation name prekey level)"
  "keeps I (DeleteAffiliation like now name force idRemoval isReg)"
  unfolding InsertAffiliation_def DeleteAffiliation_def deleteAffiliationTx_def affiliationIds_def
    guardRemoveIds_def removeIds_def removeAffiliations_def Let_def
  by (intro keeps_intros I_reads I_writes I_tx I_pop; assumption)+

lemma I_rename_sql:
  "keeps I (sql (\<lambda>d. if Q d then (Inl e, d) else (Inr (n d), db_affiliations_update (g d) d)))"
  unfolding keeps_def sql_def by (auto intro: I_pop I_affs)

lemma I_renameRow: "keeps I (renameAffiliationRow old new force isReg aff)"
  unfolding renameAffiliationRow_def updateRenamedUser_def Let_def
  by (intro keeps_intros I_reads I_writes I_rename_sql I_one_row I_pop; assumption)+

lemma I_renameRows: "keeps I (renameAffiliationRows old new force isReg affs ids)"
  by (induction affs arbitrary: ids) (auto intro: keeps_intros I_renameRow)

lemma I_ModifyAffiliation: "keeps I (ModifyAffiliation like old new force isReg)"
  unfolding ModifyAffiliation_def modifyAffiliationTx_def
  by (intro keeps_intros I_reads I_renameRows I_tx I_pop; assumption)+

lemma I_cert_ops:
  "keeps I (InsertCertificate parse level cr)" "keeps I (RevokeCertificate now serial aki reason)"
  "keeps I (RevokeCertificatesByID now uid reason)"
  unfolding InsertCertificate_def RevokeCertificate_def RevokeCertificatesByID_def Let_def
  by (intro keeps_intros I_reads I_writes keeps_insert I_pop I_insert; assumption)+

end

interpretation keys: cert_invariant cert_keys_ok
proof
  show "cert_keys_ok (db_certificates_update (\<lambda>rows. rows @ [r]) d)"
    if "cert_keys_ok d" "\<not> certs_clash (cr_Serial r) (cr_AKI r) d" for r d
    using that by (auto simp: cert_keys_ok_def certs_clash_def)
qed (auto intro: cert_keys_ok_revoke)

interpretation revoked: cert_invariant "stays_revoked k" for k
proof
  show "k \<in> revoked_keys (db_certificates_update (\<lambda>rows. rows @ [r]) d)"
    if "k \<in> revoked_keys d" "\<not> certs_clash (cr_Serial r) (cr_AKI r) d" for r d
    using that by (auto simp: revoked_keys_def)
qed (auto intro: revoked_keys_revoke)

end
