(* ===== verification/Version_Levels.thy ===== *)
theory Version_Levels
  imports Fabric_Util
begin

text \<open>
  Versions and the levels of the database tables, \<open>lib/metadata/version.go\<close> and \<open>Levels\<close> of
  \<open>lib/dbutil/dbutil.go\<close>.
\<close>

record Levels =
  lv_Identity :: int
  lv_Affiliation :: int
  lv_Certificate :: int
  lv_Credential :: int
  lv_RAInfo :: int
  lv_Nonce :: int

definition IdentityLevel :: int where "IdentityLevel = 1"

definition strs :: "string \<Rightarrow> string list" where
  "strs version = strings_Split (hd (strings_Split version CHR ''-'')) CHR ''.''"

definition val :: "string list \<Rightarrow> nat \<Rightarrow> int result" where
  "val ss i =
     (if i \<ge> length ss then Inr 0
      else (case strconv_Atoi (ss ! i) of
              None \<Rightarrow> Inl (WithCause (PlainErr ''Invalid version format''))
            | Some v \<Rightarrow> Inr v))"

fun cmpVersion_loop :: "string list \<Rightarrow> string list \<Rightarrow> nat list \<Rightarrow> int result" where
  "cmpVersion_loop v1 v2 [] = Inr 0"
| "cmpVersion_loop v1 v2 (i # is) =
     bindR (mapErrR WithCause (val v1 i)) (\<lambda>v1val.
     bindR (mapErrR WithCause (val v2 i)) (\<lambda>v2val.
       if v1val < v2val then Inr 1
       else if v1val > v2val then Inr (- 1)
       else cmpVersion_loop v1 v2 is))"

definition CmpVersion :: "string \<Rightarrow> string \<Rightarrow> int result" where
  "CmpVersion v1 v2 =
     cmpVersion_loop (strs v1) (strs v2) [0..<max (length (strs v1)) (length (strs v2))]"

definition versionToLevelsMapping :: "(string \<times> Levels) list" where
  "versionToLevelsMapping =
     [(''0'', \<lparr>lv_Identity = 0, lv_Affiliation = 0, lv_Certificate = 0, lv_Credential = 0, lv_RAInfo = 0, lv_Nonce = 0\<rparr>),
      (''1.1.0'', \<lparr>lv_Identity = 1, lv_Affiliation = 1, lv_Certificate = 1, lv_Credential = 0, lv_RAInfo = 0, lv_Nonce = 0\<rparr>),
      (''1.2.0'', \<lparr>lv_Identity = 1, lv_Affiliation = 1, lv_Certificate = 1, lv_Credential = 1, lv_RAInfo = 1, lv_Nonce = 1\<rparr>)]"

text \<open>The loop of \<open>GetLevels\<close>, over the mapping from its end; the result may be nil.\<close>

fun getLevels_loop :: "string \<Rightarrow> (string \<times> Levels) list \<Rightarrow> Levels option result" where
  "getLevels_loop version [] = Inr None"
| "getLevels_loop version ((v, levels) # rest) =
     bindR (CmpVersion v version) (\<lambda>cmp.
       if cmp \<ge> 0 then Inr (Some levels) else getLevels_loop version rest)"

definition GetLevels :: "string \<Rightarrow> Levels option result" where
  "GetLevels version = getLevels_loop version (rev versionToLevelsMapping)"

section \<open>Comparison\<close>

lemma cmpVersion_loop_swap:
  "cmpVersion_loop a b is = Inr c \<Longrightarrow> cmpVersion_loop b a is = Inr (- c)"
proof (induction "is")
  case (Cons i "is")
  then obtain x y where "val a i = Inr x" "val b i = Inr y" by auto
  with Cons show ?case by (simp split: if_splits)
qed simp

lemma cmpVersion_loop_range: "cmpVersion_loop a b is = Inr c \<Longrightarrow> c \<in> {- 1, 0, 1}"
proof (induction "is")
  case (Cons i "is")
  then show ?case by (auto split: if_splits)
qed simp

text \<open>A version read as the list of its numbers, missing ones being zero, and the
  lexicographic order on these lists.\<close>

definition num :: "string list \<Rightarrow> nat \<Rightarrow> int" where
  "num ss i = (case val ss i of Inr v \<Rightarrow> v | Inl _ \<Rightarrow> 0)"

definition version_less :: "string list \<Rightarrow> string list \<Rightarrow> bool" where
  "version_less a b \<longleftrightarrow> (\<exists>k. (\<forall>i<k. num a i = num b i) \<and> num a k < num b k)"

lemma num_beyond [simp]: "length ss \<le> i \<Longrightarrow> num ss i = 0"
  by (simp add: num_def val_def)

lemma cmpVersion_loop_upt:
  assumes "cmpVersion_loop a b [j..<m] = Inr c"
  shows "c = 1 \<and> (\<exists>k. j \<le> k \<and> k < m \<and> (\<forall>i. j \<le> i \<and> i < k \<longrightarrow> num a i = num b i) \<and> num a k < num b k)
       \<or> c = - 1 \<and> (\<exists>k. j \<le> k \<and> k < m \<and> (\<forall>i. j \<le> i \<and> i < k \<longrightarrow> num a i = num b i) \<and> num b k < num a k)
       \<or> c = 0 \<and> (\<forall>i. j \<le> i \<and> i < m \<longrightarrow> num a i = num b i)"
  using assms
proof (induction "m - j" arbitrary: j)
  case (Suc n)
  then have lt: "j < m" by simp
  then have up: "[j..<m] = j # [Suc j..<m]" by (rule upt_conv_Cons)
  from Suc.prems obtain x y where xy: "val a j = Inr x" "val b j = Inr y"
    and res: "(if x < y then Inr 1 else if x > y then Inr (- 1)
               else cmpVersion_loop a b [Suc j..<m]) = Inr c"
    unfolding up by auto
  have nums: "num a j = x" "num b j = y" using xy by (simp_all add: num_def)
  consider "x < y" | "x > y" | "x = y" by linarith
  then show ?case
  proof cases
    case 3
    have IH: "c = 1 \<and> (\<exists>k. Suc j \<le> k \<and> k < m \<and> (\<forall>i. Suc j \<le> i \<and> i < k \<longrightarrow> num a i = num b i) \<and> num a k < num b k)
       \<or> c = - 1 \<and> (\<exists>k. Suc j \<le> k \<and> k < m \<and> (\<forall>i. Suc j \<le> i \<and> i < k \<longrightarrow> num a i = num b i) \<and> num b k < num a k)
       \<or> c = 0 \<and> (\<forall>i. Suc j \<le> i \<and> i < m \<longrightarrow> num a i = num b i)"
      using 3 res Suc.hyps(2) by (intro Suc.hyps(1)) auto
    have ext: "(\<forall>i. j \<le> i \<and> i < k \<longrightarrow> num a i = num b i)"
      if "\<forall>i. Suc j \<le> i \<and> i < k \<longrightarrow> num a i = num b i" for k
      using that nums 3 by (metis Suc_leI le_neq_implies_less)
    from IH ext show ?thesis by (meson Suc_leD)
  qed (use res nums lt in auto)
qed simp

lemma CmpVersion_order:
  assumes "CmpVersion v1 v2 = Inr c"
  shows "c = 1 \<longleftrightarrow> version_less (strs v1) (strs v2)"
    and "c = - 1 \<longleftrightarrow> version_less (strs v2) (strs v1)"
    and "c = 0 \<longleftrightarrow> (\<forall>i. num (strs v1) i = num (strs v2) i)"
proof -
  let ?a = "strs v1" and ?b = "strs v2"
  have le: "max (length ?a) (length ?b) \<le> i \<Longrightarrow> num ?a i = num ?b i" for i by simp
  have eq: "\<not> version_less ?a ?b \<and> \<not> version_less ?b ?a"
    if "\<forall>i. num ?a i = num ?b i" using that by (auto simp: version_less_def)
  have asym: "\<not> (version_less ?a ?b \<and> version_less ?b ?a)"
    unfolding version_less_def by (metis (no_types) less_asym linorder_neqE_nat order_less_irrefl)
  note loop = cmpVersion_loop_upt [OF assms [unfolded CmpVersion_def], simplified]
  have cases: "c = 1 \<and> version_less ?a ?b \<or> c = - 1 \<and> version_less ?b ?a
      \<or> c = 0 \<and> (\<forall>i. num ?a i = num ?b i)"
    using loop le unfolding version_less_def by (metis linorder_not_less max.cobounded1)
  have ne: "version_less ?a ?b \<or> version_less ?b ?a \<Longrightarrow> \<not> (\<forall>i. num ?a i = num ?b i)"
    using eq by blast
  show "c = 1 \<longleftrightarrow> version_less ?a ?b" "c = - 1 \<longleftrightarrow> version_less ?b ?a"
    "c = 0 \<longleftrightarrow> (\<forall>i. num ?a i = num ?b i)"
    using cases asym ne by auto
qed

end
