(* ===== verification/Key_Tree.thy ===== *)
theory Key_Tree
  imports Error_Monad
begin

text \<open>
  The tree of keys of \<open>lib/tcert/keytree.go\<close>: the key of a path is derived from the root key by the
  names on the path, and derived keys are remembered.  The derivation of a child's key is a function
  of the cryptographic provider, \<open>derive\<close>.
\<close>

section \<open>The tree\<close>

record 'k KeyTree =
  kt_rootKey :: 'k
  kt_keys :: "(string \<times> 'k) list"

definition NewKeyTree :: "'k \<Rightarrow> 'k KeyTree" where
  "NewKeyTree rootKey = \<lparr>kt_rootKey = rootKey, kt_keys = []\<rparr>"

definition deriveChildKey :: "('k \<Rightarrow> string \<Rightarrow> 'k option) \<Rightarrow> 'k \<Rightarrow> string \<Rightarrow> go_error + 'k" where
  "deriveChildKey derive parentKey childName =
     (case derive parentKey childName of
        None \<Rightarrow> Inl (PlainErr ''Failed to derive key'')
      | Some key \<Rightarrow> Inr key)"

text \<open>\<open>GetKey\<close>, with the path given from its last name to its first.\<close>

fun GetKey_rev :: "('k \<Rightarrow> string \<Rightarrow> 'k option) \<Rightarrow> string list \<Rightarrow> ('k KeyTree, go_error, 'k) em" where
  "GetKey_rev derive [] = getE kt_rootKey"
| "GetKey_rev derive (childName # parents) =
     (let pathStr = strings_Join (rev (childName # parents)) ''/'' in
      bindE (getE (\<lambda>t. map_of (kt_keys t) pathStr)) (\<lambda>key.
      case key of
        Some k \<Rightarrow> returnE k
      | None \<Rightarrow>
          bindE (GetKey_rev derive parents) (\<lambda>parentKey.
          bindE (liftE (deriveChildKey derive parentKey childName)) (\<lambda>k.
          seqE (modifyE (\<lambda>t. t\<lparr>kt_keys := AList.update pathStr k (kt_keys t)\<rparr>))
          (returnE k)))))"

definition GetKey :: "('k \<Rightarrow> string \<Rightarrow> 'k option) \<Rightarrow> string list \<Rightarrow> ('k KeyTree, go_error, 'k) em" where
  "GetKey derive path = GetKey_rev derive (rev path)"

section \<open>The memory is transparent\<close>

text \<open>The key of a path without a memory.\<close>

fun derive_rev :: "('k \<Rightarrow> string \<Rightarrow> 'k option) \<Rightarrow> 'k \<Rightarrow> string list \<Rightarrow> 'k option" where
  "derive_rev derive root [] = Some root"
| "derive_rev derive root (child # parents) =
     (case derive_rev derive root parents of None \<Rightarrow> None | Some k \<Rightarrow> derive k child)"

definition clean :: "string list \<Rightarrow> bool" where
  "clean path \<longleftrightarrow> (\<forall>w \<in> set path. CHR ''/'' \<notin> set w)"

definition tree_ok :: "('k \<Rightarrow> string \<Rightarrow> 'k option) \<Rightarrow> 'k \<Rightarrow> 'k KeyTree \<Rightarrow> bool" where
  "tree_ok derive root t \<longleftrightarrow> kt_rootKey t = root \<and>
     (\<forall>p k. p \<noteq> [] \<longrightarrow> clean p \<longrightarrow> map_of (kt_keys t) (strings_Join (rev p) ''/'') = Some k \<longrightarrow> derive_rev derive root p = Some k)"

lemma tree_ok_new: "tree_ok derive root (NewKeyTree root)"
  by (simp add: tree_ok_def NewKeyTree_def)

lemma clean_Join_inject:
  assumes "clean p" "clean q" "p \<noteq> []" "q \<noteq> []"
  shows "strings_Join (rev p) ''/'' = strings_Join (rev q) ''/'' \<longleftrightarrow> p = q"
proof -
  have "strings_Split (strings_Join (rev r) [CHR ''/'']) CHR ''/'' = rev r" if "clean r" "r \<noteq> []" for r
    using that by (intro strings_Split_Join) (auto simp: clean_def)
  from this [of p] this [of q] assms show ?thesis by (metis rev_is_rev_conv)
qed

lemma tree_ok_update:
  assumes ok: "tree_ok derive root t" and p: "clean p" "p \<noteq> []" "derive_rev derive root p = Some k"
  shows "tree_ok derive root (t\<lparr>kt_keys := AList.update (strings_Join (rev p) ''/'') k (kt_keys t)\<rparr>)"
  using ok p clean_Join_inject [OF _ p(1) _ p(2)]
  by (auto simp: tree_ok_def AList.update_conv')

lemma GetKey_rev_refines:
  assumes "tree_ok derive root t" and "clean p"
  shows "(case derive_rev derive root p of
       Some k \<Rightarrow> fst (GetKey_rev derive p t) = Inr k
     | None \<Rightarrow> \<exists>e. fst (GetKey_rev derive p t) = Inl e) \<and> tree_ok derive root (snd (GetKey_rev derive p t))"
  using assms
proof (induction p arbitrary: t)
  case Nil
  then show ?case by (simp add: tree_ok_def getE_def)
next
  case (Cons child parents)
  let ?p = "child # parents" and ?str = "strings_Join (rev (child # parents)) ''/''"
  show ?case
  proof (cases "map_of (kt_keys t) ?str")
    case (Some k)
    then have "derive_rev derive root ?p = Some k"
      using Cons.prems unfolding tree_ok_def by blast
    then show ?thesis using Some Cons.prems(1) by (simp add: em_defs Let_def)
  next
    case None
    obtain r t1 where run: "GetKey_rev derive parents t = (r, t1)" by (cases "GetKey_rev derive parents t")
    have ih: "case derive_rev derive root parents of Some k \<Rightarrow> r = Inr k | None \<Rightarrow> \<exists>e. r = Inl e" "tree_ok derive root t1"
      using Cons.IH [OF Cons.prems(1)] Cons.prems(2) run by (auto simp: clean_def split: option.splits)
    have upd: "derive_rev derive root ?p = Some k \<Longrightarrow>
        tree_ok derive root (t1\<lparr>kt_keys := AList.update ?str k (kt_keys t1)\<rparr>)" for k
      using tree_ok_update [OF ih(2) Cons.prems(2)] by simp
    show ?thesis
      using None ih run upd
      by (auto simp: em_defs Let_def deriveChildKey_def split: option.splits)
  qed
qed

text \<open>C33: the tree of keys.  Remembered keys are transparent: for a path of names without the separator, the key
  returned is the one derived from the root along the path, whatever was asked before, and the
  tree stays that way.\<close>

theorem GetKey_refines:
  assumes "tree_ok derive root t" and "clean path"
  shows "(case derive_rev derive root (rev path) of
       Some k \<Rightarrow> fst (GetKey derive path t) = Inr k
     | None \<Rightarrow> \<exists>e. fst (GetKey derive path t) = Inl e) \<and> tree_ok derive root (snd (GetKey derive path t))"
  unfolding GetKey_def using GetKey_rev_refines [OF assms(1), of "rev path"] assms(2) by (simp add: clean_def)

theorem GetKey_refines_witness:
  "fst (GetKey (\<lambda>k c. Some (k @ c)) [''a'', ''b''] (NewKeyTree ''r'')) = Inr ''rab''"
  using GetKey_refines [OF tree_ok_new, of "[''a'', ''b'']" "\<lambda>k c. Some (k @ c)" "''r''"]
  by (simp add: clean_def)

text \<open>A separator inside a name breaks this.  After the key of the one name \<open>a/b\<close> was asked for, the path
  from \<open>a\<close> to \<open>b\<close> is answered with that key, and not with its own.\<close>

theorem GetKey_separator_collision:
  "let derive = (\<lambda>k c. Some (c # k)); t = snd (GetKey derive [''a/b''] (NewKeyTree []))
   in fst (GetKey derive [''a'', ''b''] t) = Inr [''a/b''] \<and>
      fst (GetKey derive [''a'', ''b''] (NewKeyTree [])) = Inr [''b'', ''a'']"
  by code_simp

end
