(* ===== verification/CA_Bootstrap.thy ===== *)
theory CA_Bootstrap
  imports Cert_Store Version_Levels Key_Tree
begin

text \<open>
  A certificate authority and its start-up, \<open>lib/ca.go\<close>: the configured identities and
  affiliations are loaded into the database, the database is migrated to the server's
  level, the configuration's and the database's versions are checked, and the CA's own
  certificate is validated.  \<open>getMaxEnrollments\<close> is in \<open>lib/util.go\<close>, \<open>UpdateDBLevel\<close> in
  \<open>lib/dbutil/dbutil.go\<close>.

  Opening the database and creating its tables is one statement that fails or gives a
  handle; the update of an old table layout is an argument.  The registry is the one in the
  database (LDAP is not enabled).
\<close>

section \<open>Configuration\<close>

record CAConfigIdentity =
  ci_Name :: string
  ci_Pass :: string
  ci_Type :: string
  ci_Affiliation :: string
  ci_MaxEnrollments :: int
  ci_Attrs :: "(string \<times> string) list"

text \<open>The affiliations of the configuration file, an untyped value.  A Go map is the list
  of its entries in the order of the iteration.\<close>

datatype affiliations_cfg =
    AffNil
  | AffString string
  | AffStrings "string list"
  | AffList "affiliations_cfg list"
  | AffMap "(string \<times> affiliations_cfg) list"
  | AffOther

record CAConfig =
  cfg_Version :: string
  cfg_Name :: string
  cfg_DBType :: string
  cfg_MaxEnrollments :: int
  cfg_Identities :: "CAConfigIdentity list"
  cfg_Affiliations :: affiliations_cfg
  cfg_Identities_AllowRemove :: bool
  cfg_Affiliations_AllowRemove :: bool
  cfg_CRL_Expiry :: int

record CA =
  ca_Config :: CAConfig
  ca_levels :: Levels
  ca_db :: sqldb
  ca_currentCRI :: "(int \<times> string) option"
  ca_keyTree :: "string KeyTree"

section \<open>Limits on enrollments\<close>

definition getMaxEnrollments :: "int \<Rightarrow> int \<Rightarrow> int result" where
  "getMaxEnrollments userMaxEnrollments caMaxEnrollments =
     (if userMaxEnrollments < - 1 then Inl (PlainErr ''may not be less than -1'')
      else if caMaxEnrollments = - 1 then
        (if userMaxEnrollments = 0 then Inr caMaxEnrollments else Inr userMaxEnrollments)
      else if caMaxEnrollments = 0 then Inl (PlainErr ''Registration is disabled'')
      else if userMaxEnrollments = - 1 then
        Inl (PlainErr ''Registration for infinite enrollments is not allowed'')
      else if userMaxEnrollments = 0 then Inr caMaxEnrollments
      else if userMaxEnrollments > caMaxEnrollments then
        Inl (PlainErr ''exceeds maximum allowable enrollments'')
      else Inr userMaxEnrollments)"

section \<open>Loading the configured identities and affiliations\<close>

definition addIdentity :: "bcrypt \<Rightarrow> int \<Rightarrow> Levels \<Rightarrow> CAConfigIdentity \<Rightarrow> bool \<Rightarrow> unit dbop" where
  "addIdentity B caMax levels cid errIfFound =
     bindE (attemptE (GetUser (ci_Name cid))) (\<lambda>user.
     case user of
       Inr _ \<Rightarrow> if errIfFound then throwE (PlainErr ''Identity is already registered'') else returnE ()
     | Inl _ \<Rightarrow>
         (case getMaxEnrollments (ci_MaxEnrollments cid) caMax of
            Inl err \<Rightarrow> throwE (newFatalError ErrConfig)
          | Inr maxEnrollments \<Rightarrow>
              bindE (liftE (ConvertAttrs (ci_Attrs cid))) (\<lambda>attrs.
              mapErrE WithCause (InsertUser B (Some
                \<lparr>ui_Name = ci_Name cid, ui_Pass = ci_Pass cid, ui_Type = ci_Type cid,
                 ui_Affiliation = ci_Affiliation cid, ui_Attributes = attrs, ui_State = 0,
                 ui_MaxEnrollments = maxEnrollments, ui_Level = lv_Identity levels\<rparr>)))))"

definition loadUsersTable :: "bcrypt \<Rightarrow> CAConfig \<Rightarrow> Levels \<Rightarrow> unit dbop" where
  "loadUsersTable B cfg levels =
     forE (cfg_Identities cfg) (\<lambda>cid.
       mapErrE WithCause (addIdentity B (cfg_MaxEnrollments cfg) levels cid False))"

definition affiliationPath :: "string \<Rightarrow> string \<Rightarrow> string" where
  "affiliationPath name parent = (if parent = [] then name else parent @ ''.'' @ name)"

definition addAffiliation :: "Levels \<Rightarrow> string \<Rightarrow> string \<Rightarrow> unit dbop" where
  "addAffiliation levels path parentPath = InsertAffiliation path parentPath (lv_Affiliation levels)"

definition loadAffiliationString :: "Levels \<Rightarrow> string \<Rightarrow> string \<Rightarrow> unit dbop" where
  "loadAffiliationString levels name parentPath =
     addAffiliation levels (affiliationPath name parentPath) parentPath"

fun loadAffiliationsTableR :: "Levels \<Rightarrow> affiliations_cfg \<Rightarrow> string \<Rightarrow> unit dbop"
  and loadAffiliationsList :: "Levels \<Rightarrow> affiliations_cfg list \<Rightarrow> string \<Rightarrow> unit dbop"
  and loadAffiliationsMap :: "Levels \<Rightarrow> (string \<times> affiliations_cfg) list \<Rightarrow> string \<Rightarrow> unit dbop" where
  "loadAffiliationsTableR lv AffNil parentPath = returnE ()"
| "loadAffiliationsTableR lv (AffString name) parentPath = loadAffiliationString lv name parentPath"
| "loadAffiliationsTableR lv (AffStrings names) parentPath =
     forE names (\<lambda>name. loadAffiliationString lv name parentPath)"
| "loadAffiliationsTableR lv (AffList vals) parentPath = loadAffiliationsList lv vals parentPath"
| "loadAffiliationsTableR lv (AffMap entries) parentPath = loadAffiliationsMap lv entries parentPath"
| "loadAffiliationsTableR lv AffOther parentPath = throwE (GoPanic ''interface conversion'')"
| "loadAffiliationsList lv [] parentPath = returnE ()"
| "loadAffiliationsList lv (v # vs) parentPath =
     seqE (loadAffiliationsTableR lv v parentPath) (loadAffiliationsList lv vs parentPath)"
| "loadAffiliationsMap lv [] parentPath = returnE ()"
| "loadAffiliationsMap lv ((name, v) # entries) parentPath =
     (let path = affiliationPath name parentPath in
      seqE (addAffiliation lv path parentPath)
      (seqE (loadAffiliationsTableR lv v path) (loadAffiliationsMap lv entries parentPath)))"

definition loadAffiliationsTable :: "CAConfig \<Rightarrow> Levels \<Rightarrow> unit dbop" where
  "loadAffiliationsTable cfg levels =
     mapErrE WithCause (loadAffiliationsTableR levels (cfg_Affiliations cfg) [])"

section \<open>Migration and versions\<close>

definition migrateUserToLevel1 :: "DBUser \<Rightarrow> unit dbop" where
  "migrateUserToLevel1 user =
     seqE (case GetAttribute user Roles of
             Inl _ \<Rightarrow> returnE ()
           | Inr _ \<Rightarrow>
               (case GetAttribute user RegistrarAttr of
                  Inr _ \<Rightarrow> returnE ()
                | Inl _ \<Rightarrow> mapErrE WithCause (ModifyAttributes user
                    [\<lparr>attr_Name = RegistrarAttr, attr_Value = ''*'', attr_ECert = False\<rparr>])))
     (mapErrE WithCause (SetLevel user 1))"

fun int_string :: "nat \<Rightarrow> string" where
  "int_string n = (if n < 10 then [char_of (48 + n)] else int_string (n div 10) @ [char_of (48 + n mod 10)])"

declare int_string.simps [simp del]

definition updateLevel :: "string \<Rightarrow> int \<Rightarrow> unit dbop" where
  "updateLevel prop level =
     bindE (sql_update db_properties db_properties_update (\<lambda>p. fst p = prop)
       (\<lambda>p. (fst p, int_string (nat level)))) (\<lambda>_. returnE ())"

definition UpdateDBLevel :: "Levels \<Rightarrow> unit dbop" where
  "UpdateDBLevel levels =
     seqE (updateLevel ''identity.level'' (lv_Identity levels))
     (seqE (updateLevel ''affiliation.level'' (lv_Affiliation levels))
     (seqE (updateLevel ''certificate.level'' (lv_Certificate levels))
     (seqE (updateLevel ''credential.level'' (lv_Credential levels))
     (seqE (updateLevel ''rcinfo.level'' (lv_RAInfo levels))
     (updateLevel ''nonce.level'' (lv_Nonce levels))))))"

definition levelsOf :: "Levels option \<Rightarrow> Levels dbop" where
  "levelsOf sl = (case sl of None \<Rightarrow> throwE (GoPanic ''nil pointer dereference'') | Some l \<Rightarrow> returnE l)"

definition performMigration :: "string \<Rightarrow> unit dbop" where
  "performMigration serverVersion =
     bindE (GetUserLessThanLevel IdentityLevel) (\<lambda>users.
     seqE (forE users (\<lambda>user. if ui_Level user < 1 then migrateUserToLevel1 user else returnE ()))
     (bindE (liftE (GetLevels serverVersion)) (\<lambda>sl.
      bindE (levelsOf sl) (\<lambda>sl.
      mapErrE WithCause (UpdateDBLevel sl)))))"

definition checkConfigLevels :: "string \<Rightarrow> string \<Rightarrow> Levels option result" where
  "checkConfigLevels serverVersion configVersion =
     bindR (mapErrR WithCause (CmpVersion configVersion serverVersion)) (\<lambda>cmp.
     if cmp = - 1 then Inl (PlainErr ''Configuration file version is higher than server version'')
     else GetLevels configVersion)"

definition getIntLevel :: "(string \<times> string) list \<Rightarrow> string \<Rightarrow> int result" where
  "getIntLevel properties version =
     (let strVersion = (case map_of properties version of None \<Rightarrow> [] | Some v \<Rightarrow> v);
          strVersion' = (if strVersion = [] then ''0'' else strVersion)
      in case strconv_Atoi strVersion' of
           None \<Rightarrow> Inl (GoPanic ''strconv.Atoi'') | Some v \<Rightarrow> Inr v)"

definition checkDBLevels :: "string \<Rightarrow> unit dbop" where
  "checkDBLevels serverVersion =
     bindE (GetProperties [''identity.level'', ''affiliation.level'', ''certificate.level'']) (\<lambda>levels.
     bindE (liftE (GetLevels serverVersion)) (\<lambda>sl.
     bindE (levelsOf sl) (\<lambda>sl.
     bindE (liftE (getIntLevel levels ''identity'')) (\<lambda>idVer.
     bindE (liftE (getIntLevel levels ''affiliation'')) (\<lambda>affVer.
     bindE (liftE (getIntLevel levels ''certificate'')) (\<lambda>certVer.
     if idVer > lv_Identity sl \<or> affVer > lv_Affiliation sl \<or> certVer > lv_Certificate sl
     then throwE (newFatalError ErrDBLevel) else returnE ()))))))"

section \<open>Initialising the database\<close>

definition openDB :: "string \<Rightarrow> unit dbop" where
  "openDB dbtype d =
     (if faulty d then (Inl (WithCause (SqlErr SqlOther)), (pop d)\<lparr>db_set := False\<rparr>)
      else (Inr (), (pop d)\<lparr>db_set := True, db_initialized := False, db_driver := dbtype\<rparr>))"

text \<open>\<open>softE m\<close>: an error of \<open>m\<close> is logged and remembered; the result tells whether one occurred.\<close>

definition softE :: "unit dbop \<Rightarrow> bool dbop" where
  "softE m = bindE (attemptE m) (\<lambda>r. returnE (case r of Inl _ \<Rightarrow> True | Inr _ \<Rightarrow> False))"

definition loadRest :: "string \<Rightarrow> CAConfig \<Rightarrow> Levels \<Rightarrow> bool \<Rightarrow> unit dbop" where
  "loadRest serverVersion cfg levels dbError =
     bindE (softE (loadAffiliationsTable cfg levels)) (\<lambda>affError.
     bindE (softE (performMigration serverVersion)) (\<lambda>migError.
     if dbError \<or> affError \<or> migError then throwE (PlainErr ''Failed to initialize database'')
     else modifyE (\<lambda>d. d\<lparr>db_initialized := True\<rparr>)))"

definition loadRegistry :: "bcrypt \<Rightarrow> string \<Rightarrow> CAConfig \<Rightarrow> Levels \<Rightarrow> unit dbop" where
  "loadRegistry B serverVersion cfg levels =
     bindE (attemptE (loadUsersTable B cfg levels)) (\<lambda>users.
     case users of
       Inl err \<Rightarrow>
         if isFatalError err then throwE err else loadRest serverVersion cfg levels True
     | Inr _ \<Rightarrow> loadRest serverVersion cfg levels False)"

definition initDB :: "bcrypt \<Rightarrow> unit dbop \<Rightarrow> string \<Rightarrow> CAConfig \<Rightarrow> Levels \<Rightarrow> unit dbop" where
  "initDB B updateSchema serverVersion cfg levels =
     bindE (getE (\<lambda>d. db_set d \<and> db_initialized d)) (\<lambda>ready.
     if ready then returnE ()
     else
       (let dbType = (if cfg_DBType cfg = [] then ''sqlite3'' else cfg_DBType cfg) in
        seqE (unlessE (dbType \<in> {''sqlite3'', ''postgres'', ''mysql''}) (PlainErr ''Invalid db.type in config file''))
        (seqE (openDB dbType)
        (seqE (mapErrE WithCause updateSchema)
        (seqE (checkDBLevels serverVersion)
        (loadRegistry B serverVersion cfg levels))))))"

section \<open>Attributes of a user\<close>

definition getUserAttrValue :: "string \<Rightarrow> string \<Rightarrow> string dbop" where
  "getUserAttrValue username attrname =
     bindE (GetUser username) (\<lambda>user.
     bindE (mapErrE WithCause (liftE (GetAttribute user attrname))) (\<lambda>attrval.
     returnE (attr_Value attrval)))"

definition userHasAttribute :: "string \<Rightarrow> string \<Rightarrow> string dbop" where
  "userHasAttribute username attrname =
     bindE (getUserAttrValue username attrname) (\<lambda>val.
     if val = [] then throwE (PlainErr ''Identity does not have attribute'') else returnE val)"

definition attributeIsTrue :: "string \<Rightarrow> string \<Rightarrow> unit dbop" where
  "attributeIsTrue username attrname =
     bindE (userHasAttribute username attrname) (\<lambda>val.
     case strconv_ParseBool val of
       None \<Rightarrow> throwE (WithCause (PlainErr ''Invalid value for attribute''))
     | Some val2 \<Rightarrow>
         if val2 then returnE () else throwE (PlainErr ''Attribute is not set to true for identity''))"

definition getUserAffiliation :: "string \<Rightarrow> string dbop" where
  "getUserAffiliation username =
     bindE (GetUser username) (\<lambda>user. returnE (GetUserAffiliation user))"

section \<open>The CA's own certificate\<close>

fun bitlen :: "nat \<Rightarrow> nat" where
  "bitlen n = (if n = 0 then 0 else Suc (bitlen (n div 2)))"

declare bitlen.simps [simp del]

definition canSignCRL :: "X509 \<Rightarrow> bool" where
  "canSignCRL cert = bit (x_KeyUsage cert) 6"

definition validateDates :: "int \<Rightarrow> X509 \<Rightarrow> unit result" where
  "validateDates now cert =
     (if now > x_NotAfter cert then Inl (PlainErr ''Certificate provided has expired'')
      else if now < x_NotBefore cert then Inl (PlainErr ''Certificate provided not valid until later date'')
      else Inr ())"

definition validateUsage :: "X509 \<Rightarrow> unit result" where
  "validateUsage cert =
     (if x_KeyUsage cert = 0 then Inl (PlainErr ''No usage specified for certificate'')
      else if \<not> bit (x_KeyUsage cert) 5 then Inl (PlainErr ''The cert sign key usage is required'')
      else Inr ())"

definition validateIsCA :: "X509 \<Rightarrow> unit result" where
  "validateIsCA cert = requireR (x_IsCA cert) (PlainErr ''Certificate not configured to be used for CA'')"

definition validateKeyType :: "X509 \<Rightarrow> unit result" where
  "validateKeyType cert =
     (case x_PublicKey cert of DSAKey \<Rightarrow> Inl (PlainErr ''Unsupported key type: DSA'') | _ \<Rightarrow> Inr ())"

definition validateKeySize :: "X509 \<Rightarrow> unit result" where
  "validateKeySize cert =
     (case x_PublicKey cert of
        RSAKey n \<Rightarrow> if bitlen n < 2048 then Inl (PlainErr ''Key size is less than 2048 bits'') else Inr ()
      | _ \<Rightarrow> Inr ())"

text \<open>\<open>priv\<close> is the public part of the key in the key file, as far as it could be read and parsed
  for the kind of key asked for.\<close>

definition validateMatchingKeys :: "X509 \<Rightarrow> (go_error + PublicKey) \<Rightarrow> unit result" where
  "validateMatchingKeys cert priv =
     (case x_PublicKey cert of
        RSAKey n \<Rightarrow>
          bindR priv (\<lambda>k. case k of
             RSAKey m \<Rightarrow> requireR (m = n) (PlainErr ''Public key and private key do not match'')
           | _ \<Rightarrow> Inl (PlainErr ''Failed to parse RSA key''))
      | ECDSAKey x \<Rightarrow>
          bindR priv (\<lambda>k. case k of
             ECDSAKey y \<Rightarrow> requireR (y = x) (PlainErr ''Public key and private key do not match'')
           | _ \<Rightarrow> Inl (PlainErr ''Failed to parse EC key''))
      | DSAKey \<Rightarrow> Inr ())"

definition validateCertAndKey ::
  "pem_parser \<Rightarrow> int \<Rightarrow> string option \<Rightarrow> (go_error + PublicKey) \<Rightarrow> unit result" where
  "validateCertAndKey parse now certPEM priv =
     (case certPEM of
        None \<Rightarrow> Inl (WithCause (PlainErr ''Invalid certificate in file''))
      | Some pem \<Rightarrow>
          (case parse pem of
             None \<Rightarrow> Inl (WithCause (PlainErr ''Invalid certificate in file''))
           | Some cert \<Rightarrow>
               bindR (mapErrR WithCause (validateDates now cert)) (\<lambda>_.
               bindR (mapErrR WithCause (validateUsage cert)) (\<lambda>_.
               bindR (mapErrR WithCause (validateIsCA cert)) (\<lambda>_.
               bindR (mapErrR WithCause (validateKeyType cert)) (\<lambda>_.
               bindR (mapErrR WithCause (validateKeySize cert)) (\<lambda>_.
               mapErrR WithCause (validateMatchingKeys cert priv))))))))"

section \<open>Properties of limits, versions and the CA's certificate\<close>

lemma getMaxEnrollments_range:
  assumes "getMaxEnrollments userMax caMax = Inr m" and "- 1 \<le> caMax"
  shows "(m = - 1 \<or> 1 \<le> m) \<and> (caMax \<noteq> - 1 \<longrightarrow> 1 \<le> m \<and> m \<le> caMax) \<and> (m = userMax \<or> userMax = 0 \<and> m = caMax)"
  using assms by (auto simp: getMaxEnrollments_def split: if_splits)

text \<open>The limit that \<open>Login\<close> applies to an identity registered with the limit given by
  \<open>getMaxEnrollments\<close> is that limit.\<close>

lemma getMaxEnrollments_effective:
  assumes "getMaxEnrollments userMax caMax = Inr m" and "- 1 \<le> caMax"
  shows "effective_max m caMax = m"
  using getMaxEnrollments_range [OF assms] by (auto simp: effective_max_def)

lemma validateMatchingKeys_Inr:
  "validateMatchingKeys cert priv = Inr () \<longleftrightarrow>
     (case x_PublicKey cert of RSAKey n \<Rightarrow> priv = Inr (RSAKey n) | ECDSAKey x \<Rightarrow> priv = Inr (ECDSAKey x)
      | DSAKey \<Rightarrow> True)"
proof (cases priv)
  case (Inr k)
  then show ?thesis by (cases k) (auto simp: validateMatchingKeys_def split: PublicKey.splits)
qed (auto simp: validateMatchingKeys_def split: PublicKey.splits)

lemma validateCertAndKey_Inr:
  "validateCertAndKey parse now certPEM priv = Inr () \<longleftrightarrow>
     (\<exists>pem cert. certPEM = Some pem \<and> parse pem = Some cert \<and>
        x_NotBefore cert \<le> now \<and> now \<le> x_NotAfter cert \<and> bit (x_KeyUsage cert) 5 \<and> x_IsCA cert \<and>
        (case x_PublicKey cert of
           RSAKey n \<Rightarrow> 2048 \<le> bitlen n \<and> priv = Inr (RSAKey n)
         | ECDSAKey x \<Rightarrow> priv = Inr (ECDSAKey x)
         | DSAKey \<Rightarrow> False))"
  by (auto simp: validateCertAndKey_def validateDates_def validateUsage_def validateIsCA_def
      validateKeyType_def validateKeySize_def validateMatchingKeys_Inr bit_nat_def
      split: option.splits PublicKey.splits if_splits)

section \<open>Properties of loading identities\<close>

lemma addIdentity_Inr:
  assumes "addIdentity B caMax levels cid False d = (Inr (), d')"
  shows "\<exists>new. db_users d' = db_users d @ new \<and> db_certificates d' = db_certificates d
      \<and> db_affiliations d' = db_affiliations d \<and> ci_Name cid \<in> ur_Name ` set (db_users d')
      \<and> (no_faults d \<longrightarrow> no_faults d')"
proof -
  have found: "ci_Name cid \<in> ur_Name ` set (db_users d)"
    if "filter (is_user (ci_Name cid)) (db_users d) = r # rs" for r rs
    using filter_ConsD [OF that] by force
  have st: "GetUser (ci_Name cid) d = (Inl e, t) \<Longrightarrow> t = d \<or> t = pop d" for e t
    by (auto simp: GetUser_def em_simps split: if_splits)
  show ?thesis
    using assms found
    by (auto simp: addIdentity_def bindE_Inr attemptE_Inr case_sum_run mapErrE_Inr GetUser_Inr
        InsertUser_Inr userRecord_of_def dest!: st)
qed

lemma loadUsersTable_Inr:
  assumes "loadUsersTable B cfg levels d = (Inr (), d')"
  shows "\<exists>new. db_users d' = db_users d @ new \<and> db_certificates d' = db_certificates d
      \<and> db_affiliations d' = db_affiliations d
      \<and> ci_Name ` set (cfg_Identities cfg) \<subseteq> ur_Name ` set (db_users d') \<and> (no_faults d \<longrightarrow> no_faults d')"
proof -
  have "\<exists>new. db_users d' = db_users d @ new \<and> db_certificates d' = db_certificates d
      \<and> db_affiliations d' = db_affiliations d \<and> ci_Name ` set cids \<subseteq> ur_Name ` set (db_users d')
      \<and> (no_faults d \<longrightarrow> no_faults d')"
    if "forE cids (\<lambda>cid. mapErrE WithCause (addIdentity B (cfg_MaxEnrollments cfg) levels cid False)) d
      = (Inr (), d')" for cids
    using that
  proof (induction cids arbitrary: d)
    case (Cons cid cids)
    from Cons.prems obtain d1 where
        d1: "addIdentity B (cfg_MaxEnrollments cfg) levels cid False d = (Inr (), d1)"
      and rest: "forE cids (\<lambda>cid. mapErrE WithCause (addIdentity B (cfg_MaxEnrollments cfg) levels cid False)) d1
          = (Inr (), d')"
      by (auto simp: em_simps)
    from addIdentity_Inr [OF d1] obtain new1 where new1: "db_users d1 = db_users d @ new1"
        "db_certificates d1 = db_certificates d" "db_affiliations d1 = db_affiliations d"
        "ci_Name cid \<in> ur_Name ` set (db_users d1)" "no_faults d \<longrightarrow> no_faults d1" by blast
    from Cons.IH [OF rest] obtain new2 where "db_users d' = db_users d1 @ new2"
        "db_certificates d' = db_certificates d1" "db_affiliations d' = db_affiliations d1"
        "ci_Name ` set cids \<subseteq> ur_Name ` set (db_users d')" "no_faults d1 \<longrightarrow> no_faults d'" by blast
    with new1 show ?case by (intro exI [of _ "new1 @ new2"]) auto
  qed simp
  then show ?thesis using assms by (simp add: loadUsersTable_def)
qed

section \<open>Properties of loading affiliations\<close>

text \<open>The paths that a configuration names.\<close>

fun cfg_paths :: "affiliations_cfg \<Rightarrow> string \<Rightarrow> string set"
  and cfg_paths_list :: "affiliations_cfg list \<Rightarrow> string \<Rightarrow> string set"
  and cfg_paths_map :: "(string \<times> affiliations_cfg) list \<Rightarrow> string \<Rightarrow> string set" where
  "cfg_paths AffNil p = {}"
| "cfg_paths (AffString n) p = {affiliationPath n p}"
| "cfg_paths (AffStrings ns) p = (\<lambda>n. affiliationPath n p) ` set ns"
| "cfg_paths (AffList vs) p = cfg_paths_list vs p"
| "cfg_paths (AffMap es) p = cfg_paths_map es p"
| "cfg_paths AffOther p = {}"
| "cfg_paths_list [] p = {}"
| "cfg_paths_list (v # vs) p = cfg_paths v p \<union> cfg_paths_list vs p"
| "cfg_paths_map [] p = {}"
| "cfg_paths_map ((n, v) # es) p =
     {affiliationPath n p} \<union> cfg_paths v (affiliationPath n p) \<union> cfg_paths_map es p"

abbreviation aff_names :: "sqldb \<Rightarrow> string set" where
  "aff_names d \<equiv> ar_Name ` set (db_affiliations d)"

text \<open>Every affiliation's parent is an affiliation.\<close>

definition aff_closed :: "sqldb \<Rightarrow> bool" where
  "aff_closed d \<longleftrightarrow> (\<forall>r \<in> set (db_affiliations d). ar_Prekey r = [] \<or> ar_Prekey r \<in> aff_names d)"

definition aff_step :: "string \<Rightarrow> string set \<Rightarrow> sqldb \<Rightarrow> sqldb \<Rightarrow> bool" where
  "aff_step p paths d d' \<longleftrightarrow>
     (no_faults d \<and> (p = [] \<or> p \<in> aff_names d) \<longrightarrow>
        no_faults d' \<and> aff_names d \<union> paths \<subseteq> aff_names d' \<and> (aff_closed d \<longrightarrow> aff_closed d'))
     \<and> db_users d' = db_users d \<and> db_certificates d' = db_certificates d"

lemma aff_step_refl: "aff_step p {} d d"
  by (simp add: aff_step_def)

lemma aff_step_trans:
  assumes de: "aff_step p ps d e" and ef: "aff_step q qs e f" and q: "q = p \<or> q \<in> ps"
  shows "aff_step p (ps \<union> qs) d f"
proof -
  have "no_faults f \<and> aff_names d \<union> (ps \<union> qs) \<subseteq> aff_names f \<and> (aff_closed d \<longrightarrow> aff_closed f)"
    if nf: "no_faults d" and p: "p = [] \<or> p \<in> aff_names d"
  proof -
    have e: "no_faults e" "aff_names d \<union> ps \<subseteq> aff_names e" "aff_closed d \<longrightarrow> aff_closed e"
      using de nf p by (auto simp: aff_step_def)
    then have "q = [] \<or> q \<in> aff_names e" using q p by blast
    then have "no_faults f" "aff_names e \<union> qs \<subseteq> aff_names f" "aff_closed e \<longrightarrow> aff_closed f"
      using ef e(1) by (auto simp: aff_step_def)
    then show ?thesis using e by blast
  qed
  then show ?thesis using de ef by (simp add: aff_step_def)
qed

lemma InsertAffiliation_step:
  assumes "InsertAffiliation name prekey level d = (Inr (), d')"
  shows "aff_step prekey {name} d d'"
  using assms
proof (cases rule: InsertAffiliation_Inr)
  case (added e)
  then show ?thesis by (auto simp: aff_step_def aff_closed_def)
qed (auto simp: aff_step_def aff_closed_def)

lemma loadAffiliationString_step:
  "loadAffiliationString lv name p d = (Inr (), d') \<Longrightarrow> aff_step p {affiliationPath name p} d d'"
  unfolding loadAffiliationString_def addAffiliation_def by (rule InsertAffiliation_step)

lemma loadAffiliations_steps:
  "loadAffiliationsTableR lv v p d = (Inr (), d') \<Longrightarrow> aff_step p (cfg_paths v p) d d'"
  "loadAffiliationsList lv vs p d = (Inr (), d') \<Longrightarrow> aff_step p (cfg_paths_list vs p) d d'"
  "loadAffiliationsMap lv es p d = (Inr (), d') \<Longrightarrow> aff_step p (cfg_paths_map es p) d d'"
proof (induction v p and vs p and es p arbitrary: d d' and d d' and d d' rule: cfg_paths_cfg_paths_list_cfg_paths_map.induct)
  case (3 ns p)
  have "forE ns (\<lambda>name. loadAffiliationString lv name p) d = (Inr (), d') \<Longrightarrow>
      aff_step p ((\<lambda>n. affiliationPath n p) ` set ns) d d'" for ns
  proof (induction ns arbitrary: d)
    case (Cons n ns)
    from Cons.prems obtain e where e: "loadAffiliationString lv n p d = (Inr (), e)"
        "forE ns (\<lambda>name. loadAffiliationString lv name p) e = (Inr (), d')"
      by (auto simp: em_simps)
    from aff_step_trans [OF loadAffiliationString_step [OF e(1)] Cons.IH [OF e(2)]]
    show ?case by simp
  qed (simp add: aff_step_refl)
  with 3 show ?case by simp
next
  case (8 v vs p)
  from 8(3) obtain e where e: "loadAffiliationsTableR lv v p d = (Inr (), e)"
      "loadAffiliationsList lv vs p e = (Inr (), d')" by (auto simp: em_simps)
  from aff_step_trans [OF 8(1) [OF e(1)] 8(2) [OF e(2)]] show ?case by simp
next
  case (10 n v es p)
  let ?q = "affiliationPath n p"
  from 10(3) obtain e f where e: "addAffiliation lv ?q p d = (Inr (), e)"
      "loadAffiliationsTableR lv v ?q e = (Inr (), f)" "loadAffiliationsMap lv es p f = (Inr (), d')"
    by (auto simp: em_simps Let_def)
  note s1 = InsertAffiliation_step [OF e(1) [unfolded addAffiliation_def]]
  from aff_step_trans [OF aff_step_trans [OF s1 10(1) [OF e(2)]] 10(2) [OF e(3)]]
  show ?case by simp
qed (auto simp: aff_step_refl loadAffiliationString_step)

section \<open>Properties of the migration\<close>

text \<open>What the migration makes of a row below level 1: a registrar without
  \<open>hf.Registrar.Attributes\<close> gets that attribute with the value \<open>*\<close>, and the level becomes 1.\<close>

definition migrated_attrs :: "UserRecord \<Rightarrow> Attribute list" where
  "migrated_attrs r =
     (if (\<exists>a. GetAttribute (newDBUser r) Roles = Inr a) \<and> (\<exists>e. GetAttribute (newDBUser r) RegistrarAttr = Inl e)
      then getNewAttributes (map snd (du_attrs (newDBUser r)))
             [\<lparr>attr_Name = RegistrarAttr, attr_Value = ''*'', attr_ECert = False\<rparr>]
      else ur_Attributes r)"

definition migrate_row :: "UserRecord \<Rightarrow> UserRecord" where
  "migrate_row r =
     (if ur_Level r < 1 then r\<lparr>ur_Attributes := migrated_attrs r, ur_Level := 1\<rparr> else r)"

lemma SetLevel_Inr:
  "SetLevel u level d = (Inr (), d') \<longleftrightarrow>
     \<not> faulty d \<and> length (filter (is_user (ui_Name u)) (db_users d)) = 1 \<and>
     d' = db_users_update (map (\<lambda>r. if ur_Name r = ui_Name u then r\<lparr>ur_Level := level\<rparr> else r)) (pop d)"
  by (auto simp: SetLevel_def em_simps)

lemma ModifyAttributes_Inr:
  "ModifyAttributes u as d = (Inr (), d') \<longleftrightarrow>
     \<not> faulty d \<and> length (filter (is_user (ui_Name u)) (db_users d)) = 1 \<and>
     d' = db_users_update (map (\<lambda>r. if ur_Name r = ui_Name u
            then r\<lparr>ur_Attributes := getNewAttributes (map snd (du_attrs u)) as\<rparr> else r)) (pop d)"
  by (auto simp: ModifyAttributes_def Let_def em_simps)

lemma map_unique_user:
  assumes "distinct (map ur_Name us)" and "r \<in> set us"
  shows "map (\<lambda>x. if ur_Name x = ur_Name r then f x else x) us = map (\<lambda>x. if x = r then f r else x) us"
  using assms by (auto simp: distinct_map inj_on_def)

lemma migrateUserToLevel1_Inr:
  assumes "migrateUserToLevel1 (newDBUser r) d = (Inr (), d')"
    and "r \<in> set (db_users d)" and "distinct (map ur_Name (db_users d))" and "ur_Level r < 1"
  shows "db_users d' = map (\<lambda>x. if x = r then migrate_row r else x) (db_users d)
    \<and> db_properties d' = db_properties d"
proof -
  note uniq = map_unique_user [OF assms(3,2)]
  have level: "map (\<lambda>x. if ur_Name x = ur_Name r then x\<lparr>ur_Level := 1\<rparr> else x)
      (map (\<lambda>x. if ur_Name x = ur_Name r then x\<lparr>ur_Attributes := as\<rparr> else x) us) =
      map (\<lambda>x. if ur_Name x = ur_Name r then x\<lparr>ur_Attributes := as, ur_Level := 1\<rparr> else x) us" for as us
    by simp
  show ?thesis
  proof (cases "(\<exists>a. GetAttribute (newDBUser r) Roles = Inr a) \<and>
      (\<exists>e. GetAttribute (newDBUser r) RegistrarAttr = Inl e)")
    case True
    with assms(1) have "db_users d' = map (\<lambda>x. if ur_Name x = ur_Name r then x\<lparr>ur_Level := 1\<rparr> else x)
        (map (\<lambda>x. if ur_Name x = ur_Name r then x\<lparr>ur_Attributes := migrated_attrs r\<rparr> else x) (db_users d))"
      and "db_properties d' = db_properties d"
      by (auto simp: migrateUserToLevel1_def seqE_Inr mapErrE_Inr SetLevel_Inr ModifyAttributes_Inr
          migrated_attrs_def)
    then show ?thesis using assms(4) uniq [of "\<lambda>x. x\<lparr>ur_Attributes := migrated_attrs r, ur_Level := 1\<rparr>"]
      unfolding level by (simp add: migrate_row_def)
  next
    case False
    then have "db_users d' = map (\<lambda>x. if ur_Name x = ur_Name r then x\<lparr>ur_Level := 1\<rparr> else x) (db_users d)"
      and "db_properties d' = db_properties d"
      using assms(1)
      by (auto simp: migrateUserToLevel1_def seqE_Inr mapErrE_Inr SetLevel_Inr case_sum_run)
    moreover have "migrate_row r = r\<lparr>ur_Level := 1\<rparr>"
    proof -
      have "migrated_attrs r = ur_Attributes r" unfolding migrated_attrs_def using False by (rule if_not_P)
      then show ?thesis using assms(4) by (cases r) (simp add: migrate_row_def)
    qed
    ultimately show ?thesis using uniq [of "\<lambda>x. x\<lparr>ur_Level := 1\<rparr>"] by simp
  qed
qed

lemma migrate_row_fields [simp]:
  "ur_Name (migrate_row r) = ur_Name r" "\<not> ur_Level (migrate_row r) < 1" "1 \<le> ur_Level (migrate_row r)"
  by (simp_all add: migrate_row_def)

lemma migrate_loop:
  assumes "forE (map newDBUser rs)
      (\<lambda>user. if ui_Level user < 1 then migrateUserToLevel1 user else returnE ()) d = (Inr (), d')"
    and "set rs \<subseteq> set (db_users d)" and "distinct rs" and "\<forall>r \<in> set rs. ur_Level r < 1"
    and "distinct (map ur_Name (db_users d))"
  shows "db_users d' = map (\<lambda>x. if x \<in> set rs then migrate_row x else x) (db_users d)
    \<and> db_properties d' = db_properties d"
  using assms
proof (induction rs arbitrary: d)
  case (Cons r rs)
  let ?step = "\<lambda>user. if ui_Level user < 1 then migrateUserToLevel1 user else returnE ()"
  from Cons.prems(1,4) obtain d1 where d1: "migrateUserToLevel1 (newDBUser r) d = (Inr (), d1)"
    and rest: "forE (map newDBUser rs) ?step d1 = (Inr (), d')"
    by (auto simp: seqE_Inr)
  have r: "r \<in> set (db_users d)" "ur_Level r < 1" using Cons.prems by auto
  note one = migrateUserToLevel1_Inr [OF d1 r(1) Cons.prems(5) r(2)]
  have names: "map ur_Name (db_users d1) = map ur_Name (db_users d)" using one by simp
  have sub: "set rs \<subseteq> set (db_users d1)"
  proof
    fix x assume x: "x \<in> set rs"
    then have "x \<noteq> r" "x \<in> set (db_users d)" using Cons.prems(2,3) by auto
    then show "x \<in> set (db_users d1)" using one by force
  qed
  have new: "migrate_row r \<notin> set rs" using Cons.prems(4) migrate_row_fields(2) by force
  have IH: "db_users d' = map (\<lambda>x. if x \<in> set rs then migrate_row x else x) (db_users d1)
      \<and> db_properties d' = db_properties d1"
    using Cons.prems names sub by (intro Cons.IH [OF rest]) auto
  have "map (\<lambda>x. if x \<in> set rs then migrate_row x else x)
      (map (\<lambda>x. if x = r then migrate_row r else x) (db_users d)) =
      map (\<lambda>x. if x \<in> set (r # rs) then migrate_row x else x) (db_users d)"
    using new Cons.prems(3) by auto
  with IH one show ?case by simp
qed simp

lemma performMigration_Inr:
  assumes "performMigration version d = (Inr (), d')" and "distinct (map ur_Name (db_users d))"
  shows "db_users d' = map migrate_row (db_users d)"
proof -
  let ?rs = "filter (\<lambda>r. ur_Level r < 1) (db_users d)"
  have users: "GetUserLessThanLevel IdentityLevel d = (Inr us, e) \<longleftrightarrow>
      \<not> faulty d \<and> e = pop d \<and> us = map newDBUser ?rs" for us e
    by (auto simp: GetUserLessThanLevel_def IdentityLevel_def em_simps)
  have lvl: "UpdateDBLevel l e = (Inr (), f) \<Longrightarrow> db_users f = db_users e" for l e f
    by (auto simp: UpdateDBLevel_def updateLevel_def em_simps)
  obtain d1 l where loop: "forE (map newDBUser ?rs)
      (\<lambda>user. if ui_Level user < 1 then migrateUserToLevel1 user else returnE ()) (pop d) = (Inr (), d1)"
    and upd: "UpdateDBLevel l d1 = (Inr (), d')"
    using assms(1) unfolding performMigration_def bindE_Inr seqE_Inr users
    by (auto simp: levelsOf_def mapErrE_Inr split: option.splits)
  note d' = lvl [OF upd]
  have "distinct ?rs" using assms(2) by (simp add: distinct_map)
  moreover have "set ?rs \<subseteq> set (db_users (pop d))" "\<forall>r \<in> set ?rs. ur_Level r < 1"
    "distinct (map ur_Name (db_users (pop d)))" using assms(2) by auto
  ultimately have "db_users d1 = map (\<lambda>x. if x \<in> set ?rs then migrate_row x else x) (db_users (pop d))"
    using migrate_loop [OF loop] by blast
  then have "db_users d1 = map (\<lambda>x. if x \<in> set ?rs then migrate_row x else x) (db_users d)"
    by (simp only: pop_fields)
  also have "\<dots> = map migrate_row (db_users d)"
    by (rule map_cong [OF refl]) (auto simp: migrate_row_def)
  finally show ?thesis using d' by simp
qed

section \<open>Properties of the initialisation\<close>

definition db_ready :: "sqldb \<Rightarrow> bool" where
  "db_ready d \<longleftrightarrow> db_set d \<and> db_initialized d"

text \<open>An operation that does not touch the handle's flag.\<close>

abbreviation keeps_init :: "'a dbop \<Rightarrow> bool" where
  "keeps_init m \<equiv> (\<forall>b. keeps (\<lambda>d. db_initialized d = b) m)"

interpretation init_flag: cert_invariant "\<lambda>d. db_initialized d = b" for b
  by unfold_locales (auto simp: pop_def)

context cert_invariant
begin

lemma I_loadUsersTable: "keeps I (loadUsersTable B cfg levels)"
  unfolding loadUsersTable_def addIdentity_def
  by (intro keeps_intros I_user_ops I_reads)

lemma I_loadAffiliations:
  "keeps I (loadAffiliationsTableR lv v p)" "keeps I (loadAffiliationsList lv vs p)"
  "keeps I (loadAffiliationsMap lv es p)"
proof (induction v p and vs p and es p rule: cfg_paths_cfg_paths_list_cfg_paths_map.induct)
qed (auto simp: loadAffiliationString_def addAffiliation_def Let_def
    intro: keeps_intros I_aff_ops)

lemma I_loadAffiliationsTable: "keeps I (loadAffiliationsTable cfg levels)"
  unfolding loadAffiliationsTable_def by (intro keeps_intros I_loadAffiliations)

lemma I_performMigration: "keeps I (performMigration version)"
  unfolding performMigration_def migrateUserToLevel1_def UpdateDBLevel_def updateLevel_def levelsOf_def
  by (intro keeps_intros I_user_ops I_readers I_writes)

lemma I_checkDBLevels: "keeps I (checkDBLevels version)"
  unfolding checkDBLevels_def levelsOf_def by (intro keeps_intros I_readers)

lemma I_softE: "keeps I m \<Longrightarrow> keeps I (softE m)"
  unfolding softE_def by (intro keeps_intros)

end

lemma softE_Inl: "softE m d = (Inl e, d') \<longleftrightarrow> m d = (Inl e, d') \<and> isPanic e"
  by (auto simp: softE_def em_defs split: prod.splits sum.splits if_splits)

lemma softE_Inr:
  "softE m d = (Inr True, d') \<longleftrightarrow> (\<exists>e. m d = (Inl e, d') \<and> \<not> isPanic e)"
  "softE m d = (Inr False, d') \<longleftrightarrow> m d = (Inr (), d')"
  by (auto simp: softE_def em_defs split: prod.splits sum.splits if_splits)

lemma loadRest_Inr:
  "loadRest version cfg levels dbError d = (Inr (), d') \<longleftrightarrow>
     \<not> dbError \<and> (\<exists>d1 d2. loadAffiliationsTable cfg levels d = (Inr (), d1)
       \<and> performMigration version d1 = (Inr (), d2) \<and> d' = d2\<lparr>db_initialized := True\<rparr>)"
  unfolding loadRest_def bindE_Inr
  by (simp add: softE_Inr ex_bool_eq split: if_splits)

lemma loadRegistry_Inr:
  "loadRegistry B version cfg levels d = (Inr (), d') \<longleftrightarrow>
     (\<exists>d0 d1 d2. loadUsersTable B cfg levels d = (Inr (), d0)
       \<and> loadAffiliationsTable cfg levels d0 = (Inr (), d1)
       \<and> performMigration version d1 = (Inr (), d2) \<and> d' = d2\<lparr>db_initialized := True\<rparr>)"
  by (auto simp: loadRegistry_def bindE_Inr attemptE_Inr case_sum_run loadRest_Inr split: if_splits)

text \<open>An error leaves the database uninitialised, so that the next request tries again.\<close>

lemma loadRest_Inl:
  "loadRest version cfg levels dbError d = (Inl e, d') \<Longrightarrow> db_initialized d' = db_initialized d"
  using keepsD [OF init_flag.I_softE [OF init_flag.I_loadAffiliationsTable]]
    keepsD [OF init_flag.I_softE [OF init_flag.I_performMigration]]
  by (auto simp: loadRest_def bindE_Inl split: if_splits)

lemma loadRegistry_Inl:
  "loadRegistry B version cfg levels d = (Inl e, d') \<Longrightarrow> db_initialized d' = db_initialized d"
  using keepsD [OF init_flag.I_loadUsersTable]
  by (auto simp: loadRegistry_def bindE_Inl attemptE_Inr attemptE_Inl case_sum_run dest!: loadRest_Inl split: if_splits)

lemma initDB_Inr:
  assumes "initDB B upd version cfg levels d = (Inr (), d')"
  shows "db_ready d \<and> d' = d \<or> db_initialized d'"
  using assms
  by (auto simp: initDB_def db_ready_def bindE_Inr seqE_Inr loadRegistry_Inr Let_def split: if_splits)

lemma initDB_uninitialised:
  assumes upd: "keeps_init upd" and run: "initDB B upd version cfg levels d = (Inl e, d')"
    and new: "\<not> db_ready d"
  shows "\<not> db_ready d'"
proof -
  have op: "openDB t d = (Inr (), d1) \<Longrightarrow> \<not> db_initialized d1"
    "openDB t d = (Inl e, d1) \<Longrightarrow> \<not> db_set d1" for t d1 e
    by (auto simp: openDB_def split: if_splits)
  have sch: "upd d1 = (r, d2) \<Longrightarrow> db_initialized d2 = db_initialized d1" for d1 r d2
    using upd keepsD by fastforce
  have chk: "checkDBLevels version d1 = (r, d2) \<Longrightarrow> db_initialized d2 = db_initialized d1" for d1 r d2
    using init_flag.I_checkDBLevels keepsD by fastforce
  show ?thesis
    using run new
    by (auto simp: initDB_def db_ready_def bindE_Inl seqE_Inl mapErrE_Inl mapErrE_Inr Let_def
        split: if_splits dest!: op sch chk loadRegistry_Inl)
qed

section \<open>The level check\<close>

lemma GetProperties_keys:
  assumes "GetProperties names d = (Inr ps, d')" and "n \<notin> set names"
  shows "map_of ps n = None"
proof -
  have "map_of (fold (\<lambda>p m. AList.update (fst p) (snd p) m) props m) n = map_of m n"
    if "n \<notin> fst ` set props" for props m
    using that by (induction props arbitrary: m) (auto simp: AList.update_conv')
  from this [of "filter (\<lambda>p. fst p \<in> set names) (db_properties d)" "[]"]
  show ?thesis using assms by (auto simp: GetProperties_def em_simps)
qed

lemma cmp_error: "cmpVersion_loop a b is = Inl e \<Longrightarrow> \<exists>q. e = WithCause q"
proof (induction "is")
  case (Cons i "is")
  then show ?case
    by (cases "val a i"; cases "val b i") (auto split: if_splits)
qed simp

lemma levels_nonneg:
  "GetLevels version = Inr (Some sl) \<Longrightarrow> 0 \<le> lv_Identity sl \<and> 0 \<le> lv_Affiliation sl \<and> 0 \<le> lv_Certificate sl"
  by (auto simp: GetLevels_def versionToLevelsMapping_def split: if_splits)

text \<open>What the migration leaves alone.\<close>

interpretation set_flag: cert_invariant "\<lambda>d. db_set d = b" for b
  by unfold_locales (auto simp: pop_def)

lemma performMigration_frame:
  assumes "performMigration version d = (r, d')"
  shows "map ur_Name (db_users d') = map ur_Name (db_users d) \<and> db_affiliations d' = db_affiliations d
    \<and> db_certificates d' = db_certificates d"
proof -
  let ?I = "\<lambda>v w c d. map ur_Name (db_users d) = v \<and> db_affiliations d = w \<and> db_certificates d = c"
  have upd: "map ur_Name (map (\<lambda>r. if P r then f r else r) us) = map ur_Name us"
    if "\<And>r. ur_Name (f r) = ur_Name r" for P f us
    using that by simp
  have user: "keeps (?I v w c) (sql_update db_users db_users_update P f)"
    if "\<And>r. ur_Name (f r) = ur_Name r" for P f v w c
    by (rule keeps_update) (auto simp: that)
  have propu: "keeps (?I v w c) (sql_update db_properties db_properties_update P f)" for P f v w c
    by (rule keeps_update) auto
  have get: "keeps (?I v w c) (GetUserLessThanLevel l)" for l v w c
    unfolding GetUserLessThanLevel_def by (intro keeps_intros) auto
  have one: "keeps (?I v w c) (one_row n)" for n v w c
    unfolding one_row_def by (intro keeps_intros)
  have "keeps (?I v w c) (performMigration version)" for v w c
    unfolding performMigration_def migrateUserToLevel1_def UpdateDBLevel_def updateLevel_def
      levelsOf_def SetLevel_def ModifyAttributes_def Let_def
    by (intro keeps_intros get user propu one) auto
  from keepsD [OF this assms] show ?thesis by blast
qed

lemma checkDBLevels_Inr:
  "checkDBLevels version d = (Inr (), d') \<Longrightarrow> d' = pop d"
  by (auto simp: checkDBLevels_def GetProperties_def levelsOf_def em_simps case_option_run split: if_splits)

lemma initDB_new_Inr:
  assumes "initDB B (returnE ()) version cfg levels d = (Inr (), d')" and "\<not> db_ready d"
  obtains t d0 d1 d2 d3 where "d0 = (pop d)\<lparr>db_set := True, db_initialized := False, db_driver := t\<rparr>"
    and "loadUsersTable B cfg levels (pop d0) = (Inr (), d1)"
    and "loadAffiliationsTable cfg levels d1 = (Inr (), d2)"
    and "performMigration version d2 = (Inr (), d3)" and "d' = d3\<lparr>db_initialized := True\<rparr>"
proof -
  obtain t d0 d0' where op: "openDB t d = (Inr (), d0)"
    and chk: "checkDBLevels version d0 = (Inr (), d0')"
    and load: "loadRegistry B version cfg levels d0' = (Inr (), d')"
    using assms by (auto simp: initDB_def db_ready_def bindE_Inr seqE_Inr mapErrE_Inr Let_def split: if_splits)
  have "d0 = (pop d)\<lparr>db_set := True, db_initialized := False, db_driver := t\<rparr>"
    using op by (auto simp: openDB_def split: if_splits)
  moreover have "d0' = pop d0" using chk by (rule checkDBLevels_Inr)
  ultimately show thesis using load that by (auto simp: loadRegistry_Inr)
qed

section \<open>Start-up\<close>


definition example_cfg :: CAConfig where
  "example_cfg =
     \<lparr>cfg_Version = ''1.2.0'', cfg_Name = ''ca'', cfg_DBType = [], cfg_MaxEnrollments = - 1,
      cfg_Identities = [\<lparr>ci_Name = ''admin'', ci_Pass = ''pw'', ci_Type = ''client'', ci_Affiliation = [],
         ci_MaxEnrollments = 0, ci_Attrs = [(''hf.Revoker'', ''true''), (''a'', ''1:ecert'')]\<rparr>],
      cfg_Affiliations = AffMap [(''org1'', AffStrings [''d1'', ''d2'']), (''org2'', AffNil)],
      cfg_Identities_AllowRemove = True, cfg_Affiliations_AllowRemove = True, cfg_CRL_Expiry = 24\<rparr>"

definition example_levels :: Levels where
  "example_levels =
     \<lparr>lv_Identity = 1, lv_Affiliation = 1, lv_Certificate = 1, lv_Credential = 1, lv_RAInfo = 1, lv_Nonce = 1\<rparr>"

definition plain_bcrypt :: bcrypt where
  "plain_bcrypt = \<lparr>GenerateFromPassword = \<lambda>p. Some (''#'' @ p), CompareHashAndPassword = \<lambda>h p. h = ''#'' @ p\<rparr>"

lemma example_init:
  "fst (initDB plain_bcrypt (returnE ()) ''1.2.0'' example_cfg example_levels empty_db) = Inr ()"
  by code_simp


section \<open>Migration\<close>

lemma attr_index_rev:
  "distinct (map attr_Name as) \<Longrightarrow> attr_index (rev as) = attr_index as"
proof (induction as)
  case (Cons a as)
  then have "attr_index as (attr_Name a) = None" by (simp add: attr_index_None)
  with Cons show ?case by (auto simp: attr_index_append map_add_def fun_eq_iff split: option.splits)
qed simp

lemma du_attrs_index:
  "distinct (map attr_Name (map snd (du_attrs (newDBUser r))))"
  "attr_index (map snd (du_attrs (newDBUser r))) = attr_index (rev (ur_Attributes r))"
proof -
  let ?m = "du_attrs (newDBUser r)"
  have keys: "map attr_Name (map snd ?m) = map fst ?m"
    using du_attrs_keys(2) by (auto simp: comp_def)
  show "distinct (map attr_Name (map snd ?m))" unfolding keys by (rule du_attrs_keys(1))
  have "map (\<lambda>a. (attr_Name a, a)) (map snd ?m) = ?m"
    unfolding map_map by (rule map_idI) (auto simp: comp_def dest: du_attrs_keys(2))
  then have "attr_index (map snd ?m) = map_of ?m" by (simp only: attr_index_def)
  also have "\<dots> = attr_index (rev (ur_Attributes r))" by (rule du_attrs_lookup)
  finally show "attr_index (map snd ?m) = attr_index (rev (ur_Attributes r))" .
qed

lemma migrated_index:
  assumes "ur_Level r < 1" and "attr_index (rev (ur_Attributes r)) Roles \<noteq> None"
  shows "attr_index (rev (ur_Attributes (migrate_row r))) =
    (case attr_index (rev (ur_Attributes r)) RegistrarAttr of
       Some _ \<Rightarrow> attr_index (rev (ur_Attributes r))
     | None \<Rightarrow> (attr_index (rev (ur_Attributes r)))
                 (RegistrarAttr \<mapsto> \<lparr>attr_Name = RegistrarAttr, attr_Value = ''*'', attr_ECert = False\<rparr>))"
proof (cases "attr_index (rev (ur_Attributes r)) RegistrarAttr")
  case None
  let ?ms = "map snd (du_attrs (newDBUser r))"
  let ?a = "\<lparr>attr_Name = RegistrarAttr, attr_Value = ''*'', attr_ECert = False\<rparr>"
  have "ur_Attributes (migrate_row r) = getNewAttributes ?ms [?a]"
    using assms None
    by (auto simp: migrate_row_def migrated_attrs_def GetAttribute_newDBUser simp del: getNewAttributes.simps)
  moreover have "attr_index (getNewAttributes ?ms [?a]) = apply_request ?a (attr_index ?ms)"
    "distinct (map attr_Name (getNewAttributes ?ms [?a]))"
    using getNewAttributes_refines [OF du_attrs_index(1) [of r], of "[?a]"] by simp_all
  ultimately show ?thesis
    using None by (simp add: attr_index_rev du_attrs_index(2) apply_request_def del: getNewAttributes.simps)
next
  case (Some a)
  then have "migrated_attrs r = ur_Attributes r"
    by (simp add: migrated_attrs_def GetAttribute_newDBUser)
  then show ?thesis using Some by (simp add: migrate_row_def)
qed

text \<open>The migration, on a table whose names are unique, brings every identity to level 1 at
  least, changes only identities below level 1, and keeps every attribute of a registrar
  while giving it \<open>hf.Registrar.Attributes\<close> if it had none.\<close>

theorem performMigration_upgrades:
  assumes run: "performMigration version d = (Inr (), d')"
    and uniq: "distinct (map ur_Name (db_users d))"
  shows "map ur_Name (db_users d') = map ur_Name (db_users d)
    \<and> (\<forall>r \<in> set (db_users d'). 1 \<le> ur_Level r)
    \<and> (\<forall>r \<in> set (db_users d). 1 \<le> ur_Level r \<longrightarrow> r \<in> set (db_users d'))
    \<and> (\<forall>i < length (db_users d). \<forall>a. GetAttribute (newDBUser (db_users d ! i)) Roles = Inr a \<and> ur_Level (db_users d ! i) < 1 \<longrightarrow>
         (\<exists>b. GetAttribute (newDBUser (db_users d' ! i)) RegistrarAttr = Inr b) \<and>
         (\<forall>n. n \<noteq> RegistrarAttr \<longrightarrow>
            GetAttribute (newDBUser (db_users d' ! i)) n = GetAttribute (newDBUser (db_users d ! i)) n))"
proof -
  note eff = performMigration_Inr [OF run uniq]
  have reg: "(\<exists>b. GetAttribute (newDBUser (migrate_row r)) RegistrarAttr = Inr b) \<and>
      (\<forall>n. n \<noteq> RegistrarAttr \<longrightarrow> GetAttribute (newDBUser (migrate_row r)) n = GetAttribute (newDBUser r) n)"
    if "GetAttribute (newDBUser r) Roles = Inr a" "ur_Level r < 1" for r a
  proof -
    have "attr_index (rev (ur_Attributes r)) Roles \<noteq> None"
      using that(1) by (auto simp: GetAttribute_newDBUser split: option.splits)
    then show ?thesis using migrated_index [OF that(2)]
      by (auto simp: GetAttribute_newDBUser split: option.splits)
  qed
  have stay: "r \<in> migrate_row ` set us" if "r \<in> set us" "1 \<le> ur_Level r" for r us
    using that by (intro image_eqI [of _ _ r]) (simp_all add: migrate_row_def)
  show ?thesis
    using reg eff migrate_row_fields(2) by (auto simp: not_less intro: stay)
qed

definition old_db :: sqldb where
  "old_db = empty_db\<lparr>db_set := True, db_driver := ''sqlite3'',
     db_users := [\<lparr>ur_Name = ''admin'', ur_Pass = ''#pw'', ur_Type = ''client'', ur_Affiliation = [],
        ur_Attributes = [\<lparr>attr_Name = Roles, attr_Value = ''*'', attr_ECert = False\<rparr>], ur_State = 0,
        ur_MaxEnrollments = - 1, ur_Level = 0\<rparr>]\<rparr>"

lemma example_migration: "fst (performMigration ''1.2.0'' old_db) = Inr ()"
  by code_simp

theorem performMigration_upgrades_witness:
  "\<exists>b. GetAttribute (newDBUser (db_users (snd (performMigration ''1.2.0'' old_db)) ! 0)) RegistrarAttr = Inr b"
proof -
  let ?r = "performMigration ''1.2.0'' old_db"
  have run: "?r = (Inr (), snd ?r)" using example_migration by (simp add: prod_eq_iff)
  have uniq: "distinct (map ur_Name (db_users old_db))" by (simp add: old_db_def)
  have "GetAttribute (newDBUser (db_users old_db ! 0)) Roles =
      Inr \<lparr>attr_Name = Roles, attr_Value = ''*'', attr_ECert = False\<rparr>"
    by (simp add: old_db_def GetAttribute_newDBUser)
  then show ?thesis
    using performMigration_upgrades [OF run uniq] by (auto simp: old_db_def)
qed

section \<open>Versions, limits and the CA's certificate\<close>

text \<open>The check that a database is not newer than the server never finds one.  The levels are
  read under the names \<open>identity.level\<close>, \<open>affiliation.level\<close> and \<open>certificate.level\<close> and looked up
  under \<open>identity\<close>, \<open>affiliation\<close> and \<open>certificate\<close>, so that every level counts as 0.\<close>

theorem checkDBLevels_never_newer:
  "fst (checkDBLevels version d) \<noteq> Inl (newFatalError ErrDBLevel)"
proof
  assume err: "fst (checkDBLevels version d) = Inl (newFatalError ErrDBLevel)"
  let ?names = "[''identity.level'', ''affiliation.level'', ''certificate.level'']"
  have none: "getIntLevel ps n = Inr 0"
    if "GetProperties ?names d = (Inr ps, e)" "n \<in> {''identity'', ''affiliation'', ''certificate''}" for ps e n
    using that GetProperties_keys [OF that(1), of n]
    by (auto simp: getIntLevel_def strconv_Atoi_def digit_val_def)
  have other: "GetProperties ?names d = (Inl e, t) \<Longrightarrow> e \<noteq> FatalErr ErrDBLevel" for e t
    by (auto simp: GetProperties_def getError_def newHTTPErr_def em_simps split: if_splits)
  have lv: "getLevels_loop v ms = Inl e \<Longrightarrow> e \<noteq> FatalErr ErrDBLevel" for v ms e
    by (induction v ms rule: getLevels_loop.induct)
      (auto simp: bindR_Inl CmpVersion_def dest!: cmp_error split: if_splits)
  note run = checkDBLevels_def bindE_def liftE_def levelsOf_def returnE_def throwE_def newFatalError_def
  obtain q e where q: "GetProperties ?names d = (q, e)" by (cases "GetProperties ?names d")
  show False
  proof (cases q)
    case (Inl x)
    with q err other [of x e] show False by (simp add: run)
  next
    case (Inr ps)
    note ps = q [unfolded Inr]
    show False
    proof (cases "GetLevels version")
      case (Inl x)
      with ps err lv [of version "rev versionToLevelsMapping" x] show False
        by (simp add: run GetLevels_def)
    next
      case (Inr sl)
      with ps err none [OF ps] levels_nonneg [of version] show False
        by (cases sl) (auto simp: run)
    qed
  qed
qed

text \<open>The limit on enrollments given to an identity is unlimited only if the CA's is, is
  otherwise between one and the CA's limit, and is the limit \<open>Login\<close> will apply.\<close>

theorem getMaxEnrollments_within_CA:
  assumes "getMaxEnrollments userMax caMax = Inr m" and "- 1 \<le> caMax"
  shows "(m = - 1 \<or> 1 \<le> m) \<and> (caMax \<noteq> - 1 \<longrightarrow> 1 \<le> m \<and> m \<le> caMax) \<and> effective_max m caMax = m"
  using getMaxEnrollments_range [OF assms] getMaxEnrollments_effective [OF assms] by blast

theorem getMaxEnrollments_within_CA_witness:
  "getMaxEnrollments 0 5 = Inr 5 \<and> effective_max 5 5 = 5"
proof -
  have "getMaxEnrollments 0 5 = Inr 5" by (simp add: getMaxEnrollments_def)
  with getMaxEnrollments_within_CA [of 0 5 5] show ?thesis by simp
qed

end
