(* ===== verification/Auth_Token.thy ===== *)
theory Auth_Token
  imports Cert_Store
begin

text \<open>
  Authorization tokens, \<open>util/util.go\<close>: a token is the sender's certificate and a signature
  over the request body and the certificate, both in base64 and separated by a dot.  The
  format of Idemix tokens is that of \<open>lib/server/idemix/issuer.go\<close>.

  Byte strings are \<^typ>\<open>string\<close>s.  The cryptographic service provider (BCCSP) is a record of
  functions; what the theorems need of it is stated where it is used.
\<close>

section \<open>Base64\<close>

definition b64_char :: "nat \<Rightarrow> char" where
  "b64_char i =
     (if i < 26 then char_of (i + 65) else if i < 52 then char_of (i + 71)
      else if i < 62 then char_of (i - 4) else if i = 62 then CHR ''+'' else CHR ''/'')"

definition b64_val :: "char \<Rightarrow> nat option" where
  "b64_val c =
     (let v = (of_char c :: nat)
      in if 65 \<le> v \<and> v \<le> 90 then Some (v - 65)
         else if 97 \<le> v \<and> v \<le> 122 then Some (v - 71)
         else if 48 \<le> v \<and> v \<le> 57 then Some (v + 4)
         else if v = 43 then Some 62
         else if v = 47 then Some 63
         else None)"

fun b64_bytes :: "nat list \<Rightarrow> string" where
  "b64_bytes [] = []"
| "b64_bytes [a] = [b64_char (a div 4), b64_char (a mod 4 * 16), CHR ''='', CHR ''='']"
| "b64_bytes [a, b] =
     [b64_char (a div 4), b64_char (a mod 4 * 16 + b div 16), b64_char (b mod 16 * 4), CHR ''='']"
| "b64_bytes (a # b # c # bs) =
     [b64_char (a div 4), b64_char (a mod 4 * 16 + b div 16),
      b64_char (b mod 16 * 4 + c div 64), b64_char (c mod 64)] @ b64_bytes bs"

definition B64Encode :: "string \<Rightarrow> string" where
  "B64Encode buf = b64_bytes (map of_char buf)"

text \<open>The decoder: quadruples of letters, the last one padded; line breaks are skipped.\<close>

fun b64_unbytes :: "string \<Rightarrow> nat list option" where
  "b64_unbytes [] = Some []"
| "b64_unbytes [w, x, y, z] =
     (case (b64_val w, b64_val x) of
        (Some i, Some j) \<Rightarrow>
          if z = CHR ''='' then
            (if y = CHR ''='' then Some [i * 4 + j div 16]
             else case b64_val y of
                    None \<Rightarrow> None | Some k \<Rightarrow> Some [i * 4 + j div 16, j mod 16 * 16 + k div 4])
          else
            (case (b64_val y, b64_val z) of
               (Some k, Some l) \<Rightarrow> Some [i * 4 + j div 16, j mod 16 * 16 + k div 4, k mod 4 * 64 + l]
             | _ \<Rightarrow> None)
      | _ \<Rightarrow> None)"
| "b64_unbytes (w # x # y # z # rest) =
     (case (b64_val w, b64_val x, b64_val y, b64_val z) of
        (Some i, Some j, Some k, Some l) \<Rightarrow>
          map_option (\<lambda>bs. [i * 4 + j div 16, j mod 16 * 16 + k div 4, k mod 4 * 64 + l] @ bs)
            (b64_unbytes rest)
      | _ \<Rightarrow> None)"
| "b64_unbytes _ = None"

definition B64Decode :: "string \<Rightarrow> string option" where
  "B64Decode str =
     map_option (map char_of) (b64_unbytes (filter (\<lambda>c. c \<noteq> CHR 0x0A \<and> c \<noteq> CHR 0x0D) str))"

lemma b64_val_char [simp]: "i < 64 \<Longrightarrow> b64_val (b64_char i) = Some i"
  by (auto simp: b64_val_def b64_char_def Let_def)

lemma b64_char_facts [simp]:
  assumes "i < 64"
  shows "b64_char i \<noteq> CHR ''=''" "b64_char i \<noteq> CHR ''.''" "b64_char i \<noteq> CHR 0x0A" "b64_char i \<noteq> CHR 0x0D"
proof -
  have none: "b64_val (CHR ''='') = None" "b64_val (CHR ''.'') = None"
    "b64_val (CHR 0x0A) = None" "b64_val (CHR 0x0D) = None"
    by (simp_all add: b64_val_def)
  show "b64_char i \<noteq> CHR ''=''" "b64_char i \<noteq> CHR ''.''" "b64_char i \<noteq> CHR 0x0A" "b64_char i \<noteq> CHR 0x0D"
    using b64_val_char [OF assms] none by (metis option.distinct(1))+
qed

lemma b64_index_bounds:
  fixes a b c :: nat
  assumes "a < 256" and "b < 256" and "c < 256"
  shows "a div 4 < 64" "a mod 4 * 16 + b div 16 < 64" "b mod 16 * 4 + c div 64 < 64" "c mod 64 < 64"
    "a mod 4 * 16 < 64" "b mod 16 * 4 < 64"
proof -
  have "a mod 4 < 4" "b div 16 < 16" "b mod 16 < 16" "c div 64 < 4" using assms by auto
  then show "a mod 4 * 16 + b div 16 < 64" "b mod 16 * 4 + c div 64 < 64"
    "a mod 4 * 16 < 64" "b mod 16 * 4 < 64" by linarith+
  show "a div 4 < 64" "c mod 64 < 64" using assms by auto
qed

lemma b64_recombine:
  fixes a b c :: nat
  assumes "a < 256" and "b < 256" and "c < 256"
  shows "a div 4 * 4 + (a mod 4 * 16 + b div 16) div 16 = a"
    "(a mod 4 * 16 + b div 16) mod 16 * 16 + (b mod 16 * 4 + c div 64) div 4 = b"
    "(b mod 16 * 4 + c div 64) mod 4 * 64 + c mod 64 = c"
    "a div 4 * 4 + (a mod 4 * 16) div 16 = a"
    "(a mod 4 * 16 + b div 16) mod 16 * 16 + (b mod 16 * 4) div 4 = b"
proof -
  have lt: "b div 16 < 16" "c div 64 < 4" using assms by auto
  have q: "(a mod 4 * 16 + b div 16) div 16 = a mod 4" "(b mod 16 * 4 + c div 64) div 4 = b mod 16"
    using lt by simp_all
  have r: "(a mod 4 * 16 + b div 16) mod 16 = b div 16" "(b mod 16 * 4 + c div 64) mod 4 = c div 64"
    using lt by simp_all
  show "a div 4 * 4 + (a mod 4 * 16 + b div 16) div 16 = a"
    "(a mod 4 * 16 + b div 16) mod 16 * 16 + (b mod 16 * 4 + c div 64) div 4 = b"
    "(b mod 16 * 4 + c div 64) mod 4 * 64 + c mod 64 = c"
    "a div 4 * 4 + (a mod 4 * 16) div 16 = a"
    "(a mod 4 * 16 + b div 16) mod 16 * 16 + (b mod 16 * 4) div 4 = b"
    unfolding q r by simp_all
qed

lemma b64_unbytes_step:
  "rest \<noteq> [] \<Longrightarrow> b64_unbytes (w # x # y # z # rest) =
     (case (b64_val w, b64_val x, b64_val y, b64_val z) of
        (Some i, Some j, Some k, Some l) \<Rightarrow>
          map_option (\<lambda>bs. [i * 4 + j div 16, j mod 16 * 16 + k div 4, k mod 4 * 64 + l] @ bs)
            (b64_unbytes rest)
      | _ \<Rightarrow> None)"
proof -
  assume "rest \<noteq> []"
  then obtain v vs where "rest = v # vs" by (cases rest) auto
  then show ?thesis by (simp only: b64_unbytes.simps)
qed

lemma b64_bytes_Nil [simp]: "b64_bytes bs = [] \<longleftrightarrow> bs = []"
  by (cases bs rule: b64_bytes.cases) simp_all

lemma b64_unbytes_bytes: "(\<forall>b \<in> set bs. b < 256) \<Longrightarrow> b64_unbytes (b64_bytes bs) = Some bs"
proof (induction bs rule: b64_bytes.induct)
  case (4 a b c bs)
  then have lt: "a < 256" "b < 256" "c < 256" by auto
  note bounds = b64_index_bounds [OF lt] and parts = b64_recombine [OF lt]
  show ?case
  proof (cases "bs = []")
    case True
    then show ?thesis by (simp only: b64_bytes.simps append_Nil2 append.simps b64_unbytes.simps)
        (simp only: b64_val_char b64_char_facts bounds prod.case option.case if_False parts)
  next
    case False
    with 4 have "b64_unbytes (b64_bytes bs) = Some bs" by simp
    with False show ?thesis
      by (simp only: b64_bytes.simps append.simps b64_unbytes_step b64_bytes_Nil not_False_eq_True
          b64_val_char b64_char_facts bounds prod.case option.case option.map parts)
  qed
next
  case (2 a)
  then have lt: "a < 256" "a < 256" "a < 256" by auto
  then show ?case
    using b64_index_bounds [OF lt] b64_recombine(4) [OF lt] by simp
next
  case (3 a b)
  then have lt: "a < 256" "b < 256" "b < 256" by auto
  then show ?case
    using b64_index_bounds [OF lt] b64_recombine(4,5) [OF lt] b64_recombine(1) [OF lt] by simp
qed simp

lemma b64_bytes_chars:
  "(\<forall>b \<in> set bs. b < 256) \<Longrightarrow> c \<in> set (b64_bytes bs) \<Longrightarrow>
     c \<noteq> CHR ''.'' \<and> c \<noteq> CHR 0x0A \<and> c \<noteq> CHR 0x0D"
proof (induction bs rule: b64_bytes.induct)
  case (4 x y z bs)
  then show ?case using b64_index_bounds [of x y z] by auto
next
  case (2 x)
  then show ?case using b64_index_bounds [of x x x] by auto
next
  case (3 x y)
  then show ?case using b64_index_bounds [of x y y] by auto
qed simp

lemma of_char_less: "\<forall>b \<in> set (map of_char buf). b < (256 :: nat)"
  by auto

lemma B64Encode_chars: "c \<in> set (B64Encode buf) \<Longrightarrow> c \<noteq> CHR ''.'' \<and> c \<noteq> CHR 0x0A \<and> c \<noteq> CHR 0x0D"
  unfolding B64Encode_def using b64_bytes_chars [OF of_char_less] by blast

lemma B64Encode_no_dot [simp]: "CHR ''.'' \<notin> set (B64Encode buf)"
  using B64Encode_chars by blast

lemma B64Decode_Encode [simp]: "B64Decode (B64Encode buf) = Some buf"
proof -
  have "filter (\<lambda>c. c \<noteq> CHR 0x0A \<and> c \<noteq> CHR 0x0D) (B64Encode buf) = B64Encode buf"
    using B64Encode_chars by (simp add: filter_id_conv)
  then show ?thesis
    using b64_unbytes_bytes [OF of_char_less [of buf]]
    by (simp add: B64Decode_def B64Encode_def comp_def)
qed

lemma B64Encode_inject: "B64Encode a = B64Encode b \<longleftrightarrow> a = b"
  by (metis B64Decode_Encode option.inject)

section \<open>Tokens\<close>

text \<open>Keys are handles of the provider; \<open>csp_KeyImport\<close> gives the handle of a certificate's
  public key.\<close>

record bccsp =
  csp_Hash :: "string \<Rightarrow> string option"
  csp_Sign :: "nat \<Rightarrow> string \<Rightarrow> string option"
  csp_KeyImport :: "X509 \<Rightarrow> nat option"
  csp_Verify :: "nat \<Rightarrow> string \<Rightarrow> string \<Rightarrow> bool option"

definition GetX509CertificateFromPEM :: "pem_parser \<Rightarrow> string \<Rightarrow> X509 result" where
  "GetX509CertificateFromPEM parse cert =
     (case parse cert of None \<Rightarrow> Inl (PlainErr ''Failed to PEM decode certificate'') | Some c \<Rightarrow> Inr c)"

definition GenECDSAToken :: "bccsp \<Rightarrow> string \<Rightarrow> nat \<Rightarrow> string \<Rightarrow> string result" where
  "GenECDSAToken csp cert key body =
     (let b64body = B64Encode body;
          b64cert = B64Encode cert;
          bodyAndcert = b64body @ ''.'' @ b64cert
      in case csp_Hash csp bodyAndcert of
           None \<Rightarrow> Inl (WithCause (PlainErr ''Hash failed''))
         | Some digest \<Rightarrow>
             (case csp_Sign csp key digest of
                None \<Rightarrow> Inl (WithCause (PlainErr ''BCCSP signature generation failure''))
              | Some ecSignature \<Rightarrow>
                  if ecSignature = [] then Inl (PlainErr ''BCCSP signature creation failed'')
                  else Inr (b64cert @ ''.'' @ B64Encode ecSignature)))"

text \<open>For a key that is not an elliptic-curve key the empty token is returned, without an error.\<close>

definition CreateToken :: "pem_parser \<Rightarrow> bccsp \<Rightarrow> string \<Rightarrow> nat \<Rightarrow> string \<Rightarrow> string result" where
  "CreateToken parse csp cert key body =
     bindR (GetX509CertificateFromPEM parse cert) (\<lambda>x509Cert.
     case x_PublicKey x509Cert of
       ECDSAKey _ \<Rightarrow> GenECDSAToken csp cert key body
     | _ \<Rightarrow> Inr [])"

definition DecodeToken :: "pem_parser \<Rightarrow> string \<Rightarrow> (X509 \<times> string \<times> string) result" where
  "DecodeToken parse token =
     (if token = [] then Inl (PlainErr ''Invalid token; it is empty'')
      else
        (case strings_Split token CHR ''.'' of
           [b64cert, b64sig] \<Rightarrow>
             (case B64Decode b64cert of
                None \<Rightarrow> Inl (WithCause (PlainErr ''Failed to decode base64 encoded x509 cert''))
              | Some certDecoded \<Rightarrow>
                  bindR (mapErrR WithCause (GetX509CertificateFromPEM parse certDecoded)) (\<lambda>x509Cert.
                  Inr (x509Cert, b64cert, b64sig)))
         | _ \<Rightarrow> Inl (PlainErr ''Invalid token format; expecting 2 parts'')))"

definition sigString :: "string \<Rightarrow> string \<Rightarrow> string" where
  "sigString body b64Cert = B64Encode body @ ''.'' @ b64Cert"

definition VerifyToken :: "pem_parser \<Rightarrow> bccsp option \<Rightarrow> string \<Rightarrow> string \<Rightarrow> X509 result" where
  "VerifyToken parse csp token body =
     (case csp of
        None \<Rightarrow> Inl (PlainErr ''BCCSP instance is not present'')
      | Some csp \<Rightarrow>
          bindR (DecodeToken parse token) (\<lambda>(x509Cert, b64Cert, b64Sig).
          case B64Decode b64Sig of
            None \<Rightarrow> Inl (WithCause (PlainErr ''Invalid base64 encoded signature in token''))
          | Some sig \<Rightarrow>
              (case csp_KeyImport csp x509Cert of
                 None \<Rightarrow> Inl (WithCause (PlainErr ''Public Key import into BCCSP failed with error''))
               | Some pk2 \<Rightarrow>
                   (case csp_Hash csp (sigString body b64Cert) of
                      None \<Rightarrow> Inl (WithCause (PlainErr ''Message digest failed''))
                    | Some digest \<Rightarrow>
                        (case csp_Verify csp pk2 sig digest of
                           None \<Rightarrow> Inl (WithCause (PlainErr ''Token signature validation failure''))
                         | Some valid \<Rightarrow>
                             if \<not> valid then Inl (PlainErr ''Token signature validation failed'')
                             else Inr x509Cert)))))"

definition getTokenParts :: "string \<Rightarrow> string list option" where
  "getTokenParts token =
     (let parts = strings_Split token CHR ''.''
      in if length parts = 4 \<and> parts ! 0 = ''idemix'' then Some parts else None)"

definition IsToken :: "string \<Rightarrow> bool" where
  "IsToken token = (getTokenParts token \<noteq> None)"

section \<open>Properties of tokens\<close>

lemma split_token:
  "CHR ''.'' \<notin> set a \<Longrightarrow> CHR ''.'' \<notin> set b \<Longrightarrow> strings_Split (a @ CHR ''.'' # b) CHR ''.'' = [a, b]"
  by (simp add: strings_Split_append strings_Split_single)

lemma DecodeToken_Inr:
  "DecodeToken parse token = Inr (cert, b64cert, b64sig) \<longleftrightarrow>
     (\<exists>pem. token = b64cert @ CHR ''.'' # b64sig \<and> CHR ''.'' \<notin> set b64cert \<and> CHR ''.'' \<notin> set b64sig
        \<and> B64Decode b64cert = Some pem \<and> parse pem = Some cert)"
proof
  assume dec: "DecodeToken parse token = Inr (cert, b64cert, b64sig)"
  then have split: "strings_Split token CHR ''.'' = [b64cert, b64sig]"
    and rest: "\<exists>pem. B64Decode b64cert = Some pem \<and> parse pem = Some cert"
    by (auto simp: DecodeToken_def GetX509CertificateFromPEM_def
        split: if_splits list.splits option.splits)
  have dots: "CHR ''.'' \<notin> set b64cert" "CHR ''.'' \<notin> set b64sig"
    using strings_Split_no_sep [of _ token "CHR ''.''"] split by simp_all
  have "token = b64cert @ CHR ''.'' # b64sig"
    using strings_Join_Split [of token "CHR ''.''"] by (simp add: split)
  then show "\<exists>pem. token = b64cert @ CHR ''.'' # b64sig \<and> CHR ''.'' \<notin> set b64cert \<and> CHR ''.'' \<notin> set b64sig
        \<and> B64Decode b64cert = Some pem \<and> parse pem = Some cert"
    using rest dots by blast
next
  assume "\<exists>pem. token = b64cert @ CHR ''.'' # b64sig \<and> CHR ''.'' \<notin> set b64cert \<and> CHR ''.'' \<notin> set b64sig
        \<and> B64Decode b64cert = Some pem \<and> parse pem = Some cert"
  then show "DecodeToken parse token = Inr (cert, b64cert, b64sig)"
    by (auto simp: DecodeToken_def GetX509CertificateFromPEM_def split_token)
qed

text \<open>An accepted token: the signature it carries verifies, under the key of the certificate it
  carries, over the body and that certificate.\<close>

lemma VerifyToken_Inr:
  "VerifyToken parse (Some csp) token body = Inr cert \<longleftrightarrow>
     (\<exists>b64cert b64sig sig pk digest. DecodeToken parse token = Inr (cert, b64cert, b64sig)
        \<and> B64Decode b64sig = Some sig \<and> csp_KeyImport csp cert = Some pk
        \<and> csp_Hash csp (sigString body b64cert) = Some digest \<and> csp_Verify csp pk sig digest = Some True)"
proof (cases "DecodeToken parse token")
  case (Inr q)
  obtain c b64cert b64sig where q: "q = (c, b64cert, b64sig)" by (cases q)
  show ?thesis
    unfolding VerifyToken_def Inr q by (auto split: option.splits if_splits)
qed (simp add: VerifyToken_def)

text \<open>The string that is signed determines the body and the certificate.\<close>

lemma sigString_inject:
  assumes "CHR ''.'' \<notin> set c" and "CHR ''.'' \<notin> set c'"
  shows "sigString b c = sigString b' c' \<longleftrightarrow> b = b' \<and> c = c'"
proof
  assume "sigString b c = sigString b' c'"
  then have "strings_Split (B64Encode b @ CHR ''.'' # c) CHR ''.'' =
      strings_Split (B64Encode b' @ CHR ''.'' # c') CHR ''.''"
    by (simp add: sigString_def)
  then show "b = b' \<and> c = c'"
    using assms by (simp add: split_token B64Encode_inject)
qed simp

text \<open>C29: round trip of authorization tokens.  A token made for a body with a key whose
  signatures the provider accepts under the certificate's public key is accepted with that
  body and yields that certificate.\<close>

theorem CreateToken_VerifyToken:
  assumes sound: "\<forall>digest sig. csp_Sign csp key digest = Some sig \<longrightarrow> csp_Verify csp pk sig digest = Some True"
    and cert: "parse pem = Some cert" "csp_KeyImport csp cert = Some pk" "x_PublicKey cert = ECDSAKey x"
    and token: "CreateToken parse csp pem key body = Inr token"
  shows "VerifyToken parse (Some csp) token body = Inr cert \<and> \<not> IsToken token"
proof -
  from token cert obtain digest sig where
      hash: "csp_Hash csp (sigString body (B64Encode pem)) = Some digest"
    and sig: "csp_Sign csp key digest = Some sig"
    and tok: "token = B64Encode pem @ CHR ''.'' # B64Encode sig"
    by (auto simp: CreateToken_def GetX509CertificateFromPEM_def GenECDSAToken_def sigString_def Let_def
        split: option.splits if_splits)
  have dec: "DecodeToken parse token = Inr (cert, B64Encode pem, B64Encode sig)"
    using cert(1) by (simp add: DecodeToken_Inr tok)
  have "VerifyToken parse (Some csp) token body = Inr cert"
    unfolding VerifyToken_Inr using dec cert(2) hash sig sound by (metis B64Decode_Encode)
  moreover have "\<not> IsToken token"
    by (simp add: IsToken_def getTokenParts_def tok split_token)
  ultimately show ?thesis by simp
qed

definition toy_csp :: bccsp where
  "toy_csp = \<lparr>csp_Hash = \<lambda>m. Some (take 4 m), csp_Sign = \<lambda>k d. Some (CHR ''s'' # d),
     csp_KeyImport = \<lambda>c. Some 7, csp_Verify = \<lambda>k s d. Some (k = 7 \<and> s = CHR ''s'' # d)\<rparr>"

definition toy_cert :: X509 where
  "toy_cert = \<lparr>x_CommonName = ''alice'', x_SerialNumber = 171, x_AuthorityKeyId = [10, 188], x_NotBefore = 0,
     x_NotAfter = 100, x_IsCA = False, x_KeyUsage = 1, x_PublicKey = ECDSAKey 5\<rparr>"

theorem CreateToken_VerifyToken_witness:
  "\<exists>token. CreateToken (\<lambda>p. if p = ''pem'' then Some toy_cert else None) toy_csp ''pem'' 3 ''body'' = Inr token
     \<and> VerifyToken (\<lambda>p. if p = ''pem'' then Some toy_cert else None) (Some toy_csp) token ''body'' = Inr toy_cert"
proof -
  let ?parse = "\<lambda>p. if p = ''pem'' then Some toy_cert else None"
  obtain token where tok: "CreateToken ?parse toy_csp ''pem'' 3 ''body'' = Inr token"
    by (simp add: CreateToken_def GetX509CertificateFromPEM_def GenECDSAToken_def toy_csp_def toy_cert_def Let_def)
  have "VerifyToken ?parse (Some toy_csp) token ''body'' = Inr toy_cert \<and> \<not> IsToken token"
    by (rule CreateToken_VerifyToken [where pk = 7 and key = 3 and pem = "''pem''" and x = 5])
      (simp_all only: tok, simp_all add: toy_csp_def toy_cert_def)
  with tok show ?thesis by blast
qed

end
