(* ===== verification/TCert_Crypto.thy ===== *)
theory TCert_Crypto
  imports Auth_Token "HOL-Library.Word"
begin

unbundle bit_operations_syntax

text \<open>
  The helpers of the transaction certificates, \<open>lib/tcert/util.go\<close>: identifiers, padding, the CBC
  mode and random numbers of a fixed length.

  Bytes are words of 8 bits.  \<open>rand.Reader\<close> is the list of the bytes it will still give, and fails at the end
  of the list.  The block cipher AES of package \<open>crypto/aes\<close> is an argument: a function of the key and a block.
\<close>

type_synonym byte = "8 word"
type_synonym bytes = "byte list"
type_synonym 'a rng = "(bytes, go_error, 'a) em"

record aes =
  aes_Encrypt :: "bytes \<Rightarrow> bytes \<Rightarrow> bytes"
  aes_Decrypt :: "bytes \<Rightarrow> bytes \<Rightarrow> bytes"

section \<open>Random bytes\<close>

text \<open>\<open>io.ReadFull\<close>, and \<open>Read\<close> into a buffer of zeros whose error is ignored.\<close>

definition io_ReadFull :: "nat \<Rightarrow> bytes rng" where
  "io_ReadFull n s =
     (if length s < n then (Inl (PlainErr ''EOF''), []) else (Inr (take n s), drop n s))"

definition rand_Read :: "nat \<Rightarrow> bytes rng" where
  "rand_Read n s = (Inr (take n s @ replicate (n - length s) 0), drop n s)"

definition GenerateBytesUUID :: "bytes rng" where
  "GenerateBytesUUID =
     bindE (io_ReadFull 16) (\<lambda>uuid.
     let uuid = uuid[8 := ((uuid ! 8) AND NOT 0xc0) OR 0x80]
     in returnE (uuid[6 := ((uuid ! 6) AND NOT 0xf0) OR 0x40]))"

text \<open>\<open>SetBytes\<close> of package \<open>math/big\<close>: big-endian.\<close>

definition big_SetBytes :: "bytes \<Rightarrow> nat" where
  "big_SetBytes bs = foldl (\<lambda>n b. n * 256 + unat b) 0 bs"

definition GenerateIntUUID :: "nat rng" where
  "GenerateIntUUID = bindE GenerateBytesUUID (\<lambda>uuid. returnE (big_SetBytes uuid))"

text \<open>The result \<open>randomNum\<close> of \<open>rand.Int\<close>, a number below the bound, is an argument.\<close>

definition GenNumber :: "nat \<Rightarrow> nat \<Rightarrow> nat" where
  "GenNumber numlen randomNum =
     (let lowerBound = 10 ^ (numlen - 1);
          upperBound = 10 ^ numlen;
          val = randomNum + lowerBound;
          valMod = val mod upperBound
      in if valMod < lowerBound then valMod + lowerBound else valMod)"

section \<open>Padding\<close>

abbreviation BlockSize :: nat where
  "BlockSize \<equiv> 16"

definition PKCS7Padding :: "bytes \<Rightarrow> bytes" where
  "PKCS7Padding src =
     (let padding = BlockSize - length src mod BlockSize
      in src @ replicate padding (of_nat padding))"

text \<open>The index and the slice panic when they are out of range.\<close>

definition PKCS7UnPadding :: "bytes \<Rightarrow> bytes result" where
  "PKCS7UnPadding src =
     (if src = [] then Inl (GoPanic ''index out of range'')
      else
        (let unpadding = unat (last src) in
         if unpadding > BlockSize \<or> unpadding = 0 then Inl (PlainErr ''invalid padding'')
         else if length src < unpadding then Inl (GoPanic ''slice bounds out of range'')
         else
           (let pad = drop (length src - unpadding) src in
            if \<forall>b \<in> set pad. b = of_nat unpadding then Inr (take (length src - unpadding) src)
            else Inl (PlainErr ''invalid padding''))))"

section \<open>Cipher block chaining\<close>

text \<open>\<open>CryptBlocks\<close> of the two modes of package \<open>crypto/cipher\<close>.\<close>

definition xor_block :: "bytes \<Rightarrow> bytes \<Rightarrow> bytes" where
  "xor_block a b = map2 (\<lambda>x y. x XOR y) a b"

function cbc_encrypt :: "(bytes \<Rightarrow> bytes) \<Rightarrow> bytes \<Rightarrow> bytes \<Rightarrow> bytes" where
  "cbc_encrypt enc iv s =
     (if s = [] then []
      else (let c = enc (xor_block (take BlockSize s) iv) in c @ cbc_encrypt enc c (drop BlockSize s)))"
  by auto
termination
  by (relation "measure (\<lambda>(enc, iv, s). length s)") auto

function cbc_decrypt :: "(bytes \<Rightarrow> bytes) \<Rightarrow> bytes \<Rightarrow> bytes \<Rightarrow> bytes" where
  "cbc_decrypt dec iv s =
     (if s = [] then []
      else (let c = take BlockSize s in xor_block (dec c) iv @ cbc_decrypt dec c (drop BlockSize s)))"
  by auto
termination
  by (relation "measure (\<lambda>(dec, iv, s). length s)") auto

declare cbc_encrypt.simps [simp del] cbc_decrypt.simps [simp del]

text \<open>\<open>aes.NewCipher\<close> refuses a key of another length.\<close>

definition key_ok :: "bytes \<Rightarrow> bool" where
  "key_ok key \<longleftrightarrow> length key \<in> {16, 24, 32}"

definition CBCEncrypt :: "aes \<Rightarrow> bytes \<Rightarrow> bytes \<Rightarrow> bytes rng" where
  "CBCEncrypt A key s =
     seqE (unlessE (length s mod BlockSize = 0)
            (PlainErr ''CBCEncrypt failure: plaintext is not a multiple of the block size''))
     (seqE (unlessE (key_ok key) (PlainErr ''crypto/aes: invalid key size''))
     (bindE (mapErrE (\<lambda>_. PlainErr ''CBCEncrypt failure in io.ReadFull'') (io_ReadFull BlockSize)) (\<lambda>iv.
      returnE (iv @ cbc_encrypt (aes_Encrypt A key) iv s))))"

definition CBCPKCS7Encrypt :: "aes \<Rightarrow> bytes \<Rightarrow> bytes \<Rightarrow> bytes rng" where
  "CBCPKCS7Encrypt A key src = CBCEncrypt A key (PKCS7Padding src)"

definition CBCDecrypt :: "aes \<Rightarrow> bytes \<Rightarrow> bytes \<Rightarrow> bytes result" where
  "CBCDecrypt A key src =
     (if \<not> key_ok key then Inl (PlainErr ''crypto/aes: invalid key size'')
      else if length src < BlockSize then Inl (PlainErr ''ciphertext too short'')
      else
        (let iv = take BlockSize src; src = drop BlockSize src in
         if length src mod BlockSize \<noteq> 0 then Inl (PlainErr ''ciphertext is not a multiple of the block size'')
         else Inr (cbc_decrypt (aes_Decrypt A key) iv src)))"

definition CBCPKCS7Decrypt :: "aes \<Rightarrow> bytes \<Rightarrow> bytes \<Rightarrow> bytes result" where
  "CBCPKCS7Decrypt A key src = bindR (CBCDecrypt A key src) PKCS7UnPadding"

section \<open>Certificates and keys\<close>

text \<open>Decoding PEM and parsing DER are arguments.  \<open>x509.ParseCertificates\<close> of empty data gives no certificate and no
  error; the first element is taken all the same.\<close>

definition ValidateCert :: "int \<Rightarrow> X509 \<Rightarrow> bool" where
  "ValidateCert now cert \<longleftrightarrow> x_NotAfter cert - now > 0 \<and> now - x_NotBefore cert > 0"

definition firstCertificate :: "int \<Rightarrow> string \<Rightarrow> X509 list option \<Rightarrow> X509 result" where
  "firstCertificate now msg certificates =
     (case certificates of
        None \<Rightarrow> Inl (PlainErr msg)
      | Some [] \<Rightarrow> Inl (GoPanic ''index out of range'')
      | Some (cert # _) \<Rightarrow> if ValidateCert now cert then Inr cert else Inl (PlainErr ''Certificate expired''))"

definition tcert_GetCertificate ::
  "(string \<Rightarrow> string option) \<Rightarrow> (string \<Rightarrow> X509 list option) \<Rightarrow> int \<Rightarrow> string \<Rightarrow> X509 result" where
  "tcert_GetCertificate pemDecode ParseCertificates now certificate =
     (case pemDecode certificate of
        None \<Rightarrow> firstCertificate now ''DER Certificate Parse failed'' (ParseCertificates certificate)
      | Some bs \<Rightarrow> firstCertificate now ''PEM  Certificate Parse failed'' (ParseCertificates bs))"

definition GetCertitificateSerialNumber ::
  "(string \<Rightarrow> string option) \<Rightarrow> (string \<Rightarrow> X509 list option) \<Rightarrow> int \<Rightarrow> string \<Rightarrow> int result" where
  "GetCertitificateSerialNumber pemDecode ParseCertificates now certificate =
     bindR (tcert_GetCertificate pemDecode ParseCertificates now certificate) (\<lambda>cert. Inr (x_SerialNumber cert))"

datatype PrivateKey = RSAPrivateKey string | ECDSAPrivateKey string | OtherPrivateKey

record key_parsers =
  kp_PKCS1 :: "string \<Rightarrow> string option"
  kp_PKCS8 :: "string \<Rightarrow> PrivateKey option"
  kp_EC :: "string \<Rightarrow> string option"

definition ParsePrivateKey :: "key_parsers \<Rightarrow> string \<Rightarrow> PrivateKey result" where
  "ParsePrivateKey P der =
     (case kp_PKCS1 P der of
        Some key \<Rightarrow> Inr (RSAPrivateKey key)
      | None \<Rightarrow>
          (case kp_PKCS8 P der of
             Some OtherPrivateKey \<Rightarrow> Inl (PlainErr ''Key is neither RSA nor ECDSA'')
           | Some key \<Rightarrow> Inr key
           | None \<Rightarrow>
               (case kp_EC P der of
                  None \<Rightarrow> Inl (PlainErr ''Failure parsing private key'')
                | Some key \<Rightarrow> Inr (ECDSAPrivateKey key))))"

definition GetPrivateKey :: "(string \<Rightarrow> string option) \<Rightarrow> key_parsers \<Rightarrow> string \<Rightarrow> PrivateKey result" where
  "GetPrivateKey pemDecode P buf =
     bindR (case pemDecode buf of
              None \<Rightarrow> mapErrR (\<lambda>_. PlainErr ''Failure parsing DER-encoded private key'') (ParsePrivateKey P buf)
            | Some bs \<Rightarrow> mapErrR (\<lambda>_. PlainErr ''Failure parsing PEM private key'') (ParsePrivateKey P bs)) (\<lambda>privateKey.
     case privateKey of
       OtherPrivateKey \<Rightarrow> Inl (PlainErr ''Key is neither RSA nor ECDSA'')
     | _ \<Rightarrow> Inr privateKey)"

lemma GetPrivateKey_kind: "GetPrivateKey pemDecode P buf = Inr key \<Longrightarrow> key \<noteq> OtherPrivateKey"
  by (auto simp: GetPrivateKey_def split: PrivateKey.splits) (metis PrivateKey.exhaust)

lemma tcert_GetCertificate_valid:
  "tcert_GetCertificate pemDecode ParseCertificates now certificate = Inr cert \<Longrightarrow>
     x_NotBefore cert < now \<and> now < x_NotAfter cert"
  by (auto simp: tcert_GetCertificate_def firstCertificate_def ValidateCert_def split: option.splits list.splits if_splits)

section \<open>Identifiers and numbers\<close>

lemma uuid_bits:
  fixes b :: byte
  shows "((b AND - 193) OR 0x80) AND 0xc0 = 0x80" and "((b AND - 241) OR 0x40) AND 0xf0 = 0x40"
  by (subst bit.conj_disj_distrib2, subst and.assoc, simp)+

lemma GenerateBytesUUID_Inr:
  assumes "GenerateBytesUUID s = (Inr uuid, t)"
  shows "length uuid = 16 \<and> uuid ! 8 AND 0xc0 = 0x80 \<and> uuid ! 6 AND 0xf0 = 0x40"
  using assms
  by (auto simp: GenerateBytesUUID_def bindE_Inr io_ReadFull_def Let_def uuid_bits split: if_splits)

text \<open>Random numbers of a fixed length.  For every number that the random generator can give, the result has
  exactly the requested number of decimal digits.\<close>

theorem GenNumber_length:
  assumes "numlen > 0"
  shows "10 ^ (numlen - 1) \<le> GenNumber numlen randomNum \<and> GenNumber numlen randomNum < 10 ^ numlen"
proof -
  define lower upper :: nat where "lower = 10 ^ (numlen - 1)" and "upper = 10 ^ numlen"
  have upper: "upper = 10 * lower" and pos: "0 < lower"
    using power_Suc [of "10 :: nat" "numlen - 1"] assms by (simp_all add: lower_def upper_def)
  have less: "(randomNum + lower) mod upper < upper"
    using upper pos by (intro mod_less_divisor) simp
  have "lower \<le> GenNumber numlen randomNum \<and> GenNumber numlen randomNum < upper"
    using less upper pos unfolding GenNumber_def Let_def lower_def [symmetric] upper_def [symmetric] by auto
  then show ?thesis by (simp add: lower_def upper_def)
qed

theorem GenNumber_length_witness: "(10::nat) ^ 2 \<le> GenNumber 3 950 \<and> GenNumber 3 950 < 10 ^ 3"
  using GenNumber_length [of 3 950] by simp

section \<open>Padding and encryption are undone\<close>

lemma PKCS7Padding_length: "length (PKCS7Padding src) mod BlockSize = 0" "length (PKCS7Padding src) > length src"
proof -
  show "length (PKCS7Padding src) mod BlockSize = 0"
    by (simp add: PKCS7Padding_def Let_def) presburger
qed (simp add: PKCS7Padding_def Let_def)

lemma PKCS7_roundtrip: "PKCS7UnPadding (PKCS7Padding src) = Inr src"
proof -
  define k where "k = BlockSize - length src mod BlockSize"
  have k: "0 < k" "k \<le> 16" by (simp_all add: k_def)
  then have "unat (of_nat k :: byte) = k" by (simp add: unat_of_nat)
  with k show ?thesis
    by (simp add: PKCS7UnPadding_def PKCS7Padding_def Let_def k_def [symmetric])
qed

lemma xor_block_cancel: "length a = length b \<Longrightarrow> xor_block (xor_block a b) b = a"
  by (induction a b rule: list_induct2) (simp_all add: xor_block_def xor.assoc)

lemma xor_block_length [simp]: "length (xor_block a b) = min (length a) (length b)"
  by (simp add: xor_block_def)

text \<open>What the code relies on of the block cipher: with one key, decryption undoes encryption on blocks, and a
  block is encrypted to a block.\<close>

definition cipher_ok :: "aes \<Rightarrow> bytes \<Rightarrow> bool" where
  "cipher_ok A key \<longleftrightarrow>
     (\<forall>b. length b = BlockSize \<longrightarrow>
        length (aes_Encrypt A key b) = BlockSize \<and> aes_Decrypt A key (aes_Encrypt A key b) = b)"

lemma cbc_roundtrip:
  assumes "cipher_ok A key"
  shows "length iv = BlockSize \<Longrightarrow> length s mod BlockSize = 0 \<Longrightarrow>
    cbc_decrypt (aes_Decrypt A key) iv (cbc_encrypt (aes_Encrypt A key) iv s) = s \<and>
    length (cbc_encrypt (aes_Encrypt A key) iv s) = length s"
proof (induction "aes_Encrypt A key" iv s rule: cbc_encrypt.induct)
  case (1 iv s)
  show ?case
  proof (cases "s = []")
    case True
    then show ?thesis by (simp add: cbc_encrypt.simps cbc_decrypt.simps)
  next
    case False
    define c where "c = aes_Encrypt A key (xor_block (take BlockSize s) iv)"
    have long: "BlockSize \<le> length s" using False 1(3)
      by (metis length_greater_0_conv less_not_refl2 mod_less not_le)
    then have c: "length c = BlockSize" "aes_Decrypt A key c = xor_block (take BlockSize s) iv"
      using assms 1(2) by (simp_all add: c_def cipher_ok_def)
    have "length (drop BlockSize s) mod BlockSize = 0"
      using 1(3) long by (simp add: le_mod_geq [symmetric])
    then have ih: "cbc_decrypt (aes_Decrypt A key) c (cbc_encrypt (aes_Encrypt A key) c (drop BlockSize s)) = drop BlockSize s"
      "length (cbc_encrypt (aes_Encrypt A key) c (drop BlockSize s)) = length (drop BlockSize s)"
      using 1(1) [OF False c_def c(1)] by simp_all
    have enc: "cbc_encrypt (aes_Encrypt A key) iv s = c @ cbc_encrypt (aes_Encrypt A key) c (drop BlockSize s)"
      using False by (subst cbc_encrypt.simps) (simp add: c_def Let_def)
    have xor: "xor_block (xor_block (take BlockSize s) iv) iv = take BlockSize s"
      using long 1(2) by (intro xor_block_cancel) simp
    have "cbc_decrypt (aes_Decrypt A key) iv (c @ cbc_encrypt (aes_Encrypt A key) c (drop BlockSize s)) = s"
      using c ih xor by (subst cbc_decrypt.simps) (auto simp: Let_def)
    then show ?thesis using enc ih(2) c(1) long by simp
  qed
qed

lemma CBCPKCS7Encrypt_Inr:
  assumes "CBCPKCS7Encrypt A key src s = (Inr ct, t)" and "cipher_ok A key"
  shows "CBCPKCS7Decrypt A key ct = Inr src \<and> length ct > BlockSize + length src \<and> length ct mod BlockSize = 0"
proof -
  note pad = PKCS7Padding_length [of src]
  obtain iv where iv: "length iv = BlockSize" "key_ok key"
    and ct: "ct = iv @ cbc_encrypt (aes_Encrypt A key) iv (PKCS7Padding src)"
    using assms(1)
    by (auto simp: CBCPKCS7Encrypt_def CBCEncrypt_def seqE_Inr bindE_Inr mapErrE_Inr io_ReadFull_def split: if_splits)
  note cbc = cbc_roundtrip [OF assms(2) iv(1) pad(1)]
  then have "CBCDecrypt A key ct = Inr (PKCS7Padding src)"
    using iv pad(1) by (simp add: CBCDecrypt_def ct Let_def)
  then show ?thesis
    using cbc iv(1) pad by (simp add: CBCPKCS7Decrypt_def PKCS7_roundtrip ct)
qed

text \<open>Encryption is undone.  What was encrypted under a key is found again by decrypting with that key, for
  every text and every initial vector; the ciphertext consists of whole blocks.\<close>

theorem CBCPKCS7_roundtrip:
  assumes "CBCPKCS7Encrypt A key src s = (Inr ct, t)" and "cipher_ok A key"
  shows "CBCPKCS7Decrypt A key ct = Inr src \<and> length ct mod BlockSize = 0"
  using CBCPKCS7Encrypt_Inr [OF assms] by simp

text \<open>An example of a block cipher: adding the key.\<close>

definition toy_aes :: aes where
  "toy_aes = \<lparr>aes_Encrypt = (\<lambda>k b. xor_block b (take BlockSize k)), aes_Decrypt = (\<lambda>k b. xor_block b (take BlockSize k))\<rparr>"

lemma toy_aes_ok: "length key \<ge> BlockSize \<Longrightarrow> cipher_ok toy_aes key"
  by (simp add: cipher_ok_def toy_aes_def xor_block_cancel)

theorem CBCPKCS7_roundtrip_witness:
  "\<exists>ct. CBCPKCS7Encrypt toy_aes (replicate 32 7) [1, 2, 3] (replicate 16 9) = (Inr ct, []) \<and>
     CBCPKCS7Decrypt toy_aes (replicate 32 7) ct = Inr [1, 2, 3]"
proof -
  obtain ct where run: "CBCPKCS7Encrypt toy_aes (replicate 32 7) [1, 2, 3] (replicate 16 9) = (Inr ct, [])"
    using PKCS7Padding_length [of "[1, 2, 3]"]
    by (simp add: CBCPKCS7Encrypt_def CBCEncrypt_def em_defs io_ReadFull_def key_ok_def)
  moreover have "cipher_ok toy_aes (replicate 32 7)" by (rule toy_aes_ok) simp
  ultimately show ?thesis using CBCPKCS7_roundtrip [OF run] by blast
qed

end
