(* ===== verification/TCert_Batch.thy ===== *)
theory TCert_Batch
  imports TCert_Crypto
begin

text \<open>
  Batches of transaction certificates, \<open>lib/tcert/tcert.go\<close>.

  A batch holds certificates for keys that are derived from the public key of the caller's enrollment certificate.
  The index from which a key is derived and the enrollment ID are put into a certificate in encrypted form.

  The record \<open>tc_lib\<close> holds what comes from Go's cryptography: HMAC with SHA-384, AES, the encoding of a
  certificate's public key, the order of its curve, the key \<open>pub + k G\<close>, the signing of a
  template with the key of the CA and the PEM encoding.  Go iterates over a map in an arbitrary order; \<open>tl_order\<close> is the
  order in which it lists the header of the attributes.  The random bytes are the state.
\<close>

section \<open>Data\<close>

record pkixExtension =
  pe_Id :: "nat list"
  pe_Critical :: bool
  pe_Value :: bytes

record certTemplate =
  ct_CommonName :: string
  ct_NotBefore :: int
  ct_NotAfter :: int
  ct_IsCA :: bool
  ct_KeyUsage :: nat
  ct_SubjectKeyId :: bytes
  ct_PublicKey :: string
  ct_Extensions :: "pkixExtension list"
  ct_SerialNumber :: nat

record tc_lib =
  tl_aes :: aes
  tl_hmac :: "bytes \<Rightarrow> bytes \<Rightarrow> bytes"
  tl_MarshalPublicKey :: "X509 \<Rightarrow> bytes"
  tl_N :: "X509 \<Rightarrow> nat"
  tl_AddBase :: "X509 \<Rightarrow> nat \<Rightarrow> string"
  tl_CreateCertificate :: "certTemplate \<Rightarrow> bytes option"
  tl_EncodePEM :: "bytes \<Rightarrow> bytes"
  tl_order :: "(string \<times> nat) list \<Rightarrow> (string \<times> nat) list"

record Mgr =
  tm_ValidityPeriod :: int
  tm_MaxAllowedBatchSize :: int

record GetTCertBatchRequest =
  tb_Count :: int
  tb_AttrNames :: "string list option"
  tb_EncryptAttrs :: bool
  tb_ValidityPeriod :: int
  tb_PreKey :: string

record tcert_request = GetTCertBatchRequest +
  tb_Attrs :: "Attribute list"

record TCert =
  tc_Cert :: bytes
  tc_Keys :: "(string \<times> bytes) list"

record GetTCertBatchResponse =
  tbr_ID :: nat
  tbr_TS :: int
  tbr_Key :: bytes
  tbr_TCerts :: "TCert list"

definition TCertEncTCertIndex :: "nat list" where "TCertEncTCertIndex = [1, 2, 3, 4, 5, 6, 7]"
definition TCertEncEnrollmentID :: "nat list" where "TCertEncEnrollmentID = [1, 2, 3, 4, 5, 6, 8]"
definition TCertAttributesHeaders :: "nat list" where "TCertAttributesHeaders = [1, 2, 3, 4, 5, 6, 9]"
definition Padding :: bytes where "Padding = replicate 16 255"

definition NewMgr :: Mgr where
  "NewMgr = \<lparr>tm_ValidityPeriod = 3600 * 24 * 365, tm_MaxAllowedBatchSize = 1000\<rparr>"

definition bytes_of :: "string \<Rightarrow> bytes" where
  "bytes_of s = map of_char s"

definition string_of :: "bytes \<Rightarrow> string" where
  "string_of bs = map (\<lambda>b. char_of (unat b)) bs"

section \<open>Extensions\<close>

text \<open>\<open>buildAttributesHeader\<close> of the entries in the order of the iteration.\<close>

definition buildAttributesHeader :: "(string \<times> nat) list \<Rightarrow> bytes" where
  "buildAttributesHeader entries = bytes_of (concat (map (\<lambda>(k, v). k @ ''->'' @ nat_dec v @ ''#'') entries))"

definition attribute_key :: "tc_lib \<Rightarrow> bytes \<Rightarrow> string \<Rightarrow> bytes" where
  "attribute_key L preK0 name = take 32 (tl_hmac L preK0 (bytes_of name))"

text \<open>The loop over the attributes, after \<open>count\<close> of them: the keys and the header so far, and the extensions.\<close>

fun attributeExtensions ::
  "tc_lib \<Rightarrow> bool \<Rightarrow> bytes \<Rightarrow> nat \<Rightarrow> Attribute list \<Rightarrow> (string \<times> bytes) list \<Rightarrow> (string \<times> nat) list
     \<Rightarrow> (pkixExtension list \<times> (string \<times> bytes) list \<times> (string \<times> nat) list) rng" where
  "attributeExtensions L encryptAttrs preK0 count [] ks header = returnE ([], ks, header)"
| "attributeExtensions L encryptAttrs preK0 count (a # attrs) ks header =
     (let name = attr_Name a;
          attributeKey = attribute_key L preK0 name;
          header' = AList.update name (count + 1) header
      in bindE (if encryptAttrs then CBCPKCS7Encrypt (tl_aes L) attributeKey (bytes_of (attr_Value a) @ Padding)
                else returnE (bytes_of (attr_Value a))) (\<lambda>value.
         bindE (attributeExtensions L encryptAttrs preK0 (count + 1) attrs
                  (if encryptAttrs then AList.update name attributeKey ks else ks) header') (\<lambda>(exts, ks', header'').
         returnE (\<lparr>pe_Id = [1, 2, 3, 4, 5, 6, 9 + (count + 1)], pe_Critical = False, pe_Value = value\<rparr> # exts, ks', header''))))"

fun big_Bytes :: "nat \<Rightarrow> bytes" where
  "big_Bytes n = (if n = 0 then [] else big_Bytes (n div 256) @ [of_nat n])"

declare big_Bytes.simps [simp del]

definition generateExtensions ::
  "tc_lib \<Rightarrow> nat \<Rightarrow> bytes \<Rightarrow> X509 \<Rightarrow> tcert_request \<Rightarrow> (pkixExtension list \<times> (string \<times> bytes) list) rng" where
  "generateExtensions L tcertid tidx enrollmentCert batchRequest =
     (let attrs = tb_Attrs batchRequest;
          preK0 = tl_hmac L (bytes_of (tb_PreKey batchRequest)) (big_Bytes tcertid);
          enrollmentIDKey = attribute_key L preK0 ''enrollmentID'';
          enrollmentID = bytes_of (x_CommonName enrollmentCert) @ Padding
      in bindE (CBCPKCS7Encrypt (tl_aes L) enrollmentIDKey enrollmentID) (\<lambda>encEnrollmentID.
         bindE (attributeExtensions L (tb_EncryptAttrs batchRequest) preK0 0 attrs
                  [(''enrollmentId'', enrollmentIDKey)] []) (\<lambda>(exts, ks, header).
         returnE
           (exts
            @ [\<lparr>pe_Id = TCertEncTCertIndex, pe_Critical = True, pe_Value = tidx\<rparr>]
            @ [\<lparr>pe_Id = TCertEncEnrollmentID, pe_Critical = False, pe_Value = encEnrollmentID\<rparr>]
            @ (if attrs \<noteq> [] then [\<lparr>pe_Id = TCertAttributesHeaders, pe_Critical = False,
                  pe_Value = buildAttributesHeader (tl_order L header)\<rparr>] else []), ks))))"

section \<open>The batch\<close>

definition createHMACKey :: "string rng" where
  "createHMACKey = bindE (rand_Read 49) (\<lambda>key. returnE (B64Encode (string_of key)))"

definition tcertIndex :: "bytes \<Rightarrow> nat \<Rightarrow> bytes" where
  "tcertIndex nonce i = bytes_of (nat_dec (2 * i + 1)) @ nonce @ Padding"

text \<open>The scalar from which the key of an index is derived.\<close>

definition tcertScalar :: "tc_lib \<Rightarrow> X509 \<Rightarrow> bytes \<Rightarrow> bytes \<Rightarrow> nat" where
  "tcertScalar L ecert kdfKey tidx =
     big_SetBytes (tl_hmac L (tl_hmac L kdfKey [2]) tidx) mod (tl_N L ecert - 1) + 1"

definition tcertTemplate :: "int \<Rightarrow> int \<Rightarrow> string \<Rightarrow> pkixExtension list \<Rightarrow> nat \<Rightarrow> certTemplate" where
  "tcertTemplate now vp txPub extensions tcertid =
     \<lparr>ct_CommonName = ''Fabric Transaction Certificate'', ct_NotBefore = now, ct_NotAfter = now + vp, ct_IsCA = False,
      ct_KeyUsage = 1, ct_SubjectKeyId = [1, 2, 3, 4], ct_PublicKey = txPub, ct_Extensions = extensions,
      ct_SerialNumber = tcertid\<rparr>"

definition newTCert ::
  "tc_lib \<Rightarrow> int \<Rightarrow> int \<Rightarrow> bytes \<Rightarrow> bytes \<Rightarrow> tcert_request \<Rightarrow> X509 \<Rightarrow> nat \<Rightarrow> TCert rng" where
  "newTCert L now vp nonce kdfKey req ecert i =
     bindE (mapErrE (\<lambda>_. PlainErr ''Failure generating UUID'') GenerateIntUUID) (\<lambda>tcertid.
     let tidx = tcertIndex nonce i;
         extKey = take 32 (tl_hmac L kdfKey [1]);
         txPub = tl_AddBase L ecert (tcertScalar L ecert kdfKey tidx)
     in bindE (CBCPKCS7Encrypt (tl_aes L) extKey tidx) (\<lambda>encryptedTidx.
        bindE (generateExtensions L tcertid encryptedTidx ecert req) (\<lambda>(extensions, ks).
        case tl_CreateCertificate L (tcertTemplate now vp txPub extensions tcertid) of
          None \<Rightarrow> throwE (PlainErr ''Failed in TCert x509.CreateCertificate'')
        | Some raw \<Rightarrow> returnE \<lparr>tc_Cert = tl_EncodePEM L raw, tc_Keys = ks\<rparr>)))"

text \<open>The loop from \<open>i\<close>, with \<open>n\<close> iterations left.\<close>

fun tcertLoop ::
  "tc_lib \<Rightarrow> int \<Rightarrow> int \<Rightarrow> bytes \<Rightarrow> bytes \<Rightarrow> tcert_request \<Rightarrow> X509 \<Rightarrow> nat \<Rightarrow> nat \<Rightarrow> TCert list rng" where
  "tcertLoop L now vp nonce kdfKey req ecert i 0 = returnE []"
| "tcertLoop L now vp nonce kdfKey req ecert i (Suc n) =
     bindE (newTCert L now vp nonce kdfKey req ecert i) (\<lambda>tcert.
     bindE (tcertLoop L now vp nonce kdfKey req ecert (i + 1) n) (\<lambda>tcerts.
     returnE (tcert # tcerts)))"

definition batchSize :: "Mgr \<Rightarrow> int \<Rightarrow> int result" where
  "batchSize tm count =
     (if count = 0 then Inr (tm_MaxAllowedBatchSize tm)
      else if count \<le> tm_MaxAllowedBatchSize tm then Inr count
      else Inl (PlainErr ''You may not request that many TCerts''))"

definition batchValidity :: "Mgr \<Rightarrow> int \<Rightarrow> int" where
  "batchValidity tm period =
     (if period > 0 \<and> period < tm_ValidityPeriod tm then period else tm_ValidityPeriod tm)"

text \<open>\<open>GetBatch\<close>.  \<open>ecert\<close> may be nil; \<open>randomNum\<close> is the number drawn by \<open>GenNumber\<close>.\<close>

definition GetBatch ::
  "tc_lib \<Rightarrow> Mgr \<Rightarrow> int \<Rightarrow> nat \<Rightarrow> tcert_request \<Rightarrow> X509 option \<Rightarrow> GetTCertBatchResponse rng" where
  "GetBatch L tm now randomNum req ecertP =
     bindE (liftE (batchSize tm (tb_Count req))) (\<lambda>numTCertsInBatch.
     bindE (rand_Read 8) (\<lambda>random.
     case ecertP of
       None \<Rightarrow> throwE (GoPanic ''nil pointer dereference'')
     | Some ecert \<Rightarrow>
         (case x_PublicKey ecert of
            ECDSAKey _ \<Rightarrow>
              (let nonce = random @ replicate 8 0 in
               bindE createHMACKey (\<lambda>hmacKey.
               let kdfKey = tl_hmac L (bytes_of hmacKey) (tl_MarshalPublicKey L ecert) in
               bindE (tcertLoop L now (batchValidity tm (tb_ValidityPeriod req)) nonce kdfKey req ecert 0
                        (nat numTCertsInBatch)) (\<lambda>set.
               returnE \<lparr>tbr_ID = GenNumber 20 randomNum, tbr_TS = now, tbr_Key = kdfKey, tbr_TCerts = set\<rparr>)))
          | _ \<Rightarrow> throwE (GoPanic ''interface conversion''))))"

section \<open>What a batch holds\<close>

text \<open>The block cipher is one, for every key that it accepts.\<close>

definition aes_ok :: "aes \<Rightarrow> bool" where
  "aes_ok A \<longleftrightarrow> (\<forall>key. key_ok key \<longrightarrow> cipher_ok A key)"

lemma CBCPKCS7Encrypt_key: "CBCPKCS7Encrypt A key src s = (Inr ct, t) \<Longrightarrow> key_ok key"
  by (auto simp: CBCPKCS7Encrypt_def CBCEncrypt_def seqE_Inr split: if_splits)

lemma encrypted: "CBCPKCS7Encrypt A key src s = (Inr ct, t) \<Longrightarrow> aes_ok A \<Longrightarrow> CBCPKCS7Decrypt A key ct = Inr src"
  using CBCPKCS7Encrypt_key CBCPKCS7Encrypt_Inr aes_ok_def by metis

text \<open>The value of an attribute in an extension: readable, or under the key of its name.\<close>

definition attribute_ok :: "tc_lib \<Rightarrow> bool \<Rightarrow> (string \<times> bytes) list \<Rightarrow> Attribute \<Rightarrow> bytes \<Rightarrow> bool" where
  "attribute_ok L enc ks a value \<longleftrightarrow>
     (if enc then (\<exists>key. map_of ks (attr_Name a) = Some key \<and>
        CBCPKCS7Decrypt (tl_aes L) key value = Inr (bytes_of (attr_Value a) @ Padding))
      else value = bytes_of (attr_Value a))"

lemma attributeExtensions_Cons:
  assumes "attributeExtensions L enc preK0 count (a # attrs) ks header s = (Inr (exts, ks', header'), t)"
  obtains v u exts' where
    "(if enc then CBCPKCS7Encrypt (tl_aes L) (attribute_key L preK0 (attr_Name a)) (bytes_of (attr_Value a) @ Padding)
      else returnE (bytes_of (attr_Value a))) s = (Inr v, u)"
    and "attributeExtensions L enc preK0 (count + 1) attrs
      (if enc then AList.update (attr_Name a) (attribute_key L preK0 (attr_Name a)) ks else ks)
      (AList.update (attr_Name a) (count + 1) header) u = (Inr (exts', ks', header'), t)"
    and "exts = \<lparr>pe_Id = [1, 2, 3, 4, 5, 6, 9 + (count + 1)], pe_Critical = False, pe_Value = v\<rparr> # exts'"
proof (cases "(if enc then CBCPKCS7Encrypt (tl_aes L) (attribute_key L preK0 (attr_Name a)) (bytes_of (attr_Value a) @ Padding)
      else returnE (bytes_of (attr_Value a))) s")
  case (Pair r u)
  then obtain v where v: "r = Inr v" using assms by (cases r) (auto simp: Let_def bindE_def)
  obtain q w where rest: "attributeExtensions L enc preK0 (count + 1) attrs
      (if enc then AList.update (attr_Name a) (attribute_key L preK0 (attr_Name a)) ks else ks)
      (AList.update (attr_Name a) (count + 1) header) u = (q, w)" by fastforce
  obtain exts' ks2 h2 where q: "q = Inr (exts', ks2, h2)"
    using assms Pair v rest by (cases q) (auto simp: Let_def bindE_def)
  show thesis
    using that [of v u exts'] assms Pair v rest q by (simp add: Let_def bindE_def)
qed

lemma attributeExtensions_keys:
  assumes "attributeExtensions L enc preK0 count attrs ks header s = (Inr (exts, ks', header'), t)"
  shows "map_of ks' n =
    (if enc \<and> n \<in> attr_Name ` set attrs then Some (attribute_key L preK0 n) else map_of ks n)"
  using assms
proof (induction attrs arbitrary: count ks header s exts)
  case (Cons a attrs)
  then obtain v u exts' where "attributeExtensions L enc preK0 (count + 1) attrs
      (if enc then AList.update (attr_Name a) (attribute_key L preK0 (attr_Name a)) ks else ks)
      (AList.update (attr_Name a) (count + 1) header) u = (Inr (exts', ks', header'), t)"
    by (elim attributeExtensions_Cons)
  from Cons.IH [OF this] show ?case by (auto simp: update_conv')
qed simp

lemma attributeExtensions_ids:
  assumes "attributeExtensions L enc preK0 count attrs ks header s = (Inr (exts, ks', header'), t)"
  shows "map pe_Id exts = map (\<lambda>j. [1, 2, 3, 4, 5, 6, 10 + count + j]) [0..<length attrs]"
  using assms
proof (induction attrs arbitrary: count ks header s exts)
  case (Cons a attrs)
  from Cons.prems obtain v u exts' where rest: "attributeExtensions L enc preK0 (count + 1) attrs
      (if enc then AList.update (attr_Name a) (attribute_key L preK0 (attr_Name a)) ks else ks)
      (AList.update (attr_Name a) (count + 1) header) u = (Inr (exts', ks', header'), t)"
    and exts: "exts = \<lparr>pe_Id = [1, 2, 3, 4, 5, 6, 9 + (count + 1)], pe_Critical = False, pe_Value = v\<rparr> # exts'"
    by (elim attributeExtensions_Cons)
  show ?case
    unfolding exts list.map Cons.IH [OF rest]
    by (simp add: upt_conv_Cons map_Suc_upt [symmetric] del: upt_Suc)
qed simp

lemma attributeExtensions_values:
  assumes "attributeExtensions L enc preK0 count attrs ks header s = (Inr (exts, ks', header'), t)" and "aes_ok (tl_aes L)"
  shows "list_all2 (\<lambda>a e. attribute_ok L enc ks' a (pe_Value e)) attrs exts"
  using assms(1)
proof (induction attrs arbitrary: count ks header s exts)
  case (Cons a attrs)
  note keys = attributeExtensions_keys [OF Cons.prems, of "attr_Name a"]
  from Cons.prems obtain v u exts' where rest: "attributeExtensions L enc preK0 (count + 1) attrs
      (if enc then AList.update (attr_Name a) (attribute_key L preK0 (attr_Name a)) ks else ks)
      (AList.update (attr_Name a) (count + 1) header) u = (Inr (exts', ks', header'), t)"
    and exts: "exts = \<lparr>pe_Id = [1, 2, 3, 4, 5, 6, 9 + (count + 1)], pe_Critical = False, pe_Value = v\<rparr> # exts'"
    and val: "(if enc then CBCPKCS7Encrypt (tl_aes L) (attribute_key L preK0 (attr_Name a)) (bytes_of (attr_Value a) @ Padding)
       else returnE (bytes_of (attr_Value a))) s = (Inr v, u)"
    by (elim attributeExtensions_Cons)
  have "attribute_ok L enc ks' a v"
    using val keys assms(2) by (auto simp: attribute_ok_def encrypted split: if_splits)
  then show ?case using Cons.IH [OF rest] by (simp add: exts)
qed simp

text \<open>
  What the owner of the batch's key and the holder of the keys of a certificate can read from it.  The public key of
  the certificate is that of the scalar for its index, and the index is readable with the batch's key.
\<close>

definition index_readable :: "tc_lib \<Rightarrow> bytes \<Rightarrow> X509 \<Rightarrow> bytes \<Rightarrow> certTemplate \<Rightarrow> bool" where
  "index_readable L kdfKey ecert tidx tmpl \<longleftrightarrow>
     ct_PublicKey tmpl = tl_AddBase L ecert (tcertScalar L ecert kdfKey tidx) \<and>
     (\<exists>e \<in> set (ct_Extensions tmpl). pe_Id e = TCertEncTCertIndex \<and>
        CBCPKCS7Decrypt (tl_aes L) (take 32 (tl_hmac L kdfKey [1])) (pe_Value e) = Inr tidx)"

definition identity_readable :: "tc_lib \<Rightarrow> X509 \<Rightarrow> (string \<times> bytes) list \<Rightarrow> certTemplate \<Rightarrow> bool" where
  "identity_readable L ecert ks tmpl \<longleftrightarrow>
     (\<exists>key. map_of ks ''enrollmentId'' = Some key \<and>
        (\<exists>e \<in> set (ct_Extensions tmpl). pe_Id e = TCertEncEnrollmentID \<and>
           CBCPKCS7Decrypt (tl_aes L) key (pe_Value e) = Inr (bytes_of (x_CommonName ecert) @ Padding)))"

definition attributes_readable :: "tc_lib \<Rightarrow> tcert_request \<Rightarrow> (string \<times> bytes) list \<Rightarrow> certTemplate \<Rightarrow> bool" where
  "attributes_readable L req ks tmpl \<longleftrightarrow>
     list_all2 (\<lambda>a e. attribute_ok L (tb_EncryptAttrs req) ks a (pe_Value e)) (tb_Attrs req)
       (take (length (tb_Attrs req)) (ct_Extensions tmpl))"

lemma generateExtensions_Inr:
  assumes run: "generateExtensions L tcertid tidx ecert req s = (Inr (extensions, ks), t)" and aes: "aes_ok (tl_aes L)"
  shows "distinct (map pe_Id extensions)"
    and "\<lparr>pe_Id = TCertEncTCertIndex, pe_Critical = True, pe_Value = tidx\<rparr> \<in> set extensions"
    and "tb_EncryptAttrs req \<longrightarrow> ''enrollmentId'' \<notin> attr_Name ` set (tb_Attrs req) \<Longrightarrow>
           identity_readable L ecert ks (tmpl\<lparr>ct_Extensions := extensions\<rparr>)"
    and "attributes_readable L req ks (tmpl\<lparr>ct_Extensions := extensions\<rparr>)"
proof -
  let ?preK0 = "tl_hmac L (bytes_of (tb_PreKey req)) (big_Bytes tcertid)"
  let ?key = "attribute_key L ?preK0 ''enrollmentID''"
  obtain enc u exts header where enc: "CBCPKCS7Encrypt (tl_aes L) ?key (bytes_of (x_CommonName ecert) @ Padding) s = (Inr enc, u)"
    and attrs: "attributeExtensions L (tb_EncryptAttrs req) ?preK0 0 (tb_Attrs req) [(''enrollmentId'', ?key)] [] u
        = (Inr (exts, ks, header), t)"
    and ext: "extensions = exts @ \<lparr>pe_Id = TCertEncTCertIndex, pe_Critical = True, pe_Value = tidx\<rparr>
      # \<lparr>pe_Id = TCertEncEnrollmentID, pe_Critical = False, pe_Value = enc\<rparr>
      # (if tb_Attrs req \<noteq> [] then [\<lparr>pe_Id = TCertAttributesHeaders, pe_Critical = False,
          pe_Value = buildAttributesHeader (tl_order L header)\<rparr>] else [])"
    using run by (auto simp: generateExtensions_def Let_def bindE_Inr split: prod.splits)
  note ids = attributeExtensions_ids [OF attrs] and vals = attributeExtensions_values [OF attrs aes]
  have len: "length exts = length (tb_Attrs req)" using vals by (simp add: list_all2_lengthD)
  show "distinct (map pe_Id extensions)"
    by (auto simp: ext ids distinct_map inj_on_def TCertEncTCertIndex_def TCertEncEnrollmentID_def TCertAttributesHeaders_def)
  show "\<lparr>pe_Id = TCertEncTCertIndex, pe_Critical = True, pe_Value = tidx\<rparr> \<in> set extensions" by (simp add: ext)
  show "attributes_readable L req ks (tmpl\<lparr>ct_Extensions := extensions\<rparr>)"
    using vals len by (simp add: attributes_readable_def ext)
  assume "tb_EncryptAttrs req \<longrightarrow> ''enrollmentId'' \<notin> attr_Name ` set (tb_Attrs req)"
  then have "map_of ks ''enrollmentId'' = Some ?key"
    using attributeExtensions_keys [OF attrs, of "''enrollmentId''"] by auto
  then show "identity_readable L ecert ks (tmpl\<lparr>ct_Extensions := extensions\<rparr>)"
    using encrypted [OF enc aes] by (auto simp: identity_readable_def ext)
qed

text \<open>A certificate of a batch, for the index \<open>i\<close>.\<close>

definition tcert_ok ::
  "tc_lib \<Rightarrow> int \<Rightarrow> int \<Rightarrow> bytes \<Rightarrow> bytes \<Rightarrow> tcert_request \<Rightarrow> X509 \<Rightarrow> nat \<Rightarrow> TCert \<Rightarrow> bool" where
  "tcert_ok L now vp nonce kdfKey req ecert i tcert \<longleftrightarrow>
     (\<exists>tmpl raw. tl_CreateCertificate L tmpl = Some raw \<and> tc_Cert tcert = tl_EncodePEM L raw \<and>
        ct_NotBefore tmpl = now \<and> ct_NotAfter tmpl = now + vp \<and> \<not> ct_IsCA tmpl \<and>
        distinct (map pe_Id (ct_Extensions tmpl)) \<and>
        index_readable L kdfKey ecert (tcertIndex nonce i) tmpl \<and>
        attributes_readable L req (tc_Keys tcert) tmpl \<and>
        ((tb_EncryptAttrs req \<longrightarrow> ''enrollmentId'' \<notin> attr_Name ` set (tb_Attrs req)) \<longrightarrow>
           identity_readable L ecert (tc_Keys tcert) tmpl))"

lemma newTCert_ok:
  assumes run: "newTCert L now vp nonce kdfKey req ecert i s = (Inr tcert, t)" and aes: "aes_ok (tl_aes L)"
  shows "tcert_ok L now vp nonce kdfKey req ecert i tcert"
proof -
  let ?tidx = "tcertIndex nonce i" and ?key = "take 32 (tl_hmac L kdfKey [1])"
  obtain tcertid s1 enc s2 q s3 where id: "GenerateIntUUID s = (Inr tcertid, s1)"
    and enc: "CBCPKCS7Encrypt (tl_aes L) ?key ?tidx s1 = (Inr enc, s2)"
    and gen: "generateExtensions L tcertid enc ecert req s2 = (Inr q, s3)"
    and rest: "(case q of (extensions, ks) \<Rightarrow>
      case tl_CreateCertificate L (tcertTemplate now vp (tl_AddBase L ecert (tcertScalar L ecert kdfKey ?tidx)) extensions tcertid) of
        None \<Rightarrow> throwE (PlainErr ''Failed in TCert x509.CreateCertificate'')
      | Some raw \<Rightarrow> returnE \<lparr>tc_Cert = tl_EncodePEM L raw, tc_Keys = ks\<rparr>) s3 = (Inr tcert, t)"
    using run unfolding newTCert_def Let_def bindE_Inr mapErrE_Inr by blast
  obtain extensions ks where q: "q = (extensions, ks)" by (cases q)
  define tmpl where "tmpl = tcertTemplate now vp (tl_AddBase L ecert (tcertScalar L ecert kdfKey ?tidx)) extensions tcertid"
  have ext: "tmpl\<lparr>ct_Extensions := extensions\<rparr> = tmpl" "ct_Extensions tmpl = extensions"
    by (simp_all add: tmpl_def tcertTemplate_def)
  note gx = generateExtensions_Inr(1, 2) [OF gen [unfolded q] aes]
    generateExtensions_Inr(3, 4) [OF gen [unfolded q] aes, where tmpl = tmpl, unfolded ext]
  obtain raw where "tl_CreateCertificate L tmpl = Some raw" "tcert = \<lparr>tc_Cert = tl_EncodePEM L raw, tc_Keys = ks\<rparr>"
    using rest by (auto simp: q tmpl_def case_option_run)
  moreover have "index_readable L kdfKey ecert ?tidx tmpl"
    using encrypted [OF enc aes] by (auto simp: index_readable_def tmpl_def tcertTemplate_def intro!: bexI [OF _ gx(2)])
  moreover have "ct_NotBefore tmpl = now" "ct_NotAfter tmpl = now + vp" "\<not> ct_IsCA tmpl"
    by (simp_all add: tmpl_def tcertTemplate_def)
  ultimately show ?thesis unfolding tcert_ok_def using gx ext(2) by (metis TCert.select_convs(1, 2))
qed

lemma tcertLoop_ok:
  assumes "tcertLoop L now vp nonce kdfKey req ecert i n s = (Inr tcerts, t)" and "aes_ok (tl_aes L)"
  shows "length tcerts = n \<and> (\<forall>j < n. tcert_ok L now vp nonce kdfKey req ecert (i + j) (tcerts ! j))"
  using assms(1)
proof (induction n arbitrary: i s tcerts)
  case (Suc n)
  then obtain tc u rest where "newTCert L now vp nonce kdfKey req ecert i s = (Inr tc, u)"
    and loop: "tcertLoop L now vp nonce kdfKey req ecert (i + 1) n u = (Inr rest, t)" and tcs: "tcerts = tc # rest"
    by (auto simp: bindE_Inr)
  then have "tcert_ok L now vp nonce kdfKey req ecert i tc" using newTCert_ok assms(2) by blast
  then show ?case using Suc.IH [OF loop] by (auto simp: tcs nth_Cons split: nat.splits)
qed simp

lemma tcertScalar_bounds: "tl_N L ecert > 1 \<Longrightarrow> 1 \<le> tcertScalar L ecert key tidx \<and> tcertScalar L ecert key tidx < tl_N L ecert"
  by (simp add: tcertScalar_def) (metis Suc_diff_1 Suc_less_eq diff_is_0_eq less_imp_not_less mod_less_divisor not_le zero_less_Suc zero_less_diff)

text \<open>C28: a batch of transaction certificates.  A batch that was made holds as many certificates as were asked for, the
  maximum when none were, and never more than the maximum.  The certificate number \<open>j\<close> is no CA's, is valid for
  at most the configured period, and has the public key derived with a scalar between 1 and the order of the curve;
  with the key in the response the owner reads the index that yields this scalar.  The attributes, and the enrollment
  ID unless an encrypted attribute has taken the name of its key, are readable with the keys given along.\<close>

theorem GetBatch_sound:
  assumes run: "GetBatch L tm now randomNum req (Some ecert) s = (Inr resp, t)" and aes: "aes_ok (tl_aes L)"
    and curve: "tl_N L ecert > 1" and max: "0 < tm_MaxAllowedBatchSize tm"
  shows "int (length (tbr_TCerts resp)) =
      (if tb_Count req = 0 then tm_MaxAllowedBatchSize tm else max 0 (tb_Count req)) \<and>
    int (length (tbr_TCerts resp)) \<le> tm_MaxAllowedBatchSize tm \<and>
    (\<exists>nonce vp. vp \<le> tm_ValidityPeriod tm \<and>
       (\<forall>j < length (tbr_TCerts resp).
          tcert_ok L now vp nonce (tbr_Key resp) req ecert j (tbr_TCerts resp ! j) \<and>
          tcertScalar L ecert (tbr_Key resp) (tcertIndex nonce j) \<in> {1..<tl_N L ecert}))"
proof -
  let ?vp = "batchValidity tm (tb_ValidityPeriod req)"
  obtain n nonce kdfKey u tcerts where n: "batchSize tm (tb_Count req) = Inr n"
    and loop: "tcertLoop L now ?vp nonce kdfKey req ecert 0 (nat n) u = (Inr tcerts, t)"
    and resp: "tbr_Key resp = kdfKey" "tbr_TCerts resp = tcerts"
  proof -
    obtain b where "x_PublicKey ecert = ECDSAKey b"
      using run by (cases "x_PublicKey ecert") (auto simp: GetBatch_def bindE_Inr)
    with run show thesis by (auto simp: GetBatch_def bindE_Inr Let_def liftE_Inr simp del: liftE_eq intro: that)
  qed
  note ok = tcertLoop_ok [OF loop aes]
  have "?vp \<le> tm_ValidityPeriod tm" by (simp add: batchValidity_def)
  moreover have "\<forall>j < length tcerts. tcert_ok L now ?vp nonce kdfKey req ecert j (tcerts ! j) \<and>
      tcertScalar L ecert kdfKey (tcertIndex nonce j) \<in> {1..<tl_N L ecert}"
    using ok tcertScalar_bounds [OF curve] by simp
  moreover have "int (length tcerts) = (if tb_Count req = 0 then tm_MaxAllowedBatchSize tm else max 0 (tb_Count req))"
    "int (length tcerts) \<le> tm_MaxAllowedBatchSize tm"
    using ok n max by (auto simp: batchSize_def split: if_splits)
  ultimately show ?thesis unfolding resp by blast
qed

definition toy_tc_lib :: tc_lib where
  "toy_tc_lib =
     \<lparr>tl_aes = toy_aes, tl_hmac = (\<lambda>k d. replicate 48 (foldl (+) 1 (k @ d))), tl_MarshalPublicKey = (\<lambda>_. [5]),
      tl_N = (\<lambda>_. 97), tl_AddBase = (\<lambda>_ k. nat_dec k), tl_CreateCertificate = (\<lambda>c. Some (bytes_of (ct_PublicKey c))),
      tl_EncodePEM = (\<lambda>b. b), tl_order = (\<lambda>h. h)\<rparr>"

definition toy_tcert_request :: tcert_request where
  "toy_tcert_request =
     \<lparr>tb_Count = 2, tb_AttrNames = Some [''role''], tb_EncryptAttrs = True, tb_ValidityPeriod = 60, tb_PreKey = ''prekey'',
      tb_Attrs = [\<lparr>attr_Name = ''role'', attr_Value = ''admin'', attr_ECert = False\<rparr>]\<rparr>"

definition toy_ecert :: X509 where
  "toy_ecert = \<lparr>x_CommonName = ''alice'', x_SerialNumber = 1, x_AuthorityKeyId = [1], x_NotBefore = 0, x_NotAfter = 100,
     x_IsCA = False, x_KeyUsage = 1, x_PublicKey = ECDSAKey 256\<rparr>"

lemma toy_tc_lib_ok: "aes_ok (tl_aes toy_tc_lib)"
  using toy_aes_ok by (auto simp: aes_ok_def key_ok_def toy_tc_lib_def)

section \<open>A batch is made when there are enough random bytes\<close>

lemma CBCPKCS7Encrypt_runs:
  "key_ok key \<Longrightarrow> 16 \<le> length s \<Longrightarrow> \<exists>ct. CBCPKCS7Encrypt A key src s = (Inr ct, drop 16 s)"
  by (simp add: CBCPKCS7Encrypt_def CBCEncrypt_def em_defs io_ReadFull_def PKCS7Padding_length)

lemma GenerateIntUUID_runs: "16 \<le> length s \<Longrightarrow> \<exists>n. GenerateIntUUID s = (Inr n, drop 16 s)"
  by (simp add: GenerateIntUUID_def GenerateBytesUUID_def em_defs io_ReadFull_def Let_def)

text \<open>HMAC with SHA-384 gives 48 bytes, and signing does not fail.\<close>

definition tc_lib_runs :: "tc_lib \<Rightarrow> bool" where
  "tc_lib_runs L \<longleftrightarrow> (\<forall>k d. length (tl_hmac L k d) = 48) \<and> (\<forall>c. tl_CreateCertificate L c \<noteq> None)"

lemma attribute_key_ok: "tc_lib_runs L \<Longrightarrow> key_ok (attribute_key L preK0 name)" "tc_lib_runs L \<Longrightarrow> key_ok (take 32 (tl_hmac L k d))"
  by (simp_all add: tc_lib_runs_def attribute_key_def key_ok_def)

lemma attributeExtensions_runs:
  assumes "tc_lib_runs L"
  shows "16 * length attrs \<le> length s \<Longrightarrow>
    \<exists>q. attributeExtensions L enc preK0 count attrs ks header s = (Inr q, drop (if enc then 16 * length attrs else 0) s)"
proof (induction attrs arbitrary: count ks header s)
  case (Cons a attrs)
  let ?s = "if enc then drop 16 s else s"
  obtain v where v: "(if enc then CBCPKCS7Encrypt (tl_aes L) (attribute_key L preK0 (attr_Name a)) (bytes_of (attr_Value a) @ Padding)
      else returnE (bytes_of (attr_Value a))) s = (Inr v, ?s)"
    using CBCPKCS7Encrypt_runs [OF attribute_key_ok(1) [OF assms]] Cons.prems by (fastforce simp: returnE_def)
  obtain q where q: "attributeExtensions L enc preK0 (count + 1) attrs
      (if enc then AList.update (attr_Name a) (attribute_key L preK0 (attr_Name a)) ks else ks)
      (AList.update (attr_Name a) (count + 1) header) ?s = (Inr q, drop (if enc then 16 * length attrs else 0) ?s)"
    using Cons.IH [of ?s "count + 1"] Cons.prems by fastforce
  show ?case
    using v q by (cases q) (auto simp: Let_def bindE_def returnE_def drop_drop add.commute)
qed (simp add: returnE_def)

definition tcertCost :: "tcert_request \<Rightarrow> nat" where
  "tcertCost req = 48 + 16 * length (tb_Attrs req)"

lemma newTCert_runs:
  assumes L: "tc_lib_runs L" and s: "tcertCost req \<le> length s"
  shows "\<exists>tcert n. newTCert L now vp nonce kdfKey req ecert i s = (Inr tcert, drop n s) \<and> n \<le> tcertCost req"
proof -
  have long: "16 \<le> length (drop 16 s)" "16 \<le> length (drop 32 s)" using s by (simp_all add: tcertCost_def)
  obtain k where uuid: "GenerateIntUUID s = (Inr k, drop 16 s)"
    using GenerateIntUUID_runs [of s] s by (auto simp: tcertCost_def)
  obtain c where idx: "CBCPKCS7Encrypt (tl_aes L) (take 32 (tl_hmac L kdfKey [1])) (tcertIndex nonce i) (drop 16 s) = (Inr c, drop 32 s)"
    using CBCPKCS7Encrypt_runs [OF attribute_key_ok(2) [OF L] long(1)] by fastforce
  let ?preK0 = "tl_hmac L (bytes_of (tb_PreKey req)) (big_Bytes k)"
  let ?key = "attribute_key L ?preK0 ''enrollmentID''"
  obtain e where enc: "CBCPKCS7Encrypt (tl_aes L) ?key (bytes_of (x_CommonName ecert) @ Padding) (drop 32 s) = (Inr e, drop 48 s)"
    using CBCPKCS7Encrypt_runs [OF attribute_key_ok(1) [OF L] long(2)] by fastforce
  obtain q where attrs: "attributeExtensions L (tb_EncryptAttrs req) ?preK0 0 (tb_Attrs req) [(''enrollmentId'', ?key)] []
      (drop 48 s) = (Inr q, drop (if tb_EncryptAttrs req then 16 * length (tb_Attrs req) else 0) (drop 48 s))"
    using attributeExtensions_runs [OF L, of "tb_Attrs req" "drop 48 s"] s by (fastforce simp: tcertCost_def)
  let ?n = "48 + (if tb_EncryptAttrs req then 16 * length (tb_Attrs req) else 0)"
  obtain x where gen: "generateExtensions L k c ecert req (drop 32 s) = (Inr x, drop ?n s)"
    using enc attrs by (cases q) (auto simp: generateExtensions_def Let_def bindE_def returnE_def add.commute)
  obtain raw where "tl_CreateCertificate L (tcertTemplate now vp
      (tl_AddBase L ecert (tcertScalar L ecert kdfKey (tcertIndex nonce i))) (fst x) k) = Some raw"
    using L by (fastforce simp: tc_lib_runs_def)
  then have "\<exists>tcert. newTCert L now vp nonce kdfKey req ecert i s = (Inr tcert, drop ?n s)"
    using uuid idx gen by (cases x) (simp add: newTCert_def Let_def bindE_def mapErrE_def returnE_def)
  moreover have "?n \<le> tcertCost req" by (simp add: tcertCost_def)
  ultimately show ?thesis by blast
qed

lemma tcertLoop_runs:
  assumes L: "tc_lib_runs L"
  shows "n * tcertCost req \<le> length s \<Longrightarrow> \<exists>tcerts t. tcertLoop L now vp nonce kdfKey req ecert i n s = (Inr tcerts, t)"
proof (induction n arbitrary: i s)
  case (Suc n)
  then have "tcertCost req \<le> length s" by simp
  with newTCert_runs [OF L] obtain tc m where tc: "newTCert L now vp nonce kdfKey req ecert i s = (Inr tc, drop m s)"
    and m: "m \<le> tcertCost req" by blast
  have "n * tcertCost req \<le> length (drop m s)" using Suc.prems m by simp
  then obtain tcerts t where "tcertLoop L now vp nonce kdfKey req ecert (i + 1) n (drop m s) = (Inr tcerts, t)"
    using Suc.IH by blast
  then show ?case using tc by (simp add: bindE_def returnE_def)
qed (simp add: returnE_def)

lemma GetBatch_runs:
  assumes L: "tc_lib_runs L" and key: "x_PublicKey ecert = ECDSAKey b"
    and count: "tb_Count req \<le> tm_MaxAllowedBatchSize tm"
    and rand: "57 + nat (if tb_Count req = 0 then tm_MaxAllowedBatchSize tm else tb_Count req) * tcertCost req \<le> length s"
  shows "\<exists>resp t. GetBatch L tm now randomNum req (Some ecert) s = (Inr resp, t)"
proof -
  define n where "n = (if tb_Count req = 0 then tm_MaxAllowedBatchSize tm else tb_Count req)"
  have size: "batchSize tm (tb_Count req) = Inr n" using count by (simp add: batchSize_def n_def)
  obtain h where hmac: "createHMACKey (drop 8 s) = (Inr h, drop 57 s)"
    by (simp add: createHMACKey_def rand_Read_def em_defs)
  define nonce where "nonce = (take 8 s @ replicate (8 - length s) 0) @ replicate 8 0"
  have "nat n * tcertCost req \<le> length (drop 57 s)" using rand by (simp add: n_def)
  then obtain tcerts t where "tcertLoop L now (batchValidity tm (tb_ValidityPeriod req)) nonce
      (tl_hmac L (bytes_of h) (tl_MarshalPublicKey L ecert)) req ecert 0 (nat n) (drop 57 s) = (Inr tcerts, t)"
    using tcertLoop_runs [OF L] by blast
  then show ?thesis
    by (simp add: GetBatch_def size bindE_def liftE_def rand_Read_def returnE_def Let_def key hmac nonce_def)
qed

text \<open>A batch is made.  For an ECDSA certificate and a count within the maximum, and with enough bytes from the
  random generator, the request is answered with a batch.\<close>

theorem GetBatch_succeeds:
  assumes L: "tc_lib_runs L" and key: "x_PublicKey ecert = ECDSAKey b"
    and count: "tb_Count req \<le> tm_MaxAllowedBatchSize tm"
    and rand: "57 + nat (if tb_Count req = 0 then tm_MaxAllowedBatchSize tm else tb_Count req) * tcertCost req \<le> length s"
  shows "\<exists>resp t. GetBatch L tm now randomNum req (Some ecert) s = (Inr resp, t)"
  using assms by (rule GetBatch_runs)

lemma toy_tc_lib_runs: "tc_lib_runs toy_tc_lib"
  by (simp add: tc_lib_runs_def toy_tc_lib_def)

theorem GetBatch_succeeds_witness:
  "\<exists>resp t. GetBatch toy_tc_lib NewMgr 0 5 toy_tcert_request (Some toy_ecert) (replicate 300 7) = (Inr resp, t)"
  by (rule GetBatch_succeeds [OF toy_tc_lib_runs, where b = 256])
    (simp_all add: toy_ecert_def toy_tcert_request_def NewMgr_def tcertCost_def)

lemma toy_batch_runs:
  "\<exists>resp t. GetBatch toy_tc_lib NewMgr 0 5 toy_tcert_request (Some toy_ecert) (replicate 300 7) = (Inr resp, t)"
  by (rule GetBatch_runs [OF toy_tc_lib_runs, where b = 256])
    (simp_all add: toy_ecert_def toy_tcert_request_def NewMgr_def tcertCost_def)

theorem GetBatch_sound_witness:
  "\<exists>resp t. GetBatch toy_tc_lib NewMgr 0 5 toy_tcert_request (Some toy_ecert) (replicate 300 7) = (Inr resp, t) \<and>
     length (tbr_TCerts resp) = 2"
proof -
  obtain resp t where run: "GetBatch toy_tc_lib NewMgr 0 5 toy_tcert_request (Some toy_ecert) (replicate 300 7) = (Inr resp, t)"
    using toy_batch_runs by blast
  show ?thesis
    using run GetBatch_sound [OF run toy_tc_lib_ok]
    by (auto simp: toy_tc_lib_def NewMgr_def toy_tcert_request_def)
qed

end
