(* ===== verification/Api_Types.thy ===== *)
theory Api_Types
  imports CA_Bootstrap TCert_Batch
begin

text \<open>
  The requests and responses of the server's API, \<open>api/client.go\<close> and \<open>api/net.go\<close>, as far as
  the handlers read and fill them, and the decoders of request bodies.  Decoding JSON is the
  business of package \<open>encoding/json\<close>: a decoder is a function from the text of a body to the
  request, undefined when the text does not fit.
\<close>

record RegistrationRequest =
  rr_Name :: string
  rr_Type :: string
  rr_Secret :: string
  rr_MaxEnrollments :: int
  rr_Affiliation :: string
  rr_Attributes :: "Attribute list"

record AddIdentityRequest =
  air_ID :: string
  air_Type :: string
  air_Affiliation :: string
  air_Attributes :: "Attribute list"
  air_MaxEnrollments :: int
  air_Secret :: string

record ModifyIdentityRequest =
  mir_Type :: string
  mir_Affiliation :: string
  mir_Attributes :: "Attribute list"
  mir_MaxEnrollments :: int
  mir_Secret :: string

record RevocationRequest =
  rv_Name :: string
  rv_Serial :: string
  rv_AKI :: string
  rv_Reason :: string
  rv_GenCRL :: bool

record GenCRLRequest =
  gc_RevokedAfter :: int
  gc_RevokedBefore :: int
  gc_ExpireAfter :: int
  gc_ExpireBefore :: int

record AddAffiliationRequest =
  aar_Name :: string

record ModifyAffiliationRequest =
  mar_NewName :: string

record AttributeRequest =
  areq_Name :: string
  areq_Optional :: bool

text \<open>\<open>csr.Name\<close> and \<open>signer.Subject\<close> of CFSSL, and the signing request built on them.\<close>

record csrName =
  nm_C :: string
  nm_ST :: string
  nm_L :: string
  nm_O :: string
  nm_OU :: string
  nm_SerialNumber :: string

record Subject =
  sub_CN :: string
  sub_Names :: "csrName list"

record SignRequest =
  sr_Request :: string
  sr_Subject :: "Subject option"
  sr_Profile :: string
  sr_Label :: string
  sr_NotAfter :: int
  sr_Extensions :: "(string \<times> (string \<times> string) list) list"

record EnrollmentRequestNet = SignRequest +
  er_AttrReqs :: "AttributeRequest list option"

record IdentityInfo =
  ii_ID :: string
  ii_Type :: string
  ii_Affiliation :: string
  ii_Attributes :: "Attribute list"
  ii_MaxEnrollments :: int

record IdentityResponse = IdentityInfo +
  ir_Secret :: string
  ir_CAName :: string

datatype AffiliationInfo = AffiliationInfo (ai_Name: string) (ai_Affiliations: "AffiliationInfo list")
  (ai_Identities: "IdentityInfo list")

datatype response =
    RespRegistration string
  | RespIdentity IdentityResponse
  | RespEnrollment string "string \<times> string"
  | RespRevocation "(string \<times> string) list" "string option"
  | RespCRL string
  | RespAffiliation AffiliationInfo string
  | RespAffiliations "AffiliationInfo" string
  | RespCAInfo "string \<times> string" string
  | RespIdemix "(string \<times> string) list" string string string
  | RespIdemixEnrollment response "string \<times> string"
  | RespCRI string
  | RespTCert GetTCertBatchResponse

record decoders =
  dec_CAName :: "string \<Rightarrow> string option"
  dec_Registration :: "string \<Rightarrow> RegistrationRequest option"
  dec_AddIdentity :: "string \<Rightarrow> AddIdentityRequest option"
  dec_ModifyIdentity :: "string \<Rightarrow> ModifyIdentityRequest option"
  dec_Revocation :: "string \<Rightarrow> RevocationRequest option"
  dec_GenCRL :: "string \<Rightarrow> GenCRLRequest option"
  dec_AddAffiliation :: "string \<Rightarrow> AddAffiliationRequest option"
  dec_ModifyAffiliation :: "string \<Rightarrow> ModifyAffiliationRequest option"
  dec_Enrollment :: "string \<Rightarrow> EnrollmentRequestNet option"
  dec_TCert :: "string \<Rightarrow> GetTCertBatchRequest option"
  dec_Idemix :: "string \<Rightarrow> (string \<times> string) option option"

end
