(* ===== verification/Idemix_Issuer.thy ===== *)
theory Idemix_Issuer
  imports Auth_Token Version_Levels
begin

text \<open>
  The Idemix issuer of a CA, \<open>lib/server/idemix\<close>: nonces (\<open>nonce.go\<close>), the table of credentials
  (\<open>creddbaccessor.go\<close>), revocation handles and revocation information
  (\<open>revocationauthority.go\<close>) and the verification of Idemix tokens (\<open>issuer.go\<close>).

  The cryptography of Fabric's package \<open>idemix\<close> and the arithmetic of its big numbers are the
  record \<open>idemix_lib\<close>; a value drawn from the random generator is an argument of the operation
  that draws it.  Keys are loaded or made when the issuer is initialised; \<open>il_IssuerKey\<close> tells
  whether there is one.  PostgreSQL, on which two of the statements below are not valid SQL, is
  left out.
\<close>

section \<open>Data\<close>

record idemix_lib =
  il_BigToBytes :: "nat \<Rightarrow> string"
  il_FromBytes :: "string \<Rightarrow> nat"
  il_HashModOrder :: "string \<Rightarrow> nat"
  il_AttributeNames :: "string list"
  il_IssuerKey :: bool
  il_Check :: "string \<Rightarrow> bool"
  il_NewCredential :: "string \<Rightarrow> nat list \<Rightarrow> string option"
  il_CreateCRI :: "nat list \<Rightarrow> int \<Rightarrow> bool \<Rightarrow> string option"
  il_Hash :: "string \<Rightarrow> string option"
  il_UnmarshalSig :: "string \<Rightarrow> bool"
  il_Ver :: "string \<Rightarrow> string \<Rightarrow> nat \<Rightarrow> int \<Rightarrow> bool"

record issuer =
  is_Name :: string
  is_Initialized :: bool
  is_Lib :: idemix_lib
  is_RHPoolSize :: int
  is_NonceExpiration :: int
  is_Levels :: Levels

definition AttrEnrollmentID :: string where "AttrEnrollmentID = ''EnrollmentID''"
definition AttrRole :: string where "AttrRole = ''Role''"
definition AttrOU :: string where "AttrOU = ''OU''"
definition AttrRevocationHandle :: string where "AttrRevocationHandle = ''RevocationHandle''"

text \<open>\<open>doTransaction\<close> of this package: a failed rollback replaces the error.\<close>

definition idemix_doTransaction :: "'a dbop \<Rightarrow> 'a dbop" where
  "idemix_doTransaction doit d =
     (if \<not> db_set d then (Inl (PlainErr ''Failed to correctly setup database connection''), d)
      else if faulty d then (Inl (GoPanic ''MustBegin''), pop d)
      else
        (case doit (pop d) of
           (Inl e, d1) \<Rightarrow> (Inl (if faulty d1 then PlainErr ''Error encountered while rolling back transaction'' else e),
                           pop (d\<lparr>db_faults := db_faults d1\<rparr>))
         | (Inr a, d1) \<Rightarrow>
             if faulty d1 then (Inl (WithCause (SqlErr SqlOther)), pop (d\<lparr>db_faults := db_faults d1\<rparr>))
             else (Inr a, pop d1)))"

section \<open>Nonces\<close>

definition insertNonceInDB :: "Nonce \<Rightarrow> unit dbop" where
  "insertNonceInDB nonce =
     bindE (mapErrE (\<lambda>_. PlainErr ''Failed to add nonce to the datastore'')
              (sql_insert db_nonces db_nonces_update (\<lambda>d. n_Val nonce \<in> n_Val ` set (db_nonces d)) nonce)) (\<lambda>numRowsAffected.
     if numRowsAffected = 0 then throwE (PlainErr ''Failed to add nonce to the datastore; no rows affected'')
     else if numRowsAffected \<noteq> 1 then throwE (PlainErr ''Expected to affect 1 entry'')
     else returnE ())"

definition nonceText :: "idemix_lib \<Rightarrow> nat \<Rightarrow> string" where
  "nonceText L nonce = B64Encode (il_BigToBytes L nonce)"

definition GetNonce :: "issuer \<Rightarrow> int \<Rightarrow> nat \<Rightarrow> nat dbop" where
  "GetNonce I now nonce =
     seqE (mapErrE WithCause (insertNonceInDB
             \<lparr>n_Val = nonceText (is_Lib I) nonce, n_Expiry = now + is_NonceExpiration I, n_Level = lv_Nonce (is_Levels I)\<rparr>))
     (returnE nonce)"

text \<open>A failure to remove the nonce, and a wrong number of removed rows, are logged only.\<close>

definition getNonceFromDB :: "string \<Rightarrow> Nonce dbop" where
  "getNonceFromDB queryParam =
     bindE (mapErrE (\<lambda>_. PlainErr ''Failed to retrieve nonce from the datastore'')
              (sql_select db_nonces (\<lambda>n. n_Val n = queryParam))) (\<lambda>nonces.
     case nonces of
       [] \<Rightarrow> throwE (PlainErr ''Nonce not found in the datastore'')
     | n # _ \<Rightarrow>
         bindE (attemptE (sql_delete db_nonces db_nonces_update (\<lambda>n. n_Val n = queryParam))) (\<lambda>_.
         returnE n))"

definition CheckNonce :: "issuer \<Rightarrow> int \<Rightarrow> nat \<Rightarrow> unit dbop" where
  "CheckNonce I now nonce =
     (let queryParam = nonceText (is_Lib I) nonce in
      bindE (idemix_doTransaction (getNonceFromDB queryParam)) (\<lambda>nonceFromDB.
      unlessE (\<not> (n_Val nonceFromDB \<noteq> queryParam \<or> n_Expiry nonceFromDB < now))
        (PlainErr ''Nonce is either unknown or has expired'')))"

text \<open>The statement has a placeholder and \<open>NamedExec\<close>, which binds named parameters only, gives it
  no argument.\<close>

definition removeExpiredNoncesFromDB :: "int \<Rightarrow> unit dbop" where
  "removeExpiredNoncesFromDB curTime =
     mapErrE (\<lambda>_. PlainErr ''Failed to remove expired nonces from DB'') (sql (\<lambda>d. (Inl SqlArgs, d)))"

definition sweep :: "int \<Rightarrow> unit dbop" where
  "sweep curTime = removeExpiredNoncesFromDB curTime"

definition SweepExpiredNonces :: "int \<Rightarrow> unit dbop" where
  "SweepExpiredNonces now = sweep now"

section \<open>Credentials\<close>

definition InsertCredential :: "int \<Rightarrow> CredRecord \<Rightarrow> unit dbop" where
  "InsertCredential level cr =
     seqE (bindE (getE db_set) (\<lambda>ok. unlessE ok (PlainErr ''Database is not set'')))
     (bindE (mapErrE WithCause
              (sql_insert db_credentials db_credentials_update
                 (\<lambda>d. cd_RevocationHandle cr \<in> cd_RevocationHandle ` set (db_credentials d)) (cr\<lparr>cd_Level := level\<rparr>))) (\<lambda>numRowsAffected.
      if numRowsAffected = 0 then throwE (PlainErr ''Failed to insert the credential record; no rows affected'')
      else if numRowsAffected \<noteq> 1 then throwE (PlainErr ''Expected to affect 1 entry in credentials table'')
      else returnE ()))"

definition GetCredentialsByID :: "string \<Rightarrow> CredRecord list dbop" where
  "GetCredentialsByID uid =
     seqE (bindE (getE db_set) (\<lambda>ok. unlessE ok (PlainErr ''Database is not set'')))
     (mapErrE WithCause (sql_select db_credentials (\<lambda>c. cd_ID c = uid)))"

text \<open>\<open>Select\<close> into a single record, which is not a slice, is refused.\<close>

definition GetCredential :: "string \<Rightarrow> CredRecord dbop" where
  "GetCredential revocationHandle =
     seqE (bindE (getE db_set) (\<lambda>ok. unlessE ok (PlainErr ''Database is not set'')))
     (mapErrE WithCause (sql (\<lambda>d. (Inl SqlOther, d))))"

definition GetRevokedCredentials :: "CredRecord list dbop" where
  "GetRevokedCredentials =
     seqE (bindE (getE db_set) (\<lambda>ok. unlessE ok (PlainErr ''Database is not set'')))
     (mapErrE WithCause (sql_select db_credentials (\<lambda>c. cd_Status c = ''revoked'')))"

section \<open>The revocation authority\<close>

definition getRAInfoFromDB :: "RevocationAuthorityInfo dbop" where
  "getRAInfoFromDB =
     bindE (sql_select db_rainfo (\<lambda>_. True)) (\<lambda>rcinfos.
     returnE (case rcinfos of
        [] \<Rightarrow> \<lparr>ra_Epoch = 0, ra_NextRevocationHandle = 0, ra_LastHandleInPool = 0, ra_Level = 0\<rparr>
      | info # _ \<Rightarrow> info))"

definition addRAInfoToDB :: "RevocationAuthorityInfo \<Rightarrow> unit dbop" where
  "addRAInfoToDB rcInfo =
     bindE (mapErrE (\<lambda>_. PlainErr ''Failed to insert revocation authority info into database'')
              (sql_insert db_rainfo db_rainfo_update (\<lambda>d. ra_Epoch rcInfo \<in> ra_Epoch ` set (db_rainfo d)) rcInfo)) (\<lambda>numRowsAffected.
     if numRowsAffected = 0 then throwE (PlainErr ''Failed to insert the revocation authority info record; no rows affected'')
     else if numRowsAffected \<noteq> 1 then throwE (PlainErr ''Expected to affect 1 entry in revocation authority info table'')
     else returnE ())"

text \<open>\<open>NewRevocationAuthority\<close>, without the key material.\<close>

definition NewRevocationAuthority :: "issuer \<Rightarrow> unit dbop" where
  "NewRevocationAuthority I =
     bindE (mapErrE WithCause getRAInfoFromDB) (\<lambda>info.
     if ra_Epoch info = 0 then
       mapErrE WithCause (addRAInfoToDB
         \<lparr>ra_Epoch = 1, ra_NextRevocationHandle = 1, ra_LastHandleInPool = is_RHPoolSize I, ra_Level = lv_RAInfo (is_Levels I)\<rparr>)
     else returnE ())"

text \<open>\<open>Init\<close> of the issuer, called when the database has just been set up.  \<open>keys\<close> tells whether the
  configuration is complete and the key material could be loaded or made.\<close>

definition issuer_Init :: "bool \<Rightarrow> issuer \<Rightarrow> unit dbop" where
  "issuer_Init keys I =
     bindE (getE (\<lambda>d. db_set d \<and> db_initialized d)) (\<lambda>ready.
     if \<not> ready then returnE ()
     else
       seqE (unlessE keys (PlainErr ''key material''))
       (NewRevocationAuthority I))"

text \<open>
  The two updates.  The first one reads \<open>SET next_handle = ? AND lasthandle_in_pool = ?\<close>: it sets
  \<open>next_handle\<close> to the truth value of the conjunction, in the row of the new epoch.
\<close>

definition UpdateNextAndLastHandle :: "int \<Rightarrow> int \<Rightarrow> int \<Rightarrow> nat dbop" where
  "UpdateNextAndLastHandle newNextHandle newLastHandleInPool newEpoch =
     sql_update db_rainfo db_rainfo_update (\<lambda>r. ra_Epoch r = newEpoch)
       (\<lambda>r. r\<lparr>ra_NextRevocationHandle :=
          (if newNextHandle \<noteq> 0 \<and> ra_LastHandleInPool r = newLastHandleInPool then 1 else 0)\<rparr>)"

definition UpdateNextHandle :: "int \<Rightarrow> int \<Rightarrow> nat dbop" where
  "UpdateNextHandle newNextHandle epoch =
     sql_update db_rainfo db_rainfo_update (\<lambda>r. ra_Epoch r = epoch)
       (\<lambda>r. r\<lparr>ra_NextRevocationHandle := newNextHandle\<rparr>)"

definition getNextRevocationHandleTx :: "issuer \<Rightarrow> int dbop" where
  "getNextRevocationHandleTx I =
     bindE (mapErrE (\<lambda>_. PlainErr ''Failed to get revocation authority info from database'')
              (sql_select db_rainfo (\<lambda>_. True))) (\<lambda>rcInfos.
     case rcInfos of
       [] \<Rightarrow> throwE (PlainErr ''No revocation authority info found in database'')
     | rcInfo # _ \<Rightarrow>
         (let nextHandle = ra_NextRevocationHandle rcInfo;
              newNextHandle = ra_NextRevocationHandle rcInfo + 1 in
          seqE (mapErrE WithCause
                 (if nextHandle = ra_LastHandleInPool rcInfo
                  then UpdateNextAndLastHandle newNextHandle (ra_LastHandleInPool rcInfo + is_RHPoolSize I) (ra_Epoch rcInfo + 1)
                  else UpdateNextHandle newNextHandle (ra_Epoch rcInfo)))
          (returnE nextHandle)))"

definition getNextRevocationHandle :: "issuer \<Rightarrow> int dbop" where
  "getNextRevocationHandle I = idemix_doTransaction (getNextRevocationHandleTx I)"

definition GetNewRevocationHandle :: "issuer \<Rightarrow> nat dbop" where
  "GetNewRevocationHandle I = bindE (getNextRevocationHandle I) (\<lambda>h. returnE (nat h))"

definition Epoch :: "int dbop" where
  "Epoch = bindE (mapErrE WithCause getRAInfoFromDB) (\<lambda>info. returnE (ra_Epoch info))"

text \<open>The loop over the revoked credentials stops with \<open>false\<close> at a handle that is not base64.\<close>

fun isRevokedHandle :: "idemix_lib \<Rightarrow> nat \<Rightarrow> CredRecord list \<Rightarrow> bool" where
  "isRevokedHandle L rh [] = False"
| "isRevokedHandle L rh (c # revokedCreds) =
     (case B64Decode (cd_RevocationHandle c) of
        None \<Rightarrow> False
      | Some rrhBytes \<Rightarrow> il_BigToBytes L rh = rrhBytes \<or> isRevokedHandle L rh revokedCreds)"

text \<open>The handles of the pool, and the loop from the last index that cuts out the revoked ones.\<close>

fun cutRevoked :: "idemix_lib \<Rightarrow> CredRecord list \<Rightarrow> nat \<Rightarrow> nat list \<Rightarrow> nat list" where
  "cutRevoked L revokedCreds 0 validHandles = validHandles"
| "cutRevoked L revokedCreds (Suc i) validHandles =
     cutRevoked L revokedCreds i
       (if isRevokedHandle L (validHandles ! i) revokedCreds
        then take i validHandles @ drop (Suc i) validHandles else validHandles)"

definition getUnRevokedHandles :: "idemix_lib \<Rightarrow> RevocationAuthorityInfo \<Rightarrow> CredRecord list \<Rightarrow> nat list" where
  "getUnRevokedHandles L info revokedCreds =
     (let validHandles = map nat [1..ra_LastHandleInPool info]
      in cutRevoked L revokedCreds (length validHandles) validHandles)"

definition newCRI :: "issuer \<Rightarrow> RevocationAuthorityInfo \<Rightarrow> (int \<times> string) dbop" where
  "newCRI I info =
     bindE (mapErrE WithCause GetRevokedCredentials) (\<lambda>revokedCreds.
     case il_CreateCRI (is_Lib I) (getUnRevokedHandles (is_Lib I) info revokedCreds) (ra_Epoch info) (revokedCreds \<noteq> []) of
       None \<Rightarrow> throwE (PlainErr ''failed to create CRI'')
     | Some cri \<Rightarrow> returnE (ra_Epoch info, cri))"

text \<open>\<open>CreateCRI\<close>.  \<open>currentCRI\<close> is the revocation information made last, with its epoch; the result is the
  new one, which the caller keeps.\<close>

definition CreateCRI :: "issuer \<Rightarrow> (int \<times> string) option \<Rightarrow> (int \<times> string) dbop" where
  "CreateCRI I currentCRI =
     bindE (mapErrE WithCause getRAInfoFromDB) (\<lambda>info.
     case currentCRI of
       Some cri \<Rightarrow> if fst cri = ra_Epoch info then returnE cri else newCRI I info
     | None \<Rightarrow> newCRI I info)"

section \<open>Tokens\<close>

text \<open>\<open>VerifyToken\<close> of the issuer: the signature must disclose the enrollment ID that the token names.\<close>

definition idemix_VerifyToken :: "issuer \<Rightarrow> string \<Rightarrow> string \<Rightarrow> string dbop" where
  "idemix_VerifyToken I authHdr body =
     (let L = is_Lib I in
      seqE (unlessE (is_Initialized I) (PlainErr ''Issuer is not initialized''))
      (case getTokenParts authHdr of
         None \<Rightarrow> throwE (PlainErr ''Invalid Idemix token format'')
       | Some parts \<Rightarrow>
           seqE (unlessE (parts ! 1 = ''1'') (PlainErr ''Invalid version found in the Idemix token''))
           (let enrollmentID = parts ! 2 in
            bindE (mapErrE (\<lambda>_. PlainErr ''Failed to check if enrollment ID is valid'') (GetCredentialsByID enrollmentID)) (\<lambda>creds.
            seqE (unlessE (creds \<noteq> []) (PlainErr ''Enrollment ID does not have any Idemix credentials''))
            (case il_Hash L (B64Encode body) of
               None \<Rightarrow> throwE (WithCause (PlainErr ''Failed to create authentication token''))
             | Some digest \<Rightarrow>
                 seqE (unlessE (il_IssuerKey L) (WithCause (PlainErr ''Failed to get issuer key'')))
                 (bindE Epoch (\<lambda>epoch.
                  case B64Decode (parts ! 3) of
                    None \<Rightarrow> throwE (WithCause (PlainErr ''Failed to base64 decode signature specified in the token''))
                  | Some sigBytes \<Rightarrow>
                      seqE (unlessE (il_UnmarshalSig L sigBytes) (WithCause (PlainErr ''Failed to unmarshal signature bytes'')))
                      (seqE (unlessE (il_Ver L sigBytes digest (il_HashModOrder L enrollmentID) epoch)
                              (WithCause (PlainErr ''Failed to verify the token'')))
                      (returnE enrollmentID)))))))))"

section \<open>Results of the operations\<close>

lemma idemix_doTransaction_Inr [em_simps]:
  "idemix_doTransaction doit d = (Inr a, d') \<longleftrightarrow>
     db_set d \<and> \<not> faulty d \<and> (\<exists>d1. doit (pop d) = (Inr a, d1) \<and> \<not> faulty d1 \<and> d' = pop d1)"
  by (auto simp: idemix_doTransaction_def split: prod.splits sum.splits if_splits)

lemma keeps_idemix_doTransaction:
  assumes "keeps I doit" and "\<And>d. I d \<Longrightarrow> I (pop d)" and "\<And>d fs. I d \<Longrightarrow> I (d\<lparr>db_faults := fs\<rparr>)"
  shows "keeps I (idemix_doTransaction doit)"
proof (rule keepsI)
  fix d r d' assume I: "I d" and run: "idemix_doTransaction doit d = (r, d')"
  obtain r1 d1 where body: "doit (pop d) = (r1, d1)" by (cases "doit (pop d)")
  have "I d1" using keepsD [OF assms(1) body] assms(2) I by blast
  then show "I d'" using run I body assms(2,3)
    by (auto simp: idemix_doTransaction_def split: if_splits sum.splits)
qed

lemma getNonceFromDB_Inr:
  "getNonceFromDB q d = (Inr n, d') \<longleftrightarrow>
     \<not> faulty d \<and> (\<exists>ns. filter (\<lambda>n. n_Val n = q) (db_nonces d) = n # ns) \<and>
     d' = (if faulty (pop d) then pop (pop d) else db_nonces_update (filter (\<lambda>n. n_Val n \<noteq> q)) (pop (pop d)))"
proof -
  have del: "sql_delete db_nonces db_nonces_update P (pop d) =
      (if faulty (pop d) then (Inl (SqlErr SqlOther), pop (pop d))
       else (Inr (length (filter P (db_nonces d))), db_nonces_update (filter (\<lambda>r. \<not> P r)) (pop (pop d))))" for P
    by (simp add: sql_delete_def sql_def)
  show ?thesis
    by (auto simp: getNonceFromDB_def bindE_Inr mapErrE_Inr sql_select_Inr attemptE_Inr del split: list.splits if_splits)
qed

lemma CheckNonce_Inr:
  "CheckNonce I now x d = (Inr (), d') \<longleftrightarrow>
     db_set d \<and> \<not> faulty d \<and> \<not> faulty (pop d) \<and>
     (\<exists>n ns. filter (\<lambda>n. n_Val n = nonceText (is_Lib I) x) (db_nonces d) = n # ns \<and> now \<le> n_Expiry n) \<and>
     (let d1 = pop (pop (pop d));
          d2 = (if faulty (pop (pop d)) then d1 else db_nonces_update (filter (\<lambda>n. n_Val n \<noteq> nonceText (is_Lib I) x)) d1)
      in \<not> faulty d2 \<and> d' = pop d2)"
proof (cases "filter (\<lambda>n. n_Val n = nonceText (is_Lib I) x) (db_nonces d)")
  case (Cons n ns)
  moreover have "n_Val n = nonceText (is_Lib I) x" using filter_ConsD [OF Cons] by simp
  ultimately show ?thesis
    by (auto simp: CheckNonce_def Let_def bindE_Inr idemix_doTransaction_Inr getNonceFromDB_Inr)
qed (auto simp: CheckNonce_def Let_def bindE_Inr idemix_doTransaction_Inr getNonceFromDB_Inr)

text \<open>Nonces are used once.  While the database does not fail, a nonce that was accepted had been
  stored and had not expired, and it is removed: no later request with the same nonce is
  accepted before it is drawn again.\<close>

theorem CheckNonce_once:
  assumes run: "CheckNonce I now x d = (Inr (), d')" and ok: "no_faults d"
  shows "(\<exists>n \<in> set (db_nonces d). n_Val n = nonceText (is_Lib I) x \<and> now \<le> n_Expiry n) \<and>
    db_nonces d' = filter (\<lambda>n. n_Val n \<noteq> nonceText (is_Lib I) x) (db_nonces d) \<and>
    (\<forall>now' d''. CheckNonce I now' x d' \<noteq> (Inr (), d''))"
proof -
  obtain n ns where n: "filter (\<lambda>n. n_Val n = nonceText (is_Lib I) x) (db_nonces d) = n # ns" "now \<le> n_Expiry n"
    and d': "db_nonces d' = filter (\<lambda>n. n_Val n \<noteq> nonceText (is_Lib I) x) (db_nonces d)"
    using run ok by (auto simp: CheckNonce_Inr Let_def)
  have "filter (\<lambda>n. n_Val n = nonceText (is_Lib I) x) (db_nonces d') = []" by (simp add: d')
  then have "CheckNonce I now' x d' \<noteq> (Inr (), d'')" for now' d'' by (simp add: CheckNonce_Inr)
  then show ?thesis using d' n filter_ConsD [OF n(1)] by blast
qed

text \<open>A nonce that was issued is accepted.  While the database does not fail, a nonce drawn for the
  first time is accepted until its lifetime is over.\<close>

theorem GetNonce_CheckNonce:
  assumes ok: "no_faults d" "db_set d" and new: "nonceText (is_Lib I) x \<notin> n_Val ` set (db_nonces d)"
    and time: "now' \<le> now + is_NonceExpiration I"
  shows "\<exists>d1 d2. GetNonce I now x d = (Inr x, d1) \<and> CheckNonce I now' x d1 = (Inr (), d2) \<and> db_nonces d2 = db_nonces d"
proof -
  let ?n = "\<lparr>n_Val = nonceText (is_Lib I) x, n_Expiry = now + is_NonceExpiration I, n_Level = lv_Nonce (is_Levels I)\<rparr>"
  let ?d1 = "db_nonces_update (\<lambda>rows. rows @ [?n]) (pop d)"
  have get: "GetNonce I now x d = (Inr x, ?d1)"
    using ok new by (auto simp: GetNonce_def insertNonceInDB_def seqE_Inr bindE_Inr mapErrE_Inr sql_insert_Inr)
  have old: "filter (\<lambda>n. n_Val n = nonceText (is_Lib I) x) (db_nonces d) = []"
    "filter (\<lambda>n. n_Val n \<noteq> nonceText (is_Lib I) x) (db_nonces d) = db_nonces d"
    using new by (force simp: filter_empty_conv filter_id_conv)+
  let ?d2 = "pop (db_nonces_update (filter (\<lambda>n. n_Val n \<noteq> nonceText (is_Lib I) x)) (pop (pop (pop ?d1))))"
  have ok1: "no_faults ?d1" using ok(1) by simp
  then have "CheckNonce I now' x ?d1 = (Inr (), ?d2)"
    using ok(2) old(1) time by (simp add: CheckNonce_Inr Let_def)
  moreover have "db_nonces ?d2 = db_nonces d" using old(2) by simp
  ultimately show ?thesis using get by blast
qed

text \<open>Expired nonces are not swept.  The sweeper never succeeds and removes nothing.\<close>

theorem SweepExpiredNonces_fails: "\<exists>e d'. SweepExpiredNonces now d = (Inl e, d') \<and> tables d' = tables d"
  by (auto simp: SweepExpiredNonces_def sweep_def removeExpiredNoncesFromDB_def mapErrE_def sql_def)

text \<open>A nonce whose removal failed is still accepted and stays in the table, so that it can be used
  again.\<close>

theorem CheckNonce_removal_fails:
  assumes "db_set d" and "db_faults d = [False, False, True]"
    and "filter (\<lambda>n. n_Val n = nonceText (is_Lib I) x) (db_nonces d) = [n]" and "now \<le> n_Expiry n"
  shows "\<exists>d'. CheckNonce I now x d = (Inr (), d') \<and> db_nonces d' = db_nonces d"
  using assms by (auto simp: CheckNonce_Inr Let_def faulty_def pop_def)

section \<open>Revocation handles\<close>

lemma getNextRevocationHandle_ok:
  assumes "no_faults d" "db_set d" and "db_rainfo d = r # rs"
  shows "\<exists>d'. getNextRevocationHandle I d = (Inr (ra_NextRevocationHandle r), d') \<and> no_faults d' \<and> db_set d' \<and>
     db_credentials d' = db_credentials d \<and>
     db_rainfo d' = map (\<lambda>q. if ra_NextRevocationHandle r = ra_LastHandleInPool r
         then (if ra_Epoch q = ra_Epoch r + 1 then q\<lparr>ra_NextRevocationHandle :=
            (if ra_NextRevocationHandle r + 1 \<noteq> 0 \<and> ra_LastHandleInPool q = ra_LastHandleInPool r + is_RHPoolSize I then 1 else 0)\<rparr> else q)
         else (if ra_Epoch q = ra_Epoch r then q\<lparr>ra_NextRevocationHandle := ra_NextRevocationHandle r + 1\<rparr> else q)) (db_rainfo d)"
  using assms
  by (auto simp: getNextRevocationHandle_def getNextRevocationHandleTx_def UpdateNextAndLastHandle_def UpdateNextHandle_def
      idemix_doTransaction_Inr bindE_Inr seqE_Inr mapErrE_Inr sql_select_Inr sql_update_Inr Let_def)

text \<open>Inside the pool a revocation handle is new: it is the next one, and the next handle grows by one.\<close>

theorem getNextRevocationHandle_in_pool:
  assumes "no_faults d" "db_set d" and "db_rainfo d = [r]" and "ra_NextRevocationHandle r \<noteq> ra_LastHandleInPool r"
  shows "\<exists>d'. getNextRevocationHandle I d = (Inr (ra_NextRevocationHandle r), d') \<and>
     db_rainfo d' = [r\<lparr>ra_NextRevocationHandle := ra_NextRevocationHandle r + 1\<rparr>]"
  using getNextRevocationHandle_ok [OF assms(1,2), of r "[]" I] assms(3,4) by auto


lemma cutRevoked_filter:
  "i \<le> length xs \<Longrightarrow> cutRevoked L cs i xs = filter (\<lambda>h. \<not> isRevokedHandle L h cs) (take i xs) @ drop i xs"
proof (induction i arbitrary: xs)
  case (Suc i)
  then have "take (Suc i) xs = take i xs @ [xs ! i]" "drop i xs = xs ! i # drop (Suc i) xs"
    by (simp_all add: take_Suc_conv_app_nth Cons_nth_drop_Suc)
  with Suc show ?case by simp
qed simp

text \<open>The handles that are not revoked.  The loop that cuts revoked handles out of the list from its
  end computes the handles of the pool that are not among the revoked ones, in order.\<close>

theorem getUnRevokedHandles_filter:
  "getUnRevokedHandles L info cs =
     filter (\<lambda>h. \<not> isRevokedHandle L h cs) (map nat [1..ra_LastHandleInPool info])"
  by (simp add: getUnRevokedHandles_def Let_def cutRevoked_filter)

section \<open>Tokens\<close>

lemma Epoch_Inr:
  "Epoch d = (Inr e, d') \<longleftrightarrow> \<not> faulty d \<and> d' = pop d \<and> e = (case db_rainfo d of [] \<Rightarrow> 0 | r # _ \<Rightarrow> ra_Epoch r)"
  by (auto simp: Epoch_def getRAInfoFromDB_def bindE_Inr mapErrE_Inr sql_select_Inr split: list.splits)

text \<open>An Idemix token is accepted only for an enrollment ID that has a credential in the database, and
  only when its signature over the body of the request verifies for that ID and the current epoch.\<close>

theorem idemix_VerifyToken_sound:
  assumes "idemix_VerifyToken I hdr body d = (Inr uid, d')"
  shows "\<exists>b64sig sig digest. strings_Split hdr CHR ''.'' = [''idemix'', ''1'', uid, b64sig] \<and>
     uid \<in> cd_ID ` set (db_credentials d) \<and> B64Decode b64sig = Some sig \<and>
     il_Hash (is_Lib I) (B64Encode body) = Some digest \<and>
     il_Ver (is_Lib I) sig digest (il_HashModOrder (is_Lib I) uid)
       (case db_rainfo d of [] \<Rightarrow> 0 | r # _ \<Rightarrow> ra_Epoch r) \<and> tables d' = tables d"
proof -
  let ?L = "is_Lib I"
  obtain parts where parts: "getTokenParts hdr = Some parts" using assms
    by (cases "getTokenParts hdr") (auto simp: idemix_VerifyToken_def Let_def seqE_Inr)
  then have p: "strings_Split hdr CHR ''.'' = parts" "length parts = 4" "parts ! 0 = ''idemix''"
    by (auto simp: getTokenParts_def Let_def split: if_splits)
  obtain a b c e where "parts = [a, b, c, e]" using p(2) by (auto simp: length_Suc_conv numeral_eq_Suc)
  then have split: "strings_Split hdr CHR ''.'' = [''idemix'', parts ! 1, parts ! 2, parts ! 3]"
    using p(1,3) by simp
  obtain creds d1 digest where one: "parts ! 1 = ''1''"
    and creds: "GetCredentialsByID (parts ! 2) d = (Inr creds, d1)" "creds \<noteq> []"
    and digest: "il_Hash ?L (B64Encode body) = Some digest"
    and rest: "bindE Epoch (\<lambda>epoch. case B64Decode (parts ! 3) of
                    None \<Rightarrow> throwE (WithCause (PlainErr ''Failed to base64 decode signature specified in the token''))
                  | Some sigBytes \<Rightarrow>
                      seqE (unlessE (il_UnmarshalSig ?L sigBytes) (WithCause (PlainErr ''Failed to unmarshal signature bytes'')))
                      (seqE (unlessE (il_Ver ?L sigBytes digest (il_HashModOrder ?L (parts ! 2)) epoch)
                              (WithCause (PlainErr ''Failed to verify the token'')))
                      (returnE (parts ! 2)))) d1 = (Inr uid, d')"
    using assms parts unfolding idemix_VerifyToken_def Let_def
    by (cases "il_Hash ?L (B64Encode body)")
      (auto simp: seqE_Inr [of "unlessE _ _"] bindE_Inr [of "mapErrE _ _"] mapErrE_Inr unlessE_Inr simp del: unlessE_eq)
  have d1: "d1 = pop d" "creds = filter (\<lambda>c. cd_ID c = parts ! 2) (db_credentials d)"
    using creds(1) by (auto simp: GetCredentialsByID_def seqE_Inr bindE_Inr mapErrE_Inr sql_select_Inr)
  have "parts ! 2 \<in> cd_ID ` set (db_credentials d)" using creds(2) d1(2) by (force simp: filter_empty_conv)
  moreover obtain sig where "B64Decode (parts ! 3) = Some sig" "uid = parts ! 2" "tables d' = tables d"
      "il_Ver ?L sig digest (il_HashModOrder ?L (parts ! 2)) (case db_rainfo d of [] \<Rightarrow> 0 | r # _ \<Rightarrow> ra_Epoch r)"
    using rest d1(1) by (auto simp: bindE_Inr Epoch_Inr seqE_Inr case_option_run split: if_splits)
  ultimately show ?thesis using split one digest by auto
qed

section \<open>Invariants\<close>

text \<open>A property of databases that does not depend on the tables of the issuer is kept by its operations.\<close>

locale idemix_invariant = cert_invariant +
  assumes I_nonces: "I d \<Longrightarrow> I (db_nonces_update fn d)"
    and I_rainfo: "I d \<Longrightarrow> I (db_rainfo_update fr d)"
    and I_credentials: "I d \<Longrightarrow> I (db_credentials_update fc d)"
begin

lemma I_idemix_writes:
  "keeps I (sql_insert db_nonces db_nonces_update clash n)" "keeps I (sql_delete db_nonces db_nonces_update P)"
  "keeps I (sql_insert db_rainfo db_rainfo_update clash' r)" "keeps I (sql_update db_rainfo db_rainfo_update Q f)"
  "keeps I (sql_insert db_credentials db_credentials_update clash'' c)"
  by (intro keeps_update keeps_delete keeps_insert I_pop I_nonces I_rainfo I_credentials; assumption)+

lemma I_idemix_tx: "keeps I m \<Longrightarrow> keeps I (idemix_doTransaction m)"
  by (rule keeps_idemix_doTransaction [OF _ I_pop I_faults])

lemma keeps_list:
  "keeps I m \<Longrightarrow> (\<And>a as. keeps I (f a as)) \<Longrightarrow> keeps I (case x of [] \<Rightarrow> m | a # as \<Rightarrow> f a as)"
  by (cases x) auto

lemma I_idemix_ops:
  "keeps I (GetNonce is now nonce)" "keeps I (CheckNonce is now nonce)" "keeps I (InsertCredential level cr)"
  "keeps I (GetNewRevocationHandle is)" "keeps I (CreateCRI is cri)" "keeps I (idemix_VerifyToken is hdr body)"
  "keeps I (issuer_Init b is)"
  unfolding GetNonce_def insertNonceInDB_def CheckNonce_def getNonceFromDB_def InsertCredential_def
    GetNewRevocationHandle_def getNextRevocationHandle_def getNextRevocationHandleTx_def UpdateNextAndLastHandle_def
    UpdateNextHandle_def CreateCRI_def newCRI_def getRAInfoFromDB_def GetRevokedCredentials_def
    idemix_VerifyToken_def GetCredentialsByID_def Epoch_def issuer_Init_def NewRevocationAuthority_def addRAInfoToDB_def Let_def
  by (intro keeps_intros keeps_list I_reads I_idemix_writes I_idemix_tx I_pop; assumption)+

end

interpretation keys: idemix_invariant cert_keys_ok
  by unfold_locales (simp_all add: cert_keys_ok_def)

interpretation revoked: idemix_invariant "stays_revoked k" for k
  by unfold_locales (simp_all add: revoked_keys_def)

section \<open>An issuer\<close>

definition toy_lib :: idemix_lib where
  "toy_lib = \<lparr>il_BigToBytes = \<lambda>n. replicate n CHR ''x'', il_FromBytes = length, il_HashModOrder = length,
     il_AttributeNames = [AttrOU, AttrRole, AttrEnrollmentID, AttrRevocationHandle], il_IssuerKey = True,
     il_Check = \<lambda>_. True, il_NewCredential = \<lambda>r as. Some r, il_CreateCRI = \<lambda>hs e a. Some ''cri'',
     il_Hash = Some, il_UnmarshalSig = \<lambda>_. True, il_Ver = \<lambda>sig digest h e. sig = digest\<rparr>"

definition toy_issuer :: issuer where
  "toy_issuer = \<lparr>is_Name = ''ca'', is_Initialized = True, is_Lib = toy_lib, is_RHPoolSize = 2, is_NonceExpiration = 15,
     is_Levels = \<lparr>lv_Identity = 1, lv_Affiliation = 1, lv_Certificate = 1, lv_Credential = 1, lv_RAInfo = 1, lv_Nonce = 1\<rparr>\<rparr>"

definition toy_rainfo :: RevocationAuthorityInfo where
  "toy_rainfo = \<lparr>ra_Epoch = 1, ra_NextRevocationHandle = 1, ra_LastHandleInPool = 2, ra_Level = 1\<rparr>"

definition toy_nonce :: Nonce where
  "toy_nonce = \<lparr>n_Val = nonceText toy_lib 5, n_Expiry = 20, n_Level = 1\<rparr>"

definition toy_cred :: CredRecord where
  "toy_cred = \<lparr>cd_ID = ''alice'', cd_RevocationHandle = ''h'', cd_Cred = [], cd_CALabel = [], cd_Status = ''good'',
     cd_Reason = 0, cd_Expiry = 0, cd_RevokedAt = 0, cd_Level = 1\<rparr>"

definition toy_db :: sqldb where
  "toy_db = \<lparr>db_set = True, db_driver = ''sqlite3'', db_initialized = True, db_users = [], db_affiliations = [],
     db_certificates = [], db_properties = [], db_nonces = [toy_nonce], db_rainfo = [toy_rainfo],
     db_credentials = [toy_cred], db_faults = []\<rparr>"

lemma toy_db_ok: "no_faults toy_db" "db_set toy_db" "db_rainfo toy_db = [toy_rainfo]" "db_nonces toy_db = [toy_nonce]"
  by (simp_all add: toy_db_def no_faults_def)

theorem CheckNonce_once_witness:
  "db_nonces (snd (CheckNonce toy_issuer 10 5 toy_db)) = []"
proof -
  obtain u where "CheckNonce toy_issuer 10 5 toy_db = (Inr u, snd (CheckNonce toy_issuer 10 5 toy_db))"
    by (rule run_of [where m = "CheckNonce toy_issuer 10 5" and s = toy_db]) code_simp
  then have "CheckNonce toy_issuer 10 5 toy_db = (Inr (), snd (CheckNonce toy_issuer 10 5 toy_db))" by simp
  from CheckNonce_once [OF this toy_db_ok(1)] show ?thesis
    by (simp add: toy_db_ok toy_nonce_def toy_issuer_def)
qed

theorem GetNonce_CheckNonce_witness:
  "\<exists>d1 d2. GetNonce toy_issuer 10 7 toy_db = (Inr 7, d1) \<and> CheckNonce toy_issuer 12 7 d1 = (Inr (), d2)"
proof -
  have "nonceText (is_Lib toy_issuer) 7 \<notin> n_Val ` set (db_nonces toy_db)" by code_simp
  moreover have "12 \<le> 10 + is_NonceExpiration toy_issuer" by (simp add: toy_issuer_def)
  ultimately show ?thesis using GetNonce_CheckNonce [OF toy_db_ok(1,2)] by blast
qed

theorem CheckNonce_removal_fails_witness:
  "\<exists>d'. CheckNonce toy_issuer 10 5 (toy_db\<lparr>db_faults := [False, False, True]\<rparr>) = (Inr (), d') \<and> db_nonces d' = [toy_nonce]"
  using CheckNonce_removal_fails [of "toy_db\<lparr>db_faults := [False, False, True]\<rparr>" toy_issuer 5 toy_nonce 10]
  by (simp add: toy_db_ok toy_nonce_def toy_issuer_def)

theorem getNextRevocationHandle_in_pool_witness:
  "\<exists>d'. getNextRevocationHandle toy_issuer toy_db = (Inr 1, d') \<and> ra_NextRevocationHandle (hd (db_rainfo d')) = 2"
  using getNextRevocationHandle_in_pool [OF toy_db_ok(1,2,3), of toy_issuer] by (auto simp: toy_rainfo_def)


definition toy_token :: string where
  "toy_token = ''idemix.1.alice.'' @ B64Encode (B64Encode ''body'')"

theorem idemix_VerifyToken_sound_witness:
  "fst (idemix_VerifyToken toy_issuer toy_token ''body'' toy_db) = Inr ''alice'' \<and> ''alice'' \<in> cd_ID ` set (db_credentials toy_db)"
proof -
  have fst: "fst (idemix_VerifyToken toy_issuer toy_token ''body'' toy_db) = Inr ''alice''" by code_simp
  then have "idemix_VerifyToken toy_issuer toy_token ''body'' toy_db
      = (Inr ''alice'', snd (idemix_VerifyToken toy_issuer toy_token ''body'' toy_db))" by (simp add: prod_eq_iff)
  from idemix_VerifyToken_sound [OF this] fst show ?thesis by blast
qed

end
