(* ===== verification/Server_Endpoint.thy ===== *)
theory Server_Endpoint
  imports Fabric_Util
begin

text \<open>
  An endpoint of the HTTP server, \<open>lib/serverendpoint.go\<close>: the check of the method, the call
  of the handler, the response writer that sends the header once and opens the JSON
  envelope at the first write, and the closing of the envelope.

  The connection below is the list of the status codes given to it and the text written.
  Values the server encodes as JSON are represented by their encoded text; the encoder of
  the error message is an argument.  A handler is an operation on a state that contains the
  endpoint and the writer, so that it may write the response in chunks and may, as two
  handlers do, change the endpoint's success code.
\<close>

section \<open>State\<close>

record serverEndpoint =
  se_Methods :: "string list"
  se_successRC :: nat

record httpResponseWriter =
  hrw_method :: string
  hrw_writeHeaderCalled :: bool
  hrw_writeCalled :: bool
  hrw_status :: "nat list"
  hrw_out :: string

record conn =
  c_se :: serverEndpoint
  c_w :: httpResponseWriter

section \<open>Operations\<close>

definition getSuccessRC :: "serverEndpoint \<Rightarrow> nat" where
  "getSuccessRC se = (if se_successRC se = 0 then 200 else se_successRC se)"

definition validateMethod :: "serverEndpoint \<Rightarrow> string \<Rightarrow> unit result" where
  "validateMethod se method =
     (if method \<in> set (se_Methods se) then Inr () else Inl (newHTTPErr 405 ErrMethodNotAllowed))"

definition newHTTPResponseWriter :: "string \<Rightarrow> httpResponseWriter" where
  "newHTTPResponseWriter method =
     \<lparr>hrw_method = method, hrw_writeHeaderCalled = False, hrw_writeCalled = False,
      hrw_status = [], hrw_out = []\<rparr>"

definition isHead :: "httpResponseWriter \<Rightarrow> bool" where
  "isHead w \<longleftrightarrow> hrw_method w = ''HEAD''"

definition WriteHeader :: "serverEndpoint \<Rightarrow> nat \<Rightarrow> httpResponseWriter \<Rightarrow> httpResponseWriter" where
  "WriteHeader se sc w =
     (if \<not> hrw_writeHeaderCalled w
      then w\<lparr>hrw_status := hrw_status w @ [if sc = 200 then getSuccessRC se else sc],
             hrw_writeHeaderCalled := True\<rparr>
      else w)"

definition Write :: "serverEndpoint \<Rightarrow> string \<Rightarrow> httpResponseWriter \<Rightarrow> httpResponseWriter" where
  "Write se buf w =
     (if isHead w then w
      else
        (let w1 = WriteHeader se 200 w;
             w2 = (if \<not> hrw_writeCalled w1
                   then w1\<lparr>hrw_out := hrw_out w1 @ ''{\"result\":'', hrw_writeCalled := True\<rparr>
                   else w1)
         in w2\<lparr>hrw_out := hrw_out w2 @ buf\<rparr>))"

definition writeE :: "string \<Rightarrow> ('a conn_scheme, go_error, unit) em" where
  "writeE buf s = (Inr (), s\<lparr>c_w := Write (c_se s) buf (c_w s)\<rparr>)"

text \<open>What is written after the handler has returned \<open>r\<close>.\<close>

definition finish ::
  "(httpErr \<Rightarrow> string) \<Rightarrow> go_error + string option \<Rightarrow> serverEndpoint \<Rightarrow> httpResponseWriter \<Rightarrow> httpResponseWriter" where
  "finish errJSON r se w =
     (let he = (case r of Inl e \<Rightarrow> Some (getHTTPErr e) | Inr _ \<Rightarrow> None);
          resp = (case r of Inl _ \<Rightarrow> None | Inr x \<Rightarrow> x);
          w1 = WriteHeader se (case he of Some h \<Rightarrow> scode h | None \<Rightarrow> getSuccessRC se) w;
          w2 = (case resp of Some t \<Rightarrow> Write se t w1 | None \<Rightarrow> w1);
          w3 = (if \<not> hrw_writeCalled w2 then Write se ''\"\"'' w2 else w2);
          w4 = Write se '',\"errors\":['' w3;
          w5 = (case he of Some h \<Rightarrow> Write se (errJSON h) w4 | None \<Rightarrow> w4);
          w6 = Write se ''],\"messages\":[],\"success\":'' w5
      in Write se (case he of Some _ \<Rightarrow> ''false}'' | None \<Rightarrow> ''true}'') w6)"

text \<open>A panic of the handler unwinds \<open>ServeHTTP\<close> as well; the HTTP server below recovers it and drops the
  connection.\<close>

definition panicked :: "go_error + 'a \<Rightarrow> bool" where
  "panicked r = (case r of Inl e \<Rightarrow> isPanic e | Inr _ \<Rightarrow> False)"

definition ServeHTTP ::
  "(httpErr \<Rightarrow> string) \<Rightarrow> string \<Rightarrow> ('a conn_scheme, go_error, string option) em \<Rightarrow> 'a conn_scheme \<Rightarrow> 'a conn_scheme" where
  "ServeHTTP errJSON method handler s0 =
     (let s = s0\<lparr>c_w := newHTTPResponseWriter method\<rparr>;
          (r, s') = (case validateMethod (c_se s) method of
                       Inl e \<Rightarrow> (Inl e, s)
                     | Inr _ \<Rightarrow> handler s)
      in if panicked r then s' else s'\<lparr>c_w := finish errJSON r (c_se s') (c_w s')\<rparr>)"

section \<open>The envelope\<close>

text \<open>What the server promises of a response: the status codes given to the connection and
  the text, for a handler that left the writer \<open>w\<close> and returned \<open>r\<close>.\<close>

definition envelope_end :: "(httpErr \<Rightarrow> string) \<Rightarrow> go_error + string option \<Rightarrow> string" where
  "envelope_end errJSON r =
     '',\"errors\":['' @ (case r of Inl e \<Rightarrow> errJSON (getHTTPErr e) | Inr _ \<Rightarrow> [])
     @ ''],\"messages\":[],\"success\":'' @ (case r of Inl _ \<Rightarrow> ''false}'' | Inr _ \<Rightarrow> ''true}'')"

definition envelope :: "(httpErr \<Rightarrow> string) \<Rightarrow> go_error + string option \<Rightarrow> httpResponseWriter \<Rightarrow> string" where
  "envelope errJSON r w =
     (if hrw_writeCalled w
      then hrw_out w @ (case r of Inr (Some t) \<Rightarrow> t | _ \<Rightarrow> [])
      else hrw_out w @ ''{\"result\":'' @ (case r of Inr (Some t) \<Rightarrow> t | _ \<Rightarrow> ''\"\"''))
     @ envelope_end errJSON r"

text \<open>A state of the writer that the operations can produce.\<close>

definition writer_ok :: "httpResponseWriter \<Rightarrow> bool" where
  "writer_ok w \<longleftrightarrow>
     (if hrw_writeHeaderCalled w then length (hrw_status w) = 1 else hrw_status w = []) \<and>
     (hrw_writeCalled w \<longrightarrow> hrw_writeHeaderCalled w) \<and> (\<not> hrw_writeCalled w \<longrightarrow> hrw_out w = []) \<and>
     (hrw_writeCalled w \<longrightarrow> \<not> isHead w)"

lemma isHead_simps [simp]:
  "isHead (WriteHeader se sc w) = isHead w" "isHead (Write se buf w) = isHead w"
  by (simp_all add: isHead_def WriteHeader_def Write_def Let_def)

lemma hrw_method_simps [simp]:
  "hrw_method (WriteHeader se sc w) = hrw_method w" "hrw_method (Write se buf w) = hrw_method w"
  by (simp_all add: WriteHeader_def Write_def Let_def)

lemma WriteHeader_fields [simp]:
  "hrw_writeHeaderCalled (WriteHeader se sc w)"
  "hrw_writeCalled (WriteHeader se sc w) = hrw_writeCalled w"
  "hrw_out (WriteHeader se sc w) = hrw_out w"
  "hrw_status (WriteHeader se sc w) =
     (if hrw_writeHeaderCalled w then hrw_status w
      else hrw_status w @ [if sc = 200 then getSuccessRC se else sc])"
  by (simp_all add: WriteHeader_def)

lemma Write_fields [simp]:
  "\<not> isHead w \<Longrightarrow> hrw_writeHeaderCalled (Write se buf w)"
  "\<not> isHead w \<Longrightarrow> hrw_writeCalled (Write se buf w)"
  "\<not> isHead w \<Longrightarrow> hrw_out (Write se buf w) =
     hrw_out w @ (if hrw_writeCalled w then [] else ''{\"result\":'') @ buf"
  "\<not> isHead w \<Longrightarrow> hrw_status (Write se buf w) =
     (if hrw_writeHeaderCalled w then hrw_status w else hrw_status w @ [getSuccessRC se])"
  "isHead w \<Longrightarrow> Write se buf w = w"
  by (simp_all add: Write_def Let_def)

lemma writer_ok_new [simp]: "writer_ok (newHTTPResponseWriter method)"
  by (simp add: writer_ok_def newHTTPResponseWriter_def)

lemma writer_ok_WriteHeader [simp]: "writer_ok w \<Longrightarrow> writer_ok (WriteHeader se sc w)"
  by (simp add: writer_ok_def)

lemma writer_ok_Write [simp]: "writer_ok w \<Longrightarrow> writer_ok (Write se buf w)"
  by (cases "isHead w") (auto simp: writer_ok_def)

lemma keeps_writeE: "keeps (\<lambda>s. writer_ok (c_w s)) (writeE buf)"
  by (simp add: keeps_def writeE_def)

lemma finish_ok: "writer_ok w \<Longrightarrow> writer_ok (finish errJSON r se w)"
  by (auto simp: finish_def Let_def split: sum.splits option.splits)

lemma finish_out:
  "\<not> isHead w \<Longrightarrow> hrw_out (finish errJSON r se w) = envelope errJSON r w"
  by (auto simp: finish_def Let_def envelope_def envelope_end_def split: sum.splits option.splits)

lemma finish_head: "isHead w \<Longrightarrow> hrw_out (finish errJSON r se w) = hrw_out w"
  by (auto simp: finish_def Let_def split: sum.splits option.splits)

definition final_status :: "go_error + string option \<Rightarrow> serverEndpoint \<Rightarrow> nat" where
  "final_status r se =
     (case r of Inl e \<Rightarrow> (if scode (getHTTPErr e) = 200 then getSuccessRC se else scode (getHTTPErr e))
      | Inr _ \<Rightarrow> getSuccessRC se)"

lemma finish_status:
  "hrw_status (finish errJSON r se w) =
     (if hrw_writeHeaderCalled w then hrw_status w else hrw_status w @ [final_status r se])"
  by (cases "isHead w")
    (auto simp: finish_def Let_def final_status_def split: sum.splits option.splits)

lemma ServeHTTP_response:
  assumes handler: "keeps (\<lambda>s. writer_ok (c_w s) \<and> hrw_method (c_w s) = method) handler"
    and s: "s = s0\<lparr>c_w := newHTTPResponseWriter method\<rparr>"
    and run: "(r, s1) = (if method \<in> set (se_Methods (c_se s0)) then handler s
                         else (Inl (newHTTPErr 405 ErrMethodNotAllowed), s))"
  shows "if panicked r then ServeHTTP errJSON method handler s0 = s1
    else length (hrw_status (c_w (ServeHTTP errJSON method handler s0))) = 1
    \<and> hrw_out (c_w (ServeHTTP errJSON method handler s0)) =
        (if method = ''HEAD'' then [] else envelope errJSON r (c_w s1))
    \<and> (\<not> hrw_writeHeaderCalled (c_w s1) \<longrightarrow>
         hrw_status (c_w (ServeHTTP errJSON method handler s0)) = [final_status r (c_se s1)])"
proof -
  have res: "ServeHTTP errJSON method handler s0 =
      (if panicked r then s1 else s1\<lparr>c_w := finish errJSON r (c_se s1) (c_w s1)\<rparr>)"
    using run by (auto simp: ServeHTTP_def validateMethod_def s Let_def split: prod.splits if_splits)
  have "writer_ok (c_w s) \<and> hrw_method (c_w s) = method"
    by (simp add: s) (simp add: newHTTPResponseWriter_def)
  then have ok: "writer_ok (c_w s1)" "hrw_method (c_w s1) = method"
    using run keepsD [OF handler, of s r s1] by (auto split: if_splits)
  have called: "hrw_writeHeaderCalled (finish errJSON r (c_se s1) (c_w s1))"
    by (cases "isHead (c_w s1)") (auto simp: finish_def Let_def split: sum.splits option.splits)
  have one: "length (hrw_status (finish errJSON r (c_se s1) (c_w s1))) = 1"
    using finish_ok [OF ok(1), of errJSON r "c_se s1"] called by (simp add: writer_ok_def)
  have "hrw_out (finish errJSON r (c_se s1) (c_w s1)) =
      (if method = ''HEAD'' then [] else envelope errJSON r (c_w s1))"
  proof (cases "isHead (c_w s1)")
    case True
    then show ?thesis using ok by (auto simp: finish_head isHead_def writer_ok_def)
  next
    case False
    then show ?thesis using ok by (auto simp: finish_out isHead_def)
  qed
  then show ?thesis
    using one ok(1) by (auto simp: res finish_status writer_ok_def)
qed

text \<open>A request is answered with exactly one status code and, unless the method is
  HEAD, with exactly one JSON envelope: the result, the list of errors and the success flag.
  A method the endpoint does not list is answered with status 405 and the handler is not
  run.  Only when the handler panics nothing is added to what it wrote.\<close>

theorem ServeHTTP_envelope:
  assumes handler: "keeps (\<lambda>s. writer_ok (c_w s) \<and> hrw_method (c_w s) = method) handler"
    and s: "s = s0\<lparr>c_w := newHTTPResponseWriter method\<rparr>"
    and run: "(r, s1) = (if method \<in> set (se_Methods (c_se s0)) then handler s
                         else (Inl (newHTTPErr 405 ErrMethodNotAllowed), s))"
  shows "if panicked r then ServeHTTP errJSON method handler s0 = s1
    else length (hrw_status (c_w (ServeHTTP errJSON method handler s0))) = 1
    \<and> hrw_out (c_w (ServeHTTP errJSON method handler s0)) =
        (if method = ''HEAD'' then [] else envelope errJSON r (c_w s1))
    \<and> (\<not> hrw_writeHeaderCalled (c_w s1) \<longrightarrow>
         hrw_status (c_w (ServeHTTP errJSON method handler s0)) = [final_status r (c_se s1)])"
  using assms by (rule ServeHTTP_response)

definition example_conn :: conn where
  "example_conn =
     \<lparr>c_se = \<lparr>se_Methods = [''GET'', ''POST''], se_successRC = 201\<rparr>, c_w = newHTTPResponseWriter []\<rparr>"

theorem ServeHTTP_envelope_witness:
  "hrw_status (c_w (ServeHTTP (\<lambda>h. ''err'') ''GET'' (throwE (newHTTPErr 404 ErrDBGet)) example_conn)) = [404]
   \<and> hrw_out (c_w (ServeHTTP (\<lambda>h. ''err'') ''GET'' (throwE (newHTTPErr 404 ErrDBGet)) example_conn)) =
       ''{\"result\":\"\",\"errors\":[err],\"messages\":[],\"success\":false}''"
proof -
  let ?s = "example_conn\<lparr>c_w := newHTTPResponseWriter ''GET''\<rparr>"
  let ?h = "throwE (newHTTPErr 404 ErrDBGet) :: (conn, go_error, string option) em"
  have keep: "keeps (\<lambda>s. writer_ok (c_w s) \<and> hrw_method (c_w s) = ''GET'') ?h"
    by (intro keeps_intros)
  have run: "(Inl (newHTTPErr 404 ErrDBGet), ?s) =
      (if ''GET'' \<in> set (se_Methods (c_se example_conn)) then ?h ?s
       else (Inl (newHTTPErr 405 ErrMethodNotAllowed), ?s))"
    by (simp add: example_conn_def throwE_def)
  show ?thesis
    using ServeHTTP_envelope [OF keep refl run, where errJSON = "\<lambda>h. ''err''"]
    by (simp add: panicked_def envelope_def envelope_end_def final_status_def newHTTPResponseWriter_def)
qed

end
