(* ===== verification/Request_Context.thy ===== *)
theory Request_Context
  imports Api_Types Idemix_Issuer Server_Endpoint
begin

text \<open>
  The context of a request, \<open>lib/serverrequestcontext.go\<close>: reading the body, finding the
  targeted CA, authentication by password and by token, and the authorisation checks that
  all handlers share.

  The state of a request is the connection of \<open>Server_Endpoint\<close>, the server's CAs and the
  context object.  What the server takes from outside is the record \<open>env\<close>: the time, the
  password hash, the database's \<open>LIKE\<close>, the parser of certificates, the cryptographic
  provider, the verification of a certificate against a CA's chain, the check of
  certificate revocation lists (CFSSL's \<open>revoke.VerifyCertificate\<close>), the Idemix issuer, the
  random secret, the server's levels and the JSON decoders and encoders.
\<close>

section \<open>Requests, server and context\<close>

record request =
  req_Method :: string
  req_Authorization :: string
  req_Query :: "(string \<times> string) list"
  req_Vars :: "(string \<times> string) list option"
  req_Body :: "string option"

record context_impl =
  ctx_req :: request
  ctx_ca :: "string option"
  ctx_enrollmentID :: string
  ctx_enrollmentCert :: "X509 option"
  ctx_ui :: "DBUser option"
  ctx_caller :: "DBUser option"
  ctx_body :: "string option option"
  ctx_callerRoles :: "(string \<times> bool) list"

record reqst = conn +
  st_cas :: "string \<rightharpoonup> CA"
  st_default :: string
  st_ctx :: context_impl

type_synonym 'a req = "(reqst, go_error, 'a) em"

record env =
  e_now :: int
  e_version :: string
  e_levels :: Levels
  e_bcrypt :: bcrypt
  e_like :: "string \<Rightarrow> string \<Rightarrow> bool"
  e_parse :: pem_parser
  e_csp :: "bccsp option"
  e_VerifyCertificate :: "string \<Rightarrow> X509 \<Rightarrow> bool"
  e_revoke :: "X509 \<Rightarrow> bool \<times> bool"
  e_issuerInit :: bool
  e_issuer :: issuer
  e_idemixRand :: nat
  e_updateSchema :: "unit dbop"
  e_random :: string
  e_chunkVar :: string
  e_decoders :: decoders
  e_marshal :: "IdentityInfo \<Rightarrow> string"
  e_encode :: "response \<Rightarrow> string"

definition newServerRequestContext :: "request \<Rightarrow> context_impl" where
  "newServerRequestContext r =
     \<lparr>ctx_req = r, ctx_ca = None, ctx_enrollmentID = [], ctx_enrollmentCert = None, ctx_ui = None,
      ctx_caller = None, ctx_body = None, ctx_callerRoles = []\<rparr>"

abbreviation ctxE :: "(context_impl \<Rightarrow> 'a) \<Rightarrow> 'a req" where
  "ctxE f \<equiv> getE (\<lambda>s. f (st_ctx s))"

abbreviation setCtx :: "(context_impl \<Rightarrow> context_impl) \<Rightarrow> unit req" where
  "setCtx f \<equiv> modifyE (\<lambda>s. s\<lparr>st_ctx := f (st_ctx s)\<rparr>)"

text \<open>An operation on the database of the CA found by \<open>getCA\<close>, and a field of that CA.  The
  pointer \<open>ctx.ca\<close> is the name of the CA.\<close>

definition dbE :: "'a dbop \<Rightarrow> 'a req" where
  "dbE m s =
     (case ctx_ca (st_ctx s) of
        None \<Rightarrow> (Inl (GoPanic ''nil pointer dereference''), s)
      | Some name \<Rightarrow>
          (case st_cas s name of
             None \<Rightarrow> (Inl (GoPanic ''nil pointer dereference''), s)
           | Some ca \<Rightarrow>
               (case m (ca_db ca) of
                  (r, d) \<Rightarrow> (r, s\<lparr>st_cas := (st_cas s)(name \<mapsto> ca\<lparr>ca_db := d\<rparr>)\<rparr>))))"

definition caE :: "(CA \<Rightarrow> 'a) \<Rightarrow> 'a req" where
  "caE f s =
     (case ctx_ca (st_ctx s) of
        None \<Rightarrow> (Inl (GoPanic ''nil pointer dereference''), s)
      | Some name \<Rightarrow>
          (case st_cas s name of
             None \<Rightarrow> (Inl (GoPanic ''nil pointer dereference''), s)
           | Some ca \<Rightarrow> (Inr (f ca), s)))"

section \<open>The body\<close>

definition ReadBodyBytes :: "string req" where
  "ReadBodyBytes =
     bindE (ctxE ctx_body) (\<lambda>cached.
     bindE (case cached of
              Some b \<Rightarrow> returnE b
            | None \<Rightarrow>
                bindE (ctxE (\<lambda>c. req_Body (ctx_req c))) (\<lambda>b.
                seqE (setCtx (\<lambda>c. c\<lparr>ctx_body := Some b\<rparr>)) (returnE b))) (\<lambda>b.
     case b of
       None \<Rightarrow> throwE (newHTTPErr 400 ErrReadingReqBody)
     | Some buf \<Rightarrow> returnE buf))"

text \<open>The result of \<open>TryReadBody\<close> is the decoded body, or nothing when the body is empty.\<close>

definition TryReadBody :: "(string \<Rightarrow> 'b option) \<Rightarrow> 'b option req" where
  "TryReadBody decode =
     bindE ReadBodyBytes (\<lambda>buf.
     if buf = [] then returnE None
     else (case decode buf of
             None \<Rightarrow> throwE (newHTTPErr 400 ErrBadReqBody)
           | Some b \<Rightarrow> returnE (Some b)))"

definition ReadBody :: "(string \<Rightarrow> 'b option) \<Rightarrow> 'b req" where
  "ReadBody decode =
     bindE (TryReadBody decode) (\<lambda>b.
     case b of
       None \<Rightarrow> throwE (newHTTPErr 400 ErrEmptyReqBody)
     | Some body \<Rightarrow> returnE body)"

definition GetQueryParm :: "string \<Rightarrow> string req" where
  "GetQueryParm name =
     ctxE (\<lambda>c. case map_of (req_Query (ctx_req c)) name of None \<Rightarrow> [] | Some v \<Rightarrow> v)"

definition GetBoolQueryParm :: "string \<Rightarrow> bool req" where
  "GetBoolQueryParm name =
     bindE (GetQueryParm name) (\<lambda>param.
     if param = [] then returnE False
     else (case strconv_ParseBool (strings_ToLower param) of
             None \<Rightarrow> throwE (newHTTPErr 400 ErrUpdateConfigRemoveAff)
           | Some value \<Rightarrow> returnE value))"

definition GetVar :: "string \<Rightarrow> string req" where
  "GetVar name =
     bindE (ctxE (\<lambda>c. req_Vars (ctx_req c))) (\<lambda>vars.
     case vars of
       None \<Rightarrow> throwE (newHTTPErr 500 ErrHTTPRequest)
     | Some vs \<Rightarrow> returnE (case map_of vs name of None \<Rightarrow> [] | Some v \<Rightarrow> v))"

definition ChunksToDeliver :: "string \<Rightarrow> int req" where
  "ChunksToDeliver envVar =
     (if envVar = [] then returnE 100
      else (case strconv_Atoi envVar of
              None \<Rightarrow> throwE (newHTTPErr 500 ErrParsingIntEnvVar)
            | Some n \<Rightarrow> returnE n))"

section \<open>The targeted CA\<close>

definition getCAName :: "env \<Rightarrow> string req" where
  "getCAName E =
     bindE (GetQueryParm ''ca'') (\<lambda>ca.
     if ca \<noteq> [] then returnE ca
     else
       bindE (TryReadBody (dec_CAName (e_decoders E))) (\<lambda>body.
       case body of
         Some name \<Rightarrow> if name \<noteq> [] then returnE name else getE st_default
       | None \<Rightarrow> getE st_default))"

definition Server_GetCA :: "string \<Rightarrow> string req" where
  "Server_GetCA name =
     bindE (getE (\<lambda>s. st_cas s name)) (\<lambda>ca.
     case ca of
       None \<Rightarrow> throwE (newHTTPErr 404 ErrCANotFound)
     | Some _ \<Rightarrow> returnE name)"

definition getCA :: "env \<Rightarrow> unit req" where
  "getCA E =
     bindE (ctxE ctx_ca) (\<lambda>ca.
     case ca of
       Some _ \<Rightarrow> returnE ()
     | None \<Rightarrow>
         bindE (getCAName E) (\<lambda>name.
         bindE (Server_GetCA name) (\<lambda>name.
         setCtx (\<lambda>c. c\<lparr>ctx_ca := Some name\<rparr>))))"

text \<open>\<open>GetCA\<close>.  When the issuer fails to initialise, a nil CA is returned without an error; the
  callers then dereference it.\<close>

definition GetCA :: "env \<Rightarrow> unit req" where
  "GetCA E =
     seqE (mapErrE WithCause (getCA E))
     (bindE (caE id) (\<lambda>ca.
      if db_set (ca_db ca) \<and> db_initialized (ca_db ca) then returnE ()
      else
        seqE (mapErrE WithCause (dbE (initDB (e_bcrypt E) (e_updateSchema E) (e_version E)
                (ca_Config ca) (ca_levels ca))))
        (mapErrE (\<lambda>_. GoPanic ''nil pointer dereference'') (dbE (issuer_Init (e_issuerInit E) (e_issuer E))))))"

section \<open>The caller\<close>

definition GetCaller :: "env \<Rightarrow> DBUser req" where
  "GetCaller E =
     bindE (ctxE ctx_caller) (\<lambda>caller.
     case caller of
       Some c \<Rightarrow> returnE c
     | None \<Rightarrow>
         bindE (ctxE ctx_enrollmentID) (\<lambda>uid.
         if uid = [] then throwE (newAuthErr ErrCallerIsNotAuthenticated)
         else
           seqE (GetCA E)
           (bindE (mapErrE (\<lambda>_. newAuthErr ErrGettingUser) (dbE (GetUser uid))) (\<lambda>u.
            seqE (setCtx (\<lambda>c. c\<lparr>ctx_caller := Some u\<rparr>)) (returnE u)))))"

text \<open>\<open>BasicAuth\<close> of package \<open>net/http\<close>.\<close>

definition BasicAuth :: "string \<Rightarrow> (string \<times> string) option" where
  "BasicAuth auth =
     (if length auth < 6 \<or> strings_ToLower (take 6 auth) \<noteq> ''basic '' then None
      else
        (case B64Decode (drop 6 auth) of
           None \<Rightarrow> None
         | Some cs \<Rightarrow>
             if CHR '':'' \<in> set cs
             then Some (takeWhile (\<lambda>c. c \<noteq> CHR '':'') cs, tl (dropWhile (\<lambda>c. c \<noteq> CHR '':'') cs))
             else None))"

definition BasicAuthentication :: "env \<Rightarrow> string req" where
  "BasicAuthentication E =
     bindE (ctxE (\<lambda>c. req_Authorization (ctx_req c))) (\<lambda>authHdr.
     seqE (unlessE (authHdr \<noteq> []) (newHTTPErr 401 ErrNoAuthHdr))
     (case BasicAuth authHdr of
        None \<Rightarrow> throwE (newAuthErr ErrNoUserPass)
      | Some (username, password) \<Rightarrow>
          seqE (GetCA E)
          (bindE (caE (\<lambda>ca. cfg_MaxEnrollments (ca_Config ca))) (\<lambda>caMaxEnrollments.
           seqE (unlessE (caMaxEnrollments \<noteq> 0) (newAuthErr ErrEnrollDisabled))
           (bindE (mapErrE (\<lambda>_. newAuthErr ErrInvalidUser) (dbE (GetUser username))) (\<lambda>ui.
            case Login (e_bcrypt E) ui password caMaxEnrollments of
              Inl _ \<Rightarrow>
                seqE (setCtx (\<lambda>c. c\<lparr>ctx_ui := Some ui\<rparr>)) (throwE (newAuthErr ErrInvalidPass))
            | Inr ui' \<Rightarrow>
                seqE (setCtx (\<lambda>c. c\<lparr>ctx_ui := Some ui', ctx_enrollmentID := username\<rparr>))
                (bindE (GetCaller E) (\<lambda>_. returnE username))))))))"

text \<open>The keys under which a certificate is looked up.\<close>

definition certAKI :: "X509 \<Rightarrow> string" where
  "certAKI cert = strings_ToLower (strings_TrimLeft (hex_EncodeToString (x_AuthorityKeyId cert)) CHR ''0'')"

definition certSerial :: "X509 \<Rightarrow> string" where
  "certSerial cert = strings_ToLower (strings_TrimLeft (GetSerialAsHex (x_SerialNumber cert)) CHR ''0'')"

definition verifyX509Token :: "env \<Rightarrow> string \<Rightarrow> string \<Rightarrow> string \<Rightarrow> string req" where
  "verifyX509Token E caName authHdr body =
     bindE (mapErrE (\<lambda>_. newAuthErr ErrInvalidToken) (liftE (VerifyToken (e_parse E) (e_csp E) authHdr body))) (\<lambda>cert.
     seqE (unlessE (e_VerifyCertificate E caName cert) (newAuthErr ErrUntrustedCertificate))
     (let uid = GetEnrollmentIDFromX509Certificate cert;
          (expired, checked) = e_revoke E cert in
      seqE (unlessE checked (newHTTPErr 401 ErrCertRevokeCheckFailure))
      (seqE (unlessE (\<not> expired) (newAuthErr ErrCertExpired))
      (bindE (mapErrE (\<lambda>_. newHTTPErr 500 ErrCertNotFound)
                (dbE (GetCertificate (certSerial cert) (certAKI cert)))) (\<lambda>certs.
       seqE (unlessE (certs \<noteq> []) (newAuthErr ErrCertNotFound))
       (seqE (unlessE (\<forall>c \<in> set certs. cr_Status c \<noteq> ''revoked'') (newAuthErr ErrCertRevoked))
       (seqE (setCtx (\<lambda>c. c\<lparr>ctx_enrollmentID := uid, ctx_enrollmentCert := Some cert\<rparr>))
       (bindE (GetCaller E) (\<lambda>_. returnE uid)))))))))"

definition TokenAuthentication :: "env \<Rightarrow> string req" where
  "TokenAuthentication E =
     bindE (ctxE (\<lambda>c. req_Authorization (ctx_req c))) (\<lambda>authHdr.
     seqE (unlessE (authHdr \<noteq> []) (newHTTPErr 401 ErrNoAuthHdr))
     (seqE (GetCA E)
     (bindE ReadBodyBytes (\<lambda>body.
      bindE (ctxE ctx_ca) (\<lambda>ca.
      if IsToken authHdr then dbE (idemix_VerifyToken (e_issuer E) authHdr body)
      else verifyX509Token E (case ca of Some n \<Rightarrow> n | None \<Rightarrow> []) authHdr body)))))"

section \<open>Authorisation\<close>

definition containsAffiliation :: "env \<Rightarrow> string \<Rightarrow> bool req" where
  "containsAffiliation E affiliation =
     bindE (GetCaller E) (\<lambda>caller.
     let callerAffiliationPath = GetUserAffiliation caller in
     if callerAffiliationPath = [] then returnE True
     else if affiliation = callerAffiliationPath then returnE True
     else if strings_HasPrefix affiliation (callerAffiliationPath @ ''.'') then returnE True
     else returnE False)"

definition ContainsAffiliation :: "env \<Rightarrow> string \<Rightarrow> unit req" where
  "ContainsAffiliation E affiliation =
     bindE (mapErrE (\<lambda>_. newHTTPErr 500 ErrGettingAffiliation) (containsAffiliation E affiliation)) (\<lambda>valid.
     unlessE valid (newAuthErr ErrCallerNotAffiliated))"

definition isRegistrar :: "env \<Rightarrow> (string \<times> bool) req" where
  "isRegistrar E =
     bindE (GetCaller E) (\<lambda>caller.
     case GetAttribute caller ''hf.Registrar.Roles'' of
       Inl _ \<Rightarrow> throwE (newAuthErr ErrRegAttrAuth)
     | Inr rolesStr \<Rightarrow>
         if attr_Value rolesStr \<noteq> [] then returnE (attr_Value rolesStr, True) else returnE ([], False))"

definition IsRegistrar :: "env \<Rightarrow> unit req" where
  "IsRegistrar E =
     bindE (isRegistrar E) (\<lambda>(types, isReg). unlessE isReg (newAuthErr ErrMissingRegAttr))"

definition canActOnType :: "env \<Rightarrow> string \<Rightarrow> bool req" where
  "canActOnType E requestedType =
     bindE (GetCaller E) (\<lambda>_.
     bindE (isRegistrar E) (\<lambda>(typesStr, isReg).
     if \<not> isReg then throwE (newAuthErr ErrRegAttrAuth)
     else if ListContains typesStr ''*'' then returnE True
     else
       (let types = (if typesStr \<noteq> [] then strings_Split typesStr CHR '','' else []);
            requested = (if requestedType = [] then ''client'' else requestedType)
        in returnE (StrContained requested types))))"

definition CanActOnType :: "env \<Rightarrow> string \<Rightarrow> unit req" where
  "CanActOnType E userType =
     bindE (mapErrE (\<lambda>_. newHTTPErr 500 ErrGettingType) (canActOnType E userType)) (\<lambda>canAct.
     unlessE canAct (newAuthErr ErrCallerNotAffiliated))"

definition hasRole :: "env \<Rightarrow> string \<Rightarrow> bool req" where
  "hasRole E role =
     bindE (ctxE ctx_callerRoles) (\<lambda>roles.
     case map_of roles role of
       Some roleStatus \<Rightarrow> returnE roleStatus
     | None \<Rightarrow>
         bindE (GetCaller E) (\<lambda>caller.
         bindE (liftE (GetAttribute caller role)) (\<lambda>roleAttr.
         case strconv_ParseBool (attr_Value roleAttr) of
           None \<Rightarrow> throwE (WithCause (PlainErr ''Failed to get boolean value''))
         | Some roleStatus \<Rightarrow>
             seqE (setCtx (\<lambda>c. c\<lparr>ctx_callerRoles := (role, roleStatus) # ctx_callerRoles c\<rparr>))
             (returnE roleStatus))))"

definition HasRole :: "env \<Rightarrow> string \<Rightarrow> unit req" where
  "HasRole E role =
     bindE (hasRole E role) (\<lambda>ok. unlessE ok (newHTTPErr 400 ErrMissingRole))"

definition CanManageUser :: "env \<Rightarrow> DBUser \<Rightarrow> unit req" where
  "CanManageUser E user =
     seqE (ContainsAffiliation E (strings_Join (GetAffiliationPath user) ''.''))
          (CanActOnType E (ui_Type user))"

definition ctx_GetUser :: "env \<Rightarrow> string \<Rightarrow> DBUser req" where
  "ctx_GetUser E userName =
     seqE (getCA E)
     (bindE (dbE (GetUser userName)) (\<lambda>user.
      seqE (CanManageUser E user) (returnE user)))"

definition CanModifyUser ::
  "env \<Rightarrow> ModifyIdentityRequest \<Rightarrow> bool \<Rightarrow> bool \<Rightarrow> bool \<Rightarrow> DBUser \<Rightarrow> unit req" where
  "CanModifyUser E req checkAff checkType checkAttrs userToModify =
     seqE (if checkAff then ContainsAffiliation E (mir_Affiliation req) else returnE ())
     (seqE (if checkType then CanActOnType E (mir_Type req) else returnE ())
     (if checkAttrs then
        bindE (ctxE ctx_caller) (\<lambda>caller.
        case caller of
          None \<Rightarrow> throwE (GoPanic ''nil pointer dereference'')
        | Some caller \<Rightarrow>
            mapErrE (\<lambda>_. newAuthErr ErrRegAttrAuth)
              (liftE (CanRegisterRequestedAttributes (mir_Attributes req)
                 (Some (GetAttribute userToModify)) (GetAttribute caller))))
      else returnE ()))"

section \<open>Attributes for a certificate\<close>

definition getDefaultAttrReqs :: "Attribute list \<Rightarrow> AttributeRequest list option" where
  "getDefaultAttrReqs attrs =
     (let reqs = map (\<lambda>a. \<lparr>areq_Name = attr_Name a, areq_Optional = False\<rparr>) (filter attr_ECert attrs)
      in if reqs = [] then None else Some reqs)"

definition getAttrByName :: "string \<Rightarrow> Attribute list \<Rightarrow> Attribute option" where
  "getAttrByName name attrs = List.find (\<lambda>a. attr_Name a = name) attrs"

text \<open>\<open>ProcessAttributeRequests\<close> of Fabric's attribute manager: the requested attributes that the
  identity has, as a map; an error when a required one is missing.\<close>

fun processAttributeRequests_loop ::
  "AttributeRequest list \<Rightarrow> Attribute list \<Rightarrow> (string \<times> string) list \<Rightarrow> string list \<Rightarrow> (string \<times> string) list \<times> string list" where
  "processAttributeRequests_loop [] attributes attrsMap missing = (attrsMap, missing)"
| "processAttributeRequests_loop (req # requests) attributes attrsMap missing =
     (case getAttrByName (areq_Name req) attributes of
        None \<Rightarrow> processAttributeRequests_loop requests attributes attrsMap
                  (if \<not> areq_Optional req then missing @ [areq_Name req] else missing)
      | Some a \<Rightarrow> processAttributeRequests_loop requests attributes
                  (AList.update (areq_Name req) (attr_Value a) attrsMap) missing)"

definition ProcessAttributeRequests ::
  "AttributeRequest list \<Rightarrow> Attribute list \<Rightarrow> (string \<times> string) list result" where
  "ProcessAttributeRequests requests attributes =
     (case processAttributeRequests_loop requests attributes [] [] of
        (attrsMap, missing) \<Rightarrow>
          if missing \<noteq> [] then Inl (PlainErr ''The following required attributes are missing'') else Inr attrsMap)"

definition GetAttrExtension :: "env \<Rightarrow> AttributeRequest list option \<Rightarrow> (string \<times> string) list option req" where
  "GetAttrExtension E attrReqs =
     seqE (GetCA E)
     (bindE (ctxE ctx_enrollmentID) (\<lambda>uid.
      bindE (dbE (GetUser uid)) (\<lambda>ui.
      let allAttrs = map snd (du_attrs ui);
          reqs = (case attrReqs of None \<Rightarrow> getDefaultAttrReqs allAttrs | Some r \<Rightarrow> Some r)
      in case reqs of
           None \<Rightarrow> returnE None
         | Some r \<Rightarrow> bindE (liftE (ProcessAttributeRequests r allAttrs)) (\<lambda>attrs. returnE (Some attrs)))))"

section \<open>Running operations on the CA\<close>

lemma dbE_Inr [em_simps]:
  "dbE m s = (Inr a, s') \<longleftrightarrow>
     (\<exists>n ca d. ctx_ca (st_ctx s) = Some n \<and> st_cas s n = Some ca \<and> m (ca_db ca) = (Inr a, d) \<and>
        s' = s\<lparr>st_cas := (st_cas s)(n \<mapsto> ca\<lparr>ca_db := d\<rparr>)\<rparr>)"
  by (auto simp: dbE_def split: option.splits prod.splits)

lemma caE_Inr [em_simps]:
  "caE f s = (Inr a, s') \<longleftrightarrow>
     (\<exists>n ca. ctx_ca (st_ctx s) = Some n \<and> st_cas s n = Some ca \<and> a = f ca \<and> s' = s)"
  by (auto simp: caE_def split: option.splits)

lemma dbE_ctx: "dbE m s = (r, s') \<Longrightarrow> st_ctx s' = st_ctx s \<and> st_default s' = st_default s \<and> c_se s' = c_se s"
  by (auto simp: dbE_def split: option.splits prod.splits)

text \<open>The operations of a context touch the context, the targeted CA's database and nothing
  else; the body, the CA and the caller are cached.\<close>

definition all_dbs :: "(sqldb \<Rightarrow> bool) \<Rightarrow> reqst \<Rightarrow> bool" where
  "all_dbs I s \<longleftrightarrow> (\<forall>n ca. st_cas s n = Some ca \<longrightarrow> I (ca_db ca))"

definition writer_inv :: "string \<Rightarrow> reqst \<Rightarrow> bool" where
  "writer_inv method s \<longleftrightarrow> writer_ok (c_w s) \<and> hrw_method (c_w s) = method"

lemma keeps_all_dbs: "keeps I m \<Longrightarrow> keeps (all_dbs I) (dbE m)"
  unfolding keeps_def all_dbs_def dbE_def by (auto split: option.splits prod.splits) (metis snd_conv)

lemma keeps_writer_db: "keeps (writer_inv method) (dbE m)"
  unfolding keeps_def writer_inv_def dbE_def by (auto split: option.splits prod.splits)

lemma keeps_caE [keeps_intros]: "keeps I (caE f)"
  by (auto simp: keeps_def caE_def split: option.splits)

text \<open>
  A property of the state of a request that every handler keeps: changes of the context, of
  the endpoint's success code, writes to the connection and the operations of the accessors
  keep it.
\<close>

locale request_invariant =
  fixes E :: env and J :: "reqst \<Rightarrow> bool"
  assumes J_ctx: "J s \<Longrightarrow> J (s\<lparr>st_ctx := c\<rparr>)"
    and J_se: "J s \<Longrightarrow> J (s\<lparr>c_se := (c_se s)\<lparr>se_successRC := 201\<rparr>\<rparr>)"
    and J_write: "keeps J (writeE buf)"
    and J_initDB: "keeps J (dbE (initDB (e_bcrypt E) (e_updateSchema E) version cfg levels))"
    and J_GetUser: "keeps J (dbE (GetUser uid))"
    and J_GetFilteredUsers: "keeps J (dbE (GetFilteredUsers like aff types))"
    and J_InsertUser: "keeps J (dbE (InsertUser (e_bcrypt E) user))"
    and J_UpdateUser: "keeps J (dbE (UpdateUser (e_bcrypt E) user upd))"
    and J_DeleteUser: "keeps J (dbE (DeleteUser now uid))"
    and J_unit_user: "keeps J (dbE (LoginComplete u))" "keeps J (dbE (Revoke u))"
    and J_GetAffiliation: "keeps J (dbE (GetAffiliation name))"
    and J_GetAllAffiliations: "keeps J (dbE (GetAllAffiliations like name))"
    and J_GetAffiliationTree: "keeps J (dbE (GetAffiliationTree like name))"
    and J_InsertAffiliation: "keeps J (dbE (InsertAffiliation name prekey level))"
    and J_DeleteAffiliation: "keeps J (dbE (DeleteAffiliation like now name force idRemoval isReg))"
    and J_ModifyAffiliation: "keeps J (dbE (ModifyAffiliation like old new force isReg))"
    and J_InsertCertificate: "keeps J (dbE (InsertCertificate parse level cr))"
    and J_GetCertificate: "keeps J (dbE (GetCertificate serial aki))"
    and J_GetCertificateWithID: "keeps J (dbE (GetCertificateWithID serial aki))"
    and J_GetCertificates: "keeps J (dbE (GetCertificates like now rq aff))"
    and J_GetRevokedCertificates: "keeps J (dbE (GetRevokedCertificates t1 t2 t3 t4))"
    and J_RevokeCertificate: "keeps J (dbE (RevokeCertificate now serial aki reason))"
    and J_RevokeCertificatesByID: "keeps J (dbE (RevokeCertificatesByID now uid reason))"
    and J_CRI: "J s \<Longrightarrow> st_cas s n = Some ca \<Longrightarrow> J (s\<lparr>st_cas := (st_cas s)(n \<mapsto> ca\<lparr>ca_currentCRI := cri\<rparr>)\<rparr>)"
    and J_keyTree: "J s \<Longrightarrow> st_cas s n = Some ca \<Longrightarrow> J (s\<lparr>st_cas := (st_cas s)(n \<mapsto> ca\<lparr>ca_keyTree := kt\<rparr>)\<rparr>)"
    and J_issuer_Init: "keeps J (dbE (issuer_Init b (e_issuer E)))"
    and J_GetNonce: "keeps J (dbE (GetNonce (e_issuer E) now nonce))"
    and J_CheckNonce: "keeps J (dbE (CheckNonce (e_issuer E) now nonce))"
    and J_InsertCredential: "keeps J (dbE (InsertCredential level cred))"
    and J_GetNewRevocationHandle: "keeps J (dbE (GetNewRevocationHandle (e_issuer E)))"
    and J_CreateCRI: "keeps J (dbE (CreateCRI (e_issuer E) cri))"
    and J_idemix_VerifyToken: "keeps J (dbE (idemix_VerifyToken (e_issuer E) hdr body))"
begin

lemmas J_db = J_initDB J_GetUser J_GetFilteredUsers J_InsertUser J_UpdateUser J_DeleteUser J_unit_user
  J_GetAffiliation J_GetAllAffiliations J_GetAffiliationTree J_InsertAffiliation J_DeleteAffiliation
  J_ModifyAffiliation J_InsertCertificate J_GetCertificate J_GetCertificateWithID J_GetCertificates
  J_GetRevokedCertificates J_RevokeCertificate J_RevokeCertificatesByID
  J_issuer_Init J_GetNonce J_CheckNonce J_InsertCredential J_GetNewRevocationHandle J_CreateCRI J_idemix_VerifyToken

lemma J_setCtx: "keeps J (setCtx f)"
  by (intro keeps_modifyE J_ctx)

lemma J_body: "keeps J ReadBodyBytes" "keeps J (TryReadBody dec)" "keeps J (ReadBody dec')"
  unfolding ReadBodyBytes_def TryReadBody_def ReadBody_def by (intro keeps_intros J_setCtx)+

lemma J_params:
  "keeps J (GetQueryParm name)" "keeps J (GetBoolQueryParm name)" "keeps J (GetVar name)"
  "keeps J (ChunksToDeliver v)"
  unfolding GetQueryParm_def GetBoolQueryParm_def GetVar_def ChunksToDeliver_def by (intro keeps_intros)+

lemma J_getCAName: "keeps J (getCAName E)"
  unfolding getCAName_def by (intro keeps_intros J_params J_body)

lemma J_getCA: "keeps J (getCA E)"
  unfolding getCA_def Server_GetCA_def by (intro keeps_intros J_getCAName J_setCtx)

lemma J_GetCA: "keeps J (GetCA E)"
  unfolding GetCA_def by (intro keeps_intros J_getCA J_db)

lemma J_GetCaller: "keeps J (GetCaller E)"
  unfolding GetCaller_def by (intro keeps_intros J_GetCA J_db J_setCtx)

lemma J_BasicAuthentication: "keeps J (BasicAuthentication E)"
  unfolding BasicAuthentication_def by (intro keeps_intros J_GetCA J_GetCaller J_db J_setCtx)

lemma J_TokenAuthentication: "keeps J (TokenAuthentication E)"
  unfolding TokenAuthentication_def verifyX509Token_def Let_def
  by (intro keeps_intros J_GetCA J_GetCaller J_body J_db J_setCtx)

lemma J_authorisation:
  "keeps J (containsAffiliation E aff)" "keeps J (ContainsAffiliation E aff)"
  "keeps J (isRegistrar E)" "keeps J (IsRegistrar E)" "keeps J (canActOnType E t)"
  "keeps J (CanActOnType E t)" "keeps J (hasRole E r)" "keeps J (HasRole E r)"
  "keeps J (CanManageUser E u)" "keeps J (ctx_GetUser E uid)" "keeps J (CanModifyUser E mreq a b c u)"
  unfolding containsAffiliation_def ContainsAffiliation_def isRegistrar_def IsRegistrar_def
    canActOnType_def CanActOnType_def hasRole_def HasRole_def CanManageUser_def ctx_GetUser_def
    CanModifyUser_def Let_def
  by (intro keeps_intros J_GetCaller J_getCA J_db J_setCtx)+

lemma J_GetAttrExtension: "keeps J (GetAttrExtension E reqs)"
  unfolding GetAttrExtension_def Let_def by (intro keeps_intros J_GetCA J_db)

lemmas J_context = J_setCtx J_body J_params J_getCAName J_getCA J_GetCA J_GetCaller
  J_BasicAuthentication J_TokenAuthentication J_authorisation J_GetAttrExtension J_write J_db

end

interpretation writer: request_invariant E "writer_inv mth" for E mth
proof unfold_locales
  show "keeps (writer_inv mth) (writeE buf)" for buf
    by (simp add: keeps_def writer_inv_def writeE_def)
qed (intro keeps_writer_db | simp add: writer_inv_def)+

text \<open>A property of the endpoint that setting its success code to 201 keeps, which is all that handlers do to it.\<close>

definition se_inv :: "(serverEndpoint \<Rightarrow> bool) \<Rightarrow> reqst \<Rightarrow> bool" where
  "se_inv P s \<longleftrightarrow> P (c_se s)"

lemma keeps_se_db: "keeps (se_inv P) (dbE m)"
  unfolding keeps_def se_inv_def dbE_def by (auto split: option.splits prod.splits)

locale endpoint_invariant =
  fixes P :: "serverEndpoint \<Rightarrow> bool"
  assumes P_201: "P se \<Longrightarrow> P (se\<lparr>se_successRC := 201\<rparr>)"

sublocale endpoint_invariant \<subseteq> request_invariant E "se_inv P" for E
proof unfold_locales
  show "keeps (se_inv P) (writeE buf)" for buf
    by (simp add: keeps_def se_inv_def writeE_def)
qed (intro keeps_se_db | simp add: se_inv_def P_201)+

interpretation created: endpoint_invariant "\<lambda>se. se_successRC se = 201"
  by unfold_locales simp

interpretation listed: endpoint_invariant "\<lambda>se. se_Methods se = ms" for ms
  by unfold_locales simp

interpretation success: endpoint_invariant "\<lambda>se. getSuccessRC se \<in> {200, 201}"
  by unfold_locales (simp add: getSuccessRC_def)

text \<open>A property of databases that the server keeps, in all of its CAs' databases: it does not
  depend on the handle and the update of an old layout keeps it.\<close>

locale server_invariant = idemix_invariant +
  assumes I_handle: "I d \<Longrightarrow> I (d\<lparr>db_set := s, db_initialized := i, db_driver := t\<rparr>)"
begin

lemma I_openDB: "keeps I (openDB t)"
proof -
  have "I ((pop d)\<lparr>db_set := False\<rparr>)" if "I d" for d
    using I_handle [OF I_pop [OF that], where s = False and i = "db_initialized d" and t = "db_driver d"] by (simp add: pop_def)
  then show ?thesis by (auto simp: keeps_def openDB_def intro: I_handle I_pop)
qed

lemma I_ready: "I d \<Longrightarrow> I (d\<lparr>db_initialized := True\<rparr>)"
  using I_handle [of d, where s = "db_set d" and i = True and t = "db_driver d"] by simp

lemma I_initDB: "keeps I upd \<Longrightarrow> keeps I (initDB B upd version cfg levels)"
  unfolding initDB_def loadRegistry_def loadRest_def Let_def
  by (intro keeps_intros I_openDB I_checkDBLevels I_loadUsersTable I_softE I_loadAffiliationsTable
      I_performMigration I_ready)

end

locale server_env = server_invariant +
  fixes E :: env
  assumes I_schema: "keeps I (e_updateSchema E)"

sublocale server_env \<subseteq> request_invariant E "all_dbs I"
proof unfold_locales
  show "keeps (all_dbs I) (writeE buf)" for buf
    by (simp add: keeps_def all_dbs_def writeE_def)
qed (simp add: all_dbs_def |
     intro keeps_all_dbs I_initDB I_schema I_reads I_readers I_user_ops I_aff_ops I_ModifyAffiliation I_cert_ops I_idemix_ops)+

text \<open>The same for the database of one CA.\<close>

definition db_of :: "string \<Rightarrow> (sqldb \<Rightarrow> bool) \<Rightarrow> reqst \<Rightarrow> bool" where
  "db_of n I s \<longleftrightarrow> (\<exists>ca. st_cas s n = Some ca \<and> I (ca_db ca))"

lemma keeps_db_of: "keeps I m \<Longrightarrow> keeps (db_of n I) (dbE m)"
  unfolding keeps_def db_of_def dbE_def by (auto split: option.splits prod.splits)

sublocale server_env \<subseteq> one: request_invariant E "db_of n I" for n
proof unfold_locales
  show "keeps (db_of n I) (writeE buf)" for buf n
    by (simp add: keeps_def db_of_def writeE_def)
qed (auto simp: db_of_def |
     intro keeps_db_of I_initDB I_schema I_reads I_readers I_user_ops I_aff_ops I_ModifyAffiliation I_cert_ops I_idemix_ops)+

interpretation keys: server_invariant cert_keys_ok
  by unfold_locales (simp add: cert_keys_ok_def)

interpretation revoked: server_invariant "stays_revoked k" for k
  by unfold_locales (simp add: revoked_keys_def)

interpretation revoked_current: server_env "stays_revoked k" "E\<lparr>e_updateSchema := returnE ()\<rparr>" for k E
  by unfold_locales (simp add: keeps_intros)

section \<open>What the authorisation checks decide\<close>

definition may_act_on_affiliation :: "DBUser \<Rightarrow> string \<Rightarrow> bool" where
  "may_act_on_affiliation c aff \<longleftrightarrow> ui_Affiliation c = [] \<or> path_under (ui_Affiliation c) aff"

definition registrar_types :: "DBUser \<Rightarrow> string option" where
  "registrar_types c =
     (case GetAttribute c Roles of
        Inr a \<Rightarrow> if attr_Value a \<noteq> [] then Some (attr_Value a) else None
      | Inl _ \<Rightarrow> None)"

definition may_act_on_type :: "DBUser \<Rightarrow> string \<Rightarrow> bool" where
  "may_act_on_type c t \<longleftrightarrow>
     (case registrar_types c of
        None \<Rightarrow> False
      | Some types \<Rightarrow> ListContains types ''*'' \<or>
          StrContained (if t = [] then ''client'' else t) (strings_Split types CHR '',''))"

definition may_manage :: "DBUser \<Rightarrow> DBUser \<Rightarrow> bool" where
  "may_manage c u \<longleftrightarrow> may_act_on_affiliation c (ui_Affiliation u) \<and> may_act_on_type c (ui_Type u)"

lemma GetCaller_cached [simp]: "ctx_caller (st_ctx s) = Some c \<Longrightarrow> GetCaller E s = (Inr c, s)"
  by (simp add: GetCaller_def em_defs)

lemma containsAffiliation_cached:
  "ctx_caller (st_ctx s) = Some c \<Longrightarrow>
     containsAffiliation E aff s = (Inr (may_act_on_affiliation c aff), s)"
  by (auto simp: containsAffiliation_def may_act_on_affiliation_def path_under_def Let_def bindE_def
      returnE_def split: if_splits)

lemma ContainsAffiliation_cached:
  "ctx_caller (st_ctx s) = Some c \<Longrightarrow>
     ContainsAffiliation E aff s =
       (if may_act_on_affiliation c aff then Inr () else Inl (newAuthErr ErrCallerNotAffiliated), s)"
  by (simp add: ContainsAffiliation_def containsAffiliation_cached bindE_def mapErrE_def unlessE_def
      returnE_def throwE_def)

lemma isRegistrar_cached:
  "ctx_caller (st_ctx s) = Some c \<Longrightarrow>
     isRegistrar E s = (case GetAttribute c Roles of
        Inl _ \<Rightarrow> (Inl (newAuthErr ErrRegAttrAuth), s)
      | Inr a \<Rightarrow> (Inr (if attr_Value a \<noteq> [] then (attr_Value a, True) else ([], False)), s))"
  by (auto simp: isRegistrar_def Roles_def bindE_def returnE_def throwE_def split: sum.splits)

lemma CanActOnType_cached:
  "ctx_caller (st_ctx s) = Some c \<Longrightarrow> CanActOnType E t s = (Inr (), s') \<longleftrightarrow> s' = s \<and> may_act_on_type c t"
  by (auto simp: CanActOnType_def canActOnType_def may_act_on_type_def registrar_types_def
      isRegistrar_cached bindE_def mapErrE_def unlessE_def returnE_def throwE_def Let_def
      split: sum.splits if_splits)

lemma CanActOnType_state:
  "ctx_caller (st_ctx s) = Some c \<Longrightarrow> CanActOnType E t s = (r, s') \<Longrightarrow> s' = s"
  by (auto simp: CanActOnType_def canActOnType_def isRegistrar_cached bindE_def mapErrE_def unlessE_def
      returnE_def throwE_def Let_def split: sum.splits if_splits)

lemma CanManageUser_cached:
  "ctx_caller (st_ctx s) = Some c \<Longrightarrow> CanManageUser E u s = (Inr (), s') \<longleftrightarrow> s' = s \<and> may_manage c u"
  by (auto simp: CanManageUser_def seqE_Inr ContainsAffiliation_cached CanActOnType_cached
      may_manage_def GetAffiliationPath_def split: if_splits)

text \<open>The check that a caller may manage an identity.  It succeeds, without changing anything,
  exactly when the caller is at the root affiliation or the components of its affiliation are
  a prefix of those of the identity's, and the caller is a registrar for the identity's type.\<close>

theorem CanManageUser_decides:
  assumes "ctx_caller (st_ctx s) = Some c"
  shows "CanManageUser E u s = (Inr (), s') \<longleftrightarrow>
     s' = s \<and> may_act_on_type c (ui_Type u) \<and>
     (ui_Affiliation c = [] \<or>
      prefix (strings_Split (ui_Affiliation c) CHR ''.'') (strings_Split (ui_Affiliation u) CHR ''.''))"
  using CanManageUser_cached [OF assms, of E u s']
  by (auto simp: may_manage_def may_act_on_affiliation_def under_prefix)

section \<open>Token authentication\<close>

definition ctx_ok :: "context_impl \<Rightarrow> bool" where
  "ctx_ok c \<longleftrightarrow> ctx_body c = None \<or> ctx_body c = Some (req_Body (ctx_req c))"

lemma ReadBodyBytes_Inr:
  assumes "ReadBodyBytes s = (Inr b, s')" and "ctx_ok (st_ctx s)"
  shows "req_Body (ctx_req (st_ctx s)) = Some b \<and> s' = s\<lparr>st_ctx := (st_ctx s)\<lparr>ctx_body := Some (Some b)\<rparr>\<rparr>"
  using assms
  by (cases "ctx_body (st_ctx s)"; cases "req_Body (ctx_req (st_ctx s))")
    (auto simp: ReadBodyBytes_def ctx_ok_def em_defs intro!: reqst.equality context_impl.equality)

text \<open>The operations on bodies and CAs change the context's cached body and CA only.\<close>

definition core :: "reqst \<Rightarrow> reqst" where
  "core s = s\<lparr>st_ctx := (st_ctx s)\<lparr>ctx_body := None, ctx_ca := None\<rparr>\<rparr>"

definition same_core :: "reqst \<Rightarrow> reqst \<Rightarrow> bool" where
  "same_core s s' \<longleftrightarrow> core s' = core s \<and> (ctx_ok (st_ctx s) \<longrightarrow> ctx_ok (st_ctx s'))"

lemma core_fields:
  assumes "core s' = core s"
  shows "st_cas s' = st_cas s" "st_default s' = st_default s" "c_se s' = c_se s" "c_w s' = c_w s"
    "ctx_req (st_ctx s') = ctx_req (st_ctx s)" "ctx_caller (st_ctx s') = ctx_caller (st_ctx s)"
    "ctx_enrollmentID (st_ctx s') = ctx_enrollmentID (st_ctx s)"
    "ctx_enrollmentCert (st_ctx s') = ctx_enrollmentCert (st_ctx s)"
    "ctx_ui (st_ctx s') = ctx_ui (st_ctx s)" "ctx_callerRoles (st_ctx s') = ctx_callerRoles (st_ctx s)"
  using assms [THEN arg_cong [where f = st_cas]] assms [THEN arg_cong [where f = st_default]]
    assms [THEN arg_cong [where f = c_se]] assms [THEN arg_cong [where f = c_w]]
    assms [THEN arg_cong [where f = "\<lambda>s. ctx_req (st_ctx s)"]]
    assms [THEN arg_cong [where f = "\<lambda>s. ctx_caller (st_ctx s)"]]
    assms [THEN arg_cong [where f = "\<lambda>s. ctx_enrollmentID (st_ctx s)"]]
    assms [THEN arg_cong [where f = "\<lambda>s. ctx_enrollmentCert (st_ctx s)"]]
    assms [THEN arg_cong [where f = "\<lambda>s. ctx_ui (st_ctx s)"]]
    assms [THEN arg_cong [where f = "\<lambda>s. ctx_callerRoles (st_ctx s)"]]
  by (simp_all add: core_def)

lemma same_refl [simp]: "same_core s s"
  by (simp add: same_core_def)

lemma same_trans: "same_core s t \<Longrightarrow> same_core t u \<Longrightarrow> same_core s u"
  by (auto simp: same_core_def)

lemma core_setters [simp]:
  "core (s\<lparr>st_ctx := (st_ctx s)\<lparr>ctx_body := b\<rparr>\<rparr>) = core s"
  "core (s\<lparr>st_ctx := (st_ctx s)\<lparr>ctx_ca := n\<rparr>\<rparr>) = core s"
  by (simp_all add: core_def)

lemma same_ReadBodyBytes:
  "ReadBodyBytes s = (r, s') \<Longrightarrow> same_core s s' \<and> ctx_ca (st_ctx s') = ctx_ca (st_ctx s)"
  by (cases "ctx_body (st_ctx s)"; cases "req_Body (ctx_req (st_ctx s))")
    (auto simp: ReadBodyBytes_def em_defs same_core_def ctx_ok_def split: option.splits)

lemma same_getCAName:
  "getCAName E s = (r, s') \<Longrightarrow> same_core s s' \<and> ctx_ca (st_ctx s') = ctx_ca (st_ctx s)"
  by (cases r)
    (auto simp: getCAName_def TryReadBody_def GetQueryParm_def bindE_Inr bindE_Inl case_option_run
      dest!: same_ReadBodyBytes split: if_splits option.splits)

text \<open>After \<open>getCA\<close> the context points to a CA of the server.\<close>

lemma getCA_effect:
  assumes "getCA E s = (r, s')"
  shows "same_core s s'"
    and "r = Inr () \<Longrightarrow> \<exists>n. ctx_ca (st_ctx s') = Some n \<and> (ctx_ca (st_ctx s) = None \<longrightarrow> n \<in> dom (st_cas s'))"
proof -
  have "same_core s s' \<and> (r = Inr () \<longrightarrow>
      (\<exists>n. ctx_ca (st_ctx s') = Some n \<and> (ctx_ca (st_ctx s) = None \<longrightarrow> n \<in> dom (st_cas s'))))"
  proof (cases "ctx_ca (st_ctx s)")
    case (Some n)
    then show ?thesis using assms by (auto simp: getCA_def em_defs)
  next
    case None
    obtain q t where name: "getCAName E s = (q, t)" by (cases "getCAName E s")
    note st = same_getCAName [OF name]
    show ?thesis
      using assms None name st
      by (cases q) (auto simp: getCA_def Server_GetCA_def em_defs same_core_def ctx_ok_def split: option.splits)
  qed
  then show "same_core s s'"
    "r = Inr () \<Longrightarrow> \<exists>n. ctx_ca (st_ctx s') = Some n \<and> (ctx_ca (st_ctx s) = None \<longrightarrow> n \<in> dom (st_cas s'))"
    by auto
qed

text \<open>When the databases of all CAs are initialised, \<open>GetCA\<close> does no more than that.\<close>

lemma GetCA_effect:
  assumes "GetCA E s = (r, s')" and "all_dbs db_ready s"
  shows "same_core s s'"
    and "r = Inr () \<Longrightarrow> \<exists>n ca. ctx_ca (st_ctx s') = Some n \<and> st_cas s' n = Some ca"
proof -
  obtain q t where get: "getCA E s = (q, t)" by (cases "getCA E s")
  note st = getCA_effect(1) [OF get]
  have ready: "st_cas t n = Some ca \<Longrightarrow> db_set (ca_db ca) \<and> db_initialized (ca_db ca)" for n ca
    using assms(2) core_fields(1) [of t s] st by (auto simp: all_dbs_def db_ready_def same_core_def)
  have "s' = t \<and> (r = Inr () \<longrightarrow> (\<exists>n ca. ctx_ca (st_ctx s') = Some n \<and> st_cas s' n = Some ca))"
    using assms(1) get ready
    by (cases q) (auto simp: GetCA_def caE_def em_defs split: option.splits)
  then show "same_core s s'"
    "r = Inr () \<Longrightarrow> \<exists>n ca. ctx_ca (st_ctx s') = Some n \<and> st_cas s' n = Some ca"
    using st by auto
qed

lemma GetCA_ready:
  assumes "ctx_ca (st_ctx s) = Some n" and "st_cas s n = Some ca" and "db_ready (ca_db ca)"
  shows "GetCA E s = (Inr (), s)"
  using assms by (simp add: GetCA_def getCA_def caE_def db_ready_def em_defs)

lemma GetCaller_fresh:
  assumes "GetCaller E s = (Inr u, s')" and "ctx_caller (st_ctx s) = None"
    and "ctx_ca (st_ctx s) = Some n" and "st_cas s n = Some ca" and "db_ready (ca_db ca)"
  shows "\<exists>r \<in> set (db_users (ca_db ca)). u = newDBUser r \<and> ur_Name r = ctx_enrollmentID (st_ctx s)"
    and "s' = s\<lparr>st_cas := (st_cas s)(n \<mapsto> ca\<lparr>ca_db := pop (ca_db ca)\<rparr>), st_ctx := (st_ctx s)\<lparr>ctx_caller := Some u\<rparr>\<rparr>"
  using assms GetCA_ready [OF assms(3,4,5)]
  by (auto simp: GetCaller_def bindE_Inr seqE_Inr mapErrE_Inr dbE_Inr GetUser_Inr dest!: filter_ConsD
      split: if_splits)

lemma all_dbs_core: "core s' = core s \<Longrightarrow> all_dbs I s' = all_dbs I s"
  using core_fields(1) [of s' s] by (simp add: all_dbs_def)

lemma verifyX509Token_Inr:
  assumes run: "verifyX509Token E n hdr body s = (Inr uid, s')"
    and ca: "ctx_ca (st_ctx s) = Some n" "st_cas s n = Some ca" and ready: "db_ready (ca_db ca)"
    and fresh: "ctx_caller (st_ctx s) = None"
  shows "\<exists>cert caller ca'. VerifyToken (e_parse E) (e_csp E) hdr body = Inr cert
    \<and> e_VerifyCertificate E n cert \<and> e_revoke E cert = (False, True)
    \<and> uid = x_CommonName cert \<and> st_cas s' n = Some ca' \<and> tables (ca_db ca') = tables (ca_db ca)
    \<and> ctx_ca (st_ctx s') = Some n \<and> ctx_enrollmentCert (st_ctx s') = Some cert
    \<and> (certSerial cert, certAKI cert) \<in> cert_key ` set (db_certificates (ca_db ca'))
    \<and> (certSerial cert, certAKI cert) \<notin> revoked_keys (ca_db ca')
    \<and> ctx_caller (st_ctx s') = Some caller \<and> ui_Name caller = uid
    \<and> caller \<in> newDBUser ` set (db_users (ca_db ca'))"
proof -
  obtain cert where vt: "VerifyToken (e_parse E) (e_csp E) hdr body = Inr cert"
    using run by (cases "VerifyToken (e_parse E) (e_csp E) hdr body") (auto simp: verifyX509Token_def em_simps)
  obtain exp chk where rv: "e_revoke E cert = (exp, chk)" by (cases "e_revoke E cert")
  have cert: "e_VerifyCertificate E n cert" "chk" "\<not> exp"
    and rest: "(bindE (mapErrE (\<lambda>_. newHTTPErr 500 ErrCertNotFound)
                (dbE (GetCertificate (certSerial cert) (certAKI cert)))) (\<lambda>certs.
       seqE (unlessE (certs \<noteq> []) (newAuthErr ErrCertNotFound))
       (seqE (unlessE (\<forall>c \<in> set certs. cr_Status c \<noteq> ''revoked'') (newAuthErr ErrCertRevoked))
       (seqE (setCtx (\<lambda>c. c\<lparr>ctx_enrollmentID := x_CommonName cert, ctx_enrollmentCert := Some cert\<rparr>))
       (bindE (GetCaller E) (\<lambda>_. returnE (x_CommonName cert))))))) s = (Inr uid, s')"
    using run
    by (auto simp: verifyX509Token_def bindE_Inr [of "mapErrE _ (liftE _)"] seqE_Inr [of "unlessE _ _"]
        mapErrE_Inr GetEnrollmentIDFromX509Certificate_def Let_def vt rv split: if_splits)
  let ?certs = "filter (is_cert (certSerial cert) (certAKI cert)) (db_certificates (ca_db ca))"
  let ?ca = "ca\<lparr>ca_db := pop (ca_db ca)\<rparr>"
  let ?t = "s\<lparr>st_cas := (st_cas s)(n \<mapsto> ?ca), st_ctx := (st_ctx s)\<lparr>ctx_enrollmentID := x_CommonName cert,
      ctx_enrollmentCert := Some cert\<rparr>\<rparr>"
  obtain caller where certs: "?certs \<noteq> []" "\<forall>c \<in> set ?certs. cr_Status c \<noteq> ''revoked''"
    and caller: "GetCaller E ?t = (Inr caller, s')" and uid: "uid = x_CommonName cert"
    using rest ca
    by (auto simp: bindE_Inr seqE_Inr mapErrE_Inr dbE_Inr GetCertificate_def sql_select_Inr checkDB_eq
        split: if_splits)
  have t: "ctx_caller (st_ctx ?t) = None" "ctx_ca (st_ctx ?t) = Some n" "st_cas ?t n = Some ?ca"
    "db_ready (ca_db ?ca)" using ca fresh ready by (simp_all add: db_ready_def)
  note c = GetCaller_fresh [OF caller t]
  have "(certSerial cert, certAKI cert) \<in> cert_key ` set (db_certificates (ca_db ca))"
    using certs(1) by (force simp: filter_empty_conv)
  moreover have "(certSerial cert, certAKI cert) \<notin> revoked_keys (ca_db ca)"
    using certs(2) by (auto simp: revoked_keys_def)
  ultimately show ?thesis
    using vt rv cert c uid ca(1) by (intro exI [of _ cert] exI [of _ caller]) auto
qed

lemma TokenAuthentication_X509:
  assumes run: "TokenAuthentication E s = (Inr uid, s')"
    and x509: "\<not> IsToken (req_Authorization (ctx_req (st_ctx s)))"
    and ready: "all_dbs db_ready s" and ctx: "ctx_ok (st_ctx s)" "ctx_caller (st_ctx s) = None"
  shows "\<exists>cert caller body n ca. req_Body (ctx_req (st_ctx s)) = Some body
    \<and> VerifyToken (e_parse E) (e_csp E) (req_Authorization (ctx_req (st_ctx s))) body = Inr cert
    \<and> e_VerifyCertificate E n cert \<and> e_revoke E cert = (False, True)
    \<and> ctx_ca (st_ctx s') = Some n \<and> st_cas s' n = Some ca
    \<and> (certSerial cert, certAKI cert) \<in> cert_key ` set (db_certificates (ca_db ca)) - revoked_keys (ca_db ca)
    \<and> uid = x_CommonName cert \<and> ctx_caller (st_ctx s') = Some caller \<and> ui_Name caller = uid
    \<and> caller \<in> newDBUser ` set (db_users (ca_db ca))"
proof -
  let ?hdr = "req_Authorization (ctx_req (st_ctx s))"
  obtain t body u where ca: "GetCA E s = (Inr (), t)" and b: "ReadBodyBytes t = (Inr body, u)"
    and v: "verifyX509Token E (case ctx_ca (st_ctx u) of Some n \<Rightarrow> n | None \<Rightarrow> []) ?hdr body u = (Inr uid, s')"
    using run x509 by (auto simp: TokenAuthentication_def bindE_Inr seqE_Inr split: if_splits)
  note st = GetCA_effect [OF ca ready]
  then have core_t: "core t = core s" "ctx_ok (st_ctx t)" using ctx by (auto simp: same_core_def)
  obtain n c where n: "ctx_ca (st_ctx t) = Some n" "st_cas t n = Some c" using st(2) by auto
  have body: "req_Body (ctx_req (st_ctx s)) = Some body"
    and u: "u = t\<lparr>st_ctx := (st_ctx t)\<lparr>ctx_body := Some (Some body)\<rparr>\<rparr>"
    using ReadBodyBytes_Inr [OF b core_t(2)] core_fields(5) [OF core_t(1)] by simp_all
  have nu: "ctx_ca (st_ctx u) = Some n" "st_cas u n = Some c" "ctx_caller (st_ctx u) = None"
    using u n ctx(2) core_fields(6) [OF core_t(1)] by simp_all
  have rc: "db_ready (ca_db c)"
    using ready n(2) core_fields(1) [OF core_t(1)] by (auto simp: all_dbs_def)
  have v': "verifyX509Token E n ?hdr body u = (Inr uid, s')" using v nu(1) by simp
  from verifyX509Token_Inr [OF v' nu(1,2) rc nu(3)] body show ?thesis by blast
qed

text \<open>C1: token authentication.  When it accepts a request that carries an X.509 token, the token's
  signature over the body of this request verifies under the key of a certificate that the
  targeted CA's chain verifies, that is neither expired nor on a revocation list, that is in
  the CA's database and not revoked there; and the caller is the registered identity that the
  certificate names.\<close>

theorem TokenAuthentication_sound:
  assumes run: "TokenAuthentication E s = (Inr uid, s')"
    and x509: "\<not> IsToken (req_Authorization (ctx_req (st_ctx s)))"
    and ready: "all_dbs db_ready s" and ctx: "ctx_ok (st_ctx s)" "ctx_caller (st_ctx s) = None"
  shows "\<exists>cert caller body n ca. req_Body (ctx_req (st_ctx s)) = Some body
    \<and> VerifyToken (e_parse E) (e_csp E) (req_Authorization (ctx_req (st_ctx s))) body = Inr cert
    \<and> e_VerifyCertificate E n cert \<and> e_revoke E cert = (False, True)
    \<and> ctx_ca (st_ctx s') = Some n \<and> st_cas s' n = Some ca
    \<and> (certSerial cert, certAKI cert) \<in> cert_key ` set (db_certificates (ca_db ca)) - revoked_keys (ca_db ca)
    \<and> uid = x_CommonName cert \<and> ctx_caller (st_ctx s') = Some caller \<and> ui_Name caller = uid
    \<and> caller \<in> newDBUser ` set (db_users (ca_db ca))"
  using assms by (rule TokenAuthentication_X509)

section \<open>A request in service\<close>

text \<open>After authentication the context points to a CA of the server and holds the caller.  A
  database operation then runs on that CA's database and keeps the request in service.\<close>

definition serving :: "reqst \<Rightarrow> string \<Rightarrow> CA \<Rightarrow> DBUser \<Rightarrow> bool" where
  "serving s n ca c \<longleftrightarrow>
     ctx_ca (st_ctx s) = Some n \<and> st_cas s n = Some ca \<and> ctx_caller (st_ctx s) = Some c"

definition with_db :: "reqst \<Rightarrow> string \<Rightarrow> CA \<Rightarrow> sqldb \<Rightarrow> reqst" where
  "with_db s n ca d = s\<lparr>st_cas := (st_cas s)(n \<mapsto> ca\<lparr>ca_db := d\<rparr>)\<rparr>"

lemma serving_caller: "serving s n ca c \<Longrightarrow> ctx_caller (st_ctx s) = Some c"
  by (simp add: serving_def)

lemma serving_with_db [simp]: "serving s n ca c \<Longrightarrow> serving (with_db s n ca d) n (ca\<lparr>ca_db := d\<rparr>) c"
  by (simp add: serving_def with_db_def)

lemma serving_ctx:
  "serving s n ca c \<Longrightarrow> ctx_ca k = Some n \<Longrightarrow> ctx_caller k = Some c \<Longrightarrow> serving (s\<lparr>st_ctx := k\<rparr>) n ca c"
  by (simp add: serving_def)

lemma with_db_with_db [simp]:
  "with_db s n (ca\<lparr>ca_db := x\<rparr>) d = with_db s n ca d" "with_db (with_db s n ca d) n ca' d' = with_db s n ca' d'"
  by (simp_all add: with_db_def)

lemma with_db_fields [simp]:
  "st_cas (with_db s n ca d) n = Some (ca\<lparr>ca_db := d\<rparr>)" "st_ctx (with_db s n ca d) = st_ctx s"
  "c_w (with_db s n ca d) = c_w s" "c_se (with_db s n ca d) = c_se s"
  by (simp_all add: with_db_def)

lemma with_db_same [simp]: "serving s n ca c \<Longrightarrow> with_db s n ca (ca_db ca) = s"
  by (auto simp: with_db_def serving_def fun_upd_idem)

lemma dbE_serving:
  "serving s n ca c \<Longrightarrow>
     dbE m s = (r, s') \<longleftrightarrow> (\<exists>d. m (ca_db ca) = (r, d) \<and> s' = with_db s n ca d)"
  by (auto simp: serving_def with_db_def dbE_def split: prod.splits)

lemma caE_serving [simp]: "serving s n ca c \<Longrightarrow> caE f s = (r, s') \<longleftrightarrow> r = Inr (f ca) \<and> s' = s"
  by (auto simp: serving_def caE_def)

lemma getCA_serving [simp]: "serving s n ca c \<Longrightarrow> getCA E s = (Inr (), s)"
  by (simp add: serving_def getCA_def em_defs)

lemma GetCaller_serving [simp]: "serving s n ca c \<Longrightarrow> GetCaller E s = (Inr c, s)"
  by (simp add: serving_def)

lemmas authorise_serving = ContainsAffiliation_cached [OF serving_caller] CanActOnType_cached [OF serving_caller]
  CanManageUser_cached [OF serving_caller] isRegistrar_cached [OF serving_caller]

lemma ctx_GetUser_serving:
  assumes "serving s n ca c"
  shows "ctx_GetUser E uid s = (Inr u, s') \<longleftrightarrow>
     (\<exists>d. GetUser uid (ca_db ca) = (Inr u, d) \<and> may_manage c u \<and> s' = with_db s n ca d)"
  using assms
  by (auto simp: ctx_GetUser_def seqE_Inr bindE_Inr dbE_serving [OF assms] CanManageUser_cached serving_def)

text \<open>While a request is in service the checks read only: \<open>calm\<close> says that the request is still
  served by the same CA for the same caller and that no table of any CA has changed.  An
  operation is \<open>undone_on_error\<close> when a property holds again after it failed.\<close>

definition same_tables :: "reqst \<Rightarrow> reqst \<Rightarrow> bool" where
  "same_tables s s' \<longleftrightarrow>
     (\<forall>n. map_option (\<lambda>ca. (ca_Config ca, tables (ca_db ca))) (st_cas s' n) =
          map_option (\<lambda>ca. (ca_Config ca, tables (ca_db ca))) (st_cas s n))"

definition calm :: "reqst \<Rightarrow> string \<Rightarrow> DBUser \<Rightarrow> reqst \<Rightarrow> bool" where
  "calm s0 n c s \<longleftrightarrow> same_tables s0 s \<and> (\<exists>ca. serving s n ca c)"

definition undone_on_error :: "('s \<Rightarrow> bool) \<Rightarrow> ('s, 'e, 'a) em \<Rightarrow> bool" where
  "undone_on_error I m \<longleftrightarrow> (\<forall>s e t. I s \<longrightarrow> m s = (Inl e, t) \<longrightarrow> I t)"

lemma calm_start: "serving s n ca c \<Longrightarrow> calm s n c s"
  by (auto simp: calm_def same_tables_def)

lemma calm_with_db:
  assumes "calm s0 n c s" and "serving s n ca c" and "tables d = tables (ca_db ca)"
  shows "calm s0 n c (with_db s n ca d)"
proof -
  let ?f = "map_option (\<lambda>ca. (ca_Config ca, tables (ca_db ca)))"
  have "?f (st_cas s n) = ?f (st_cas s0 n)" using assms(1) by (simp add: calm_def same_tables_def)
  then have "?f (st_cas s0 n) = Some (ca_Config ca, tables (ca_db ca))"
    using assms(2) by (simp add: serving_def)
  then show ?thesis using assms by (auto simp: calm_def same_tables_def with_db_def serving_def)
qed

lemma calm_run:
  assumes "calm s0 n c s" and "dbE m s = (r, t)" and "\<And>d d'. m d = (r, d') \<Longrightarrow> tables d' = tables d"
  shows "calm s0 n c t"
proof -
  obtain ca where sv: "serving s n ca c" using assms(1) by (auto simp: calm_def)
  then obtain d where "m (ca_db ca) = (r, d)" "t = with_db s n ca d"
    using assms(2) by (auto simp: dbE_serving [OF sv])
  with assms(1,3) sv show ?thesis by (simp add: calm_with_db)
qed

lemma calm_dbE:
  assumes "\<And>v. keeps (\<lambda>d. tables d = v) m"
  shows "keeps (calm s0 n c) (dbE m)"
  using keepsD [OF assms] by (blast intro: keepsI calm_run)

lemma calm_dbE_error:
  "(\<And>d e d'. m d = (Inl e, d') \<Longrightarrow> tables d' = tables d) \<Longrightarrow> undone_on_error (calm s0 n c) (dbE m)"
  unfolding undone_on_error_def by (blast intro: calm_run)

lemma calm_caller: "calm s0 n c s \<Longrightarrow> ctx_caller (st_ctx s) = Some c"
  by (auto simp: calm_def serving_def)

lemma keeps_stays: "(\<And>s r t. I s \<Longrightarrow> m s = (r, t) \<Longrightarrow> t = s) \<Longrightarrow> keeps I m"
  by (metis keepsI)

lemma calm_checks:
  "keeps (calm s0 n c) (GetCaller E)" "keeps (calm s0 n c) (getCA E)"
  "keeps (calm s0 n c) (ContainsAffiliation E aff)" "keeps (calm s0 n c) (CanActOnType E t)"
  "keeps (calm s0 n c) (isRegistrar E)"
proof -
  show "keeps (calm s0 n c) (GetCaller E)" "keeps (calm s0 n c) (getCA E)"
    by (auto intro!: keeps_stays simp: calm_def)
  show "keeps (calm s0 n c) (ContainsAffiliation E aff)"
    by (auto intro!: keeps_stays simp: ContainsAffiliation_cached [OF calm_caller])
  show "keeps (calm s0 n c) (CanActOnType E t)"
    by (rule keeps_stays) (erule CanActOnType_state [OF calm_caller])
  show "keeps (calm s0 n c) (isRegistrar E)"
    by (auto intro!: keeps_stays simp: isRegistrar_cached [OF calm_caller] split: sum.splits)
qed

lemma calm_reads:
  "keeps (calm s0 n c) (dbE (GetUser uid))" "keeps (calm s0 n c) (dbE (GetAffiliation aff))"
  by (intro calm_dbE keeps_GetUser keeps_GetAffiliation; simp)+

lemma calm_users:
  "keeps (calm s0 n c) (CanManageUser E u)" "keeps (calm s0 n c) (ctx_GetUser E uid)"
  "keeps (calm s0 n c) (CanModifyUser E req a b k u)"
  unfolding CanManageUser_def ctx_GetUser_def CanModifyUser_def by (intro keeps_intros calm_checks calm_reads)+

lemma calm_setCtx:
  "(\<And>k. ctx_ca (f k) = ctx_ca k) \<Longrightarrow> (\<And>k. ctx_caller (f k) = ctx_caller k) \<Longrightarrow> keeps (calm s0 n c) (setCtx f)"
  by (rule keepsI) (auto simp: calm_def same_tables_def serving_def)

lemma calm_se: "keeps (calm s0 n c) (modifyE (\<lambda>s. s\<lparr>c_se := f s\<rparr>))"
  by (rule keepsI) (auto simp: calm_def same_tables_def serving_def)

lemma calm_body:
  "keeps (calm s0 n c) ReadBodyBytes" "keeps (calm s0 n c) (TryReadBody dec)" "keeps (calm s0 n c) (ReadBody dec')"
  unfolding ReadBodyBytes_def TryReadBody_def ReadBody_def by (intro keeps_intros calm_setCtx; simp)+

lemma calm_params:
  "keeps (calm s0 n c) (GetQueryParm name)" "keeps (calm s0 n c) (GetBoolQueryParm name)"
  "keeps (calm s0 n c) (GetVar name)"
  unfolding GetQueryParm_def GetBoolQueryParm_def GetVar_def by (intro keeps_intros)+

lemmas calm_intros = calm_checks calm_reads calm_users calm_se calm_body calm_params

lemma undone_keeps: "keeps I m \<Longrightarrow> undone_on_error I m"
  unfolding undone_on_error_def by (metis keepsD)

lemma undone_bindE:
  "keeps I m \<Longrightarrow> (\<And>a. undone_on_error I (f a)) \<Longrightarrow> undone_on_error I (bindE m f)"
  unfolding undone_on_error_def by (auto simp: bindE_Inl) (metis keepsD)+

lemma undone_seqE: "keeps I m \<Longrightarrow> undone_on_error I f \<Longrightarrow> undone_on_error I (seqE m f)"
  by (simp add: seqE_def undone_bindE)

lemma undone_last:
  "undone_on_error I m \<Longrightarrow> undone_on_error I (bindE m (\<lambda>a. returnE (f a)))"
  "undone_on_error I m \<Longrightarrow> undone_on_error I (seqE m (returnE b))"
  unfolding undone_on_error_def by (auto simp: bindE_Inl seqE_Inl)

lemma undone_mapErrE: "undone_on_error I m \<Longrightarrow> undone_on_error I (mapErrE g m)"
  unfolding undone_on_error_def by (auto simp: mapErrE_Inl)

lemma undone_cases:
  "undone_on_error I (f a) \<Longrightarrow> undone_on_error I (let x = a in f x)"
  "(\<And>e. undone_on_error I (p e)) \<Longrightarrow> (\<And>a. undone_on_error I (q a)) \<Longrightarrow>
     undone_on_error I (case x of Inl e \<Rightarrow> p e | Inr a \<Rightarrow> q a)"
  "undone_on_error I u \<Longrightarrow> (\<And>a. undone_on_error I (v a)) \<Longrightarrow>
     undone_on_error I (case y of None \<Rightarrow> u | Some a \<Rightarrow> v a)"
  "(\<And>a b. undone_on_error I (w a b)) \<Longrightarrow> undone_on_error I (case z of (a, b) \<Rightarrow> w a b)"
  "undone_on_error I u \<Longrightarrow> undone_on_error I u' \<Longrightarrow> undone_on_error I (if b then u else u')"
  by (auto split: sum.split option.split prod.split)

lemmas undone_intros = undone_bindE undone_seqE undone_mapErrE undone_cases

text \<open>The variables of a request's path and its boolean parameters.\<close>

definition path_var :: "request \<Rightarrow> string \<Rightarrow> string option" where
  "path_var r name = map_option (\<lambda>vs. case map_of vs name of None \<Rightarrow> [] | Some v \<Rightarrow> v) (req_Vars r)"

definition bool_param :: "request \<Rightarrow> string \<Rightarrow> bool option" where
  "bool_param r name =
     (let p = (case map_of (req_Query r) name of None \<Rightarrow> [] | Some v \<Rightarrow> v)
      in if p = [] then Some False else strconv_ParseBool (strings_ToLower p))"

lemma GetVar_Inr:
  "GetVar name s = (Inr v, s') \<longleftrightarrow> s' = s \<and> path_var (ctx_req (st_ctx s)) name = Some v"
  by (auto simp: GetVar_def path_var_def bindE_Inr case_option_run)

lemma GetBoolQueryParm_Inr:
  "GetBoolQueryParm name s = (Inr b, s') \<longleftrightarrow> s' = s \<and> bool_param (ctx_req (st_ctx s)) name = Some b"
  by (auto simp: GetBoolQueryParm_def GetQueryParm_def bool_param_def bindE_Inr Let_def
      split: option.splits)

lemma ReadBody_Inr:
  assumes "ReadBody dec s = (Inr b, s')" and "ctx_ok (st_ctx s)"
  shows "\<exists>body. req_Body (ctx_req (st_ctx s)) = Some body \<and> dec body = Some b \<and>
     s' = s\<lparr>st_ctx := (st_ctx s)\<lparr>ctx_body := Some (Some body)\<rparr>\<rparr>"
  using assms
  by (auto simp: ReadBody_def TryReadBody_def bindE_Inr case_option_run dest!: ReadBodyBytes_Inr split: if_splits)

section \<open>A concrete server\<close>

text \<open>A small server on which the theorems are instantiated: one CA whose database holds the
  registrar \<open>alice\<close>, the peer \<open>bob\<close>, three affiliations and a certificate of \<open>alice\<close>.\<close>

definition no_decoders :: decoders where
  "no_decoders = \<lparr>dec_CAName = \<lambda>_. Some [], dec_Registration = \<lambda>_. None, dec_AddIdentity = \<lambda>_. None,
     dec_ModifyIdentity = \<lambda>_. None, dec_Revocation = \<lambda>_. None, dec_GenCRL = \<lambda>_. None,
     dec_AddAffiliation = \<lambda>_. None, dec_ModifyAffiliation = \<lambda>_. None, dec_Enrollment = \<lambda>_. None, dec_TCert = \<lambda>_. None, dec_Idemix = \<lambda>_. None\<rparr>"

definition example_parse :: pem_parser where
  "example_parse p = (if p = ''pem'' then Some toy_cert else None)"

definition example_env :: env where
  "example_env = \<lparr>e_now = 10, e_version = ''1.2.0'', e_levels = example_levels, e_bcrypt = plain_bcrypt, e_like = sql_like,
     e_parse = example_parse, e_csp = Some toy_csp, e_VerifyCertificate = \<lambda>_ _. True,
     e_revoke = \<lambda>_. (False, True), e_issuerInit = True, e_issuer = toy_issuer, e_idemixRand = 9,
     e_updateSchema = returnE (), e_random = ''secret'', e_chunkVar = [], e_decoders = no_decoders,
     e_marshal = ii_ID, e_encode = \<lambda>_. ''ok''\<rparr>"

definition example_token :: "string \<Rightarrow> string" where
  "example_token body =
     (case CreateToken example_parse toy_csp ''pem'' 3 body of Inr t \<Rightarrow> t | Inl _ \<Rightarrow> [])"

definition mk_attr :: "string \<Rightarrow> string \<Rightarrow> Attribute" where
  "mk_attr n v = \<lparr>attr_Name = n, attr_Value = v, attr_ECert = False\<rparr>"

definition alice :: UserRecord where
  "alice = \<lparr>ur_Name = ''alice'', ur_Pass = ''#pw'', ur_Type = ''client'', ur_Affiliation = ''org1'',
     ur_Attributes = [mk_attr ''hf.Registrar.Roles'' ''client,peer'', mk_attr ''hf.Revoker'' ''true'',
       mk_attr ''hf.Registrar.Attributes'' ''*'', mk_attr ''hf.AffiliationMgr'' ''true'', mk_attr ''hf.GenCRL'' ''true''],
     ur_State = 0, ur_MaxEnrollments = - 1, ur_Level = 1\<rparr>"

definition bob :: UserRecord where
  "bob = \<lparr>ur_Name = ''bob'', ur_Pass = ''#pw2'', ur_Type = ''peer'', ur_Affiliation = ''org1.d1'',
     ur_Attributes = [], ur_State = 0, ur_MaxEnrollments = 1, ur_Level = 1\<rparr>"

definition mk_aff :: "string \<Rightarrow> string \<Rightarrow> AffiliationRecord" where
  "mk_aff n p = \<lparr>ar_ID = 0, ar_Name = n, ar_Prekey = p, ar_Level = 1\<rparr>"

definition example_db :: sqldb where
  "example_db = empty_db\<lparr>db_set := True, db_initialized := True, db_driver := ''sqlite3'',
     db_users := [alice, bob],
     db_affiliations := [mk_aff ''org1'' [], mk_aff ''org1.d1'' ''org1'', mk_aff ''org2'' []],
     db_certificates := [\<lparr>cr_ID = ''alice'', cr_Level = 1, cr_Serial = ''ab'', cr_AKI = ''abc'', cr_CALabel = [],
        cr_Status = ''good'', cr_Reason = 0, cr_Expiry = 100, cr_RevokedAt = 0, cr_PEM = ''pem''\<rparr>]\<rparr>"

definition example_request :: "string \<Rightarrow> string \<Rightarrow> request" where
  "example_request method body =
     \<lparr>req_Method = method, req_Authorization = example_token body, req_Query = [], req_Vars = Some [],
      req_Body = Some body\<rparr>"

definition example_state :: "request \<Rightarrow> reqst" where
  "example_state r =
     \<lparr>c_se = \<lparr>se_Methods = [''GET'', ''POST'', ''PUT'', ''DELETE''], se_successRC = 200\<rparr>,
      c_w = newHTTPResponseWriter (req_Method r),
      st_cas = [''ca'' \<mapsto> \<lparr>ca_Config = example_cfg, ca_levels = example_levels, ca_db = example_db, ca_currentCRI = None, ca_keyTree = NewKeyTree ''root''\<rparr>],
      st_default = ''ca'', st_ctx = newServerRequestContext r\<rparr>"

lemma example_state_ok:
  "all_dbs db_ready (example_state r)" "ctx_ok (st_ctx (example_state r))"
  "ctx_caller (st_ctx (example_state r)) = None" "ctx_req (st_ctx (example_state r)) = r"
  by (simp_all add: example_state_def all_dbs_def db_ready_def example_db_def newServerRequestContext_def ctx_ok_def)

definition example_ca :: CA where
  "example_ca = \<lparr>ca_Config = example_cfg, ca_levels = example_levels, ca_db = example_db, ca_currentCRI = None, ca_keyTree = NewKeyTree ''root''\<rparr>"

definition example_serving :: "request \<Rightarrow> reqst" where
  "example_serving r =
     (example_state r)\<lparr>st_ctx := (newServerRequestContext r)\<lparr>ctx_ca := Some ''ca'', ctx_caller := Some (newDBUser alice)\<rparr>\<rparr>"

lemma example_serving_ok:
  "serving (example_serving r) ''ca'' example_ca (newDBUser alice)" "ctx_ok (st_ctx (example_serving r))"
  by (simp_all add: serving_def example_serving_def example_state_def example_ca_def ctx_ok_def newServerRequestContext_def)

lemma example_login:
  "fst (TokenAuthentication example_env (example_state (example_request ''GET'' ''{}''))) = Inr ''alice''"
  by code_simp

lemma example_not_idemix: "\<not> IsToken (req_Authorization (example_request ''GET'' ''{}''))"
  by code_simp

theorem TokenAuthentication_sound_witness:
  "\<exists>caller. ctx_caller (st_ctx (snd (TokenAuthentication example_env
      (example_state (example_request ''GET'' ''{}''))))) = Some caller \<and> ui_Name caller = ''alice''"
proof -
  let ?s = "example_state (example_request ''GET'' ''{}'')"
  have run: "TokenAuthentication example_env ?s = (Inr ''alice'', snd (TokenAuthentication example_env ?s))"
    using example_login by (simp add: prod_eq_iff)
  have x: "\<not> IsToken (req_Authorization (ctx_req (st_ctx ?s)))"
    unfolding example_state_ok by (rule example_not_idemix)
  from TokenAuthentication_sound [OF run x example_state_ok(1,2,3)] show ?thesis by blast
qed

theorem CanManageUser_decides_witness:
  "fst (CanManageUser example_env (newDBUser bob)
     ((example_state (example_request ''GET'' []))\<lparr>st_ctx := (newServerRequestContext (example_request ''GET'' []))
        \<lparr>ctx_caller := Some (newDBUser alice)\<rparr>\<rparr>)) = Inr ()"
proof -
  let ?s = "(example_state (example_request ''GET'' []))\<lparr>st_ctx := (newServerRequestContext (example_request ''GET'' []))
        \<lparr>ctx_caller := Some (newDBUser alice)\<rparr>\<rparr>"
  have c: "ctx_caller (st_ctx ?s) = Some (newDBUser alice)" by simp
  have t: "may_act_on_type (newDBUser alice) (ui_Type (newDBUser bob))" by code_simp
  have p: "prefix (strings_Split (ui_Affiliation (newDBUser alice)) CHR ''.'')
      (strings_Split (ui_Affiliation (newDBUser bob)) CHR ''.'')" by code_simp
  have "CanManageUser example_env (newDBUser bob) ?s = (Inr (), ?s)"
    using CanManageUser_decides [OF c, of example_env "newDBUser bob" ?s] t p by blast
  then show ?thesis by simp
qed

end
