(* ===== verification/Identity_Handlers.thy ===== *)
theory Identity_Handlers
  imports Request_Context
begin

text \<open>
  Registration and management of identities: \<open>lib/serverregister.go\<close> and
  \<open>lib/serveridentities.go\<close>.  The response header \<open>Location\<close> set by a registration is left out.
\<close>

section \<open>Registration\<close>

definition normalizeRegistrationRequest :: "RegistrationRequest \<Rightarrow> DBUser \<Rightarrow> RegistrationRequest" where
  "normalizeRegistrationRequest req registrar =
     (let req1 = (if rr_Affiliation req = [] then req\<lparr>rr_Affiliation := GetUserAffiliation registrar\<rparr>
                  else if rr_Affiliation req = ''.'' then req\<lparr>rr_Affiliation := []\<rparr> else req)
      in if rr_Type req1 = [] then req1\<lparr>rr_Type := ui_Type registrar\<rparr> else req1)"

definition validateAffiliation :: "env \<Rightarrow> RegistrationRequest \<Rightarrow> unit req" where
  "validateAffiliation E req =
     seqE (ContainsAffiliation E (rr_Affiliation req))
     (if rr_Affiliation req = [] then returnE ()
      else bindE (mapErrE WithCause (dbE (GetAffiliation (rr_Affiliation req)))) (\<lambda>_. returnE ()))"

definition addAttributeToRequest :: "string \<Rightarrow> string \<Rightarrow> Attribute list \<Rightarrow> Attribute list" where
  "addAttributeToRequest name value attributes =
     attributes @ [\<lparr>attr_Name = name, attr_Value = value, attr_ECert = True\<rparr>]"

definition registeredAttributes :: "RegistrationRequest \<Rightarrow> Attribute list" where
  "registeredAttributes req =
     addAttributeToRequest AffiliationAttr (rr_Affiliation req)
       (addAttributeToRequest TypeAttr (rr_Type req)
         (addAttributeToRequest EnrollmentID (rr_Name req) (rr_Attributes req)))"

definition registerUserID :: "env \<Rightarrow> RegistrationRequest \<Rightarrow> string req" where
  "registerUserID E req =
     (let secret = (if rr_Secret req = [] then e_random E else rr_Secret req) in
      bindE (caE (\<lambda>ca. cfg_MaxEnrollments (ca_Config ca))) (\<lambda>caMax.
      bindE (liftE (getMaxEnrollments (rr_MaxEnrollments req) caMax)) (\<lambda>maxEnrollments.
      let insert = \<lparr>ui_Name = rr_Name req, ui_Pass = secret, ui_Type = rr_Type req,
            ui_Affiliation = rr_Affiliation req, ui_Attributes = registeredAttributes req, ui_State = 0,
            ui_MaxEnrollments = maxEnrollments, ui_Level = lv_Identity (e_levels E)\<rparr> in
      bindE (attemptE (dbE (GetUser (rr_Name req)))) (\<lambda>user.
      case user of
        Inr _ \<Rightarrow> throwE (PlainErr ''Identity is already registered'')
      | Inl _ \<Rightarrow> seqE (dbE (InsertUser (e_bcrypt E) (Some insert))) (returnE secret)))))"

definition canRegister :: "env \<Rightarrow> DBUser \<Rightarrow> RegistrationRequest \<Rightarrow> unit req" where
  "canRegister E registrar req =
     seqE (CanActOnType E (rr_Type req))
     (seqE (mapErrE (\<lambda>_. PlainErr ''failed in affiliation validation'') (validateAffiliation E req))
     (mapErrE (\<lambda>_. newAuthErr ErrRegAttrAuth)
        (liftE (CanRegisterRequestedAttributes (rr_Attributes req) None (GetAttribute registrar)))))"

definition registerUser :: "env \<Rightarrow> RegistrationRequest \<Rightarrow> string req" where
  "registerUser E req0 =
     bindE (GetCaller E) (\<lambda>registrarUser.
     let req = normalizeRegistrationRequest req0 registrarUser in
     seqE (canRegister E registrarUser req)
     (mapErrE WithCause (registerUserID E req)))"

definition registerHandler :: "env \<Rightarrow> response option req" where
  "registerHandler E =
     bindE (ReadBody (dec_Registration (e_decoders E))) (\<lambda>req.
     seqE (TokenAuthentication E)
     (seqE (GetCA E)
     (bindE (registerUser E req) (\<lambda>secret. returnE (Some (RespRegistration secret))))))"

section \<open>Responses\<close>

definition getIDResp :: "DBUser \<Rightarrow> string \<Rightarrow> string \<Rightarrow> IdentityResponse" where
  "getIDResp user secret caname =
     \<lparr>ii_ID = ui_Name user, ii_Type = ui_Type user, ii_Affiliation = GetUserAffiliation user,
      ii_Attributes = map snd (du_attrs user), ii_MaxEnrollments = ui_MaxEnrollments user,
      ir_Secret = secret, ir_CAName = caname\<rparr>"

section \<open>Reading identities\<close>

text \<open>The loop of \<open>getIDs\<close>: the identities are written one by one, and after every
  \<open>numIdentities\<close> of them the connection is flushed, which has no effect on what is written.
  The remainder of the division by zero panics.\<close>

fun writeIdentities :: "env \<Rightarrow> int \<Rightarrow> int \<Rightarrow> UserRecord list \<Rightarrow> unit req" where
  "writeIdentities E numIdentities rowNumber [] = returnE ()"
| "writeIdentities E numIdentities rowNumber (r # rows) =
     seqE (if rowNumber + 1 > 1 then writeE '','' else returnE ())
     (seqE (writeE (e_marshal E \<lparr>ii_ID = ur_Name r, ii_Type = ur_Type r, ii_Affiliation = ur_Affiliation r,
               ii_Attributes = ur_Attributes r, ii_MaxEnrollments = ur_MaxEnrollments r\<rparr>))
     (seqE (unlessE (numIdentities \<noteq> 0) (GoPanic ''integer divide by zero''))
     (writeIdentities E numIdentities (rowNumber + 1) rows)))"

definition getIDs :: "env \<Rightarrow> DBUser \<Rightarrow> string \<Rightarrow> unit req" where
  "getIDs E caller caname =
     bindE (isRegistrar E) (\<lambda>(callerTypes, isReg).
     seqE (unlessE isReg (newAuthErr ErrGettingUser))
     (bindE (mapErrE (\<lambda>_. newHTTPErr 500 ErrGettingUser)
              (dbE (GetFilteredUsers (e_like E) (GetUserAffiliation caller) callerTypes))) (\<lambda>rows.
      bindE (if e_chunkVar E = [] then returnE 100
             else (case strconv_Atoi (e_chunkVar E) of
                     None \<Rightarrow> throwE (newHTTPErr 500 ErrGettingUser) | Some n \<Rightarrow> returnE n)) (\<lambda>numIdentities.
      seqE (writeE ''{\"identities\":['')
      (seqE (writeIdentities E numIdentities 0 rows)
      (writeE (''], \"caname\":\"'' @ caname @ ''\"}'')))))))"

definition getID :: "env \<Rightarrow> string \<Rightarrow> string \<Rightarrow> IdentityResponse req" where
  "getID E uid caname =
     bindE (dbE (GetUser uid)) (\<lambda>user.
     seqE (CanManageUser E user) (returnE (getIDResp user [] caname)))"

definition processGetIDRequest :: "env \<Rightarrow> string \<Rightarrow> response option req" where
  "processGetIDRequest E caname =
     bindE (GetVar ''id'') (\<lambda>uid.
     bindE (getID E uid caname) (\<lambda>resp. returnE (Some (RespIdentity resp))))"

section \<open>Changing identities\<close>

definition processDeleteRequest :: "env \<Rightarrow> string \<Rightarrow> response option req" where
  "processDeleteRequest E caname =
     bindE (caE (\<lambda>ca. cfg_Identities_AllowRemove (ca_Config ca))) (\<lambda>allow.
     seqE (unlessE allow (newHTTPErr 403 ErrRemoveIdentity))
     (bindE (GetVar ''id'') (\<lambda>removeID.
      seqE (unlessE (removeID \<noteq> []) (newHTTPErr 400 ErrRemoveIdentity))
      (bindE (GetBoolQueryParm ''force'') (\<lambda>force.
       bindE (ctxE ctx_caller) (\<lambda>caller.
       case caller of
         None \<Rightarrow> throwE (GoPanic ''nil pointer dereference'')
       | Some caller \<Rightarrow>
           seqE (unlessE (\<not> (removeID = ui_Name caller \<and> \<not> force)) (newHTTPErr 403 ErrRemoveIdentity))
           (bindE (ctx_GetUser E removeID) (\<lambda>userToRemove.
            seqE (CanManageUser E userToRemove)
            (seqE (mapErrE (\<lambda>_. newHTTPErr 500 ErrRemoveIdentity) (dbE (DeleteUser (e_now E) removeID)))
            (returnE (Some (RespIdentity (getIDResp userToRemove [] caname)))))))))))))"

definition processPostRequest :: "env \<Rightarrow> string \<Rightarrow> response option req" where
  "processPostRequest E caname =
     seqE (modifyE (\<lambda>s. s\<lparr>c_se := (c_se s)\<lparr>se_successRC := 201\<rparr>\<rparr>))
     (bindE (ReadBody (dec_AddIdentity (e_decoders E))) (\<lambda>req.
      seqE (unlessE (air_ID req \<noteq> []) (newHTTPErr 400 ErrAddIdentity))
      (let addReq = \<lparr>rr_Name = air_ID req, rr_Type = air_Type req, rr_Secret = air_Secret req,
             rr_MaxEnrollments = air_MaxEnrollments req, rr_Affiliation = air_Affiliation req,
             rr_Attributes = air_Attributes req\<rparr> in
       seqE (mapErrE WithCause (GetCaller E))
       (bindE (mapErrE (\<lambda>_. newHTTPErr 400 ErrAddIdentity) (registerUser E addReq)) (\<lambda>pass.
        bindE (dbE (GetUser (air_ID req))) (\<lambda>user.
        returnE (Some (RespIdentity (getIDResp user pass caname)))))))))"

definition getModifyReq :: "DBUser \<Rightarrow> ModifyIdentityRequest \<Rightarrow> UserInfo \<times> bool" where
  "getModifyReq user req =
     (let setPass = (mir_Secret req \<noteq> []);
          pass = (if setPass then mir_Secret req else du_pass user);
          maxEnrollments =
            (if mir_MaxEnrollments req = -2 then 0
             else if mir_MaxEnrollments req \<noteq> 0 then mir_MaxEnrollments req else ui_MaxEnrollments user);
          (affiliation, attrs1) =
            (if mir_Affiliation req = ''.'' then ([], addAttributeToRequest AffiliationAttr [] (mir_Attributes req))
             else if mir_Affiliation req \<noteq> []
             then (mir_Affiliation req, addAttributeToRequest AffiliationAttr (mir_Affiliation req) (mir_Attributes req))
             else (ui_Affiliation user, mir_Attributes req));
          (utype, reqAttrs) =
            (if mir_Type req \<noteq> [] then (mir_Type req, addAttributeToRequest TypeAttr (mir_Type req) attrs1)
             else (ui_Type user, attrs1));
          attributes = (if reqAttrs \<noteq> [] then getNewAttributes (ui_Attributes user) reqAttrs else ui_Attributes user)
      in (\<lparr>ui_Name = ui_Name user, ui_Pass = pass, ui_Type = utype, ui_Affiliation = affiliation,
           ui_Attributes = attributes, ui_State = ui_State user, ui_MaxEnrollments = maxEnrollments,
           ui_Level = ui_Level user\<rparr>, setPass))"

definition processPutRequest :: "env \<Rightarrow> string \<Rightarrow> response option req" where
  "processPutRequest E caname =
     bindE (GetVar ''id'') (\<lambda>modifyID.
     seqE (unlessE (modifyID \<noteq> []) (newHTTPErr 400 ErrModifyingIdentity))
     (bindE (ctx_GetUser E modifyID) (\<lambda>userToModify.
      bindE (ReadBody (dec_ModifyIdentity (e_decoders E))) (\<lambda>req.
      let (modReq, setPass) = getModifyReq userToModify req in
      seqE (if mir_Affiliation req \<noteq> [] \<and> mir_Affiliation req \<noteq> ''.''
            then bindE (mapErrE (\<lambda>_. newHTTPErr 400 ErrModifyingIdentity)
                         (dbE (GetAffiliation (mir_Affiliation req)))) (\<lambda>_. returnE ())
            else returnE ())
      (seqE (CanModifyUser E req (mir_Affiliation req \<noteq> []) (mir_Type req \<noteq> []) (mir_Attributes req \<noteq> []) userToModify)
      (seqE (dbE (UpdateUser (e_bcrypt E) (Some modReq) setPass))
      (bindE (dbE (GetUser modifyID)) (\<lambda>user.
       returnE (Some (RespIdentity (getIDResp user (mir_Secret req) caname)))))))))))"

section \<open>Handlers\<close>

definition processStreamingRequest :: "env \<Rightarrow> string \<Rightarrow> DBUser \<Rightarrow> response option req" where
  "processStreamingRequest E caname caller =
     bindE (ctxE (\<lambda>c. req_Method (ctx_req c))) (\<lambda>method.
     if method = ''GET'' then seqE (getIDs E caller caname) (returnE None)
     else if method = ''POST'' then processPostRequest E caname
     else throwE (PlainErr ''Invalid request''))"

definition processRequest :: "env \<Rightarrow> string \<Rightarrow> response option req" where
  "processRequest E caname =
     bindE (ctxE (\<lambda>c. req_Method (ctx_req c))) (\<lambda>method.
     if method = ''GET'' then processGetIDRequest E caname
     else if method = ''DELETE'' then processDeleteRequest E caname
     else if method = ''PUT'' then processPutRequest E caname
     else throwE (PlainErr ''Invalid request''))"

definition identitiesStreamingHandler :: "env \<Rightarrow> response option req" where
  "identitiesStreamingHandler E =
     seqE (TokenAuthentication E)
     (bindE (getCAName E) (\<lambda>caname.
      bindE (GetCaller E) (\<lambda>caller. processStreamingRequest E caname caller)))"

definition identitiesHandler :: "env \<Rightarrow> response option req" where
  "identitiesHandler E =
     seqE (TokenAuthentication E)
     (bindE (getCAName E) (\<lambda>caname.
      seqE (GetCaller E) (processRequest E caname)))"

section \<open>Registration is authorised and all-or-nothing\<close>

definition registration_authorised :: "DBUser \<Rightarrow> sqldb \<Rightarrow> RegistrationRequest \<Rightarrow> bool" where
  "registration_authorised c d req \<longleftrightarrow>
     may_act_on_type c (rr_Type req) \<and> may_act_on_affiliation c (rr_Affiliation req) \<and>
     (rr_Affiliation req = [] \<or> rr_Affiliation req \<in> aff_names d) \<and>
     (\<forall>a \<in> set (rr_Attributes req). attr_authorised (rr_Attributes req) None (GetAttribute c) a)"

definition registered_row :: "env \<Rightarrow> RegistrationRequest \<Rightarrow> int \<Rightarrow> string \<Rightarrow> UserRecord" where
  "registered_row E req maxEnrollments pwd =
     \<lparr>ur_Name = rr_Name req, ur_Pass = pwd, ur_Type = rr_Type req, ur_Affiliation = rr_Affiliation req,
      ur_Attributes = registeredAttributes req, ur_State = 0, ur_MaxEnrollments = maxEnrollments,
      ur_Level = lv_Identity (e_levels E)\<rparr>"

lemma is_aff_found: "(\<exists>r rs. filter (is_aff name) rows = r # rs) \<longleftrightarrow> name \<in> ar_Name ` set rows"
  by (cases "filter (is_aff name) rows") (auto simp: filter_Nil_iff dest!: filter_ConsD)

lemma validateAffiliation_Inr:
  assumes "serving s n ca c"
  shows "validateAffiliation E req s = (Inr (), s') \<longleftrightarrow>
     may_act_on_affiliation c (rr_Affiliation req) \<and>
     (if rr_Affiliation req = [] then s' = s
      else db_set (ca_db ca) \<and> \<not> faulty (ca_db ca) \<and> rr_Affiliation req \<in> aff_names (ca_db ca)
        \<and> s' = with_db s n ca (pop (ca_db ca)))"
  using assms
  by (auto simp: validateAffiliation_def seqE_Inr bindE_Inr mapErrE_Inr authorise_serving dbE_serving [OF assms]
      GetAffiliation_Inr is_aff_found split: if_splits)

lemma canRegister_Inr:
  assumes "serving s n ca c"
  shows "canRegister E c req s = (Inr (), s') \<longleftrightarrow>
     registration_authorised c (ca_db ca) req \<and>
     (if rr_Affiliation req = [] then s' = s
      else db_set (ca_db ca) \<and> \<not> faulty (ca_db ca) \<and> s' = with_db s n ca (pop (ca_db ca)))"
  using assms
  by (auto simp: canRegister_def seqE_Inr mapErrE_Inr authorise_serving validateAffiliation_Inr [OF assms]
      CanRegisterRequestedAttributes_iff eq_commute [of "Inr ()"] registration_authorised_def split: if_splits)
lemma registerUserID_Inr:
  assumes sv: "serving s n ca c" and run: "registerUserID E req s = (Inr secret, s')"
  shows "\<exists>m pwd d. getMaxEnrollments (rr_MaxEnrollments req) (cfg_MaxEnrollments (ca_Config ca)) = Inr m
    \<and> secret = (if rr_Secret req = [] then e_random E else rr_Secret req)
    \<and> GenerateFromPassword (e_bcrypt E) secret = Some pwd
    \<and> (no_faults (ca_db ca) \<longrightarrow> rr_Name req \<notin> ur_Name ` set (db_users (ca_db ca)))
    \<and> s' = with_db s n ca d
    \<and> tables d = tables ((ca_db ca)\<lparr>db_users := db_users (ca_db ca) @ [registered_row E req m pwd]\<rparr>)"
proof -
  define sec where "sec = (if rr_Secret req = [] then e_random E else rr_Secret req)"
  obtain m e d d' where m: "getMaxEnrollments (rr_MaxEnrollments req) (cfg_MaxEnrollments (ca_Config ca)) = Inr m"
    and get: "GetUser (rr_Name req) (ca_db ca) = (Inl e, d)"
    and ins: "InsertUser (e_bcrypt E) (Some \<lparr>ui_Name = rr_Name req, ui_Pass = sec, ui_Type = rr_Type req,
            ui_Affiliation = rr_Affiliation req, ui_Attributes = registeredAttributes req, ui_State = 0,
            ui_MaxEnrollments = m, ui_Level = lv_Identity (e_levels E)\<rparr>) d = (Inr (), d')"
    and out: "secret = sec" "s' = with_db s n ca d'"
    using run sv
    by (auto simp: registerUserID_def Let_def sec_def [symmetric] bindE_Inr seqE_Inr attemptE_Inr case_sum_run
        eq_commute [of "Inr _" "getMaxEnrollments _ _"] dbE_serving [OF sv]
        dbE_serving [OF serving_with_db [OF sv]])
  have d: "tables d = tables (ca_db ca)"
    "no_faults (ca_db ca) \<Longrightarrow> db_set (ca_db ca) \<Longrightarrow> rr_Name req \<notin> ur_Name ` set (db_users (ca_db ca))"
    using get by (auto simp: GetUser_def seqE_Inl bindE_Inl mapErrE_Inl sql_get_Inl checkDB_eq filter_Nil_iff
        split: if_splits)
  have "db_set (ca_db ca)" using get ins by (auto simp: GetUser_def seqE_Inl bindE_Inl mapErrE_Inl sql_get_Inl checkDB_eq
        InsertUser_Inr split: if_splits)
  then show ?thesis
    using m out ins d
    by (intro exI [of _ m] exI [where x = "the (GenerateFromPassword (e_bcrypt E) sec)"] exI [of _ d'])
      (auto simp: InsertUser_Inr sec_def tables_def registered_row_def userRecord_of_def)
qed

text \<open>C2: registration.  When \<open>registerUser\<close> succeeds, the caller is a registrar for the requested
  type, its affiliation contains the requested one, which exists, and it may hand out every
  requested attribute; the limit on enrollments is one the CA allows; and exactly one row is
  added to the identities, with that type, affiliation, limit, the hash of the returned secret
  and the requested attributes followed by the three reserved ones.  If no statement of the
  database failed, the name was not registered before.\<close>

theorem registerUser_authorised:
  assumes sv: "serving s n ca c" and run: "registerUser E req0 s = (Inr secret, s')"
  shows "let req = normalizeRegistrationRequest req0 c; d = ca_db ca in
     registration_authorised c d req \<and>
     (no_faults d \<longrightarrow> rr_Name req \<notin> ur_Name ` set (db_users d)) \<and>
     (\<exists>m pwd d'. getMaxEnrollments (rr_MaxEnrollments req) (cfg_MaxEnrollments (ca_Config ca)) = Inr m \<and>
        GenerateFromPassword (e_bcrypt E) secret = Some pwd \<and>
        s' = with_db s n ca d' \<and>
        tables d' = tables (d\<lparr>db_users := db_users d @ [registered_row E req m pwd]\<rparr>))"
proof -
  define req where "req = normalizeRegistrationRequest req0 c"
  obtain t where can: "canRegister E c req s = (Inr (), t)" and reg: "registerUserID E req t = (Inr secret, s')"
    using run sv by (auto simp: registerUser_def Let_def req_def bindE_Inr seqE_Inr mapErrE_Inr)
  from can have auth: "registration_authorised c (ca_db ca) req" by (simp add: canRegister_Inr [OF sv])
  obtain d where t: "t = with_db s n ca d" "tables d = tables (ca_db ca)" "no_faults (ca_db ca) \<Longrightarrow> no_faults d"
    using can sv that [of "ca_db ca"] that [of "pop (ca_db ca)"]
    by (cases "rr_Affiliation req = []") (auto simp: canRegister_Inr [OF sv])
  have svt: "serving t n (ca\<lparr>ca_db := d\<rparr>) c" using t(1) sv by simp
  from registerUserID_Inr [OF svt reg] t auth
  show ?thesis unfolding Let_def req_def [symmetric] by (auto simp: tables_def)
qed

text \<open>A registration that is refused, for whatever reason, leaves all tables of all CAs as they
  were.\<close>

theorem registerUser_refused_unchanged:
  assumes "serving s n ca c" and "registerUser E req s = (Inl e, s')"
  shows "same_tables s s'"
proof -
  have "undone_on_error (calm s n c) (registerUser E req)"
    unfolding registerUser_def canRegister_def validateAffiliation_def registerUserID_def
    by (intro undone_intros undone_last calm_dbE_error InsertUser_Inl undone_keeps [OF keeps_atom(2)]
        keeps_intros calm_intros)
  then have "calm s n c s'"
    using calm_start [OF assms(1)] assms(2) unfolding undone_on_error_def by blast
  then show ?thesis by (simp add: calm_def)
qed
text \<open>C30: conversely, a registration that is authorised, asks for a limit the CA allows and a name that
  is free, is carried out when the database answers.\<close>

theorem registerUser_succeeds:
  assumes sv: "serving s n ca c" and d: "db_set (ca_db ca)" "no_faults (ca_db ca)"
    and auth: "registration_authorised c (ca_db ca) (normalizeRegistrationRequest req c)"
    and max: "getMaxEnrollments (rr_MaxEnrollments req) (cfg_MaxEnrollments (ca_Config ca)) = Inr m"
    and new: "rr_Name req \<notin> ur_Name ` set (db_users (ca_db ca))"
    and secret: "secret = (if rr_Secret req = [] then e_random E else rr_Secret req)"
    and hash: "GenerateFromPassword (e_bcrypt E) secret = Some pwd"
  shows "\<exists>s'. registerUser E req s = (Inr secret, s')"
proof -
  define rq where "rq = normalizeRegistrationRequest req c"
  have rq: "rr_Name rq = rr_Name req" "rr_Secret rq = rr_Secret req" "rr_MaxEnrollments rq = rr_MaxEnrollments req"
    by (auto simp: rq_def normalizeRegistrationRequest_def Let_def)
  define d where "d = (if rr_Affiliation rq = [] then ca_db ca else pop (ca_db ca))"
  have can: "canRegister E c rq s = (Inr (), with_db s n ca d)"
    using auth assms(2,3) with_db_same [OF sv] by (auto simp: canRegister_Inr [OF sv] rq_def d_def)
  have dd: "db_set d" "no_faults d" "db_users d = db_users (ca_db ca)" using assms(2,3) by (auto simp: d_def)
  have sv1: "serving (with_db s n ca d) n (ca\<lparr>ca_db := d\<rparr>) c" using sv by simp
  have get: "GetUser (rr_Name rq) d = (Inl (newHTTPErr 404 ErrDBGet), pop d)"
  proof -
    have "filter (is_user (rr_Name rq)) (db_users d) = []" using new unfolding dd(3) rq(1) by (force simp: filter_Nil_iff)
    then show ?thesis
      using dd by (simp add: GetUser_def getError_def seqE_Inl bindE_Inl mapErrE_Inl sql_get_Inl checkDB_eq)
  qed
  define row where "row = \<lparr>ui_Name = rr_Name rq, ui_Pass = secret, ui_Type = rr_Type rq,
            ui_Affiliation = rr_Affiliation rq, ui_Attributes = registeredAttributes rq, ui_State = 0,
            ui_MaxEnrollments = m, ui_Level = lv_Identity (e_levels E)\<rparr>"
  obtain d' where ins: "InsertUser (e_bcrypt E) (Some row) (pop d) = (Inr (), d')"
    using dd new rq hash by (auto simp: InsertUser_Inr row_def users_clash_def)
  have "registerUserID E rq (with_db s n ca d) = (Inr secret, with_db s n ca d')"
    using max get ins rq secret sv
    by (auto simp: registerUserID_def Let_def bindE_Inr seqE_Inr attemptE_Inr case_sum_run row_def
        caE_serving [OF sv1] dbE_serving [OF sv1] dbE_serving [OF serving_with_db [OF sv]])
  then show ?thesis
    using can sv by (auto simp: registerUser_def Let_def rq_def [symmetric] bindE_Inr seqE_Inr mapErrE_Inr)
qed

section \<open>Removal and modification\<close>

lemma revoke_others:
  "filter (\<lambda>k. cr_ID k \<noteq> uid)
     (map (\<lambda>c. if cr_ID c = uid \<and> cr_Status c \<noteq> ''revoked'' then revoke_row now reason c else c) cs) =
   filter (\<lambda>k. cr_ID k \<noteq> uid) cs"
  by (induction cs) (auto simp: revoke_row_def)

lemma revoke_all:
  "k \<in> set (map (\<lambda>c. if cr_ID c = uid \<and> cr_Status c \<noteq> ''revoked'' then revoke_row now reason c else c) cs) \<Longrightarrow>
     cr_ID k = uid \<longrightarrow> cr_Status k = ''revoked''"
  by (induction cs) (auto simp: revoke_row_def split: if_splits)


definition modification_authorised :: "DBUser \<Rightarrow> DBUser \<Rightarrow> sqldb \<Rightarrow> ModifyIdentityRequest \<Rightarrow> bool" where
  "modification_authorised c u d req \<longleftrightarrow>
     may_manage c u \<and>
     (mir_Affiliation req \<noteq> [] \<longrightarrow> may_act_on_affiliation c (mir_Affiliation req)) \<and>
     (mir_Affiliation req \<notin> {[], ''.''} \<longrightarrow> mir_Affiliation req \<in> aff_names d) \<and>
     (mir_Type req \<noteq> [] \<longrightarrow> may_act_on_type c (mir_Type req)) \<and>
     (\<forall>a \<in> set (mir_Attributes req).
        attr_authorised (mir_Attributes req) (Some (GetAttribute u)) (GetAttribute c) a)"
lemma CanModifyUser_Inr:
  assumes "serving s n ca c"
  shows "CanModifyUser E req a t k u s = (Inr (), s') \<longleftrightarrow> s' = s \<and>
     (a \<longrightarrow> may_act_on_affiliation c (mir_Affiliation req)) \<and> (t \<longrightarrow> may_act_on_type c (mir_Type req)) \<and>
     (k \<longrightarrow> (\<forall>x \<in> set (mir_Attributes req).
        attr_authorised (mir_Attributes req) (Some (GetAttribute u)) (GetAttribute c) x))"
  using assms serving_caller [OF assms]
  by (auto simp: CanModifyUser_def seqE_Inr bindE_Inr mapErrE_Inr authorise_serving
      CanRegisterRequestedAttributes_iff eq_commute [of "Inr ()"] split: if_splits)

lemma getModifyReq_name: "ui_Name (fst (getModifyReq u req)) = ui_Name u"
  by (simp add: getModifyReq_def Let_def split: prod.splits)

text \<open>The check that an affiliation exists, when one is named, changes no table.\<close>

lemma affiliation_check_Inr:
  assumes sv: "serving t n (ca\<lparr>ca_db := d\<rparr>) c"
    and run: "seqE (if a \<noteq> [] \<and> a \<noteq> ''.'' then bindE (mapErrE g (dbE (GetAffiliation a))) (\<lambda>_. returnE ()) else returnE ()) m t = (Inr x, s')"
  shows "\<exists>f. (a \<in> {[], ''.''} \<or> a \<in> aff_names d) \<and> tables f = tables d \<and> m (with_db t n ca f) = (Inr x, s')"
proof (cases "a \<noteq> [] \<and> a \<noteq> ''.''")
  case True
  then obtain r f where "GetAffiliation a d = (Inr r, f)" "m (with_db t n ca f) = (Inr x, s')"
    using run by (auto simp: seqE_Inr bindE_Inr mapErrE_Inr dbE_serving [OF sv])
  then show ?thesis using is_aff_found [of a "db_affiliations d"] by (intro exI [of _ f]) (auto simp: GetAffiliation_Inr)
next
  case False
  then show ?thesis using run with_db_same [OF sv] by (intro exI [of _ d]) auto
qed

text \<open>The rest of the modification, from a state whose affiliation is checked: the decisions of
  \<open>CanModifyUser\<close>, the row written and read back.\<close>

lemma modify_rest_Inr:
  assumes sv: "serving t n ca c" and nm: "ui_Name m = uid"
    and run: "seqE (CanModifyUser E req (mir_Affiliation req \<noteq> []) (mir_Type req \<noteq> []) (mir_Attributes req \<noteq> []) u)
      (seqE (dbE (UpdateUser hash (Some m) p)) (bindE (dbE (GetUser uid)) (\<lambda>user. returnE (g user)))) t = (Inr resp, s')"
  shows "(mir_Affiliation req \<noteq> [] \<longrightarrow> may_act_on_affiliation c (mir_Affiliation req)) \<and>
    (mir_Type req \<noteq> [] \<longrightarrow> may_act_on_type c (mir_Type req)) \<and>
    (\<forall>a \<in> set (mir_Attributes req). attr_authorised (mir_Attributes req) (Some (GetAttribute u)) (GetAttribute c) a) \<and>
    (\<exists>pwd h. s' = with_db t n ca h \<and> tables h = tables ((ca_db ca)\<lparr>db_users :=
       map (\<lambda>r. if ur_Name r = uid then userRecord_of m pwd else r) (db_users (ca_db ca))\<rparr>))"
proof -
  have can: "CanModifyUser E req (mir_Affiliation req \<noteq> []) (mir_Type req \<noteq> []) (mir_Attributes req \<noteq> []) u t = (Inr (), t)"
    and rest: "seqE (dbE (UpdateUser hash (Some m) p)) (bindE (dbE (GetUser uid)) (\<lambda>user. returnE (g user))) t = (Inr resp, s')"
    using run CanModifyUser_Inr [OF sv] by (auto simp: seqE_Inr [of "CanModifyUser _ _ _ _ _ _"])
  obtain d h v where upd: "UpdateUser hash (Some m) p (ca_db ca) = (Inr (), d)" "GetUser uid d = (Inr v, h)"
    and out: "s' = with_db t n ca h"
    using rest by (auto simp: seqE_Inr bindE_Inr dbE_serving [OF sv] dbE_serving [OF serving_with_db [OF sv]])
  obtain pwd where d: "d = db_users_update (map (\<lambda>r. if ur_Name r = uid then userRecord_of m pwd else r)) (pop (ca_db ca))"
    using upd(1) nm by (auto simp: UpdateUser_Inr)
  have "tables h = tables ((ca_db ca)\<lparr>db_users := map (\<lambda>r. if ur_Name r = uid then userRecord_of m pwd else r)
      (db_users (ca_db ca))\<rparr>)"
    using upd(2) unfolding d GetUser_Inr by (auto simp: tables_def)
  then show ?thesis using can out by (auto simp: CanModifyUser_Inr [OF sv])
qed

text \<open>C18: modification of an identity.  When it succeeds, the caller may manage the identity, the new
  affiliation exists and is below the caller's, the new type is one the caller is a registrar
  for, and the caller may hand out every attribute of the request; the identity's row, and no
  other, is replaced by the one the request asks for, and all other tables are as before.\<close>

theorem processPutRequest_authorised:
  assumes sv: "serving s n ca c" and ctx: "ctx_ok (st_ctx s)"
    and run: "processPutRequest E caname s = (Inr resp, s')"
  shows "\<exists>uid body req row pwd d'. path_var (ctx_req (st_ctx s)) ''id'' = Some uid \<and>
     req_Body (ctx_req (st_ctx s)) = Some body \<and> dec_ModifyIdentity (e_decoders E) body = Some req \<and>
     row \<in> set (db_users (ca_db ca)) \<and> ur_Name row = uid \<and>
     modification_authorised c (newDBUser row) (ca_db ca) req \<and>
     st_cas s' = (st_cas s)(n \<mapsto> ca\<lparr>ca_db := d'\<rparr>) \<and>
     tables d' = tables ((ca_db ca)\<lparr>db_users := map (\<lambda>r. if ur_Name r = uid
        then userRecord_of (fst (getModifyReq (newDBUser row) req)) pwd else r) (db_users (ca_db ca))\<rparr>)"
proof -
  obtain uid u d t req where uid: "path_var (ctx_req (st_ctx s)) ''id'' = Some uid"
    and get: "GetUser uid (ca_db ca) = (Inr u, d)" and man: "may_manage c u"
    and rd: "ReadBody (dec_ModifyIdentity (e_decoders E)) (with_db s n ca d) = (Inr req, t)"
    and rest: "(let (modReq, setPass) = getModifyReq u req in
      seqE (if mir_Affiliation req \<noteq> [] \<and> mir_Affiliation req \<noteq> ''.''
            then bindE (mapErrE (\<lambda>_. newHTTPErr 400 ErrModifyingIdentity)
                         (dbE (GetAffiliation (mir_Affiliation req)))) (\<lambda>_. returnE ())
            else returnE ())
      (seqE (CanModifyUser E req (mir_Affiliation req \<noteq> []) (mir_Type req \<noteq> []) (mir_Attributes req \<noteq> []) u)
      (seqE (dbE (UpdateUser (e_bcrypt E) (Some modReq) setPass))
      (bindE (dbE (GetUser uid)) (\<lambda>user.
       returnE (Some (RespIdentity (getIDResp user (mir_Secret req) caname)))))))) t = (Inr resp, s')"
    using run sv
    by (auto simp: processPutRequest_def bindE_Inr [of "GetVar _"] bindE_Inr [of "ctx_GetUser _ _"] seqE_Inr [of "unlessE _ _"]
        bindE_Inr [of "ReadBody _"] GetVar_Inr ctx_GetUser_serving [OF sv] unlessE_Inr simp del: unlessE_eq)
  obtain row where row: "row \<in> set (db_users (ca_db ca))" "ur_Name row = uid" "u = newDBUser row" "d = pop (ca_db ca)"
    using get by (auto simp: GetUser_Inr dest!: filter_ConsD)
  obtain body where body: "req_Body (ctx_req (st_ctx s)) = Some body" "dec_ModifyIdentity (e_decoders E) body = Some req"
    and t: "t = (with_db s n ca d)\<lparr>st_ctx := (st_ctx s)\<lparr>ctx_body := Some (Some body)\<rparr>\<rparr>"
    using ReadBody_Inr [OF rd] ctx by auto
  have svt: "serving t n (ca\<lparr>ca_db := d\<rparr>) c"
    unfolding t by (rule serving_ctx [OF serving_with_db [OF sv]]) (use sv in \<open>simp_all add: serving_def\<close>)
  obtain m p where mp: "getModifyReq u req = (m, p)" by (cases "getModifyReq u req")
  have nm: "ui_Name m = uid" using getModifyReq_name [of u req] mp row by simp
  obtain f where aff: "mir_Affiliation req \<in> {[], ''.''} \<or> mir_Affiliation req \<in> aff_names (ca_db ca)"
    and f: "tables f = tables (ca_db ca)"
    and rest2: "seqE (CanModifyUser E req (mir_Affiliation req \<noteq> []) (mir_Type req \<noteq> []) (mir_Attributes req \<noteq> []) u)
      (seqE (dbE (UpdateUser (e_bcrypt E) (Some m) p))
      (bindE (dbE (GetUser uid)) (\<lambda>user.
       returnE (Some (RespIdentity (getIDResp user (mir_Secret req) caname)))))) (with_db t n ca f)
      = (Inr resp, s')"
    using affiliation_check_Inr [OF svt] rest mp row(4) by fastforce
  have sv2: "serving (with_db t n ca f) n (ca\<lparr>ca_db := f\<rparr>) c"
    using serving_with_db [OF svt, of f] by simp
  note tail = modify_rest_Inr [OF sv2 nm rest2]
  have can: "modification_authorised c u (ca_db ca) req"
    using tail man aff by (auto simp: modification_authorised_def)
  obtain pwd h where out: "s' = with_db t n ca h" and h: "tables h = tables ((ca_db ca)\<lparr>db_users :=
      map (\<lambda>r. if ur_Name r = uid then userRecord_of m pwd else r) (db_users (ca_db ca))\<rparr>)"
    using tail f by (auto simp: tables_def)
  have "st_cas s' = (st_cas s)(n \<mapsto> ca\<lparr>ca_db := h\<rparr>)" unfolding out t by (simp add: with_db_def)
  with uid body row(1,2) can h show ?thesis unfolding row(3) mp [unfolded row(3), THEN arg_cong [of _ _ fst], simplified, symmetric]
    by blast
qed
section \<open>Invariants of the handlers\<close>

context request_invariant
begin

lemma J_registerUser: "keeps J (registerUser E req)"
  unfolding registerUser_def canRegister_def validateAffiliation_def registerUserID_def Let_def
  by (intro keeps_intros J_context)

lemma J_registerHandler: "keeps J (registerHandler E)"
  unfolding registerHandler_def by (intro keeps_intros J_context J_registerUser)

lemma J_writeIdentities: "keeps J (writeIdentities E k i rows)"
  by (induction E k i rows rule: writeIdentities.induct) (auto intro!: keeps_intros J_write)

lemma J_getIDs: "keeps J (getIDs E caller caname)"
  unfolding getIDs_def by (intro keeps_intros J_context J_writeIdentities)

lemma J_process:
  "keeps J (processGetIDRequest E caname)" "keeps J (processDeleteRequest E caname)"
  "keeps J (processPostRequest E caname)"
  unfolding processGetIDRequest_def getID_def processDeleteRequest_def processPostRequest_def
    Let_def
  by (intro keeps_intros J_context J_registerUser J_se)+

lemma J_processPutRequest: "keeps J (processPutRequest E caname)"
  unfolding processPutRequest_def Let_def
  by (intro keeps_bindE keeps_seqE keeps_prod J_context keeps_atom) (intro keeps_intros J_context)

lemma J_identitiesHandler: "keeps J (identitiesHandler E)"
  unfolding identitiesHandler_def processRequest_def by (intro keeps_intros J_context J_process J_processPutRequest)

lemma J_identitiesStreamingHandler: "keeps J (identitiesStreamingHandler E)"
  unfolding identitiesStreamingHandler_def processStreamingRequest_def
  by (intro keeps_intros J_context J_process J_getIDs)

lemmas J_identity_handlers = J_registerHandler J_identitiesHandler J_identitiesStreamingHandler

end
section \<open>The theorems on the concrete server\<close>

definition carol_request :: RegistrationRequest where
  "carol_request = \<lparr>rr_Name = ''carol'', rr_Type = ''peer'', rr_Secret = [], rr_MaxEnrollments = 3,
     rr_Affiliation = ''org1.d1'', rr_Attributes = [mk_attr ''app.level'' ''2'', mk_attr ''hf.Revoker'' ''true'']\<rparr>"

lemma example_register:
  "fst (registerUser example_env carol_request (example_serving (example_request ''POST'' []))) = Inr ''secret''"
  by code_simp

theorem registerUser_authorised_witness:
  "let s = example_serving (example_request ''POST'' []); s' = snd (registerUser example_env carol_request s) in
     registration_authorised (newDBUser alice) example_db carol_request \<and>
     (\<exists>d'. s' = with_db s ''ca'' example_ca d' \<and>
        db_users d' = [alice, bob, registered_row example_env carol_request 3 ''#secret''])"
proof -
  let ?s = "example_serving (example_request ''POST'' [])"
  have run: "registerUser example_env carol_request ?s = (Inr ''secret'', snd (registerUser example_env carol_request ?s))"
    using example_register by (simp add: prod_eq_iff)
  have norm: "normalizeRegistrationRequest carol_request (newDBUser alice) = carol_request"
    by (simp add: normalizeRegistrationRequest_def carol_request_def)
  have max: "getMaxEnrollments (rr_MaxEnrollments carol_request) (cfg_MaxEnrollments (ca_Config example_ca)) = Inr 3"
    by code_simp
  have hash: "GenerateFromPassword (e_bcrypt example_env) ''secret'' = Some ''#secret''" by code_simp
  have db: "ca_db example_ca = example_db" "db_users example_db = [alice, bob]"
    by (simp_all add: example_ca_def example_db_def)
  from registerUser_authorised [OF example_serving_ok(1) run] show ?thesis
    unfolding Let_def norm max hash db by (auto simp: tables_def db)
qed

lemma example_register_again:
  "fst (registerUser example_env (carol_request\<lparr>rr_Name := ''bob''\<rparr>) (example_serving (example_request ''POST'' []))) =
     Inl (WithCause (PlainErr ''Identity is already registered''))"
  by code_simp

theorem registerUser_refused_unchanged_witness:
  "let s = example_serving (example_request ''POST'' [])
   in same_tables s (snd (registerUser example_env (carol_request\<lparr>rr_Name := ''bob''\<rparr>) s))"
  using registerUser_refused_unchanged [OF example_serving_ok(1)] example_register_again
  by (simp add: Let_def prod_eq_iff)

theorem registerUser_succeeds_witness:
  "\<exists>s'. registerUser example_env carol_request (example_serving (example_request ''POST'' [])) = (Inr ''secret'', s')"
proof (rule registerUser_succeeds [OF example_serving_ok(1)])
  show "registration_authorised (newDBUser alice) (ca_db example_ca)
      (normalizeRegistrationRequest carol_request (newDBUser alice))"
  proof -
    have n: "normalizeRegistrationRequest carol_request (newDBUser alice) = carol_request" by code_simp
    have a: "CanRegisterRequestedAttributes (rr_Attributes carol_request) None (GetAttribute (newDBUser alice)) = Inr ()"
      by code_simp
    have "may_act_on_type (newDBUser alice) (rr_Type carol_request)"
      "may_act_on_affiliation (newDBUser alice) (rr_Affiliation carol_request)"
      "rr_Affiliation carol_request \<in> aff_names (ca_db example_ca)" by code_simp+
    with a show ?thesis unfolding n registration_authorised_def CanRegisterRequestedAttributes_iff by blast
  qed
  show "getMaxEnrollments (rr_MaxEnrollments carol_request) (cfg_MaxEnrollments (ca_Config example_ca)) = Inr 3"
    by code_simp
  show "GenerateFromPassword (e_bcrypt example_env) ''secret'' = Some ''#secret''" by code_simp
qed (code_simp+)

definition delete_request :: request where
  "delete_request = (example_request ''DELETE'' [])\<lparr>req_Vars := Some [(''id'', ''bob'')]\<rparr>"

lemma example_delete:
  "fst (processDeleteRequest example_env ''ca'' (example_serving delete_request)) =
     Inr (Some (RespIdentity (getIDResp (newDBUser bob) [] ''ca'')))"
  by code_simp


definition modify_env :: env where
  "modify_env = example_env\<lparr>e_decoders := no_decoders\<lparr>dec_ModifyIdentity := \<lambda>_. Some
     \<lparr>mir_Type = ''client'', mir_Affiliation = [], mir_Attributes = [mk_attr ''a'' ''1''],
      mir_MaxEnrollments = 0, mir_Secret = []\<rparr>\<rparr>\<rparr>"

definition modify_request :: request where
  "modify_request = (example_request ''PUT'' ''{}'')\<lparr>req_Vars := Some [(''id'', ''bob'')]\<rparr>"

lemma example_modify:
  "case fst (processPutRequest modify_env ''ca'' (example_serving modify_request)) of
     Inr (Some (RespIdentity r)) \<Rightarrow> ii_Type r = ''client'' | _ \<Rightarrow> False"
  by code_simp

theorem processPutRequest_authorised_witness:
  "may_act_on_type (newDBUser alice) ''client'' \<and> may_manage (newDBUser alice) (newDBUser bob)"
proof -
  let ?s = "example_serving modify_request"
  obtain r where "fst (processPutRequest modify_env ''ca'' ?s) = Inr r"
    using example_modify by (cases "fst (processPutRequest modify_env ''ca'' ?s)") auto
  then have run: "processPutRequest modify_env ''ca'' ?s = (Inr r, snd (processPutRequest modify_env ''ca'' ?s))"
    by (simp add: prod_eq_iff)
  have p: "path_var (ctx_req (st_ctx ?s)) ''id'' = Some ''bob''" by code_simp
  have u: "row \<in> set (db_users (ca_db example_ca)) \<and> ur_Name row = ''bob'' \<Longrightarrow> row = bob" for row
    by (auto simp: example_ca_def example_db_def alice_def)
  from processPutRequest_authorised [OF example_serving_ok run] show ?thesis
    unfolding p using u by (auto simp: modification_authorised_def modify_env_def)
qed

end
