(* ===== verification/Affiliation_Handlers.thy ===== *)
theory Affiliation_Handlers
  imports Identity_Handlers
begin

text \<open>
  Management of affiliations, \<open>lib/serveraffiliations.go\<close>: the handlers, and the construction of
  the hierarchical response from the rows of the database.

  \<open>fillAffiliationInfo\<close> removes an element from a slice by appending to its front part, which
  writes to the array that the slices of the callers share.  The array is therefore explicit:
  a slice is the array and a length, and a call returns the array as it left it.
\<close>

section \<open>Responses\<close>

definition isChildAffiliation :: "string \<Rightarrow> string \<Rightarrow> bool" where
  "isChildAffiliation name child \<longleftrightarrow>
     strings_HasPrefix child (name @ ''.'') \<and>
     length (strings_Split child CHR ''.'') = length (strings_Split name CHR ''.'') + 1"

definition getRootAffiliationNames :: "Affiliation list \<Rightarrow> string list" where
  "getRootAffiliationNames affiliations =
     map aff_Name (filter (\<lambda>aff1. \<forall>aff2 \<in> set affiliations.
        \<not> isChildAffiliation (aff_Name aff2) (aff_Name aff1)) affiliations)"

definition getIDInfo :: "DBUser \<Rightarrow> IdentityInfo" where
  "getIDInfo user =
     \<lparr>ii_ID = ui_Name user, ii_Type = ui_Type user, ii_Affiliation = GetUserAffiliation user,
      ii_Attributes = map snd (du_attrs user), ii_MaxEnrollments = ui_MaxEnrollments user\<rparr>"

definition identitiesOf :: "DbTxResult \<Rightarrow> string \<Rightarrow> IdentityInfo list" where
  "identitiesOf result name =
     map getIDInfo (filter (\<lambda>u. strings_Join (GetAffiliationPath u) ''.'' = name) (tx_Identities result))"

text \<open>\<open>append(affiliations[:idx], affiliations[idx+1:]...)\<close> on the first \<open>n\<close> elements of an array.\<close>

definition removeAt :: "'a list \<Rightarrow> nat \<Rightarrow> nat \<Rightarrow> 'a list" where
  "removeAt arr n idx = take idx arr @ take (n - idx - 1) (drop (Suc idx) arr) @ drop (n - 1) arr"

definition findChild :: "string \<Rightarrow> Affiliation list \<Rightarrow> nat \<Rightarrow> nat option" where
  "findChild name arr n = List.find (\<lambda>i. isChildAffiliation name (aff_Name (arr ! i))) [0..<n]"

text \<open>The loop over the children of an affiliation, on the slice of length \<open>n\<close>.\<close>

fun fillChildren :: "DbTxResult \<Rightarrow> string \<Rightarrow> Affiliation list \<Rightarrow> nat \<Rightarrow> AffiliationInfo list \<times> Affiliation list" where
  "fillChildren result name arr 0 = ([], arr)"
| "fillChildren result name arr (Suc n) =
     (case findChild name arr (Suc n) of
        None \<Rightarrow> ([], arr)
      | Some idx \<Rightarrow>
          (let child = aff_Name (arr ! idx);
               arr1 = removeAt arr (Suc n) idx;
               (grandchildren, arr2) = fillChildren result child arr1 n;
               (siblings, arr3) = fillChildren result name arr2 n
           in (AffiliationInfo child grandchildren (identitiesOf result child) # siblings, arr3)))"

definition fillAffiliationInfo :: "string \<Rightarrow> DbTxResult \<Rightarrow> Affiliation list \<Rightarrow> AffiliationInfo" where
  "fillAffiliationInfo name result affiliations =
     AffiliationInfo name (fst (fillChildren result name affiliations (length affiliations)))
       (identitiesOf result name)"

definition getResponse :: "DbTxResult \<Rightarrow> string \<Rightarrow> response result" where
  "getResponse result caname =
     (case getRootAffiliationNames (tx_Affiliations result) of
        [] \<Rightarrow> Inr (RespAffiliation (AffiliationInfo [] [] []) caname)
      | [root] \<Rightarrow> Inr (RespAffiliation (fillAffiliationInfo root result (tx_Affiliations result)) caname)
      | _ \<Rightarrow> Inl (PlainErr ''multiple root affiliations found''))"

section \<open>The tree of all affiliations\<close>

datatype affiliationNode = affiliationNode (an_children: "(string \<times> affiliationNode) list")

fun insertByPath :: "string list \<Rightarrow> affiliationNode \<Rightarrow> affiliationNode" where
  "insertByPath [] an = an"
| "insertByPath (p # path) an =
     (let node = (case map_of (an_children an) p of None \<Rightarrow> affiliationNode [] | Some node \<Rightarrow> node)
      in affiliationNode (AList.update p (insertByPath path node) (an_children an)))"

definition insertByName :: "string \<Rightarrow> affiliationNode \<Rightarrow> affiliationNode" where
  "insertByName name an = insertByPath (strings_Split name CHR ''.'') an"

fun an_fill :: "string list \<Rightarrow> affiliationNode \<Rightarrow> AffiliationInfo" where
  "an_fill path (affiliationNode children) =
     AffiliationInfo (strings_Join path ''.'') (map (\<lambda>(key, child). an_fill (path @ [key]) child) children) []"

definition GetRoot :: "affiliationNode \<Rightarrow> AffiliationInfo option" where
  "GetRoot an =
     (let result = an_fill [] an in
      case ai_Affiliations result of
        [] \<Rightarrow> None
      | [a] \<Rightarrow> Some a
      | _ \<Rightarrow> Some result)"

section \<open>Requests\<close>

definition getAffiliations :: "env \<Rightarrow> DBUser \<Rightarrow> string \<Rightarrow> response req" where
  "getAffiliations E caller caname =
     bindE (mapErrE (\<lambda>_. newHTTPErr 500 ErrGettingUser)
              (dbE (GetAllAffiliations (e_like E) (GetUserAffiliation caller)))) (\<lambda>rows.
     case GetRoot (fold (\<lambda>aff. insertByName (ar_Name aff)) rows (affiliationNode [])) of
       None \<Rightarrow> throwE (GoPanic ''nil pointer dereference'')
     | Some root \<Rightarrow> returnE (RespAffiliation root caname))"

definition getAffiliation :: "env \<Rightarrow> string \<Rightarrow> string \<Rightarrow> response req" where
  "getAffiliation E requestedAffiliation caname =
     seqE (ContainsAffiliation E requestedAffiliation)
     (bindE (mapErrE (\<lambda>_. newHTTPErr 500 ErrGettingAffiliation)
               (dbE (GetAffiliationTree (e_like E) requestedAffiliation))) (\<lambda>result.
      liftE (getResponse result caname)))"

definition processGetAffiliationRequest :: "env \<Rightarrow> string \<Rightarrow> response req" where
  "processGetAffiliationRequest E caname =
     bindE (GetVar ''affiliation'') (\<lambda>affiliation. getAffiliation E affiliation caname)"

text \<open>The result of \<open>isRegistrar\<close> in the handlers below: an error other than code 20 ends the
  request, with code 20 the caller is taken not to be a registrar.\<close>

definition registrarFlag :: "env \<Rightarrow> bool req" where
  "registrarFlag E =
     bindE (attemptE (isRegistrar E)) (\<lambda>res.
     case res of
       Inr (_, isReg) \<Rightarrow> returnE isReg
     | Inl err \<Rightarrow> if lcode (getHTTPErr err) \<noteq> 20 then throwE err else returnE False)"

definition processAffiliationDeleteRequest :: "env \<Rightarrow> string \<Rightarrow> response req" where
  "processAffiliationDeleteRequest E caname =
     bindE (caE (\<lambda>ca. cfg_Affiliations_AllowRemove (ca_Config ca))) (\<lambda>allow.
     seqE (unlessE allow (newAuthErr ErrUpdateConfigRemoveAff))
     (bindE (GetVar ''affiliation'') (\<lambda>removeAffiliation.
      bindE (ctxE ctx_caller) (\<lambda>caller.
      case caller of
        None \<Rightarrow> throwE (GoPanic ''nil pointer dereference'')
      | Some caller \<Rightarrow>
          seqE (unlessE (GetUserAffiliation caller \<noteq> removeAffiliation) (newAuthErr ErrUpdateConfigRemoveAff))
          (seqE (ContainsAffiliation E removeAffiliation)
          (bindE (GetBoolQueryParm ''force'') (\<lambda>force.
           bindE (registrarFlag E) (\<lambda>isReg.
           bindE (caE (\<lambda>ca. cfg_Identities_AllowRemove (ca_Config ca))) (\<lambda>identityRemoval.
           bindE (dbE (DeleteAffiliation (e_like E) (e_now E) removeAffiliation force identityRemoval isReg)) (\<lambda>result.
           liftE (getResponse result caname)))))))))))"

text \<open>The loop that adds an affiliation and its missing parents.\<close>

fun insertParents :: "int \<Rightarrow> string list \<Rightarrow> string \<Rightarrow> string \<Rightarrow> unit req" where
  "insertParents affLevel [] affPath parentAffiliationPath = returnE ()"
| "insertParents affLevel (addAff # names) affPath parentAffiliationPath =
     (let path = affPath @ addAff in
      seqE (mapErrE (\<lambda>_. newHTTPErr 500 ErrUpdateConfigAddAff)
              (dbE (InsertAffiliation path parentAffiliationPath affLevel)))
      (insertParents affLevel names (path @ ''.'') path))"

text \<open>The additions of a request: with the parents that are missing, or below a parent that exists, or
  at the top.\<close>

definition addAffiliationRows :: "env \<Rightarrow> string \<Rightarrow> bool \<Rightarrow> unit req" where
  "addAffiliationRows E name force =
     (let addAffiliationSlice = strings_Split name CHR ''.'';
          affLevel = lv_Affiliation (e_levels E) in
      if force then insertParents affLevel addAffiliationSlice [] []
      else if length addAffiliationSlice > 1 then
        (let parentAffiliationPath = strings_Join (butlast addAffiliationSlice) ''.'' in
         seqE (mapErrE (\<lambda>err. if rcode (getHTTPErr err) = 400
                  then newHTTPErr 400 ErrUpdateConfigAddAff else err)
                 (dbE (GetAffiliation parentAffiliationPath)))
         (mapErrE (\<lambda>_. newHTTPErr 500 ErrUpdateConfigAddAff)
            (dbE (InsertAffiliation name parentAffiliationPath affLevel))))
      else mapErrE (\<lambda>_. newHTTPErr 500 ErrUpdateConfigAddAff)
             (dbE (InsertAffiliation name [] affLevel)))"

definition processAffiliationPostRequest :: "env \<Rightarrow> string \<Rightarrow> response req" where
  "processAffiliationPostRequest E caname =
     seqE (modifyE (\<lambda>s. s\<lparr>c_se := (c_se s)\<lparr>se_successRC := 201\<rparr>\<rparr>))
     (bindE (ReadBody (dec_AddAffiliation (e_decoders E))) (\<lambda>req.
      let addAffiliation = aar_Name req in
      bindE (attemptE (dbE (GetAffiliation addAffiliation))) (\<lambda>found.
      case found of
        Inr _ \<Rightarrow> throwE (newHTTPErr 400 ErrUpdateConfigAddAff)
      | Inl _ \<Rightarrow>
          seqE (ContainsAffiliation E addAffiliation)
          (bindE (GetBoolQueryParm ''force'') (\<lambda>force.
           seqE (addAffiliationRows E addAffiliation force)
           (returnE (RespAffiliation (AffiliationInfo addAffiliation [] []) caname)))))))"

definition forceParm :: "bool req" where
  "forceParm =
     bindE (GetQueryParm ''force'') (\<lambda>forceStr.
     if forceStr = [] then returnE False
     else (case strconv_ParseBool forceStr of
             None \<Rightarrow> throwE (newHTTPErr 500 ErrUpdateConfigAddAff)
           | Some force \<Rightarrow> returnE force))"

definition processAffiliationPutRequest :: "env \<Rightarrow> string \<Rightarrow> response req" where
  "processAffiliationPutRequest E caname =
     bindE (GetVar ''affiliation'') (\<lambda>modifyAffiliation.
     bindE (ReadBody (dec_ModifyAffiliation (e_decoders E))) (\<lambda>req.
     let newAffiliation = mar_NewName req in
     seqE (ContainsAffiliation E modifyAffiliation)
     (seqE (ContainsAffiliation E newAffiliation)
     (bindE forceParm (\<lambda>force.
      bindE (registrarFlag E) (\<lambda>isReg.
      bindE (mapErrE WithCause (dbE (ModifyAffiliation (e_like E) modifyAffiliation newAffiliation force isReg))) (\<lambda>result.
      liftE (getResponse result caname))))))))"

section \<open>Handlers\<close>

definition processAffiliationRequest :: "env \<Rightarrow> string \<Rightarrow> response req" where
  "processAffiliationRequest E caname =
     bindE (ctxE (\<lambda>c. req_Method (ctx_req c))) (\<lambda>method.
     if method = ''GET'' then processGetAffiliationRequest E caname
     else if method = ''DELETE'' then processAffiliationDeleteRequest E caname
     else if method = ''PUT'' then processAffiliationPutRequest E caname
     else throwE (PlainErr ''Invalid request''))"

definition processStreamingAffiliationRequest :: "env \<Rightarrow> string \<Rightarrow> DBUser \<Rightarrow> response req" where
  "processStreamingAffiliationRequest E caname caller =
     bindE (ctxE (\<lambda>c. req_Method (ctx_req c))) (\<lambda>method.
     if method = ''GET'' then getAffiliations E caller caname
     else if method = ''POST'' then processAffiliationPostRequest E caname
     else throwE (PlainErr ''Invalid request''))"

definition affiliationsHandler :: "env \<Rightarrow> response option req" where
  "affiliationsHandler E =
     seqE (TokenAuthentication E)
     (bindE (getCAName E) (\<lambda>caname.
      seqE (GetCaller E)
      (seqE (HasRole E AffiliationMgr)
      (bindE (processAffiliationRequest E caname) (\<lambda>resp. returnE (Some resp))))))"

definition affiliationsStreamingHandler :: "env \<Rightarrow> response option req" where
  "affiliationsStreamingHandler E =
     seqE (TokenAuthentication E)
     (bindE (getCAName E) (\<lambda>caname.
      bindE (GetCaller E) (\<lambda>caller.
      seqE (HasRole E AffiliationMgr)
      (bindE (processStreamingAffiliationRequest E caname caller) (\<lambda>resp. returnE (Some resp))))))"

section \<open>Invariants of the handlers\<close>

context request_invariant
begin

lemma J_registrarFlag: "keeps J (registrarFlag E)"
  unfolding registrarFlag_def by (intro keeps_intros J_context)

lemma J_insertParents: "keeps J (insertParents level names p q)"
  by (induction level names p q rule: insertParents.induct) (auto simp: Let_def intro!: keeps_intros J_db)

lemma J_affiliation_requests:
  "keeps J (getAffiliations E caller caname)" "keeps J (processGetAffiliationRequest E caname)"
  "keeps J (processAffiliationDeleteRequest E caname)" "keeps J (processAffiliationPutRequest E caname)"
  unfolding getAffiliations_def processGetAffiliationRequest_def getAffiliation_def
    processAffiliationDeleteRequest_def processAffiliationPutRequest_def forceParm_def Let_def
  by (intro keeps_intros J_context J_registrarFlag)+

lemma J_processAffiliationPostRequest: "keeps J (processAffiliationPostRequest E caname)"
  unfolding processAffiliationPostRequest_def addAffiliationRows_def Let_def
  by (intro keeps_intros J_context J_insertParents J_se)

lemma J_affiliation_handlers:
  "keeps J (affiliationsHandler E)" "keeps J (affiliationsStreamingHandler E)"
  unfolding affiliationsHandler_def affiliationsStreamingHandler_def processAffiliationRequest_def
    processStreamingAffiliationRequest_def
  by (intro keeps_intros J_context J_affiliation_requests J_processAffiliationPostRequest)+

end

section \<open>Removing, renaming and adding affiliations\<close>

definition is_registrar :: "DBUser \<Rightarrow> bool" where
  "is_registrar c \<longleftrightarrow> registrar_types c \<noteq> None"

text \<open>Since the error of \<open>isRegistrar\<close> has code 42, a caller without the attribute
  \<open>hf.Registrar.Roles\<close> is always refused.\<close>

lemma registrarFlag_Inr:
  assumes "serving s n ca c"
  shows "registrarFlag E s = (Inr b, s') \<longleftrightarrow> s' = s \<and> (\<exists>a. GetAttribute c Roles = Inr a) \<and> b = is_registrar c"
proof (cases "GetAttribute c Roles")
  case (Inl e)
  then show ?thesis
    using assms
    by (auto simp: registrarFlag_def bindE_Inr attemptE_Inr isRegistrar_cached [OF serving_caller] case_sum_run split: prod.splits)
next
  case (Inr a)
  then show ?thesis
    using assms
    by (auto simp: registrarFlag_def bindE_Inr attemptE_Inr isRegistrar_cached [OF serving_caller]
        is_registrar_def registrar_types_def split: prod.splits)
qed

lemma like_under: "like_prefix like name \<Longrightarrow> v = name \<or> like v (name @ ''.%'') \<longleftrightarrow> path_under name v"
  by (simp add: like_prefix_def path_under_def)

lemma forceParm_state: "forceParm s = (r, s') \<Longrightarrow> s' = s"
  by (cases r) (auto simp: forceParm_def GetQueryParm_def bindE_Inr bindE_Inl case_option_run split: if_splits)

lemma with_body:
  assumes "serving s n ca c"
  shows "serving (s\<lparr>st_ctx := (st_ctx s)\<lparr>ctx_body := b\<rparr>\<rparr>) n ca c"
  using assms by (simp add: serving_def)


text \<open>The paths that the loop of a forced addition adds.\<close>

fun parent_paths :: "string list \<Rightarrow> string \<Rightarrow> string set" where
  "parent_paths [] p = {}"
| "parent_paths (a # as) p = insert (p @ a) (parent_paths as (p @ a @ ''.''))"

lemma parent_paths_whole: "names \<noteq> [] \<Longrightarrow> p @ strings_Join names ''.'' \<in> parent_paths names p"
proof (induction names p rule: parent_paths.induct)
  case (2 a as p)
  then show ?case by (cases as) auto
qed simp

lemma insertParents_step:
  assumes "serving s n ca c" and "insertParents level names p q s = (Inr (), s')"
  shows "\<exists>d'. s' = with_db s n ca d' \<and> aff_step q (parent_paths names p) (ca_db ca) d'"
  using assms
proof (induction level names p q arbitrary: s ca rule: insertParents.induct)
  case (1 level p q)
  then show ?case by (intro exI [of _ "ca_db ca"]) (auto simp: aff_step_refl)
next
  case (2 level a names p q)
  obtain d t where ins: "InsertAffiliation (p @ a) q level (ca_db ca) = (Inr (), d)" and t: "t = with_db s n ca d"
    and rest: "insertParents level names ((p @ a) @ ''.'') (p @ a) t = (Inr (), s')"
    using 2(3) by (auto simp: Let_def seqE_Inr mapErrE_Inr dbE_serving [OF 2(2)])
  have "serving t n (ca\<lparr>ca_db := d\<rparr>) c" using 2(2) t by simp
  from 2(1) [OF refl this rest] obtain d' where d': "s' = with_db t n (ca\<lparr>ca_db := d\<rparr>) d'"
    "aff_step (p @ a) (parent_paths names ((p @ a) @ ''.'')) d d'" by auto
  from aff_step_trans [OF InsertAffiliation_step [OF ins] d'(2)] d'(1) t show ?case by auto
qed
lemma addAffiliationRows_step:
  assumes sv: "serving s n ca c" and run: "addAffiliationRows E name force s = (Inr (), s')"
  shows "\<exists>d'. s' = with_db s n ca d' \<and>
     (no_faults (ca_db ca) \<longrightarrow> insert name (aff_names (ca_db ca)) \<subseteq> aff_names d' \<and>
        (aff_closed (ca_db ca) \<longrightarrow> aff_closed d')) \<and>
     db_users d' = db_users (ca_db ca) \<and> db_certificates d' = db_certificates (ca_db ca)"
proof -
  let ?names = "strings_Split name CHR ''.''"
  let ?level = "lv_Affiliation (e_levels E)"
  let ?parent = "strings_Join (butlast ?names) ''.''"
  consider (force) force | (below) "\<not> force" "length ?names > 1" | (top) "\<not> force" "\<not> length ?names > 1" by blast
  then show ?thesis
  proof cases
    case force
    then have "insertParents ?level ?names [] [] s = (Inr (), s')" using run by (simp add: addAffiliationRows_def Let_def)
    from insertParents_step [OF sv this] obtain d' where "s' = with_db s n ca d'"
      "aff_step [] (parent_paths ?names []) (ca_db ca) d'" by blast
    moreover have "name \<in> parent_paths ?names []" using parent_paths_whole [of ?names "[]"] by simp
    ultimately show ?thesis by (auto simp: aff_step_def)
  next
    case below
    then obtain a d d' where a: "GetAffiliation ?parent (ca_db ca) = (Inr a, d)"
      and ins: "InsertAffiliation name ?parent ?level d = (Inr (), d')" and s': "s' = with_db s n ca d'"
      using run by (auto simp: addAffiliationRows_def Let_def seqE_Inr mapErrE_Inr dbE_serving [OF sv]
          dbE_serving [OF serving_with_db [OF sv]])
    have d: "d = pop (ca_db ca)" "?parent \<in> aff_names (ca_db ca)"
      using a is_aff_found [of ?parent "db_affiliations (ca_db ca)"] by (auto simp: GetAffiliation_Inr)
    from InsertAffiliation_step [OF ins] s' d show ?thesis by (auto simp: aff_step_def aff_closed_def)
  next
    case top
    then obtain d' where ins: "InsertAffiliation name [] ?level (ca_db ca) = (Inr (), d')" and s': "s' = with_db s n ca d'"
      using run by (auto simp: addAffiliationRows_def Let_def mapErrE_Inr dbE_serving [OF sv])
    from InsertAffiliation_step [OF ins] s' show ?thesis by (auto simp: aff_step_def)
  qed
qed

text \<open>C20: adding an affiliation.  When it is reported as done and no statement of the database failed,
  the affiliation lies below the caller's, was not there before and is there afterwards; if
  every affiliation's parent was an affiliation, so it is afterwards; no affiliation, identity
  or certificate is lost.\<close>

theorem processAffiliationPostRequest_adds:
  assumes sv: "serving s n ca c" and ctx: "ctx_ok (st_ctx s)" and nf: "db_set (ca_db ca)" "no_faults (ca_db ca)"
    and run: "processAffiliationPostRequest E caname s = (Inr resp, s')"
    and body: "req_Body (ctx_req (st_ctx s)) = Some body" "dec_AddAffiliation (e_decoders E) body = Some req"
  shows "\<exists>d'. st_cas s' = (st_cas s)(n \<mapsto> ca\<lparr>ca_db := d'\<rparr>) \<and>
     may_act_on_affiliation c (aar_Name req) \<and> aar_Name req \<notin> aff_names (ca_db ca) \<and>
     insert (aar_Name req) (aff_names (ca_db ca)) \<subseteq> aff_names d' \<and> (aff_closed (ca_db ca) \<longrightarrow> aff_closed d') \<and>
     db_users d' = db_users (ca_db ca) \<and> db_certificates d' = db_certificates (ca_db ca)"
proof -
  let ?name = "aar_Name req"
  let ?t = "s\<lparr>c_se := (c_se s)\<lparr>se_successRC := 201\<rparr>\<rparr>"
  let ?s = "?t\<lparr>st_ctx := (st_ctx s)\<lparr>ctx_body := Some (Some body)\<rparr>\<rparr>"
  have sv': "serving ?s n ca c" using sv by (simp add: serving_def)
  have rd: "ReadBody (dec_AddAffiliation (e_decoders E)) ?t = (Inr b, t) \<Longrightarrow> b = req \<and> t = ?s" for b t
    using ReadBody_Inr [of _ ?t b t] ctx body by fastforce
  obtain b t where b: "ReadBody (dec_AddAffiliation (e_decoders E)) ?t = (Inr b, t)"
    and rest: "(let addAffiliation = aar_Name b in
      bindE (attemptE (dbE (GetAffiliation addAffiliation))) (\<lambda>found.
      case found of
        Inr _ \<Rightarrow> throwE (newHTTPErr 400 ErrUpdateConfigAddAff)
      | Inl _ \<Rightarrow>
          seqE (ContainsAffiliation E addAffiliation)
          (bindE (GetBoolQueryParm ''force'') (\<lambda>force.
           seqE (addAffiliationRows E addAffiliation force)
           (returnE (RespAffiliation (AffiliationInfo addAffiliation [] []) caname)))))) t = (Inr resp, s')"
    using run by (auto simp: processAffiliationPostRequest_def seqE_Inr [of "modifyE _"] bindE_Inr [of "ReadBody _"])
  have bt: "b = req" "t = ?s" using rd [OF b] by simp_all
  obtain err d force where get: "GetAffiliation ?name (ca_db ca) = (Inl err, d)"
    and auth: "may_act_on_affiliation c ?name"
    and add: "addAffiliationRows E ?name force (with_db ?s n ca d) = (Inr (), s')"
    using rest unfolding bt Let_def
    by (auto simp: bindE_Inr seqE_Inr attemptE_Inr case_sum_run dbE_serving [OF sv'] GetBoolQueryParm_Inr
        ContainsAffiliation_cached [OF serving_caller [OF serving_with_db [OF sv']]] split: if_splits)
  have d: "tables d = tables (ca_db ca)" "no_faults d" using GetAffiliation_state [OF get] nf by auto
  have new: "?name \<notin> aff_names (ca_db ca)"
    using get nf by (force simp: GetAffiliation_def seqE_Inl bindE_Inl mapErrE_Inl sql_get_Inl checkDB_eq filter_Nil_iff)
  from addAffiliationRows_step [OF serving_with_db [OF sv'] add] obtain d' where s': "s' = with_db ?s n ca d'"
    and d': "insert ?name (aff_names d) \<subseteq> aff_names d'" "aff_closed d \<longrightarrow> aff_closed d'"
      "db_users d' = db_users d" "db_certificates d' = db_certificates d" using d(2) by auto
  have "st_cas s' = (st_cas s)(n \<mapsto> ca\<lparr>ca_db := d'\<rparr>)" unfolding s' by (simp add: with_db_def)
  moreover have "aff_names d = aff_names (ca_db ca)" "aff_closed d = aff_closed (ca_db ca)"
    "db_users d = db_users (ca_db ca)" "db_certificates d = db_certificates (ca_db ca)"
    using d(1) by (auto simp: tables_def aff_closed_def)
  ultimately show ?thesis using auth new d' by auto
qed
section \<open>The theorems on the concrete server\<close>

definition aff_request :: "string \<Rightarrow> string \<Rightarrow> string \<Rightarrow> request" where
  "aff_request method name body =
     (example_request method body)\<lparr>req_Vars := Some [(''affiliation'', name)], req_Query := [(''force'', ''true'')]\<rparr>"

definition aff_env :: "string \<Rightarrow> env" where
  "aff_env name = example_env\<lparr>e_decoders := no_decoders\<lparr>
     dec_AddAffiliation := \<lambda>_. Some \<lparr>aar_Name = name\<rparr>,
     dec_ModifyAffiliation := \<lambda>_. Some \<lparr>mar_NewName = name\<rparr>\<rparr>\<rparr>"

lemma aff_env_fields [simp]:
  "e_like (aff_env n) = sql_like" "dec_AddAffiliation (e_decoders (aff_env n)) b = Some \<lparr>aar_Name = n\<rparr>"
  "dec_ModifyAffiliation (e_decoders (aff_env n)) b = Some \<lparr>mar_NewName = n\<rparr>"
  by (simp_all add: aff_env_def example_env_def)



theorem processAffiliationPostRequest_adds_witness:
  "let s = example_serving (aff_request ''POST'' [] ''{}'');
       s' = snd (processAffiliationPostRequest (aff_env ''org1.d2.t1'') ''ca'' s)
   in \<exists>d'. st_cas s' = (st_cas s)(''ca'' \<mapsto> example_ca\<lparr>ca_db := d'\<rparr>) \<and> ''org1.d2.t1'' \<in> aff_names d' \<and> aff_closed d'"
proof -
  let ?s = "example_serving (aff_request ''POST'' [] ''{}'')"
  let ?m = "processAffiliationPostRequest (aff_env ''org1.d2.t1'') ''ca''"
  have "case fst (?m ?s) of Inl _ \<Rightarrow> False | Inr _ \<Rightarrow> True" by code_simp
  then obtain r where run: "?m ?s = (Inr r, snd (?m ?s))" by (rule run_of)
  have b: "req_Body (ctx_req (st_ctx ?s)) = Some ''{}''" by code_simp
  have d: "db_set (ca_db example_ca)" "no_faults (ca_db example_ca)" "aff_closed (ca_db example_ca)" by code_simp+
  from processAffiliationPostRequest_adds [OF example_serving_ok d(1,2) run b aff_env_fields(2)] d(3)
  show ?thesis unfolding Let_def by auto
qed

end
