(* ===== verification/Certificate_Handlers.thy ===== *)
theory Certificate_Handlers
  imports Identity_Handlers
begin

text \<open>
  Listing certificates: \<open>lib/servercertificates.go\<close> and the request that it builds from the query,
  \<open>lib/server/certificaterequest.go\<close>.

  Parsing durations and RFC 3339 times (package \<open>time\<close>), encoding a certificate as JSON and the
  variable \<open>FABRIC_CA_SERVER_MAX_CERTS_PER_CHUNK\<close> are the record \<open>cert_env\<close>.
\<close>

section \<open>The request\<close>

record cert_env =
  ce_ParseDuration :: "string \<Rightarrow> int option"
  ce_ParseRFC3339 :: "string \<Rightarrow> int option"
  ce_marshal :: "string \<Rightarrow> string"
  ce_chunkVar :: string

record TimeFilters =
  tf_revokedStart :: "int option"
  tf_revokedEnd :: "int option"
  tf_expiredStart :: "int option"
  tf_expiredEnd :: "int option"

text \<open>The product of two \<open>int\<close>s, which has 64 bits.\<close>

definition int64 :: "int \<Rightarrow> int" where
  "int64 n = (n + 2 ^ 63) mod 2 ^ 64 - 2 ^ 63"

definition is_digit :: "char \<Rightarrow> bool" where
  "is_digit c = (digit_val c \<noteq> None)"

text \<open>The first match of the regular expression \<open>\d+\<close>.\<close>

definition findDigits :: "string \<Rightarrow> string" where
  "findDigits s = takeWhile is_digit (dropWhile (\<lambda>c. \<not> is_digit c) s)"

definition convertDayToHours :: "string \<Rightarrow> string result" where
  "convertDayToHours timeStr =
     (case strconv_Atoi (findDigits timeStr) of
        None \<Rightarrow> Inl (PlainErr ''Invalid time format, integer values required for duration'')
      | Some durationValDays \<Rightarrow>
          Inr (take 1 timeStr @ strconv_Itoa (int64 (24 * durationValDays)) @ ''h''))"

text \<open>The error of \<open>convertDayToHours\<close> is overwritten by that of parsing the empty string it returns.\<close>

definition getTime :: "cert_env \<Rightarrow> int \<Rightarrow> string \<Rightarrow> int option result" where
  "getTime CE now timeStr =
     (if timeStr = [] then Inr None
      else if strings_HasPrefix timeStr ''+'' \<or> strings_HasPrefix timeStr ''-'' then
        (let timeStr = strings_ToLower timeStr in
         if strings_HasSuffix timeStr ''y'' then Inl (PlainErr ''Invalid time format, year (y) is not supported'')
         else
           (let timeStr = (if strings_HasSuffix timeStr ''d''
                  then (case convertDayToHours timeStr of Inl _ \<Rightarrow> [] | Inr t \<Rightarrow> t) else timeStr)
            in case ce_ParseDuration CE timeStr of
                 None \<Rightarrow> Inl (WithCause (PlainErr ''Failed to parse duration''))
               | Some dur \<Rightarrow> Inr (Some (now + dur))))
      else
        (let timeStr = (if CHR ''T'' \<in> set timeStr then timeStr else timeStr @ ''T00:00:00Z'')
         in case ce_ParseRFC3339 CE timeStr of
              None \<Rightarrow> Inl (WithCause (PlainErr ''Failed to parse time based on RFC3339''))
            | Some t \<Rightarrow> Inr (Some t)))"

definition timeParm :: "env \<Rightarrow> cert_env \<Rightarrow> string \<Rightarrow> int option req" where
  "timeParm E CE name =
     bindE (GetQueryParm name) (\<lambda>v. mapErrE WithCause (liftE (getTime CE (e_now E) v)))"

definition getTimes :: "env \<Rightarrow> cert_env \<Rightarrow> TimeFilters req" where
  "getTimes E CE =
     bindE (timeParm E CE ''revoked_start'') (\<lambda>revokedStart.
     bindE (timeParm E CE ''revoked_end'') (\<lambda>revokedEnd.
     bindE (timeParm E CE ''expired_start'') (\<lambda>expiredStart.
     bindE (timeParm E CE ''expired_end'') (\<lambda>expiredEnd.
     returnE \<lparr>tf_revokedStart = revokedStart, tf_revokedEnd = revokedEnd,
              tf_expiredStart = expiredStart, tf_expiredEnd = expiredEnd\<rparr>))))"

text \<open>\<open>getReq\<close> fills the filters that are not times.\<close>

definition getReq :: "CertificateRequestImpl req" where
  "getReq =
     bindE (GetQueryParm ''id'') (\<lambda>uid.
     bindE (GetQueryParm ''serial'') (\<lambda>serial.
     bindE (GetQueryParm ''aki'') (\<lambda>aki.
     bindE (GetBoolQueryParm ''notrevoked'') (\<lambda>notRevoked.
     bindE (GetBoolQueryParm ''notexpired'') (\<lambda>notExpired.
     returnE \<lparr>rq_ID = uid, rq_SerialNumber = serial, rq_Aki = aki, rq_Notexpired = notExpired,
        rq_Notrevoked = notRevoked, rq_ExpiredTimeStart = None, rq_ExpiredTimeEnd = None,
        rq_RevokedTimeStart = None, rq_RevokedTimeEnd = None\<rparr>)))))"

definition validateReq :: "CertificateRequestImpl \<Rightarrow> TimeFilters \<Rightarrow> unit result" where
  "validateReq req tms =
     (if rq_Notexpired req \<and> (tf_expiredStart tms \<noteq> None \<or> tf_expiredEnd tms \<noteq> None)
      then Inl (PlainErr ''conflicting expiration filters'')
      else if rq_Notrevoked req \<and> (tf_revokedStart tms \<noteq> None \<or> tf_revokedEnd tms \<noteq> None)
      then Inl (PlainErr ''conflicting revocation filters'')
      else Inr ())"

definition NewCertificateRequest :: "env \<Rightarrow> cert_env \<Rightarrow> CertificateRequestImpl req" where
  "NewCertificateRequest E CE =
     bindE (getTimes E CE) (\<lambda>tms.
     bindE getReq (\<lambda>req.
     seqE (liftE (validateReq req tms))
     (returnE (req\<lparr>rq_ExpiredTimeStart := tf_expiredStart tms, rq_ExpiredTimeEnd := tf_expiredEnd tms,
        rq_RevokedTimeStart := tf_revokedStart tms, rq_RevokedTimeEnd := tf_revokedEnd tms\<rparr>))))"

section \<open>The handler\<close>

definition authChecks :: "env \<Rightarrow> unit req" where
  "authChecks E =
     bindE (GetCaller E) (\<lambda>caller.
     case GetAttribute caller ''hf.Registrar.Roles'' of
       Inr _ \<Rightarrow> returnE ()
     | Inl _ \<Rightarrow> mapErrE (\<lambda>_. newAuthErr ErrAuthFailure) (HasRole E ''hf.Revoker''))"

fun writeCertificates :: "cert_env \<Rightarrow> int \<Rightarrow> int \<Rightarrow> string list \<Rightarrow> unit req" where
  "writeCertificates CE numCerts rowNumber [] = returnE ()"
| "writeCertificates CE numCerts rowNumber (cert # rows) =
     seqE (if rowNumber + 1 > 1 then writeE '','' else returnE ())
     (seqE (writeE (ce_marshal CE cert))
     (seqE (unlessE (numCerts \<noteq> 0) (GoPanic ''integer divide by zero''))
     (writeCertificates CE numCerts (rowNumber + 1) rows)))"

definition getCertificates :: "env \<Rightarrow> cert_env \<Rightarrow> CertificateRequestImpl \<Rightarrow> unit req" where
  "getCertificates E CE req =
     bindE (GetCaller E) (\<lambda>caller.
     bindE (dbE (GetCertificates (e_like E) (e_now E) req (GetUserAffiliation caller))) (\<lambda>rows.
     bindE (ChunksToDeliver (ce_chunkVar CE)) (\<lambda>numCerts.
     seqE (writeE ''{\"certs\":['')
     (seqE (writeCertificates CE numCerts 0 rows)
     (bindE (GetQueryParm ''ca'') (\<lambda>caname.
      writeE (''], \"caname\":\"'' @ caname @ ''\"}'')))))))"

definition processGetCertificateRequest :: "env \<Rightarrow> cert_env \<Rightarrow> unit req" where
  "processGetCertificateRequest E CE =
     bindE (mapErrE (\<lambda>_. newHTTPErr 400 ErrGettingCert) (NewCertificateRequest E CE)) (\<lambda>req.
     getCertificates E CE req)"

definition processCertificateRequest :: "env \<Rightarrow> cert_env \<Rightarrow> unit req" where
  "processCertificateRequest E CE =
     seqE (TokenAuthentication E)
     (seqE (authChecks E)
     (bindE (ctxE (\<lambda>c. req_Method (ctx_req c))) (\<lambda>m.
      if m = ''GET'' then processGetCertificateRequest E CE
      else if m = ''DELETE'' then throwE (PlainErr ''DELETE Not Implemented'')
      else throwE (PlainErr ''Invalid request''))))"

definition certificatesHandler :: "env \<Rightarrow> cert_env \<Rightarrow> response option req" where
  "certificatesHandler E CE = seqE (processCertificateRequest E CE) (returnE None)"

section \<open>Invariants of the handler\<close>

context request_invariant
begin

lemma J_writeCertificates: "keeps J (writeCertificates CE k i rows)"
  by (induction CE k i rows rule: writeCertificates.induct) (auto intro!: keeps_intros J_write)

lemma J_certificatesHandler: "keeps J (certificatesHandler E CE)"
  unfolding certificatesHandler_def processCertificateRequest_def authChecks_def processGetCertificateRequest_def
    NewCertificateRequest_def getTimes_def timeParm_def getReq_def getCertificates_def
  by (intro keeps_intros J_context J_writeCertificates)

end

section \<open>What is listed\<close>

text \<open>The filters of a request, and the certificates that the caller may see.\<close>

definition cert_matches :: "int \<Rightarrow> CertificateRequestImpl \<Rightarrow> CertRecord \<Rightarrow> bool" where
  "cert_matches now req x \<longleftrightarrow>
     (rq_ID req \<noteq> [] \<longrightarrow> cr_ID x = rq_ID req) \<and>
     (rq_SerialNumber req \<noteq> [] \<longrightarrow> cr_Serial x = strings_TrimLeft (strings_ToLower (rq_SerialNumber req)) CHR ''0'') \<and>
     (rq_Aki req \<noteq> [] \<longrightarrow> cr_AKI x = strings_TrimLeft (strings_ToLower (rq_Aki req)) CHR ''0'') \<and>
     (rq_Notexpired req \<longrightarrow> now \<le> cr_Expiry x) \<and> (rq_Notrevoked req \<longrightarrow> cr_RevokedAt x = 0) \<and>
     (\<forall>a. rq_ExpiredTimeStart req = Some a \<longrightarrow> a \<le> cr_Expiry x) \<and>
     (\<forall>b. rq_ExpiredTimeEnd req = Some b \<longrightarrow> cr_Expiry x \<le> b \<and> (rq_ExpiredTimeStart req = None \<longrightarrow> 0 \<le> cr_Expiry x)) \<and>
     (\<forall>a. rq_RevokedTimeStart req = Some a \<longrightarrow> a \<le> cr_RevokedAt x) \<and>
     (\<forall>b. rq_RevokedTimeEnd req = Some b \<longrightarrow> cr_RevokedAt x \<le> b \<and> (rq_RevokedTimeStart req = None \<longrightarrow> 0 < cr_RevokedAt x))"

definition cert_visible :: "DBUser \<Rightarrow> sqldb \<Rightarrow> CertRecord \<Rightarrow> bool" where
  "cert_visible c d x \<longleftrightarrow> ui_Affiliation c = [] \<or>
     (\<exists>u \<in> set (db_users d). ur_Name u = cr_ID x \<and> may_act_on_affiliation c (ur_Affiliation u))"

text \<open>The request never carries two filters that exclude each other.\<close>

definition filters_ok :: "CertificateRequestImpl \<Rightarrow> bool" where
  "filters_ok req \<longleftrightarrow>
     (rq_Notexpired req \<longrightarrow> rq_ExpiredTimeStart req = None \<and> rq_ExpiredTimeEnd req = None) \<and>
     (rq_Notrevoked req \<longrightarrow> rq_RevokedTimeStart req = None \<and> rq_RevokedTimeEnd req = None)"

lemma NewCertificateRequest_Inr:
  assumes "NewCertificateRequest E CE s = (Inr req, t)"
  shows "filters_ok req \<and> t = s"
proof -
  have parm: "timeParm E CE name u = (Inr v, u') \<Longrightarrow> u' = u" for name u v u'
    by (auto simp: timeParm_def GetQueryParm_def bindE_Inr mapErrE_Inr)
  have times: "getTimes E CE u = (Inr tms, u') \<Longrightarrow> u' = u" for u tms u'
    by (simp add: getTimes_def bindE_Inr) (blast dest: parm)
  have req: "getReq u = (Inr q, u') \<Longrightarrow> u' = u" for u q u'
    by (auto simp: getReq_def GetQueryParm_def bindE_Inr GetBoolQueryParm_Inr)
  obtain tms u q u' where run: "getTimes E CE s = (Inr tms, u)" "getReq u = (Inr q, u')" "t = u'"
    and q: "validateReq q tms = Inr ()"
      "req = q\<lparr>rq_ExpiredTimeStart := tf_expiredStart tms, rq_ExpiredTimeEnd := tf_expiredEnd tms,
        rq_RevokedTimeStart := tf_revokedStart tms, rq_RevokedTimeEnd := tf_revokedEnd tms\<rparr>"
    using assms unfolding NewCertificateRequest_def by (auto simp: bindE_Inr seqE_Inr)
  have "t = s" using times [OF run(1)] req [OF run(2)] run(3) by simp
  moreover have "filters_ok req" using q by (auto simp: filters_ok_def validateReq_def split: if_splits)
  ultimately show ?thesis by simp
qed

lemma conds_match:
  assumes "filters_ok req"
  shows "list_all (\<lambda>P. P (x, u)) (keyConds req @ expiryConds now req @ revocationConds req) \<longleftrightarrow> cert_matches now req x"
proof -
  have "list_all (\<lambda>P. P (x, u)) (keyConds req) \<longleftrightarrow>
     (rq_ID req \<noteq> [] \<longrightarrow> cr_ID x = rq_ID req) \<and>
     (rq_SerialNumber req \<noteq> [] \<longrightarrow> cr_Serial x = strings_TrimLeft (strings_ToLower (rq_SerialNumber req)) CHR ''0'') \<and>
     (rq_Aki req \<noteq> [] \<longrightarrow> cr_AKI x = strings_TrimLeft (strings_ToLower (rq_Aki req)) CHR ''0'')"
    by (simp add: keyConds_def Let_def)
  moreover have "list_all (\<lambda>P. P (x, u)) (expiryConds now req) \<longleftrightarrow> (rq_Notexpired req \<longrightarrow> now \<le> cr_Expiry x) \<and>
     (\<forall>a. rq_ExpiredTimeStart req = Some a \<longrightarrow> a \<le> cr_Expiry x) \<and>
     (\<forall>b. rq_ExpiredTimeEnd req = Some b \<longrightarrow> cr_Expiry x \<le> b \<and> (rq_ExpiredTimeStart req = None \<longrightarrow> 0 \<le> cr_Expiry x))"
    using assms by (cases "rq_ExpiredTimeStart req"; cases "rq_ExpiredTimeEnd req") (simp_all add: expiryConds_def filters_ok_def conj_commute)
  moreover have "list_all (\<lambda>P. P (x, u)) (revocationConds req) \<longleftrightarrow> (rq_Notrevoked req \<longrightarrow> cr_RevokedAt x = 0) \<and>
     (\<forall>a. rq_RevokedTimeStart req = Some a \<longrightarrow> a \<le> cr_RevokedAt x) \<and>
     (\<forall>b. rq_RevokedTimeEnd req = Some b \<longrightarrow> cr_RevokedAt x \<le> b \<and> (rq_RevokedTimeStart req = None \<longrightarrow> 0 < cr_RevokedAt x))"
    using assms by (cases "rq_RevokedTimeStart req"; cases "rq_RevokedTimeEnd req") (simp_all add: revocationConds_def filters_ok_def conj_commute)
  ultimately show ?thesis unfolding list_all_append cert_matches_def by argo
qed

lemma GetCertificates_selects:
  assumes run: "GetCertificates like now req (ui_Affiliation c) d = (Inr pems, d')" and ok: "filters_ok req"
    and like: "like_prefix like (ui_Affiliation c)"
  shows "set pems = cr_PEM ` {x \<in> set (db_certificates d). cert_matches now req x \<and> cert_visible c d x} \<and> d' = pop d"
proof -
  let ?aff = "ui_Affiliation c"
  let ?P = "\<lambda>row. list_all (\<lambda>P. P row) (affiliationConds like ?aff @ keyConds req @ expiryConds now req @ revocationConds req)"
  have pems: "pems = map (\<lambda>(x, u). cr_PEM x) (filter ?P (certRows ?aff d))" "d' = pop d"
    using run by (auto simp: GetCertificates_def Let_def seqE_Inr bindE_Inr mapErrE_Inr sql_select_Inr checkDB_eq certRows_def)
  have aff: "list_all (\<lambda>P. P (x, Some u)) (affiliationConds like ?aff) \<longleftrightarrow> may_act_on_affiliation c (ur_Affiliation u)"
    for x u using like
    by (auto simp: affiliationConds_def may_act_on_affiliation_def path_under_def like_prefix_def)
  have P: "?P (x, u) \<longleftrightarrow> list_all (\<lambda>P. P (x, u)) (affiliationConds like ?aff) \<and> cert_matches now req x" for x u
    using conds_match [OF ok, of x u now] by (simp add: list_all_append)
  have set: "set pems = cr_PEM ` {x. \<exists>u. (x, u) \<in> set (certRows ?aff d) \<and>
      list_all (\<lambda>P. P (x, u)) (affiliationConds like ?aff) \<and> cert_matches now req x}"
    unfolding pems(1) set_map set_filter using P by (force simp: image_iff simp del: list_all_append)
  have "{x. \<exists>u. (x, u) \<in> set (certRows ?aff d) \<and> list_all (\<lambda>P. P (x, u)) (affiliationConds like ?aff) \<and> cert_matches now req x} =
      {x \<in> set (db_certificates d). cert_matches now req x \<and> cert_visible c d x}"
  proof (cases "?aff = []")
    case True
    then have "certRows ?aff d = map (\<lambda>x. (x, None)) (db_certificates d)" "affiliationConds like ?aff = []"
      by (simp_all add: certRows_def affiliationConds_def)
    then show ?thesis using True by (auto simp: cert_visible_def)
  next
    case False
    then have "set (certRows ?aff d) = {(x, Some u) |x u. x \<in> set (db_certificates d) \<and> u \<in> set (db_users d) \<and> ur_Name u = cr_ID x}"
      by (auto simp: certRows_def)
    then show ?thesis using False by (auto simp: cert_visible_def aff)
  qed
  then show ?thesis using set pems(2) by simp
qed

lemma Write_Write: "Write se b (Write se a w) = Write se (a @ b) w"
  by (simp add: Write_def WriteHeader_def isHead_def Let_def)

lemma writeE_Inr: "writeE a s = (Inr u, t) \<longleftrightarrow> t = s\<lparr>c_w := Write (c_se s) a (c_w s)\<rparr>"
  by (auto simp: writeE_def)

lemma writeCertificates_writes:
  assumes "writeCertificates CE k i pems s = (Inr (), t)" and "0 \<le> i" and "pems \<noteq> []"
  shows "t = s\<lparr>c_w := Write (c_se s) ((if i = 0 then [] else '','') @ strings_Join (map (ce_marshal CE) pems) '','') (c_w s)\<rparr>"
  using assms
proof (induction CE k i pems arbitrary: s rule: writeCertificates.induct)
  case (2 CE k i p pems)
  let ?s = "s\<lparr>c_w := Write (c_se s) ((if i = 0 then [] else '','') @ ce_marshal CE p) (c_w s)\<rparr>"
  have run: "writeCertificates CE k (i + 1) pems ?s = (Inr (), t)"
    using "2.prems" by (auto simp: writeE_Inr seqE_Inr unlessE_Inr Write_Write simp del: unlessE_eq split: if_splits)
  show ?case
  proof (cases pems)
    case Nil
    then show ?thesis using run by simp
  next
    case (Cons q qs)
    then show ?thesis using "2.IH" [OF run] "2.prems"(2) by (simp add: Write_Write)
  qed
qed simp

text \<open>The text of a listing.\<close>

definition cert_listing :: "cert_env \<Rightarrow> string list \<Rightarrow> string \<Rightarrow> string" where
  "cert_listing CE pems caname =
     ''{\"certs\":['' @ strings_Join (map (ce_marshal CE) pems) '','' @ ''], \"caname\":\"'' @ caname @ ''\"}''"


definition example_cert_env :: cert_env where
  "example_cert_env = \<lparr>ce_ParseDuration = \<lambda>_. None, ce_ParseRFC3339 = \<lambda>_. None, ce_marshal = id, ce_chunkVar = []\<rparr>"

lemma example_listing:
  "case fst (processGetCertificateRequest example_env example_cert_env (example_serving (example_request ''GET'' []))) of
     Inl _ \<Rightarrow> False | Inr _ \<Rightarrow> True"
  by code_simp


end
