(* ===== verification/Enrollment.thy ===== *)
theory Enrollment
  imports Identity_Handlers
begin

text \<open>
  Enrollment, \<open>lib/serverenroll.go\<close>: the checks on a certificate signing request, the subject that
  the server puts into it, signing, and the count of enrollments.

  What a CA holds besides its database is the record \<open>ca_keys\<close>: its signing profiles, its name,
  its certificate and chain, and the functions of libraries that read and sign requests
  (\<open>encoding/pem\<close>, \<open>crypto/x509\<close>, \<open>encoding/asn1\<close> and CFSSL).  CFSSL's local signer stores what it
  signs through the certificate accessor before it returns.  Points in time are counted in
  seconds.  The value of an extension is represented by the attributes it encodes.
\<close>

section \<open>Data\<close>

record SigningProfile =
  sp_Expiry :: int
  sp_IsCA :: bool

record CSR =
  csr_CommonName :: string
  csr_Names :: "(nat list \<times> string option) list"
  csr_Extensions :: "(nat list \<times> string) list"

record ca_keys =
  k_Name :: string
  k_Default :: SigningProfile
  k_Profiles :: "(string \<times> SigningProfile) list"
  k_pemDecode :: "string \<Rightarrow> (string \<times> string) option"
  k_parseCSR :: "string \<Rightarrow> CSR option"
  k_basicConstraints :: "string \<Rightarrow> (bool \<times> string) option"
  k_caCertExpiry :: "int option"
  k_sign :: "SignRequest \<Rightarrow> (string \<times> CertRecord) result"
  k_chain :: "string result"
  k_caCert :: "X509 result"
  k_hasSigner :: bool
  k_CreateGenericCRL :: "(int \<times> int) list \<Rightarrow> X509 \<Rightarrow> int \<Rightarrow> string option"
  k_pemEncodeCRL :: "string \<Rightarrow> string"

definition commonNameLength :: nat where "commonNameLength = 64"
definition serialNumberLength :: nat where "serialNumberLength = 64"
definition countryNameLength :: nat where "countryNameLength = 2"
definition localityNameLength :: nat where "localityNameLength = 128"
definition stateOrProvinceNameLength :: nat where "stateOrProvinceNameLength = 128"
definition organizationNameLength :: nat where "organizationNameLength = 64"
definition organizationalUnitNameLength :: nat where "organizationalUnitNameLength = 64"

definition basicConstraintsOID :: "nat list" where "basicConstraintsOID = [2, 5, 29, 19]"
definition commonNameOID :: "nat list" where "commonNameOID = [2, 5, 4, 3]"
definition serialNumberOID :: "nat list" where "serialNumberOID = [2, 5, 4, 5]"
definition countryOID :: "nat list" where "countryOID = [2, 5, 4, 6]"
definition localityOID :: "nat list" where "localityOID = [2, 5, 4, 7]"
definition stateOID :: "nat list" where "stateOID = [2, 5, 4, 8]"
definition organizationOID :: "nat list" where "organizationOID = [2, 5, 4, 10]"
definition organizationalUnitOID :: "nat list" where "organizationalUnitOID = [2, 5, 4, 11]"

text \<open>The object identifier of Fabric's attribute extension.\<close>

definition AttrOID :: string where "AttrOID = ''1.2.3.4.5.6.7.8.1''"

section \<open>Checks on the request\<close>

definition getSigningProfile :: "ca_keys \<Rightarrow> string \<Rightarrow> SigningProfile option" where
  "getSigningProfile k profile =
     (if profile = [] then Some (k_Default k) else map_of (k_Profiles k) profile)"

fun caBitSet :: "ca_keys \<Rightarrow> (nat list \<times> string) list \<Rightarrow> bool result" where
  "caBitSet k [] = Inr False"
| "caBitSet k ((oid, value) # exts) =
     (if oid = basicConstraintsOID then
        (case k_basicConstraints k value of
           None \<Rightarrow> Inl (newHTTPErr 400 ErrBadCSR)
         | Some (isCA, rest) \<Rightarrow>
             if rest \<noteq> [] then Inl (newHTTPErr 400 ErrBadCSR)
             else if isCA then Inr True else caBitSet k exts)
      else caBitSet k exts)"

definition isRequestForCASigningCert :: "CSR \<Rightarrow> ca_keys \<Rightarrow> string \<Rightarrow> bool result" where
  "isRequestForCASigningCert csrReq k profile =
     (case getSigningProfile k profile of
        None \<Rightarrow> Inl (PlainErr ''Invalid profile'')
      | Some sp \<Rightarrow> if sp_IsCA sp then Inr True else caBitSet k (csr_Extensions csrReq))"

definition nameLimit :: "nat list \<Rightarrow> nat option" where
  "nameLimit oid =
     (if oid = commonNameOID then Some commonNameLength
      else if oid = serialNumberOID then Some serialNumberLength
      else if oid = organizationalUnitOID then Some organizationalUnitNameLength
      else if oid = organizationOID then Some organizationNameLength
      else if oid = countryOID then Some countryNameLength
      else if oid = localityOID then Some localityNameLength
      else if oid = stateOID then Some stateOrProvinceNameLength
      else None)"

definition csrInputLengthCheck :: "CSR \<Rightarrow> unit result" where
  "csrInputLengthCheck csrReq =
     forR (csr_Names csrReq) (\<lambda>(oid, v).
       case v of
         None \<Rightarrow> Inl (GoPanic ''interface conversion'')
       | Some value \<Rightarrow>
           (case nameLimit oid of
              None \<Rightarrow> Inr ()
            | Some limit \<Rightarrow> requireR (length value \<le> limit) (PlainErr ''exceeds the maximum character limit'')))"

definition emptyName :: csrName where
  "emptyName = \<lparr>nm_C = [], nm_ST = [], nm_L = [], nm_O = [], nm_OU = [], nm_SerialNumber = []\<rparr>"

definition setRequestOUs :: "SignRequest \<Rightarrow> DBUser \<Rightarrow> SignRequest" where
  "setRequestOUs req caller =
     (let s = (case sr_Subject req of Some s \<Rightarrow> s | None \<Rightarrow> \<lparr>sub_CN = [], sub_Names = []\<rparr>);
          kept = map (\<lambda>name. name\<lparr>nm_OU := []\<rparr>)
            (filter (\<lambda>name. nm_C name \<noteq> [] \<or> nm_L name \<noteq> [] \<or> nm_O name \<noteq> [] \<or> nm_ST name \<noteq> []
               \<or> nm_SerialNumber name \<noteq> []) (sub_Names s));
          names = kept @ [emptyName\<lparr>nm_OU := ui_Type caller\<rparr>]
            @ map (\<lambda>aff. emptyName\<lparr>nm_OU := aff\<rparr>) (GetAffiliationPath caller)
      in req\<lparr>sr_Subject := Some (s\<lparr>sub_Names := names\<rparr>)\<rparr>)"

definition processSignRequest :: "env \<Rightarrow> ca_keys \<Rightarrow> string \<Rightarrow> SignRequest \<Rightarrow> SignRequest req" where
  "processSignRequest E k uid req =
     (case k_pemDecode k (sr_Request req) of
        None \<Rightarrow> throwE (PlainErr ''CSR: decode failed'')
      | Some (typ, bytes) \<Rightarrow>
          seqE (unlessE (typ = ''NEW CERTIFICATE REQUEST'' \<or> typ = ''CERTIFICATE REQUEST'')
                  (PlainErr ''not a certificate or csr''))
          (case k_parseCSR k bytes of
             None \<Rightarrow> throwE (PlainErr ''failed to parse the certificate request'')
           | Some csrReq \<Rightarrow>
               seqE (unlessE ((case sr_Subject req of Some s \<Rightarrow> sub_CN s = uid | None \<Rightarrow> True)
                              \<and> csr_CommonName csrReq = uid)
                       (PlainErr ''The CSR subject common name must equal the enrollment ID''))
               (bindE (liftE (isRequestForCASigningCert csrReq k (sr_Profile req))) (\<lambda>isForCACert.
                seqE (if isForCACert then dbE (attributeIsTrue uid IntermediateCA) else returnE ())
                (seqE (liftE (csrInputLengthCheck csrReq))
                (bindE (GetCaller E) (\<lambda>caller.
                 returnE (setRequestOUs req caller))))))))"

section \<open>Enrollment\<close>

text \<open>\<open>Round(time.Minute)\<close>.\<close>

definition roundMinute :: "int \<Rightarrow> int" where
  "roundMinute t = ((t + 30) div 60) * 60"

definition requestExpiry :: "int \<Rightarrow> ca_keys \<Rightarrow> SignRequest \<Rightarrow> int" where
  "requestExpiry now k req =
     (if sr_NotAfter req = 0 then
        (let profile = (if sr_Profile req \<noteq> [] then
               (case map_of (k_Profiles k) (sr_Profile req) of Some p \<Rightarrow> p | None \<Rightarrow> k_Default k) else k_Default k)
         in roundMinute now + sp_Expiry profile)
      else sr_NotAfter req)"

definition boundExpiry :: "int \<Rightarrow> int \<Rightarrow> int" where
  "boundExpiry caexpiry notAfter = (if caexpiry \<noteq> 0 \<and> notAfter > caexpiry then caexpiry else notAfter)"

definition signE :: "env \<Rightarrow> ca_keys \<Rightarrow> SignRequest \<Rightarrow> string req" where
  "signE E k req =
     bindE (mapErrE WithCause (liftE (k_sign k req))) (\<lambda>(cert, record).
     bindE (caE (\<lambda>ca. lv_Certificate (ca_levels ca))) (\<lambda>level.
     seqE (mapErrE WithCause (dbE (InsertCertificate (e_parse E) level record)))
     (returnE cert)))"

abbreviation keysE :: "(string \<Rightarrow> ca_keys) \<Rightarrow> ca_keys req" where
  "keysE K \<equiv> ctxE (\<lambda>c. K (case ctx_ca c of Some n \<Rightarrow> n | None \<Rightarrow> []))"

text \<open>The information about the CA in a response: its name and its certificate chain.\<close>

definition fillCAInfo :: "ca_keys \<Rightarrow> (string \<times> string) result" where
  "fillCAInfo k = bindR (k_chain k) (\<lambda>caChain. Inr (k_Name k, B64Encode caChain))"

definition handleEnroll :: "env \<Rightarrow> (string \<Rightarrow> ca_keys) \<Rightarrow> string \<Rightarrow> response req" where
  "handleEnroll E K uid =
     bindE (ReadBody (dec_Enrollment (e_decoders E))) (\<lambda>req.
     seqE (GetCA E)
     (bindE (keysE K) (\<lambda>k.
      case k_caCertExpiry k of
        None \<Rightarrow> throwE (PlainErr ''Failed to get CA certificate information'')
      | Some caexpiry \<Rightarrow>
          (let notAfter = boundExpiry caexpiry (requestExpiry (e_now E) k (SignRequest.truncate req)) in
           bindE (processSignRequest E k uid ((SignRequest.truncate req)\<lparr>sr_NotAfter := notAfter\<rparr>)) (\<lambda>sreq.
           bindE (GetAttrExtension E (er_AttrReqs req)) (\<lambda>ext.
           let sreq' = (case ext of
                 None \<Rightarrow> sreq
               | Some attrs \<Rightarrow> sreq\<lparr>sr_Extensions := sr_Extensions sreq @ [(AttrOID, attrs)]\<rparr>) in
           bindE (signE E k sreq') (\<lambda>cert.
           bindE (liftE (fillCAInfo k)) (\<lambda>serverInfo.
           returnE (RespEnrollment (B64Encode cert) serverInfo)))))))))"

definition enrollHandler :: "env \<Rightarrow> (string \<Rightarrow> ca_keys) \<Rightarrow> response option req" where
  "enrollHandler E K =
     bindE (BasicAuthentication E) (\<lambda>uid.
     bindE (handleEnroll E K uid) (\<lambda>resp.
     bindE (ctxE ctx_ui) (\<lambda>ui.
     case ui of
       None \<Rightarrow> throwE (GoPanic ''nil pointer dereference'')
     | Some u \<Rightarrow> seqE (dbE (LoginComplete u)) (returnE (Some resp)))))"

definition reenrollHandler :: "env \<Rightarrow> (string \<Rightarrow> ca_keys) \<Rightarrow> response option req" where
  "reenrollHandler E K =
     bindE (TokenAuthentication E) (\<lambda>uid.
     bindE (handleEnroll E K uid) (\<lambda>resp. returnE (Some resp)))"

section \<open>Invariants of the handlers\<close>

text \<open>A composed operation on the database is the composition of its parts.\<close>

lemma dbE_bindE: "dbE (bindE m f) = bindE (dbE m) (\<lambda>a. dbE (f a))"
  by (rule ext) (auto simp: dbE_def bindE_def split: option.splits prod.splits sum.splits)

lemma keeps_dbE_atom:
  "keeps I (dbE (returnE a))" "keeps I (dbE (throwE e))" "keeps I (dbE (liftE r))"
  by (auto simp: keeps_def dbE_def returnE_def throwE_def liftE_def fun_upd_idem split: option.splits)

lemma keeps_dbE_cases:
  "keeps I (dbE m) \<Longrightarrow> keeps I (dbE n) \<Longrightarrow> keeps I (dbE (if b then m else n))"
  "keeps I (dbE m) \<Longrightarrow> (\<And>a. keeps I (dbE (f a))) \<Longrightarrow>
     keeps I (dbE (case x of None \<Rightarrow> m | Some a \<Rightarrow> f a))"
  by (auto split: option.split)

lemma keeps_dbE_mapErrE: "keeps I (dbE m) \<Longrightarrow> keeps I (dbE (mapErrE g m))"
proof (rule keepsI)
  fix s r t assume "keeps I (dbE m)" "I s" and run: "dbE (mapErrE g m) s = (r, t)"
  have "snd (dbE (mapErrE g m) s) = snd (dbE m s)"
    by (auto simp: dbE_def mapErrE_def split: option.splits prod.splits sum.splits)
  then show "I t" using \<open>keeps I (dbE m)\<close> \<open>I s\<close> run by (metis keeps_def snd_conv)
qed

context request_invariant
begin

lemma J_attributeIsTrue: "keeps J (dbE (attributeIsTrue uid a))"
  unfolding attributeIsTrue_def userHasAttribute_def getUserAttrValue_def dbE_bindE
  by (intro keeps_bindE J_GetUser keeps_dbE_cases keeps_dbE_mapErrE keeps_dbE_atom)

lemma J_handleEnroll: "keeps J (handleEnroll E K uid)"
  unfolding handleEnroll_def processSignRequest_def signE_def Let_def
  by (intro keeps_intros J_context J_attributeIsTrue)

lemma J_enroll_handlers: "keeps J (enrollHandler E K)" "keeps J (reenrollHandler E K)"
  unfolding enrollHandler_def reenrollHandler_def by (intro keeps_intros J_handleEnroll J_context)+

end

section \<open>What is signed\<close>

text \<open>A request for a CA's certificate, an identity with an attribute that is true, and the
  limits on the names of a request.\<close>

definition wants_ca :: "ca_keys \<Rightarrow> CSR \<Rightarrow> string \<Rightarrow> bool" where
  "wants_ca k csr profile \<longleftrightarrow>
     (\<exists>sp. getSigningProfile k profile = Some sp \<and> sp_IsCA sp) \<or>
     (\<exists>v rest. (basicConstraintsOID, v) \<in> set (csr_Extensions csr) \<and> k_basicConstraints k v = Some (True, rest))"

definition attr_true :: "sqldb \<Rightarrow> string \<Rightarrow> string \<Rightarrow> bool" where
  "attr_true d uid name \<longleftrightarrow>
     (\<exists>r rs a. filter (is_user uid) (db_users d) = r # rs \<and> GetAttribute (newDBUser r) name = Inr a \<and>
        strconv_ParseBool (attr_Value a) = Some True)"

definition names_bounded :: "CSR \<Rightarrow> bool" where
  "names_bounded csr \<longleftrightarrow>
     (\<forall>(oid, v) \<in> set (csr_Names csr). \<exists>value. v = Some value \<and>
        (\<forall>limit. nameLimit oid = Some limit \<longrightarrow> length value \<le> limit))"

lemma caBitSet_True:
  "caBitSet k exts = Inr b \<Longrightarrow>
     b \<longleftrightarrow> (\<exists>v rest. (basicConstraintsOID, v) \<in> set exts \<and> k_basicConstraints k v = Some (True, rest))"
  by (induction k exts rule: caBitSet.induct) (auto split: if_splits option.splits prod.splits)

lemma isRequestForCASigningCert_Inr:
  "isRequestForCASigningCert csr k profile = Inr b \<Longrightarrow> b = wants_ca k csr profile"
  using caBitSet_True [of k "csr_Extensions csr" b]
  by (auto simp: isRequestForCASigningCert_def wants_ca_def split: option.splits if_splits)

lemma csrInputLengthCheck_Inr: "csrInputLengthCheck csr = Inr () \<longleftrightarrow> names_bounded csr"
  by (fastforce simp: csrInputLengthCheck_def names_bounded_def split: option.splits)

lemma getUserAttrValue_Inr:
  "getUserAttrValue uid name d = (Inr v, d') \<longleftrightarrow>
     (\<exists>u a. GetUser uid d = (Inr u, d') \<and> GetAttribute u name = Inr a \<and> v = attr_Value a)"
  by (auto simp: getUserAttrValue_def bindE_Inr mapErrE_Inr) (metis+)?

lemma attributeIsTrue_Inr:
  "attributeIsTrue uid name d = (Inr (), d') \<longleftrightarrow> db_set d \<and> \<not> faulty d \<and> d' = pop d \<and> attr_true d uid name"
proof -
  have nil: "strconv_ParseBool [] = None" by (simp add: strconv_ParseBool_def)
  have user: "userHasAttribute uid name d = (Inr v, t) \<longleftrightarrow> getUserAttrValue uid name d = (Inr v, t) \<and> v \<noteq> []" for v t
    by (auto simp: userHasAttribute_def bindE_Inr split: if_splits)
  have "attributeIsTrue uid name d = (Inr (), d') \<longleftrightarrow>
      (\<exists>v. getUserAttrValue uid name d = (Inr v, d') \<and> strconv_ParseBool v = Some True)"
    unfolding attributeIsTrue_def bindE_Inr user case_option_run using nil
    by (auto split: if_splits)
  then show ?thesis by (auto simp: getUserAttrValue_Inr GetUser_Inr attr_true_def)
qed

text \<open>What a signing request must satisfy before it is signed for \<open>uid\<close>.\<close>

definition csr_accepted :: "ca_keys \<Rightarrow> sqldb \<Rightarrow> string \<Rightarrow> SignRequest \<Rightarrow> bool" where
  "csr_accepted k d uid req \<longleftrightarrow>
     (\<exists>kind bytes csr. k_pemDecode k (sr_Request req) = Some (kind, bytes) \<and>
        kind \<in> {''NEW CERTIFICATE REQUEST'', ''CERTIFICATE REQUEST''} \<and> k_parseCSR k bytes = Some csr \<and>
        csr_CommonName csr = uid \<and> (\<forall>sub. sr_Subject req = Some sub \<longrightarrow> sub_CN sub = uid) \<and>
        (wants_ca k csr (sr_Profile req) \<longrightarrow> attr_true d uid IntermediateCA) \<and> names_bounded csr)"

lemma caGate_serving:
  assumes "serving s n ca c"
    and "(if b then dbE (attributeIsTrue uid name) else returnE ()) s = (Inr (), t)"
  shows "(b \<longrightarrow> attr_true (ca_db ca) uid name) \<and> (\<exists>d. d \<in> {ca_db ca, pop (ca_db ca)} \<and> t = with_db s n ca d)"
  using assms by (cases b) (auto simp: dbE_serving [OF assms(1)] attributeIsTrue_Inr)

lemma processSignRequest_serving:
  assumes run: "processSignRequest E k uid req s = (Inr sreq, t)" and sv: "serving s n ca c"
  shows "csr_accepted k (ca_db ca) uid req \<and> sreq = setRequestOUs req c \<and>
    (\<exists>d. d \<in> {ca_db ca, pop (ca_db ca)} \<and> t = with_db s n ca d)"
proof -
  obtain kind bytes where pem: "k_pemDecode k (sr_Request req) = Some (kind, bytes)"
    using run by (cases "k_pemDecode k (sr_Request req)") (auto simp: processSignRequest_def)
  obtain csr where csr: "k_parseCSR k bytes = Some csr"
    using run pem by (cases "k_parseCSR k bytes") (auto simp: processSignRequest_def seqE_Inr)
  obtain b u v where kind: "kind = ''NEW CERTIFICATE REQUEST'' \<or> kind = ''CERTIFICATE REQUEST''"
    and cn: "case sr_Subject req of Some s \<Rightarrow> sub_CN s = uid | None \<Rightarrow> True" "csr_CommonName csr = uid"
    and b: "isRequestForCASigningCert csr k (sr_Profile req) = Inr b"
    and gate: "(if b then dbE (attributeIsTrue uid IntermediateCA) else returnE ()) s = (Inr (), u)"
    and len: "csrInputLengthCheck csr = Inr ()"
    and caller: "GetCaller E u = (Inr v, t)" "sreq = setRequestOUs req v"
    using run pem csr unfolding processSignRequest_def
    by (simp add: seqE_Inr bindE_Inr unlessE_Inr liftE_Inr del: unlessE_eq liftE_eq) blast
  note g = caGate_serving [OF sv gate]
  then obtain d where d: "d \<in> {ca_db ca, pop (ca_db ca)}" "u = with_db s n ca d" by blast
  have "v = c" "t = u" using caller(1) sv d(2) by (auto simp: serving_def with_db_def)
  moreover have "csr_accepted k (ca_db ca) uid req"
    unfolding csr_accepted_def
    using pem csr kind cn g isRequestForCASigningCert_Inr [OF b] len
    by (auto simp: csrInputLengthCheck_Inr split: option.splits)
  ultimately show ?thesis using d caller(2) by blast
qed

text \<open>What signing leaves behind: the row of the new certificate.\<close>

definition stored :: "env \<Rightarrow> CA \<Rightarrow> CertRecord \<Rightarrow> sqldb \<Rightarrow> bool" where
  "stored E ca row d \<longleftrightarrow>
     (\<exists>x. e_parse E (cr_PEM row) = Some x \<and>
        db_certificates d = db_certificates (ca_db ca) @
          [newCertRecord (lv_Certificate (ca_levels ca)) (x_CommonName x) row])"

lemma signE_serving:
  assumes run: "signE E k req s = (Inr cert, t)" and sv: "serving s n ca c"
  shows "\<exists>row d. k_sign k req = Inr (cert, row) \<and> t = with_db s n ca d \<and> stored E ca row d \<and>
     db_set d = db_set (ca_db ca) \<and> db_users d = db_users (ca_db ca)"
proof -
  obtain row where sign: "k_sign k req = Inr (cert, row)"
    and ins: "dbE (InsertCertificate (e_parse E) (lv_Certificate (ca_levels ca)) row) s = (Inr (), t)"
    using run sv unfolding signE_def
    by (auto simp: bindE_Inr seqE_Inr mapErrE_Inr liftE_Inr caE_serving [OF sv] simp del: liftE_eq)
  then show ?thesis
    by (auto simp: dbE_serving [OF sv] InsertCertificate_Inr stored_def)
qed

text \<open>The attributes put into a certificate are attributes of the identity.\<close>

lemma set_AList_update: "set (AList.update k v m) \<subseteq> insert (k, v) (set m)"
  by (induction m) auto

lemma processAttributeRequests_loop_sound:
  assumes "processAttributeRequests_loop reqs attrs m missing = (m', missing')"
    and "\<forall>(k, v) \<in> set m. \<exists>a \<in> set attrs. attr_Name a = k \<and> attr_Value a = v"
  shows "\<forall>(k, v) \<in> set m'. \<exists>a \<in> set attrs. attr_Name a = k \<and> attr_Value a = v"
  using assms
proof (induction reqs attrs m missing rule: processAttributeRequests_loop.induct)
  case (2 req reqs attrs m missing)
  show ?case
  proof (cases "getAttrByName (areq_Name req) attrs")
    case None
    then show ?thesis using 2 by simp
  next
    case (Some a)
    then have a: "a \<in> set attrs" "attr_Name a = areq_Name req"
      by (auto simp: getAttrByName_def find_Some_iff)
    then have "\<forall>(k, v) \<in> set (AList.update (areq_Name req) (attr_Value a) m).
        \<exists>a \<in> set attrs. attr_Name a = k \<and> attr_Value a = v"
      using "2.prems"(2) set_AList_update [of "areq_Name req" "attr_Value a" m] by auto
    then show ?thesis using "2.IH"(2) [OF Some] "2.prems"(1) Some by simp
  qed
qed simp

definition extension_ok :: "sqldb \<Rightarrow> string \<Rightarrow> (string \<times> (string \<times> string) list) list \<Rightarrow> bool" where
  "extension_ok d uid exts \<longleftrightarrow>
     (\<exists>r rs. filter (is_user uid) (db_users d) = r # rs \<and>
        (\<forall>(oid, attrs) \<in> set exts. oid = AttrOID \<and>
           (\<forall>(k, v) \<in> set attrs. \<exists>a \<in> set (ur_Attributes r). attr_Name a = k \<and> attr_Value a = v)))"

lemma du_attrs_from: "snd ` set (du_attrs (newDBUser r)) \<subseteq> set (ur_Attributes r)"
proof -
  have "snd ` set (fold (\<lambda>a m. AList.update (attr_Name a) a m) as m) \<subseteq> snd ` set m \<union> set as" for as m
  proof (induction as arbitrary: m)
    case (Cons a as)
    have "snd ` set (AList.update (attr_Name a) a m) \<subseteq> insert a (snd ` set m)"
      using set_AList_update [of "attr_Name a" a m] by force
    with Cons [of "AList.update (attr_Name a) a m"] show ?case by auto
  qed simp
  from this [of "ur_Attributes r" "[]"] show ?thesis by (simp add: newDBUser_def)
qed

lemma ProcessAttributeRequests_sound:
  assumes "ProcessAttributeRequests reqs attrs = Inr m" and "(k, v) \<in> set m"
  shows "\<exists>a \<in> set attrs. attr_Name a = k \<and> attr_Value a = v"
proof -
  obtain missing where "processAttributeRequests_loop reqs attrs [] [] = (m, missing)"
    using assms(1) by (auto simp: ProcessAttributeRequests_def split: prod.splits if_splits)
  from processAttributeRequests_loop_sound [OF this] assms(2) show ?thesis by auto
qed

definition attr_extension :: "(string \<times> string) list option \<Rightarrow> (string \<times> (string \<times> string) list) list" where
  "attr_extension ext = (case ext of None \<Rightarrow> [] | Some attrs \<Rightarrow> [(AttrOID, attrs)])"

lemma GetAttrExtension_serving:
  assumes run: "GetAttrExtension E reqs s = (Inr ext, t)" and sv: "serving s n ca c"
    and ready: "db_ready (ca_db ca)"
  shows "extension_ok (ca_db ca) (ctx_enrollmentID (st_ctx s)) (attr_extension ext) \<and>
    t = with_db s n ca (pop (ca_db ca))"
proof -
  let ?uid = "ctx_enrollmentID (st_ctx s)"
  have ca: "GetCA E s = (Inr (), s)" using sv ready by (simp add: serving_def GetCA_ready)
  obtain u s1 where user: "dbE (GetUser ?uid) s = (Inr u, s1)"
    and rest: "(case (case reqs of None \<Rightarrow> getDefaultAttrReqs (map snd (du_attrs u)) | Some r \<Rightarrow> Some r) of
           None \<Rightarrow> returnE None
         | Some r \<Rightarrow> bindE (liftE (ProcessAttributeRequests r (map snd (du_attrs u)))) (\<lambda>attrs. returnE (Some attrs))) s1
      = (Inr ext, t)"
    using run ca unfolding GetAttrExtension_def Let_def
    by (simp add: seqE_Inr bindE_Inr [of "ctxE _"] bindE_Inr [of "dbE _"]) blast
  obtain r rs where r: "filter (is_user ?uid) (db_users (ca_db ca)) = r # rs" "u = newDBUser r"
    and s1: "s1 = with_db s n ca (pop (ca_db ca))"
    using user by (auto simp: dbE_serving [OF sv] GetUser_Inr)
  have "t = s1 \<and> (ext = None \<or> (\<exists>q m. ext = Some m \<and> ProcessAttributeRequests q (map snd (du_attrs u)) = Inr m))"
    using rest by (auto simp: case_option_run bindE_Inr liftE_Inr simp del: liftE_eq)
  moreover have "\<exists>a \<in> set (ur_Attributes r). attr_Name a = k \<and> attr_Value a = v"
    if "ProcessAttributeRequests q (map snd (du_attrs u)) = Inr m" "(k, v) \<in> set m" for q m k v
    using ProcessAttributeRequests_sound [OF that] du_attrs_from [of r] r(2) by (metis in_mono list.set_map)
  ultimately show ?thesis using r(1) s1 by (auto simp: extension_ok_def attr_extension_def)
qed

text \<open>The request that is handed to the signer.\<close>

definition signed_request ::
  "int \<Rightarrow> ca_keys \<Rightarrow> int \<Rightarrow> DBUser \<Rightarrow> SignRequest \<Rightarrow> (string \<times> (string \<times> string) list) list \<Rightarrow> SignRequest" where
  "signed_request now k caexpiry c req exts =
     (let sreq = setRequestOUs (req\<lparr>sr_NotAfter := boundExpiry caexpiry (requestExpiry now k req)\<rparr>) c
      in sreq\<lparr>sr_Extensions := sr_Extensions sreq @ exts\<rparr>)"

lemma csr_accepted_NotAfter [simp]: "csr_accepted k d uid (req\<lparr>sr_NotAfter := t\<rparr>) = csr_accepted k d uid req"
  by (simp add: csr_accepted_def)

lemma attr_extension_append:
  "(case ext of None \<Rightarrow> r | Some attrs \<Rightarrow> r\<lparr>sr_Extensions := sr_Extensions r @ [(AttrOID, attrs)]\<rparr>) =
     r\<lparr>sr_Extensions := sr_Extensions r @ attr_extension ext\<rparr>"
  by (cases ext) (simp_all add: attr_extension_def)

lemma handleEnroll_steps:
  assumes run: "handleEnroll E K uid s = (Inr resp, t)" and sv: "serving s n ca c"
    and ready: "db_ready (ca_db ca)" and ctx: "ctx_ok (st_ctx s)"
  obtains body req caexpiry s1 sreq s2 ext s3 cert info where
    "req_Body (ctx_req (st_ctx s)) = Some body" "dec_Enrollment (e_decoders E) body = Some req"
    "s1 = s\<lparr>st_ctx := (st_ctx s)\<lparr>ctx_body := Some (Some body)\<rparr>\<rparr>" "serving s1 n ca c"
    "k_caCertExpiry (K n) = Some caexpiry"
    "processSignRequest E (K n) uid ((SignRequest.truncate req)\<lparr>sr_NotAfter :=
        boundExpiry caexpiry (requestExpiry (e_now E) (K n) (SignRequest.truncate req))\<rparr>) s1 = (Inr sreq, s2)"
    "GetAttrExtension E (er_AttrReqs req) s2 = (Inr ext, s3)"
    "signE E (K n) (sreq\<lparr>sr_Extensions := sr_Extensions sreq @ attr_extension ext\<rparr>) s3 = (Inr cert, t)"
    "resp = RespEnrollment (B64Encode cert) info" "fillCAInfo (K n) = Inr info"
proof -
  obtain req s1 where rb: "ReadBody (dec_Enrollment (e_decoders E)) s = (Inr req, s1)"
    using run unfolding handleEnroll_def bindE_Inr [of "ReadBody _"] by blast
  obtain body where body: "req_Body (ctx_req (st_ctx s)) = Some body" "dec_Enrollment (e_decoders E) body = Some req"
    and s1: "s1 = s\<lparr>st_ctx := (st_ctx s)\<lparr>ctx_body := Some (Some body)\<rparr>\<rparr>"
    using ReadBody_Inr [OF rb ctx] by blast
  have sv1: "serving s1 n ca c" using sv by (simp add: s1 serving_def)
  have ca: "GetCA E s1 = (Inr (), s1)" using sv1 ready by (simp add: serving_def GetCA_ready)
  have n: "(case ctx_ca (st_ctx s1) of Some n \<Rightarrow> n | None \<Rightarrow> []) = n" using sv1 by (simp add: serving_def)
  obtain caexpiry where x: "k_caCertExpiry (K n) = Some caexpiry"
    using run rb ca n unfolding handleEnroll_def
    by (cases "k_caCertExpiry (K n)") (auto simp: bindE_Inr seqE_Inr)
  show thesis
    using that [OF body s1 sv1 x] run rb ca n x unfolding handleEnroll_def Let_def attr_extension_append
    by (simp add: bindE_Inr seqE_Inr liftE_Inr del: liftE_eq) blast
qed

lemma handleEnroll_serving:
  assumes run: "handleEnroll E K uid s = (Inr resp, t)" and sv: "serving s n ca c"
    and ready: "db_ready (ca_db ca)" and ctx: "ctx_ok (st_ctx s)"
  shows "\<exists>body req caexpiry exts cert info row d.
     req_Body (ctx_req (st_ctx s)) = Some body \<and> dec_Enrollment (e_decoders E) body = Some req \<and>
     k_caCertExpiry (K n) = Some caexpiry \<and>
     csr_accepted (K n) (ca_db ca) uid (SignRequest.truncate req) \<and>
     extension_ok (ca_db ca) (ctx_enrollmentID (st_ctx s)) exts \<and>
     k_sign (K n) (signed_request (e_now E) (K n) caexpiry c (SignRequest.truncate req) exts) = Inr (cert, row) \<and>
     resp = RespEnrollment (B64Encode cert) info \<and> fillCAInfo (K n) = Inr info \<and> stored E ca row d \<and> db_set d \<and> db_users d = db_users (ca_db ca) \<and>
     t = (with_db s n ca d)\<lparr>st_ctx := (st_ctx s)\<lparr>ctx_body := Some (Some body)\<rparr>\<rparr>"
  using run sv ready ctx
proof (rule handleEnroll_steps)
  fix body req caexpiry s1 sreq s2 ext s3 cert info
  assume body: "req_Body (ctx_req (st_ctx s)) = Some body" "dec_Enrollment (e_decoders E) body = Some req"
    and s1: "s1 = s\<lparr>st_ctx := (st_ctx s)\<lparr>ctx_body := Some (Some body)\<rparr>\<rparr>" and sv1: "serving s1 n ca c"
    and x: "k_caCertExpiry (K n) = Some caexpiry"
    and sr: "processSignRequest E (K n) uid ((SignRequest.truncate req)\<lparr>sr_NotAfter :=
        boundExpiry caexpiry (requestExpiry (e_now E) (K n) (SignRequest.truncate req))\<rparr>) s1 = (Inr sreq, s2)"
    and ext: "GetAttrExtension E (er_AttrReqs req) s2 = (Inr ext, s3)"
    and sign: "signE E (K n) (sreq\<lparr>sr_Extensions := sr_Extensions sreq @ attr_extension ext\<rparr>) s3 = (Inr cert, t)"
    and resp: "resp = RespEnrollment (B64Encode cert) info" "fillCAInfo (K n) = Inr info"
  let ?req = "SignRequest.truncate req"
  obtain d where acc: "csr_accepted (K n) (ca_db ca) uid ?req"
    and sreq: "sreq = setRequestOUs (?req\<lparr>sr_NotAfter := boundExpiry caexpiry (requestExpiry (e_now E) (K n) ?req)\<rparr>) c"
    and d: "d \<in> {ca_db ca, pop (ca_db ca)}" and s2: "s2 = with_db s1 n ca d"
    using processSignRequest_serving [OF sr sv1] by auto
  let ?ca2 = "ca\<lparr>ca_db := d\<rparr>"
  have sv2: "serving s2 n ?ca2 c" and ready2: "db_ready (ca_db ?ca2)"
    using sv1 s2 d ready by (auto simp: db_ready_def)
  note e = GetAttrExtension_serving [OF ext sv2 ready2]
  let ?ca3 = "?ca2\<lparr>ca_db := pop d\<rparr>"
  have sv3: "serving s3 n ?ca3 c" using e serving_with_db [OF sv2, of "pop d"] by simp
  obtain row d' where row: "k_sign (K n) (sreq\<lparr>sr_Extensions := sr_Extensions sreq @ attr_extension ext\<rparr>) = Inr (cert, row)"
    and t: "t = with_db s3 n ?ca3 d'" "stored E ?ca3 row d'" "db_set d'" "db_users d' = db_users d"
    using signE_serving [OF sign sv3] ready2 by (auto simp: db_ready_def)
  have t': "t = (with_db s n ca d')\<lparr>st_ctx := (st_ctx s)\<lparr>ctx_body := Some (Some body)\<rparr>\<rparr>"
    using t(1) e s2 s1 by (simp add: with_db_def)
  have st: "stored E ca row d'" "db_users d' = db_users (ca_db ca)" using t(2,4) d by (auto simp: stored_def)
  have ext': "extension_ok (ca_db ca) (ctx_enrollmentID (st_ctx s)) (attr_extension ext)"
    using e d s1 s2 by (auto simp: extension_ok_def)
  show ?thesis
    using body x acc ext' row resp st t' t(3) unfolding sreq signed_request_def Let_def by blast
qed

section \<open>Enrollment by password\<close>

text \<open>The identity may log in: the password fits, the identity is not revoked and has enrollments
  left.\<close>

definition may_login :: "bcrypt \<Rightarrow> UserRecord \<Rightarrow> string \<Rightarrow> int \<Rightarrow> bool" where
  "may_login B r pass caMax \<longleftrightarrow>
     CompareHashAndPassword B (ur_Pass r) pass \<and> ur_State r \<noteq> -1 \<and> ur_MaxEnrollments r \<noteq> 0 \<and>
     (let limit = effective_max (ur_MaxEnrollments r) caMax in limit \<noteq> -1 \<longrightarrow> ur_State r < limit)"

lemma Login_newDBUser:
  "Login B (newDBUser r) pass caMax = Inr u \<longleftrightarrow>
     may_login B r pass caMax \<and> u = (newDBUser r)\<lparr>ui_MaxEnrollments := effective_max (ur_MaxEnrollments r) caMax\<rparr>"
  by (auto simp: Login_Inr may_login_def Let_def)

lemma BasicAuthentication_Inr:
  assumes run: "BasicAuthentication E s = (Inr uid, t)" and ready: "all_dbs db_ready s"
    and ctx: "ctx_ok (st_ctx s)" "ctx_caller (st_ctx s) = None"
  shows "\<exists>pass n ca r rs c. BasicAuth (req_Authorization (ctx_req (st_ctx s))) = Some (uid, pass) \<and>
     st_cas s n = Some ca \<and> cfg_MaxEnrollments (ca_Config ca) \<noteq> 0 \<and>
     filter (is_user uid) (db_users (ca_db ca)) = r # rs \<and>
     may_login (e_bcrypt E) r pass (cfg_MaxEnrollments (ca_Config ca)) \<and>
     serving t n (ca\<lparr>ca_db := pop (pop (ca_db ca))\<rparr>) c \<and> c \<in> newDBUser ` set (filter (is_user uid) (db_users (ca_db ca))) \<and>
     ctx_ui (st_ctx t) = Some ((newDBUser r)\<lparr>ui_MaxEnrollments :=
        effective_max (ur_MaxEnrollments r) (cfg_MaxEnrollments (ca_Config ca))\<rparr>) \<and>
     ctx_enrollmentID (st_ctx t) = uid \<and> ctx_ok (st_ctx t) \<and> ctx_req (st_ctx t) = ctx_req (st_ctx s)"
proof -
  obtain name pass where ba: "BasicAuth (req_Authorization (ctx_req (st_ctx s))) = Some (name, pass)"
    using run by (cases "BasicAuth (req_Authorization (ctx_req (st_ctx s)))")
      (auto simp: BasicAuthentication_def bindE_Inr seqE_Inr split: if_splits)
  obtain s1 where get: "GetCA E s = (Inr (), s1)"
    using run ba unfolding BasicAuthentication_def
    by (simp add: bindE_Inr [of "getE _"] seqE_Inr [of "unlessE _ _"] seqE_Inr [of "GetCA _"] unlessE_Inr del: unlessE_eq) blast
  note g = GetCA_effect [OF get ready]
  then have core: "core s1 = core s" "ctx_ok (st_ctx s1)" using ctx by (auto simp: same_core_def)
  obtain n ca where n: "ctx_ca (st_ctx s1) = Some n" "st_cas s1 n = Some ca" using g(2) by auto
  let ?max = "cfg_MaxEnrollments (ca_Config ca)"
  have rc: "db_ready (ca_db ca)" using ready n(2) core_fields(1) [OF core(1)] by (auto simp: all_dbs_def)
  obtain r rs u s3 where max: "?max \<noteq> 0" and r: "filter (is_user name) (db_users (ca_db ca)) = r # rs"
    and login: "Login (e_bcrypt E) (newDBUser r) pass ?max = Inr u"
    and caller: "GetCaller E (s1\<lparr>st_cas := (st_cas s1)(n \<mapsto> ca\<lparr>ca_db := pop (ca_db ca)\<rparr>),
        st_ctx := (st_ctx s1)\<lparr>ctx_ui := Some u, ctx_enrollmentID := name\<rparr>\<rparr>) = (Inr s3, t)" and uid: "uid = name"
    using run ba get n unfolding BasicAuthentication_def
    by (auto simp: bindE_Inr seqE_Inr mapErrE_Inr caE_Inr dbE_Inr GetUser_Inr case_sum_run split: if_splits)
  let ?ca = "ca\<lparr>ca_db := pop (ca_db ca)\<rparr>"
  let ?t = "s1\<lparr>st_cas := (st_cas s1)(n \<mapsto> ?ca), st_ctx := (st_ctx s1)\<lparr>ctx_ui := Some u, ctx_enrollmentID := name\<rparr>\<rparr>"
  have t: "ctx_caller (st_ctx ?t) = None" "ctx_ca (st_ctx ?t) = Some n" "st_cas ?t n = Some ?ca" "db_ready (ca_db ?ca)"
    using n core_fields(6) [OF core(1)] ctx(2) rc by (simp_all add: db_ready_def)
  note c = GetCaller_fresh [OF caller t]
  have "ctx_ok (st_ctx t)" "serving t n (ca\<lparr>ca_db := pop (pop (ca_db ca))\<rparr>) s3" "ctx_ui (st_ctx t) = Some u"
    "ctx_enrollmentID (st_ctx t) = uid" "ctx_req (st_ctx t) = ctx_req (st_ctx s)"
    using c(2) core core_fields(5) [OF core(1)] n uid by (simp_all add: ctx_ok_def serving_def)
  moreover have "s3 \<in> newDBUser ` set (filter (is_user uid) (db_users (ca_db ca)))" using c(1) uid by auto
  moreover have "st_cas s n = Some ca" using n(2) core_fields(1) [OF core(1)] by simp
  ultimately show ?thesis
    using ba max r uid login unfolding Login_newDBUser by blast
qed

lemma LoginComplete_Inr:
  "LoginComplete u d = (Inr (), d') \<longleftrightarrow>
     (let P = (\<lambda>r. ur_Name r = ui_Name u \<and> (ui_MaxEnrollments u \<noteq> -1 \<longrightarrow> ur_State r < ui_MaxEnrollments u))
      in \<not> faulty d \<and> length (filter P (db_users d)) = 1 \<and>
         d' = db_users_update (map (\<lambda>r. if P r then r\<lparr>ur_State := ur_State r + 1\<rparr> else r)) (pop d))"
  by (auto simp: LoginComplete_def bindE_Inr mapErrE_Inr sql_update_Inr Let_def)

text \<open>The rows that a completed enrollment leaves behind.\<close>

definition counted :: "string \<Rightarrow> int \<Rightarrow> UserRecord list \<Rightarrow> UserRecord list" where
  "counted uid limit rows =
     map (\<lambda>r. if ur_Name r = uid \<and> (limit \<noteq> -1 \<longrightarrow> ur_State r < limit) then r\<lparr>ur_State := ur_State r + 1\<rparr> else r) rows"

text \<open>C3: enrollment.  When it succeeds, the request carried the name and the password of a
  registered identity that is not revoked and has enrollments left, by its own limit and the
  CA's; the signing request names that identity and asks for a CA's certificate only if the
  identity has \<open>hf.IntermediateCA\<close>; what was signed carries attributes of that identity only
  besides the extensions of the request; the certificate is in the database and the
  enrollment has been counted.\<close>

theorem enrollHandler_sound:
  assumes run: "enrollHandler E K s = (Inr resp, t)" and ready: "all_dbs db_ready s"
    and ctx: "ctx_ok (st_ctx s)" "ctx_caller (st_ctx s) = None"
  shows "\<exists>uid pass n ca r c body req caexpiry exts cert info row d.
     BasicAuth (req_Authorization (ctx_req (st_ctx s))) = Some (uid, pass) \<and> st_cas s n = Some ca \<and>
     r \<in> set (db_users (ca_db ca)) \<and> ur_Name r = uid \<and> ui_Name c = uid \<and>
     may_login (e_bcrypt E) r pass (cfg_MaxEnrollments (ca_Config ca)) \<and>
     req_Body (ctx_req (st_ctx s)) = Some body \<and> dec_Enrollment (e_decoders E) body = Some req \<and>
     csr_accepted (K n) (ca_db ca) uid (SignRequest.truncate req) \<and> extension_ok (ca_db ca) uid exts \<and>
     k_sign (K n) (signed_request (e_now E) (K n) caexpiry c (SignRequest.truncate req) exts) = Inr (cert, row) \<and>
     resp = Some (RespEnrollment (B64Encode cert) info) \<and> fillCAInfo (K n) = Inr info \<and>
     st_cas t n = Some (ca\<lparr>ca_db := d\<rparr>) \<and> stored E ca row d \<and>
     db_users d = counted uid (effective_max (ur_MaxEnrollments r) (cfg_MaxEnrollments (ca_Config ca))) (db_users (ca_db ca))"
proof -
  obtain uid s1 rsp s2 u where auth: "BasicAuthentication E s = (Inr uid, s1)"
    and enroll: "handleEnroll E K uid s1 = (Inr rsp, s2)" and ui: "ctx_ui (st_ctx s2) = Some u"
    and fin: "dbE (LoginComplete u) s2 = (Inr (), t)" and resp: "resp = Some rsp"
    using run unfolding enrollHandler_def by (auto simp: bindE_Inr seqE_Inr case_option_run)
  obtain pass n ca r rs c where ba: "BasicAuth (req_Authorization (ctx_req (st_ctx s))) = Some (uid, pass)"
      "st_cas s n = Some ca" "filter (is_user uid) (db_users (ca_db ca)) = r # rs"
      "may_login (e_bcrypt E) r pass (cfg_MaxEnrollments (ca_Config ca))"
    and sv: "serving s1 n (ca\<lparr>ca_db := pop (pop (ca_db ca))\<rparr>) c"
    and c: "c \<in> newDBUser ` set (filter (is_user uid) (db_users (ca_db ca)))"
    and ui1: "ctx_ui (st_ctx s1) = Some ((newDBUser r)\<lparr>ui_MaxEnrollments :=
        effective_max (ur_MaxEnrollments r) (cfg_MaxEnrollments (ca_Config ca))\<rparr>)"
    and ctx1: "ctx_enrollmentID (st_ctx s1) = uid" "ctx_ok (st_ctx s1)" "ctx_req (st_ctx s1) = ctx_req (st_ctx s)"
    using BasicAuthentication_Inr [OF auth ready ctx] by blast
  let ?ca = "ca\<lparr>ca_db := pop (pop (ca_db ca))\<rparr>"
  have ready1: "db_ready (ca_db ?ca)" using ready ba(2) by (auto simp: all_dbs_def db_ready_def)
  obtain body req caexpiry exts cert info row d where enr:
      "req_Body (ctx_req (st_ctx s)) = Some body" "dec_Enrollment (e_decoders E) body = Some req"
      "csr_accepted (K n) (ca_db ?ca) uid (SignRequest.truncate req)" "extension_ok (ca_db ?ca) uid exts"
      "k_sign (K n) (signed_request (e_now E) (K n) caexpiry c (SignRequest.truncate req) exts) = Inr (cert, row)"
      "rsp = RespEnrollment (B64Encode cert) info" "fillCAInfo (K n) = Inr info" "stored E ?ca row d" "db_users d = db_users (ca_db ?ca)"
      and s2: "s2 = (with_db s1 n ?ca d)\<lparr>st_ctx := (st_ctx s1)\<lparr>ctx_body := Some (Some body)\<rparr>\<rparr>"
    using handleEnroll_serving [OF enroll sv ready1 ctx1(2)] ctx1 by auto
  have sv2: "serving s2 n (?ca\<lparr>ca_db := d\<rparr>) c" using sv by (simp add: s2 serving_def with_db_def)
  have u: "u = (newDBUser r)\<lparr>ui_MaxEnrollments := effective_max (ur_MaxEnrollments r) (cfg_MaxEnrollments (ca_Config ca))\<rparr>"
    using ui ui1 s2 by simp
  have r: "r \<in> set (db_users (ca_db ca))" "ur_Name r = uid" using filter_ConsD [OF ba(3)] by auto
  obtain d' where d': "LoginComplete u d = (Inr (), d')" "t = with_db s2 n (?ca\<lparr>ca_db := d\<rparr>) d'"
    using fin by (auto simp: dbE_serving [OF sv2])
  have st: "st_cas t n = Some (ca\<lparr>ca_db := d'\<rparr>)" using d'(2) by simp
  have users: "db_users d' = counted uid (effective_max (ur_MaxEnrollments r) (cfg_MaxEnrollments (ca_Config ca))) (db_users (ca_db ca))"
    and certs: "stored E ca row d'"
    using d'(1) u r enr(8,9) by (auto simp: LoginComplete_Inr Let_def counted_def stored_def)
  have acc: "csr_accepted (K n) (ca_db ca) uid (SignRequest.truncate req)" "extension_ok (ca_db ca) uid exts"
    using enr(3,4) by (auto simp: csr_accepted_def attr_true_def extension_ok_def)
  have "ui_Name c = uid" using c by auto
  then show ?thesis using ba(1,2,4) r enr(1,2,5,6,7) acc st users certs resp by blast
qed


section \<open>An enrollment\<close>

definition example_keys :: ca_keys where
  "example_keys =
     \<lparr>k_Name = ''ca'', k_Default = \<lparr>sp_Expiry = 600, sp_IsCA = False\<rparr>, k_Profiles = [(''ca'', \<lparr>sp_Expiry = 600, sp_IsCA = True\<rparr>)],
      k_pemDecode = \<lambda>p. Some (''CERTIFICATE REQUEST'', p),
      k_parseCSR = \<lambda>b. Some \<lparr>csr_CommonName = b, csr_Names = [(commonNameOID, Some b)], csr_Extensions = []\<rparr>,
      k_basicConstraints = \<lambda>_. None, k_caCertExpiry = Some 500,
      k_sign = \<lambda>r. Inr (''pem'', \<lparr>cr_ID = [], cr_Level = 0, cr_Serial = ''77'', cr_AKI = ''0abc'', cr_CALabel = [],
         cr_Status = ''good'', cr_Reason = 0, cr_Expiry = sr_NotAfter r, cr_RevokedAt = 0, cr_PEM = ''pem''\<rparr>),
      k_chain = Inr ''chain'', k_caCert = Inr (toy_cert\<lparr>x_KeyUsage := 96\<rparr>), k_hasSigner = True,
      k_CreateGenericCRL = \<lambda>_ _ _. Some ''crl'', k_pemEncodeCRL = \<lambda>b. b\<rparr>"

definition enroll_env :: env where
  "enroll_env = example_env\<lparr>e_decoders := no_decoders\<lparr>dec_Enrollment := \<lambda>b. Some
     \<lparr>sr_Request = b, sr_Subject = None, sr_Profile = [], sr_Label = [], sr_NotAfter = 0, sr_Extensions = [], er_AttrReqs = None\<rparr>\<rparr>\<rparr>"

definition enroll_request :: request where
  "enroll_request = \<lparr>req_Method = ''POST'', req_Authorization = ''Basic '' @ B64Encode ''alice:pw'', req_Query = [],
     req_Vars = Some [], req_Body = Some ''alice''\<rparr>"

lemma example_enroll:
  "case fst (enrollHandler enroll_env (\<lambda>_. example_keys) (example_state enroll_request)) of Inl _ \<Rightarrow> False | Inr _ \<Rightarrow> True"
  "case fst (handleEnroll enroll_env (\<lambda>_. example_keys) ''alice''
     ((example_serving enroll_request)\<lparr>st_ctx := (st_ctx (example_serving enroll_request))\<lparr>ctx_enrollmentID := ''alice''\<rparr>\<rparr>)) of
     Inl _ \<Rightarrow> False | Inr _ \<Rightarrow> True"
  by code_simp+

theorem enrollHandler_sound_witness:
  "\<exists>d. map_option ca_db (st_cas (snd (enrollHandler enroll_env (\<lambda>_. example_keys) (example_state enroll_request))) ''ca'') = Some d \<and>
     db_users d = [alice\<lparr>ur_State := 1\<rparr>, bob]"
proof -
  let ?s = "example_state enroll_request"
  obtain resp where run: "enrollHandler enroll_env (\<lambda>_. example_keys) ?s = (Inr resp, snd (enrollHandler enroll_env (\<lambda>_. example_keys) ?s))"
    by (rule run_of [where m = "enrollHandler enroll_env (\<lambda>_. example_keys)", OF example_enroll(1)])
  have auth: "BasicAuth (req_Authorization (ctx_req (st_ctx ?s))) = Some (''alice'', ''pw'')" by code_simp
  have cas: "st_cas ?s = [''ca'' \<mapsto> example_ca]" by (simp add: example_state_def example_ca_def)
  have users: "db_users (ca_db example_ca) = [alice, bob]" by (simp add: example_ca_def example_db_def)
  have max: "effective_max (ur_MaxEnrollments alice) (cfg_MaxEnrollments (ca_Config example_ca)) = -1" by code_simp
  have cnt: "counted ''alice'' (-1) [alice, bob] = [alice\<lparr>ur_State := 1\<rparr>, bob]" by code_simp
  have r: "r = alice" if "r \<in> set [alice, bob]" "ur_Name r = ''alice''" for r using that by (auto simp: bob_def)
  from enrollHandler_sound [OF run example_state_ok(1,2,3)] show ?thesis
    unfolding auth cas using r users max cnt by (fastforce split: if_splits)
qed


end
