(* ===== verification/Idemix_Handlers.thy ===== *)
theory Idemix_Handlers
  imports Enrollment
begin

text \<open>
  The Idemix endpoints: issuing a credential (\<open>lib/server/idemix/enroll.go\<close>,
  \<open>lib/serveridemixenroll.go\<close>) and the credential revocation information
  (\<open>lib/server/idemix/cri.go\<close>, \<open>lib/serveridemixcri.go\<close>).

  A credential request is its text with the nonce that it carries.  The revocation information that
  the revocation authority keeps is the field \<open>ca_currentCRI\<close> of the CA.
\<close>

section \<open>Attributes of a credential\<close>

definition strconv_FormatBool :: "bool \<Rightarrow> string" where
  "strconv_FormatBool b = (if b then ''true'' else ''false'')"

definition isAdmin :: "DBUser \<Rightarrow> bool" where
  "isAdmin caller =
     (case GetAttribute caller ''isAdmin'' of
        Inl _ \<Rightarrow> False
      | Inr attrObj \<Rightarrow> (case strconv_ParseBool (attr_Value attrObj) of None \<Rightarrow> False | Some b \<Rightarrow> b))"

fun GetAttributeValues ::
  "idemix_lib \<Rightarrow> DBUser \<Rightarrow> nat \<Rightarrow> string list \<Rightarrow> (string \<times> string) list \<Rightarrow> nat list \<Rightarrow> (string \<times> string) list \<times> nat list" where
  "GetAttributeValues L caller rh [] attrMap rc = (attrMap, rc)"
| "GetAttributeValues L caller rh (attrName # attributeNames) attrMap rc =
     (if attrName = AttrEnrollmentID then
        GetAttributeValues L caller rh attributeNames (AList.update attrName (ui_Name caller) attrMap)
          (rc @ [il_HashModOrder L (ui_Name caller)])
      else if attrName = AttrOU then
        (let ouVal = strings_Join (GetAffiliationPath caller) ''.'' in
         GetAttributeValues L caller rh attributeNames (AList.update attrName ouVal attrMap)
           (rc @ [il_HashModOrder L ouVal]))
      else if attrName = AttrRevocationHandle then
        GetAttributeValues L caller rh attributeNames
          (AList.update attrName (B64Encode (il_BigToBytes L rh)) attrMap) (rc @ [rh])
      else if attrName = AttrRole then
        GetAttributeValues L caller rh attributeNames
          (AList.update attrName (strconv_FormatBool (isAdmin caller)) attrMap) (rc @ [if isAdmin caller then 1 else 0])
      else
        (case GetAttribute caller attrName of
           Inl _ \<Rightarrow> GetAttributeValues L caller rh attributeNames attrMap rc
         | Inr attrObj \<Rightarrow>
             GetAttributeValues L caller rh attributeNames (AList.update attrName (attr_Value attrObj) attrMap)
               (rc @ [il_HashModOrder L (attr_Value attrObj)])))"

section \<open>Issuing a credential\<close>

definition IsBasicAuth :: "bool req" where
  "IsBasicAuth = ctxE (\<lambda>c. BasicAuth (req_Authorization (ctx_req c)) \<noteq> None)"

definition Authenticate :: "env \<Rightarrow> string req" where
  "Authenticate E = bindE IsBasicAuth (\<lambda>b. if b then BasicAuthentication E else TokenAuthentication E)"

text \<open>The revocation authority keeps the revocation information it made.\<close>

definition setCRI :: "int \<times> string \<Rightarrow> unit req" where
  "setCRI cri s =
     (case ctx_ca (st_ctx s) of
        None \<Rightarrow> (Inl (GoPanic ''nil pointer dereference''), s)
      | Some n \<Rightarrow>
          (case st_cas s n of
             None \<Rightarrow> (Inl (GoPanic ''nil pointer dereference''), s)
           | Some ca \<Rightarrow> (Inr (), s\<lparr>st_cas := (st_cas s)(n \<mapsto> ca\<lparr>ca_currentCRI := Some cri\<rparr>)\<rparr>)))"

definition ra_CreateCRI :: "env \<Rightarrow> string req" where
  "ra_CreateCRI E =
     bindE (caE ca_currentCRI) (\<lambda>currentCRI.
     bindE (dbE (CreateCRI (e_issuer E) currentCRI)) (\<lambda>cri.
     seqE (setCRI cri) (returnE (snd cri))))"

definition credRecord :: "issuer \<Rightarrow> DBUser \<Rightarrow> string \<Rightarrow> nat \<Rightarrow> CredRecord" where
  "credRecord I caller cred rh =
     \<lparr>cd_ID = ui_Name caller, cd_RevocationHandle = B64Encode (il_BigToBytes (is_Lib I) rh), cd_Cred = B64Encode cred,
      cd_CALabel = is_Name I, cd_Status = ''good'', cd_Reason = 0, cd_Expiry = 0, cd_RevokedAt = 0, cd_Level = 0\<rparr>"

definition issueCredential :: "env \<Rightarrow> string \<Rightarrow> string \<Rightarrow> response req" where
  "issueCredential E issuerNonce credRequest =
     (let I = e_issuer E; L = is_Lib I in
      seqE (unlessE (il_IssuerKey L) (WithCause (PlainErr ''Failed to get Idemix issuer key'')))
      (bindE (GetCaller E) (\<lambda>caller.
       seqE (mapErrE WithCause (dbE (CheckNonce I (e_now E) (il_FromBytes L issuerNonce))))
       (seqE (unlessE (il_Check L credRequest) (WithCause (PlainErr ''Invalid Idemix credential request'')))
       (bindE (dbE (GetNewRevocationHandle I)) (\<lambda>rh.
        let (attrMap, attrs) = GetAttributeValues L caller rh (il_AttributeNames L) [] [] in
        case il_NewCredential L credRequest attrs of
          None \<Rightarrow> throwE (PlainErr ''Failed to create new Idemix credential'')
        | Some cred \<Rightarrow>
            seqE (mapErrE (\<lambda>_. PlainErr ''Failed to store the Idemix credential'')
                   (dbE (InsertCredential (lv_Credential (is_Levels I)) (credRecord I caller cred rh))))
            (bindE (mapErrE (\<lambda>_. PlainErr ''Failed to generate CRI'') (ra_CreateCRI E)) (\<lambda>cri.
             bindE IsBasicAuth (\<lambda>basic.
             seqE (if basic then dbE (LoginComplete caller) else returnE ())
             (returnE (RespIdemix attrMap (B64Encode cred) (B64Encode cri) [])))))))))))"

definition HandleRequest :: "env \<Rightarrow> response req" where
  "HandleRequest E =
     (let I = e_issuer E; L = is_Lib I in
      seqE (Authenticate E)
      (bindE (ReadBody (dec_Idemix (e_decoders E))) (\<lambda>req.
       case req of
         None \<Rightarrow>
           bindE (mapErrE (\<lambda>_. PlainErr ''Failed to generate nonce'') (dbE (GetNonce I (e_now E) (e_idemixRand E)))) (\<lambda>nonce.
           returnE (RespIdemix [] [] [] (B64Encode (il_BigToBytes L nonce))))
       | Some (issuerNonce, credRequest) \<Rightarrow> issueCredential E issuerNonce credRequest)))"

definition IssueCredential :: "env \<Rightarrow> response req" where
  "IssueCredential E =
     seqE (unlessE (is_Initialized (e_issuer E)) (PlainErr ''Issuer is not initialized'')) (HandleRequest E)"

definition handleIdemixEnrollReq :: "env \<Rightarrow> (string \<Rightarrow> ca_keys) \<Rightarrow> response option req" where
  "handleIdemixEnrollReq E K =
     seqE (GetCA E)
     (bindE (IssueCredential E) (\<lambda>resp.
      bindE (keysE K) (\<lambda>k.
      bindE (liftE (fillCAInfo k)) (\<lambda>info.
      returnE (Some (RespIdemixEnrollment resp info))))))"

section \<open>Revocation information\<close>

definition CRI_HandleRequest :: "env \<Rightarrow> response req" where
  "CRI_HandleRequest E =
     seqE (TokenAuthentication E)
     (bindE (ra_CreateCRI E) (\<lambda>cri.
      returnE (RespCRI (B64Encode cri))))"

definition GetCRI :: "env \<Rightarrow> response req" where
  "GetCRI E =
     seqE (unlessE (is_Initialized (e_issuer E)) (PlainErr ''Issuer is not initialized'')) (CRI_HandleRequest E)"

definition handleIdemixCRIReq :: "env \<Rightarrow> response option req" where
  "handleIdemixCRIReq E =
     seqE (GetCA E)
     (bindE (GetCRI E) (\<lambda>resp. returnE (Some resp)))"

section \<open>Invariants of the handlers\<close>

context request_invariant
begin

lemma J_setCRI: "keeps J (setCRI cri)"
  by (rule keepsI) (auto simp: setCRI_def split: option.splits dest: J_CRI)

lemma J_ra_CreateCRI: "keeps J (ra_CreateCRI E)"
  unfolding ra_CreateCRI_def by (intro keeps_intros J_context J_setCRI)

lemma J_issueCredential: "keeps J (issueCredential E nonce cr)"
  unfolding issueCredential_def IsBasicAuth_def Let_def
  by (intro keeps_intros J_context J_ra_CreateCRI)

lemma J_idemix_handlers: "keeps J (handleIdemixEnrollReq E K)" "keeps J (handleIdemixCRIReq E)"
  unfolding handleIdemixEnrollReq_def IssueCredential_def HandleRequest_def Authenticate_def IsBasicAuth_def
    handleIdemixCRIReq_def GetCRI_def CRI_HandleRequest_def Let_def
  by (intro keeps_intros J_context J_ra_CreateCRI J_issueCredential)+

end

section \<open>What is issued\<close>

text \<open>The attributes of a credential are those of the caller.\<close>

definition credential_value :: "idemix_lib \<Rightarrow> DBUser \<Rightarrow> nat \<Rightarrow> string \<Rightarrow> string option" where
  "credential_value L c rh name =
     (if name = AttrEnrollmentID then Some (ui_Name c)
      else if name = AttrOU then Some (ui_Affiliation c)
      else if name = AttrRevocationHandle then Some (B64Encode (il_BigToBytes L rh))
      else if name = AttrRole then Some (strconv_FormatBool (isAdmin c))
      else (case GetAttribute c name of Inl _ \<Rightarrow> None | Inr a \<Rightarrow> Some (attr_Value a)))"

lemma GetAttributeValues_step:
  "GetAttributeValues L c rh (name # names) m rc =
     (case credential_value L c rh name of
        None \<Rightarrow> GetAttributeValues L c rh names m rc
      | Some v \<Rightarrow> GetAttributeValues L c rh names (AList.update name v m)
          (snd (GetAttributeValues L c rh [name] m rc)))"
  by (simp add: credential_value_def Let_def GetAffiliationPath_def split: sum.split)

lemma GetAttributeValues_map:
  "map_of (fst (GetAttributeValues L c rh names m rc)) k =
     (if k \<in> set names \<and> credential_value L c rh k \<noteq> None then credential_value L c rh k else map_of m k)"
proof (induction names arbitrary: m rc)
  case (Cons name names)
  show ?case
    unfolding GetAttributeValues_step [of L c rh name names m rc]
    by (cases "credential_value L c rh name") (auto simp: Cons AList.update_conv' simp del: GetAttributeValues.simps)
qed simp

lemma InsertCredential_Inr:
  "InsertCredential level cr d = (Inr (), d') \<longleftrightarrow>
     db_set d \<and> \<not> faulty d \<and> cd_RevocationHandle cr \<notin> cd_RevocationHandle ` set (db_credentials d) \<and>
     d' = db_credentials_update (\<lambda>rows. rows @ [cr\<lparr>cd_Level := level\<rparr>]) (pop d)"
  by (auto simp: InsertCredential_def seqE_Inr bindE_Inr mapErrE_Inr sql_insert_Inr)

lemma GetNewRevocationHandle_Inr:
  assumes "GetNewRevocationHandle I d = (Inr rh, d')"
  shows "db_credentials d' = db_credentials d \<and> rh = nat (ra_NextRevocationHandle (hd (db_rainfo d)))"
  using assms
  by (auto simp: GetNewRevocationHandle_def getNextRevocationHandle_def getNextRevocationHandleTx_def bindE_Inr
      seqE_Inr mapErrE_Inr idemix_doTransaction_Inr sql_select_Inr UpdateNextAndLastHandle_def UpdateNextHandle_def
      sql_update_Inr Let_def split: list.splits if_splits)

lemma issueCredential_steps:
  assumes run: "issueCredential E nonce cr s = (Inr resp, t)" and sv: "serving s n ca c"
  obtains d1 rh d2 cred d3 s3 where
    "CheckNonce (e_issuer E) (e_now E) (il_FromBytes (is_Lib (e_issuer E)) nonce) (ca_db ca) = (Inr (), d1)"
    "il_Check (is_Lib (e_issuer E)) cr"
    "GetNewRevocationHandle (e_issuer E) d1 = (Inr rh, d2)"
    "il_NewCredential (is_Lib (e_issuer E)) cr
       (snd (GetAttributeValues (is_Lib (e_issuer E)) c rh (il_AttributeNames (is_Lib (e_issuer E))) [] [])) = Some cred"
    "InsertCredential (lv_Credential (is_Levels (e_issuer E))) (credRecord (e_issuer E) c cred rh) d2 = (Inr (), d3)"
    "s3 = with_db s n ca d3"
    "bindE (mapErrE (\<lambda>_. PlainErr ''Failed to generate CRI'') (ra_CreateCRI E)) (\<lambda>cri.
       bindE IsBasicAuth (\<lambda>basic.
       seqE (if basic then dbE (LoginComplete c) else returnE ())
       (returnE (RespIdemix (fst (GetAttributeValues (is_Lib (e_issuer E)) c rh (il_AttributeNames (is_Lib (e_issuer E))) [] []))
          (B64Encode cred) (B64Encode cri) [])))) s3 = (Inr resp, t)"
proof -
  let ?I = "e_issuer E" and ?L = "is_Lib (e_issuer E)"
  obtain v s0 s1 rh s2 where caller: "GetCaller E s = (Inr v, s0)"
    and nonce: "dbE (CheckNonce ?I (e_now E) (il_FromBytes ?L nonce)) s0 = (Inr (), s1)"
    and chk: "il_Check ?L cr" and h: "dbE (GetNewRevocationHandle ?I) s1 = (Inr rh, s2)"
    and rest: "(case GetAttributeValues ?L v rh (il_AttributeNames ?L) [] [] of (attrMap, attrs) \<Rightarrow>
        case il_NewCredential ?L cr attrs of
          None \<Rightarrow> throwE (PlainErr ''Failed to create new Idemix credential'')
        | Some cred \<Rightarrow>
            seqE (mapErrE (\<lambda>_. PlainErr ''Failed to store the Idemix credential'')
                   (dbE (InsertCredential (lv_Credential (is_Levels ?I)) (credRecord ?I v cred rh))))
            (bindE (mapErrE (\<lambda>_. PlainErr ''Failed to generate CRI'') (ra_CreateCRI E)) (\<lambda>cri.
             bindE IsBasicAuth (\<lambda>basic.
             seqE (if basic then dbE (LoginComplete v) else returnE ())
             (returnE (RespIdemix attrMap (B64Encode cred) (B64Encode cri) [])))))) s2 = (Inr resp, t)"
    using run unfolding issueCredential_def Let_def
    by (simp add: seqE_Inr [of "unlessE _ _"] seqE_Inr [of "mapErrE WithCause _"] bindE_Inr [of "GetCaller _"]
        bindE_Inr [of "dbE _"] unlessE_Inr mapErrE_Inr del: unlessE_eq) blast
  have v: "v = c" "s0 = s" using caller sv by auto
  obtain d1 where d1: "CheckNonce ?I (e_now E) (il_FromBytes ?L nonce) (ca_db ca) = (Inr (), d1)" "s1 = with_db s n ca d1"
    using nonce v by (auto simp: dbE_serving [OF sv])
  have sv1: "serving s1 n (ca\<lparr>ca_db := d1\<rparr>) c" using serving_with_db [OF sv] d1(2) by simp
  obtain d2 where d2: "GetNewRevocationHandle ?I d1 = (Inr rh, d2)" "s2 = with_db s n ca d2"
    using h d1(2) unfolding dbE_serving [OF sv1] by auto
  have sv2: "serving s2 n (ca\<lparr>ca_db := d2\<rparr>) c" using serving_with_db [OF sv] d2(2) by simp
  obtain attrMap attrs where av: "GetAttributeValues ?L c rh (il_AttributeNames ?L) [] [] = (attrMap, attrs)"
    by (cases "GetAttributeValues ?L c rh (il_AttributeNames ?L) [] []")
  obtain cred where cred: "il_NewCredential ?L cr attrs = Some cred"
    using rest v av by (cases "il_NewCredential ?L cr attrs") auto
  obtain d3 where "InsertCredential (lv_Credential (is_Levels ?I)) (credRecord ?I c cred rh) d2 = (Inr (), d3)"
    "bindE (mapErrE (\<lambda>_. PlainErr ''Failed to generate CRI'') (ra_CreateCRI E)) (\<lambda>cri.
       bindE IsBasicAuth (\<lambda>basic. seqE (if basic then dbE (LoginComplete c) else returnE ())
       (returnE (RespIdemix attrMap (B64Encode cred) (B64Encode cri) [])))) (with_db s n ca d3) = (Inr resp, t)"
    using rest v av cred d2(2)
    by (auto simp: seqE_Inr [of "mapErrE _ (dbE _)"] mapErrE_Inr dbE_serving [OF sv2 [unfolded d2(2)]])
  with that [OF d1(1) chk d2(1)] av cred show thesis by simp
qed

text \<open>The rest of the handler does not touch the credentials.\<close>

definition creds_are :: "string \<Rightarrow> CredRecord list \<Rightarrow> reqst \<Rightarrow> bool" where
  "creds_are n rows s \<longleftrightarrow> ctx_ca (st_ctx s) = Some n \<and> (\<exists>ca. st_cas s n = Some ca \<and> db_credentials (ca_db ca) = rows)"

lemma creds_are_dbE: "keeps (\<lambda>d. db_credentials d = rows) m \<Longrightarrow> keeps (creds_are n rows) (dbE m)"
  unfolding keeps_def creds_are_def dbE_def by (auto split: option.splits prod.splits)

lemma creds_are_rest:
  "keeps (creds_are n rows) (ra_CreateCRI E)" "keeps (creds_are n rows) (dbE (LoginComplete u))"
proof -
  have "keeps (creds_are n rows) (setCRI cri)" for cri
    by (rule keepsI) (auto simp: creds_are_def setCRI_def split: option.splits)
  moreover have "keeps (\<lambda>d. db_credentials d = rows) (CreateCRI I cri)" for I cri
    unfolding CreateCRI_def newCRI_def getRAInfoFromDB_def GetRevokedCredentials_def by (intro keeps_intros; simp)
  ultimately show "keeps (creds_are n rows) (ra_CreateCRI E)"
    unfolding ra_CreateCRI_def by (intro keeps_intros creds_are_dbE)
  have "keeps (\<lambda>d. db_credentials d = rows) (one_row k)" for k by (auto simp: keeps_def one_row_def em_defs)
  then show "keeps (creds_are n rows) (dbE (LoginComplete u))"
    unfolding LoginComplete_def by (intro creds_are_dbE keeps_bindE keeps_mapErrE keeps_if keeps_update; simp)
qed


text \<open>The pool of revocation handles is not renewed.  Once a credential has been stored under the last
  handle of the pool, no further credential is ever issued.\<close>

theorem issueCredential_pool_exhausted:
  assumes "serving s n ca c" and "db_rainfo (ca_db ca) = [r]" and "ra_NextRevocationHandle r = ra_LastHandleInPool r"
    and "B64Encode (il_BigToBytes (is_Lib (e_issuer E)) (nat (ra_LastHandleInPool r))) \<in>
       cd_RevocationHandle ` set (db_credentials (ca_db ca))"
  shows "issueCredential E nonce cr s \<noteq> (Inr resp, t)"
proof
  assume run: "issueCredential E nonce cr s = (Inr resp, t)"
  show False
    using run assms(1)
  proof (rule issueCredential_steps)
    let ?I = "e_issuer E" and ?L = "is_Lib (e_issuer E)"
    fix d1 rh d2 cred d3
    assume nonce: "CheckNonce ?I (e_now E) (il_FromBytes ?L nonce) (ca_db ca) = (Inr (), d1)"
      and h: "GetNewRevocationHandle ?I d1 = (Inr rh, d2)"
      and ins: "InsertCredential (lv_Credential (is_Levels ?I)) (credRecord ?I c cred rh) d2 = (Inr (), d3)"
    have d1: "db_credentials d1 = db_credentials (ca_db ca)" "db_rainfo d1 = [r]"
      using nonce assms(2) by (auto simp: CheckNonce_Inr Let_def)
    have "rh = nat (ra_LastHandleInPool r)" "db_credentials d2 = db_credentials d1"
      using GetNewRevocationHandle_Inr [OF h] d1(2) assms(3) by simp_all
    then show False using ins d1(1) assms(4) by (simp add: InsertCredential_Inr credRecord_def)
  qed
qed

section \<open>A credential\<close>

definition idemix_ca :: CA where
  "idemix_ca = example_ca\<lparr>ca_db := example_db\<lparr>db_nonces := [toy_nonce\<lparr>n_Val := nonceText toy_lib 5\<rparr>], db_rainfo := [toy_rainfo]\<rparr>\<rparr>"

definition idemix_state :: reqst where
  "idemix_state = (example_serving (example_request ''POST'' []))\<lparr>st_cas := [''ca'' \<mapsto> idemix_ca]\<rparr>"

lemma idemix_state_serving: "serving idemix_state ''ca'' idemix_ca (newDBUser alice)"
  using example_serving_ok(1) [of "example_request ''POST'' []"] by (simp add: idemix_state_def serving_def)

lemma example_credential:
  "case fst (issueCredential example_env ''xxxxx'' ''req'' idemix_state) of Inl _ \<Rightarrow> False | Inr _ \<Rightarrow> True"
  by code_simp


theorem issueCredential_pool_exhausted_witness:
  "\<forall>resp t. issueCredential example_env ''xxxxx'' ''req''
     (idemix_state\<lparr>st_cas := [''ca'' \<mapsto> idemix_ca\<lparr>ca_db := (ca_db idemix_ca)\<lparr>db_rainfo := [toy_rainfo\<lparr>ra_NextRevocationHandle := 2\<rparr>],
        db_credentials := [toy_cred\<lparr>cd_RevocationHandle := B64Encode ''xx''\<rparr>]\<rparr>\<rparr>]\<rparr>) \<noteq> (Inr resp, t)"
proof -
  let ?ca = "idemix_ca\<lparr>ca_db := (ca_db idemix_ca)\<lparr>db_rainfo := [toy_rainfo\<lparr>ra_NextRevocationHandle := 2\<rparr>],
        db_credentials := [toy_cred\<lparr>cd_RevocationHandle := B64Encode ''xx''\<rparr>]\<rparr>\<rparr>"
  have "serving (idemix_state\<lparr>st_cas := [''ca'' \<mapsto> ?ca]\<rparr>) ''ca'' ?ca (newDBUser alice)"
    using idemix_state_serving by (simp add: serving_def)
  moreover have "db_rainfo (ca_db ?ca) = [toy_rainfo\<lparr>ra_NextRevocationHandle := 2\<rparr>]" by simp
  moreover have "B64Encode (il_BigToBytes (is_Lib (e_issuer example_env)) (nat (ra_LastHandleInPool (toy_rainfo\<lparr>ra_NextRevocationHandle := 2\<rparr>)))) \<in>
       cd_RevocationHandle ` set (db_credentials (ca_db ?ca))"
    by (simp add: example_env_def toy_issuer_def toy_lib_def toy_rainfo_def numeral_2_eq_2)
  ultimately show ?thesis
    using issueCredential_pool_exhausted [of _ _ ?ca _ "toy_rainfo\<lparr>ra_NextRevocationHandle := 2\<rparr>"] by (simp add: toy_rainfo_def)
qed

end
