(* ===== verification/Revocation.thy ===== *)
theory Revocation
  imports Enrollment
begin

text \<open>
  Revocation and certificate revocation lists: \<open>lib/serverrevoke.go\<close> and \<open>lib/servergencrl.go\<close>.

  Building and encoding the list is the business of CFSSL and \<open>encoding/pem\<close>: \<open>k_CreateGenericCRL\<close>
  takes the revoked serial numbers with their times, the CA's certificate and the expiry, and
  \<open>k_pemEncodeCRL\<close> the result.  \<open>k_caCert\<close> is the certificate in the CA's certificate file.
\<close>

section \<open>Revocation lists\<close>

text \<open>\<open>SetString(s, 16)\<close> of \<open>math/big\<close>; a malformed number leaves the zero value.\<close>

definition serialInt :: "string \<Rightarrow> int" where
  "serialInt s =
     (let (neg, ds) = (case s of [] \<Rightarrow> (False, [])
                       | c # cs \<Rightarrow> if c = CHR ''-'' then (True, cs)
                                  else if c = CHR ''+'' then (False, cs) else (False, s))
      in (case big_SetString16 ds of None \<Rightarrow> 0 | Some v \<Rightarrow> if neg then - int v else int v))"

definition genCRL :: "env \<Rightarrow> ca_keys \<Rightarrow> GenCRLRequest \<Rightarrow> string req" where
  "genCRL E k req =
     seqE (unlessE (\<not> (gc_RevokedBefore req \<noteq> 0 \<and> gc_RevokedAfter req > gc_RevokedBefore req))
             (newHTTPErr 400 ErrInvalidRevokedAfter))
     (seqE (unlessE (\<not> (gc_ExpireBefore req \<noteq> 0 \<and> gc_ExpireAfter req > gc_ExpireBefore req))
             (newHTTPErr 400 ErrInvalidExpiredAfter))
     (bindE (mapErrE (\<lambda>_. newHTTPErr 500 ErrRevokedCertsFromDB)
              (dbE (GetRevokedCertificates (gc_ExpireAfter req) (gc_ExpireBefore req)
                      (gc_RevokedAfter req) (gc_RevokedBefore req)))) (\<lambda>certs.
      bindE (mapErrE (\<lambda>_. newHTTPErr 500 ErrGetCACert) (liftE (k_caCert k))) (\<lambda>caCert.
      seqE (unlessE (canSignCRL caCert) (newHTTPErr 500 ErrNoCrlSignAuth))
      (seqE (unlessE (k_hasSigner k) (newHTTPErr 500 ErrGetCASigner))
      (bindE (caE (\<lambda>ca. e_now E + cfg_CRL_Expiry (ca_Config ca))) (\<lambda>expiry.
       let revokedCerts = map (\<lambda>certRecord. (serialInt (cr_Serial certRecord), cr_RevokedAt certRecord)) certs in
       case k_CreateGenericCRL k revokedCerts caCert expiry of
         None \<Rightarrow> throwE (newHTTPErr 500 ErrGenCRL)
       | Some crl \<Rightarrow> returnE (k_pemEncodeCRL k crl))))))))"

definition genCRLHandler :: "env \<Rightarrow> (string \<Rightarrow> ca_keys) \<Rightarrow> response option req" where
  "genCRLHandler E K =
     bindE (ReadBody (dec_GenCRL (e_decoders E))) (\<lambda>req.
     bindE (TokenAuthentication E) (\<lambda>uid.
     seqE (GetCA E)
     (seqE (mapErrE (\<lambda>_. newAuthErr ErrNoGenCRLAuth) (dbE (attributeIsTrue uid ''hf.GenCRL'')))
     (bindE (keysE K) (\<lambda>k.
      bindE (genCRL E k req) (\<lambda>crl.
      returnE (Some (RespCRL (B64Encode crl)))))))))"

section \<open>Revocation\<close>

definition parseInput :: "string \<Rightarrow> string" where
  "parseInput input = strings_RemoveAll (strings_TrimLeft (strings_ToLower input) CHR ''0'') CHR '':''"

text \<open>The serial number and authority key of the certificate with which the caller signed.  A
  caller who authenticated with an Idemix credential has none.\<close>

definition callerKey :: "(string \<times> string) req" where
  "callerKey =
     bindE (ctxE ctx_enrollmentCert) (\<lambda>cert.
     case cert of
       None \<Rightarrow> throwE (GoPanic ''nil pointer dereference'')
     | Some c \<Rightarrow> returnE (certSerial c, certAKI c))"

definition revokeBySerial ::
  "env \<Rightarrow> string \<Rightarrow> string \<Rightarrow> string \<Rightarrow> int \<Rightarrow> (string \<times> string) list req" where
  "revokeBySerial E name serial aki reason =
     bindE callerKey (\<lambda>(callerserial, calleraki).
     bindE (mapErrE (\<lambda>_. newHTTPErr 404 ErrRevCertNotFound) (dbE (GetCertificateWithID serial aki))) (\<lambda>certificate.
     seqE (unlessE (cr_Status certificate \<noteq> ''revoked'') (newHTTPErr 404 ErrCertAlreadyRevoked))
     (seqE (unlessE (\<not> (name \<noteq> [] \<and> name \<noteq> cr_ID certificate)) (newHTTPErr 400 ErrCertWrongOwner))
     (bindE (mapErrE (\<lambda>_. newHTTPErr 404 ErrRevokeIDNotFound) (dbE (GetUser (cr_ID certificate)))) (\<lambda>userInfo.
      seqE (if \<not> (aki = calleraki \<and> serial = callerserial) then CanManageUser E userInfo else returnE ())
      (seqE (mapErrE (\<lambda>_. newHTTPErr 500 ErrRevokeFailure) (dbE (RevokeCertificate (e_now E) serial aki reason)))
      (returnE [(serial, aki)])))))))"

definition revokeByName :: "env \<Rightarrow> string \<Rightarrow> int \<Rightarrow> (string \<times> string) list req" where
  "revokeByName E name reason =
     bindE (mapErrE (\<lambda>_. newHTTPErr 404 ErrRevokeIDNotFound) (dbE (GetUser name))) (\<lambda>user.
     bindE (GetCaller E) (\<lambda>caller.
     seqE (if ui_Name caller \<noteq> ui_Name user then CanManageUser E user else returnE ())
     (seqE (mapErrE (\<lambda>_. newHTTPErr 500 ErrRevokeUpdateUser) (dbE (Revoke user)))
     (bindE (mapErrE (\<lambda>_. newHTTPErr 500 ErrNoCertsRevoked)
              (dbE (RevokeCertificatesByID (e_now E) name reason))) (\<lambda>recs.
      returnE (map cert_key recs))))))"

definition revokeRequest ::
  "env \<Rightarrow> (string \<Rightarrow> ca_keys) \<Rightarrow> string \<Rightarrow> RevocationRequest \<Rightarrow> response option req" where
  "revokeRequest E K uid req =
     seqE (mapErrE (\<lambda>_. newHTTPErr 401 ErrNotRevoker) (dbE (attributeIsTrue uid ''hf.Revoker'')))
     (let aki = parseInput (rv_AKI req);
          serial = parseInput (rv_Serial req);
          reason = RevocationReasonCodes (rv_Reason req)
      in bindE (if serial \<noteq> [] \<and> aki \<noteq> [] then revokeBySerial E (rv_Name req) serial aki reason
                else if rv_Name req \<noteq> [] then revokeByName E (rv_Name req) reason
                else throwE (newHTTPErr 400 ErrMissingRevokeArgs)) (\<lambda>revokedCerts.
         if rv_GenCRL req \<and> revokedCerts \<noteq> [] then
           bindE (keysE K) (\<lambda>k.
           bindE (genCRL E k \<lparr>gc_RevokedAfter = 0, gc_RevokedBefore = 0, gc_ExpireAfter = 0, gc_ExpireBefore = 0\<rparr>) (\<lambda>crl.
           returnE (Some (RespRevocation revokedCerts (Some (B64Encode crl))))))
         else returnE (Some (RespRevocation revokedCerts None))))"

definition revokeHandler :: "env \<Rightarrow> (string \<Rightarrow> ca_keys) \<Rightarrow> response option req" where
  "revokeHandler E K =
     bindE (ReadBody (dec_Revocation (e_decoders E))) (\<lambda>req.
     bindE (TokenAuthentication E) (\<lambda>uid.
     seqE (GetCA E) (revokeRequest E K uid req)))"

section \<open>Invariants of the handlers\<close>

context request_invariant
begin

lemma J_genCRL: "keeps J (genCRL E k r)"
  unfolding genCRL_def Let_def by (intro keeps_intros J_context)

lemma J_genCRLHandler: "keeps J (genCRLHandler E K)"
  unfolding genCRLHandler_def by (intro keeps_intros J_context J_attributeIsTrue J_genCRL)

lemma J_revokeRequest: "keeps J (revokeRequest E K uid r)"
  unfolding revokeRequest_def revokeBySerial_def revokeByName_def callerKey_def Let_def
  by (intro keeps_intros J_context J_attributeIsTrue J_genCRL)

lemma J_revokeHandler: "keeps J (revokeHandler E K)"
  unfolding revokeHandler_def by (intro keeps_intros J_context J_revokeRequest)

end

section \<open>What revocation does\<close>

lemma GetUser_serving:
  assumes "serving s n ca c"
  shows "dbE (GetUser uid) s = (Inr u, t) \<longleftrightarrow>
     (\<exists>r rs. db_set (ca_db ca) \<and> \<not> faulty (ca_db ca) \<and> filter (is_user uid) (db_users (ca_db ca)) = r # rs \<and>
        u = newDBUser r \<and> t = with_db s n ca (pop (ca_db ca)))"
  by (auto simp: dbE_serving [OF assms] GetUser_Inr)

lemma Revoke_Inr:
  "Revoke u d = (Inr (), d') \<longleftrightarrow>
     \<not> faulty d \<and> length (filter (is_user (ui_Name u)) (db_users d)) = 1 \<and>
     d' = db_users_update (map (\<lambda>r. if ur_Name r = ui_Name u then r\<lparr>ur_State := -1\<rparr> else r)) (pop d)"
  by (auto simp: Revoke_def bindE_Inr mapErrE_Inr sql_update_Inr)

lemma checkUnless_serving:
  assumes "(if b then CanManageUser E u else returnE ()) s = (Inr (), t)" and "serving s n ca c"
  shows "t = s \<and> (b \<longrightarrow> may_manage c u)"
  using assms by (auto simp: CanManageUser_cached serving_def split: if_splits)

lemma callerKey_Inr:
  "callerKey s = (Inr k, t) \<longleftrightarrow>
     t = s \<and> (\<exists>cert. ctx_enrollmentCert (st_ctx s) = Some cert \<and> k = (certSerial cert, certAKI cert))"
  by (auto simp: callerKey_def bindE_Inr case_option_run)

definition revoke_rows :: "(CertRecord \<Rightarrow> bool) \<Rightarrow> int \<Rightarrow> int \<Rightarrow> CertRecord list \<Rightarrow> CertRecord list" where
  "revoke_rows P now reason rows = map (\<lambda>x. if P x then revoke_row now reason x else x) rows"

lemma revokeBySerial_serving:
  assumes run: "revokeBySerial E name serial aki reason s = (Inr revoked, t)" and sv: "serving s n ca c"
  shows "\<exists>cert x r d. ctx_enrollmentCert (st_ctx s) = Some cert \<and> revoked = [(serial, aki)] \<and>
     filter (is_cert serial aki) (db_certificates (ca_db ca)) = [x] \<and>
     cr_Status x \<noteq> ''revoked'' \<and> (name = [] \<or> name = cr_ID x) \<and>
     r \<in> set (db_users (ca_db ca)) \<and> ur_Name r = cr_ID x \<and>
     ((serial, aki) = (certSerial cert, certAKI cert) \<or> may_manage c (newDBUser r)) \<and>
     t = with_db s n ca d \<and> db_users d = db_users (ca_db ca) \<and>
     db_certificates d = revoke_rows (is_cert serial aki) (e_now E) reason (db_certificates (ca_db ca)) \<and> db_set d"
proof -
  obtain cert x s1 u s2 s3 where key: "ctx_enrollmentCert (st_ctx s) = Some cert"
    and get: "dbE (GetCertificateWithID serial aki) s = (Inr x, s1)"
    and chk: "cr_Status x \<noteq> ''revoked''" "name = [] \<or> name = cr_ID x"
    and user: "dbE (GetUser (cr_ID x)) s1 = (Inr u, s2)"
    and auth: "(if \<not> (aki = certAKI cert \<and> serial = certSerial cert) then CanManageUser E u else returnE ()) s2 = (Inr (), s3)"
    and rev: "dbE (RevokeCertificate (e_now E) serial aki reason) s3 = (Inr (), t)" and res: "revoked = [(serial, aki)]"
    using run unfolding revokeBySerial_def
    by (simp add: bindE_Inr seqE_Inr unlessE_Inr mapErrE_Inr callerKey_Inr del: unlessE_eq) blast
  obtain cs where x: "filter (is_cert serial aki) (db_certificates (ca_db ca)) = x # cs"
    and s1: "s1 = with_db s n ca (pop (ca_db ca))"
    using get by (auto simp: dbE_serving [OF sv] GetCertificateWithID_Inr)
  let ?ca1 = "ca\<lparr>ca_db := pop (ca_db ca)\<rparr>" and ?ca2 = "ca\<lparr>ca_db := pop (pop (ca_db ca))\<rparr>"
  have sv1: "serving s1 n ?ca1 c" using sv s1 by simp
  obtain r rs where r: "filter (is_user (cr_ID x)) (db_users (ca_db ca)) = r # rs" "u = newDBUser r"
    and s2: "s2 = with_db s1 n ?ca1 (pop (pop (ca_db ca)))"
    using user by (auto simp: GetUser_serving [OF sv1])
  have sv2: "serving s2 n ?ca2 c" using serving_with_db [OF sv1, of "pop (pop (ca_db ca))"] s2 by simp
  note a = checkUnless_serving [OF auth sv2]
  obtain d where d: "RevokeCertificate (e_now E) serial aki reason (ca_db ?ca2) = (Inr (), d)" "t = with_db s2 n ?ca2 d"
    using rev a by (auto simp: dbE_serving [OF sv2])
  have t: "t = with_db s n ca d" using d(2) s2 s1 by simp
  have "cs = []" using d(1) x by (simp add: RevokeCertificate_Inr)
  moreover have "db_users d = db_users (ca_db ca)" "db_set d"
    "db_certificates d = revoke_rows (is_cert serial aki) (e_now E) reason (db_certificates (ca_db ca))"
    using d(1) by (auto simp: RevokeCertificate_Inr revoke_rows_def)
  moreover have "r \<in> set (db_users (ca_db ca))" "ur_Name r = cr_ID x" using filter_ConsD [OF r(1)] by auto
  ultimately show ?thesis using key res x chk a r(2) t by blast
qed

lemma revokeByName_serving:
  assumes run: "revokeByName E name reason s = (Inr revoked, t)" and sv: "serving s n ca c"
  shows "\<exists>r d. filter (is_user name) (db_users (ca_db ca)) = [r] \<and> ur_Name r = name \<and>
     (ui_Name c = name \<or> may_manage c (newDBUser r)) \<and> t = with_db s n ca d \<and> db_set d \<and>
     db_users d = map (\<lambda>r. if ur_Name r = name then r\<lparr>ur_State := -1\<rparr> else r) (db_users (ca_db ca)) \<and>
     revoked = map cert_key (filter (\<lambda>x. cr_ID x = name \<and> cr_Status x \<noteq> ''revoked'') (db_certificates (ca_db ca))) \<and>
     db_certificates d = revoke_rows (\<lambda>x. cr_ID x = name \<and> cr_Status x \<noteq> ''revoked'') (e_now E) reason (db_certificates (ca_db ca))"
proof -
  obtain u s1 v s2 s3 s4 recs where user: "dbE (GetUser name) s = (Inr u, s1)" and caller: "GetCaller E s1 = (Inr v, s2)"
    and auth: "(if ui_Name v \<noteq> ui_Name u then CanManageUser E u else returnE ()) s2 = (Inr (), s3)"
    and rev: "dbE (Revoke u) s3 = (Inr (), s4)"
    and certs: "dbE (RevokeCertificatesByID (e_now E) name reason) s4 = (Inr recs, t)" and res: "revoked = map cert_key recs"
    using run unfolding revokeByName_def by (simp add: bindE_Inr seqE_Inr mapErrE_Inr) blast
  obtain r rs where r: "filter (is_user name) (db_users (ca_db ca)) = r # rs" "u = newDBUser r"
    and s1: "s1 = with_db s n ca (pop (ca_db ca))"
    using user by (auto simp: GetUser_serving [OF sv])
  have name: "ur_Name r = name" using filter_ConsD [OF r(1)] by auto
  let ?ca1 = "ca\<lparr>ca_db := pop (ca_db ca)\<rparr>"
  have sv1: "serving s1 n ?ca1 c" using sv s1 by simp
  have v: "v = c" "s2 = s1" using caller sv1 by auto
  note a = checkUnless_serving [OF auth, unfolded v, OF sv1]
  obtain d where d: "Revoke u (pop (ca_db ca)) = (Inr (), d)" "s4 = with_db s1 n ?ca1 d"
    using rev a by (auto simp: dbE_serving [OF sv1])
  have sv4: "serving s4 n (ca\<lparr>ca_db := d\<rparr>) c" using serving_with_db [OF sv1, of d] d(2) by simp
  obtain d' where d': "RevokeCertificatesByID (e_now E) name reason d = (Inr recs, d')" "t = with_db s4 n (ca\<lparr>ca_db := d\<rparr>) d'"
    using certs by (auto simp: dbE_serving [OF sv4])
  have "t = with_db s n ca d'" using d'(2) d(2) s1 by simp
  moreover have "rs = []" using d(1) r name by (auto simp: Revoke_Inr)
  moreover have "db_users d' = map (\<lambda>r. if ur_Name r = name then r\<lparr>ur_State := -1\<rparr> else r) (db_users (ca_db ca))" "db_set d'"
    "revoked = map cert_key (filter (\<lambda>x. cr_ID x = name \<and> cr_Status x \<noteq> ''revoked'') (db_certificates (ca_db ca)))"
    "db_certificates d' = revoke_rows (\<lambda>x. cr_ID x = name \<and> cr_Status x \<noteq> ''revoked'') (e_now E) reason (db_certificates (ca_db ca))"
    using d(1) d'(1) res r(2) name by (auto simp: Revoke_Inr RevokeCertificatesByID_Inr revoke_rows_def)
  ultimately show ?thesis using r name a v(1) by auto
qed

text \<open>The certificates that a request for a revocation list selects.\<close>

definition crl_selects :: "GenCRLRequest \<Rightarrow> CertRecord \<Rightarrow> bool" where
  "crl_selects req x \<longleftrightarrow> cr_Status x = ''revoked'' \<and>
     cr_Expiry x > gc_ExpireAfter req \<and> (gc_ExpireBefore req \<noteq> 0 \<longrightarrow> cr_Expiry x < gc_ExpireBefore req) \<and>
     cr_RevokedAt x > gc_RevokedAfter req \<and> (gc_RevokedBefore req \<noteq> 0 \<longrightarrow> cr_RevokedAt x < gc_RevokedBefore req)"

definition crl_entry :: "CertRecord \<Rightarrow> int \<times> int" where
  "crl_entry x = (serialInt (cr_Serial x), cr_RevokedAt x)"

definition crl_of :: "env \<Rightarrow> ca_keys \<Rightarrow> CA \<Rightarrow> GenCRLRequest \<Rightarrow> CertRecord list \<Rightarrow> string \<Rightarrow> bool" where
  "crl_of E k ca req rows crl \<longleftrightarrow>
     (\<exists>caCert bytes. k_caCert k = Inr caCert \<and> canSignCRL caCert \<and> crl = k_pemEncodeCRL k bytes \<and>
        k_CreateGenericCRL k (map crl_entry (filter (crl_selects req) rows)) caCert
          (e_now E + cfg_CRL_Expiry (ca_Config ca)) = Some bytes)"

text \<open>C17: a revocation list.  When one is generated, the CA's certificate may sign lists, and the
  list that is signed has one entry for each certificate in the database that is revoked and in
  the time windows of the request, in the order of the table, and no other entry.\<close>

theorem genCRL_lists_revoked:
  assumes run: "genCRL E k req s = (Inr crl, t)" and sv: "serving s n ca c"
  shows "crl_of E k ca req (db_certificates (ca_db ca)) crl \<and> t = with_db s n ca (pop (ca_db ca))"
proof -
  let ?sel = "filter (crl_selects req) (db_certificates (ca_db ca))"
  obtain certs s1 caCert where get: "dbE (GetRevokedCertificates (gc_ExpireAfter req) (gc_ExpireBefore req)
                      (gc_RevokedAfter req) (gc_RevokedBefore req)) s = (Inr certs, s1)"
    and cert: "k_caCert k = Inr caCert" "canSignCRL caCert"
    and rest: "bindE (caE (\<lambda>ca. e_now E + cfg_CRL_Expiry (ca_Config ca))) (\<lambda>expiry.
       case k_CreateGenericCRL k (map crl_entry certs) caCert expiry of
         None \<Rightarrow> throwE (newHTTPErr 500 ErrGenCRL)
       | Some crl \<Rightarrow> returnE (k_pemEncodeCRL k crl)) s1 = (Inr crl, t)"
    using run unfolding genCRL_def Let_def crl_entry_def
    by (simp add: bindE_Inr [of "mapErrE _ _"] seqE_Inr [of "unlessE _ _"] unlessE_Inr mapErrE_Inr liftE_Inr
        del: unlessE_eq liftE_eq) blast
  have sel: "certs = ?sel" and s1: "s1 = with_db s n ca (pop (ca_db ca))"
    using get by (auto simp: dbE_serving [OF sv] GetRevokedCertificates_Inr crl_selects_def intro!: filter_cong)
  have sv1: "serving s1 n (ca\<lparr>ca_db := pop (ca_db ca)\<rparr>) c" using sv s1 by simp
  obtain bytes where "k_CreateGenericCRL k (map crl_entry ?sel) caCert (e_now E + cfg_CRL_Expiry (ca_Config ca)) = Some bytes"
    "crl = k_pemEncodeCRL k bytes" "t = s1"
    using rest sel by (auto simp: bindE_Inr caE_serving [OF sv1] case_option_run)
  then show ?thesis using cert s1 unfolding crl_of_def by blast
qed

section \<open>Revocation requests\<close>

text \<open>Who may revoke the certificate \<open>x\<close>: its owner, whoever may manage its owner, and the holder of
  its key.\<close>

definition may_revoke :: "DBUser \<Rightarrow> X509 option \<Rightarrow> sqldb \<Rightarrow> CertRecord \<Rightarrow> bool" where
  "may_revoke c cert d x \<longleftrightarrow>
     (\<exists>r \<in> set (db_users d). ur_Name r = cr_ID x \<and>
        (ui_Name c = ur_Name r \<or> may_manage c (newDBUser r) \<or>
         (\<exists>k. cert = Some k \<and> cert_key x = (certSerial k, certAKI k))))"

definition revoke_everything :: GenCRLRequest where
  "revoke_everything = \<lparr>gc_RevokedAfter = 0, gc_RevokedBefore = 0, gc_ExpireAfter = 0, gc_ExpireBefore = 0\<rparr>"

lemma revoke_rows_by_key:
  assumes "distinct (map cert_key rows)"
  shows "revoke_rows P now reason rows =
    revoke_rows (\<lambda>x. cert_key x \<in> set (map cert_key (filter P rows))) now reason rows"
proof -
  have "P x \<longleftrightarrow> cert_key x \<in> cert_key ` {y \<in> set rows. P y}" if "x \<in> set rows" for x
    using that assms by (auto simp: distinct_map inj_on_def)
  then show ?thesis by (auto simp: revoke_rows_def intro!: map_cong)
qed

text \<open>The rows that are revoked, for a request that names a certificate or an identity.\<close>

definition revoked_by :: "RevocationRequest \<Rightarrow> CertRecord \<Rightarrow> bool" where
  "revoked_by req x \<longleftrightarrow>
     (if parseInput (rv_Serial req) \<noteq> [] \<and> parseInput (rv_AKI req) \<noteq> []
      then cert_key x = (parseInput (rv_Serial req), parseInput (rv_AKI req))
      else cr_ID x = rv_Name req) \<and> cr_Status x \<noteq> ''revoked''"

definition revocation_done ::
  "int \<Rightarrow> DBUser \<Rightarrow> X509 option \<Rightarrow> RevocationRequest \<Rightarrow> sqldb \<Rightarrow> (string \<times> string) list \<Rightarrow> sqldb \<Rightarrow> bool" where
  "revocation_done now c cert req d revoked d' \<longleftrightarrow>
     revoked = map cert_key (filter (revoked_by req) (db_certificates d)) \<and>
     db_certificates d' = revoke_rows (revoked_by req) now (RevocationReasonCodes (rv_Reason req)) (db_certificates d) \<and>
     (\<forall>x \<in> set (db_certificates d). revoked_by req x \<longrightarrow> may_revoke c cert d x) \<and>
     (parseInput (rv_Serial req) = [] \<or> parseInput (rv_AKI req) = [] \<longrightarrow>
        (\<forall>r \<in> set (db_users d'). ur_Name r = rv_Name req \<longrightarrow> ur_State r = -1))"

lemma revokeBySerial_done:
  assumes run: "revokeBySerial E (rv_Name req) (parseInput (rv_Serial req)) (parseInput (rv_AKI req))
      (RevocationReasonCodes (rv_Reason req)) s = (Inr revoked, t)"
    and sv: "serving s n ca c" and ne: "parseInput (rv_Serial req) \<noteq> []" "parseInput (rv_AKI req) \<noteq> []"
  shows "\<exists>d. t = with_db s n ca d \<and> revocation_done (e_now E) c (ctx_enrollmentCert (st_ctx s)) req (ca_db ca) revoked d"
proof -
  let ?P = "is_cert (parseInput (rv_Serial req)) (parseInput (rv_AKI req))"
  from revokeBySerial_serving [OF run sv] obtain cert x r d where
    cert: "ctx_enrollmentCert (st_ctx s) = Some cert" "revoked = [(parseInput (rv_Serial req), parseInput (rv_AKI req))]"
    and x: "filter ?P (db_certificates (ca_db ca)) = [x]" "cr_Status x \<noteq> ''revoked''"
    and r: "r \<in> set (db_users (ca_db ca))" "ur_Name r = cr_ID x"
      "(parseInput (rv_Serial req), parseInput (rv_AKI req)) = (certSerial cert, certAKI cert) \<or> may_manage c (newDBUser r)"
    and t: "t = with_db s n ca d"
      "db_certificates d = revoke_rows ?P (e_now E) (RevocationReasonCodes (rv_Reason req)) (db_certificates (ca_db ca))"
    by blast
  have all: "?P y \<longleftrightarrow> y = x" if "y \<in> set (db_certificates (ca_db ca))" for y
    using arg_cong [OF x(1), of set] that by auto
  then have eq: "revoked_by req y \<longleftrightarrow> ?P y" if "y \<in> set (db_certificates (ca_db ca))" for y
    using that ne x(2) by (auto simp: revoked_by_def)
  have sel: "filter (revoked_by req) (db_certificates (ca_db ca)) = [x]"
    unfolding x(1) [symmetric] by (rule filter_cong [OF refl eq])
  have key: "cert_key x = (parseInput (rv_Serial req), parseInput (rv_AKI req))" using filter_ConsD [OF x(1)] by simp
  have "may_revoke c (ctx_enrollmentCert (st_ctx s)) (ca_db ca) x"
    using r cert(1) key by (auto simp: may_revoke_def intro!: bexI [of _ r])
  then have "\<forall>y \<in> set (db_certificates (ca_db ca)). revoked_by req y \<longrightarrow> may_revoke c (ctx_enrollmentCert (st_ctx s)) (ca_db ca) y"
    using eq all by blast
  moreover have "db_certificates d = revoke_rows (revoked_by req) (e_now E) (RevocationReasonCodes (rv_Reason req)) (db_certificates (ca_db ca))"
    using t(2) eq by (auto simp: revoke_rows_def)
  ultimately show ?thesis using t(1) cert(2) key ne sel unfolding revocation_done_def by auto
qed

lemma revokeByName_done:
  assumes run: "revokeByName E (rv_Name req) (RevocationReasonCodes (rv_Reason req)) s = (Inr revoked, t)"
    and sv: "serving s n ca c" and e: "parseInput (rv_Serial req) = [] \<or> parseInput (rv_AKI req) = []"
  shows "\<exists>d. t = with_db s n ca d \<and> revocation_done (e_now E) c (ctx_enrollmentCert (st_ctx s)) req (ca_db ca) revoked d"
proof -
  have eq: "revoked_by req = (\<lambda>x. cr_ID x = rv_Name req \<and> cr_Status x \<noteq> ''revoked'')"
    using e by (auto simp: revoked_by_def fun_eq_iff)
  from revokeByName_serving [OF run sv] obtain r d where
    r: "filter (is_user (rv_Name req)) (db_users (ca_db ca)) = [r]" "ur_Name r = rv_Name req"
      "ui_Name c = rv_Name req \<or> may_manage c (newDBUser r)" and t: "t = with_db s n ca d"
      "db_users d = map (\<lambda>r. if ur_Name r = rv_Name req then r\<lparr>ur_State := -1\<rparr> else r) (db_users (ca_db ca))"
      "revoked = map cert_key (filter (revoked_by req) (db_certificates (ca_db ca)))"
      "db_certificates d = revoke_rows (revoked_by req) (e_now E) (RevocationReasonCodes (rv_Reason req)) (db_certificates (ca_db ca))"
    unfolding eq by blast
  have "r \<in> set (db_users (ca_db ca))" using filter_ConsD [OF r(1)] by simp
  then have "may_revoke c (ctx_enrollmentCert (st_ctx s)) (ca_db ca) x" if "revoked_by req x" for x
    using that r unfolding eq may_revoke_def by auto
  moreover have "\<forall>r \<in> set (db_users d). ur_Name r = rv_Name req \<longrightarrow> ur_State r = -1" using t(2) by auto
  ultimately have "revocation_done (e_now E) c (ctx_enrollmentCert (st_ctx s)) req (ca_db ca) revoked d"
    using t(3,4) unfolding revocation_done_def by blast
  then show ?thesis using t(1) by blast
qed

lemma revokeChoice_done:
  assumes run: "(if parseInput (rv_Serial req) \<noteq> [] \<and> parseInput (rv_AKI req) \<noteq> []
      then revokeBySerial E (rv_Name req) (parseInput (rv_Serial req)) (parseInput (rv_AKI req)) (RevocationReasonCodes (rv_Reason req))
      else if rv_Name req \<noteq> [] then revokeByName E (rv_Name req) (RevocationReasonCodes (rv_Reason req))
      else throwE (newHTTPErr 400 ErrMissingRevokeArgs)) s = (Inr revoked, t)" and sv: "serving s n ca c"
  shows "\<exists>d. t = with_db s n ca d \<and> revocation_done (e_now E) c (ctx_enrollmentCert (st_ctx s)) req (ca_db ca) revoked d"
proof (cases "parseInput (rv_Serial req) \<noteq> [] \<and> parseInput (rv_AKI req) \<noteq> []")
  case True
  then show ?thesis using run by (intro revokeBySerial_done [OF _ sv]) auto
next
  case False
  then show ?thesis using run by (intro revokeByName_done [OF _ sv]) (auto split: if_splits)
qed

text \<open>C4: revocation.  When a revocation request of an authenticated caller succeeds, the caller has
  \<open>hf.Revoker\<close>; the rows named by the request that were not revoked yet, the one certificate or
  all certificates of the identity, are now revoked with the reason asked for, no other row of
  the table has changed, and the response lists them; for each of them the caller is its owner,
  holds its key or may manage its owner; an identity that was named can no longer enroll; and
  the revocation list, when one was asked for, is made from the table after the revocation.\<close>

theorem revokeRequest_revokes:
  assumes run: "revokeRequest E K uid req s = (Inr resp, t)" and sv: "serving s n ca c"
  shows "\<exists>revoked crl d. resp = Some (RespRevocation revoked crl) \<and> st_cas t n = Some (ca\<lparr>ca_db := d\<rparr>) \<and>
     attr_true (ca_db ca) uid ''hf.Revoker'' \<and>
     revocation_done (e_now E) c (ctx_enrollmentCert (st_ctx s)) req (ca_db ca) revoked d \<and>
     (rv_GenCRL req \<and> revoked \<noteq> [] \<longrightarrow>
        (\<exists>list. crl = Some (B64Encode list) \<and> crl_of E (K n) ca revoke_everything (db_certificates d) list))"
proof -
  obtain s1 revoked s2 where auth: "dbE (attributeIsTrue uid ''hf.Revoker'') s = (Inr (), s1)"
    and choice: "(if parseInput (rv_Serial req) \<noteq> [] \<and> parseInput (rv_AKI req) \<noteq> []
      then revokeBySerial E (rv_Name req) (parseInput (rv_Serial req)) (parseInput (rv_AKI req)) (RevocationReasonCodes (rv_Reason req))
      else if rv_Name req \<noteq> [] then revokeByName E (rv_Name req) (RevocationReasonCodes (rv_Reason req))
      else throwE (newHTTPErr 400 ErrMissingRevokeArgs)) s1 = (Inr revoked, s2)"
    and rest: "(if rv_GenCRL req \<and> revoked \<noteq> [] then
           bindE (keysE K) (\<lambda>k. bindE (genCRL E k revoke_everything) (\<lambda>crl.
           returnE (Some (RespRevocation revoked (Some (B64Encode crl))))))
         else returnE (Some (RespRevocation revoked None))) s2 = (Inr resp, t)"
    using run unfolding revokeRequest_def revoke_everything_def Let_def
    by (simp add: seqE_Inr [of "mapErrE _ _"] bindE_Inr [of "if _ then _ else _"] mapErrE_Inr) blast
  have s1: "attr_true (ca_db ca) uid ''hf.Revoker''" "s1 = with_db s n ca (pop (ca_db ca))"
    using auth by (auto simp: dbE_serving [OF sv] attributeIsTrue_Inr)
  let ?ca1 = "ca\<lparr>ca_db := pop (ca_db ca)\<rparr>"
  have sv1: "serving s1 n ?ca1 c" using sv s1 by simp
  obtain d where d: "s2 = with_db s1 n ?ca1 d" "revocation_done (e_now E) c (ctx_enrollmentCert (st_ctx s1)) req (ca_db ?ca1) revoked d"
    using revokeChoice_done [OF choice sv1] by blast
  have fin: "revocation_done (e_now E) c (ctx_enrollmentCert (st_ctx s)) req (ca_db ca) revoked d"
    using d(2) s1(2) by (simp add: revocation_done_def may_revoke_def)
  let ?ca2 = "ca\<lparr>ca_db := d\<rparr>"
  have sv2: "serving s2 n ?ca2 c" using serving_with_db [OF sv1, of d] d(1) by simp
  show ?thesis
  proof (cases "rv_GenCRL req \<and> revoked \<noteq> []")
    case True
    then obtain list where list: "genCRL E (K n) revoke_everything s2 = (Inr list, t)"
      "resp = Some (RespRevocation revoked (Some (B64Encode list)))"
      using rest sv2 by (auto simp: bindE_Inr serving_def)
    note g = genCRL_lists_revoked [OF list(1) sv2]
    then have "revocation_done (e_now E) c (ctx_enrollmentCert (st_ctx s)) req (ca_db ca) revoked (pop d)"
      using fin by (simp add: revocation_done_def)
    moreover have "crl_of E (K n) ca revoke_everything (db_certificates (pop d)) list"
      using g by (simp add: crl_of_def)
    moreover have "st_cas t n = Some (ca\<lparr>ca_db := pop d\<rparr>)" using g by simp
    ultimately show ?thesis using list(2) s1(1) by blast
  next
    case False
    then show ?thesis using rest fin s1(1) sv2 by (auto simp: serving_def)
  qed
qed

text \<open>A certificate that was revoked is in every revocation list without time windows that is made
  from the table, under its serial number.\<close>

lemma revocation_done_row:
  assumes "revocation_done now c cert req d revoked d'" and "k \<in> set revoked"
  obtains x where "x \<in> set (db_certificates d)" "k = cert_key x"
    "revoke_row now (RevocationReasonCodes (rv_Reason req)) x \<in> set (db_certificates d')"
proof -
  obtain x where x: "x \<in> set (db_certificates d)" "revoked_by req x" "k = cert_key x"
    using assms by (auto simp: revocation_done_def)
  have "revoke_row now (RevocationReasonCodes (rv_Reason req)) x \<in> set (db_certificates d')"
    using assms(1) x(1,2) by (force simp: revocation_done_def revoke_rows_def)
  with x show thesis using that by blast
qed

lemma crl_entry_revoked:
  assumes rd: "revocation_done now c cert req d revoked d'" and k: "k \<in> set revoked" and "0 < now"
    and "\<forall>x \<in> set (db_certificates d). 0 < cr_Expiry x"
  shows "(serialInt (fst k), now) \<in> set (map crl_entry (filter (crl_selects revoke_everything) (db_certificates d')))"
  using rd k
proof (rule revocation_done_row)
  fix x let ?x = "revoke_row now (RevocationReasonCodes (rv_Reason req)) x"
  assume x: "x \<in> set (db_certificates d)" "k = cert_key x" "?x \<in> set (db_certificates d')"
  have "crl_selects revoke_everything ?x"
    using assms(3,4) x(1) by (simp add: crl_selects_def revoke_everything_def)
  moreover have "crl_entry ?x = (serialInt (fst k), now)" using x(2) by (simp add: crl_entry_def)
  ultimately show ?thesis using x(3) by force
qed

lemma revocation_done_keys:
  assumes "revocation_done now c cert req d revoked d'" and "k \<in> set revoked"
  shows "k \<in> revoked_keys d'"
  using assms
proof (rule revocation_done_row)
  fix x let ?x = "revoke_row now (RevocationReasonCodes (rv_Reason req)) x"
  assume "k = cert_key x" "?x \<in> set (db_certificates d')"
  then show ?thesis unfolding revoked_keys_def by (intro image_eqI [of _ _ ?x]) simp_all
qed

section \<open>A revocation\<close>

definition revoke_bob :: RevocationRequest where
  "revoke_bob = \<lparr>rv_Name = ''bob'', rv_Serial = [], rv_AKI = [], rv_Reason = ''keycompromise'', rv_GenCRL = True\<rparr>"

definition bob_cert :: CertRecord where
  "bob_cert = \<lparr>cr_ID = ''bob'', cr_Level = 1, cr_Serial = ''cd'', cr_AKI = ''abc'', cr_CALabel = [],
     cr_Status = ''good'', cr_Reason = 0, cr_Expiry = 100, cr_RevokedAt = 0, cr_PEM = ''pem''\<rparr>"

definition revoke_ca :: CA where
  "revoke_ca = example_ca\<lparr>ca_db := db_certificates_update (\<lambda>rows. rows @ [bob_cert]) example_db\<rparr>"

definition revoke_state :: reqst where
  "revoke_state = (example_serving (example_request ''POST'' []))\<lparr>st_cas := [''ca'' \<mapsto> revoke_ca]\<rparr>"

lemma revoke_state_serving: "serving revoke_state ''ca'' revoke_ca (newDBUser alice)"
  using example_serving_ok(1) [of "example_request ''POST'' []"] by (simp add: revoke_state_def serving_def)

lemma example_revocation:
  "case fst (revokeRequest example_env (\<lambda>_. example_keys) ''alice'' revoke_bob revoke_state) of Inl _ \<Rightarrow> False | Inr _ \<Rightarrow> True"
  "case fst (genCRL example_env example_keys revoke_everything revoke_state) of Inl _ \<Rightarrow> False | Inr _ \<Rightarrow> True"
  by code_simp+

theorem genCRL_lists_revoked_witness:
  "\<exists>crl. crl_of example_env example_keys revoke_ca revoke_everything (db_certificates (ca_db revoke_ca)) crl"
proof -
  let ?m = "genCRL example_env example_keys revoke_everything"
  obtain crl where "?m revoke_state = (Inr crl, snd (?m revoke_state))"
    by (rule run_of [where m = ?m, OF example_revocation(2)])
  from genCRL_lists_revoked [OF this revoke_state_serving] show ?thesis by blast
qed

theorem revokeRequest_revokes_witness:
  "\<exists>crl d. fst (revokeRequest example_env (\<lambda>_. example_keys) ''alice'' revoke_bob revoke_state) =
       Inr (Some (RespRevocation [(''cd'', ''abc'')] crl)) \<and>
     revocation_done 10 (newDBUser alice) None revoke_bob (ca_db revoke_ca) [(''cd'', ''abc'')] d"
proof -
  let ?m = "revokeRequest example_env (\<lambda>_. example_keys) ''alice'' revoke_bob"
  obtain resp where run: "?m revoke_state = (Inr resp, snd (?m revoke_state))"
    by (rule run_of [where m = ?m, OF example_revocation(1)])
  have ev: "e_now example_env = 10" "ctx_enrollmentCert (st_ctx revoke_state) = None"
    and keys: "map cert_key (filter (revoked_by revoke_bob) (db_certificates (ca_db revoke_ca))) = [(''cd'', ''abc'')]"
    by code_simp+
  from revokeRequest_revokes [OF run revoke_state_serving] obtain revoked crl d where
    r: "resp = Some (RespRevocation revoked crl)"
      "revocation_done 10 (newDBUser alice) None revoke_bob (ca_db revoke_ca) revoked d"
    unfolding ev by blast
  have "revoked = [(''cd'', ''abc'')]" using r(2) keys by (simp only: revocation_done_def)
  moreover have "fst (?m revoke_state) = Inr resp" using run by (metis fst_conv)
  ultimately show ?thesis using r by blast
qed

end
