(* ===== verification/Db_Source.thy ===== *)
theory Db_Source
  imports Error_Monad
begin

text \<open>
  The text that names a database (\<open>lib/dbutil/dbutil.go\<close>): the name of the database in it, and the text for one of
  several CAs.  The two regular expressions are matched as package \<open>regexp\<close> does, the leftmost match first and
  repetitions as long as possible.
\<close>

section \<open>Package \<open>filepath\<close>\<close>

definition last_element :: "string \<Rightarrow> string" where
  "last_element p = rev (takeWhile (\<lambda>c. c \<noteq> CHR ''/'') (rev p))"

text \<open>The part from the last dot of the last element, and the last element.\<close>

definition filepath_Ext :: "string \<Rightarrow> string" where
  "filepath_Ext p =
     (let e = last_element p in
      if CHR ''.'' \<in> set e then CHR ''.'' # rev (takeWhile (\<lambda>c. c \<noteq> CHR ''.'') (rev e)) else [])"

definition filepath_Base :: "string \<Rightarrow> string" where
  "filepath_Base p =
     (if p = [] then ''.''
      else (let q = strings_TrimRight p (CHR ''/'') in if q = [] then ''/'' else last_element q))"

section \<open>The name of the database\<close>

text \<open>The class \<open>\s\<close> of package \<open>regexp\<close>.\<close>

definition re_space :: "char \<Rightarrow> bool" where
  "re_space c = (of_char c \<in> {9, 10, 12, 13, 32 :: nat})"

text \<open>The two groups of the first match of \<open>/([^/?]+)\<close> or \<open>dbname=([^\s]+)\<close>.\<close>

fun findDBName :: "string \<Rightarrow> (string \<times> string) option" where
  "findDBName [] = None"
| "findDBName (c # cs) =
     (let slash = takeWhile (\<lambda>x. x \<noteq> CHR ''/'' \<and> x \<noteq> CHR ''?'') cs;
          named = takeWhile (\<lambda>x. \<not> re_space x) (drop 7 (c # cs)) in
      if c = CHR ''/'' \<and> slash \<noteq> [] then Some (slash, [])
      else if strings_HasPrefix (c # cs) ''dbname='' \<and> named \<noteq> [] then Some ([], named)
      else findDBName cs)"

definition getDBName :: "string \<Rightarrow> string" where
  "getDBName datasource =
     (case findDBName (strings_ToLower datasource) of
        None \<Rightarrow> []
      | Some (g1, g2) \<Rightarrow> if g1 = [] then g2 else g1)"

definition GetCADataSource :: "string \<Rightarrow> string \<Rightarrow> int \<Rightarrow> string" where
  "GetCADataSource dbtype datasource cacount =
     (if dbtype = ''sqlite3''
      then (let ext = filepath_Ext datasource;
                dbName = strings_TrimSuffix (filepath_Base datasource) ext
            in dbName @ ''_ca'' @ strconv_Itoa cacount @ ext)
      else (let dbName = getDBName datasource
            in strings_ReplaceFirst datasource dbName (dbName @ ''_ca'' @ strconv_Itoa cacount)))"

section \<open>Connection strings\<close>

text \<open>\<open>regexp.Expand\<close>: in a replacement, \<open>$1\<close> or \<open>${1}\<close> stands for a group and \<open>$$\<close> for a dollar sign.\<close>

definition word_char :: "char \<Rightarrow> bool" where
  "word_char c = (let n = (of_char c :: nat) in (48 \<le> n \<and> n \<le> 57) \<or> (65 \<le> n \<and> n \<le> 90) \<or> (97 \<le> n \<and> n \<le> 122) \<or> n = 95)"

definition re_extract :: "string \<Rightarrow> (string \<times> string) option" where
  "re_extract s =
     (let brace = (s \<noteq> [] \<and> hd s = CHR ''{'');
          t = (if brace then tl s else s);
          name = takeWhile word_char t;
          rest = dropWhile word_char t
      in if name = [] then None
         else if brace then (if rest \<noteq> [] \<and> hd rest = CHR ''}'' then Some (name, tl rest) else None)
         else Some (name, rest))"

lemma re_extract_length: "re_extract s = Some (name, rest) \<Longrightarrow> length rest < length s"
proof -
  assume run: "re_extract s = Some (name, rest)"
  have "length (takeWhile word_char t) + length (dropWhile word_char t) = length t" for t
    by (metis length_append takeWhile_dropWhile_id)
  from this [of s] this [of "tl s"] run show ?thesis
    by (cases s) (auto simp: re_extract_def Let_def split: if_splits)
qed

definition group_text :: "string list \<Rightarrow> string \<Rightarrow> string" where
  "group_text groups name =
     (if length name > 1 \<and> hd name = CHR ''0'' then []
      else (case digits_val name 0 of Some n \<Rightarrow> if nat n < length groups then groups ! nat n else [] | None \<Rightarrow> []))"

function re_Expand :: "string list \<Rightarrow> string \<Rightarrow> string" where
  "re_Expand groups [] = []"
| "re_Expand groups (c # cs) =
     (if c \<noteq> CHR ''$'' then c # re_Expand groups cs
      else (case cs of
              [] \<Rightarrow> [c]
            | d # ds \<Rightarrow>
                if d = CHR ''$'' then c # re_Expand groups ds
                else (case re_extract cs of
                        None \<Rightarrow> c # re_Expand groups cs
                      | Some (name, rest) \<Rightarrow> group_text groups name @ re_Expand groups rest)))"
  by pat_completeness auto
termination
  by (relation "measure (length \<circ> snd)") (auto dest!: re_extract_length)

text \<open>All matches of \<open>(dbname=)([^\s]+)\<close>, each replaced.\<close>

function getConnStr :: "string \<Rightarrow> string \<Rightarrow> string" where
  "getConnStr [] dbname = []"
| "getConnStr (c # cs) dbname =
     (let named = takeWhile (\<lambda>x. \<not> re_space x) (drop 7 (c # cs)) in
      if strings_HasPrefix (c # cs) ''dbname='' \<and> named \<noteq> []
      then re_Expand [''dbname='' @ named, ''dbname='', named] (''dbname='' @ dbname) @
             getConnStr (drop (7 + length named) (c # cs)) dbname
      else c # getConnStr cs dbname)"
  by pat_completeness auto
termination
  by (relation "measure (length \<circ> fst)") (auto simp: Let_def)

text \<open>All matches of \<open>/([0-9,a-z,A-Z$_]+)\<close>, each replaced by \<open>/\<close>.\<close>

definition mysql_name_char :: "char \<Rightarrow> bool" where
  "mysql_name_char c = (word_char c \<or> c = CHR '','' \<or> c = CHR ''$'')"

function mysqlConnStr :: "string \<Rightarrow> string" where
  "mysqlConnStr [] = []"
| "mysqlConnStr (c # cs) =
     (if c = CHR ''/'' then c # mysqlConnStr (dropWhile mysql_name_char cs) else c # mysqlConnStr cs)"
  by pat_completeness auto
termination
  by (relation "measure length") (auto simp: le_imp_less_Suc length_dropWhile_le)

section \<open>One database per CA\<close>

text \<open>The CAs of a server share a database or have one each.  The data sources of two CAs with different numbers differ
  when the database is SQLite or the name found in the text, which is in lower case, occurs in the text; otherwise every
  CA gets the text of the default CA and all use one database.\<close>

theorem GetCADataSource_unique:
  "if dbtype = ''sqlite3'' \<or> strings_Contains datasource (getDBName datasource)
   then GetCADataSource dbtype datasource i = GetCADataSource dbtype datasource j \<longleftrightarrow> i = j
   else GetCADataSource dbtype datasource i = datasource"
proof (cases "dbtype = ''sqlite3''")
  case True
  then show ?thesis by (simp add: GetCADataSource_def Let_def)
next
  case False
  show ?thesis
  proof (cases "strings_Contains datasource (getDBName datasource)")
    case True
    from ReplaceFirst_present [OF this] obtain a b
      where "\<And>new. strings_ReplaceFirst datasource (getDBName datasource) new = a @ new @ b" by blast
    then show ?thesis using True False by (simp add: GetCADataSource_def)
  next
    case absent: False
    then show ?thesis using False by (simp add: GetCADataSource_def ReplaceFirst_absent)
  qed
qed

text \<open>A name with a capital letter.\<close>

lemma shared_database:
  "GetCADataSource ''postgres'' ''host=db dbname=FabricCA'' 1 = ''host=db dbname=FabricCA''" by code_simp

end
