(* ===== verification/Db_Tables.thy ===== *)
theory Db_Tables
  imports Cert_Store Version_Levels Db_Source
begin

text \<open>
  Databases with named tables, typed columns, keys and indexes, and the SQL statements that
  \<open>lib/dbutil/dbutil.go\<close> uses on them, below the level of \<open>SQL_Store\<close>, where every table has the layout of this release.

  A row gives a value for every column.  SQLite does not enforce the declared lengths, so a length is
  checked only when PostgreSQL or MySQL changes the type of a column.
\<close>

section \<open>Tables\<close>

datatype sqltype = VARCHAR nat | VARBINARY nat | TEXT | INTEGER | BLOB | TIMESTAMP

datatype sqlval = SNull | SInt int | SText string

type_synonym row = "string \<Rightarrow> sqlval"

record column =
  col_Name :: string
  col_Type :: sqltype
  col_NotNull :: bool
  col_Default :: sqlval

text \<open>The columns of the primary key, if there is one, and the other lists of columns that are unique.\<close>

record table =
  tab_Columns :: "column list"
  tab_Primary :: "string list"
  tab_Unique :: "string list list"
  tab_Indexes :: "string list"
  tab_Rows :: "row list"

type_synonym catalog = "string \<rightharpoonup> table"

record schemadb =
  sd_driver :: string
  sd_tables :: catalog
  sd_faults :: "bool list"

type_synonym 'a ddl = "(schemadb, go_error, 'a) em"

definition mkcol :: "string \<Rightarrow> sqltype \<Rightarrow> column" where
  "mkcol n t = \<lparr>col_Name = n, col_Type = t, col_NotNull = False, col_Default = SNull\<rparr>"

definition notnull :: "column \<Rightarrow> column" where
  "notnull c = c\<lparr>col_NotNull := True\<rparr>"

definition with_default :: "sqlval \<Rightarrow> column \<Rightarrow> column" where
  "with_default v c = c\<lparr>col_Default := v\<rparr>"

definition mktable :: "column list \<Rightarrow> string list \<Rightarrow> string list list \<Rightarrow> table" where
  "mktable cs pk ks = \<lparr>tab_Columns = cs, tab_Primary = pk, tab_Unique = ks, tab_Indexes = [], tab_Rows = []\<rparr>"

definition col_names :: "table \<Rightarrow> string list" where
  "col_names t = map col_Name (tab_Columns t)"

section \<open>Statements\<close>

text \<open>A statement changes the catalog or is refused with a text.  The texts are those that the drivers are known to
  use, as far as the code looks for them.\<close>

type_synonym statement = "catalog \<Rightarrow> string + catalog"

definition sd_faulty :: "schemadb \<Rightarrow> bool" where
  "sd_faulty d = (case sd_faults d of [] \<Rightarrow> False | b # _ \<Rightarrow> b)"

definition sd_pop :: "schemadb \<Rightarrow> schemadb" where
  "sd_pop d = d\<lparr>sd_faults := tl (sd_faults d)\<rparr>"

definition Exec :: "statement \<Rightarrow> unit ddl" where
  "Exec st d =
     (if sd_faulty d then (Inl (SqlErr SqlOther), sd_pop d)
      else (case st (sd_tables d) of
              Inl m \<Rightarrow> (Inl (PlainErr m), sd_pop d)
            | Inr ts \<Rightarrow> (Inr (), (sd_pop d)\<lparr>sd_tables := ts\<rparr>)))"

definition on_table :: "string \<Rightarrow> (table \<Rightarrow> string + table) \<Rightarrow> statement" where
  "on_table n f ts =
     (case ts n of None \<Rightarrow> Inl ''no such table''
      | Some t \<Rightarrow> (case f t of Inl m \<Rightarrow> Inl m | Inr t' \<Rightarrow> Inr (ts(n \<mapsto> t'))))"

definition create_table :: "string \<Rightarrow> table \<Rightarrow> statement" where
  "create_table n t ts = (case ts n of Some _ \<Rightarrow> Inr ts | None \<Rightarrow> Inr (ts(n \<mapsto> t)))"

definition rename_table :: "string \<Rightarrow> string \<Rightarrow> statement" where
  "rename_table a b ts =
     (case ts a of None \<Rightarrow> Inl ''no such table''
      | Some t \<Rightarrow> if ts b \<noteq> None then Inl ''there is already another table or index with this name''
                 else Inr ((ts(a := None))(b \<mapsto> t)))"

definition drop_table :: "string \<Rightarrow> statement" where
  "drop_table n ts = (case ts n of None \<Rightarrow> Inl ''no such table'' | Some _ \<Rightarrow> Inr (ts(n := None)))"

text \<open>The row that is stored when values for some columns are given.\<close>

definition complete_row :: "table \<Rightarrow> string list \<Rightarrow> row \<Rightarrow> row" where
  "complete_row t cols r =
     (\<lambda>c. if c \<in> set cols then r c
          else (case find (\<lambda>k. col_Name k = c) (tab_Columns t) of Some k \<Rightarrow> col_Default k | None \<Rightarrow> SNull))"

definition key_values :: "string list \<Rightarrow> row list \<Rightarrow> sqlval list list" where
  "key_values key rs = map (\<lambda>r. map r key) (filter (\<lambda>r. \<forall>c \<in> set key. r c \<noteq> SNull) rs)"

definition unique_keys :: "table \<Rightarrow> string list list" where
  "unique_keys t = (if tab_Primary t = [] then tab_Unique t else tab_Primary t # tab_Unique t)"

definition unique_ok :: "table \<Rightarrow> bool" where
  "unique_ok t = (\<forall>key \<in> set (unique_keys t). distinct (key_values key (tab_Rows t)))"

definition notnull_ok :: "table \<Rightarrow> row \<Rightarrow> bool" where
  "notnull_ok t r = (\<forall>c \<in> set (tab_Columns t). col_NotNull c \<longrightarrow> r (col_Name c) \<noteq> SNull)"

text \<open>An insertion stores all its rows or none.  \<open>dup\<close> is the text with which the driver refuses a duplicate.\<close>

definition insert_rows :: "string \<Rightarrow> string list \<Rightarrow> row list \<Rightarrow> table \<Rightarrow> string + table" where
  "insert_rows dup cols rs t =
     (let new = map (complete_row t cols) rs; t' = t\<lparr>tab_Rows := tab_Rows t @ new\<rparr> in
      if \<not> set cols \<subseteq> set (col_names t) then Inl ''no such column''
      else if \<not> list_all (notnull_ok t) new then Inl ''NOT NULL constraint failed''
      else if \<not> unique_ok t' then Inl dup
      else Inr t')"

definition insert_values :: "string \<Rightarrow> string \<Rightarrow> string list \<Rightarrow> row list \<Rightarrow> statement" where
  "insert_values dup n cols rs = on_table n (insert_rows dup cols rs)"

definition insert_select :: "string \<Rightarrow> string \<Rightarrow> string list \<Rightarrow> string \<Rightarrow> statement" where
  "insert_select dup n cols src ts =
     (case ts src of None \<Rightarrow> Inl ''no such table''
      | Some s \<Rightarrow> if \<not> set cols \<subseteq> set (col_names s) then Inl ''no such column''
                 else insert_values dup n cols (tab_Rows s) ts)"

definition sqlite_dup :: string where "sqlite_dup = ''UNIQUE constraint failed''"
definition postgres_dup :: string where "postgres_dup = ''pq: duplicate key value violates unique constraint''"
definition mysql_dup :: string where "mysql_dup = ''Error 1062: Duplicate entry''"

text \<open>A text of a given length fits a column; all other values do.\<close>

fun fits :: "sqltype \<Rightarrow> sqlval \<Rightarrow> bool" where
  "fits (VARCHAR n) (SText s) = (length s \<le> n)"
| "fits (VARBINARY n) (SText s) = (length s \<le> n)"
| "fits _ _ = True"

text \<open>\<open>ADD COLUMN\<close> puts the column at a place; every row gets its default.\<close>

definition insert_at :: "nat \<Rightarrow> 'a \<Rightarrow> 'a list \<Rightarrow> 'a list" where
  "insert_at i x xs = take i xs @ x # drop i xs"

definition add_column :: "string \<Rightarrow> string \<Rightarrow> (string list \<Rightarrow> nat) \<Rightarrow> column \<Rightarrow> statement" where
  "add_column dup n place c = on_table n (\<lambda>t.
     if col_Name c \<in> set (col_names t) then Inl dup
     else Inr (t\<lparr>tab_Columns := insert_at (place (col_names t)) c (tab_Columns t),
                 tab_Rows := map (\<lambda>r. r(col_Name c := col_Default c)) (tab_Rows t)\<rparr>))"

fun position :: "string \<Rightarrow> string list \<Rightarrow> nat" where
  "position n [] = 0"
| "position n (c # cs) = (if c = n then 1 else Suc (position n cs))"

text \<open>A primary key that the database numbers.\<close>

definition add_id_column :: "string \<Rightarrow> string \<Rightarrow> statement" where
  "add_id_column n c = on_table n (\<lambda>t.
     if c \<in> set (col_names t) then Inl ''Error 1060: Duplicate column name''
     else if tab_Primary t \<noteq> [] then Inl ''Error 1068: Multiple primary key defined''
     else Inr (t\<lparr>tab_Columns := notnull (mkcol c INTEGER) # tab_Columns t, tab_Primary := [c],
                 tab_Rows := map (\<lambda>(i, r). r(c := SInt (int i))) (enumerate 1 (tab_Rows t))\<rparr>))"

text \<open>A new type for some columns: \<open>f\<close> is the change of a column of the table.\<close>

definition modify_columns :: "string \<Rightarrow> (string \<times> sqltype) list \<Rightarrow> (table \<Rightarrow> sqltype \<Rightarrow> column \<Rightarrow> column) \<Rightarrow> statement" where
  "modify_columns n changes f = on_table n (\<lambda>t.
     if \<not> fst ` set changes \<subseteq> set (col_names t) then Inl ''unknown column''
     else if \<not> list_all (\<lambda>r. list_all (\<lambda>(c, ty). fits ty (r c)) changes) (tab_Rows t) then Inl ''data too long for column''
     else Inr (t\<lparr>tab_Columns := map (\<lambda>c. case map_of changes (col_Name c) of None \<Rightarrow> c | Some ty \<Rightarrow> f t ty c) (tab_Columns t)\<rparr>))"

text \<open>PostgreSQL's \<open>ALTER COLUMN TYPE\<close> changes only the type, MySQL's \<open>MODIFY\<close> redefines the column,
  which can be null unless it belongs to the primary key.\<close>

definition alter_type :: "table \<Rightarrow> sqltype \<Rightarrow> column \<Rightarrow> column" where
  "alter_type t ty c = c\<lparr>col_Type := ty\<rparr>"

definition redefine :: "table \<Rightarrow> sqltype \<Rightarrow> column \<Rightarrow> column" where
  "redefine t ty c = (mkcol (col_Name c) ty)\<lparr>col_NotNull := (col_Name c \<in> set (tab_Primary t))\<rparr>"

text \<open>A unique column of MySQL is an index of the same name; without the index it is not unique.\<close>

definition add_index :: "string \<Rightarrow> string \<Rightarrow> statement" where
  "add_index n i = on_table n (\<lambda>t.
     if i \<in> set (tab_Indexes t) then Inl ''Error 1061: Duplicate key name''
     else Inr (t\<lparr>tab_Indexes := tab_Indexes t @ [i]\<rparr>))"

definition drop_index :: "string \<Rightarrow> string \<Rightarrow> statement" where
  "drop_index n i = on_table n (\<lambda>t.
     if i \<notin> set (tab_Indexes t) then Inl ''Error 1091: Can't DROP; check that column/key exists''
     else Inr (t\<lparr>tab_Indexes := filter (\<lambda>x. x \<noteq> i) (tab_Indexes t),
                 tab_Unique := filter (\<lambda>k. k \<noteq> [i]) (tab_Unique t)\<rparr>))"

text \<open>An error whose text contains \<open>part\<close> is ignored.\<close>

definition error_contains :: "string \<Rightarrow> go_error \<Rightarrow> bool" where
  "error_contains part e = (case e of PlainErr m \<Rightarrow> strings_Contains m part | _ \<Rightarrow> False)"

definition ignoring :: "string \<Rightarrow> unit ddl \<Rightarrow> unit ddl" where
  "ignoring part m = bindE (attemptE m) (\<lambda>r. case r of Inl e \<Rightarrow> if error_contains part e then returnE () else throwE e
     | Inr _ \<Rightarrow> returnE ())"

definition ddl_doTransaction :: "unit ddl \<Rightarrow> unit ddl" where
  "ddl_doTransaction doit d0 =
     (if sd_faulty d0 then (Inl (GoPanic ''MustBegin''), sd_pop d0)
      else
        (case doit (sd_pop d0) of
           (Inl e, d1) \<Rightarrow> (Inl e, sd_pop (d0\<lparr>sd_faults := sd_faults d1\<rparr>))
         | (Inr a, d1) \<Rightarrow>
             if sd_faulty d1 then (Inl (WithCause (SqlErr SqlOther)), sd_pop (d0\<lparr>sd_faults := sd_faults d1\<rparr>))
             else (Inr a, sd_pop d1)))"

end
