(* ===== verification/File_Paths.thy ===== *)
theory File_Paths
  imports Fabric_Util
begin

text \<open>
  File names: the part of Go's packages \<open>path\<close> and \<open>path/filepath\<close> that the program uses, for
  slash-separated paths, and the functions of \<open>util/util.go\<close> built on it, which make names absolute and
  find the configuration file and the home directory of a command.

  The working directory is a parameter, undefined when the system call fails; so is the
  environment of the process.
\<close>

section \<open>The package \<open>path\<close>\<close>

definition path_IsAbs :: "string \<Rightarrow> bool" where
  "path_IsAbs p = strings_HasPrefix p ''/''"

text \<open>The components of a cleaned path: \<open>st\<close> is the reversed list of those found so far.\<close>

fun clean_comps :: "bool \<Rightarrow> string list \<Rightarrow> string list \<Rightarrow> string list" where
  "clean_comps rooted st [] = rev st"
| "clean_comps rooted st (c # cs) =
     (if c = [] \<or> c = ''.'' then clean_comps rooted st cs
      else if c = ''..'' then
        (case st of
           [] \<Rightarrow> if rooted then clean_comps rooted [] cs else clean_comps rooted [c] cs
         | t # ts \<Rightarrow> if t = ''..'' then clean_comps rooted (c # st) cs else clean_comps rooted ts cs)
      else clean_comps rooted (c # st) cs)"

definition path_Clean :: "string \<Rightarrow> string" where
  "path_Clean p =
     (let out = (if path_IsAbs p then ''/'' else []) @
                strings_Join (clean_comps (path_IsAbs p) [] (strings_Split p CHR ''/'')) ''/''
      in if out = [] then ''.'' else out)"

definition path_Join :: "string list \<Rightarrow> string" where
  "path_Join elems =
     (let es = filter (\<lambda>e. e \<noteq> []) elems
      in if es = [] then [] else path_Clean (strings_Join es ''/''))"

text \<open>\<open>path.Dir\<close> and \<open>path.Base\<close>: what is before and after the last slash.\<close>

definition path_Dir :: "string \<Rightarrow> string" where
  "path_Dir p = path_Clean (rev (dropWhile (\<lambda>c. c \<noteq> CHR ''/'') (rev p)))"

definition path_Base :: "string \<Rightarrow> string" where
  "path_Base p =
     (if p = [] then ''.''
      else let q = strings_TrimRight p CHR ''/'';
               b = rev (takeWhile (\<lambda>c. c \<noteq> CHR ''/'') (rev q))
           in if b = [] then ''/'' else b)"

definition filepath_Abs :: "string option \<Rightarrow> string \<Rightarrow> string result" where
  "filepath_Abs wd p =
     (if path_IsAbs p then Inr (path_Clean p)
      else (case wd of
              None \<Rightarrow> Inl (PlainErr ''getwd'')
            | Some d \<Rightarrow> Inr (path_Join [d, p])))"

section \<open>Names of files\<close>

definition MakeFileAbs :: "string option \<Rightarrow> string \<Rightarrow> string \<Rightarrow> string result" where
  "MakeFileAbs wd file dir =
     (if file = [] then Inr []
      else if path_IsAbs file then Inr file
      else mapErrR WithCause (filepath_Abs wd (path_Join [dir, file])))"

text \<open>The files are changed in place, up to the first failure.\<close>

fun MakeFileNamesAbsolute :: "string option \<Rightarrow> string \<Rightarrow> string list \<Rightarrow> unit result \<times> string list" where
  "MakeFileNamesAbsolute wd home [] = (Inr (), [])"
| "MakeFileNamesAbsolute wd home (f # fs) =
     (case MakeFileAbs wd f home of
        Inl e \<Rightarrow> (Inl e, f # fs)
      | Inr a \<Rightarrow> (case MakeFileNamesAbsolute wd home fs of (r, gs) \<Rightarrow> (r, a # gs)))"

fun absEach :: "string option \<Rightarrow> string \<Rightarrow> string list \<Rightarrow> string list result" where
  "absEach wd homeDir [] = Inr []"
| "absEach wd homeDir (f # fs) =
     bindR (MakeFileAbs wd f homeDir) (\<lambda>a. bindR (absEach wd homeDir fs) (\<lambda>as. Inr (a # as)))"

definition NormalizeFileList :: "string option \<Rightarrow> string list \<Rightarrow> string \<Rightarrow> string list result" where
  "NormalizeFileList wd files homeDir = absEach wd homeDir (NormalizeStringSlice files)"

section \<open>The configuration file\<close>

fun firstEnv :: "(string \<Rightarrow> string) \<Rightarrow> string list \<Rightarrow> string option" where
  "firstEnv getenv [] = None"
| "firstEnv getenv (e # es) = (if getenv e \<noteq> [] then Some (getenv e) else firstEnv getenv es)"

definition GetDefaultConfigFile :: "(string \<Rightarrow> string) \<Rightarrow> string \<Rightarrow> string" where
  "GetDefaultConfigFile getenv cmdName =
     (let fname = cmdName @ ''-config.yaml'' in
      if cmdName = ''fabric-ca-server'' then
        path_Join [case firstEnv getenv [''FABRIC_CA_SERVER_HOME'', ''FABRIC_CA_HOME'', ''CA_CFG_PATH''] of
                     None \<Rightarrow> ''.'' | Some home \<Rightarrow> home, fname]
      else
        (case firstEnv getenv [''FABRIC_CA_CLIENT_HOME'', ''FABRIC_CA_HOME'', ''CA_CFG_PATH''] of
           Some home \<Rightarrow> path_Join [home, fname]
         | None \<Rightarrow> path_Join [getenv ''HOME'', ''.fabric-ca-client'', fname]))"

definition ValidateAndReturnAbsConf ::
  "string option \<Rightarrow> (string \<Rightarrow> string) \<Rightarrow> string \<Rightarrow> string \<Rightarrow> string \<Rightarrow> (string \<times> string) result" where
  "ValidateAndReturnAbsConf wd getenv configFilePath homeDir cmdName =
     (let defaultConfig = GetDefaultConfigFile getenv cmdName;
          configFileSet = (configFilePath \<noteq> []);
          homeDir = (if homeDir = [] then path_Dir defaultConfig else homeDir)
      in bindR (mapErrR WithCause (filepath_Abs wd homeDir)) (\<lambda>absHome.
         let home = strings_TrimRight absHome CHR ''/'' in
         if configFileSet then
           bindR (mapErrR WithCause (filepath_Abs wd configFilePath)) (\<lambda>conf.
           Inr (conf, path_Dir conf))
         else Inr (path_Join [home, path_Base defaultConfig], home)))"

section \<open>Cleaned paths\<close>

text \<open>The components of a cleaned absolute path.\<close>

definition plain_comp :: "string \<Rightarrow> bool" where
  "plain_comp c \<longleftrightarrow> c \<noteq> [] \<and> c \<noteq> ''.'' \<and> c \<noteq> ''..'' \<and> CHR ''/'' \<notin> set c"

lemma clean_step:
  assumes "CHR ''/'' \<notin> set c" and st: "\<forall>c \<in> set st. plain_comp c"
  shows "\<exists>st'. clean_comps True st (c # cs) = clean_comps True st' cs \<and> (\<forall>c \<in> set st'. plain_comp c)"
proof -
  consider "c = [] \<or> c = ''.''" | "c = ''..''" | "plain_comp c" using assms(1) by (auto simp: plain_comp_def)
  then show ?thesis
  proof cases
    case 1
    then show ?thesis using st by (intro exI [of _ st]) auto
  next
    case 2
    then show ?thesis
      using st by (intro exI [of _ "tl st"]) (cases st, auto simp: plain_comp_def)
  next
    case 3
    then show ?thesis using st by (intro exI [of _ "c # st"]) (auto simp: plain_comp_def)
  qed
qed

lemma clean_comps_plain:
  "\<forall>c \<in> set cs. CHR ''/'' \<notin> set c \<Longrightarrow> \<forall>c \<in> set st. plain_comp c \<Longrightarrow>
     \<forall>c \<in> set (clean_comps True st cs). plain_comp c"
proof (induction cs arbitrary: st)
  case (Cons c cs)
  obtain st' where "clean_comps True st (c # cs) = clean_comps True st' cs" "\<forall>c \<in> set st'. plain_comp c"
    using clean_step [of c st cs] Cons.prems by auto
  then show ?case using Cons.IH [of st'] Cons.prems(1) by simp
qed simp

lemma clean_comps_id:
  "\<forall>c \<in> set cs. plain_comp c \<Longrightarrow> clean_comps r st cs = rev st @ cs"
  by (induction cs arbitrary: st) (auto simp: plain_comp_def)

definition abs_path :: "string list \<Rightarrow> string" where
  "abs_path cs = CHR ''/'' # strings_Join cs ''/''"

lemma abs_path_IsAbs [simp]: "path_IsAbs (abs_path cs)"
  by (simp add: abs_path_def path_IsAbs_def strings_HasPrefix_def)

lemma path_Clean_abs:
  assumes "path_IsAbs p"
  shows "\<exists>cs. path_Clean p = abs_path cs \<and> (\<forall>c \<in> set cs. plain_comp c)"
proof -
  let ?cs = "clean_comps True [] (strings_Split p CHR ''/'')"
  have "\<forall>c \<in> set ?cs. plain_comp c"
    by (rule clean_comps_plain) (auto dest: strings_Split_no_sep)
  moreover have "path_Clean p = abs_path ?cs"
    using assms by (simp add: path_Clean_def abs_path_def Let_def)
  ultimately show ?thesis by blast
qed

lemma split_abs_path:
  assumes "\<forall>c \<in> set cs. plain_comp c"
  shows "strings_Split (abs_path cs) CHR ''/'' = [] # (if cs = [] then [[]] else cs)"
  using strings_Split_Join [of cs "CHR ''/''"] assms by (auto simp: abs_path_def plain_comp_def)

lemma Clean_abs_path [simp]:
  assumes "\<forall>c \<in> set cs. plain_comp c"
  shows "path_Clean (abs_path cs) = abs_path cs"
  using assms
  by (simp add: path_Clean_def split_abs_path clean_comps_id Let_def) (auto simp: abs_path_def)

lemma strings_Join_snoc: "cs \<noteq> [] \<Longrightarrow> strings_Join (cs @ [c]) s = strings_Join cs s @ s @ c"
  by (simp add: strings_Join_append)

lemma abs_path_snoc: "abs_path (cs @ [c]) = (if cs = [] then CHR ''/'' # c else abs_path cs @ CHR ''/'' # c)"
  by (simp add: abs_path_def strings_Join_snoc)

lemma Dir_abs_path:
  assumes "\<forall>c \<in> set (cs @ [c]). plain_comp c"
  shows "path_Dir (abs_path (cs @ [c])) = abs_path cs"
proof -
  have c: "CHR ''/'' \<notin> set c" using assms by (simp add: plain_comp_def)
  then have drop: "dropWhile (\<lambda>x. x \<noteq> CHR ''/'') (rev c @ CHR ''/'' # xs) = CHR ''/'' # xs" for xs
    by (subst dropWhile_append2) auto
  show ?thesis
  proof (cases "cs = []")
    case True
    then show ?thesis using drop [of "[]"] by (simp add: path_Dir_def abs_path_snoc) (simp add: path_Clean_def path_IsAbs_def strings_HasPrefix_def abs_path_def)
  next
    case False
    have "clean_comps True [] (strings_Split (abs_path cs @ ''/'') CHR ''/'') = cs"
    proof -
      have "strings_Split (abs_path cs @ ''/'') CHR ''/'' = strings_Split (abs_path cs) CHR ''/'' @ [[]]"
        using strings_Split_append_sep [of "abs_path cs" "CHR ''/''" "[]"] by simp
      also have "\<dots> = [] # cs @ [[]]" using assms False by (simp add: split_abs_path)
      finally have s: "strings_Split (abs_path cs @ ''/'') CHR ''/'' = [] # cs @ [[]]" .
      have "clean_comps True st (ds @ [[]]) = clean_comps True st ds" for st ds
        by (induction True st ds rule: clean_comps.induct) (auto split: list.splits)
      then show ?thesis using assms by (simp add: s clean_comps_id)
    qed
    moreover have "path_IsAbs (abs_path cs @ ''/'')" by (simp add: abs_path_def path_IsAbs_def strings_HasPrefix_def)
    ultimately have "path_Clean (abs_path cs @ ''/'') = abs_path cs"
      by (simp add: path_Clean_def abs_path_def Let_def)
    then show ?thesis using drop [of "rev (abs_path cs)"] False by (simp add: path_Dir_def abs_path_snoc)
  qed
qed


lemma Clean_snoc:
  assumes "plain_comp f"
  shows "clean_comps r st (cs @ [f]) = clean_comps r st cs @ [f]"
proof (induction r st cs rule: clean_comps.induct)
  case (1 rooted st)
  then show ?case using assms by (simp add: plain_comp_def)
qed (auto split: list.splits)

lemma TrimRight_plain:
  assumes "f \<noteq> []" and "CHR ''/'' \<notin> set f"
  shows "strings_TrimRight (xs @ f) CHR ''/'' = xs @ f"
proof -
  obtain g l where f: "f = g @ [l]" using assms(1) by (cases f rule: rev_cases) auto
  then show ?thesis using assms(2) by (auto simp: strings_TrimRight_def)
qed

lemma Base_snoc:
  assumes "plain_comp f"
  shows "path_Base (xs @ CHR ''/'' # f) = f" "path_Base f = f"
proof -
  have f: "f \<noteq> []" "CHR ''/'' \<notin> set f" using assms by (auto simp: plain_comp_def)
  have "takeWhile (\<lambda>c. c \<noteq> CHR ''/'') (rev f @ ys) = rev f @ takeWhile (\<lambda>c. c \<noteq> CHR ''/'') ys" for ys
    using f(2) by (intro takeWhile_append2) auto
  from this [of "CHR ''/'' # ys" for ys] this [of "[]"]
  have take: "takeWhile (\<lambda>c. c \<noteq> CHR ''/'') (rev f @ CHR ''/'' # ys) = rev f"
    "takeWhile (\<lambda>c. c \<noteq> CHR ''/'') (rev f) = rev f" for ys
    by simp_all
  show "path_Base (xs @ CHR ''/'' # f) = f"
    using f take(1) [of "rev xs"] TrimRight_plain [OF f, of "xs @ ''/''"] by (simp add: path_Base_def Let_def)
  show "path_Base f = f"
    using f TrimRight_plain [OF f, of "[]"] by (simp add: path_Base_def Let_def take(2))
qed

lemma Base_Clean:
  assumes f: "plain_comp f"
  shows "path_Base (path_Clean (p @ CHR ''/'' # f)) = f"
proof -
  have f': "CHR ''/'' \<notin> set f" "f \<noteq> []" using f by (auto simp: plain_comp_def)
  let ?q = "p @ CHR ''/'' # f"
  have "strings_Split ?q CHR ''/'' = strings_Split p CHR ''/'' @ [f]"
    using f' by (simp add: strings_Split_append_sep strings_Split_single)
  then obtain cs where cs: "clean_comps (path_IsAbs ?q) [] (strings_Split ?q CHR ''/'') = cs @ [f]"
    using Clean_snoc [OF f] by auto
  show ?thesis
  proof (cases "cs = []")
    case True
    then show ?thesis
      using cs f' Base_snoc [OF f] Base_snoc(1) [OF f, of "[]"] by (simp add: path_Clean_def Let_def)
  next
    case False
    then show ?thesis
      using cs f' Base_snoc(1) [OF f, of "''/'' @ strings_Join cs ''/''"] Base_snoc(1) [OF f, of "strings_Join cs ''/''"]
      by (simp add: path_Clean_def Let_def strings_Join_snoc)
  qed
qed


lemma Base_Join:
  assumes "plain_comp f"
  shows "path_Base (path_Join (es @ [f])) = f"
proof -
  have "f \<noteq> []" using assms by (simp add: plain_comp_def)
  show ?thesis
  proof (cases "filter (\<lambda>e. e \<noteq> []) es")
    case Nil
    obtain a g where "f = a # g" "a \<noteq> CHR ''/''" using assms by (cases f) (auto simp: plain_comp_def)
    then have "\<not> path_IsAbs f" by (simp add: path_IsAbs_def strings_HasPrefix_def)
    then have "path_Clean f = f"
      using assms by (auto simp: path_Clean_def strings_Split_single plain_comp_def Let_def)
    then show ?thesis using Nil assms \<open>f \<noteq> []\<close> by (simp add: path_Join_def Base_snoc)
  next
    case (Cons e es')
    then have "path_Join (es @ [f]) = path_Clean (strings_Join (e # es') ''/'' @ CHR ''/'' # f)"
      using \<open>f \<noteq> []\<close> by (simp add: path_Join_def strings_Join_snoc [of "e # es'", simplified])
    then show ?thesis using assms by (simp add: Base_Clean)
  qed
qed

lemma plain_config: "CHR ''/'' \<notin> set cmdName \<Longrightarrow> plain_comp (cmdName @ ''-config.yaml'')"
  by (cases cmdName) (auto simp: plain_comp_def)

lemma Base_default:
  assumes "CHR ''/'' \<notin> set cmdName"
  shows "path_Base (GetDefaultConfigFile getenv cmdName) = cmdName @ ''-config.yaml''"
proof -
  have "\<exists>es. GetDefaultConfigFile getenv cmdName = path_Join (es @ [cmdName @ ''-config.yaml''])"
    unfolding GetDefaultConfigFile_def Let_def
    by (auto simp del: firstEnv.simps split: option.splits
        intro: exI [of _ "[x]" for x] exI [of _ "[getenv ''HOME'', ''.fabric-ca-client'']"])
  then show ?thesis using Base_Join [OF plain_config [OF assms]] by auto
qed

lemma Join_abs_path:
  assumes cs: "\<forall>c \<in> set cs. plain_comp c" and f: "plain_comp f" and "cs \<noteq> []"
  shows "path_Join [abs_path cs, f] = abs_path (cs @ [f])"
proof -
  have "f \<noteq> []" "abs_path cs \<noteq> []" using f by (auto simp: plain_comp_def abs_path_def)
  then have "path_Join [abs_path cs, f] = path_Clean (abs_path cs @ CHR ''/'' # f)" by (simp add: path_Join_def)
  also have "abs_path cs @ CHR ''/'' # f = abs_path (cs @ [f])" using assms(3) by (simp add: abs_path_snoc)
  also have "path_Clean \<dots> = abs_path (cs @ [f])" using cs f by simp
  finally show ?thesis .
qed

lemma filepath_Abs_abs:
  assumes "filepath_Abs wd p = Inr a" and "\<forall>d. wd = Some d \<longrightarrow> path_IsAbs d"
  shows "\<exists>cs. a = abs_path cs \<and> (\<forall>c \<in> set cs. plain_comp c)"
proof (cases "path_IsAbs p")
  case True
  then show ?thesis using assms path_Clean_abs [of p] by (simp add: filepath_Abs_def)
next
  case False
  then obtain d where d: "wd = Some d" "a = path_Join [d, p]" using assms(1) by (auto simp: filepath_Abs_def split: option.splits)
  then have "path_IsAbs d" using assms(2) by simp
  then have "path_IsAbs (strings_Join (filter (\<lambda>e. e \<noteq> []) [d, p]) ''/'')" "d \<noteq> []"
    by (auto simp: path_IsAbs_def strings_HasPrefix_def split: if_splits) (cases d; simp)+
  then show ?thesis using d path_Clean_abs [of "strings_Join (filter (\<lambda>e. e \<noteq> []) [d, p]) ''/''"]
    by (simp add: path_Join_def)
qed

lemma TrimRight_abs_path:
  assumes "\<forall>c \<in> set cs. plain_comp c"
  shows "strings_TrimRight (abs_path cs) CHR ''/'' = (if cs = [] then [] else abs_path cs)"
proof (cases cs rule: rev_cases)
  case (snoc ds c)
  then have c: "c \<noteq> []" "CHR ''/'' \<notin> set c" using assms by (simp_all add: plain_comp_def)
  show ?thesis
    using snoc TrimRight_plain [OF c, of "''/''"] TrimRight_plain [OF c, of "abs_path ds @ ''/''"]
    by (simp add: abs_path_snoc)
qed (simp add: abs_path_def strings_TrimRight_def)

text \<open>The configuration file and the home directory that a command works with belong
  together.  When they are found, the file has an absolute name and lies in the home directory, and without the
  flag for the file it has the default name; unless the home directory is the root, for which the empty string
  is returned.\<close>

theorem ValidateAndReturnAbsConf_consistent:
  assumes run: "ValidateAndReturnAbsConf wd getenv configFilePath homeDir cmdName = Inr (conf, home)"
    and wd: "\<forall>d. wd = Some d \<longrightarrow> path_IsAbs d" and cmd: "CHR ''/'' \<notin> set cmdName" and root: "home \<noteq> []"
  shows "path_IsAbs conf \<and> home = path_Dir conf \<and>
    (configFilePath = [] \<longrightarrow> path_Base conf = cmdName @ ''-config.yaml'')"
proof (cases "configFilePath = []")
  case False
  then obtain cs where "conf = abs_path cs" "home = path_Dir conf"
    using run filepath_Abs_abs [OF _ wd] by (auto simp: ValidateAndReturnAbsConf_def Let_def)
  then show ?thesis using False by simp
next
  case True
  let ?fn = "cmdName @ ''-config.yaml''"
  from run True obtain absHome h where
      abs: "filepath_Abs wd h = Inr absHome" and home: "home = strings_TrimRight absHome CHR ''/''"
    and conf: "conf = path_Join [home, ?fn]"
    by (auto simp: ValidateAndReturnAbsConf_def Let_def Base_default [OF cmd])
  obtain cs where cs: "absHome = abs_path cs" "\<forall>c \<in> set cs. plain_comp c" using filepath_Abs_abs [OF abs wd] by blast
  with home root have ne: "cs \<noteq> []" "home = abs_path cs" by (auto simp: TrimRight_abs_path split: if_splits)
  note fn = plain_config [OF cmd]
  have c: "conf = abs_path (cs @ [?fn])" using conf ne Join_abs_path [OF cs(2) fn] by simp
  then have "path_IsAbs conf" by simp
  moreover have "path_Dir conf = home" using Dir_abs_path [of cs ?fn] cs(2) fn ne c by simp
  moreover have "path_Base conf = ?fn" using conf Base_Join [OF fn, of "[home]"] by simp
  ultimately show ?thesis by simp
qed

theorem ValidateAndReturnAbsConf_consistent_witness:
  "path_Dir ''/etc/ca/fabric-ca-server-config.yaml'' = ''/etc/ca'' \<and>
   ValidateAndReturnAbsConf (Some ''/root'') (\<lambda>_. []) [] ''/etc/./x/../ca/'' ''fabric-ca-server'' =
     Inr (''/etc/ca/fabric-ca-server-config.yaml'', ''/etc/ca'')"
proof -
  have run: "ValidateAndReturnAbsConf (Some ''/root'') (\<lambda>_. []) [] ''/etc/./x/../ca/'' ''fabric-ca-server'' =
      Inr (''/etc/ca/fabric-ca-server-config.yaml'', ''/etc/ca'')"
    by code_simp
  have "path_IsAbs ''/etc/ca/fabric-ca-server-config.yaml'' \<and> ''/etc/ca'' = path_Dir ''/etc/ca/fabric-ca-server-config.yaml'' \<and>
      (([] :: string) = [] \<longrightarrow> path_Base ''/etc/ca/fabric-ca-server-config.yaml'' = ''fabric-ca-server'' @ ''-config.yaml'')"
    by (rule ValidateAndReturnAbsConf_consistent [OF run]) (simp_all add: path_IsAbs_def strings_HasPrefix_def)
  with run show ?thesis by simp
qed

text \<open>The root as home directory: the configuration file is looked for in the working directory.\<close>

lemma root_home_is_lost:
  "ValidateAndReturnAbsConf (Some ''/root'') (\<lambda>_. []) [] ''/'' ''fabric-ca-server'' =
     Inr (''fabric-ca-server-config.yaml'', [])"
  by code_simp

text \<open>An absolute name is made of every name but the empty one, which stays empty, and a second time nothing changes.\<close>

lemma MakeFileAbs_absolute:
  assumes "MakeFileAbs wd file dir = Inr a" and "\<forall>d. wd = Some d \<longrightarrow> path_IsAbs d"
  shows "(if file = [] then a = [] else path_IsAbs a) \<and> MakeFileAbs wd a dir' = Inr a"
proof -
  have "path_IsAbs a" if "file \<noteq> []"
  proof (cases "path_IsAbs file")
    case False
    with that assms(1) have "filepath_Abs wd (path_Join [dir, file]) = Inr a" by (simp add: MakeFileAbs_def)
    from filepath_Abs_abs [OF this assms(2)] show ?thesis by auto
  qed (use assms(1) that in \<open>simp add: MakeFileAbs_def\<close>)
  then show ?thesis using assms(1) by (auto simp: MakeFileAbs_def)
qed

end
