(* ===== verification/Tls_Files.thy ===== *)
theory Tls_Files
  imports File_Paths Error_Monad
begin

text \<open>
  The TLS settings of a client and of a server (\<open>lib/tls/tls.go\<close>) and the operations that make the file
  names in them absolute.  The names are changed in place, one after the other; the first failure leaves the name it happened at
  empty and the later ones as they were.
\<close>

record ClientTLSConfig =
  tls_Enabled :: bool
  tls_CertFiles :: "string list"
  tls_CertFile :: string
  tls_KeyFile :: string

record ServerTLSConfig =
  stls_Enabled :: bool
  stls_CertFile :: string
  stls_KeyFile :: string
  stls_ClientAuthType :: string
  stls_ClientAuthFiles :: "string list"

definition absName :: "string option \<Rightarrow> string \<Rightarrow> (string, go_error, unit) em" where
  "absName wd configDir file =
     (case MakeFileAbs wd file configDir of Inl e \<Rightarrow> (Inl e, []) | Inr a \<Rightarrow> (Inr (), a))"

fun absNames :: "string option \<Rightarrow> string \<Rightarrow> (string list, go_error, unit) em" where
  "absNames wd configDir [] = (Inr (), [])"
| "absNames wd configDir (f # fs) =
     (case absName wd configDir f of
        (Inl e, a) \<Rightarrow> (Inl e, a # fs)
      | (Inr _, a) \<Rightarrow> (case absNames wd configDir fs of (r, gs) \<Rightarrow> (r, a # gs)))"

definition AbsTLSClient :: "string option \<Rightarrow> string \<Rightarrow> (ClientTLSConfig, go_error, unit) em" where
  "AbsTLSClient wd configDir =
     seqE (zoomE tls_CertFiles (\<lambda>fs c. c\<lparr>tls_CertFiles := fs\<rparr>) (absNames wd configDir))
     (seqE (zoomE tls_CertFile (\<lambda>f c. c\<lparr>tls_CertFile := f\<rparr>) (absName wd configDir))
     (zoomE tls_KeyFile (\<lambda>f c. c\<lparr>tls_KeyFile := f\<rparr>) (absName wd configDir)))"

definition AbsTLSServer :: "string option \<Rightarrow> string \<Rightarrow> (ServerTLSConfig, go_error, unit) em" where
  "AbsTLSServer wd configDir =
     seqE (zoomE stls_ClientAuthFiles (\<lambda>fs c. c\<lparr>stls_ClientAuthFiles := fs\<rparr>) (absNames wd configDir))
     (seqE (zoomE stls_CertFile (\<lambda>f c. c\<lparr>stls_CertFile := f\<rparr>) (absName wd configDir))
     (zoomE stls_KeyFile (\<lambda>f c. c\<lparr>stls_KeyFile := f\<rparr>) (absName wd configDir)))"

section \<open>The names are absolute\<close>

text \<open>A file name as the program uses it after start-up: absolute, or empty when it was not given.\<close>

definition fixed_name :: "string \<Rightarrow> bool" where
  "fixed_name f \<longleftrightarrow> f = [] \<or> path_IsAbs f"

definition good_wd :: "string option \<Rightarrow> bool" where
  "good_wd wd \<longleftrightarrow> (\<forall>d. wd = Some d \<longrightarrow> path_IsAbs d)"

lemma absName_fixed: "fixed_name f \<Longrightarrow> absName wd dir f = (Inr (), f)"
  by (auto simp: absName_def MakeFileAbs_def fixed_name_def)

lemma absName_Inr: "absName wd dir f = (Inr u, a) \<Longrightarrow> good_wd wd \<Longrightarrow> fixed_name a"
  using MakeFileAbs_absolute [of wd f dir a dir]
  by (auto simp: absName_def good_wd_def fixed_name_def split: sum.splits if_splits)

lemma absNames_fixed: "\<forall>f \<in> set fs. fixed_name f \<Longrightarrow> absNames wd dir fs = (Inr (), fs)"
  by (induction fs) (simp_all add: absName_fixed)

lemma absNames_Inr: "absNames wd dir fs = (Inr u, gs) \<Longrightarrow> good_wd wd \<Longrightarrow> \<forall>g \<in> set gs. fixed_name g"
  by (induction fs arbitrary: gs) (auto dest: absName_Inr split: prod.splits sum.splits)

definition client_fixed :: "ClientTLSConfig \<Rightarrow> bool" where
  "client_fixed c \<longleftrightarrow> (\<forall>f \<in> set (tls_CertFiles c). fixed_name f) \<and> fixed_name (tls_CertFile c) \<and> fixed_name (tls_KeyFile c)"

text \<open>The directory that names are resolved against does not matter the second time.\<close>

lemma AbsTLSClient_Inr:
  assumes "AbsTLSClient wd dir c = (Inr u, d)" and "good_wd wd"
  shows "client_fixed d" and "AbsTLSClient wd' dir' d = (Inr (), d)" and "tls_Enabled d = tls_Enabled c"
proof -
  obtain fs f k where run: "absNames wd dir (tls_CertFiles c) = (Inr (), fs)" "absName wd dir (tls_CertFile c) = (Inr (), f)"
      "absName wd dir (tls_KeyFile c) = (Inr (), k)" "d = c\<lparr>tls_CertFiles := fs, tls_CertFile := f, tls_KeyFile := k\<rparr>"
    using assms(1) by (auto simp: AbsTLSClient_def seqE_Inr zoomE_eq)
  then show fixed: "client_fixed d" and "tls_Enabled d = tls_Enabled c"
    using absNames_Inr absName_Inr assms(2) by (auto simp: client_fixed_def)
  then show "AbsTLSClient wd' dir' d = (Inr (), d)"
    by (simp add: client_fixed_def AbsTLSClient_def seqE_Inr zoomE_eq absNames_fixed absName_fixed)
qed

lemma AbsTLSServer_Inr:
  assumes "AbsTLSServer wd dir c = (Inr u, d)" and "good_wd wd"
  shows "(\<forall>f \<in> set (stls_ClientAuthFiles d). fixed_name f) \<and> fixed_name (stls_CertFile d) \<and> fixed_name (stls_KeyFile d) \<and>
    stls_Enabled d = stls_Enabled c \<and> AbsTLSServer wd' dir' d = (Inr (), d)"
proof -
  obtain fs f k where run: "absNames wd dir (stls_ClientAuthFiles c) = (Inr (), fs)" "absName wd dir (stls_CertFile c) = (Inr (), f)"
      "absName wd dir (stls_KeyFile c) = (Inr (), k)" "d = c\<lparr>stls_ClientAuthFiles := fs, stls_CertFile := f, stls_KeyFile := k\<rparr>"
    using assms(1) by (auto simp: AbsTLSServer_def seqE_Inr zoomE_eq)
  then have "(\<forall>f \<in> set (stls_ClientAuthFiles d). fixed_name f) \<and> fixed_name (stls_CertFile d) \<and> fixed_name (stls_KeyFile d)"
    using absNames_Inr absName_Inr assms(2) by auto
  then show ?thesis
    using run(4) by (simp add: AbsTLSServer_def seqE_Inr zoomE_eq absNames_fixed absName_fixed)
qed

end
