(* ===== verification/Db_Schema.thy ===== *)
theory Db_Schema
  imports Db_Tables Tls_Files
begin

text \<open>
  The layout of the database (\<open>lib/dbutil/dbutil.go\<close>): opening a database, the statements that create the tables and those
  that bring the tables of an older release to the layout of this one, for SQLite, PostgreSQL and MySQL.

  The lemmas show that no data is lost, when an update succeeds, and what a database without all levels leads to.  At the end the
  update of the layout is related to the rows of \<open>SQL_Store\<close>: it is the operation that the server runs when it opens
  a database.
\<close>

section \<open>SQLite\<close>

definition level_column :: column where
  "level_column = with_default (SInt 0) (mkcol ''level'' INTEGER)"

definition sqlite_users :: table where
  "sqlite_users = mktable [mkcol ''id'' (VARCHAR 255), mkcol ''token'' BLOB, mkcol ''type'' (VARCHAR 256),
     mkcol ''affiliation'' (VARCHAR 1024), mkcol ''attributes'' TEXT, mkcol ''state'' INTEGER,
     mkcol ''max_enrollments'' INTEGER, level_column] [] []"

definition sqlite_affiliations :: table where
  "sqlite_affiliations = mktable [notnull (mkcol ''name'' (VARCHAR 1024)), mkcol ''prekey'' (VARCHAR 1024), level_column]
     [] [[''name'']]"

definition sqlite_certificates :: table where
  "sqlite_certificates = mktable [mkcol ''id'' (VARCHAR 255), notnull (mkcol ''serial_number'' BLOB),
     notnull (mkcol ''authority_key_identifier'' BLOB), mkcol ''ca_label'' BLOB, notnull (mkcol ''status'' BLOB),
     mkcol ''reason'' INTEGER, mkcol ''expiry'' TIMESTAMP, mkcol ''revoked_at'' TIMESTAMP, notnull (mkcol ''pem'' BLOB),
     level_column] [''serial_number'', ''authority_key_identifier''] []"

definition sqlite_credentials :: table where
  "sqlite_credentials = mktable [mkcol ''id'' (VARCHAR 255), notnull (mkcol ''revocation_handle'' BLOB),
     notnull (mkcol ''cred'' BLOB), mkcol ''ca_label'' BLOB, notnull (mkcol ''status'' BLOB), mkcol ''reason'' INTEGER,
     mkcol ''expiry'' TIMESTAMP, mkcol ''revoked_at'' TIMESTAMP, level_column] [''revocation_handle''] []"

definition revocation_authority_info :: table where
  "revocation_authority_info = mktable [mkcol ''epoch'' INTEGER, mkcol ''next_handle'' INTEGER,
     mkcol ''lasthandle_in_pool'' INTEGER, level_column] [''epoch''] []"

definition sqlite_nonces :: table where
  "sqlite_nonces = mktable [notnull (mkcol ''val'' (VARCHAR 1024)), mkcol ''expiry'' TIMESTAMP, level_column] [''val''] [[''val'']]"

definition properties :: table where
  "properties = mktable [mkcol ''property'' (VARCHAR 255), mkcol ''value'' (VARCHAR 256)] [''property''] []"

definition createSQLiteIdentityTable :: "unit ddl" where
  "createSQLiteIdentityTable = mapErrE WithCause (Exec (create_table ''users'' sqlite_users))"

definition createSQLiteAffiliationTable :: "unit ddl" where
  "createSQLiteAffiliationTable = mapErrE WithCause (Exec (create_table ''affiliations'' sqlite_affiliations))"

definition createSQLiteCertificateTable :: "unit ddl" where
  "createSQLiteCertificateTable = mapErrE WithCause (Exec (create_table ''certificates'' sqlite_certificates))"

definition createSQLiteCredentialsTable :: "unit ddl" where
  "createSQLiteCredentialsTable = mapErrE WithCause (Exec (create_table ''credentials'' sqlite_credentials))"

definition createSQLiteRevocationComponentTable :: "unit ddl" where
  "createSQLiteRevocationComponentTable =
     mapErrE WithCause (Exec (create_table ''revocation_authority_info'' revocation_authority_info))"

definition createSQLiteNoncesTable :: "unit ddl" where
  "createSQLiteNoncesTable = mapErrE WithCause (Exec (create_table ''nonces'' sqlite_nonces))"

definition createAllSQLiteTables :: "unit ddl" where
  "createAllSQLiteTables =
     seqE createSQLiteIdentityTable
     (seqE createSQLiteAffiliationTable
     (seqE createSQLiteCertificateTable
     (seqE createSQLiteCredentialsTable
     (seqE createSQLiteRevocationComponentTable
     createSQLiteNoncesTable))))"

text \<open>The levels that a new database starts with.\<close>

definition level_names :: "string list" where
  "level_names = [''identity.level'', ''affiliation.level'', ''certificate.level'', ''credential.level'', ''rcinfo.level'', ''nonce.level'']"

definition property_row :: "string \<Rightarrow> string \<Rightarrow> row" where
  "property_row n v = (\<lambda>_. SNull)(''property'' := SText n, ''value'' := SText v)"

definition initial_levels :: "string \<Rightarrow> unit ddl" where
  "initial_levels dup =
     Exec (insert_values dup ''properties'' [''property'', ''value''] (map (\<lambda>n. property_row n ''0'') level_names))"

text \<open>The database server: whether a driver accepts a connection string, whether a connection can be made, and
  what becomes of the creation of a database.\<close>

record db_server =
  dv_open :: "string \<Rightarrow> string \<Rightarrow> bool"
  dv_ping :: "string \<Rightarrow> bool"
  dv_createDB :: "string \<Rightarrow> go_error option"

definition sqlx_Open :: "db_server \<Rightarrow> string \<Rightarrow> string \<Rightarrow> unit ddl" where
  "sqlx_Open V driver connStr = unlessE (dv_open V driver connStr) (WithCause (PlainErr ''Failed to open database''))"

definition createSQLiteDBTables :: "db_server \<Rightarrow> string \<Rightarrow> unit ddl" where
  "createSQLiteDBTables V datasource =
     seqE (sqlx_Open V ''sqlite3'' datasource)
     (seqE (ddl_doTransaction createAllSQLiteTables)
     (seqE (mapErrE WithCause (Exec (create_table ''properties'' properties)))
     (mapErrE WithCause (ignoring ''UNIQUE constraint failed'' (initial_levels sqlite_dup)))))"

definition NewUserRegistrySQLLite3 :: "db_server \<Rightarrow> string \<Rightarrow> unit ddl" where
  "NewUserRegistrySQLLite3 V datasource =
     seqE (mapErrE WithCause (createSQLiteDBTables V datasource))
     (sqlx_Open V ''sqlite3'' (datasource @ ''?_busy_timeout=5000''))"

section \<open>The update of the layout\<close>

text \<open>A value of the properties that is read into an integer.\<close>

definition Get_level :: "string \<Rightarrow> int ddl" where
  "Get_level n d =
     (if sd_faulty d then (Inl (SqlErr SqlOther), sd_pop d)
      else (case sd_tables d ''properties'' of
              None \<Rightarrow> (Inl (PlainErr ''no such table''), sd_pop d)
            | Some t \<Rightarrow>
                (case filter (\<lambda>r. r ''property'' = SText n) (tab_Rows t) of
                   [] \<Rightarrow> (Inl (SqlErr SqlNoRows), sd_pop d)
                 | r # _ \<Rightarrow>
                     (case r ''value'' of
                        SText v \<Rightarrow> (case strconv_Atoi v of Some i \<Rightarrow> (Inr i, sd_pop d)
                                     | None \<Rightarrow> (Inl (PlainErr ''Scan error''), sd_pop d))
                      | SInt i \<Rightarrow> (Inr i, sd_pop d)
                      | SNull \<Rightarrow> (Inl (PlainErr ''Scan error''), sd_pop d)))))"

definition currentDBLevels :: "Levels ddl" where
  "currentDBLevels =
     bindE (Get_level ''identity.level'') (\<lambda>identityLevel.
     bindE (Get_level ''affiliation.level'') (\<lambda>affiliationLevel.
     bindE (Get_level ''certificate.level'') (\<lambda>certificateLevel.
     bindE (Get_level ''credential.level'') (\<lambda>credentialLevel.
     bindE (Get_level ''rcinfo.level'') (\<lambda>rcinfoLevel.
     bindE (Get_level ''nonce.level'') (\<lambda>nonceLevel.
     returnE \<lparr>lv_Identity = identityLevel, lv_Affiliation = affiliationLevel, lv_Certificate = certificateLevel,
       lv_Credential = credentialLevel, lv_RAInfo = rcinfoLevel, lv_Nonce = nonceLevel\<rparr>))))))"

definition updateIdentitiesTable :: "int \<Rightarrow> unit ddl" where
  "updateIdentitiesTable identityLevel =
     (if identityLevel < 1
      then seqE (Exec (rename_table ''users'' ''users_old''))
           (seqE createSQLiteIdentityTable
           (seqE (Exec (insert_select sqlite_dup ''users''
                    [''id'', ''token'', ''type'', ''affiliation'', ''attributes'', ''state'', ''max_enrollments''] ''users_old''))
           (Exec (drop_table ''users_old''))))
      else returnE ())"

definition updateAffiliationsTable :: "int \<Rightarrow> unit ddl" where
  "updateAffiliationsTable affiliationLevel =
     (if affiliationLevel < 1
      then seqE (Exec (rename_table ''affiliations'' ''affiliations_old''))
           (seqE createSQLiteAffiliationTable
           (seqE (Exec (insert_select sqlite_dup ''affiliations'' [''name'', ''prekey''] ''affiliations_old''))
           (Exec (drop_table ''affiliations_old''))))
      else returnE ())"

definition updateCertificatesTable :: "int \<Rightarrow> unit ddl" where
  "updateCertificatesTable certificateLevel =
     (if certificateLevel < 1
      then seqE (Exec (rename_table ''certificates'' ''certificates_old''))
           (seqE createSQLiteCertificateTable
           (seqE (Exec (insert_select sqlite_dup ''certificates''
                    [''id'', ''serial_number'', ''authority_key_identifier'', ''ca_label'', ''status'', ''reason'', ''expiry'',
                     ''revoked_at'', ''pem''] ''certificates_old''))
           (Exec (drop_table ''certificates_old''))))
      else returnE ())"

definition whenE :: "bool \<Rightarrow> unit ddl \<Rightarrow> unit ddl" where
  "whenE b m = (if b then m else returnE ())"

definition updateSQLiteSchema :: "Levels \<Rightarrow> unit ddl" where
  "updateSQLiteSchema serverLevels =
     bindE currentDBLevels (\<lambda>currentLevels.
     seqE (whenE (lv_Identity currentLevels < lv_Identity serverLevels)
             (ddl_doTransaction (updateIdentitiesTable (lv_Identity currentLevels))))
     (seqE (whenE (lv_Affiliation currentLevels < lv_Affiliation serverLevels)
              (ddl_doTransaction (updateAffiliationsTable (lv_Affiliation currentLevels))))
     (whenE (lv_Certificate currentLevels < lv_Certificate serverLevels)
        (ddl_doTransaction (updateCertificatesTable (lv_Certificate currentLevels))))))"

section \<open>PostgreSQL\<close>

text \<open>But for the type of its binary data and the length of a nonce the layout is that of SQLite.\<close>

definition postgres_nonces :: table where
  "postgres_nonces = mktable [notnull (mkcol ''val'' (VARCHAR 255)), mkcol ''expiry'' TIMESTAMP, level_column] [''val''] [[''val'']]"

definition createPostgresTables :: "unit ddl" where
  "createPostgresTables =
     seqE (mapErrE WithCause (Exec (create_table ''users'' sqlite_users)))
     (seqE (mapErrE WithCause (Exec (create_table ''affiliations'' sqlite_affiliations)))
     (seqE (mapErrE WithCause (Exec (create_table ''certificates'' sqlite_certificates)))
     (seqE (mapErrE WithCause (Exec (create_table ''credentials'' sqlite_credentials)))
     (seqE (mapErrE WithCause (Exec (create_table ''revocation_authority_info'' revocation_authority_info)))
     (seqE (mapErrE WithCause (Exec (create_table ''nonces'' postgres_nonces)))
     (seqE (mapErrE WithCause (Exec (create_table ''properties'' properties)))
     (ignoring ''duplicate key'' (initial_levels postgres_dup))))))))"

text \<open>The connection attempts: the first database that answers ends them.  The result tells whether one did.\<close>

fun connectAny :: "db_server \<Rightarrow> string \<Rightarrow> string list \<Rightarrow> bool ddl" where
  "connectAny V datasource [] = returnE False"
| "connectAny V datasource (dbName # dbNames) =
     (let connStr = getConnStr datasource dbName in
      seqE (sqlx_Open V ''postgres'' connStr)
      (if dv_ping V connStr then returnE True else connectAny V datasource dbNames))"

definition createPostgresDatabase :: "db_server \<Rightarrow> string \<Rightarrow> unit ddl" where
  "createPostgresDatabase V dbName =
     (case dv_createDB V dbName of
        Some err \<Rightarrow> unlessE (error_contains (''database \"'' @ dbName @ ''\" already exists'') err) (WithCause err)
      | None \<Rightarrow> returnE ())"

definition postgresTLS :: "ClientTLSConfig \<Rightarrow> string \<Rightarrow> string" where
  "postgresTLS tls datasource =
     (if tls_Enabled tls
      then datasource @ (case tls_CertFiles tls of root # _ \<Rightarrow> '' sslrootcert='' @ root | [] \<Rightarrow> []) @
           '' sslcert='' @ tls_CertFile tls @ '' sslkey='' @ tls_KeyFile tls
      else datasource)"

definition NewUserRegistryPostgres :: "db_server \<Rightarrow> string \<Rightarrow> ClientTLSConfig \<Rightarrow> unit ddl" where
  "NewUserRegistryPostgres V datasource0 tls =
     (let dbName = getDBName datasource0; datasource = postgresTLS tls datasource0 in
      seqE (unlessE (\<not> (strings_Contains dbName ''-'' \<or> strings_HasSuffix dbName ''.db'')) (PlainErr ''Database name cannot contain a dash or end with .db''))
      (bindE (connectAny V datasource [dbName, ''postgres'', ''template1'']) (\<lambda>connected.
       seqE (unlessE connected (PlainErr ''Failed to connect to Postgres database''))
       (seqE (mapErrE WithCause (createPostgresDatabase V dbName))
       (seqE (sqlx_Open V ''postgres'' datasource)
       (mapErrE WithCause createPostgresTables))))))"

definition at_end :: "string list \<Rightarrow> nat" where
  "at_end cs = length cs"

definition updatePostgresSchema :: "unit ddl" where
  "updatePostgresSchema =
     seqE (Exec (modify_columns ''users'' [(''id'', VARCHAR 255), (''type'', VARCHAR 256), (''affiliation'', VARCHAR 1024)] alter_type))
     (seqE (Exec (modify_columns ''users'' [(''attributes'', TEXT)] alter_type))
     (seqE (ignoring ''already exists'' (Exec (add_column ''pq: column \"level\" of relation already exists'' ''users'' at_end level_column)))
     (seqE (ignoring ''already exists'' (Exec (add_column ''pq: column \"level\" of relation already exists'' ''certificates'' at_end level_column)))
     (seqE (ignoring ''already exists'' (Exec (add_column ''pq: column \"level\" of relation already exists'' ''affiliations'' at_end level_column)))
     (seqE (Exec (modify_columns ''affiliations'' [(''name'', VARCHAR 1024), (''prekey'', VARCHAR 1024)] alter_type))
     (Exec (modify_columns ''certificates'' [(''id'', VARCHAR 255)] alter_type)))))))"

section \<open>MySQL\<close>

definition mysql_users :: table where
  "mysql_users = mktable [notnull (mkcol ''id'' (VARCHAR 255)), mkcol ''token'' BLOB, mkcol ''type'' (VARCHAR 256),
     mkcol ''affiliation'' (VARCHAR 1024), mkcol ''attributes'' TEXT, mkcol ''state'' INTEGER,
     mkcol ''max_enrollments'' INTEGER, level_column] [''id''] []"

definition mysql_affiliations :: table where
  "mysql_affiliations = mktable [notnull (mkcol ''id'' INTEGER), notnull (mkcol ''name'' (VARCHAR 1024)),
     mkcol ''prekey'' (VARCHAR 1024), level_column] [''id''] []"

definition mysql_certificates :: table where
  "mysql_certificates = mktable [mkcol ''id'' (VARCHAR 255), notnull (mkcol ''serial_number'' (VARBINARY 128)),
     notnull (mkcol ''authority_key_identifier'' (VARBINARY 128)), mkcol ''ca_label'' (VARBINARY 128),
     notnull (mkcol ''status'' (VARBINARY 128)), mkcol ''reason'' INTEGER, with_default (SInt 0) (mkcol ''expiry'' TIMESTAMP),
     with_default (SInt 0) (mkcol ''revoked_at'' TIMESTAMP), notnull (mkcol ''pem'' (VARBINARY 4096)), level_column]
     [''serial_number'', ''authority_key_identifier''] []"

definition mysql_credentials :: table where
  "mysql_credentials = mktable [mkcol ''id'' (VARCHAR 255), notnull (mkcol ''revocation_handle'' (VARBINARY 128)),
     notnull (mkcol ''cred'' (VARBINARY 4096)), mkcol ''ca_label'' (VARBINARY 128), notnull (mkcol ''status'' (VARBINARY 128)),
     mkcol ''reason'' INTEGER, with_default (SInt 0) (mkcol ''expiry'' TIMESTAMP),
     with_default (SInt 0) (mkcol ''revoked_at'' TIMESTAMP), level_column] [''revocation_handle''] []"

definition mysql_nonces :: table where
  "mysql_nonces = mktable [notnull (mkcol ''val'' (VARCHAR 255)), mkcol ''expiry'' TIMESTAMP, level_column] [''val''] []"

definition createMySQLTables :: "unit ddl" where
  "createMySQLTables =
     seqE (mapErrE WithCause (Exec (create_table ''users'' mysql_users)))
     (seqE (mapErrE WithCause (Exec (create_table ''affiliations'' mysql_affiliations)))
     (seqE (mapErrE WithCause (ignoring ''Error 1061'' (Exec (add_index ''affiliations'' ''name_index''))))
     (seqE (mapErrE WithCause (Exec (create_table ''certificates'' mysql_certificates)))
     (seqE (mapErrE WithCause (Exec (create_table ''credentials'' mysql_credentials)))
     (seqE (mapErrE WithCause (Exec (create_table ''revocation_authority_info'' revocation_authority_info)))
     (seqE (mapErrE WithCause (Exec (create_table ''nonces'' mysql_nonces)))
     (seqE (mapErrE WithCause (Exec (create_table ''properties'' properties)))
     (ignoring ''1062'' (initial_levels mysql_dup)))))))))"

definition createMySQLDatabase :: "db_server \<Rightarrow> string \<Rightarrow> unit ddl" where
  "createMySQLDatabase V dbName =
     (case dv_createDB V dbName of Some err \<Rightarrow> throwE (WithCause err) | None \<Rightarrow> returnE ())"

text \<open>\<open>tlsConfig\<close> is what \<open>GetClientTLSConfig\<close> returns.\<close>

definition NewUserRegistryMySQL :: "db_server \<Rightarrow> string \<Rightarrow> ClientTLSConfig \<Rightarrow> unit result \<Rightarrow> unit ddl" where
  "NewUserRegistryMySQL V datasource tls tlsConfig =
     (let dbName = getDBName datasource; connStr = mysqlConnStr datasource in
      seqE (if tls_Enabled tls then mapErrE WithCause (liftE tlsConfig) else returnE ())
      (seqE (sqlx_Open V ''mysql'' connStr)
      (seqE (unlessE (dv_ping V connStr) (WithCause (PlainErr ''Failed to connect to MySQL database'')))
      (seqE (mapErrE WithCause (createMySQLDatabase V dbName))
      (seqE (sqlx_Open V ''mysql'' datasource)
      (mapErrE WithCause createMySQLTables))))))"

definition updateMySQLSchema :: "unit ddl" where
  "updateMySQLSchema =
     seqE (Exec (modify_columns ''users'' [(''id'', VARCHAR 255), (''type'', VARCHAR 256), (''affiliation'', VARCHAR 1024)] redefine))
     (seqE (Exec (modify_columns ''users'' [(''attributes'', TEXT)] redefine))
     (seqE (ignoring ''1060'' (Exec (add_column ''Error 1060: Duplicate column name'' ''users'' (position ''max_enrollments'') level_column)))
     (seqE (ignoring ''1060'' (Exec (add_column ''Error 1060: Duplicate column name'' ''certificates'' (position ''pem'') level_column)))
     (seqE (ignoring ''1060'' (Exec (add_column ''Error 1060: Duplicate column name'' ''affiliations'' (position ''prekey'') level_column)))
     (seqE (ignoring ''Error 1091'' (Exec (drop_index ''affiliations'' ''name'')))
     (seqE (ignoring ''1060'' (Exec (add_id_column ''affiliations'' ''id'')))
     (seqE (Exec (modify_columns ''affiliations'' [(''name'', VARCHAR 1024), (''prekey'', VARCHAR 1024)] redefine))
     (seqE (ignoring ''Error 1061'' (Exec (add_index ''affiliations'' ''name_index'')))
     (Exec (modify_columns ''certificates'' [(''id'', VARCHAR 255)] redefine))))))))))"

definition UpdateSchema :: "Levels \<Rightarrow> unit ddl" where
  "UpdateSchema levels =
     bindE (getE sd_driver) (\<lambda>driver.
     if driver = ''sqlite3'' then updateSQLiteSchema levels
     else if driver = ''mysql'' then updateMySQLSchema
     else if driver = ''postgres'' then updatePostgresSchema
     else throwE (PlainErr ''Unsupported database type''))"

section \<open>No data is lost\<close>

lemma sd_pop_simps [simp]: "sd_tables (sd_pop d) = sd_tables d" "sd_driver (sd_pop d) = sd_driver d"
  by (simp_all add: sd_pop_def)

lemma sd_pop_none [simp]: "sd_faults d = [] \<Longrightarrow> sd_pop d = d"
  by (cases d) (simp add: sd_pop_def)

lemma Exec_Inr [em_simps]:
  "Exec st d = (Inr u, d') \<longleftrightarrow> \<not> sd_faulty d \<and> (\<exists>ts. st (sd_tables d) = Inr ts \<and> d' = (sd_pop d)\<lparr>sd_tables := ts\<rparr>)"
  by (auto simp: Exec_def split: sum.splits)

text \<open>The data of a table: the values of the columns that are not added by an update.\<close>

definition data_columns :: "string \<Rightarrow> string list" where
  "data_columns n =
     (if n = ''users'' then [''id'', ''token'', ''type'', ''affiliation'', ''attributes'', ''state'', ''max_enrollments'']
      else if n = ''affiliations'' then [''name'', ''prekey'']
      else if n = ''certificates'' then [''id'', ''serial_number'', ''authority_key_identifier'', ''ca_label'', ''status'', ''reason'',
        ''expiry'', ''revoked_at'', ''pem'']
      else [])"

definition data :: "string \<Rightarrow> catalog \<Rightarrow> sqlval list list option" where
  "data n ts = map_option (\<lambda>t. map (\<lambda>r. map r (data_columns n)) (tab_Rows t)) (ts n)"

definition updated :: "string set" where
  "updated = {''users'', ''affiliations'', ''certificates''}"

text \<open>The catalogs with the same data: other tables are not touched at all.\<close>

definition same_data :: "catalog \<Rightarrow> schemadb \<Rightarrow> bool" where
  "same_data ts d \<longleftrightarrow> (\<forall>n \<in> updated. data n (sd_tables d) = data n ts) \<and> (\<forall>n. n \<notin> updated \<longrightarrow> sd_tables d n = ts n)"

lemma keeps_on_table:
  assumes n: "n \<in> updated" and f: "\<And>t t'. f t = Inr t' \<Longrightarrow>
      map (\<lambda>r. map r (data_columns n)) (tab_Rows t') = map (\<lambda>r. map r (data_columns n)) (tab_Rows t)"
  shows "keeps (same_data ts) (Exec (on_table n f))"
proof (rule keepsI)
  fix d r d'
  assume same: "same_data ts d" and run: "Exec (on_table n f) d = (r, d')"
  show "same_data ts d'"
  proof (cases "sd_tables d' = sd_tables d")
    case True
    then show ?thesis using same by (simp add: same_data_def)
  next
    case False
    then obtain t t' where "sd_tables d n = Some t" "f t = Inr t'" "sd_tables d' = (sd_tables d)(n \<mapsto> t')"
      using run by (auto simp: Exec_def on_table_def split: if_splits sum.splits option.splits)
    then show ?thesis using same f n by (auto simp: same_data_def data_def)
  qed
qed

lemma keeps_ignoring [keeps_intros]: "keeps I m \<Longrightarrow> keeps I (ignoring part m)"
  unfolding ignoring_def by (intro keeps_intros)

lemma updated_simps [simp]: "''users'' \<in> updated" "''affiliations'' \<in> updated" "''certificates'' \<in> updated"
  by (simp_all add: updated_def)

lemma fresh_column: "c \<notin> set cols \<Longrightarrow> map (r(c := v)) cols = map r cols"
  by simp

lemma keeps_modify: "n \<in> updated \<Longrightarrow> keeps (same_data ts) (Exec (modify_columns n ch f))"
  unfolding modify_columns_def by (rule keeps_on_table) (auto split: if_splits)

lemma keeps_add:
  "n \<in> updated \<Longrightarrow> col_Name c \<notin> set (data_columns n) \<Longrightarrow> keeps (same_data ts) (Exec (add_column dup n place c))"
  unfolding add_column_def by (rule keeps_on_table) (auto split: if_splits)

lemma keeps_index:
  "n \<in> updated \<Longrightarrow> keeps (same_data ts) (Exec (add_index n i))"
  "n \<in> updated \<Longrightarrow> keeps (same_data ts) (Exec (drop_index n i))"
  unfolding add_index_def drop_index_def by (rule keeps_on_table; auto split: if_splits)+

lemma keeps_id:
  assumes "n \<in> updated" and "c \<notin> set (data_columns n)"
  shows "keeps (same_data ts) (Exec (add_id_column n c))"
proof -
  have "map (\<lambda>(i, r). map (r(c := SInt (int i))) (data_columns n)) (enumerate k rs) = map (\<lambda>r. map r (data_columns n)) rs" for k rs
    using assms(2) by (induction rs arbitrary: k) simp_all
  then show ?thesis
    unfolding add_id_column_def
    by (intro keeps_on_table assms(1)) (auto simp: case_prod_unfold comp_def split: if_splits)
qed

lemmas keeps_statements = keeps_modify keeps_add keeps_index keeps_id

lemma keeps_MySQL: "keeps (same_data ts) updateMySQLSchema"
  unfolding updateMySQLSchema_def
  by (intro keeps_seqE keeps_ignoring keeps_statements) (simp_all add: data_columns_def level_column_def with_default_def mkcol_def)

lemma keeps_Postgres: "keeps (same_data ts) updatePostgresSchema"
  unfolding updatePostgresSchema_def
  by (intro keeps_seqE keeps_ignoring keeps_statements) (simp_all add: data_columns_def level_column_def with_default_def mkcol_def)

text \<open>The way in which SQLite's tables are rebuilt.\<close>

definition rebuilt :: "table \<Rightarrow> string list \<Rightarrow> table \<Rightarrow> table" where
  "rebuilt new cols old = new\<lparr>tab_Rows := map (complete_row new cols) (tab_Rows old)\<rparr>"

definition can_rebuild :: "table \<Rightarrow> string list \<Rightarrow> table \<Rightarrow> bool" where
  "can_rebuild new cols old \<longleftrightarrow> set cols \<subseteq> set (col_names old) \<and> set cols \<subseteq> set (col_names new) \<and>
     list_all (notnull_ok new) (map (complete_row new cols) (tab_Rows old)) \<and> unique_ok (rebuilt new cols old)"

lemma insert_select_Inr:
  "insert_select dup n cols src ts = Inr ts' \<longleftrightarrow>
     (\<exists>s t. ts src = Some s \<and> ts n = Some t \<and> set cols \<subseteq> set (col_names s) \<and>
        insert_rows dup cols (tab_Rows s) t = Inr (the (ts' n)) \<and> ts' = ts(n \<mapsto> the (ts' n)))"
  by (auto simp: insert_select_def insert_values_def on_table_def split: option.splits sum.splits if_splits)

lemma insert_rows_empty:
  "tab_Rows new = [] \<Longrightarrow> set cols \<subseteq> set (col_names old) \<Longrightarrow>
   insert_rows dup cols (tab_Rows old) new = Inr t \<longleftrightarrow> can_rebuild new cols old \<and> t = rebuilt new cols old"
  by (auto simp: insert_rows_def can_rebuild_def rebuilt_def Let_def)

lemma rebuildD:
  assumes ne: "a \<noteq> b" and new: "tab_Rows new = []"
    and run: "seqE (Exec (rename_table a b)) (seqE (mapErrE WithCause (Exec (create_table a new)))
      (seqE (Exec (insert_select dup a cols b)) (Exec (drop_table b)))) d = (Inr u, d')"
  shows "\<exists>old. sd_tables d a = Some old \<and> sd_tables d b = None \<and> can_rebuild new cols old \<and>
    sd_tables d' = (sd_tables d)(a \<mapsto> rebuilt new cols old)"
proof -
  obtain ts1 ts2 ts3 where ts1: "rename_table a b (sd_tables d) = Inr ts1" and ts2: "create_table a new ts1 = Inr ts2"
    and ts3: "insert_select dup a cols b ts2 = Inr ts3" and ts4: "drop_table b ts3 = Inr (sd_tables d')"
    using run by (auto simp: seqE_Inr mapErrE_Inr Exec_Inr)
  obtain old where old: "sd_tables d a = Some old" "sd_tables d b = None" "ts1 = ((sd_tables d)(a := None))(b \<mapsto> old)"
    using ts1 by (auto simp: rename_table_def split: option.splits if_splits)
  have "ts2 = ts1(a \<mapsto> new)" using ts2 old ne by (simp add: create_table_def)
  then have 3: "can_rebuild new cols old" "ts3 = ts2(a \<mapsto> rebuilt new cols old)"
    using ts3 old ne by (auto simp: insert_select_Inr insert_rows_empty [OF new])
  have "sd_tables d' = ts3(b := None)" using ts4 by (auto simp: drop_table_def split: option.splits)
  then have "sd_tables d' = (sd_tables d)(a \<mapsto> rebuilt new cols old)"
    using old(2) ne by (simp add: 3(2) \<open>ts2 = ts1(a \<mapsto> new)\<close> old(3) fun_eq_iff)
  with old 3 show ?thesis by blast
qed

lemma Exec_run: "sd_faults d = [] \<Longrightarrow> st (sd_tables d) = Inr ts \<Longrightarrow> Exec st d = (Inr (), d\<lparr>sd_tables := ts\<rparr>)"
  by (simp add: Exec_def sd_faulty_def sd_pop_def)

lemma rebuildI:
  assumes ne: "a \<noteq> b" and new: "tab_Rows new = []" and ok: "sd_faults d = []" "sd_tables d a = Some old"
      "sd_tables d b = None" "can_rebuild new cols old"
  shows "seqE (Exec (rename_table a b)) (seqE (mapErrE WithCause (Exec (create_table a new)))
      (seqE (Exec (insert_select dup a cols b)) (Exec (drop_table b)))) d =
    (Inr (), d\<lparr>sd_tables := (sd_tables d)(a \<mapsto> rebuilt new cols old)\<rparr>)"
proof -
  let ?ts1 = "((sd_tables d)(a := None))(b \<mapsto> old)"
  let ?ts2 = "?ts1(a \<mapsto> new)" and ?ts3 = "?ts1(a \<mapsto> rebuilt new cols old)"
  have "rename_table a b (sd_tables d) = Inr ?ts1" using ok by (simp add: rename_table_def)
  moreover have "create_table a new ?ts1 = Inr ?ts2" using ne by (simp add: create_table_def)
  moreover have "set cols \<subseteq> set (col_names old)" using ok(4) by (simp add: can_rebuild_def)
  then have "insert_rows dup cols (tab_Rows old) new = Inr (rebuilt new cols old)"
    using insert_rows_empty [OF new] ok(4) by simp
  then have "insert_select dup a cols b ?ts2 = Inr ?ts3"
    using ne \<open>set cols \<subseteq> set (col_names old)\<close> by (simp add: insert_select_def insert_values_def on_table_def)
  moreover have "drop_table b ?ts3 = Inr ((sd_tables d)(a \<mapsto> rebuilt new cols old))"
    using ne ok(3) by (auto simp: drop_table_def fun_eq_iff)
  ultimately show ?thesis
    using ok(1) by (simp add: seqE_def bindE_def mapErrE_def Exec_run)
qed

lemmas layout_defs = sqlite_users_def sqlite_affiliations_def sqlite_certificates_def mktable_def

lemmas rebuild_defs = updateIdentitiesTable_def updateAffiliationsTable_def updateCertificatesTable_def
  createSQLiteIdentityTable_def createSQLiteAffiliationTable_def createSQLiteCertificateTable_def

lemma rebuilt_data [simp]:
  "map (\<lambda>r. map r cols) (tab_Rows (rebuilt new cols old)) = map (\<lambda>r. map r cols) (tab_Rows old)"
  by (simp add: rebuilt_def complete_row_def)

lemma rebuilt_same_data:
  assumes "same_data ts d" and "n \<in> updated" and "sd_tables d n = Some old"
    and "sd_tables d' = (sd_tables d)(n \<mapsto> rebuilt new (data_columns n) old)"
  shows "same_data ts d'"
  using assms by (auto simp: same_data_def data_def)

text \<open>A transaction keeps what its body keeps when it succeeds.\<close>

lemma keeps_ddl_doTransaction:
  assumes "\<And>d d'. doit d = (Inr (), d') \<Longrightarrow> same_data ts d \<Longrightarrow> same_data ts d'"
  shows "keeps (same_data ts) (ddl_doTransaction doit)"
proof (rule keepsI)
  fix d r d'
  assume same: "same_data ts d" and run: "ddl_doTransaction doit d = (r, d')"
  have pop: "same_data ts (sd_pop d)" using same by (simp add: same_data_def)
  show "same_data ts d'"
  proof (cases "sd_tables d' = sd_tables d")
    case False
    then obtain d1 where "doit (sd_pop d) = (Inr (), d1)" "d' = sd_pop d1"
      using run by (auto simp: ddl_doTransaction_def split: if_splits sum.splits prod.splits)
    then show ?thesis using assms [OF _ pop] by (simp add: same_data_def)
  qed (use same in \<open>simp add: same_data_def\<close>)
qed

lemma rebuild_keeps:
  assumes "n \<in> updated" and "n \<noteq> b" and "tab_Rows new = []"
  shows "keeps (same_data ts) (ddl_doTransaction (if l < (1 :: int)
      then seqE (Exec (rename_table n b)) (seqE (mapErrE WithCause (Exec (create_table n new)))
        (seqE (Exec (insert_select dup n (data_columns n) b)) (Exec (drop_table b))))
      else returnE ()))"
  by (rule keeps_ddl_doTransaction)
    (use assms in \<open>auto split: if_splits dest!: rebuildD [OF assms(2,3)] intro: rebuilt_same_data\<close>)

lemma data_columns_simps:
  "[''id'', ''token'', ''type'', ''affiliation'', ''attributes'', ''state'', ''max_enrollments''] = data_columns ''users''"
  "[''name'', ''prekey''] = data_columns ''affiliations''"
  "[''id'', ''serial_number'', ''authority_key_identifier'', ''ca_label'', ''status'', ''reason'', ''expiry'', ''revoked_at'', ''pem'']
     = data_columns ''certificates''"
  by (simp_all add: data_columns_def)

lemma update_tables_keep:
  "keeps (same_data ts) (ddl_doTransaction (updateIdentitiesTable l))"
  "keeps (same_data ts) (ddl_doTransaction (updateAffiliationsTable l))"
  "keeps (same_data ts) (ddl_doTransaction (updateCertificatesTable l))"
  unfolding rebuild_defs data_columns_simps by (rule rebuild_keeps; simp add: layout_defs)+

lemma keeps_Get_level: "keeps (same_data ts) (Get_level n)"
  by (rule keepsI) (auto simp: Get_level_def same_data_def split: if_splits option.splits list.splits sqlval.splits)

lemma keeps_SQLite: "keeps (same_data ts) (updateSQLiteSchema levels)"
  unfolding updateSQLiteSchema_def currentDBLevels_def whenE_def
  by (intro keeps_intros keeps_Get_level update_tables_keep)

lemma UpdateSchema_same_data: "UpdateSchema levels d = (r, d') \<Longrightarrow> same_data (sd_tables d) d'"
proof -
  assume run: "UpdateSchema levels d = (r, d')"
  have "keeps (same_data (sd_tables d)) (UpdateSchema levels)"
    unfolding UpdateSchema_def by (intro keeps_intros keeps_SQLite keeps_MySQL keeps_Postgres)
  from keepsD [OF this run] show ?thesis by (simp add: same_data_def)
qed

text \<open>C14: the update of the layout loses no data.  For every driver and every layout the database may have, and whether the update
  succeeds, is refused, or stops at a statement that fails: the three tables still have all their rows, in order and with
  the values of all columns that were there, and no other table is touched.\<close>

theorem UpdateSchema_keeps_data:
  assumes "UpdateSchema levels d = (r, d')"
  shows "(\<forall>n \<in> {''users'', ''affiliations'', ''certificates''}. data n (sd_tables d') = data n (sd_tables d)) \<and>
    (\<forall>n. n \<notin> {''users'', ''affiliations'', ''certificates''} \<longrightarrow> sd_tables d' n = sd_tables d n)"
  using UpdateSchema_same_data [OF assms] by (simp add: same_data_def updated_def)

section \<open>An update that succeeds\<close>

lemma doTransaction_run:
  "sd_faults d = [] \<Longrightarrow> doit d = (Inr (), d\<lparr>sd_tables := ts\<rparr>) \<Longrightarrow> ddl_doTransaction doit d = (Inr (), d\<lparr>sd_tables := ts\<rparr>)"
  by (simp add: ddl_doTransaction_def sd_faulty_def)

text \<open>A table that can be brought to the layout \<open>new\<close>.\<close>

definition upgradable :: "string \<Rightarrow> string \<Rightarrow> table \<Rightarrow> schemadb \<Rightarrow> bool" where
  "upgradable n old new d \<longleftrightarrow> sd_tables d old = None \<and>
     (\<exists>t. sd_tables d n = Some t \<and> can_rebuild new (data_columns n) t)"

definition rebuilt_in :: "string \<Rightarrow> table \<Rightarrow> catalog \<Rightarrow> catalog" where
  "rebuilt_in n new ts = ts(n \<mapsto> rebuilt new (data_columns n) (the (ts n)))"

lemma upgrade_run:
  assumes "upgradable n b new d" and "n \<noteq> b" and "tab_Rows new = []" and "sd_faults d = []" and "l < (1 :: int)"
  shows "ddl_doTransaction (if l < 1
      then seqE (Exec (rename_table n b)) (seqE (mapErrE WithCause (Exec (create_table n new)))
        (seqE (Exec (insert_select dup n (data_columns n) b)) (Exec (drop_table b))))
      else returnE ()) d = (Inr (), d\<lparr>sd_tables := rebuilt_in n new (sd_tables d)\<rparr>)"
  using assms rebuildI [OF assms(2,3,4)]
  by (auto simp: upgradable_def rebuilt_in_def intro!: doTransaction_run)

definition has_layout :: "string \<Rightarrow> table \<Rightarrow> schemadb \<Rightarrow> bool" where
  "has_layout n new d \<longleftrightarrow>
     (\<exists>t. sd_tables d n = Some t \<and> tab_Columns t = tab_Columns new \<and> unique_keys t = unique_keys new \<and> unique_ok t)"

lemma rebuilt_layout: "upgradable n b new d \<Longrightarrow> has_layout n new (d\<lparr>sd_tables := rebuilt_in n new (sd_tables d)\<rparr>)"
  by (auto simp: has_layout_def upgradable_def rebuilt_in_def can_rebuild_def rebuilt_def unique_keys_def)

text \<open>The upgrade of a SQLite database of the first layout succeeds.  When the statements are answered and the three tables
  have their columns and respect the keys of this release, the update ends without an error and
  leaves each of them with the columns and keys of this release.\<close>

theorem UpdateSchema_upgrades:
  assumes "sd_driver d = ''sqlite3''" and "sd_faults d = []" and levels: "currentDBLevels d = (Inr cur, d)"
    and cur: "lv_Identity cur < 1" "lv_Affiliation cur < 1" "lv_Certificate cur < 1"
    and server: "1 \<le> lv_Identity levels" "1 \<le> lv_Affiliation levels" "1 \<le> lv_Certificate levels"
    and up: "upgradable ''users'' ''users_old'' sqlite_users d"
      "upgradable ''affiliations'' ''affiliations_old'' sqlite_affiliations d"
      "upgradable ''certificates'' ''certificates_old'' sqlite_certificates d"
  shows "\<exists>d'. UpdateSchema levels d = (Inr (), d') \<and> has_layout ''users'' sqlite_users d' \<and>
    has_layout ''affiliations'' sqlite_affiliations d' \<and> has_layout ''certificates'' sqlite_certificates d'"
proof -
  let ?u = "rebuilt_in ''users'' sqlite_users (sd_tables d)"
  let ?a = "rebuilt_in ''affiliations'' sqlite_affiliations ?u"
  let ?c = "rebuilt_in ''certificates'' sqlite_certificates ?a"
  have rows: "tab_Rows sqlite_users = []" "tab_Rows sqlite_affiliations = []" "tab_Rows sqlite_certificates = []"
    by (simp_all add: layout_defs)
  have aff: "upgradable ''affiliations'' ''affiliations_old'' sqlite_affiliations (d\<lparr>sd_tables := ?u\<rparr>)"
    using up(2) by (simp add: upgradable_def rebuilt_in_def)
  have cert: "upgradable ''certificates'' ''certificates_old'' sqlite_certificates (d\<lparr>sd_tables := ?a\<rparr>)"
    using up(3) by (simp add: upgradable_def rebuilt_in_def)
  note run = upgrade_run [of _ _ _ _ _ sqlite_dup]
  have "ddl_doTransaction (updateIdentitiesTable (lv_Identity cur)) d = (Inr (), d\<lparr>sd_tables := ?u\<rparr>)"
    unfolding rebuild_defs data_columns_simps using run [OF up(1) _ rows(1) _ cur(1)] assms(2) by simp
  moreover have "ddl_doTransaction (updateAffiliationsTable (lv_Affiliation cur)) (d\<lparr>sd_tables := ?u\<rparr>) = (Inr (), d\<lparr>sd_tables := ?a\<rparr>)"
    unfolding rebuild_defs data_columns_simps using run [OF aff _ rows(2) _ cur(2)] assms(2) by simp
  moreover have "ddl_doTransaction (updateCertificatesTable (lv_Certificate cur)) (d\<lparr>sd_tables := ?a\<rparr>) = (Inr (), d\<lparr>sd_tables := ?c\<rparr>)"
    unfolding rebuild_defs data_columns_simps using run [OF cert _ rows(3) _ cur(3)] assms(2) by simp
  ultimately have "UpdateSchema levels d = (Inr (), d\<lparr>sd_tables := ?c\<rparr>)"
    using assms(1) levels cur server by (simp add: UpdateSchema_def updateSQLiteSchema_def bindE_def getE_def seqE_def whenE_def)
  moreover have "has_layout ''users'' sqlite_users (d\<lparr>sd_tables := ?c\<rparr>)"
    using rebuilt_layout [OF up(1)] by (simp add: has_layout_def rebuilt_in_def)
  moreover have "has_layout ''affiliations'' sqlite_affiliations (d\<lparr>sd_tables := ?c\<rparr>)"
    using rebuilt_layout [OF aff] by (simp add: has_layout_def rebuilt_in_def)
  moreover have "has_layout ''certificates'' sqlite_certificates (d\<lparr>sd_tables := ?c\<rparr>)"
    using rebuilt_layout [OF cert] by simp
  ultimately show ?thesis by blast
qed

section \<open>Levels that are missing\<close>

lemma keeps_create:
  "sd_tables d n = Some t \<Longrightarrow> Exec (create_table m new) d = (r, d') \<Longrightarrow> sd_tables d' n = Some t"
  by (auto simp: Exec_def create_table_def split: if_splits sum.splits option.splits)

lemma keeps_create_table [keeps_intros]: "keeps (\<lambda>d. sd_tables d n = Some t) (Exec (create_table m new))"
  by (rule keepsI) (rule keeps_create)

lemma keeps_transaction_table:
  assumes "keeps (\<lambda>d. sd_tables d n = Some t) doit" shows "keeps (\<lambda>d. sd_tables d n = Some t) (ddl_doTransaction doit)"
proof (rule keepsI)
  fix d r d'
  assume d: "sd_tables d n = Some t" and run: "ddl_doTransaction doit d = (r, d')"
  have "sd_tables (snd (doit (sd_pop d))) n = Some t" using assms d by (simp add: keeps_def)
  then show "sd_tables d' n = Some t"
    using d run by (auto simp: ddl_doTransaction_def split: if_splits prod.splits sum.splits)
qed

lemma key_values_append: "key_values k (rs @ rs') = key_values k rs @ key_values k rs'"
  by (simp add: key_values_def)

text \<open>When one of the levels is there, no level is inserted.\<close>

lemma initial_levels_clash:
  assumes "tab_Primary t = [''property'']" and "r \<in> set (tab_Rows t)" and "r ''property'' = SText ''identity.level''"
  shows "keeps (\<lambda>d. sd_tables d ''properties'' = Some t) (initial_levels dup)"
proof -
  let ?cols = "[''property'', ''value'']" and ?new = "map (\<lambda>n. property_row n ''0'') level_names"
  let ?t = "t\<lparr>tab_Rows := tab_Rows t @ map (complete_row t ?cols) ?new\<rparr>"
  have "r \<in> set (filter (\<lambda>r. \<forall>c \<in> set [''property'']. r c \<noteq> SNull) (tab_Rows t))" using assms(2,3) by simp
  then have "map r [''property''] \<in> set (key_values [''property''] (tab_Rows t))"
    unfolding key_values_def set_map by (rule imageI)
  then have old: "[SText ''identity.level''] \<in> set (key_values [''property''] (tab_Rows t))" using assms(3) by simp
  have "complete_row t ?cols (property_row ''identity.level'' ''0'') ''property'' = SText ''identity.level''"
    by (simp add: complete_row_def property_row_def)
  then have "[SText ''identity.level''] \<in> set (key_values [''property''] (map (complete_row t ?cols) ?new))"
    by (simp add: key_values_def level_names_def)
  with old have "\<not> distinct (key_values [''property''] (tab_Rows ?t))"
    by (auto simp: key_values_append)
  then have "\<not> unique_ok ?t" using assms(1) by (simp add: unique_ok_def unique_keys_def)
  then have "insert_rows dup ?cols ?new t \<noteq> Inr t'" for t' by (simp add: insert_rows_def Let_def)
  then show ?thesis
    by (intro keepsI) (auto simp: initial_levels_def Exec_def insert_values_def on_table_def split: if_splits sum.splits)
qed

text \<open>A database that lacks a level cannot be opened.  When the table of properties has a row for \<open>identity.level\<close> but none
  for \<open>credential.level\<close>, as a release without credentials leaves it, the levels are not completed, because the one statement
  that inserts all of them is refused, and the update of the layout always fails.\<close>

theorem missing_level_fails:
  assumes props: "sd_tables d ''properties'' = Some t" "tab_Primary t = [''property'']"
    and has: "r \<in> set (tab_Rows t)" "r ''property'' = SText ''identity.level''"
    and lacks: "\<forall>r \<in> set (tab_Rows t). r ''property'' \<noteq> SText ''credential.level''"
  shows "fst (seqE (createSQLiteDBTables V ds) (updateSQLiteSchema levels) d) \<noteq> Inr ()"
proof
  let ?m = "seqE (createSQLiteDBTables V ds) (updateSQLiteSchema levels)"
  assume "fst (?m d) = Inr ()"
  then have "?m d = (Inr (), snd (?m d))" by (simp add: prod_eq_iff)
  then obtain u d1 d2 where create: "createSQLiteDBTables V ds d = (Inr u, d1)" and update: "updateSQLiteSchema levels d1 = (Inr (), d2)"
    unfolding seqE_Inr by blast
  let ?I = "\<lambda>d. sd_tables d ''properties'' = Some t"
  have "keeps ?I (createSQLiteDBTables V ds)"
    unfolding createSQLiteDBTables_def createAllSQLiteTables_def createSQLiteIdentityTable_def createSQLiteAffiliationTable_def
      createSQLiteCertificateTable_def createSQLiteCredentialsTable_def createSQLiteRevocationComponentTable_def createSQLiteNoncesTable_def sqlx_Open_def
    by (intro keeps_seqE keeps_mapErrE keeps_ignoring keeps_transaction_table keeps_create_table keeps_atom initial_levels_clash [OF props(2) has])
  from keepsD [OF this create] props(1) have I: "?I d1" by simp
  have step: "?I d'" if "Get_level n d = (Inr l, d')" "?I d" for n d l d'
    using that by (auto simp: Get_level_def split: if_splits option.splits list.splits sqlval.splits)
  have "filter (\<lambda>r. r ''property'' = SText ''credential.level'') (tab_Rows t) = []"
    using lacks by (simp only: filter_empty_conv)
  then have none: "Get_level ''credential.level'' d \<noteq> (Inr l, d')" if "?I d" for d l d'
    using that by (simp add: Get_level_def)
  obtain cur d3 where "currentDBLevels d1 = (Inr cur, d3)"
    using update unfolding updateSQLiteSchema_def by (subst (asm) bindE_Inr) blast
  then obtain l1 e1 l2 e2 l3 e3 l4 e4 where "Get_level ''identity.level'' d1 = (Inr l1, e1)" "Get_level ''affiliation.level'' e1 = (Inr l2, e2)"
      "Get_level ''certificate.level'' e2 = (Inr l3, e3)" "Get_level ''credential.level'' e3 = (Inr l4, e4)"
    unfolding currentDBLevels_def bindE_Inr by blast
  then show False using none [OF step [OF _ step [OF _ step [OF _ I]]]] by simp
qed

section \<open>The update as an operation on the rows\<close>

text \<open>The rows of \<open>SQL_Store\<close> in the tables of this release and back.  \<open>enc\<close> and \<open>dec\<close> are the JSON text of attributes.  Only the
  tables that the update reads or changes are needed.\<close>

definition assoc_row :: "(string \<times> sqlval) list \<Rightarrow> row" where
  "assoc_row vs = (\<lambda>c. case map_of vs c of Some v \<Rightarrow> v | None \<Rightarrow> SNull)"

fun text_of :: "sqlval \<Rightarrow> string" where
  "text_of (SText s) = s"
| "text_of _ = []"

fun int_of :: "sqlval \<Rightarrow> int" where
  "int_of (SInt i) = i"
| "int_of _ = 0"

definition user_row :: "(Attribute list \<Rightarrow> string) \<Rightarrow> UserRecord \<Rightarrow> row" where
  "user_row enc u = assoc_row [(''id'', SText (ur_Name u)), (''token'', SText (ur_Pass u)), (''type'', SText (ur_Type u)),
     (''affiliation'', SText (ur_Affiliation u)), (''attributes'', SText (enc (ur_Attributes u))), (''state'', SInt (ur_State u)),
     (''max_enrollments'', SInt (ur_MaxEnrollments u)), (''level'', SInt (ur_Level u))]"

definition row_user :: "(string \<Rightarrow> Attribute list) \<Rightarrow> row \<Rightarrow> UserRecord" where
  "row_user dec r = \<lparr>ur_Name = text_of (r ''id''), ur_Pass = text_of (r ''token''), ur_Type = text_of (r ''type''),
     ur_Affiliation = text_of (r ''affiliation''), ur_Attributes = dec (text_of (r ''attributes'')), ur_State = int_of (r ''state''),
     ur_MaxEnrollments = int_of (r ''max_enrollments''), ur_Level = int_of (r ''level'')\<rparr>"

definition affiliation_row :: "AffiliationRecord \<Rightarrow> row" where
  "affiliation_row a = assoc_row [(''id'', SInt (ar_ID a)), (''name'', SText (ar_Name a)), (''prekey'', SText (ar_Prekey a)),
     (''level'', SInt (ar_Level a))]"

definition row_affiliation :: "row \<Rightarrow> AffiliationRecord" where
  "row_affiliation r = \<lparr>ar_ID = int_of (r ''id''), ar_Name = text_of (r ''name''), ar_Prekey = text_of (r ''prekey''),
     ar_Level = int_of (r ''level'')\<rparr>"

definition certificate_row :: "CertRecord \<Rightarrow> row" where
  "certificate_row c = assoc_row [(''id'', SText (cr_ID c)), (''serial_number'', SText (cr_Serial c)),
     (''authority_key_identifier'', SText (cr_AKI c)), (''ca_label'', SText (cr_CALabel c)), (''status'', SText (cr_Status c)),
     (''reason'', SInt (cr_Reason c)), (''expiry'', SInt (cr_Expiry c)), (''revoked_at'', SInt (cr_RevokedAt c)),
     (''pem'', SText (cr_PEM c)), (''level'', SInt (cr_Level c))]"

definition row_certificate :: "row \<Rightarrow> CertRecord" where
  "row_certificate r = \<lparr>cr_ID = text_of (r ''id''), cr_Level = int_of (r ''level''), cr_Serial = text_of (r ''serial_number''),
     cr_AKI = text_of (r ''authority_key_identifier''), cr_CALabel = text_of (r ''ca_label''), cr_Status = text_of (r ''status''),
     cr_Reason = int_of (r ''reason''), cr_Expiry = int_of (r ''expiry''), cr_RevokedAt = int_of (r ''revoked_at''),
     cr_PEM = text_of (r ''pem'')\<rparr>"

definition stored_tables :: "(Attribute list \<Rightarrow> string) \<Rightarrow> sqldb \<Rightarrow> catalog" where
  "stored_tables enc d =
     (let mysql = (db_driver d = ''mysql'') in
      [''users'' \<mapsto> (if mysql then mysql_users else sqlite_users)\<lparr>tab_Rows := map (user_row enc) (db_users d)\<rparr>,
       ''affiliations'' \<mapsto> (if mysql then mysql_affiliations else sqlite_affiliations)\<lparr>tab_Rows := map affiliation_row (db_affiliations d)\<rparr>,
       ''certificates'' \<mapsto> (if mysql then mysql_certificates else sqlite_certificates)\<lparr>tab_Rows := map certificate_row (db_certificates d)\<rparr>,
       ''properties'' \<mapsto> properties\<lparr>tab_Rows := map (\<lambda>(n, v). property_row n v) (db_properties d)\<rparr>])"

definition rows_of :: "string \<Rightarrow> schemadb \<Rightarrow> row list" where
  "rows_of n s = (case sd_tables s n of Some t \<Rightarrow> tab_Rows t | None \<Rightarrow> [])"

definition UpdateSchema_rows :: "(Attribute list \<Rightarrow> string) \<Rightarrow> (string \<Rightarrow> Attribute list) \<Rightarrow> Levels \<Rightarrow> unit dbop" where
  "UpdateSchema_rows enc dec levels d =
     (case UpdateSchema levels \<lparr>sd_driver = db_driver d, sd_tables = stored_tables enc d, sd_faults = db_faults d\<rparr> of
        (r, s) \<Rightarrow> (r, d\<lparr>db_users := map (row_user dec) (rows_of ''users'' s),
                       db_affiliations := map row_affiliation (rows_of ''affiliations'' s),
                       db_certificates := map row_certificate (rows_of ''certificates'' s),
                       db_faults := sd_faults s\<rparr>))"

lemma row_certificate_row [simp]: "row_certificate (certificate_row c) = c"
  by (simp add: row_certificate_def certificate_row_def assoc_row_def)

lemma row_affiliation_row [simp]: "row_affiliation (affiliation_row a) = a"
  by (simp add: row_affiliation_def affiliation_row_def assoc_row_def)

lemma row_user_row: "dec (enc (ur_Attributes u)) = ur_Attributes u \<Longrightarrow> row_user dec (user_row enc u) = u"
  by (simp add: row_user_def user_row_def assoc_row_def)

text \<open>What is read from rows with the same data differs in the level only.\<close>

lemma same_rows_map:
  assumes "map (\<lambda>r. map r cols) rs = map (\<lambda>r. map r cols) rs'" and "\<And>r r'. map r cols = map r' cols \<Longrightarrow> f r = f r'"
  shows "map f rs = map f rs'"
proof -
  have "length rs = length rs'" using assms(1) by (metis length_map)
  then show ?thesis using assms by (induction rs rs' rule: list_induct2) auto
qed

lemma row_certificate_data:
  "map r (data_columns ''certificates'') = map r' (data_columns ''certificates'') \<Longrightarrow>
   (row_certificate r)\<lparr>cr_Level := l\<rparr> = (row_certificate r')\<lparr>cr_Level := l\<rparr>"
  by (simp add: data_columns_def row_certificate_def)

lemma row_user_data:
  "map r (data_columns ''users'') = map r' (data_columns ''users'') \<Longrightarrow>
   (row_user dec r)\<lparr>ur_Level := l\<rparr> = (row_user dec r')\<lparr>ur_Level := l\<rparr>"
  by (simp add: data_columns_def row_user_def)

lemma row_affiliation_data:
  "map r (data_columns ''affiliations'') = map r' (data_columns ''affiliations'') \<Longrightarrow>
   (row_affiliation r)\<lparr>ar_Level := l, ar_ID := i\<rparr> = (row_affiliation r')\<lparr>ar_Level := l, ar_ID := i\<rparr>"
  by (simp add: data_columns_def row_affiliation_def)

lemma data_rows:
  "data n (sd_tables s) = Some rs \<Longrightarrow> map (\<lambda>r. map r (data_columns n)) (rows_of n s) = rs"
  by (auto simp: data_def rows_of_def)

lemma stored_data:
  "data ''users'' (stored_tables enc d) = Some (map (\<lambda>u. map (user_row enc u) (data_columns ''users'')) (db_users d))"
  "data ''affiliations'' (stored_tables enc d) = Some (map (\<lambda>a. map (affiliation_row a) (data_columns ''affiliations'')) (db_affiliations d))"
  "data ''certificates'' (stored_tables enc d) = Some (map (\<lambda>c. map (certificate_row c) (data_columns ''certificates'')) (db_certificates d))"
  by (simp_all add: data_def stored_tables_def Let_def comp_def)

lemma UpdateSchema_rows_Pair:
  assumes "UpdateSchema_rows enc dec levels d = (r, d')"
  obtains s where "d' = d\<lparr>db_users := map (row_user dec) (rows_of ''users'' s),
      db_affiliations := map row_affiliation (rows_of ''affiliations'' s),
      db_certificates := map row_certificate (rows_of ''certificates'' s), db_faults := sd_faults s\<rparr>"
    and "\<And>n. n \<in> updated \<Longrightarrow> data n (sd_tables s) = data n (stored_tables enc d)"
proof -
  let ?s = "\<lparr>sd_driver = db_driver d, sd_tables = stored_tables enc d, sd_faults = db_faults d\<rparr>"
  obtain s where s: "UpdateSchema levels ?s = (r, s)" and d': "d' = d\<lparr>db_users := map (row_user dec) (rows_of ''users'' s),
      db_affiliations := map row_affiliation (rows_of ''affiliations'' s),
      db_certificates := map row_certificate (rows_of ''certificates'' s), db_faults := sd_faults s\<rparr>"
    using assms by (auto simp: UpdateSchema_rows_def split: prod.splits)
  from d' UpdateSchema_same_data [OF s] that show thesis by (simp add: same_data_def)
qed

lemma UpdateSchema_rows_certificates:
  assumes "UpdateSchema_rows enc dec levels d = (r, d')"
  shows "map (cr_Level_update (\<lambda>_. 0)) (db_certificates d') = map (cr_Level_update (\<lambda>_. 0)) (db_certificates d)"
proof -
  from UpdateSchema_rows_Pair [OF assms] obtain s where d': "d' = d\<lparr>db_users := map (row_user dec) (rows_of ''users'' s),
      db_affiliations := map row_affiliation (rows_of ''affiliations'' s),
      db_certificates := map row_certificate (rows_of ''certificates'' s), db_faults := sd_faults s\<rparr>"
    and data: "\<And>n. n \<in> updated \<Longrightarrow> data n (sd_tables s) = data n (stored_tables enc d)" by blast
  show ?thesis
    using same_rows_map [of "data_columns ''certificates''" _ "map certificate_row (db_certificates d)", OF _ row_certificate_data [of _ _ 0]]
      data_rows [of "''certificates''" s] data [of "''certificates''"] stored_data(3) [of enc d]
    by (simp add: comp_def d')
qed


text \<open>What is revoked stays revoked, and the keys of the certificates stay unique.\<close>

lemma UpdateSchema_rows_keeps:
  "keeps cert_keys_ok (UpdateSchema_rows enc dec levels)" "keeps (stays_revoked k) (UpdateSchema_rows enc dec levels)"
proof -
  have key: "map (\<lambda>c. (cert_key c, cr_Status c)) (db_certificates d') = map (\<lambda>c. (cert_key c, cr_Status c)) (db_certificates d)"
    if "UpdateSchema_rows enc dec levels d = (r, d')" for d r d'
    using arg_cong [OF UpdateSchema_rows_certificates [OF that], of "map (\<lambda>c. (cert_key c, cr_Status c))"] by (simp add: comp_def)
  have "map cert_key (db_certificates d') = map cert_key (db_certificates d)"
    if "UpdateSchema_rows enc dec levels d = (r, d')" for d r d'
    using arg_cong [OF key [OF that], of "map fst"] by (simp add: comp_def)
  then show "keeps cert_keys_ok (UpdateSchema_rows enc dec levels)"
    by (intro keepsI) (simp only: cert_keys_ok_def)
  have "revoked_keys d = {k. (k, ''revoked'') \<in> set (map (\<lambda>c. (cert_key c, cr_Status c)) (db_certificates d))}" for d
    by (auto simp: revoked_keys_def image_iff)
  then show "keeps (stays_revoked k) (UpdateSchema_rows enc dec levels)"
    by (intro keepsI) (simp only: key)
qed

section \<open>A database that is opened\<close>

text \<open>The catalogs that a start-up may leave: \<open>names\<close> are there, and no table that was there has lost or gained a row but
  the one with the properties.\<close>

definition opened :: "string set \<Rightarrow> catalog \<Rightarrow> catalog \<Rightarrow> bool" where
  "opened names ts ts' \<longleftrightarrow> (\<forall>n \<in> names. ts' n \<noteq> None) \<and>
     (\<forall>n t. ts n = Some t \<longrightarrow> n \<noteq> ''properties'' \<longrightarrow> (\<exists>t'. ts' n = Some t' \<and> tab_Rows t' = tab_Rows t))"

lemma opened_refl: "opened {} ts ts"
  by (simp add: opened_def)

text \<open>\<open>opens N m\<close>: a successful run of \<open>m\<close> leaves the tables \<open>N\<close>.\<close>

definition opens :: "string set \<Rightarrow> 'a ddl \<Rightarrow> bool" where
  "opens N m \<longleftrightarrow> (\<forall>M ts d a d'. m d = (Inr a, d') \<longrightarrow> opened M ts (sd_tables d) \<longrightarrow> opened (N \<union> M) ts (sd_tables d'))"

lemma opens_bind: "opens A m \<Longrightarrow> (\<And>x. opens B (f x)) \<Longrightarrow> opens (B \<union> A) (bindE m f)"
  unfolding opens_def bindE_Inr by (metis Un_assoc)

lemma opens_seq: "opens A m \<Longrightarrow> opens B n \<Longrightarrow> opens (B \<union> A) (seqE m n)"
  unfolding seqE_def by (rule opens_bind)

lemma opens_mapErrE: "opens N m \<Longrightarrow> opens N (mapErrE g m)"
  by (simp add: opens_def mapErrE_Inr)

lemma opens_atom: "opens {} (unlessE b e)" "opens {} (returnE x)" "opens {} (throwE e)" "opens {} (liftE r)"
  by (auto simp: opens_def)

lemma opens_create: "opens {n} (Exec (create_table n new))"
proof -
  have "opened (insert n M) ts ts2" if "opened M ts ts1" "create_table n new ts1 = Inr ts2" for M ts ts1 ts2
    using that by (cases "ts1 n") (auto simp: opened_def create_table_def, metis option.distinct(1))
  then show ?thesis by (auto simp: opens_def Exec_Inr)
qed

lemma opens_transaction: "opens N m \<Longrightarrow> opens N (ddl_doTransaction m)"
  unfolding opens_def ddl_doTransaction_def by (auto split: if_splits prod.splits sum.splits)

lemma ignoring_state: "ignoring part m d = (r, d') \<Longrightarrow> \<exists>q. m d = (q, d')"
  by (auto simp: ignoring_def bindE_def attemptE_def returnE_def throwE_def split: prod.splits sum.splits if_splits)

lemma on_table_opened:
  assumes run: "Exec (on_table n f) d = (q, d')" and opened: "opened N ts (sd_tables d)"
    and f: "\<And>t t'. f t = Inr t' \<Longrightarrow> n \<noteq> ''properties'' \<Longrightarrow> tab_Rows t' = tab_Rows t"
  shows "opened N ts (sd_tables d')"
proof (cases "sd_tables d' = sd_tables d")
  case False
  then obtain t t' where "sd_tables d n = Some t" "f t = Inr t'" "sd_tables d' = (sd_tables d)(n \<mapsto> t')"
    using run by (auto simp: Exec_def on_table_def split: if_splits sum.splits option.splits)
  then show ?thesis using opened f by (fastforce simp: opened_def)
qed (use opened in simp)

lemma opens_index: "opens {} (ignoring part (Exec (add_index n i)))"
proof -
  have "opened M ts (sd_tables d')" if "Exec (add_index n i) d = (q, d')" "opened M ts (sd_tables d)" for M ts d q d'
    using that unfolding add_index_def by (rule on_table_opened) (auto split: if_splits)
  then show ?thesis by (auto simp: opens_def dest!: ignoring_state)
qed

lemma opens_levels: "opens {} (ignoring part (initial_levels dup))"
proof -
  have "opened M ts (sd_tables d')" if "initial_levels dup d = (q, d')" "opened M ts (sd_tables d)" for M ts d q d'
    using that unfolding initial_levels_def insert_values_def by (rule on_table_opened) simp
  then show ?thesis by (auto simp: opens_def dest!: ignoring_state)
qed

lemma opens_connectAny: "opens {} (connectAny V ds names)"
proof (induction names)
  case (Cons n names)
  have "opens ({} \<union> {}) (connectAny V ds (n # names))"
    unfolding connectAny.simps Let_def sqlx_Open_def by (intro opens_seq opens_atom) (simp add: opens_atom Cons)
  then show ?case by simp
qed (simp add: opens_atom)

lemmas opens_intros = opens_seq opens_bind opens_mapErrE opens_atom opens_create opens_transaction opens_index opens_levels opens_connectAny

definition all_tables :: "string set" where
  "all_tables = {''users'', ''affiliations'', ''certificates'', ''credentials'', ''revocation_authority_info'', ''nonces'', ''properties''}"

lemma opens_SQLite: "opens all_tables (NewUserRegistrySQLLite3 V ds)"
proof -
  have "opens ({} \<union> ({} \<union> {''properties''} \<union> ({''nonces''} \<union> {''revocation_authority_info''} \<union> {''credentials''} \<union> {''certificates''} \<union>
      {''affiliations''} \<union> {''users''}) \<union> {})) (NewUserRegistrySQLLite3 V ds)"
    unfolding NewUserRegistrySQLLite3_def createSQLiteDBTables_def sqlx_Open_def createAllSQLiteTables_def createSQLiteIdentityTable_def
      createSQLiteAffiliationTable_def createSQLiteCertificateTable_def createSQLiteCredentialsTable_def
      createSQLiteRevocationComponentTable_def createSQLiteNoncesTable_def
    by (intro opens_intros)
  then show ?thesis by (simp add: all_tables_def insert_commute)
qed

lemma opens_Postgres: "opens all_tables (NewUserRegistryPostgres V ds tls)"
proof -
  have create: "opens {} (createPostgresDatabase V n)" for n
    by (cases "dv_createDB V n") (simp_all add: createPostgresDatabase_def opens_atom)
  have "opens (({} \<union> {''properties''} \<union> {''nonces''} \<union> {''revocation_authority_info''} \<union> {''credentials''} \<union> {''certificates''} \<union>
      {''affiliations''} \<union> {''users''}) \<union> {} \<union> {} \<union> {} \<union> {} \<union> {}) (NewUserRegistryPostgres V ds tls)"
    unfolding NewUserRegistryPostgres_def Let_def sqlx_Open_def createPostgresTables_def by (intro opens_intros create)
  then show ?thesis by (simp add: all_tables_def insert_commute)
qed

lemma opens_MySQL: "opens all_tables (NewUserRegistryMySQL V ds tls cfg)"
proof -
  have create: "opens {} (createMySQLDatabase V n)" for n
    by (cases "dv_createDB V n") (simp_all add: createMySQLDatabase_def opens_atom)
  have tls: "opens {} (if tls_Enabled tls then mapErrE WithCause (liftE cfg) else returnE ())"
    by (simp add: opens_mapErrE opens_atom)
  have "opens (({} \<union> {''properties''} \<union> {''nonces''} \<union> {''revocation_authority_info''} \<union> {''credentials''} \<union> {''certificates''} \<union> {} \<union>
      {''affiliations''} \<union> {''users''}) \<union> {} \<union> {} \<union> {} \<union> {} \<union> {}) (NewUserRegistryMySQL V ds tls cfg)"
    unfolding NewUserRegistryMySQL_def Let_def sqlx_Open_def createMySQLTables_def by (intro opens_intros create tls)
  then show ?thesis by (simp add: all_tables_def insert_commute)
qed

text \<open>Opening a database.  With each of the drivers, when the registry is opened the seven tables of the server are there, and a
  table that was there before, other than the one with the properties, has all its rows and no others.\<close>

theorem NewUserRegistry_opens:
  assumes "NewUserRegistrySQLLite3 V ds d = (Inr (), d') \<or> NewUserRegistryPostgres V ds tls d = (Inr (), d') \<or>
    NewUserRegistryMySQL V ds tls cfg d = (Inr (), d')"
  shows "(\<forall>n \<in> {''users'', ''affiliations'', ''certificates'', ''credentials'', ''revocation_authority_info'', ''nonces'', ''properties''}.
      sd_tables d' n \<noteq> None) \<and>
    (\<forall>n t. sd_tables d n = Some t \<longrightarrow> n \<noteq> ''properties'' \<longrightarrow> (\<exists>t'. sd_tables d' n = Some t' \<and> tab_Rows t' = tab_Rows t))"
proof -
  have "opened (all_tables \<union> {}) (sd_tables d) (sd_tables d')"
    using assms opens_SQLite [of V ds] opens_Postgres [of V ds tls] opens_MySQL [of V ds tls cfg] opened_refl [of "sd_tables d"]
    unfolding opens_def by blast
  then show ?thesis by (simp add: opened_def all_tables_def)
qed

section \<open>Examples\<close>

text \<open>A SQLite database of a release without levels, with one identity, one affiliation and one certificate.\<close>

definition any_server :: db_server where
  "any_server = \<lparr>dv_open = \<lambda>_ _. True, dv_ping = \<lambda>_. True, dv_createDB = \<lambda>_. None\<rparr>"

definition old_tables :: catalog where
  "old_tables = [
     ''users'' \<mapsto> (mktable (map (\<lambda>n. mkcol n (VARCHAR 64)) (data_columns ''users'')) [] [])\<lparr>tab_Rows :=
        [assoc_row [(''id'', SText ''alice''), (''token'', SText ''pw''), (''state'', SInt 0), (''max_enrollments'', SInt 1)]]\<rparr>,
     ''affiliations'' \<mapsto> (mktable (map (\<lambda>n. mkcol n (VARCHAR 64)) (data_columns ''affiliations'')) [] [])\<lparr>tab_Rows :=
        [assoc_row [(''name'', SText ''org1'')]]\<rparr>,
     ''certificates'' \<mapsto> (mktable (map (\<lambda>n. mkcol n BLOB) (data_columns ''certificates'')) [] [])\<lparr>tab_Rows :=
        [assoc_row [(''id'', SText ''alice''), (''serial_number'', SText ''1''), (''authority_key_identifier'', SText ''2''),
           (''status'', SText ''good''), (''pem'', SText ''pem'')]]\<rparr>,
     ''properties'' \<mapsto> properties\<lparr>tab_Rows := map (\<lambda>n. property_row n ''0'') level_names\<rparr>]"

definition old_db :: schemadb where
  "old_db = \<lparr>sd_driver = ''sqlite3'', sd_tables = old_tables, sd_faults = []\<rparr>"

definition levels_1 :: Levels where
  "levels_1 = \<lparr>lv_Identity = 1, lv_Affiliation = 1, lv_Certificate = 1, lv_Credential = 1, lv_RAInfo = 1, lv_Nonce = 1\<rparr>"

theorem UpdateSchema_keeps_data_witness:
  "data ''users'' (sd_tables (snd (UpdateSchema levels_1 old_db))) =
     Some [[SText ''alice'', SText ''pw'', SNull, SNull, SNull, SInt 0, SInt 1]]"
proof -
  have "data ''users'' (sd_tables old_db) = Some [[SText ''alice'', SText ''pw'', SNull, SNull, SNull, SInt 0, SInt 1]]"
    by code_simp
  then show ?thesis using UpdateSchema_keeps_data [of levels_1 old_db, OF prod.collapse [symmetric]] by simp
qed

lemma upgradableI:
  "sd_tables d b = None \<Longrightarrow> sd_tables d n \<noteq> None \<Longrightarrow> can_rebuild new (data_columns n) (the (sd_tables d n)) \<Longrightarrow> upgradable n b new d"
  by (auto simp: upgradable_def)

lemma old_upgradable:
  "upgradable ''users'' ''users_old'' sqlite_users old_db"
  "upgradable ''affiliations'' ''affiliations_old'' sqlite_affiliations old_db"
  "upgradable ''certificates'' ''certificates_old'' sqlite_certificates old_db"
  by (rule upgradableI; simp add: old_db_def old_tables_def; code_simp)+

theorem UpdateSchema_upgrades_witness:
  "\<exists>d'. UpdateSchema levels_1 old_db = (Inr (), d') \<and> has_layout ''users'' sqlite_users d' \<and>
    has_layout ''affiliations'' sqlite_affiliations d' \<and> has_layout ''certificates'' sqlite_certificates d'"
proof (rule UpdateSchema_upgrades [OF _ _ _ _ _ _ _ _ _ old_upgradable])
  let ?cur = "\<lparr>lv_Identity = 0, lv_Affiliation = 0, lv_Certificate = 0, lv_Credential = 0, lv_RAInfo = 0, lv_Nonce = 0\<rparr>"
  have "keeps (\<lambda>d. d = old_db) (Get_level n)" for n
    by (rule keepsI) (auto simp: Get_level_def old_db_def split: if_splits option.splits list.splits sqlval.splits)
  then have "keeps (\<lambda>d. d = old_db) currentDBLevels" unfolding currentDBLevels_def by (intro keeps_intros)
  then have pop: "snd (currentDBLevels old_db) = old_db" by (simp add: keeps_def)
  have "fst (currentDBLevels old_db) = Inr ?cur" by code_simp
  with pop show "currentDBLevels old_db = (Inr ?cur, old_db)" by (simp add: prod_eq_iff)
qed (simp_all add: levels_1_def old_db_def)

definition three_levels :: table where
  "three_levels = properties\<lparr>tab_Rows := map (\<lambda>n. property_row n ''1'') [''identity.level'', ''affiliation.level'', ''certificate.level'']\<rparr>"

theorem missing_level_fails_witness:
  "fst (seqE (createSQLiteDBTables any_server ''ca.db'') (updateSQLiteSchema levels_1) (old_db\<lparr>sd_tables := old_tables(''properties'' \<mapsto> three_levels)\<rparr>)) \<noteq> Inr ()"
proof (rule missing_level_fails [where t = three_levels and r = "property_row ''identity.level'' ''1''"])
  show "tab_Primary three_levels = [''property'']" by code_simp
  show "property_row ''identity.level'' ''1'' \<in> set (tab_Rows three_levels)" by (simp add: three_levels_def)
  show "property_row ''identity.level'' ''1'' ''property'' = SText ''identity.level''" by code_simp
  show "\<forall>r \<in> set (tab_Rows three_levels). r ''property'' \<noteq> SText ''credential.level''" by (simp add: three_levels_def property_row_def)
qed simp

definition mysql_db :: sqldb where
  "mysql_db = empty_db\<lparr>db_set := True, db_driver := ''mysql'',
     db_users := [\<lparr>ur_Name = ''alice'', ur_Pass = ''pw'', ur_Type = ''client'', ur_Affiliation = ''org1'', ur_Attributes = [],
       ur_State = 0, ur_MaxEnrollments = 1, ur_Level = 1\<rparr>]\<rparr>"


theorem NewUserRegistry_opens_witness:
  "sd_tables (snd (NewUserRegistrySQLLite3 any_server ''ca.db'' old_db)) ''nonces'' \<noteq> None"
proof -
  let ?r = "NewUserRegistrySQLLite3 any_server ''ca.db'' old_db"
  have "fst ?r = Inr ()" by code_simp
  then have "?r = (Inr (), snd ?r)" by (simp add: prod_eq_iff)
  then show ?thesis using NewUserRegistry_opens [of any_server "''ca.db''" old_db "snd ?r"] by simp
qed

end
