(* ===== verification/Server_Dispatch.thy ===== *)
theory Server_Dispatch
  imports Affiliation_Handlers Certificate_Handlers Idemix_Handlers Revocation Db_Schema
begin

text \<open>
  The server, \<open>lib/server.go\<close>: its CAs, the registration of the endpoints and the serving of requests, with the
  two remaining handlers, \<open>lib/serverinfo.go\<close> and \<open>lib/servertcert.go\<close>.

  An endpoint is one object that is registered under two paths, so that a handler's change of its success code is
  seen by all later requests.  The router is that of package \<open>gorilla/mux\<close>, for paths
  in their cleaned form: the first registered pattern that matches all segments of the path.  Requests are served one
  after the other; the interleaving of concurrent enrollments is the subject of \<open>Enroll_Sessions\<close>.

  The record \<open>services\<close> collects what the handlers take from outside during one request.
\<close>

section \<open>The remaining handlers\<close>

record services =
  sv_env :: env
  sv_keys :: "string \<Rightarrow> ca_keys"
  sv_certs :: cert_env
  sv_tcert :: tc_lib
  sv_derive :: "string \<Rightarrow> string \<Rightarrow> string option"
  sv_SKI :: "string \<Rightarrow> string"
  sv_rand :: bytes
  sv_randomNum :: nat
  sv_errJSON :: "httpErr \<Rightarrow> string"

definition cainfoHandler :: "services \<Rightarrow> response option req" where
  "cainfoHandler S =
     seqE (GetCA (sv_env S))
     (bindE (keysE (sv_keys S)) (\<lambda>k.
      bindE (liftE (fillCAInfo k)) (\<lambda>resp.
      returnE (Some (RespCAInfo resp (e_version (sv_env S)))))))"

text \<open>An operation on the key tree of the targeted CA.\<close>

definition keyTreeE :: "(string KeyTree, go_error, 'a) em \<Rightarrow> 'a req" where
  "keyTreeE m s =
     (case ctx_ca (st_ctx s) of
        None \<Rightarrow> (Inl (GoPanic ''nil pointer dereference''), s)
      | Some n \<Rightarrow>
          (case st_cas s n of
             None \<Rightarrow> (Inl (GoPanic ''nil pointer dereference''), s)
           | Some ca \<Rightarrow>
               (case m (ca_keyTree ca) of
                  (r, kt) \<Rightarrow> (r, s\<lparr>st_cas := (st_cas s)(n \<mapsto> ca\<lparr>ca_keyTree := kt\<rparr>)\<rparr>))))"

definition tcertHandler :: "services \<Rightarrow> response option req" where
  "tcertHandler S =
     (let E = sv_env S in
      seqE (TokenAuthentication E)
      (bindE (ReadBody (dec_TCert (e_decoders E))) (\<lambda>req.
       seqE (GetCA E)
       (bindE (GetCaller E) (\<lambda>caller.
        bindE (mapErrE (\<lambda>_. PlainErr ''Failed to get attributes'') (liftE (GetAttributes caller (tb_AttrNames req)))) (\<lambda>attrs.
        bindE (mapErrE (\<lambda>_. newHTTPErr 500 ErrNoPreKey) (keyTreeE (GetKey (sv_derive S) (GetAffiliationPath caller)))) (\<lambda>prekey.
        bindE (ctxE ctx_enrollmentCert) (\<lambda>ecert.
        let tcertReq = \<lparr>tb_Count = tb_Count req, tb_AttrNames = None, tb_EncryptAttrs = tb_EncryptAttrs req,
              tb_ValidityPeriod = tb_ValidityPeriod req, tb_PreKey = sv_SKI S prekey, tb_Attrs = attrs\<rparr> in
        bindE (liftE (fst (GetBatch (sv_tcert S) NewMgr (e_now E) (sv_randomNum S) tcertReq ecert (sv_rand S)))) (\<lambda>resp.
        returnE (Some (RespTCert resp)))))))))))"

section \<open>The CAs of the server\<close>

record DN =
  dn_issuer :: string
  dn_subject :: string

definition DN_equal :: "DN \<Rightarrow> DN \<Rightarrow> unit result" where
  "DN_equal dn checkDN =
     (if dn_issuer dn = dn_issuer checkDN \<and> dn_subject dn = dn_subject checkDN
      then Inl (PlainErr ''Both issuer and subject distinguished name are already in use'') else Inr ())"

text \<open>\<open>loadDN\<close> reads the distinguished names from a certificate file.\<close>

definition compareDN :: "(string \<Rightarrow> DN result) \<Rightarrow> string \<Rightarrow> string \<Rightarrow> unit result" where
  "compareDN loadDN existingCACertFile newCACertFile =
     bindR (loadDN existingCACertFile) (\<lambda>existingDN.
     bindR (loadDN newCACertFile) (\<lambda>newDN.
     mapErrR WithCause (DN_equal existingDN newDN)))"

text \<open>A CA as far as \<open>addCA\<close> looks at it, and the CAs of the server in the order of Go's iteration over the map.\<close>

record ca_entry =
  cx_Name :: string
  cx_Certfile :: string

definition addCA :: "(string \<Rightarrow> DN result) \<Rightarrow> ca_entry \<Rightarrow> (ca_entry list, go_error, unit) em" where
  "addCA loadDN ca =
     bindE (getE id) (\<lambda>caMap.
     seqE (liftE (forR caMap (\<lambda>c.
             if cx_Name c = cx_Name ca then Inl (PlainErr ''CA name is used in two files'')
             else compareDN loadDN (cx_Certfile c) (cx_Certfile ca))))
     (modifyE (\<lambda>m. m @ [ca])))"

text \<open>The bootstrap identity added to the configuration of the default CA.\<close>

definition RegisterBootstrapUser :: "string \<Rightarrow> string \<Rightarrow> string \<Rightarrow> (CAConfig, go_error, unit) em" where
  "RegisterBootstrapUser user pass affiliation =
     seqE (unlessE (\<not> (user = [] \<or> pass = [])) (PlainErr ''Empty identity name and/or pass not allowed''))
     (modifyE (\<lambda>cfg. cfg\<lparr>cfg_Identities := cfg_Identities cfg @
        [\<lparr>ci_Name = user, ci_Pass = pass, ci_Type = ''client'', ci_Affiliation = affiliation, ci_MaxEnrollments = 0,
          ci_Attrs = [(Roles, ''*''), (DelegateRoles, ''*''), (Revoker, ''true''), (IntermediateCA, ''true''),
            (GenCRL, ''true''), (RegistrarAttr, ''*''), (AffiliationMgr, ''true'')]\<rparr>]\<rparr>))"

section \<open>Endpoints and routes\<close>

datatype endpoint =
    EP_cainfo | EP_register | EP_enroll | EP_reenroll | EP_revoke | EP_tcert | EP_gencrl
  | EP_identities_streaming | EP_identities | EP_affiliations_streaming | EP_affiliations | EP_certificates

definition newCAInfoEndpoint :: serverEndpoint where
  "newCAInfoEndpoint = \<lparr>se_Methods = [''GET'', ''POST'', ''HEAD''], se_successRC = 0\<rparr>"
definition newRegisterEndpoint :: serverEndpoint where
  "newRegisterEndpoint = \<lparr>se_Methods = [''POST''], se_successRC = 201\<rparr>"
definition newEnrollEndpoint :: serverEndpoint where
  "newEnrollEndpoint = \<lparr>se_Methods = [''POST''], se_successRC = 201\<rparr>"
definition newReenrollEndpoint :: serverEndpoint where
  "newReenrollEndpoint = \<lparr>se_Methods = [''POST''], se_successRC = 201\<rparr>"
definition newRevokeEndpoint :: serverEndpoint where
  "newRevokeEndpoint = \<lparr>se_Methods = [''POST''], se_successRC = 0\<rparr>"
definition newTCertEndpoint :: serverEndpoint where
  "newTCertEndpoint = \<lparr>se_Methods = [''POST''], se_successRC = 0\<rparr>"
definition newGenCRLEndpoint :: serverEndpoint where
  "newGenCRLEndpoint = \<lparr>se_Methods = [''POST''], se_successRC = 0\<rparr>"
definition newIdentitiesStreamingEndpoint :: serverEndpoint where
  "newIdentitiesStreamingEndpoint = \<lparr>se_Methods = [''GET'', ''POST''], se_successRC = 200\<rparr>"
definition newIdentitiesEndpoint :: serverEndpoint where
  "newIdentitiesEndpoint = \<lparr>se_Methods = [''GET'', ''DELETE'', ''PUT''], se_successRC = 200\<rparr>"
definition newAffiliationsStreamingEndpoint :: serverEndpoint where
  "newAffiliationsStreamingEndpoint = \<lparr>se_Methods = [''GET'', ''POST''], se_successRC = 200\<rparr>"
definition newAffiliationsEndpoint :: serverEndpoint where
  "newAffiliationsEndpoint = \<lparr>se_Methods = [''GET'', ''DELETE'', ''PUT''], se_successRC = 200\<rparr>"
definition newCertificateEndpoint :: serverEndpoint where
  "newCertificateEndpoint = \<lparr>se_Methods = [''GET'', ''DELETE''], se_successRC = 200\<rparr>"

fun newEndpoint :: "endpoint \<Rightarrow> serverEndpoint" where
  "newEndpoint EP_cainfo = newCAInfoEndpoint"
| "newEndpoint EP_register = newRegisterEndpoint"
| "newEndpoint EP_enroll = newEnrollEndpoint"
| "newEndpoint EP_reenroll = newReenrollEndpoint"
| "newEndpoint EP_revoke = newRevokeEndpoint"
| "newEndpoint EP_tcert = newTCertEndpoint"
| "newEndpoint EP_gencrl = newGenCRLEndpoint"
| "newEndpoint EP_identities_streaming = newIdentitiesStreamingEndpoint"
| "newEndpoint EP_identities = newIdentitiesEndpoint"
| "newEndpoint EP_affiliations_streaming = newAffiliationsStreamingEndpoint"
| "newEndpoint EP_affiliations = newAffiliationsEndpoint"
| "newEndpoint EP_certificates = newCertificateEndpoint"

fun Handler :: "services \<Rightarrow> endpoint \<Rightarrow> response option req" where
  "Handler S EP_cainfo = cainfoHandler S"
| "Handler S EP_register = registerHandler (sv_env S)"
| "Handler S EP_enroll = enrollHandler (sv_env S) (sv_keys S)"
| "Handler S EP_reenroll = reenrollHandler (sv_env S) (sv_keys S)"
| "Handler S EP_revoke = revokeHandler (sv_env S) (sv_keys S)"
| "Handler S EP_tcert = tcertHandler S"
| "Handler S EP_gencrl = genCRLHandler (sv_env S) (sv_keys S)"
| "Handler S EP_identities_streaming = identitiesStreamingHandler (sv_env S)"
| "Handler S EP_identities = identitiesHandler (sv_env S)"
| "Handler S EP_affiliations_streaming = affiliationsStreamingHandler (sv_env S)"
| "Handler S EP_affiliations = affiliationsHandler (sv_env S)"
| "Handler S EP_certificates = certificatesHandler (sv_env S) (sv_certs S)"

text \<open>The router is the list of the registered patterns with their endpoints.\<close>

definition apiPathPrefix :: string where "apiPathPrefix = ''/api/v1/''"

definition Server_registerHandler ::
  "string \<Rightarrow> endpoint \<Rightarrow> (string \<times> endpoint) list \<Rightarrow> (string \<times> endpoint) list" where
  "Server_registerHandler path se mux = mux @ [(''/'' @ path, se), (apiPathPrefix @ path, se)]"

definition registerHandlers :: "(string \<times> endpoint) list" where
  "registerHandlers =
     fold (\<lambda>(path, se). Server_registerHandler path se)
       [(''cainfo'', EP_cainfo), (''register'', EP_register), (''enroll'', EP_enroll), (''reenroll'', EP_reenroll),
        (''revoke'', EP_revoke), (''tcert'', EP_tcert), (''gencrl'', EP_gencrl),
        (''identities'', EP_identities_streaming), (''identities/{id}'', EP_identities),
        (''affiliations'', EP_affiliations_streaming), (''affiliations/{affiliation}'', EP_affiliations),
        (''certificates'', EP_certificates)] []"

text \<open>Matching of a pattern: a segment in braces is a variable and matches a non-empty segment.\<close>

fun matchSegments :: "string list \<Rightarrow> string list \<Rightarrow> (string \<times> string) list option" where
  "matchSegments [] [] = Some []"
| "matchSegments (p # ps) (seg # segs) =
     (if p \<noteq> [] \<and> hd p = CHR ''{'' then
        (if seg = [] then None else map_option (Cons (tl (butlast p), seg)) (matchSegments ps segs))
      else if p = seg then matchSegments ps segs else None)"
| "matchSegments _ _ = None"

fun muxMatch :: "(string \<times> endpoint) list \<Rightarrow> string \<Rightarrow> (endpoint \<times> (string \<times> string) list) option" where
  "muxMatch [] path = None"
| "muxMatch ((pattern, se) # routes) path =
     (case matchSegments (strings_Split pattern CHR ''/'') (strings_Split path CHR ''/'') of
        Some vars \<Rightarrow> Some (se, vars)
      | None \<Rightarrow> muxMatch routes path)"

section \<open>Serving a request\<close>

record server =
  srv_endpoints :: "endpoint \<Rightarrow> serverEndpoint"
  srv_caMap :: "string \<rightharpoonup> CA"
  srv_default :: string

datatype answer = NotFound | Answer (ans_status: "nat list") (ans_body: string)

definition begin_request :: "server \<Rightarrow> endpoint \<Rightarrow> request \<Rightarrow> reqst" where
  "begin_request srv se r =
     \<lparr>c_se = srv_endpoints srv se, c_w = newHTTPResponseWriter [], st_cas = srv_caMap srv, st_default = srv_default srv,
      st_ctx = newServerRequestContext r\<rparr>"

definition handlerE :: "services \<Rightarrow> endpoint \<Rightarrow> string option req" where
  "handlerE S se = bindE (Handler S se) (\<lambda>resp. returnE (map_option (e_encode (sv_env S)) resp))"

definition serve :: "services \<Rightarrow> string \<Rightarrow> request \<Rightarrow> server \<Rightarrow> answer \<times> server" where
  "serve S path r srv =
     (case muxMatch registerHandlers path of
        None \<Rightarrow> (NotFound, srv)
      | Some (se, vars) \<Rightarrow>
          (let s = ServeHTTP (sv_errJSON S) (req_Method r) (handlerE S se) (begin_request srv se (r\<lparr>req_Vars := Some vars\<rparr>))
           in (Answer (hrw_status (c_w s)) (hrw_out (c_w s)),
               srv\<lparr>srv_endpoints := (srv_endpoints srv)(se := c_se s), srv_caMap := st_cas s\<rparr>)))"

definition newServer :: "string \<Rightarrow> (string \<rightharpoonup> CA) \<Rightarrow> server" where
  "newServer name caMap = \<lparr>srv_endpoints = newEndpoint, srv_caMap = caMap, srv_default = name\<rparr>"

section \<open>Every request keeps the invariants\<close>

context request_invariant
begin

lemma J_keyTreeE: "keeps J (keyTreeE m)"
  by (rule keepsI) (auto simp: keyTreeE_def split: option.splits prod.splits dest: J_keyTree)

lemma J_remaining_handlers:
  assumes "sv_env S = E"
  shows "keeps J (tcertHandler S)" and "keeps J (cainfoHandler S)"
  unfolding tcertHandler_def cainfoHandler_def Let_def assms by (intro keeps_intros J_context J_keyTreeE)+

lemma J_handlerE: "sv_env S = E \<Longrightarrow> keeps J (handlerE S se)"
  unfolding handlerE_def
  by (intro keeps_bindE keeps_atom, cases se)
    (simp_all add: J_remaining_handlers J_identity_handlers J_enroll_handlers J_revokeHandler J_genCRLHandler
      J_affiliation_handlers J_certificatesHandler)

end

lemma ServeHTTP_keeps:
  assumes "keeps J h" and "\<And>s w. J s \<Longrightarrow> J (s\<lparr>c_w := w\<rparr>)" and "J s"
  shows "J (ServeHTTP errJSON mth h s)"
  using assms keepsD [OF assms(1)]
  by (auto simp: ServeHTTP_def Let_def split: prod.splits sum.splits)

text \<open>A property of the database of one CA of the server, and of all of them.\<close>

definition srv_db :: "string \<Rightarrow> (sqldb \<Rightarrow> bool) \<Rightarrow> server \<Rightarrow> bool" where
  "srv_db n I srv \<longleftrightarrow> (\<exists>ca. srv_caMap srv n = Some ca \<and> I (ca_db ca))"

definition srv_dbs :: "(sqldb \<Rightarrow> bool) \<Rightarrow> server \<Rightarrow> bool" where
  "srv_dbs I srv \<longleftrightarrow> (\<forall>n ca. srv_caMap srv n = Some ca \<longrightarrow> I (ca_db ca))"

context server_env
begin

lemma serve_db:
  assumes "sv_env S = E" and "srv_db n I srv"
  shows "srv_db n I (snd (serve S path r srv))"
proof -
  have "db_of n I (ServeHTTP ej mth (handlerE S se) (begin_request srv se r'))" for ej mth se r'
    using assms by (intro ServeHTTP_keeps [where J = "db_of n I"] one.J_handlerE) (auto simp: db_of_def srv_db_def begin_request_def)
  then show ?thesis
    using assms(2) by (cases "muxMatch registerHandlers path") (auto simp: serve_def srv_db_def db_of_def Let_def)
qed

lemma serve_dbs:
  assumes "sv_env S = E" and "srv_dbs I srv"
  shows "srv_dbs I (snd (serve S path r srv))"
proof -
  have "all_dbs I (ServeHTTP ej mth (handlerE S se) (begin_request srv se r'))" for ej mth se r'
    using assms by (intro ServeHTTP_keeps [where J = "all_dbs I"] J_handlerE) (auto simp: all_dbs_def srv_dbs_def begin_request_def)
  then show ?thesis
    using assms(2) by (cases "muxMatch registerHandlers path") (auto simp: serve_def srv_dbs_def all_dbs_def Let_def)
qed

lemma auth_db: "keeps (db_of n I) (TokenAuthentication E)"
  by (rule one.J_TokenAuthentication)

end

context endpoint_invariant
begin

lemma serve_endpoint:
  assumes "P (srv_endpoints srv se)"
  shows "P (srv_endpoints (snd (serve S path r srv)) se)"
proof -
  have "se_inv P (ServeHTTP ej mth (handlerE S se) (begin_request srv se r'))" for ej mth r'
    using assms by (intro ServeHTTP_keeps [where J = "se_inv P"] J_handlerE [OF refl]) (auto simp: se_inv_def begin_request_def)
  then show ?thesis
    using assms by (cases "muxMatch registerHandlers path") (auto simp: serve_def se_inv_def Let_def)
qed

end

text \<open>A run of the server: requests one after the other, each with its own circumstances.\<close>

inductive server_run :: "(services \<Rightarrow> bool) \<Rightarrow> server \<Rightarrow> server \<Rightarrow> bool" for ok where
  none: "server_run ok srv srv"
| one: "server_run ok srv srv' \<Longrightarrow> ok S \<Longrightarrow> server_run ok srv (snd (serve S path r srv'))"

inductive_cases server_runE: "server_run ok srv srv'"

lemma server_run_trans: "server_run ok b c \<Longrightarrow> server_run ok a b \<Longrightarrow> server_run ok a c"
  by (induction rule: server_run.induct) (auto intro: server_run.intros)

text \<open>The update of the layout that the server runs when it opens a database is the one of \<open>lib/dbutil/dbutil.go\<close>.\<close>

definition updates_layout :: "services \<Rightarrow> bool" where
  "updates_layout S \<longleftrightarrow> (\<exists>enc dec. e_updateSchema (sv_env S) = UpdateSchema_rows enc dec (e_levels (sv_env S)))"

lemma schema_env:
  assumes "updates_layout S"
  shows "server_env cert_keys_ok (sv_env S)" and "server_env (stays_revoked k) (sv_env S)"
proof -
  have I: "keeps cert_keys_ok (e_updateSchema (sv_env S))" "keeps (stays_revoked k) (e_updateSchema (sv_env S))"
    using assms unfolding updates_layout_def by (auto simp: UpdateSchema_rows_keeps)
  show "server_env cert_keys_ok (sv_env S)"
    by (intro server_env.intro server_env_axioms.intro keys.server_invariant_axioms I)
  show "server_env (stays_revoked k) (sv_env S)"
    by (intro server_env.intro server_env_axioms.intro revoked.server_invariant_axioms I)
qed

lemma run_revoked:
  "server_run updates_layout srv srv' \<Longrightarrow> srv_db n (stays_revoked k) srv \<Longrightarrow> srv_db n (stays_revoked k) srv'"
  by (induction rule: server_run.induct) (auto intro: server_env.serve_db [OF schema_env(2)])

text \<open>C5: revocation is permanent.  Whatever requests the server serves, to whatever endpoint and with whatever
  result, a certificate that is revoked in the database of a CA stays in that database and stays revoked.\<close>

theorem revoked_forever:
  assumes "server_run updates_layout srv srv'" and "srv_db n (\<lambda>d. k \<in> revoked_keys d) srv"
  shows "srv_db n (\<lambda>d. k \<in> revoked_keys d) srv'"
  using assms by (rule run_revoked)


text \<open>C6: a revoked certificate is of no use any more.  After its revocation in the database of a CA, and whatever was
  served since, no request to that CA is authenticated by a token of that certificate.\<close>

theorem revoked_certificate_refused:
  assumes run: "server_run updates_layout srv srv'" and rev: "srv_db n (\<lambda>d. (certSerial cert, certAKI cert) \<in> revoked_keys d) srv"
    and S: "updates_layout S" and auth: "TokenAuthentication (sv_env S) (begin_request srv' se r) = (Inr uid, s')"
    and x509: "\<not> IsToken (req_Authorization r)" and body: "req_Body r = Some b"
    and tok: "VerifyToken (e_parse (sv_env S)) (e_csp (sv_env S)) (req_Authorization r) b = Inr cert"
    and ready: "srv_dbs db_ready srv'"
  shows "ctx_ca (st_ctx s') \<noteq> Some n"
proof
  assume n: "ctx_ca (st_ctx s') = Some n"
  let ?s = "begin_request srv' se r"
  have ctx: "ctx_req (st_ctx ?s) = r" "ctx_ok (st_ctx ?s)" "ctx_caller (st_ctx ?s) = None" "all_dbs db_ready ?s"
    using ready by (simp_all add: begin_request_def newServerRequestContext_def ctx_ok_def all_dbs_def srv_dbs_def)
  have "db_of n (stays_revoked (certSerial cert, certAKI cert)) ?s"
    using run_revoked [OF run rev] by (simp add: db_of_def srv_db_def begin_request_def)
  then have "db_of n (stays_revoked (certSerial cert, certAKI cert)) s'"
    by (rule keepsD [OF server_env.auth_db [OF schema_env(2) [OF S]] auth])
  then show False
    using TokenAuthentication_X509 [OF auth, unfolded ctx, OF x509 ctx(4,2) refl] body tok n by (auto simp: db_of_def)
qed

section \<open>Answers\<close>

text \<open>C10: every request is answered once.  For a path of the server the answer is one status code and, unless the method is
  HEAD, one envelope with what the handler returned or the 405 of a method that the endpoint does not list, and only a
  panic of the handler leaves it incomplete.  For every other path the answer is that of the router.\<close>

theorem serve_answers_once:
  "case muxMatch registerHandlers path of
     None \<Rightarrow> serve S path r srv = (NotFound, srv)
   | Some (se, vars) \<Rightarrow>
       (\<exists>res s1. (res, s1) =
          (let s = (begin_request srv se (r\<lparr>req_Vars := Some vars\<rparr>))\<lparr>c_w := newHTTPResponseWriter (req_Method r)\<rparr>
           in if req_Method r \<in> set (se_Methods (srv_endpoints srv se)) then handlerE S se s
              else (Inl (newHTTPErr 405 ErrMethodNotAllowed), s)) \<and>
          (panicked res \<or> (\<exists>code. fst (serve S path r srv) =
             Answer [code] (if req_Method r = ''HEAD'' then [] else envelope (sv_errJSON S) res (c_w s1)))))"
proof (cases "muxMatch registerHandlers path")
  case None
  then show ?thesis by (simp add: serve_def)
next
  case (Some p)
  obtain se vars where p: "p = (se, vars)" by (cases p)
  let ?b = "begin_request srv se (r\<lparr>req_Vars := Some vars\<rparr>)"
  let ?s = "?b\<lparr>c_w := newHTTPResponseWriter (req_Method r)\<rparr>" and ?h = "handlerE S se"
  obtain res s1 where run: "(res, s1) = (if req_Method r \<in> set (se_Methods (c_se ?b)) then ?h ?s
      else (Inl (newHTTPErr 405 ErrMethodNotAllowed), ?s))" by (metis surj_pair)
  have keep: "keeps (\<lambda>s. writer_ok (c_w s) \<and> hrw_method (c_w s) = req_Method r) ?h"
    using writer.J_handlerE [OF refl, where mth = "req_Method r" and S = S and se = se]
    unfolding keeps_def writer_inv_def .
  have se: "c_se ?b = srv_endpoints srv se" by (simp add: begin_request_def)
  have "panicked res \<or> (\<exists>code. fst (serve S path r srv) =
      Answer [code] (if req_Method r = ''HEAD'' then [] else envelope (sv_errJSON S) res (c_w s1)))"
    using ServeHTTP_response [OF keep refl run, where errJSON = "sv_errJSON S"] Some
    by (auto simp: serve_def p Let_def length_Suc_conv split: if_splits)
  then show ?thesis using run unfolding Some p se option.case prod.case Let_def by blast
qed

section \<open>Endpoints\<close>



section \<open>Routes\<close>

text \<open>The routes of identities and affiliations.  A name in the path, when it is not empty and has no slash,
  reaches the handler as the variable of the route, under both prefixes.\<close>

theorem routes_of_names:
  assumes "name \<noteq> []" and "CHR ''/'' \<notin> set name"
  shows "muxMatch registerHandlers (''/identities/'' @ name) = Some (EP_identities, [(''id'', name)]) \<and>
    muxMatch registerHandlers (''/api/v1/identities/'' @ name) = Some (EP_identities, [(''id'', name)]) \<and>
    muxMatch registerHandlers (''/affiliations/'' @ name) = Some (EP_affiliations, [(''affiliation'', name)]) \<and>
    muxMatch registerHandlers (''/api/v1/affiliations/'' @ name) = Some (EP_affiliations, [(''affiliation'', name)])"
  using assms by (simp add: registerHandlers_def Server_registerHandler_def apiPathPrefix_def strings_Split_single)

theorem routes_of_names_witness:
  "muxMatch registerHandlers ''/identities/alice'' = Some (EP_identities, [(''id'', ''alice'')])"
  using routes_of_names [of "''alice''"] by simp

section \<open>The CAs of the server\<close>

text \<open>No two CAs have the same name or the same pair of issuer and subject.\<close>

definition cas_ok :: "(string \<Rightarrow> DN result) \<Rightarrow> ca_entry list \<Rightarrow> bool" where
  "cas_ok loadDN cas \<longleftrightarrow> distinct (map cx_Name cas) \<and>
     pairwise (\<lambda>c c'. \<exists>dn dn'. loadDN (cx_Certfile c) = Inr dn \<and> loadDN (cx_Certfile c') = Inr dn' \<and> dn \<noteq> dn') (set cas)"

lemma DN_equal_Inr: "DN_equal dn dn' = Inr () \<longleftrightarrow> dn \<noteq> dn'"
  by (cases dn; cases dn') (simp add: DN_equal_def)

lemma compareDN_Inr:
  "compareDN loadDN f g = Inr () \<longleftrightarrow> (\<exists>dn dn'. loadDN f = Inr dn \<and> loadDN g = Inr dn' \<and> dn \<noteq> dn')"
  by (auto simp: compareDN_def DN_equal_Inr)

text \<open>C35: the CAs of a server.  A CA that was added differs from all others in its name and in its distinguished
  names; one that is refused leaves the others as they were.\<close>

theorem addCA_keeps_distinct:
  assumes "cas_ok loadDN cas" and "addCA loadDN ca cas = (r, cas')"
  shows "cas_ok loadDN cas' \<and> (r = Inr () \<longleftrightarrow> cas' = cas @ [ca]) \<and> (r \<noteq> Inr () \<longrightarrow> cas' = cas)"
proof (cases r)
  case (Inl e)
  then have "cas' = cas" using assms(2) by (auto simp: addCA_def bindE_Inl seqE_Inl)
  then show ?thesis using assms(1) Inl by simp
next
  case (Inr u)
  then have "cas' = cas @ [ca]" and new: "\<forall>c \<in> set cas. cx_Name c \<noteq> cx_Name ca \<and> compareDN loadDN (cx_Certfile c) (cx_Certfile ca) = Inr ()"
    using assms(2) by (auto simp: addCA_def bindE_Inr seqE_Inr liftE_Inr simp del: liftE_eq split: if_splits)
  then show ?thesis
    using assms(1) Inr by (fastforce simp: cas_ok_def pairwise_insert compareDN_Inr)
qed

theorem addCA_keeps_distinct_witness:
  "cas_ok (\<lambda>f. Inr \<lparr>dn_issuer = ''root'', dn_subject = f\<rparr>)
     (snd (addCA (\<lambda>f. Inr \<lparr>dn_issuer = ''root'', dn_subject = f\<rparr>) \<lparr>cx_Name = ''ca2'', cx_Certfile = ''f2''\<rparr>
        [\<lparr>cx_Name = ''ca1'', cx_Certfile = ''f1''\<rparr>]))"
proof -
  let ?load = "\<lambda>f. Inr \<lparr>dn_issuer = ''root'', dn_subject = f\<rparr>" and ?ca = "\<lparr>cx_Name = ''ca2'', cx_Certfile = ''f2''\<rparr>"
  let ?run = "addCA ?load ?ca [\<lparr>cx_Name = ''ca1'', cx_Certfile = ''f1''\<rparr>]"
  have "cas_ok ?load [\<lparr>cx_Name = ''ca1'', cx_Certfile = ''f1''\<rparr>]" by (simp add: cas_ok_def)
  moreover have "?run = (fst ?run, snd ?run)" by simp
  ultimately show ?thesis using addCA_keeps_distinct by blast
qed

section \<open>A server in use\<close>

definition example_services :: services where
  "example_services =
     \<lparr>sv_env = example_env\<lparr>e_updateSchema := UpdateSchema_rows (\<lambda>_. []) (\<lambda>_. []) (e_levels example_env)\<rparr>, sv_keys = (\<lambda>_. example_keys), sv_certs = example_cert_env, sv_tcert = toy_tc_lib,
      sv_derive = (\<lambda>k c. Some (k @ c)), sv_SKI = id, sv_rand = replicate 300 7, sv_randomNum = 5, sv_errJSON = (\<lambda>_. ''err'')\<rparr>"

lemma example_schema: "updates_layout example_services"
  by (auto simp: updates_layout_def example_services_def)

text \<open>The certificate of the example's caller is good at one CA and revoked at the other.\<close>

definition example_server :: server where
  "example_server = newServer ''ca''
     [''ca'' \<mapsto> example_ca, ''ca2'' \<mapsto> example_ca\<lparr>ca_db := db_certificates_update (map (revoke_row 5 1)) example_db\<rparr>]"

lemma example_revoked: "srv_db ''ca2'' (\<lambda>d. (certSerial toy_cert, certAKI toy_cert) \<in> revoked_keys d) example_server"
proof -
  have "(certSerial toy_cert, certAKI toy_cert) = (''ab'', ''abc'')" by code_simp
  then show ?thesis
    by (auto simp: srv_db_def example_server_def newServer_def example_ca_def example_db_def revoked_keys_def revoke_row_def
        intro!: image_eqI)
qed

theorem revoked_forever_witness:
  "srv_db ''ca2'' (\<lambda>d. (certSerial toy_cert, certAKI toy_cert) \<in> revoked_keys d)
     (snd (serve example_services ''/identities'' (example_request ''GET'' ''{}'') example_server))"
  by (rule revoked_forever [OF server_run.one [where ok = updates_layout, OF server_run.none example_schema] example_revoked])


theorem revoked_certificate_refused_witness:
  "ctx_ca (st_ctx (snd (TokenAuthentication (sv_env example_services)
     (begin_request example_server EP_identities (example_request ''GET'' ''{}''))))) \<noteq> Some ''ca2''"
proof -
  let ?s = "begin_request example_server EP_identities (example_request ''GET'' ''{}'')"
  have "fst (TokenAuthentication (sv_env example_services) ?s) = Inr ''alice''" by code_simp
  then have auth: "TokenAuthentication (sv_env example_services) ?s = (Inr ''alice'', snd (TokenAuthentication (sv_env example_services) ?s))"
    by (simp add: prod_eq_iff)
  have tok: "VerifyToken (e_parse (sv_env example_services)) (e_csp (sv_env example_services))
      (req_Authorization (example_request ''GET'' ''{}'')) ''{}'' = Inr toy_cert" by code_simp
  have ready: "srv_dbs db_ready example_server"
    by (simp add: srv_dbs_def example_server_def newServer_def example_ca_def example_db_def db_ready_def)
  have body: "req_Body (example_request ''GET'' ''{}'') = Some ''{}''" by (simp add: example_request_def)
  show ?thesis
    by (rule revoked_certificate_refused [OF server_run.none example_revoked example_schema auth example_not_idemix body tok ready])
qed



end
