(* ===== verification/Enroll_Sessions.thy ===== *)
theory Enroll_Sessions
  imports Revocation
begin

text \<open>
  Concurrent enrollments.  The HTTP server handles requests in parallel, and an enrollment (\<open>enrollHandler\<close>) is
  three separate accesses to the database: the identity is read and its password and limit are checked
  (\<open>GetUser\<close>, \<open>Login\<close>), the certificate is stored (\<open>InsertCertificate\<close>), and the login is counted (\<open>LoginComplete\<close>).
  Between them other requests are served.

  The step relation interleaves the accesses of any number of enrollments.  A session is what an enrollment has in memory.  Accesses that only read are left out.
\<close>

section \<open>Sessions\<close>

datatype session =
    LoggedIn DBUser
  | Signed DBUser
  | Finished DBUser bool

record enroll_state =
  es_db :: sqldb
  es_sessions :: "session list"

text \<open>The circumstances of the steps: the password check, the limit of the CA, the parser and the level of certificates.\<close>

record enroll_params =
  ep_bcrypt :: bcrypt
  ep_caMax :: int
  ep_parse :: pem_parser
  ep_level :: int

inductive enroll_step :: "enroll_params \<Rightarrow> enroll_state \<Rightarrow> enroll_state \<Rightarrow> bool" for P where
  login: "GetUser uid (es_db s) = (Inr u, d) \<Longrightarrow> Login (ep_bcrypt P) u pass (ep_caMax P) = Inr u' \<Longrightarrow>
    enroll_step P s \<lparr>es_db = d, es_sessions = es_sessions s @ [LoggedIn u']\<rparr>"
| sign: "i < length (es_sessions s) \<Longrightarrow> es_sessions s ! i = LoggedIn u \<Longrightarrow>
    InsertCertificate (ep_parse P) (ep_level P) cr (es_db s) = (r, d) \<Longrightarrow>
    enroll_step P s \<lparr>es_db = d, es_sessions = (es_sessions s)[i := (if r = Inr () then Signed u else Finished u False)]\<rparr>"
| complete: "i < length (es_sessions s) \<Longrightarrow> es_sessions s ! i = Signed u \<Longrightarrow> LoginComplete u (es_db s) = (r, d) \<Longrightarrow>
    enroll_step P s \<lparr>es_db = d, es_sessions = (es_sessions s)[i := Finished u (r = Inr ())]\<rparr>"

section \<open>The limit under concurrency\<close>

definition row_of :: "string \<Rightarrow> sqldb \<Rightarrow> UserRecord list" where
  "row_of uid d = filter (is_user uid) (db_users d)"

fun counts :: "string \<Rightarrow> session \<Rightarrow> bool" where
  "counts uid (Finished u ok) = (ok \<and> ui_Name u = uid)"
| "counts uid _ = False"

definition completed :: "string \<Rightarrow> session list \<Rightarrow> nat" where
  "completed uid ss = length (filter (counts uid) ss)"

fun session_user :: "session \<Rightarrow> DBUser" where
  "session_user (LoggedIn u) = u"
| "session_user (Signed u) = u"
| "session_user (Finished u _) = u"

text \<open>What holds while the sessions run: the row of the identity counts the completed enrollments, every session
  has the limit in force, and the count is within the limit.\<close>

definition enroll_inv :: "enroll_params \<Rightarrow> string \<Rightarrow> int \<Rightarrow> int \<Rightarrow> enroll_state \<Rightarrow> bool" where
  "enroll_inv P uid n0 limit s \<longleftrightarrow>
     (\<exists>r. row_of uid (es_db s) = [r] \<and> effective_max (ur_MaxEnrollments r) (ep_caMax P) = limit \<and>
        ur_State r = n0 + int (completed uid (es_sessions s)) \<and> (limit \<noteq> -1 \<longrightarrow> ur_State r \<le> limit)) \<and>
     (\<forall>u \<in> session_user ` set (es_sessions s). ui_Name u = uid \<longrightarrow> ui_MaxEnrollments u = limit)"

lemma filter_map_names:
  "(\<And>r. ur_Name (f r) = ur_Name r) \<Longrightarrow> filter (is_user uid) (map f rows) = map f (filter (is_user uid) rows)"
  by (induction rows) simp_all

lemma filter_row_of: "(\<And>r. Q r \<Longrightarrow> ur_Name r = uid) \<Longrightarrow> filter Q (db_users d) = filter Q (row_of uid d)"
  unfolding row_of_def filter_filter by (intro filter_cong) auto

lemma row_of_name: "row_of uid d = [r] \<Longrightarrow> ur_Name r = uid"
  unfolding row_of_def by (drule filter_ConsD) simp

lemma LoginComplete_row:
  assumes row: "row_of uid d = [r]" and run: "LoginComplete u d = (res, d')"
  shows "row_of uid d' = [if ui_Name u = uid \<and> res = Inr () then r\<lparr>ur_State := ur_State r + 1\<rparr> else r] \<and>
    (ui_Name u = uid \<and> res = Inr () \<and> ui_MaxEnrollments u \<noteq> -1 \<longrightarrow> ur_State r < ui_MaxEnrollments u)"
proof -
  let ?P = "\<lambda>r. ur_Name r = ui_Name u \<and> (ui_MaxEnrollments u \<noteq> -1 \<longrightarrow> ur_State r < ui_MaxEnrollments u)"
  let ?f = "\<lambda>r. if ?P r then r\<lparr>ur_State := ur_State r + 1\<rparr> else r"
  have def: "LoginComplete u = bindE (mapErrE WithCause (sql_update db_users db_users_update ?P (\<lambda>r. r\<lparr>ur_State := ur_State r + 1\<rparr>))) one_row"
    by (auto simp: LoginComplete_def intro!: arg_cong2 [where f = bindE] arg_cong2 [where f = mapErrE])
  have name: "ur_Name r = uid" by (rule row_of_name [OF row])
  have hits: "filter ?P (db_users d) = filter ?P [r]" if "ui_Name u = uid"
    using filter_row_of [of ?P uid d] that row by simp
  have map: "filter (is_user uid) (map ?f (db_users d)) = [?f r]"
    using row by (subst filter_map_names) (simp_all add: row_of_def)
  show ?thesis
    using run name hits map row unfolding def row_of_def sql_update_def one_row_def
    by (auto simp: bindE_def mapErrE_def sql_def returnE_def throwE_def split: if_splits)
qed

lemma completed_append [simp]: "completed uid (ss @ [x]) = completed uid ss + (if counts uid x then 1 else 0)"
  by (simp add: completed_def)

lemma completed_update:
  "i < length ss \<Longrightarrow> \<not> counts uid (ss ! i) \<Longrightarrow>
   completed uid (ss[i := x]) = completed uid ss + (if counts uid x then 1 else 0)"
  by (induction ss arbitrary: i) (auto simp: completed_def nth_Cons split: nat.splits)

lemma InsertCertificate_users: "InsertCertificate parse level cr d = (r, d') \<Longrightarrow> db_users d' = db_users d"
  by (auto simp: InsertCertificate_def seqE_def checkDB_def sql_insert_def Let_def em_defs sql_def
      split: if_splits sum.splits prod.splits)

text \<open>Replacing the data of a session keeps what the invariant says of the sessions.\<close>

lemma sessions_update:
  "i < length ss \<Longrightarrow> session_user y = session_user (ss ! i) \<Longrightarrow>
   session_user ` set (ss[i := y]) = session_user ` set ss"
  by (metis image_set list_update_id map_update)

lemma enroll_inv_step:
  assumes step: "enroll_step P s t" and inv: "enroll_inv P uid n0 limit s"
  shows "enroll_inv P uid n0 limit t"
  using step
proof cases
  case (login uid' u d pass u')
  from login(2) obtain r rs where r: "filter (is_user uid') (db_users (es_db s)) = r # rs" "u = newDBUser r" "d = pop (es_db s)"
    by (auto simp: GetUser_Inr)
  have "ui_MaxEnrollments u' = limit" if "ui_Name u' = uid"
    using inv login(3) r that filter_ConsD [OF r(1)] by (auto simp: enroll_inv_def Login_Inr row_of_def newDBUser_def)
  then show ?thesis
    using inv login(1) r(3) by (auto simp: enroll_inv_def row_of_def)
next
  case (sign i u cr r d)
  show ?thesis
    using inv InsertCertificate_users [OF sign(4)] sign(2,3)
    unfolding sign(1) by (simp add: enroll_inv_def row_of_def completed_update sessions_update)
next
  case (complete i u r d)
  obtain row where row: "row_of uid (es_db s) = [row]" "effective_max (ur_MaxEnrollments row) (ep_caMax P) = limit"
      "ur_State row = n0 + int (completed uid (es_sessions s))" "limit \<noteq> -1 \<longrightarrow> ur_State row \<le> limit"
    using inv by (auto simp: enroll_inv_def)
  have "ui_MaxEnrollments u = limit" if "ui_Name u = uid"
    using inv nth_mem [OF complete(2)] complete(3) that by (auto simp: enroll_inv_def)
  then show ?thesis
    using inv complete(2,3) LoginComplete_row [OF row(1) complete(4)] row(2-)
    unfolding complete(1) by (auto simp: enroll_inv_def completed_update sessions_update split: if_splits)
qed

lemma enroll_inv_steps: "(enroll_step P)\<^sup>*\<^sup>* s t \<Longrightarrow> enroll_inv P uid n0 limit s \<Longrightarrow> enroll_inv P uid n0 limit t"
  by (induction rule: rtranclp_induct) (auto intro: enroll_inv_step)

text \<open>C7: However the accesses of any number of enrollments interleave, the enrollments of an identity that complete
  are counted exactly by its row, and together with the earlier ones they never exceed the limit that is in force
  (the smaller of the limits of the identity and of the CA).
\<close>

theorem concurrent_enrollments_limited:
  assumes steps: "(enroll_step P)\<^sup>*\<^sup>* \<lparr>es_db = d, es_sessions = []\<rparr> s" and row: "row_of uid d = [r]"
    and limit: "effective_max (ur_MaxEnrollments r) (ep_caMax P) = limit" "limit \<noteq> -1" "ur_State r \<le> limit"
  shows "ur_State r + int (completed uid (es_sessions s)) \<le> limit \<and>
    map ur_State (row_of uid (es_db s)) = [ur_State r + int (completed uid (es_sessions s))]"
proof -
  have "enroll_inv P uid (ur_State r) limit \<lparr>es_db = d, es_sessions = []\<rparr>"
    using row limit by (simp add: enroll_inv_def completed_def)
  from enroll_inv_steps [OF steps this] show ?thesis
    using limit(2) by (auto simp: enroll_inv_def)
qed

section \<open>Examples\<close>

definition example_params :: enroll_params where
  "example_params = \<lparr>ep_bcrypt = plain_bcrypt, ep_caMax = -1,
     ep_parse = (\<lambda>p. Some (toy_cert\<lparr>x_CommonName := ''bob''\<rparr>)), ep_level = 1\<rparr>"

definition bob_cert :: "string \<Rightarrow> CertRecord" where
  "bob_cert serial = \<lparr>cr_ID = [], cr_Level = 0, cr_Serial = serial, cr_AKI = ''abc'', cr_CALabel = [],
     cr_Status = ''good'', cr_Reason = 0, cr_Expiry = 100, cr_RevokedAt = 0, cr_PEM = serial\<rparr>"

definition logged_in :: enroll_state where
  "logged_in = \<lparr>es_db = example_db, es_sessions = [LoggedIn (newDBUser bob), LoggedIn (newDBUser bob)]\<rparr>"

definition two_signed :: enroll_state where
  "two_signed = \<lparr>es_db = snd (InsertCertificate (ep_parse example_params) 1 (bob_cert ''2'')
       (snd (InsertCertificate (ep_parse example_params) 1 (bob_cert ''1'') example_db))),
     es_sessions = [Signed (newDBUser bob), Signed (newDBUser bob)]\<rparr>"

lemma bob_signs: "(enroll_step example_params)\<^sup>*\<^sup>* \<lparr>es_db = example_db, es_sessions = []\<rparr> two_signed"
proof -
  let ?P = example_params and ?u = "newDBUser bob"
  let ?d1 = "snd (InsertCertificate (ep_parse ?P) 1 (bob_cert ''1'') example_db)"
  have get: "GetUser ''bob'' example_db = (Inr ?u, example_db)" by code_simp
  have login: "Login (ep_bcrypt ?P) ?u ''pw2'' (ep_caMax ?P) = Inr ?u" by code_simp
  have ok: "fst (InsertCertificate (ep_parse ?P) 1 (bob_cert ''1'') example_db) = Inr ()"
      "fst (InsertCertificate (ep_parse ?P) 1 (bob_cert ''2'') ?d1) = Inr ()" by code_simp+
  note l = enroll_step.login [of "''bob''" _ ?u _ ?P "''pw2''", OF _ login]
  note s = enroll_step.sign [where P = ?P and r = "Inr ()" and u = ?u]
  have "(enroll_step ?P)\<^sup>*\<^sup>* \<lparr>es_db = example_db, es_sessions = []\<rparr> logged_in"
    using l [of "\<lparr>es_db = example_db, es_sessions = []\<rparr>" example_db]
      l [of "\<lparr>es_db = example_db, es_sessions = [LoggedIn ?u]\<rparr>" example_db]
    by (simp add: get logged_in_def)
  also have "enroll_step ?P logged_in \<lparr>es_db = ?d1, es_sessions = [Signed ?u, LoggedIn ?u]\<rparr>"
    using s [of 0 logged_in "bob_cert ''1''" ?d1] ok(1) by (simp add: logged_in_def prod_eq_iff example_params_def)
  also have "enroll_step ?P \<dots> two_signed"
    using s [of 1 "\<lparr>es_db = ?d1, es_sessions = [Signed ?u, LoggedIn ?u]\<rparr>" "bob_cert ''2''" "es_db two_signed"] ok(2)
    by (simp add: two_signed_def prod_eq_iff example_params_def)
  finally show ?thesis .
qed

text \<open>The first of the two enrollments is counted; the limit of \<open>bob\<close> is one, and the count of the second is refused.\<close>

definition both_finished :: enroll_state where
  "both_finished = \<lparr>es_db = snd (LoginComplete (newDBUser bob) (snd (LoginComplete (newDBUser bob) (es_db two_signed)))),
     es_sessions = [Finished (newDBUser bob) True, Finished (newDBUser bob) False]\<rparr>"

lemma bob_finishes: "(enroll_step example_params)\<^sup>*\<^sup>* \<lparr>es_db = example_db, es_sessions = []\<rparr> both_finished"
proof -
  let ?u = "newDBUser bob" and ?d = "es_db two_signed"
  let ?d1 = "snd (LoginComplete ?u ?d)"
  let ?s1 = "\<lparr>es_db = ?d1, es_sessions = [Finished ?u True, Signed ?u]\<rparr>"
  have ok: "fst (LoginComplete ?u ?d) = Inr ()" "fst (LoginComplete ?u ?d1) \<noteq> Inr ()" by code_simp+
  note bob_signs
  also have "enroll_step example_params two_signed ?s1"
    using enroll_step.complete [of 0 two_signed ?u "Inr ()" ?d1 example_params] ok(1)
    by (simp add: two_signed_def prod_eq_iff)
  also have "enroll_step example_params ?s1 both_finished"
    using enroll_step.complete [of 1 ?s1 ?u "fst (LoginComplete ?u ?d1)" "es_db both_finished" example_params] ok(2)
    by (simp add: both_finished_def prod_eq_iff)
  finally show ?thesis .
qed

theorem concurrent_enrollments_limited_witness:
  "row_of ''bob'' example_db = [bob] \<and> effective_max (ur_MaxEnrollments bob) (ep_caMax example_params) = 1 \<and>
   ur_State bob + int (completed ''bob'' (es_sessions both_finished)) \<le> 1 \<and>
   map ur_State (row_of ''bob'' (es_db both_finished)) = [ur_State bob + int (completed ''bob'' (es_sessions both_finished))]"
proof -
  have row: "row_of ''bob'' example_db = [bob]" by code_simp
  have limit: "effective_max (ur_MaxEnrollments bob) (ep_caMax example_params) = 1" by code_simp
  show ?thesis
    using concurrent_enrollments_limited [OF bob_finishes row limit] row limit by (simp add: bob_def)
qed

text \<open>The limit does not bound the certificates: an identity that may enroll once logs in twice before either enrollment
  is counted, and both certificates are stored as good ones.  Only one of the two enrollments is answered with its certificate.
\<close>

theorem certificates_beyond_limit:
  "ur_MaxEnrollments bob = 1 \<and>
   (enroll_step example_params)\<^sup>*\<^sup>* \<lparr>es_db = example_db, es_sessions = []\<rparr> both_finished \<and>
   completed ''bob'' (es_sessions both_finished) = 1 \<and>
   length (filter (\<lambda>c. cr_ID c = ''bob'' \<and> cr_Status c = ''good'') (db_certificates (es_db both_finished))) = 2"
proof -
  have n: "completed ''bob'' (es_sessions both_finished) = 1"
    "length (filter (\<lambda>c. cr_ID c = ''bob'' \<and> cr_Status c = ''good'') (db_certificates (es_db both_finished))) = 2"
    by code_simp+
  then show ?thesis using bob_finishes by (simp add: bob_def)
qed

text \<open>C38: A revocation that is processed while an enrollment of the identity is under way is lost: when the login is counted,
  the state of the row goes from revoked (-1) to 0, and the identity can log in with its password again.
\<close>

theorem revocation_lost:
  assumes row: "row_of uid d = [r]" and u: "ui_Name u = uid" "-1 \<le> ui_MaxEnrollments u"
    and ok: "Revoke u d = (Inr (), d1)" "\<not> faulty d1"
  shows "fst (LoginComplete u d1) = Inr () \<and> row_of uid (snd (LoginComplete u d1)) = [r\<lparr>ur_State := 0\<rparr>]"
proof -
  let ?P = "\<lambda>r. ur_Name r = ui_Name u \<and> (ui_MaxEnrollments u \<noteq> -1 \<longrightarrow> ur_State r < ui_MaxEnrollments u)"
  have revoked: "row_of uid d1 = [r\<lparr>ur_State := -1\<rparr>]"
    using row ok u row_of_name [OF row]
    by (auto simp: Revoke_def bindE_Inr mapErrE_Inr sql_update_Inr row_of_def filter_map_names)
  then have "length (filter ?P (db_users d1)) = 1"
    using filter_row_of [of ?P uid d1] u row_of_name [OF row] by simp
  then have "LoginComplete u d1 =
      (Inr (), db_users_update (map (\<lambda>r. if ?P r then r\<lparr>ur_State := ur_State r + 1\<rparr> else r)) (pop d1))"
    using ok(2) by (simp add: LoginComplete_Inr)
  then have run: "fst (LoginComplete u d1) = Inr ()" by simp
  with LoginComplete_row [OF revoked prod.collapse [symmetric], of u] u show ?thesis by simp
qed

theorem revocation_lost_witness:
  "let d1 = snd (Revoke (newDBUser bob) example_db)
   in fst (LoginComplete (newDBUser bob) d1) = Inr () \<and>
      row_of ''bob'' (snd (LoginComplete (newDBUser bob) d1)) = [bob\<lparr>ur_State := 0\<rparr>]"
proof -
  have row: "row_of ''bob'' example_db = [bob]" by code_simp
  have u: "ui_Name (newDBUser bob) = ''bob''" "-1 \<le> ui_MaxEnrollments (newDBUser bob)" by code_simp+
  have ok: "fst (Revoke (newDBUser bob) example_db) = Inr ()"
    "\<not> faulty (snd (Revoke (newDBUser bob) example_db))" by code_simp+
  show ?thesis
    using revocation_lost [OF row u _ ok(2)] ok(1) by (simp add: prod_eq_iff)
qed

end
