(* ===== verification/Go_Net.thy ===== *)
theory Go_Net
  imports Go_Prelude
begin

text \<open>
  The parts of Go's packages \<open>net\<close> and \<open>net/url\<close> that the LDAP registry and the client library share.
\<close>

text \<open>\<open>net.SplitHostPort\<close>.\<close>

definition SplitHostPort :: "string \<Rightarrow> (string \<times> string) option" where
  "SplitHostPort hostport =
     (if CHR '':'' \<notin> set hostport then None
      else
        (let port = rev (takeWhile (\<lambda>c. c \<noteq> CHR '':'') (rev hostport));
             i = length hostport - length port - 1 in
         if hd hostport = CHR ''[''
         then (let e = length (takeWhile (\<lambda>c. c \<noteq> CHR '']'') hostport) in
               if e = length hostport \<or> e + 1 \<noteq> i then None
               else if CHR ''['' \<in> set (drop 1 hostport) \<or> CHR '']'' \<in> set (drop (e + 1) hostport) then None
               else Some (take (e - 1) (drop 1 hostport), port))
         else if CHR '':'' \<in> set (take i hostport) then None
         else if CHR ''['' \<in> set hostport \<or> CHR '']'' \<in> set hostport then None
         else Some (take i hostport, port)))"

text \<open>A parsed URL: its user has a name and perhaps a password.\<close>

record URL =
  u_Scheme :: string
  u_Host :: string
  u_User :: "(string \<times> string option) option"
  u_Path :: string

end
