(* ===== verification/Ldap_Client.thy ===== *)
theory Ldap_Client
  imports User_Registry Go_Net
begin

text \<open>
  The identity registry in an LDAP directory (\<open>lib/ldap/client.go\<close>): the client, its cached connection, identities and
  their attributes.

  The directory is a parameter: which binds it accepts and what a search returns to whom is bound.
  The connections are the state, each with the name that is bound to it; every dial, bind and search may fail as the list
  of failures says.  The expressions of package \<open>govaluate\<close> are a parameter, and so are the parser of URLs and the set-up of TLS.
  Go's maps are lists of entries, in the order in which the loop visits them.
\<close>

section \<open>Texts\<close>

text \<open>\<open>fmt.Sprintf\<close> with one argument, a string.  A verb other than \<open>s\<close> and \<open>v\<close> is printed as a bad one.\<close>

fun sprintf_loop :: "string option \<Rightarrow> string \<Rightarrow> string" where
  "sprintf_loop None [] = []"
| "sprintf_loop (Some a) [] = ''%!(EXTRA string='' @ a @ '')''"
| "sprintf_loop arg (c # cs) =
     (if c \<noteq> CHR ''%'' then c # sprintf_loop arg cs
      else (case cs of
              [] \<Rightarrow> ''%!(NOVERB)'' @ sprintf_loop arg []
            | v # rest \<Rightarrow>
                if v = CHR ''%'' then CHR ''%'' # sprintf_loop arg rest
                else (case arg of
                        None \<Rightarrow> ''%!'' @ [v] @ ''(MISSING)'' @ sprintf_loop None rest
                      | Some a \<Rightarrow>
                          (if v = CHR ''s'' \<or> v = CHR ''v'' then a else ''%!'' @ [v] @ ''(string='' @ a @ '')'')
                            @ sprintf_loop None rest)))"

definition Sprintf1 :: "string \<Rightarrow> string \<Rightarrow> string" where
  "Sprintf1 format a = sprintf_loop (Some a) format"

definition char_ToUpper :: "char \<Rightarrow> char" where
  "char_ToUpper c =
     (if 97 \<le> (of_char c :: nat) \<and> (of_char c :: nat) \<le> 122 then char_of ((of_char c :: nat) - 32) else c)"

text \<open>\<open>strings.Replace(s, old, new, -1)\<close>; an empty \<open>old\<close> matches before every character and at the end.\<close>

function strings_ReplaceAll :: "string \<Rightarrow> string \<Rightarrow> string \<Rightarrow> string" where
  "strings_ReplaceAll s old new =
     (if old = [] then concat (map (\<lambda>c. new @ [c]) s) @ new
      else if s = [] then []
      else if strings_HasPrefix s old then new @ strings_ReplaceAll (drop (length old) s) old new
      else hd s # strings_ReplaceAll (tl s) old new)"
  by pat_completeness auto
termination
  by (relation "measure (\<lambda>(s, _, _). length s)") auto

declare strings_ReplaceAll.simps [simp del]

section \<open>Configuration and client\<close>

record NameVal =
  nv_Name :: string
  nv_Value :: string

record AttrConfig =
  ac_Names :: "string list"
  ac_Converters :: "NameVal list"
  ac_Maps :: "(string \<times> NameVal list) list"

record ldap_Config =
  lcfg_URL :: string
  lcfg_UserFilter :: string
  lcfg_GroupFilter :: string
  lcfg_Attribute :: AttrConfig

text \<open>The values of expressions; a number is represented by the text that is printed for it.\<close>

datatype gval = VString (vstring: string) | VBool bool | VStrings "string list" | VNum string

text \<open>Package \<open>govaluate\<close>: parsing without and with the names of functions, and the evaluation with functions and parameters.\<close>

record govaluate =
  gv_parse :: "string \<Rightarrow> bool"
  gv_parseF :: "string \<Rightarrow> bool"
  gv_evaluate :: "string \<Rightarrow> (string \<Rightarrow> gval list \<Rightarrow> gval result) option \<Rightarrow> (string \<times> gval) list \<Rightarrow> gval result"

text \<open>An expression and whether it was parsed without functions (\<open>eval\<close>).\<close>

record userExpr =
  ue_attr :: string
  ue_expr :: string
  ue_eval :: bool

record Client =
  lc_Host :: string
  lc_Port :: int
  lc_UseSSL :: bool
  lc_AdminDN :: string
  lc_AdminPassword :: string
  lc_Base :: string
  lc_UserFilter :: string
  lc_GroupFilter :: string
  lc_attrNames :: "string list"
  lc_attrExprs :: "(string \<times> userExpr) list"
  lc_attrMaps :: "(string \<times> (string \<times> string) list) list"

definition cfgVal :: "string \<Rightarrow> string \<Rightarrow> string" where
  "cfgVal val1 val2 = (if val1 \<noteq> [] then val1 else val2)"

definition userExpr_parse :: "govaluate \<Rightarrow> userExpr \<Rightarrow> userExpr result" where
  "userExpr_parse G ue =
     (if gv_parse G (ue_expr ue) then Inr (ue\<lparr>ue_eval := True\<rparr>)
      else if gv_parseF G (ue_expr ue) then Inr ue
      else Inl (WithCause (PlainErr ''Invalid expression for attribute'')))"

definition newUserExpr :: "govaluate \<Rightarrow> string \<Rightarrow> string \<Rightarrow> userExpr result" where
  "newUserExpr G attr expr = userExpr_parse G \<lparr>ue_attr = attr, ue_expr = expr, ue_eval = False\<rparr>"

fun addConverters :: "govaluate \<Rightarrow> NameVal list \<Rightarrow> (string \<times> userExpr) list \<Rightarrow> (string \<times> userExpr) list result" where
  "addConverters G [] exprs = Inr exprs"
| "addConverters G (ele # eles) exprs =
     bindR (newUserExpr G (nv_Name ele) (nv_Value ele)) (\<lambda>ue.
     addConverters G eles (AList.update (nv_Name ele) ue exprs))"

definition attrMapsOf :: "(string \<times> NameVal list) list \<Rightarrow> (string \<times> (string \<times> string) list) list" where
  "attrMapsOf maps =
     map (\<lambda>(n, vs). (n, fold (\<lambda>ele m. AList.update (nv_Name ele) (nv_Value ele) m) vs [])) maps"

definition hostPort :: "URL \<Rightarrow> string \<Rightarrow> (string \<times> string) result" where
  "hostPort u defaultPort =
     (if CHR '':'' \<notin> set (u_Host u) then Inr (u_Host u, defaultPort)
      else (case SplitHostPort (u_Host u) of
              None \<Rightarrow> Inl (WithCause (PlainErr ''Invalid LDAP host:port''))
            | Some hp \<Rightarrow> Inr hp))"

definition NewClient :: "govaluate \<Rightarrow> (string \<Rightarrow> URL option) \<Rightarrow> ldap_Config option \<Rightarrow> Client result" where
  "NewClient G url_Parse config =
     (case config of
        None \<Rightarrow> Inl (PlainErr ''LDAP configuration is nil'')
      | Some cfg \<Rightarrow>
          if lcfg_URL cfg = [] then Inl (PlainErr ''LDAP configuration requires a URL'')
          else
            (case url_Parse (lcfg_URL cfg) of
               None \<Rightarrow> Inl (PlainErr ''parse error'')
             | Some u \<Rightarrow>
                 bindR (if u_Scheme u = ''ldap'' then Inr ''389'' else if u_Scheme u = ''ldaps'' then Inr ''636''
                        else Inl (PlainErr ''Invalid LDAP scheme'')) (\<lambda>defaultPort.
                 bindR (hostPort u defaultPort) (\<lambda>(host, port).
                 case strconv_Atoi port of
                   None \<Rightarrow> Inl (WithCause (PlainErr ''Invalid LDAP port''))
                 | Some portVal \<Rightarrow>
                     bindR (addConverters G (ac_Converters (lcfg_Attribute cfg)) []) (\<lambda>exprs.
                     Inr \<lparr>lc_Host = host, lc_Port = portVal, lc_UseSSL = (u_Scheme u = ''ldaps''),
                          lc_AdminDN = (case u_User u of Some (n, _) \<Rightarrow> n | None \<Rightarrow> []),
                          lc_AdminPassword = (case u_User u of Some (_, Some p) \<Rightarrow> p | _ \<Rightarrow> []),
                          lc_Base = strings_TrimPrefix (u_Path u) ''/'',
                          lc_UserFilter = cfgVal (lcfg_UserFilter cfg) ''(uid=%s)'',
                          lc_GroupFilter = cfgVal (lcfg_GroupFilter cfg) ''(memberUid=%s)'',
                          lc_attrNames = ac_Names (lcfg_Attribute cfg), lc_attrExprs = exprs,
                          lc_attrMaps = attrMapsOf (ac_Maps (lcfg_Attribute cfg))\<rparr>)))))"

section \<open>Connections\<close>

record entry =
  en_DN :: string
  en_Attributes :: "(string \<times> string list) list"

record directory =
  dir_bind :: "string \<Rightarrow> string \<Rightarrow> bool"
  dir_search :: "string \<Rightarrow> string \<Rightarrow> string \<Rightarrow> string list \<Rightarrow> entry option list result"
  dir_tls :: "unit result"

record ldap_state =
  ls_AdminConn :: "nat option"
  ls_open :: "(nat \<times> string) list"
  ls_next :: nat
  ls_faults :: "bool list"

type_synonym 'a lop = "(ldap_state, go_error, 'a) em"

text \<open>One access to the network.\<close>

definition network :: "unit lop" where
  "network s =
     (case ls_faults s of
        True # fs \<Rightarrow> (Inl (PlainErr ''network error''), s\<lparr>ls_faults := fs\<rparr>)
      | _ \<Rightarrow> (Inr (), s\<lparr>ls_faults := tl (ls_faults s)\<rparr>))"

definition ldap_Dial :: "nat lop" where
  "ldap_Dial =
     seqE network
     (bindE (getE ls_next) (\<lambda>c.
      seqE (modifyE (\<lambda>s. s\<lparr>ls_open := ls_open s @ [(c, [])], ls_next := Suc c\<rparr>))
      (returnE c)))"

text \<open>A bind that is refused leaves the connection anonymous.\<close>

definition set_bound :: "nat \<Rightarrow> string \<Rightarrow> ldap_state \<Rightarrow> ldap_state" where
  "set_bound c dn s = s\<lparr>ls_open := map (\<lambda>(i, b). if i = c then (i, dn) else (i, b)) (ls_open s)\<rparr>"

definition conn_Bind :: "directory \<Rightarrow> nat \<Rightarrow> string \<Rightarrow> string \<Rightarrow> unit lop" where
  "conn_Bind D c dn password =
     seqE network
     (if dir_bind D dn password then modifyE (set_bound c dn)
      else seqE (modifyE (set_bound c [])) (throwE (PlainErr ''LDAP Result Code 49 Invalid Credentials'')))"

definition conn_Search :: "directory \<Rightarrow> nat \<Rightarrow> string \<Rightarrow> string \<Rightarrow> string list \<Rightarrow> entry option list lop" where
  "conn_Search D c base flt attrs =
     seqE network
     (bindE (getE (\<lambda>s. map_of (ls_open s) c)) (\<lambda>bound.
      case bound of
        None \<Rightarrow> throwE (PlainErr ''ldap: connection closed'')
      | Some b \<Rightarrow> liftE (dir_search D b base flt attrs)))"

definition conn_Close :: "nat \<Rightarrow> unit lop" where
  "conn_Close c = modifyE (\<lambda>s. s\<lparr>ls_open := filter (\<lambda>(i, _). i \<noteq> c) (ls_open s)\<rparr>)"

definition newConnection :: "directory \<Rightarrow> Client \<Rightarrow> nat lop" where
  "newConnection D lc =
     seqE (if lc_UseSSL lc then mapErrE WithCause (liftE (dir_tls D)) else returnE ())
     (bindE (mapErrE WithCause ldap_Dial) (\<lambda>conn.
      seqE (if lc_AdminDN lc \<noteq> [] \<and> lc_AdminPassword lc \<noteq> []
            then mapErrE WithCause (conn_Bind D conn (lc_AdminDN lc) (lc_AdminPassword lc)) else returnE ())
      (returnE conn)))"

section \<open>Identities\<close>

record ldap_user =
  lu_name :: string
  lu_entry :: entry

definition cachedSearch :: "directory \<Rightarrow> Client \<Rightarrow> string \<Rightarrow> entry option list option lop" where
  "cachedSearch D lc flt =
     bindE (getE ls_AdminConn) (\<lambda>conn.
     case conn of
       None \<Rightarrow> returnE None
     | Some c \<Rightarrow>
         bindE (attemptE (conn_Search D c (lc_Base lc) flt (lc_attrNames lc))) (\<lambda>r.
         case r of
           Inl _ \<Rightarrow> seqE (conn_Close c) (seqE (modifyE (\<lambda>s. s\<lparr>ls_AdminConn := None\<rparr>)) (returnE None))
         | Inr sresp \<Rightarrow> returnE (Some sresp)))"

definition freshSearch :: "directory \<Rightarrow> Client \<Rightarrow> string \<Rightarrow> entry option list lop" where
  "freshSearch D lc flt =
     bindE (newConnection D lc) (\<lambda>c.
     bindE (attemptE (conn_Search D c (lc_Base lc) flt (lc_attrNames lc))) (\<lambda>r.
     case r of
       Inl err \<Rightarrow> seqE (conn_Close c) (throwE (WithCause err))
     | Inr sresp \<Rightarrow> seqE (modifyE (\<lambda>s. s\<lparr>ls_AdminConn := Some c\<rparr>)) (returnE sresp)))"

definition oneEntry :: "string \<Rightarrow> entry option list \<Rightarrow> ldap_user result" where
  "oneEntry username entries =
     (case entries of
        [] \<Rightarrow> Inl (PlainErr ''User does not exist in LDAP directory'')
      | [None] \<Rightarrow> Inl (PlainErr ''No entry was returned for user'')
      | [Some e] \<Rightarrow> Inr \<lparr>lu_name = username, lu_entry = e\<rparr>
      | _ \<Rightarrow> Inl (PlainErr ''Multiple users with name exist in LDAP directory''))"

definition ldap_GetUser :: "directory \<Rightarrow> Client \<Rightarrow> string \<Rightarrow> ldap_user lop" where
  "ldap_GetUser D lc username =
     (let flt = Sprintf1 (lc_UserFilter lc) username in
      bindE (cachedSearch D lc flt) (\<lambda>cached.
      bindE (case cached of Some sresp \<Rightarrow> returnE sresp | None \<Rightarrow> freshSearch D lc flt) (\<lambda>sresp.
      liftE (oneEntry username sresp))))"

definition ldap_Login :: "directory \<Rightarrow> Client \<Rightarrow> ldap_user \<Rightarrow> string \<Rightarrow> unit lop" where
  "ldap_Login D lc u password =
     bindE (newConnection D lc) (\<lambda>conn.
     bindE (attemptE (conn_Bind D conn (en_DN (lu_entry u)) password)) (\<lambda>r.
     seqE (conn_Close conn)
     (case r of Inl err \<Rightarrow> throwE (WithCause err) | Inr _ \<Rightarrow> returnE ())))"

definition GetName :: "ldap_user \<Rightarrow> string" where
  "GetName u = en_DN (lu_entry u)"

definition ou_of :: "string \<Rightarrow> string list" where
  "ou_of p = (if strings_HasPrefix (map char_ToUpper p) ''OU=''
              then [strings_TrimLeft (strings_TrimRight (drop 3 p) (CHR '' '')) (CHR '' '')] else [])"

definition ldap_GetAffiliationPath :: "ldap_user \<Rightarrow> string list" where
  "ldap_GetAffiliationPath u = concat (map ou_of (rev (strings_Split (en_DN (lu_entry u)) (CHR '',''))))"

section \<open>Attributes\<close>

definition GetAttributeValues :: "entry \<Rightarrow> string \<Rightarrow> string list" where
  "GetAttributeValues e name = (case map_of (en_Attributes e) name of Some vs \<Rightarrow> vs | None \<Rightarrow> [])"

fun attrFunction :: "ldap_user \<Rightarrow> gval list \<Rightarrow> gval result" where
  "attrFunction u [VString attrName] = Inr (VString (strings_Join (GetAttributeValues (lu_entry u) attrName) '',''))"
| "attrFunction u [VString attrName, VString sep] = Inr (VString (strings_Join (GetAttributeValues (lu_entry u) attrName) sep))"
| "attrFunction u _ = Inl (PlainErr ''Invalid arguments for attr'')"

definition isVString :: "gval \<Rightarrow> bool" where
  "isVString v = (case v of VString _ \<Rightarrow> True | _ \<Rightarrow> False)"

fun mapFunction :: "Client \<Rightarrow> gval list \<Rightarrow> gval result" where
  "mapFunction lc [a, b] =
     (if \<not> isVString a then Inl (PlainErr ''First argument to map must be a string'')
      else if \<not> isVString b then Inl (GoPanic ''interface conversion'')
      else (case map_of (lc_attrMaps lc) (strings_ToLower (vstring b)) of
              None \<Rightarrow> Inl (PlainErr ''Unknown map name'')
            | Some myMap \<Rightarrow> Inr (VString (fold (\<lambda>(name, val) str. strings_ReplaceAll str name val) myMap (vstring a)))))"
| "mapFunction lc _ = Inl (PlainErr ''Expecting two arguments'')"

fun ifFunction :: "gval list \<Rightarrow> gval result" where
  "ifFunction [VBool c, a, b] = Inr (if c then a else b)"
| "ifFunction [_, a, b] = Inl (PlainErr ''Expecting first argument to if to be a boolean'')"
| "ifFunction _ = Inl (PlainErr ''Expecting 3 arguments for if'')"

definition ue_functions :: "Client \<Rightarrow> ldap_user \<Rightarrow> string \<Rightarrow> gval list \<Rightarrow> gval result" where
  "ue_functions lc u name args =
     (if name = ''attr'' then attrFunction u args
      else if name = ''map'' then mapFunction lc args
      else if name = ''if'' then ifFunction args
      else Inl (PlainErr ''Undefined function''))"

definition ue_evaluate :: "govaluate \<Rightarrow> Client \<Rightarrow> userExpr \<Rightarrow> ldap_user \<Rightarrow> gval result" where
  "ue_evaluate G lc ue u =
     (let parms = [(''DN'', VString (en_DN (lu_entry u))), (''affiliation'', VStrings (ldap_GetAffiliationPath u))] in
      if ue_eval ue then gv_evaluate G (ue_expr ue) None parms
      else if \<not> gv_parseF G (ue_expr ue) then Inl (WithCause (PlainErr ''Invalid expression for attribute''))
      else gv_evaluate G (ue_expr ue) (Some (ue_functions lc u)) parms)"

text \<open>\<open>fmt.Sprintf("%v", value)\<close>.\<close>

fun print_val :: "gval \<Rightarrow> string" where
  "print_val (VString s) = s"
| "print_val (VBool b) = (if b then ''true'' else ''false'')"
| "print_val (VStrings ss) = ''['' @ strings_Join ss '' '' @ '']''"
| "print_val (VNum t) = t"

definition ldap_GetAttribute :: "govaluate \<Rightarrow> Client \<Rightarrow> ldap_user \<Rightarrow> string \<Rightarrow> Attribute result" where
  "ldap_GetAttribute G lc u name =
     (case map_of (lc_attrExprs lc) name of
        None \<Rightarrow> Inr \<lparr>attr_Name = name, attr_Value = strings_Join (GetAttributeValues (lu_entry u) name) '','', attr_ECert = False\<rparr>
      | Some expr \<Rightarrow>
          bindR (mapErrR (\<lambda>e. if isPanic e then e else WithCause e) (ue_evaluate G lc expr u)) (\<lambda>v.
          Inr \<lparr>attr_Name = name, attr_Value = print_val v, attr_ECert = False\<rparr>))"

fun getEach :: "(string \<Rightarrow> Attribute result) \<Rightarrow> string list \<Rightarrow> Attribute list result" where
  "getEach f [] = Inr []"
| "getEach f (n # ns) = bindR (f n) (\<lambda>a. bindR (getEach f ns) (\<lambda>as. Inr (a # as)))"

definition ldap_GetAttributes :: "govaluate \<Rightarrow> Client \<Rightarrow> ldap_user \<Rightarrow> string list option \<Rightarrow> Attribute list result" where
  "ldap_GetAttributes G lc u attrNames =
     getEach (ldap_GetAttribute G lc u)
       ((case attrNames of None \<Rightarrow> lc_attrNames lc | Some ns \<Rightarrow> ns) @ map fst (lc_attrExprs lc))"

text \<open>The remaining methods of an identity.\<close>

definition ldap_GetType :: "ldap_user \<Rightarrow> string" where "ldap_GetType u = ''client''"
definition ldap_GetMaxEnrollments :: "ldap_user \<Rightarrow> int" where "ldap_GetMaxEnrollments u = 0"
definition ldap_GetLevel :: "ldap_user \<Rightarrow> int" where "ldap_GetLevel u = 0"
definition ldap_LoginComplete :: "ldap_user \<Rightarrow> unit lop" where "ldap_LoginComplete u = returnE ()"

section \<open>The operations that a directory does not support\<close>

definition errNotSupported :: go_error where
  "errNotSupported = PlainErr ''Not supported''"

definition ldap_SetLevel :: "ldap_user \<Rightarrow> int \<Rightarrow> unit lop" where "ldap_SetLevel u level = throwE errNotSupported"
definition ldap_Revoke :: "ldap_user \<Rightarrow> unit lop" where "ldap_Revoke u = throwE errNotSupported"
definition ldap_ModifyAttributes :: "ldap_user \<Rightarrow> Attribute list \<Rightarrow> unit lop" where
  "ldap_ModifyAttributes u attrs = throwE errNotSupported"
definition ldap_InsertUser :: "UserInfo \<Rightarrow> unit lop" where "ldap_InsertUser user = throwE errNotSupported"
definition ldap_UpdateUser :: "UserInfo \<Rightarrow> bool \<Rightarrow> unit lop" where "ldap_UpdateUser user updatePass = throwE errNotSupported"
definition ldap_DeleteUser :: "string \<Rightarrow> ldap_user lop" where "ldap_DeleteUser uid = throwE errNotSupported"
definition ldap_GetAffiliation :: "string \<Rightarrow> AffiliationRecord lop" where "ldap_GetAffiliation name = throwE errNotSupported"
definition ldap_GetAllAffiliations :: "string \<Rightarrow> AffiliationRecord list lop" where "ldap_GetAllAffiliations name = throwE errNotSupported"
definition ldap_GetRootAffiliation :: "AffiliationRecord lop" where "ldap_GetRootAffiliation = throwE errNotSupported"
definition ldap_InsertAffiliation :: "string \<Rightarrow> string \<Rightarrow> int \<Rightarrow> unit lop" where
  "ldap_InsertAffiliation name prekey version = throwE errNotSupported"
definition ldap_DeleteAffiliation :: "string \<Rightarrow> bool \<Rightarrow> bool \<Rightarrow> bool \<Rightarrow> 'r lop" where
  "ldap_DeleteAffiliation name force identityRemoval isRegistrar = throwE errNotSupported"
definition ldap_ModifyAffiliation :: "string \<Rightarrow> string \<Rightarrow> bool \<Rightarrow> bool \<Rightarrow> 'r lop" where
  "ldap_ModifyAffiliation oldAffiliation newAffiliation force isRegistrar = throwE errNotSupported"
definition ldap_GetAffiliationTree :: "string \<Rightarrow> 'r lop" where
  "ldap_GetAffiliationTree name = throwE errNotSupported"
definition ldap_GetProperties :: "string list \<Rightarrow> (string \<times> string) list lop" where "ldap_GetProperties names = throwE errNotSupported"
definition ldap_GetUserLessThanLevel :: "int \<Rightarrow> ldap_user list lop" where "ldap_GetUserLessThanLevel version = throwE errNotSupported"
definition ldap_GetFilteredUsers :: "string \<Rightarrow> string \<Rightarrow> UserRecord list lop" where
  "ldap_GetFilteredUsers affiliation types = throwE errNotSupported"

section \<open>The cached connection\<close>

lemma network_Pair: "network s = (r, t) \<Longrightarrow> \<exists>fs. t = s\<lparr>ls_faults := fs\<rparr>"
  by (auto simp: network_def split: list.splits bool.splits)

text \<open>The name that the client is bound to on its own connections.\<close>

definition admin_name :: "Client \<Rightarrow> string" where
  "admin_name lc = (if lc_AdminDN lc \<noteq> [] \<and> lc_AdminPassword lc \<noteq> [] then lc_AdminDN lc else [])"

definition conns_ok :: "Client \<Rightarrow> ldap_state \<Rightarrow> bool" where
  "conns_ok lc s \<longleftrightarrow> distinct (map fst (ls_open s)) \<and> (\<forall>c \<in> fst ` set (ls_open s). c < ls_next s) \<and>
     (\<forall>c. ls_AdminConn s = Some c \<longrightarrow> (c, admin_name lc) \<in> set (ls_open s))"

lemma conns_ok_faults [simp]: "conns_ok lc (s\<lparr>ls_faults := fs\<rparr>) = conns_ok lc s"
  by (simp add: conns_ok_def)

lemma set_bound_fields [simp]:
  "ls_AdminConn (set_bound c dn s) = ls_AdminConn s" "ls_next (set_bound c dn s) = ls_next s"
  "ls_open (set_bound c dn s) = map (\<lambda>(i, b). if i = c then (i, dn) else (i, b)) (ls_open s)"
  by (simp_all add: set_bound_def)

lemma bound_other: "\<forall>c \<in> fst ` set xs. c < (n :: nat) \<Longrightarrow> map (\<lambda>(i, b). if i = n then (i, dn) else (i, b)) xs = xs"
  by (induction xs) auto

text \<open>A new connection is bound to the client's name; one whose bind fails stays open, without a name.\<close>

lemma newConnection_Pair:
  assumes ok: "conns_ok lc s" and run: "newConnection D lc s = (r, t)"
  shows "ls_AdminConn t = ls_AdminConn s \<and>
    (case r of
       Inr c \<Rightarrow> c = ls_next s \<and> ls_open t = ls_open s @ [(c, admin_name lc)] \<and> ls_next t = Suc c
     | Inl _ \<Rightarrow> ls_open t = ls_open s \<and> ls_next t = ls_next s \<or>
         ls_open t = ls_open s @ [(ls_next s, [])] \<and> ls_next t = Suc (ls_next s))"
proof -
  have fresh: "map (\<lambda>(i, b). if i = ls_next s then (i, dn) else (i, b)) (ls_open s) = ls_open s" for dn
    using ok by (intro bound_other) (simp add: conns_ok_def)
  show ?thesis
    using run unfolding newConnection_def seqE_def bindE_def mapErrE_def ldap_Dial_def conn_Bind_def
    by (auto simp: returnE_def liftE_def throwE_def getE_def modifyE_def admin_name_def fresh
        split: prod.splits sum.splits if_splits dest!: network_Pair)
qed

lemma conn_Search_state: "conn_Search D c base flt attrs s = (r, t) \<Longrightarrow> \<exists>fs. t = s\<lparr>ls_faults := fs\<rparr>"
  unfolding conn_Search_def seqE_def bindE_def
  by (auto simp: getE_def liftE_def throwE_def split: prod.splits sum.splits option.splits dest!: network_Pair)

lemma conns_ok_new:
  assumes "conns_ok lc s" and "ls_open t = ls_open s @ [(ls_next s, dn)]" and "ls_next t = Suc (ls_next s)"
    and "ls_AdminConn t = ls_AdminConn s \<or> ls_AdminConn t = Some (ls_next s) \<and> dn = admin_name lc"
  shows "conns_ok lc t"
  using assms by (auto simp: conns_ok_def less_Suc_eq)

lemma conns_ok_newConnection: "conns_ok lc s \<Longrightarrow> newConnection D lc s = (r, t) \<Longrightarrow> conns_ok lc t"
  using newConnection_Pair [of lc s D r t] conns_ok_new [of lc s t]
  by (auto split: sum.splits) (simp add: conns_ok_def)

text \<open>Closing a connection other than the cached one, or the cached one together with the reference to it.\<close>

lemma conns_ok_close:
  assumes "conns_ok lc s" and "ls_open t = filter (\<lambda>(i, _). i \<noteq> c) (ls_open s)" and "ls_next t = ls_next s"
    and "ls_AdminConn t = None \<or> ls_AdminConn t = ls_AdminConn s \<and> ls_AdminConn s \<noteq> Some c"
  shows "conns_ok lc t"
  using assms by (auto simp: conns_ok_def intro: distinct_map_filter)

abbreviation same_conns :: "ldap_state \<Rightarrow> ldap_state \<Rightarrow> bool" where
  "same_conns s t \<equiv> ls_open t = ls_open s \<and> ls_next t = ls_next s \<and> ls_AdminConn t = ls_AdminConn s"

lemma conns_ok_same: "conns_ok lc s \<Longrightarrow> same_conns s t \<Longrightarrow> conns_ok lc t"
  by (simp add: conns_ok_def)

lemma conn_Search_same: "conn_Search D c base flt attrs s = (r, t) \<Longrightarrow> same_conns s t"
  by (auto dest!: conn_Search_state)

lemma cachedSearch_Pair:
  assumes "cachedSearch D lc flt s = (r, t)"
  shows "same_conns s t \<and> (r = Inr None \<longrightarrow> ls_AdminConn s = None) \<and> (\<forall>es. r = Inr (Some es) \<longrightarrow> ls_AdminConn s \<noteq> None) \<or>
    (\<exists>c. ls_AdminConn s = Some c \<and> r = Inr None \<and> ls_open t = filter (\<lambda>(i, _). i \<noteq> c) (ls_open s) \<and>
       ls_next t = ls_next s \<and> ls_AdminConn t = None)"
  using assms unfolding cachedSearch_def seqE_def bindE_def attemptE_def conn_Close_def
  by (auto simp: getE_def returnE_def modifyE_def split: option.splits prod.splits sum.splits if_splits dest!: conn_Search_same)

lemma conns_ok_cachedSearch:
  assumes "conns_ok lc s" and "cachedSearch D lc flt s = (r, t)" shows "conns_ok lc t"
  using cachedSearch_Pair [OF assms(2)] conns_ok_same [OF assms(1)] conns_ok_close [OF assms(1)] by blast

lemma freshSearch_Pair:
  assumes ok: "conns_ok lc s" and run: "freshSearch D lc flt s = (r, t)"
  shows "conns_ok lc t \<and>
    (\<forall>es. r = Inr es \<longrightarrow> ls_AdminConn t \<noteq> None \<and> length (ls_open t) = Suc (length (ls_open s)))"
proof (cases "newConnection D lc s")
  case (Pair q s1)
  note new = newConnection_Pair [OF ok Pair] and ok1 = conns_ok_newConnection [OF ok Pair]
  show ?thesis
  proof (cases q)
    case (Inl e)
    then show ?thesis using run ok1 Pair by (auto simp: freshSearch_def bindE_def)
  next
    case (Inr c)
    then have c: "c = ls_next s" "ls_open s1 = ls_open s @ [(c, admin_name lc)]" "ls_AdminConn s1 = ls_AdminConn s" using new by auto
    then have other: "ls_AdminConn s1 \<noteq> Some c" using ok by (force simp: conns_ok_def)
    obtain q2 s2 where search: "conn_Search D c (lc_Base lc) flt (lc_attrNames lc) s1 = (q2, s2)" by fastforce
    note same = conn_Search_same [OF search]
    have "conns_ok lc (s2\<lparr>ls_AdminConn := Some c\<rparr>)" using ok1 same c by (auto simp: conns_ok_def)
    moreover have "conns_ok lc (s2\<lparr>ls_open := filter (\<lambda>(i, _). i \<noteq> c) (ls_open s2)\<rparr>)"
      using conns_ok_close [OF ok1] same other by simp
    ultimately show ?thesis
      using run Pair Inr search same c conns_ok_same [OF ok1 same]
      by (auto simp: freshSearch_def bindE_def attemptE_def seqE_def conn_Close_def modifyE_def returnE_def throwE_def
          split: sum.splits if_splits)
  qed
qed

lemma ldap_GetUser_Pair:
  assumes ok: "conns_ok lc s" and run: "ldap_GetUser D lc username s = (r, t)"
  shows "conns_ok lc t \<and> (\<forall>u. r = Inr u \<longrightarrow> ls_AdminConn t \<noteq> None \<and>
    length (ls_open t) \<le> length (ls_open s) + (if ls_AdminConn s = None then 1 else 0))"
proof (cases "cachedSearch D lc (Sprintf1 (lc_UserFilter lc) username) s")
  case (Pair q s1)
  let ?flt = "Sprintf1 (lc_UserFilter lc) username"
  note cached = cachedSearch_Pair [OF Pair] and ok1 = conns_ok_cachedSearch [OF ok Pair]
  consider e where "q = Inl e" | es where "q = Inr (Some es)" | "q = Inr None" by (metis option.exhaust sum.exhaust)
  then show ?thesis
  proof cases
    case 1
    then show ?thesis using run Pair ok1 by (auto simp: ldap_GetUser_def Let_def bindE_def)
  next
    case 2
    then show ?thesis using run Pair ok1 cached by (auto simp: ldap_GetUser_def Let_def bindE_def returnE_def)
  next
    case 3
    obtain q2 s2 where fresh: "freshSearch D lc ?flt s1 = (q2, s2)" by fastforce
    have "length (ls_open s1) < length (ls_open s)" if "ls_AdminConn s = Some c" for c
    proof -
      have "(c, admin_name lc) \<in> set (ls_open s)" using ok that by (simp add: conns_ok_def)
      then show ?thesis using cached 3 that by (auto intro!: length_filter_less)
    qed
    then show ?thesis
      using run Pair 3 fresh freshSearch_Pair [OF ok1 fresh] cached
      by (cases q2) (auto simp: ldap_GetUser_def Let_def bindE_def)
  qed
qed

lemma conn_Bind_Pair:
  "conn_Bind D c dn password s = (r, t) \<Longrightarrow> ls_AdminConn t = ls_AdminConn s \<and> ls_next t = ls_next s \<and>
     filter (\<lambda>(i, _). i \<noteq> c) (ls_open t) = filter (\<lambda>(i, _). i \<noteq> c) (ls_open s) \<and> (r = Inr () \<longrightarrow> dir_bind D dn password)"
proof -
  have "filter (\<lambda>(i, _). i \<noteq> c) (map (\<lambda>(i, b). if i = c then (i, dn) else (i, b)) xs) = filter (\<lambda>(i, _). i \<noteq> c) xs" for dn and xs :: "(nat \<times> string) list"
    by (induction xs) auto
  then show "conn_Bind D c dn password s = (r, t) \<Longrightarrow> ?thesis"
    unfolding conn_Bind_def seqE_def bindE_def
    by (auto simp: modifyE_def throwE_def split: prod.splits sum.splits if_splits dest!: network_Pair)
qed

lemma ldap_Login_Pair:
  assumes ok: "conns_ok lc s" and run: "ldap_Login D lc u password s = (r, t)"
  shows "conns_ok lc t \<and> ls_AdminConn t = ls_AdminConn s \<and>
    (r = Inr () \<longrightarrow> dir_bind D (en_DN (lu_entry u)) password \<and> ls_open t = ls_open s)"
proof (cases "newConnection D lc s")
  case (Pair q s1)
  note new = newConnection_Pair [OF ok Pair] and ok1 = conns_ok_newConnection [OF ok Pair]
  show ?thesis
  proof (cases q)
    case (Inl e)
    then show ?thesis using run ok1 Pair new by (auto simp: ldap_Login_def bindE_def)
  next
    case (Inr c)
    then have c: "c = ls_next s" "ls_open s1 = ls_open s @ [(c, admin_name lc)]" "ls_AdminConn s1 = ls_AdminConn s" using new by auto
    then have other: "ls_AdminConn s1 \<noteq> Some c" using ok by (force simp: conns_ok_def)
    have old: "filter (\<lambda>(i, _). i \<noteq> c) (ls_open s1) = ls_open s"
      using ok c by (auto simp: conns_ok_def filter_id_conv)
    obtain q2 s2 where bind: "conn_Bind D c (en_DN (lu_entry u)) password s1 = (q2, s2)" by fastforce
    note b = conn_Bind_Pair [OF bind]
    have t: "t = s2\<lparr>ls_open := filter (\<lambda>(i, _). i \<noteq> c) (ls_open s2)\<rparr> \<and> (r = Inr () \<longrightarrow> q2 = Inr ()) \<or> isPanic (case q2 of Inl e \<Rightarrow> e | Inr _ \<Rightarrow> PlainErr [])"
      using run Pair Inr bind
      by (auto simp: ldap_Login_def bindE_def attemptE_def seqE_def conn_Close_def modifyE_def returnE_def throwE_def
          split: sum.splits if_splits)
    have "\<not> isPanic e" if "q2 = Inl e" for e
      using bind that unfolding conn_Bind_def seqE_def bindE_def network_def
      by (auto simp: modifyE_def throwE_def split: prod.splits sum.splits if_splits list.splits bool.splits)
    with t have t: "t = s2\<lparr>ls_open := filter (\<lambda>(i, _). i \<noteq> c) (ls_open s2)\<rparr>" "r = Inr () \<longrightarrow> q2 = Inr ()"
      by (auto split: sum.splits)
    have "conns_ok lc t" using conns_ok_close [OF ok1, of t c] t b other by simp
    then show ?thesis using t b c old by simp
  qed
qed

section \<open>The interface of a registry\<close>

text \<open>
  What the server relies on when an identity presents a password (\<open>BasicAuthentication\<close>): it is looked up in the registry and
  logged in.  \<open>accepts\<close> is the authority of the registry on passwords.
\<close>

definition authenticate ::
  "(string \<Rightarrow> ('s, go_error, 'u) em) \<Rightarrow> ('u \<Rightarrow> string \<Rightarrow> ('s, go_error, 'v) em) \<Rightarrow> string \<Rightarrow> string \<Rightarrow> ('s, go_error, 'v) em" where
  "authenticate get_user login username password = bindE (get_user username) (\<lambda>u. login u password)"

locale identity_registry =
  fixes get_user :: "string \<Rightarrow> ('s, go_error, 'u) em"
    and login :: "'u \<Rightarrow> string \<Rightarrow> ('s, go_error, 'v) em"
    and accepts :: "'u \<Rightarrow> string \<Rightarrow> bool"
    and usable :: "'s \<Rightarrow> bool"
  assumes get_usable: "usable s \<Longrightarrow> get_user n s = (r, t) \<Longrightarrow> usable t"
    and login_usable: "usable s \<Longrightarrow> login u p s = (q, t) \<Longrightarrow> usable t"
    and login_accepted: "usable s \<Longrightarrow> login u p s = (Inr v, t) \<Longrightarrow> accepts u p"
begin

lemma authenticate_accepted:
  assumes "usable s" and "authenticate get_user login n p s = (Inr v, t)"
  shows "\<exists>u s1. get_user n s = (Inr u, s1) \<and> accepts u p"
  using assms unfolding authenticate_def bindE_Inr by (blast intro: get_usable login_accepted)

lemma authenticate_usable: "usable s \<Longrightarrow> authenticate get_user login n p s = (r, t) \<Longrightarrow> usable t"
  unfolding authenticate_def bindE_def by (auto split: prod.splits sum.splits intro: get_usable login_usable)

end

interpretation db_registry: identity_registry GetUser "\<lambda>u p. liftE (Login B u p caMax)"
  "\<lambda>u p. CompareHashAndPassword B (du_pass u) p \<and> ui_State u \<noteq> -1" "\<lambda>_. True" for B caMax
  by unfold_locales (auto simp: Login_Inr dest: sym)

interpretation ldap_registry: identity_registry "ldap_GetUser D lc" "ldap_Login D lc"
  "\<lambda>u p. dir_bind D (en_DN (lu_entry u)) p" "conns_ok lc" for D lc
proof
  fix s n r t
  assume "conns_ok lc s" "ldap_GetUser D lc n s = (r, t)"
  then show "conns_ok lc t" using ldap_GetUser_Pair by blast
next
  fix s u p q t
  assume "conns_ok lc s" "ldap_Login D lc u p s = (q, t)"
  then show "conns_ok lc t" using ldap_Login_Pair by blast
next
  fix s u p v t
  assume "conns_ok lc s" "ldap_Login D lc u p s = (Inr v, t)"
  then show "dir_bind D (en_DN (lu_entry u)) p" using ldap_Login_Pair [of lc s D u p "Inr ()" t] by simp
qed

section \<open>Properties\<close>

text \<open>The registry in use: identities are looked up and log in, in any order and with any result.\<close>

inductive ldap_run :: "directory \<Rightarrow> Client \<Rightarrow> ldap_state \<Rightarrow> ldap_state \<Rightarrow> bool" for D lc where
  start: "ldap_run D lc s s"
| get: "ldap_run D lc s t \<Longrightarrow> ldap_run D lc s (snd (ldap_GetUser D lc username t))"
| login: "ldap_run D lc s t \<Longrightarrow> ldap_run D lc s (snd (ldap_Login D lc u password t))"

lemma ldap_run_ok: "ldap_run D lc s t \<Longrightarrow> conns_ok lc s \<Longrightarrow> conns_ok lc t"
  by (induction rule: ldap_run.induct)
    (auto dest: ldap_GetUser_Pair [OF _ prod.collapse [symmetric]] ldap_Login_Pair [OF _ prod.collapse [symmetric]])

definition no_conns :: "bool list \<Rightarrow> ldap_state" where
  "no_conns fs = \<lparr>ls_AdminConn = None, ls_open = [], ls_next = 0, ls_faults = fs\<rparr>"

text \<open>The connection that is kept for searches is never bound to another name.  Whatever is looked up, whoever logs in, with the
  right password or a wrong one, and whatever fails on the way: a connection that is cached is open and is
  bound to the name of the client.\<close>

theorem cached_connection_admin:
  assumes "ldap_run D lc (no_conns fs) s" and "ls_AdminConn s = Some c"
  shows "map_of (ls_open s) c = Some (if lc_AdminDN lc \<noteq> [] \<and> lc_AdminPassword lc \<noteq> [] then lc_AdminDN lc else [])"
proof -
  have "conns_ok lc (no_conns fs)" by (simp add: conns_ok_def no_conns_def)
  then have "conns_ok lc s" using ldap_run_ok [OF assms(1)] by simp
  then show ?thesis using assms(2) by (auto simp: conns_ok_def admin_name_def intro!: map_of_is_SomeI split: if_splits)
qed

text \<open>C27: a login with the directory.  A login succeeds only when the directory accepts the password for the distinguished name of
  the entry; it leaves no connection behind and does not touch the cached one.\<close>

theorem ldap_Login_sound:
  assumes "ldap_run D lc (no_conns fs) s" and "ldap_Login D lc u password s = (Inr (), t)"
  shows "dir_bind D (en_DN (lu_entry u)) password \<and> ls_open t = ls_open s \<and> ls_AdminConn t = ls_AdminConn s"
proof -
  have "conns_ok lc (no_conns fs)" by (simp add: conns_ok_def no_conns_def)
  then have "conns_ok lc s" using ldap_run_ok [OF assms(1)] by simp
  from ldap_Login_Pair [OF this assms(2)] show ?thesis by simp
qed

lemma network_none [simp]: "ls_faults s = [] \<Longrightarrow> network s = (Inr (), s)"
  by (cases s) (simp add: network_def)

definition reachable :: "directory \<Rightarrow> Client \<Rightarrow> bool" where
  "reachable D lc \<longleftrightarrow> (lc_UseSSL lc \<longrightarrow> dir_tls D = Inr ()) \<and>
     (lc_AdminDN lc \<noteq> [] \<and> lc_AdminPassword lc \<noteq> [] \<longrightarrow> dir_bind D (lc_AdminDN lc) (lc_AdminPassword lc))"

lemma newConnection_run:
  assumes "reachable D lc" and "ls_faults s = []" and "conns_ok lc s"
  shows "newConnection D lc s = (Inr (ls_next s), s\<lparr>ls_open := ls_open s @ [(ls_next s, admin_name lc)], ls_next := Suc (ls_next s)\<rparr>)"
proof -
  have "map (\<lambda>(i, b). if i = ls_next s then (i, dn) else (i, b)) (ls_open s) = ls_open s" for dn
    using assms(3) by (intro bound_other) (simp add: conns_ok_def)
  then show ?thesis
    using assms(1,2) by (simp add: newConnection_def reachable_def ldap_Dial_def conn_Bind_def seqE_def bindE_def mapErrE_def
        returnE_def liftE_def getE_def modifyE_def set_bound_def admin_name_def)
qed

lemma freshSearch_run:
  assumes "reachable D lc" and "ls_faults s = []" and ok: "conns_ok lc s"
    and "dir_search D (admin_name lc) (lc_Base lc) flt (lc_attrNames lc) = Inr es"
  shows "\<exists>t. freshSearch D lc flt s = (Inr es, t)"
proof -
  have "map_of (ls_open s @ [(ls_next s, admin_name lc)]) (ls_next s) = Some (admin_name lc)"
    using ok by (auto simp: conns_ok_def map_add_def map_of_eq_None_iff split: option.splits dest: map_of_SomeD)
  then show ?thesis
    using newConnection_run [OF assms(1-3)] assms(2,4)
    by (simp add: freshSearch_def bindE_def attemptE_def seqE_def conn_Search_def getE_def liftE_def modifyE_def returnE_def)
qed

text \<open>A password is accepted by the registry that the CA uses, and by nothing else.  With the database, the stored hash matches and the
  identity is not revoked; with a directory, the directory accepts a bind of the entry that was found.\<close>

theorem authenticate_sound:
  assumes "ldap_run D lc (no_conns fs) s"
  shows "(authenticate GetUser (\<lambda>u p. liftE (Login B u p caMax)) name password d = (Inr v, d') \<longrightarrow>
       (\<exists>u d1. GetUser name d = (Inr u, d1) \<and> CompareHashAndPassword B (du_pass u) password \<and> ui_State u \<noteq> -1)) \<and>
    (authenticate (ldap_GetUser D lc) (ldap_Login D lc) name password s = (Inr (), s') \<longrightarrow>
       (\<exists>u s1. ldap_GetUser D lc name s = (Inr u, s1) \<and> dir_bind D (en_DN (lu_entry u)) password))"
proof -
  have "conns_ok lc (no_conns fs)" by (simp add: conns_ok_def no_conns_def)
  then have "conns_ok lc s" using ldap_run_ok [OF assms] by simp
  then show ?thesis
    using db_registry.authenticate_accepted ldap_registry.authenticate_accepted by blast
qed

text \<open>A lost connection does not fail a request.  When the search on the cached connection fails, for example because the
  directory has closed it, and the directory can be reached, the identity is found over a new connection.\<close>

theorem ldap_GetUser_retries:
  assumes run: "ldap_run D lc (no_conns fs) s" and cached: "ls_AdminConn s = Some c" and broken: "ls_faults s = [True]"
    and up: "reachable D lc"
    and found: "dir_search D (admin_name lc) (lc_Base lc) (Sprintf1 (lc_UserFilter lc) username) (lc_attrNames lc) = Inr [Some e]"
  shows "\<exists>t. ldap_GetUser D lc username s = (Inr \<lparr>lu_name = username, lu_entry = e\<rparr>, t)"
proof -
  let ?flt = "Sprintf1 (lc_UserFilter lc) username"
  let ?s = "s\<lparr>ls_faults := [], ls_open := filter (\<lambda>(i, _). i \<noteq> c) (ls_open s), ls_AdminConn := None\<rparr>"
  have "conns_ok lc (no_conns fs)" by (simp add: conns_ok_def no_conns_def)
  then have "conns_ok lc s" using ldap_run_ok [OF run] by simp
  then have ok: "conns_ok lc ?s" using conns_ok_close [of lc s ?s c] by simp
  have "cachedSearch D lc ?flt s = (Inr None, ?s)"
    using cached broken
    by (simp add: cachedSearch_def bindE_def getE_def attemptE_def conn_Search_def seqE_def network_def conn_Close_def modifyE_def returnE_def)
  moreover obtain t where "freshSearch D lc ?flt ?s = (Inr [Some e], t)"
    using freshSearch_run [OF up _ ok found] by auto
  ultimately show ?thesis by (simp add: ldap_GetUser_def Let_def bindE_def oneEntry_def liftE_def)
qed

text \<open>A login without a password.  The client sends an empty password to the directory like any other: with a directory that
  answers a bind without a password as an unauthenticated one, as the protocol allows, every identity can log in
  with the empty password.\<close>

theorem ldap_Login_without_password:
  assumes run: "ldap_run D lc (no_conns fs) s" and "ls_faults s = []" and "reachable D lc"
    and unauthenticated: "\<forall>dn. dir_bind D dn []"
  shows "\<exists>t. ldap_Login D lc u [] s = (Inr (), t)"
proof -
  have "conns_ok lc (no_conns fs)" by (simp add: conns_ok_def no_conns_def)
  then have "conns_ok lc s" using ldap_run_ok [OF run] by simp
  from newConnection_run [OF assms(3,2) this] show ?thesis
    using assms(2) unauthenticated
    by (simp add: ldap_Login_def bindE_def attemptE_def conn_Bind_def seqE_def modifyE_def conn_Close_def returnE_def)
qed

text \<open>The affiliation of an identity.  The path of an identity whose distinguished name lists organizational units, from the
  innermost to the outermost, is the path from the outermost to the innermost.\<close>

theorem ldap_GetAffiliationPath_units:
  assumes dn: "en_DN (lu_entry u) = strings_Join ([''uid='' @ name] @ rev (map (\<lambda>n. ''ou='' @ n) units) @ [''o=fabric'']) '',''"
    and plain: "\<forall>w \<in> set (name # units). CHR '','' \<notin> set w \<and> CHR '' '' \<notin> set w"
  shows "ldap_GetAffiliationPath u = units"
proof -
  let ?parts = "[''uid='' @ name] @ rev (map (\<lambda>n. ''ou='' @ n) units) @ [''o=fabric'']"
  have "strings_Split (strings_Join ?parts '','') (CHR '','') = ?parts"
    using plain by (intro strings_Split_Join) auto
  then have "ldap_GetAffiliationPath u = concat (map ou_of (rev ?parts))" by (simp only: ldap_GetAffiliationPath_def dn)
  moreover have "ou_of (''ou='' @ n) = [n]" if "n \<in> set units" for n
  proof -
    have "dropWhile (\<lambda>c. c = CHR '' '') (rev n) = rev n" "dropWhile (\<lambda>c. c = CHR '' '') n = n"
      using plain that by (auto simp: dropWhile_eq_self_iff dest: hd_in_set) (metis hd_in_set hd_rev last_in_set)+
    moreover have "map char_ToUpper ''ou='' = ''OU=''" by code_simp
    ultimately show ?thesis by (simp add: ou_of_def strings_HasPrefix_def strings_TrimLeft_def strings_TrimRight_def)
  qed
  moreover have "char_ToUpper (CHR ''u'') \<noteq> CHR ''O''" by code_simp
  then have "ou_of (''uid='' @ name) = []" by (simp add: ou_of_def strings_HasPrefix_def)
  moreover have "ou_of ''o=fabric'' = []" by code_simp
  ultimately show ?thesis by (simp add: rev_map concat_map_singleton cong: map_cong)
qed

text \<open>With a space after the comma a unit is not seen.\<close>

lemma units_after_space:
  "ldap_GetAffiliationPath \<lparr>lu_name = ''jsmith'', lu_entry = \<lparr>en_DN = ''uid=jsmith, ou=dept, ou=org'', en_Attributes = []\<rparr>\<rparr> = []"
  by code_simp

section \<open>Examples\<close>

definition toy_entry :: entry where
  "toy_entry = \<lparr>en_DN = ''uid=jsmith,ou=d1,ou=org1,o=fabric'', en_Attributes = [(''mail'', [''a'', ''b''])]\<rparr>"

definition toy_directory :: directory where
  "toy_directory = \<lparr>dir_bind = (\<lambda>dn p. p = [] \<or> (dn, p) \<in> set [(''cn=admin'', ''adminpw''), (''uid=jsmith,ou=d1,ou=org1,o=fabric'', ''pw'')]),
     dir_search = (\<lambda>b base flt names. if b = ''cn=admin'' \<and> flt = ''(uid=jsmith)'' then Inr [Some toy_entry] else Inr []),
     dir_tls = Inr ()\<rparr>"

definition toy_client :: Client where
  "toy_client = \<lparr>lc_Host = ''h'', lc_Port = 389, lc_UseSSL = False, lc_AdminDN = ''cn=admin'', lc_AdminPassword = ''adminpw'', lc_Base = [],
     lc_UserFilter = ''(uid=%s)'', lc_GroupFilter = [], lc_attrNames = [], lc_attrExprs = [], lc_attrMaps = [(''m'', [(''a'', ''x'')])]\<rparr>"

definition toy_user :: ldap_user where
  "toy_user = \<lparr>lu_name = ''jsmith'', lu_entry = toy_entry\<rparr>"

text \<open>After a look-up the connection is cached.\<close>

definition looked_up :: "bool list \<Rightarrow> ldap_state" where
  "looked_up fs = snd (ldap_GetUser toy_directory toy_client ''jsmith'' (no_conns fs))"

lemma looked_up_run: "ldap_run toy_directory toy_client (no_conns fs) (looked_up fs)"
  unfolding looked_up_def by (intro ldap_run.intros)

theorem cached_connection_admin_witness: "map_of (ls_open (looked_up [])) 0 = Some ''cn=admin''"
proof -
  have "ls_AdminConn (looked_up []) = Some 0" by code_simp
  from cached_connection_admin [OF looked_up_run this] show ?thesis by (simp add: toy_client_def)
qed

theorem ldap_Login_sound_witness:
  "dir_bind toy_directory ''uid=jsmith,ou=d1,ou=org1,o=fabric'' ''pw''"
proof -
  let ?r = "ldap_Login toy_directory toy_client toy_user ''pw'' (looked_up [])"
  have "fst ?r = Inr ()" by code_simp
  then have "?r = (Inr (), snd ?r)" by (simp add: prod_eq_iff)
  from ldap_Login_sound [OF looked_up_run this] show ?thesis by (simp add: toy_user_def toy_entry_def)
qed

theorem ldap_GetUser_retries_witness:
  "\<exists>t. ldap_GetUser toy_directory toy_client ''jsmith'' (looked_up [False, False, False, True]) =
     (Inr \<lparr>lu_name = ''jsmith'', lu_entry = toy_entry\<rparr>, t)"
proof (rule ldap_GetUser_retries [OF looked_up_run])
  show "ls_AdminConn (looked_up [False, False, False, True]) = Some 0" by code_simp
  show "ls_faults (looked_up [False, False, False, True]) = [True]" by code_simp
  show "reachable toy_directory toy_client" by code_simp
  have "Sprintf1 ''(uid=%s)'' ''jsmith'' = ''(uid=jsmith)''" by code_simp
  then show "dir_search toy_directory (admin_name toy_client) (lc_Base toy_client) (Sprintf1 (lc_UserFilter toy_client) ''jsmith'')
      (lc_attrNames toy_client) = Inr [Some toy_entry]"
    by (simp add: toy_directory_def toy_client_def admin_name_def)
qed

theorem ldap_Login_without_password_witness:
  "\<exists>t. ldap_Login toy_directory toy_client toy_user [] (looked_up []) = (Inr (), t)"
proof (rule ldap_Login_without_password [OF looked_up_run])
  show "ls_faults (looked_up []) = []" by code_simp
  show "reachable toy_directory toy_client" by code_simp
qed (simp add: toy_directory_def)

theorem ldap_GetAffiliationPath_units_witness: "ldap_GetAffiliationPath toy_user = [''org1'', ''d1'']"
  by (rule ldap_GetAffiliationPath_units [where name = "''jsmith''"]) (simp_all add: toy_user_def toy_entry_def)

text \<open>The second argument of \<open>map\<close> is converted to a string without the check that the code means to make.\<close>

lemma mapFunction_panics: "mapFunction toy_client [VString ''a'', VBool True] = Inl (GoPanic ''interface conversion'')"
  by code_simp

text \<open>A connection whose bind fails is never closed.\<close>

lemma bind_failure_leaks:
  "length (ls_open (snd (newConnection toy_directory (toy_client\<lparr>lc_AdminPassword := ''bad''\<rparr>) (no_conns [])))) = 1"
  by code_simp

text \<open>The name is put into the filter as it is.\<close>

lemma filter_not_escaped: "Sprintf1 (lc_UserFilter toy_client) ''*)(cn=admin'' = ''(uid=*)(cn=admin)''"
  by code_simp

theorem authenticate_sound_witness:
  "\<exists>u s1. ldap_GetUser toy_directory toy_client ''jsmith'' (looked_up []) = (Inr u, s1) \<and> dir_bind toy_directory (en_DN (lu_entry u)) ''pw''"
proof -
  let ?r = "authenticate (ldap_GetUser toy_directory toy_client) (ldap_Login toy_directory toy_client) ''jsmith'' ''pw'' (looked_up [])"
  have "fst ?r = Inr ()" by code_simp
  then have "?r = (Inr (), snd ?r)" by (simp add: prod_eq_iff)
  with authenticate_sound [OF looked_up_run, where s' = "snd ?r" and name = "''jsmith''" and password = "''pw''"] show ?thesis by blast
qed

end
