(* ===== verification/Crypto_Config.thy ===== *)
theory Crypto_Config
  imports Tls_Files
begin

text \<open>
  The options of the cryptographic provider and their defaults: \<open>ConfigureBCCSP\<close> of
  \<open>util/configurebccsp.go\<close>, \<open>makeFileNamesAbsolute\<close> and \<open>InitBCCSP\<close> of \<open>util/csp.go\<close>.

  The options are reached through a pointer to a pointer.  The state is what the outer pointer leads to: a failure leaves a nil
  pointer nil, and leaves options that were there with the changes made so far.  \<open>bccsp_factory\<close> is the package that makes
  providers.
\<close>

section \<open>Options\<close>

record SwOpts =
  so_SecLevel :: int
  so_HashFamily :: string
  so_KeyStorePath :: "string option"

record FactoryOpts =
  fo_ProviderName :: string
  fo_SwOpts :: "SwOpts option"
  fo_Pkcs11SecLevel :: "int option"

record bccsp_factory =
  bf_InitFactories :: "FactoryOpts \<Rightarrow> unit result"
  bf_GetBCCSPFromOpts :: "FactoryOpts \<Rightarrow> unit result"

definition strings_ToUpper :: "string \<Rightarrow> string" where
  "strings_ToUpper s =
     map (\<lambda>c. let n = (of_char c :: nat) in if 97 \<le> n \<and> n \<le> 122 then char_of (n - 32) else c) s"

section \<open>Operations\<close>

definition csp_makeFileNamesAbsolute :: "string option \<Rightarrow> string \<Rightarrow> (FactoryOpts, go_error, unit) em" where
  "csp_makeFileNamesAbsolute wd homeDir opts =
     (case fo_SwOpts opts of
        None \<Rightarrow> (Inr (), opts)
      | Some sw \<Rightarrow>
          (case so_KeyStorePath sw of
             None \<Rightarrow> (Inr (), opts)
           | Some f \<Rightarrow>
               (case absName wd homeDir f of
                  (r, a) \<Rightarrow> (r, opts\<lparr>fo_SwOpts := Some (sw\<lparr>so_KeyStorePath := Some a\<rparr>)\<rparr>))))"

definition softwareOpts :: "string \<Rightarrow> SwOpts option \<Rightarrow> SwOpts" where
  "softwareOpts mspDir sw0 =
     (let sw1 = (case sw0 of None \<Rightarrow> \<lparr>so_SecLevel = 0, so_HashFamily = [], so_KeyStorePath = None\<rparr> | Some sw \<Rightarrow> sw);
          sw2 = (if so_HashFamily sw1 = [] then sw1\<lparr>so_HashFamily := ''SHA2''\<rparr> else sw1);
          sw3 = (if so_SecLevel sw2 = 0 then sw2\<lparr>so_SecLevel := 256\<rparr> else sw2);
          keyStore = (case so_KeyStorePath sw3 of None \<Rightarrow> [] | Some f \<Rightarrow> f) in
      sw3\<lparr>so_KeyStorePath := Some
        (if mspDir \<noteq> [] then path_Join [mspDir, ''keystore'']
         else if keyStore = [] then path_Join [''msp'', ''keystore''] else keyStore)\<rparr>)"

definition defaultOpts :: "string \<Rightarrow> FactoryOpts option \<Rightarrow> FactoryOpts" where
  "defaultOpts mspDir opts0 =
     (let opts1 = (case opts0 of None \<Rightarrow> \<lparr>fo_ProviderName = [], fo_SwOpts = None, fo_Pkcs11SecLevel = None\<rparr> | Some opts \<Rightarrow> opts);
          opts2 = (if fo_ProviderName opts1 = [] then opts1\<lparr>fo_ProviderName := ''SW''\<rparr> else opts1) in
      if strings_ToUpper (fo_ProviderName opts2) = ''SW''
      then opts2\<lparr>fo_SwOpts := Some (softwareOpts mspDir (fo_SwOpts opts2))\<rparr> else opts2)"

definition ConfigureBCCSP ::
  "bccsp_factory \<Rightarrow> string option \<Rightarrow> string \<Rightarrow> string \<Rightarrow> (FactoryOpts option, go_error, unit) em" where
  "ConfigureBCCSP F wd mspDir homeDir opts0 =
     (case seqE (mapErrE WithCause (csp_makeFileNamesAbsolute wd homeDir))
             (bindE (getE id) (\<lambda>opts. mapErrE WithCause (liftE (bf_InitFactories F opts))))
             (defaultOpts mspDir opts0) of
        (Inl e, opts) \<Rightarrow> (Inl e, map_option (\<lambda>_. opts) opts0)
      | (Inr _, opts) \<Rightarrow> (Inr (), Some opts))"

definition InitBCCSP ::
  "bccsp_factory \<Rightarrow> string option \<Rightarrow> string \<Rightarrow> string \<Rightarrow> (FactoryOpts option, go_error, unit) em" where
  "InitBCCSP F wd mspDir homeDir =
     seqE (ConfigureBCCSP F wd mspDir homeDir)
     (bindE (getE id) (\<lambda>opts.
      case opts of
        None \<Rightarrow> throwE (GoPanic ''nil pointer'')
      | Some o' \<Rightarrow> mapErrE WithCause (liftE (bf_GetBCCSPFromOpts F o'))))"

section \<open>The key store\<close>

definition key_store :: "FactoryOpts option \<Rightarrow> string option" where
  "key_store opts = Option.bind opts (\<lambda>o'. Option.bind (fo_SwOpts o') so_KeyStorePath)"

lemma path_Join_abs: "path_IsAbs a \<Longrightarrow> path_IsAbs (path_Join [a, b])"
  by (cases a) (auto simp: path_Join_def path_IsAbs_def path_Clean_def strings_HasPrefix_def Let_def)

text \<open>The key store of a software provider that is configured with an MSP directory is the one in that directory, whatever the
  options named; without such a directory it is the one that is named.\<close>

lemma ConfigureBCCSP_key_store:
  assumes "ConfigureBCCSP F wd mspDir homeDir opts = (Inr u, opts')"
    and "strings_ToUpper (fo_ProviderName (defaultOpts mspDir opts)) = ''SW''"
  shows "path_IsAbs mspDir \<Longrightarrow> key_store opts' = Some (path_Join [mspDir, ''keystore''])"
    and "mspDir = [] \<Longrightarrow> key_store opts = Some f \<Longrightarrow> path_IsAbs f \<Longrightarrow> key_store opts' = Some f"
proof -
  let ?o = "defaultOpts mspDir opts"
  have sw: "\<exists>sw. fo_SwOpts ?o = Some sw \<and> so_KeyStorePath sw \<noteq> None" (is "\<exists>sw. _ \<and> ?P sw")
    using assms(2) by (auto simp: defaultOpts_def softwareOpts_def Let_def split: option.splits if_splits)
  then obtain sw f0 where f0: "fo_SwOpts ?o = Some sw" "so_KeyStorePath sw = Some f0" by auto
  have run: "\<exists>a. absName wd homeDir f0 = (Inr (), a) \<and> key_store opts' = Some a"
    using assms(1) f0
    by (auto simp: ConfigureBCCSP_def csp_makeFileNamesAbsolute_def key_store_def em_simps split: prod.splits sum.splits)
  show "key_store opts' = Some (path_Join [mspDir, ''keystore''])" if "path_IsAbs mspDir"
  proof -
    have "f0 = path_Join [mspDir, ''keystore'']"
      using f0 that assms(2) by (auto simp: defaultOpts_def softwareOpts_def Let_def path_IsAbs_def strings_HasPrefix_def split: option.splits if_splits)
    then show ?thesis using run absName_fixed [of f0 wd homeDir] path_Join_abs [OF that] by (simp add: fixed_name_def)
  qed
  show "key_store opts' = Some f" if "mspDir = []" "key_store opts = Some f" "path_IsAbs f"
  proof -
    have "f0 = f"
      using f0 that assms(2) by (auto simp: defaultOpts_def softwareOpts_def key_store_def Let_def path_IsAbs_def strings_HasPrefix_def split: option.splits if_splits)
    then show ?thesis using run absName_fixed [of f wd homeDir] that(3) by (simp add: fixed_name_def)
  qed
qed

end
