(* ===== verification/Json_Streamer.thy ===== *)
theory Json_Streamer
  imports Error_Monad
begin

text \<open>
  The reader of streamed responses, \<open>lib/streamer/jsonstreamer.go\<close>: it walks through the tokens of
  a JSON document, calls a callback on each element of the arrays it looks for and skips
  everything else.

  The decoder of \<open>encoding/json\<close> is the list of the tokens that are still to come; \<open>d_more\<close> tells
  whether input that is not a token follows them.  A callback reads one element from the
  decoder and works on a state of its own.  The loops of the source run for as long as there
  are tokens, and a callback that reads nothing makes them run forever: the functions take
  fuel, and without fuel the result is \<^const>\<open>None\<close>.
\<close>

section \<open>Tokens and the decoder\<close>

datatype token = TDelim char | TString string | TNumber string | TBool bool | TNull

record decoder =
  d_toks :: "token list"
  d_more :: bool

text \<open>\<open>Decoder.Token\<close> and \<open>Decoder.More\<close>.\<close>

definition Token :: "(decoder, go_error, token) em" where
  "Token d =
     (case d_toks d of
        [] \<Rightarrow> (Inl (PlainErr (if d_more d then ''invalid character'' else ''EOF'')), d)
      | t # ts \<Rightarrow> (Inr t, d\<lparr>d_toks := ts\<rparr>))"

definition More :: "decoder \<Rightarrow> bool" where
  "More d =
     (case d_toks d of
        [] \<Rightarrow> d_more d
      | t # ts \<Rightarrow> t \<noteq> TDelim CHR '']'' \<and> t \<noteq> TDelim CHR ''}'')"

section \<open>Operations with fuel\<close>

type_synonym ('s, 'a) fm = "'s \<Rightarrow> ((go_error + 'a) \<times> 's) option"

definition runF :: "('s, go_error, 'a) em \<Rightarrow> ('s, 'a) fm" where
  "runF m s = Some (m s)"

definition bindF :: "('s, 'a) fm \<Rightarrow> ('a \<Rightarrow> ('s, 'b) fm) \<Rightarrow> ('s, 'b) fm" where
  "bindF m f s =
     (case m s of
        None \<Rightarrow> None
      | Some (Inl e, t) \<Rightarrow> Some (Inl e, t)
      | Some (Inr a, t) \<Rightarrow> f a t)"

section \<open>The stream\<close>

record 's SearchElement =
  se_Path :: string
  se_CB :: "(decoder \<times> 's, go_error, unit) em"

record 's jsonStream =
  js_decoder :: decoder
  js_stack :: "string list"
  js_gotResults :: bool
  js_user :: 's

definition getSearchElement :: "'s SearchElement list \<Rightarrow> string \<Rightarrow> 's SearchElement option" where
  "getSearchElement search path = find (\<lambda>ele. se_Path ele = path) search"

definition getToken :: "('s jsonStream, go_error, token) em" where
  "getToken = zoomE js_decoder (\<lambda>d s. s\<lparr>js_decoder := d\<rparr>) Token"

definition getNextName :: "('s jsonStream, go_error, string) em" where
  "getNextName =
     bindE getToken (\<lambda>t.
     case t of
       TString v \<Rightarrow> returnE v
     | TDelim d \<Rightarrow>
         if d = CHR ''}'' then returnE [] else throwE (PlainErr (''Expecting '' @ [d]))
     | _ \<Rightarrow> throwE (PlainErr ''Expecting string or delimiter''))"

fun skipToDelim :: "nat \<Rightarrow> char \<Rightarrow> ('s jsonStream, unit) fm" where
  "skipToDelim 0 delim = (\<lambda>s. None)"
| "skipToDelim (Suc n) delim =
     bindF (runF getToken) (\<lambda>t.
     case t of
       TDelim d \<Rightarrow>
         if d = delim then runF (returnE ())
         else if d = CHR ''['' then bindF (skipToDelim n CHR '']'') (\<lambda>_. skipToDelim n delim)
         else if d = CHR '']'' then runF (throwE (PlainErr (''Expecting '' @ [delim])))
         else if d = CHR ''{'' then bindF (skipToDelim n CHR ''}'') (\<lambda>_. skipToDelim n delim)
         else if d = CHR ''}'' then runF (throwE (PlainErr (''Expecting '' @ [delim])))
         else runF (throwE (PlainErr ''unknown JSON delimiter''))
     | _ \<Rightarrow> skipToDelim n delim)"

text \<open>The loop over the elements of an array that is looked for.\<close>

fun eachElement :: "nat \<Rightarrow> (decoder \<times> 's, go_error, unit) em \<Rightarrow> ('s jsonStream, unit) fm" where
  "eachElement 0 cb = (\<lambda>s. None)"
| "eachElement (Suc n) cb =
     (\<lambda>s. if More (js_decoder s)
          then bindF
                 (runF (zoomE (\<lambda>s. (js_decoder s, js_user s))
                    (\<lambda>(d, u) s. s\<lparr>js_decoder := d, js_user := u\<rparr>) cb))
                 (\<lambda>_ t. eachElement n cb (t\<lparr>js_gotResults := True\<rparr>)) s
          else Some (Inr (), s))"

text \<open>\<open>stream\<close> and its loop over the members of an object.\<close>

fun stream :: "nat \<Rightarrow> 's SearchElement list \<Rightarrow> ('s jsonStream, unit) fm"
  and members :: "nat \<Rightarrow> 's SearchElement list \<Rightarrow> ('s jsonStream, unit) fm" where
  "stream 0 search = (\<lambda>s. None)"
| "stream (Suc n) search =
     bindF (runF getToken) (\<lambda>t.
     case t of
       TDelim d \<Rightarrow>
         bindF (runF (getE (\<lambda>s. strings_Join (js_stack s) ''.''))) (\<lambda>path.
         let se = getSearchElement search path in
         if d = CHR ''['' then
           bindF (case se of None \<Rightarrow> runF (returnE ()) | Some e \<Rightarrow> eachElement n (se_CB e))
             (\<lambda>_. skipToDelim n CHR '']'')
         else if d = CHR '']'' then runF (throwE (PlainErr (''Unexpected '' @ [d])))
         else if d = CHR ''{'' then
           (if se \<noteq> None then runF (throwE (PlainErr (''Expecting array for value of '' @ path)))
            else members n search)
         else if d = CHR ''}'' then runF (throwE (PlainErr (''Unexpected '' @ [d])))
         else runF (throwE (PlainErr ''unknown JSON delimiter'')))
     | _ \<Rightarrow> runF (returnE ()))"
| "members 0 search = (\<lambda>s. None)"
| "members (Suc n) search =
     bindF (runF getNextName) (\<lambda>name.
     if name = [] then runF (returnE ())
     else
       bindF (runF (getE js_stack)) (\<lambda>stack.
       bindF (runF (modifyE (\<lambda>s. s\<lparr>js_stack := stack @ [name]\<rparr>))) (\<lambda>_.
       bindF (stream n search) (\<lambda>_.
       bindF (runF (modifyE (\<lambda>s. s\<lparr>js_stack := stack\<rparr>))) (\<lambda>_.
       members n search)))))"

text \<open>The error, whether there were results, and the state of the callbacks.  One unit of fuel
  per token and one more are enough when every callback reads something.\<close>

type_synonym 's outcome = "(go_error + unit) \<times> bool \<times> 's"

definition StreamJSON :: "'s SearchElement list \<Rightarrow> decoder \<Rightarrow> 's \<Rightarrow> 's outcome option" where
  "StreamJSON search d u =
     map_option (\<lambda>(r, s). (r, js_gotResults s, js_user s))
       (stream (Suc (length (d_toks d))) search
          \<lparr>js_decoder = d, js_stack = [], js_gotResults = False, js_user = u\<rparr>)"

text \<open>An element of the array \<open>errors\<close> ends the reading; \<open>decode\<close> is the decoding of a message.\<close>

definition errCB :: "(decoder, go_error, string) em \<Rightarrow> (decoder \<times> 's, go_error, unit) em" where
  "errCB decode =
     bindE (mapErrE (\<lambda>_. PlainErr ''Invalid JSON error format'') (zoomE fst (\<lambda>d p. (d, snd p)) decode)) (\<lambda>errMsg.
     throwE (PlainErr errMsg))"

definition StreamJSONArray ::
  "(decoder, go_error, string) em \<Rightarrow> string \<Rightarrow> (decoder \<times> 's, go_error, unit) em \<Rightarrow> decoder \<Rightarrow> 's \<Rightarrow> 's outcome option"
  where
  "StreamJSONArray decode path cb =
     StreamJSON [\<lparr>se_Path = path, se_CB = cb\<rparr>, \<lparr>se_Path = ''errors'', se_CB = errCB decode\<rparr>]"

section \<open>The loops end\<close>

abbreviation toks_left :: "'s jsonStream \<Rightarrow> nat" where
  "toks_left s \<equiv> length (d_toks (js_decoder s))"

text \<open>A callback never puts tokens back, and reads at least one when it succeeds.\<close>

definition readsE :: "(decoder \<times> 's, go_error, unit) em \<Rightarrow> bool" where
  "readsE cb \<longleftrightarrow>
     (\<forall>d u r e v. cb (d, u) = (r, e, v) \<longrightarrow>
        length (d_toks e) \<le> length (d_toks d) \<and> (r = Inr () \<longrightarrow> length (d_toks e) < length (d_toks d)))"

lemma readsED:
  "readsE cb \<Longrightarrow> cb (d, u) = (r, e, v) \<Longrightarrow> length (d_toks e) \<le> length (d_toks d)"
  "readsE cb \<Longrightarrow> cb (d, u) = (Inr (), e, v) \<Longrightarrow> length (d_toks e) < length (d_toks d)"
  unfolding readsE_def by blast+

lemma bindF_Some:
  "bindF m f s = Some (q, u) \<longleftrightarrow>
     (\<exists>e. m s = Some (Inl e, u) \<and> q = Inl e) \<or> (\<exists>a t. m s = Some (Inr a, t) \<and> f a t = Some (q, u))"
  by (auto simp: bindF_def split: option.splits prod.splits sum.splits)

lemma bindF_run [simp]:
  "m s = (Inr a, t) \<Longrightarrow> bindF (runF m) f s = f a t"
  "m s = (Inl e, t) \<Longrightarrow> bindF (runF m) f s = Some (Inl e, t)"
  by (simp_all add: bindF_def runF_def)

lemma getToken_run:
  "getToken s =
     (case d_toks (js_decoder s) of
        [] \<Rightarrow> (Inl (PlainErr (if d_more (js_decoder s) then ''invalid character'' else ''EOF'')), s)
      | t # ts \<Rightarrow> (Inr t, s\<lparr>js_decoder := (js_decoder s)\<lparr>d_toks := ts\<rparr>\<rparr>))"
  by (simp add: getToken_def zoomE_def Token_def split: list.splits)

text \<open>\<open>ends b m s\<close>: the run of \<open>m\<close> ends, and when it succeeds it has read a token if \<open>b\<close>.\<close>

definition ends :: "bool \<Rightarrow> ('s jsonStream, unit) fm \<Rightarrow> 's jsonStream \<Rightarrow> bool" where
  "ends b m s \<longleftrightarrow>
     (\<exists>r t. m s = Some (r, t) \<and> toks_left t \<le> toks_left s \<and> (b \<and> r = Inr () \<longrightarrow> toks_left t < toks_left s))"

lemma ends_run: "m s = (r, s) \<Longrightarrow> r \<noteq> Inr () \<or> \<not> b \<Longrightarrow> ends b (runF m) s"
  by (auto simp: ends_def runF_def)

lemma ends_bind:
  assumes m: "ends b m s" and f: "\<And>t. toks_left t \<le> toks_left s \<Longrightarrow> (b \<longrightarrow> toks_left t < toks_left s) \<Longrightarrow> ends c (f ()) t"
  shows "ends (b \<or> c) (bindF m f) s"
proof -
  obtain r t where run: "m s = Some (r, t)" and le: "toks_left t \<le> toks_left s"
    and lt: "b \<and> r = Inr () \<Longrightarrow> toks_left t < toks_left s"
    using m by (auto simp: ends_def)
  show ?thesis
  proof (cases r)
    case (Inl e)
    then show ?thesis using run le by (simp add: ends_def bindF_def)
  next
    case (Inr u)
    then have "ends c (f ()) t" using f [of t] le lt by simp
    then obtain q v where "f () t = Some (q, v)" "toks_left v \<le> toks_left t"
      "c \<and> q = Inr () \<Longrightarrow> toks_left v < toks_left t"
      by (auto simp: ends_def)
    then show ?thesis
      using run le lt Inr by (auto simp: ends_def bindF_def)
  qed
qed

lemma ends_token:
  assumes f: "\<And>t ts. d_toks (js_decoder s) = t # ts \<Longrightarrow>
      ends False (f t) (s\<lparr>js_decoder := (js_decoder s)\<lparr>d_toks := ts\<rparr>\<rparr>)"
  shows "ends True (bindF (runF getToken) f) s"
proof (cases "d_toks (js_decoder s)")
  case Nil
  then show ?thesis by (simp add: ends_def bindF_def runF_def getToken_run)
next
  case (Cons t ts)
  then have "bindF (runF getToken) f s = f t (s\<lparr>js_decoder := (js_decoder s)\<lparr>d_toks := ts\<rparr>\<rparr>)"
    by (simp add: bindF_def runF_def getToken_run)
  then show ?thesis using f [OF Cons] Cons by (auto simp: ends_def)
qed

lemma ends_weaken: "ends True m s \<Longrightarrow> ends b m s"
  by (auto simp: ends_def)

lemma skipToDelim_ends:
  fixes s :: "'s jsonStream"
  shows "toks_left s < n \<Longrightarrow> ends True (skipToDelim n delim) s"
proof (induction n arbitrary: delim s)
  case (Suc n)
  have two: "ends False (bindF (skipToDelim n c) (\<lambda>_. skipToDelim n delim)) t"
    and one: "ends False (skipToDelim n delim) t" if "toks_left t < n" for t :: "'s jsonStream" and c
  proof -
    have "ends (True \<or> True) (bindF (skipToDelim n c) (\<lambda>_. skipToDelim n delim)) t"
      by (rule ends_bind) (use Suc.IH that in auto)
    then show "ends False (bindF (skipToDelim n c) (\<lambda>_. skipToDelim n delim)) t"
      by (simp add: ends_weaken)
    show "ends False (skipToDelim n delim) t" using Suc.IH [OF that] by (rule ends_weaken)
  qed
  show ?case
    unfolding skipToDelim.simps
  proof (rule ends_token, goal_cases)
    case (1 t ts)
    then have "toks_left (s\<lparr>js_decoder := (js_decoder s)\<lparr>d_toks := ts\<rparr>\<rparr>) < n" using Suc.prems by simp
    note two [OF this] one [OF this]
    then show ?case
      by (auto intro: ends_run simp: throwE_def returnE_def split: token.splits)
  qed
qed simp

lemma eachElement_ends: "readsE cb \<Longrightarrow> toks_left s < n \<Longrightarrow> ends False (eachElement n cb) s"
proof (induction n arbitrary: s)
  case (Suc n)
  show ?case
  proof (cases "More (js_decoder s)")
    case True
    obtain r d u where cb: "cb (js_decoder s, js_user s) = (r, d, u)" by (cases "cb (js_decoder s, js_user s)")
    show ?thesis
    proof (cases r)
      case (Inl e)
      then show ?thesis
        using True cb readsED(1) [OF Suc.prems(1) cb] by (simp add: ends_def bindF_def runF_def zoomE_def)
    next
      case (Inr v)
      let ?t = "s\<lparr>js_decoder := d, js_user := u, js_gotResults := True\<rparr>"
      have "length (d_toks d) < toks_left s" using Inr cb readsED(2) [OF Suc.prems(1)] by simp
      then have "ends False (eachElement n cb) ?t" and "toks_left ?t \<le> toks_left s"
        using Suc.IH [of ?t] Suc.prems by simp_all
      moreover have "eachElement (Suc n) cb s = eachElement n cb ?t"
        using True cb Inr by (simp add: bindF_def runF_def zoomE_def)
      ultimately show ?thesis by (auto simp only: ends_def intro: le_trans)
    qed
  qed (simp add: ends_def)
qed simp

lemma ends_names:
  fixes s :: "'s jsonStream"
  assumes f: "\<And>name t. toks_left t < toks_left s \<Longrightarrow> ends False (f name) t"
  shows "ends True (bindF (runF getNextName) f) s"
proof (cases "d_toks (js_decoder s)")
  case Nil
  then show ?thesis by (simp add: ends_def bindF_def runF_def getNextName_def bindE_def getToken_run)
next
  case (Cons t ts)
  let ?s = "s\<lparr>js_decoder := (js_decoder s)\<lparr>d_toks := ts\<rparr>\<rparr>"
  have "toks_left ?s < toks_left s" using Cons by simp
  moreover have "(\<exists>e. getNextName s = (Inl e, ?s)) \<or> (\<exists>name. getNextName s = (Inr name, ?s))"
    using Cons by (cases t) (simp_all add: getNextName_def bindE_def getToken_run returnE_def throwE_def)
  ultimately show ?thesis
    using f [of ?s] by (fastforce simp: ends_def bindF_def runF_def)
qed

lemma stream_members_end:
  fixes search :: "'s SearchElement list"
  assumes cbs: "\<forall>e \<in> set search. readsE (se_CB e)"
  shows "(\<forall>s. toks_left s < n \<longrightarrow> ends True (stream n search) s) \<and>
    (\<forall>s. toks_left s < n \<longrightarrow> ends True (members n search) s)"
proof (induction n)
  case (Suc n)
  then have IH: "ends True (stream n search) s" "ends True (members n search) s"
    if "toks_left s < n" for s :: "'s jsonStream"
    using that by blast+
  have arr: "ends False (bindF (case getSearchElement search path of
        None \<Rightarrow> runF (returnE ()) | Some e \<Rightarrow> eachElement n (se_CB e)) (\<lambda>_. skipToDelim n CHR '']'')) t"
    if "toks_left t < n" for t :: "'s jsonStream" and path
  proof -
    have "ends False (case getSearchElement search path of
        None \<Rightarrow> runF (returnE ()) | Some e \<Rightarrow> eachElement n (se_CB e)) t"
      using cbs that
      by (auto simp: getSearchElement_def find_Some_iff ends_run returnE_def intro!: eachElement_ends split: option.splits)
    then have "ends (False \<or> True) (bindF (case getSearchElement search path of
        None \<Rightarrow> runF (returnE ()) | Some e \<Rightarrow> eachElement n (se_CB e)) (\<lambda>_. skipToDelim n CHR '']'')) t"
      by (rule ends_bind) (use that in \<open>simp add: skipToDelim_ends\<close>)
    then show ?thesis by (simp add: ends_weaken)
  qed
  have st: "ends True (stream (Suc n) search) s" if "toks_left s < Suc n" for s :: "'s jsonStream"
    unfolding stream.simps
  proof (rule ends_token, goal_cases)
    case (1 t ts)
    then have lt: "toks_left (s\<lparr>js_decoder := (js_decoder s)\<lparr>d_toks := ts\<rparr>\<rparr>) < n" using that by simp
    show ?case
      using arr [OF lt] ends_weaken [OF IH(2) [OF lt], of False]
      by (cases t) (simp_all add: ends_def bindF_def runF_def getE_def Let_def returnE_def throwE_def)
  qed
  have "ends True (members (Suc n) search) s" if "toks_left s < Suc n" for s :: "'s jsonStream"
    unfolding members.simps
  proof (rule ends_names, goal_cases)
    case (1 name t)
    then have lt: "toks_left t < n" using that by simp
    let ?k = "\<lambda>stack. bindF (stream n search) (\<lambda>_. bindF (runF (modifyE (\<lambda>s. s\<lparr>js_stack := stack\<rparr>))) (\<lambda>_. members n search))"
    have step: "ends (True \<or> True) (?k stack) u" if "toks_left u < n" for u :: "'s jsonStream" and stack
    proof (rule ends_bind)
      show "ends True (stream n search) u" using IH(1) [OF that] .
      fix v :: "'s jsonStream"
      assume "toks_left v \<le> toks_left u"
      then have "ends True (members n search) (v\<lparr>js_stack := stack\<rparr>)" using that IH(2) by simp
      then show "ends True (bindF (runF (modifyE (\<lambda>s. s\<lparr>js_stack := stack\<rparr>))) (\<lambda>_. members n search)) v"
        by (simp add: ends_def bindF_def runF_def modifyE_def)
    qed
    show ?case
      using step [of "t\<lparr>js_stack := js_stack t @ [name]\<rparr>" "js_stack t"] lt
      by (auto simp: ends_def bindF_def [of "runF _"] runF_def getE_def modifyE_def returnE_def)
  qed
  with st show ?case by blast
qed simp

text \<open>More fuel does not change the outcome of a run that ends.\<close>

lemma bindF_mono:
  assumes "bindF m f s = Some q" and "\<And>x. m s = Some x \<Longrightarrow> m' s = Some x"
    and "\<And>a t x. f a t = Some x \<Longrightarrow> f' a t = Some x"
  shows "bindF m' f' s = Some q"
  using assms by (auto simp: bindF_def split: option.splits prod.splits sum.splits)

lemma skipToDelim_more: "skipToDelim n delim s = Some q \<Longrightarrow> skipToDelim (Suc n) delim s = Some q"
proof (induction n arbitrary: delim s q)
  case (Suc n)
  show ?case
    by (subst skipToDelim.simps(2), rule bindF_mono [OF Suc.prems [unfolded skipToDelim.simps(2) [of n]]])
      (auto simp del: skipToDelim.simps intro: Suc.IH bindF_mono split: token.splits)
qed simp

lemma eachElement_more: "eachElement n cb s = Some q \<Longrightarrow> eachElement (Suc n) cb s = Some q"
proof (induction n arbitrary: s q)
  case (Suc n)
  show ?case
    using Suc.prems [unfolded eachElement.simps(2) [of n]]
    by (subst eachElement.simps(2)) (auto simp del: eachElement.simps intro: Suc.IH bindF_mono split: if_splits)
qed simp

lemma stream_members_more:
  "(\<forall>s q. stream n search s = Some q \<longrightarrow> stream (Suc n) search s = Some q) \<and>
   (\<forall>s q. members n search s = Some q \<longrightarrow> members (Suc n) search s = Some q)"
proof (induction n)
  case (Suc n)
  then have IH: "\<And>s q. stream n search s = Some q \<Longrightarrow> stream (Suc n) search s = Some q"
    "\<And>s q. members n search s = Some q \<Longrightarrow> members (Suc n) search s = Some q"
    by blast+
  have "stream (Suc (Suc n)) search s = Some q" if "stream (Suc n) search s = Some q" for s q
    by (subst stream.simps(2), rule bindF_mono [OF that [unfolded stream.simps(2) [of n]]])
      (auto simp: Let_def simp del: stream.simps members.simps skipToDelim.simps eachElement.simps
        intro: IH bindF_mono skipToDelim_more eachElement_more split: token.splits option.splits)
  moreover have "members (Suc (Suc n)) search s = Some q" if "members (Suc n) search s = Some q" for s q
    by (subst members.simps(2), rule bindF_mono [OF that [unfolded members.simps(2) [of n]]])
      (auto simp del: stream.simps members.simps bindF_run intro: IH elim!: bindF_mono)
  ultimately show ?case by blast
qed simp

lemma more_fuel:
  assumes step: "\<And>n s q. f n s = Some q \<Longrightarrow> f (Suc n) s = Some q" and run: "f n s \<noteq> None" and le: "n \<le> m"
  shows "f m s = f n s"
  using le
proof (induction rule: dec_induct)
  case (step k)
  obtain q where "f n s = Some q" using run by blast
  with step.IH assms(1) [of k s q] show ?case by simp
qed simp

lemma same_outcome:
  assumes step: "\<forall>n s q. f n s = Some q \<longrightarrow> f (Suc n) s = Some q"
    and run: "f (Suc k) s = Some out" and less: "k < n" "k < m"
  shows "f n s = f m s"
proof -
  have "f j s = f (Suc k) s" if "k < j" for j
    by (rule more_fuel [of f]) (use step run that in simp_all)
  then have "f n s = f (Suc k) s" "f m s = f (Suc k) s" using less by blast+
  then show ?thesis by simp
qed

lemma enough_fuel:
  fixes s :: "'s jsonStream"
  assumes less: "toks_left s < n" "toks_left s < m"
  shows "skipToDelim n delim s = skipToDelim m delim s"
    and "readsE cb \<Longrightarrow> eachElement n cb s = eachElement m cb s"
    and "\<forall>e \<in> set search. readsE (se_CB e) \<Longrightarrow> stream n search s = stream m search s"
    and "\<forall>e \<in> set search. readsE (se_CB e) \<Longrightarrow> members n search s = members m search s"
proof -
  have k: "toks_left s < Suc (toks_left s)" by simp
  obtain out where "skipToDelim (Suc (toks_left s)) delim s = Some out"
    using skipToDelim_ends [OF k] unfolding ends_def by metis
  then show "skipToDelim n delim s = skipToDelim m delim s"
    by (intro same_outcome [where f = "\<lambda>n. skipToDelim n delim", OF _ _ less]) (blast intro: skipToDelim_more)+
  show "eachElement n cb s = eachElement m cb s" if cb: "readsE cb"
  proof -
    obtain out where "eachElement (Suc (toks_left s)) cb s = Some out"
      using eachElement_ends [OF cb k] unfolding ends_def by metis
    then show ?thesis
      by (intro same_outcome [where f = "\<lambda>n. eachElement n cb", OF _ _ less]) (blast intro: eachElement_more)+
  qed
  assume cbs: "\<forall>e \<in> set search. readsE (se_CB e)"
  obtain out out' where runs: "stream (Suc (toks_left s)) search s = Some out"
      "members (Suc (toks_left s)) search s = Some out'"
    using stream_members_end [OF cbs, of "Suc (toks_left s)"] k unfolding ends_def by metis
  have more: "\<forall>n s q. stream n search s = Some q \<longrightarrow> stream (Suc n) search s = Some q"
    "\<forall>n s q. members n search s = Some q \<longrightarrow> members (Suc n) search s = Some q"
    using stream_members_more by blast+
  show "stream n search s = stream m search s"
    by (rule same_outcome [where f = "\<lambda>n. stream n search", OF more(1) runs(1) less])
  show "members n search s = members m search s"
    by (rule same_outcome [where f = "\<lambda>n. members n search", OF more(2) runs(2) less])
qed

text \<open>C21: the reader ends on every input, well-formed or not, when its callbacks read a token of
  each element they accept: the fuel that is given never runs out, and more of it would not
  change the outcome.\<close>

theorem StreamJSON_ends:
  assumes "\<forall>e \<in> set search. readsE (se_CB e)"
  shows "(\<exists>out. StreamJSON search d u = Some out) \<and>
    (\<forall>n > length (d_toks d).
       StreamJSON search d u =
         map_option (\<lambda>(r, s). (r, js_gotResults s, js_user s))
           (stream n search \<lparr>js_decoder = d, js_stack = [], js_gotResults = False, js_user = u\<rparr>))"
proof -
  let ?s = "\<lparr>js_decoder = d, js_stack = [], js_gotResults = False, js_user = u\<rparr>"
  have "ends True (stream (Suc (toks_left ?s)) search) ?s"
    using stream_members_end [OF assms, of "Suc (toks_left ?s)"] by blast
  then have "\<exists>out. StreamJSON search d u = Some out" by (auto simp: StreamJSON_def ends_def)
  moreover have "stream (Suc (toks_left ?s)) search ?s = stream n search ?s" if "length (d_toks d) < n" for n
    using enough_fuel(3) [OF _ _ assms, of ?s "Suc (toks_left ?s)" n] that by simp
  ultimately show ?thesis by (simp add: StreamJSON_def)
qed

text \<open>A callback that reads nothing is called forever: \<open>for js.decoder.More()\<close> never ends.\<close>

lemma idle_callback_never_ends:
  assumes "More (js_decoder s)"
  shows "eachElement n (returnE ()) s = None"
  using assms
proof (induction n arbitrary: s)
  case (Suc n)
  then show ?case by (simp add: bindF_def runF_def zoomE_def returnE_def)
qed simp

section \<open>What is read\<close>

datatype json = JNull | JBool bool | JNumber string | JString string
  | JArray "json list" | JObject "(string \<times> json) list"

text \<open>The tokens of a document.\<close>

fun tokens :: "json \<Rightarrow> token list" and element_tokens :: "json list \<Rightarrow> token list"
  and member_tokens :: "(string \<times> json) list \<Rightarrow> token list" where
  "tokens JNull = [TNull]"
| "tokens (JBool b) = [TBool b]"
| "tokens (JNumber n) = [TNumber n]"
| "tokens (JString s) = [TString s]"
| "tokens (JArray vs) = TDelim CHR ''['' # element_tokens vs @ [TDelim CHR '']'']"
| "tokens (JObject kvs) = TDelim CHR ''{'' # member_tokens kvs @ [TDelim CHR ''}'']"
| "element_tokens [] = []"
| "element_tokens (v # vs) = tokens v @ element_tokens vs"
| "member_tokens [] = []"
| "member_tokens ((k, v) # kvs) = TString k # tokens v @ member_tokens kvs"

text \<open>The reference: the elements of the arrays at the searched paths in the order of the
  document, each handed to the function for its path.  \<open>fs\<close> gives the functions; the state is the
  flag of results and the state of the functions.\<close>

type_synonym 's visitor = "json \<Rightarrow> ('s, go_error, unit) em"

definition visit_element :: "'s visitor \<Rightarrow> json \<Rightarrow> (bool \<times> 's, go_error, unit) em" where
  "visit_element g v = seqE (zoomE snd (\<lambda>u p. (fst p, u)) (g v)) (modifyE (\<lambda>p. (True, snd p)))"

fun visit :: "(string \<Rightarrow> 's visitor option) \<Rightarrow> string list \<Rightarrow> json \<Rightarrow> (bool \<times> 's, go_error, unit) em"
  and visit_members :: "(string \<Rightarrow> 's visitor option) \<Rightarrow> string list \<Rightarrow> (string \<times> json) list \<Rightarrow> (bool \<times> 's, go_error, unit) em" where
  "visit fs stack (JArray vs) =
     (case fs (strings_Join stack ''.'') of None \<Rightarrow> returnE () | Some g \<Rightarrow> forE vs (visit_element g))"
| "visit fs stack (JObject kvs) =
     (case fs (strings_Join stack ''.'') of
        None \<Rightarrow> visit_members fs stack kvs
      | Some _ \<Rightarrow> throwE (PlainErr (''Expecting array for value of '' @ strings_Join stack ''.'')))"
| "visit fs stack _ = returnE ()"
| "visit_members fs stack [] = returnE ()"
| "visit_members fs stack ((k, v) # kvs) = seqE (visit fs (stack @ [k]) v) (visit_members fs stack kvs)"

text \<open>No member of the objects that are walked through has the empty name.\<close>

fun names_ok :: "json \<Rightarrow> bool" and member_names_ok :: "(string \<times> json) list \<Rightarrow> bool" where
  "names_ok (JObject kvs) = member_names_ok kvs"
| "names_ok _ = True"
| "member_names_ok [] = True"
| "member_names_ok ((k, v) # kvs) = (k \<noteq> [] \<and> names_ok v \<and> member_names_ok kvs)"

text \<open>A callback that decodes one element and hands it to \<open>g\<close> (\<open>Decoder.Decode\<close>).\<close>

definition decodes :: "(decoder \<times> 's, go_error, unit) em \<Rightarrow> 's visitor \<Rightarrow> bool" where
  "decodes cb g \<longleftrightarrow>
     (\<forall>v rest more u.
        case g v u of
          (Inr _, u') \<Rightarrow> cb (\<lparr>d_toks = tokens v @ rest, d_more = more\<rparr>, u) = (Inr (), \<lparr>d_toks = rest, d_more = more\<rparr>, u')
        | (Inl e, u') \<Rightarrow> \<exists>d. cb (\<lparr>d_toks = tokens v @ rest, d_more = more\<rparr>, u) = (Inl e, d, u'))"

text \<open>The state with the decoder before the tokens \<open>ts\<close>.\<close>

definition at_toks :: "'s jsonStream \<Rightarrow> token list \<Rightarrow> 's jsonStream" where
  "at_toks s ts = s\<lparr>js_decoder := \<lparr>d_toks = ts, d_more = d_more (js_decoder s)\<rparr>\<rparr>"

lemma bindF_simps [simp]:
  "bindF (runF (getE h)) f s = f (h s) s" "bindF (runF (modifyE k)) f s = f () (k s)"
  "bindF (runF (returnE a)) f s = f a s" "runF (returnE a) s = Some (Inr a, s)" "runF (throwE e) s = Some (Inl e, s)"
  by (simp_all add: bindF_def runF_def getE_def modifyE_def returnE_def throwE_def)

lemma at_toks_simps [simp]:
  "at_toks (at_toks s a) b = at_toks s b"
  "js_decoder (at_toks s a) = \<lparr>d_toks = a, d_more = d_more (js_decoder s)\<rparr>"
  "js_stack (at_toks s a) = js_stack s" "js_user (at_toks s a) = js_user s"
  "js_gotResults (at_toks s a) = js_gotResults s"
  "(at_toks s a)\<lparr>js_stack := st\<rparr> = at_toks (s\<lparr>js_stack := st\<rparr>) a"
  "(at_toks s a)\<lparr>js_user := u\<rparr> = at_toks (s\<lparr>js_user := u\<rparr>) a"
  "(at_toks s a)\<lparr>js_gotResults := g\<rparr> = at_toks (s\<lparr>js_gotResults := g\<rparr>) a"
  by (simp_all add: at_toks_def)

lemma token_at [simp]: "bindF (runF getToken) f (at_toks s (t # ts)) = f t (at_toks s ts)"
  by (simp add: bindF_def runF_def getToken_run) (simp add: at_toks_def)

lemma name_at [simp]:
  "bindF (runF getNextName) f (at_toks s (TString k # ts)) = f k (at_toks s ts)"
  "bindF (runF getNextName) f (at_toks s (TDelim CHR ''}'' # ts)) = f [] (at_toks s ts)"
  by (simp_all add: bindF_def runF_def getNextName_def bindE_def getToken_run returnE_def) (simp_all add: at_toks_def)

lemma tokens_not_Nil [simp]: "tokens v \<noteq> []"
  by (cases v) simp_all

lemma More_tokens [simp]:
  "More \<lparr>d_toks = tokens v @ rest, d_more = b\<rparr>" "\<not> More \<lparr>d_toks = TDelim CHR '']'' # rest, d_more = b\<rparr>"
  by (cases v) (simp_all add: More_def)

text \<open>Whole elements are skipped.\<close>

lemma skip_at_delim: "skipToDelim (Suc n) c (at_toks s (TDelim c # ts)) = Some (Inr (), at_toks s ts)"
  by (simp add: runF_def returnE_def)

lemma skip_fuel:
  "length ts < n \<Longrightarrow> length ts < m \<Longrightarrow> skipToDelim n c (at_toks s ts) = skipToDelim m c (at_toks s ts)"
  by (rule enough_fuel(1)) simp_all

lemma skip_scalar:
  assumes "\<And>d. t \<noteq> TDelim d" and "length (t # rest) < n"
  shows "skipToDelim n c (at_toks s (t # rest)) = skipToDelim n c (at_toks s rest)"
proof -
  obtain m where n: "n = Suc m" using assms(2) by (cases n) auto
  then have "skipToDelim n c (at_toks s (t # rest)) = skipToDelim m c (at_toks s rest)"
    using assms(1) by (cases t) auto
  also have "\<dots> = skipToDelim n c (at_toks s rest)" using assms(2) n by (intro skip_fuel) simp_all
  finally show ?thesis .
qed

lemma skip_inner:
  assumes els: "\<And>n. length (ts @ TDelim c # rest) < n \<Longrightarrow>
      skipToDelim n c (at_toks s (ts @ TDelim c # rest)) = skipToDelim n c (at_toks s (TDelim c # rest))"
    and less: "length (ts @ TDelim c # rest) < m"
  shows "bindF (skipToDelim m c) f (at_toks s (ts @ TDelim c # rest)) = f () (at_toks s rest)"
proof -
  obtain k where "m = Suc k" using less by (cases m) auto
  then have "skipToDelim m c (at_toks s (ts @ TDelim c # rest)) = Some (Inr (), at_toks s rest)"
    using els [OF less] skip_at_delim by metis
  then show ?thesis by (simp add: bindF_def)
qed

lemma skip_tokens:
  fixes s :: "'s jsonStream"
  shows "c \<in> {CHR '']'', CHR ''}''} \<Longrightarrow> length (tokens v @ rest) < n \<Longrightarrow>
      skipToDelim n c (at_toks s (tokens v @ rest)) = skipToDelim n c (at_toks s rest)"
    and "c \<in> {CHR '']'', CHR ''}''} \<Longrightarrow> length (element_tokens vs @ rest) < n \<Longrightarrow>
      skipToDelim n c (at_toks s (element_tokens vs @ rest)) = skipToDelim n c (at_toks s rest)"
    and "c \<in> {CHR '']'', CHR ''}''} \<Longrightarrow> length (member_tokens kvs @ rest) < n \<Longrightarrow>
      skipToDelim n c (at_toks s (member_tokens kvs @ rest)) = skipToDelim n c (at_toks s rest)"
proof (induction v and vs and kvs arbitrary: n c rest and n c rest and n c rest
    rule: tokens_element_tokens_member_tokens.induct)
  case (5 vs)
  then obtain m where n: "n = Suc m" by (cases n) auto
  have "bindF (skipToDelim m CHR '']'') (\<lambda>_. skipToDelim m c) (at_toks s (element_tokens vs @ TDelim CHR '']'' # rest))
      = skipToDelim m c (at_toks s rest)"
    by (rule skip_inner) (use 5 n in simp_all)
  then show ?case
    using 5 n skip_fuel [of rest m n c s] by auto
next
  case (6 kvs)
  then obtain m where n: "n = Suc m" by (cases n) auto
  have "bindF (skipToDelim m CHR ''}'') (\<lambda>_. skipToDelim m c) (at_toks s (member_tokens kvs @ TDelim CHR ''}'' # rest))
      = skipToDelim m c (at_toks s rest)"
    by (rule skip_inner) (use 6 n in simp_all)
  then show ?case
    using 6 n skip_fuel [of rest m n c s] by auto
next
  case (10 k v kvs)
  then show ?case by (simp del: skipToDelim.simps add: skip_scalar)
qed (simp_all del: skipToDelim.simps add: skip_scalar)

text \<open>The outcome of a run that reads the tokens before \<open>rest\<close>, given by a run of the reference.\<close>

definition follows ::
  "(go_error + unit) \<times> bool \<times> 's \<Rightarrow> token list \<Rightarrow> 's jsonStream \<Rightarrow> ((go_error + unit) \<times> 's jsonStream) option \<Rightarrow> bool"
  where
  "follows out rest s q \<longleftrightarrow>
     (case out of
        (Inr _, got, u) \<Rightarrow> q = Some (Inr (), at_toks (s\<lparr>js_gotResults := got, js_user := u\<rparr>) rest)
      | (Inl e, got, u) \<Rightarrow> (\<exists>t. q = Some (Inl e, t) \<and> js_gotResults t = got \<and> js_user t = u))"

abbreviation seen :: "'s jsonStream \<Rightarrow> bool \<times> 's" where
  "seen s \<equiv> (js_gotResults s, js_user s)"

lemma follows_seen [simp]:
  "follows out rest (s\<lparr>js_gotResults := got, js_user := u\<rparr>) q = follows out rest s q"
proof -
  have "s\<lparr>js_gotResults := got, js_user := u, js_gotResults := got', js_user := u'\<rparr> =
      s\<lparr>js_gotResults := got', js_user := u'\<rparr>" for got' u'
    by simp
  then show ?thesis unfolding follows_def by (simp only:)
qed

lemma decodesD:
  assumes "decodes cb g"
  shows "g v u = (Inr x, u') \<Longrightarrow>
      cb (\<lparr>d_toks = tokens v @ rest, d_more = mr\<rparr>, u) = (Inr (), \<lparr>d_toks = rest, d_more = mr\<rparr>, u')"
    and "g v u = (Inl e, u') \<Longrightarrow> \<exists>d. cb (\<lparr>d_toks = tokens v @ rest, d_more = mr\<rparr>, u) = (Inl e, d, u')"
proof -
  note spec = assms [unfolded decodes_def, rule_format, of v rest mr u]
  show "g v u = (Inr x, u') \<Longrightarrow>
      cb (\<lparr>d_toks = tokens v @ rest, d_more = mr\<rparr>, u) = (Inr (), \<lparr>d_toks = rest, d_more = mr\<rparr>, u')"
    using spec by simp
  show "g v u = (Inl e, u') \<Longrightarrow> \<exists>d. cb (\<lparr>d_toks = tokens v @ rest, d_more = mr\<rparr>, u) = (Inl e, d, u')"
    using spec by simp
qed

lemma follows_bind:
  assumes first: "follows (m (seen s)) mid s (f (at_toks s ts))"
    and second: "\<And>got u. m (seen s) = (Inr (), got, u) \<Longrightarrow>
      follows (n (got, u)) rest s' (g () (at_toks (s\<lparr>js_gotResults := got, js_user := u\<rparr>) mid))"
  shows "follows (seqE m n (seen s)) rest s' (bindF f g (at_toks s ts))"
proof (cases "m (seen s)")
  case (fields r got u)
  show ?thesis
  proof (cases r)
    case (Inl e)
    then show ?thesis using first fields by (auto simp: follows_def seqE_def bindE_def bindF_def)
  next
    case (Inr x)
    then have "bindF f g (at_toks s ts) = g () (at_toks (s\<lparr>js_gotResults := got, js_user := u\<rparr>) mid)"
      using first fields by (simp add: follows_def bindF_def)
    then show ?thesis
      using second [of got u] fields Inr by (simp add: seqE_def bindE_def)
  qed
qed

lemma decodes_reads:
  assumes "decodes cb g" and "readsE cb"
  shows "length (element_tokens vs @ TDelim CHR '']'' # rest) < n \<Longrightarrow>
    follows (forE vs (visit_element g) (seen s)) (TDelim CHR '']'' # rest) s
      (eachElement n cb (at_toks s (element_tokens vs @ TDelim CHR '']'' # rest)))"
proof (induction vs arbitrary: n s)
  case Nil
  then obtain m where "n = Suc m" by (cases n) auto
  then show ?case by (simp add: follows_def returnE_def)
next
  case (Cons v vs)
  then obtain m where n: "n = Suc m" by (cases n) auto
  let ?ts = "element_tokens vs @ TDelim CHR '']'' # rest"
  obtain r u where g: "g v (js_user s) = (r, u)" by (cases "g v (js_user s)")
  show ?case
  proof (cases r)
    case (Inl e)
    then obtain d where "cb (\<lparr>d_toks = tokens v @ ?ts, d_more = d_more (js_decoder s)\<rparr>, js_user s) = (Inl e, d, u)"
      using decodesD(2) [OF assms(1)] g by blast
    then show ?thesis
      using g Inl n
      by (simp add: follows_def bindF_def runF_def zoomE_def visit_element_def seqE_def bindE_def)
  next
    case (Inr x)
    then have cb: "cb (\<lparr>d_toks = tokens v @ ?ts, d_more = d_more (js_decoder s)\<rparr>, js_user s) =
        (Inr (), \<lparr>d_toks = ?ts, d_more = d_more (js_decoder s)\<rparr>, u)"
      using decodesD(1) [OF assms(1)] g by blast
    let ?s = "s\<lparr>js_gotResults := True, js_user := u\<rparr>"
    have "s\<lparr>js_decoder := \<lparr>d_toks = ?ts, d_more = d_more (js_decoder s)\<rparr>, js_user := u, js_gotResults := True\<rparr> = at_toks ?s ?ts"
      by (simp add: at_toks_def)
    moreover have "eachElement n cb (at_toks s (tokens v @ ?ts)) =
        eachElement m cb (s\<lparr>js_decoder := \<lparr>d_toks = ?ts, d_more = d_more (js_decoder s)\<rparr>, js_user := u, js_gotResults := True\<rparr>)"
      using cb n by (simp add: bindF_def runF_def zoomE_def) (simp add: at_toks_def)
    ultimately have "eachElement n cb (at_toks s (tokens v @ ?ts)) = eachElement m cb (at_toks ?s ?ts)"
      by (simp only:)
    moreover have "forE (v # vs) (visit_element g) (seen s) = forE vs (visit_element g) (True, u)"
      using g Inr by (simp add: visit_element_def seqE_def bindE_def zoomE_def modifyE_def)
    moreover have "length ?ts < m" using Cons.prems n tokens_not_Nil [of v] by (cases "tokens v") simp_all
    ultimately show ?thesis using Cons.IH [of m ?s] by simp
  qed
qed

definition searches :: "'s SearchElement list \<Rightarrow> (string \<Rightarrow> 's visitor option) \<Rightarrow> bool" where
  "searches search fs \<longleftrightarrow>
     (\<forall>path. rel_option (\<lambda>e g. decodes (se_CB e) g) (getSearchElement search path) (fs path))"

lemma searchesD:
  assumes "searches search fs"
  shows "fs path = None \<Longrightarrow> getSearchElement search path = None"
    and "fs path = Some g \<Longrightarrow> \<exists>e \<in> set search. getSearchElement search path = Some e \<and> decodes (se_CB e) g"
proof -
  have r: "rel_option (\<lambda>e g. decodes (se_CB e) g) (getSearchElement search path) (fs path)"
    using assms unfolding searches_def by blast
  show "fs path = None \<Longrightarrow> getSearchElement search path = None" using r by simp
  show "fs path = Some g \<Longrightarrow> \<exists>e \<in> set search. getSearchElement search path = Some e \<and> decodes (se_CB e) g"
    using r by (auto simp: option_rel_Some2 getSearchElement_def find_Some_iff)
qed

lemmas document_induct = names_ok_member_names_ok.induct
  [case_names object null bool number string array none member]

lemma stream_follows:
  fixes search :: "'s SearchElement list"
  assumes fs: "searches search fs" and cbs: "\<forall>e \<in> set search. readsE (se_CB e)"
  shows "names_ok v \<Longrightarrow> length (tokens v @ rest) < n \<Longrightarrow> js_stack s = stack \<Longrightarrow>
      follows (visit fs stack v (seen s)) rest s (stream n search (at_toks s (tokens v @ rest)))"
    and "member_names_ok kvs \<Longrightarrow> length (member_tokens kvs @ TDelim CHR ''}'' # rest) < n \<Longrightarrow> js_stack s = stack \<Longrightarrow>
      follows (visit_members fs stack kvs (seen s)) rest s
        (members n search (at_toks s (member_tokens kvs @ TDelim CHR ''}'' # rest)))"
proof (induction v and kvs arbitrary: n rest s stack and n rest s stack rule: document_induct)
  case (object kvs)
  then obtain m where n: "n = Suc m" by (cases n) auto
  show ?case
  proof (cases "fs (strings_Join stack ''.'')")
    case None
    then show ?thesis using object n searchesD(1) [OF fs None] by (simp add: Let_def)
  next
    case (Some g)
    then show ?thesis
      using object(3,4) n searchesD(2) [OF fs Some] by (auto simp: Let_def follows_def throwE_def)
  qed
next
  case (array vs)
  then obtain m where n: "n = Suc m" by (cases n) auto
  let ?ts = "element_tokens vs @ TDelim CHR '']'' # rest"
  have less: "length ?ts < m" using array n by simp
  have skip: "skipToDelim m CHR '']'' (at_toks t (TDelim CHR '']'' # rest)) = Some (Inr (), at_toks t rest)"
    for t :: "'s jsonStream"
    using less skip_at_delim by (cases m) (simp_all del: skipToDelim.simps)
  show ?case
  proof (cases "fs (strings_Join stack ''.'')")
    case None
    then show ?thesis
      using array n less searchesD(1) [OF fs None] skip_tokens(2) [of "CHR '']''" vs "TDelim CHR '']'' # rest" m s] skip
      by (simp add: Let_def follows_def returnE_def)
  next
    case (Some g)
    then obtain e where e: "e \<in> set search" "getSearchElement search (strings_Join stack ''.'') = Some e" "decodes (se_CB e) g"
      using searchesD(2) [OF fs] by blast
    have "follows (seqE (forE vs (visit_element g)) (returnE ()) (seen s)) rest s
        (bindF (eachElement m (se_CB e)) (\<lambda>_. skipToDelim m CHR '']'') (at_toks s ?ts))"
      by (rule follows_bind, rule decodes_reads [OF e(3) _ less])
        (use cbs e(1) skip in \<open>auto simp: follows_def returnE_def\<close>)
    moreover have "seqE (forE vs (visit_element g)) (returnE ()) = forE vs (visit_element g)"
      by (rule ext) (simp add: seqE_def bindE_def returnE_def split: prod.splits sum.splits)
    ultimately show ?thesis using array n e Some by (simp add: Let_def)
  qed
next
  case (member k v kvs)
  then obtain m where n: "n = Suc m" by (cases n) auto
  let ?s = "s\<lparr>js_stack := stack @ [k]\<rparr>" and ?ts = "member_tokens kvs @ TDelim CHR ''}'' # rest"
  have "follows (seqE (visit fs (stack @ [k]) v) (visit_members fs stack kvs) (seen ?s)) rest s
      (bindF (stream m search) (\<lambda>_. bindF (runF (modifyE (\<lambda>s. s\<lparr>js_stack := stack\<rparr>))) (\<lambda>_. members m search))
        (at_toks ?s (tokens v @ ?ts)))"
  proof (rule follows_bind)
    show "follows (visit fs (stack @ [k]) v (seen ?s)) ?ts ?s (stream m search (at_toks ?s (tokens v @ ?ts)))"
      by (rule member.IH(1)) (use member n in simp_all)
  next
    fix got u
    let ?t = "s\<lparr>js_gotResults := got, js_user := u\<rparr>"
    have "?s\<lparr>js_gotResults := got, js_user := u, js_stack := stack\<rparr> = ?t" using member by simp
    moreover have "follows (visit_members fs stack kvs (seen ?t)) rest ?t (members m search (at_toks ?t ?ts))"
      by (rule member.IH(2)) (use member n in simp_all)
    ultimately show "follows (visit_members fs stack kvs (got, u)) rest s
        (bindF (runF (modifyE (\<lambda>s. s\<lparr>js_stack := stack\<rparr>))) (\<lambda>_. members m search)
          (at_toks (?s\<lparr>js_gotResults := got, js_user := u\<rparr>) ?ts))"
      by simp
  qed
  then show ?case using member n by simp
qed (auto simp: follows_def returnE_def Suc_less_eq2)

text \<open>The function of the array \<open>errors\<close>: whatever the element is, it is an error.\<close>

definition err_visitor :: "(json \<Rightarrow> string option) \<Rightarrow> 's visitor" where
  "err_visitor msg v =
     throwE (PlainErr (case msg v of None \<Rightarrow> ''Invalid JSON error format'' | Some m \<Rightarrow> m))"

definition decodes_message :: "(decoder, go_error, string) em \<Rightarrow> (json \<Rightarrow> string option) \<Rightarrow> bool" where
  "decodes_message decode msg \<longleftrightarrow>
     (\<forall>v rest b. case msg v of
        None \<Rightarrow> \<exists>e d. decode \<lparr>d_toks = tokens v @ rest, d_more = b\<rparr> = (Inl e, d) \<and> \<not> isPanic e
      | Some m \<Rightarrow> \<exists>d. decode \<lparr>d_toks = tokens v @ rest, d_more = b\<rparr> = (Inr m, d))"

definition array_visitors :: "string \<Rightarrow> 's visitor \<Rightarrow> (json \<Rightarrow> string option) \<Rightarrow> string \<Rightarrow> 's visitor option" where
  "array_visitors path g msg p =
     (if p = path then Some g else if p = ''errors'' then Some (err_visitor msg) else None)"

lemma errCB_decodes:
  assumes "decodes_message decode msg"
  shows "decodes (errCB decode) (err_visitor msg :: 's visitor)"
proof -
  have "\<exists>d. errCB decode (\<lparr>d_toks = tokens v @ rest, d_more = b\<rparr>, u) =
      (Inl (PlainErr (case msg v of None \<Rightarrow> ''Invalid JSON error format'' | Some m \<Rightarrow> m)), d, u)" for v rest b and u :: 's
    using assms [unfolded decodes_message_def, rule_format, of v rest b]
    by (auto simp: errCB_def bindE_def mapErrE_def zoomE_def throwE_def split: option.splits)
  then show ?thesis by (simp add: decodes_def err_visitor_def throwE_def)
qed

lemma errCB_reads:
  assumes "\<And>d r e. decode d = (r, e) \<Longrightarrow> length (d_toks e) \<le> length (d_toks d)"
  shows "readsE (errCB decode)"
  using assms
  by (auto simp: readsE_def errCB_def bindE_def mapErrE_def zoomE_def throwE_def split: prod.splits sum.splits)

text \<open>C22: reading a streamed response calls the callback on exactly the elements of the array
  that is looked for, in the order of the document, until one fails or an element of \<open>errors\<close> is
  met, whose message becomes the error; everything else is skipped.  The outcome is that of the
  reference \<open>visit\<close>, for every document without empty member names.\<close>

theorem StreamJSONArray_visits:
  fixes cb :: "(decoder \<times> 's, go_error, unit) em"
  assumes cb: "decodes cb g" "readsE cb"
    and decode: "decodes_message decode msg"
      "\<And>d r e. decode d = (r, e) \<Longrightarrow> length (d_toks e) \<le> length (d_toks d)"
    and names: "names_ok v"
  shows "StreamJSONArray decode path cb \<lparr>d_toks = tokens v @ rest, d_more = b\<rparr> u =
    Some (visit (array_visitors path g msg) [] v (False, u))"
proof -
  let ?search = "[\<lparr>se_Path = path, se_CB = cb\<rparr>, \<lparr>se_Path = ''errors'', se_CB = errCB decode\<rparr>]"
  have reads: "\<forall>e \<in> set ?search. readsE (se_CB e)" using cb(2) errCB_reads [OF decode(2)] by simp
  have searched: "searches ?search (array_visitors path g msg)"
    using cb(1) errCB_decodes [OF decode(1)] by (auto simp: searches_def array_visitors_def getSearchElement_def)
  let ?s = "\<lparr>js_decoder = \<lparr>d_toks = tokens v @ rest, d_more = b\<rparr>, js_stack = [], js_gotResults = False, js_user = u\<rparr>"
  have "at_toks ?s (tokens v @ rest) = ?s" by (simp add: at_toks_def)
  moreover have "follows (visit (array_visitors path g msg) [] v (seen ?s)) rest ?s
      (stream (Suc (length (tokens v @ rest))) ?search (at_toks ?s (tokens v @ rest)))"
    by (rule stream_follows(1) [OF searched reads names]) simp_all
  ultimately have "follows (visit (array_visitors path g msg) [] v (False, u)) rest ?s
      (stream (Suc (length (tokens v @ rest))) ?search ?s)"
    by (simp only: jsonStream.simps)
  then show ?thesis
    by (cases "visit (array_visitors path g msg) [] v (False, u)")
      (auto simp: StreamJSONArray_def StreamJSON_def follows_def simp del: stream.simps split: sum.splits)
qed

text \<open>A response with its result: the callback runs over the elements.\<close>

lemma visit_response:
  assumes path: "path = ''result.'' @ name" and names: "path \<noteq> ''errors''"
  shows "visit (array_visitors path g msg) []
      (JObject [(''result'', JObject [(name, JArray vs), (''caname'', JString ca)]), (''errors'', JArray []),
        (''messages'', JArray []), (''success'', JBool True)]) =
    forE vs (visit_element g)"
  by (rule ext)
    (simp add: array_visitors_def path seqE_def bindE_def returnE_def err_visitor_def split: prod.splits sum.splits)

section \<open>Witnesses\<close>

text \<open>A callback that collects strings.\<close>

fun collect :: "(decoder \<times> string list, go_error, unit) em" where
  "collect (d, u) =
     (case d_toks d of
        TString x # ts \<Rightarrow> (Inr (), d\<lparr>d_toks := ts\<rparr>, u @ [x])
      | _ \<Rightarrow> (Inl (PlainErr ''not a string''), d, u))"

definition collect_visitor :: "string list visitor" where
  "collect_visitor v u =
     (case v of JString x \<Rightarrow> (Inr (), u @ [x]) | _ \<Rightarrow> (Inl (PlainErr ''not a string''), u))"

definition string_message :: "(decoder, go_error, string) em" where
  "string_message d =
     (case d_toks d of
        TString x # ts \<Rightarrow> (Inr x, d\<lparr>d_toks := ts\<rparr>)
      | _ \<Rightarrow> (Inl (PlainErr ''not a string''), d))"

lemma collect_ok: "readsE collect" "decodes collect collect_visitor"
proof -
  show "readsE collect" by (auto simp: readsE_def split: list.splits token.splits)
  show "decodes collect collect_visitor"
    unfolding decodes_def
  proof (intro allI)
    fix v rest b and u :: "string list"
    show "case collect_visitor v u of
        (Inl e, u') \<Rightarrow> \<exists>d. collect (\<lparr>d_toks = tokens v @ rest, d_more = b\<rparr>, u) = (Inl e, d, u')
      | (Inr _, u') \<Rightarrow> collect (\<lparr>d_toks = tokens v @ rest, d_more = b\<rparr>, u) = (Inr (), \<lparr>d_toks = rest, d_more = b\<rparr>, u')"
      by (cases v) (simp_all add: collect_visitor_def)
  qed
qed

lemma string_message_ok:
  "decodes_message string_message (\<lambda>v. case v of JString x \<Rightarrow> Some x | _ \<Rightarrow> None)"
  "string_message d = (r, e) \<Longrightarrow> length (d_toks e) \<le> length (d_toks d)"
proof -
  show "decodes_message string_message (\<lambda>v. case v of JString x \<Rightarrow> Some x | _ \<Rightarrow> None)"
    unfolding decodes_message_def
  proof (intro allI)
    fix v rest b
    show "case case v of JString x \<Rightarrow> Some x | _ \<Rightarrow> None of
        None \<Rightarrow> \<exists>e d. string_message \<lparr>d_toks = tokens v @ rest, d_more = b\<rparr> = (Inl e, d) \<and> \<not> isPanic e
      | Some m \<Rightarrow> \<exists>d. string_message \<lparr>d_toks = tokens v @ rest, d_more = b\<rparr> = (Inr m, d)"
      by (cases v) (simp_all add: string_message_def)
  qed
  show "string_message d = (r, e) \<Longrightarrow> length (d_toks e) \<le> length (d_toks d)"
    by (auto simp: string_message_def split: list.splits token.splits)
qed

definition example_document :: json where
  "example_document =
     JObject [(''result'', JObject [(''certs'', JArray [JString ''c1'', JString ''c2'']), (''caname'', JString ''ca'')]),
       (''errors'', JArray []), (''success'', JBool True)]"

theorem StreamJSONArray_visits_witness:
  "StreamJSONArray string_message ''result.certs'' collect \<lparr>d_toks = tokens example_document @ [], d_more = False\<rparr> [] =
     Some (Inr (), True, [''c1'', ''c2''])"
proof -
  have "StreamJSONArray string_message ''result.certs'' collect \<lparr>d_toks = tokens example_document @ [], d_more = False\<rparr> [] =
      Some (visit (array_visitors ''result.certs'' collect_visitor (\<lambda>v. case v of JString x \<Rightarrow> Some x | _ \<Rightarrow> None)) []
        example_document (False, []))"
    by (rule StreamJSONArray_visits [OF collect_ok(2,1) string_message_ok]) (simp_all add: example_document_def)
  then show ?thesis
    by (simp add: example_document_def array_visitors_def visit_element_def collect_visitor_def
        seqE_def bindE_def zoomE_def modifyE_def returnE_def)
qed

theorem StreamJSON_ends_witness:
  "\<exists>out. StreamJSON [\<lparr>se_Path = ''a'', se_CB = collect\<rparr>] \<lparr>d_toks = [TDelim CHR ''{'', TString ''a'', TNull], d_more = True\<rparr> [] = Some out"
  using StreamJSON_ends [of "[\<lparr>se_Path = ''a'', se_CB = collect\<rparr>]"
      "\<lparr>d_toks = [TDelim CHR ''{'', TString ''a'', TNull], d_more = True\<rparr>" "[]"] collect_ok(1)
  by simp

text \<open>A member with the empty name is taken for the end of its object: what follows it is never
  read, and no error is reported.\<close>

lemma empty_name_ends_object:
  "StreamJSONArray string_message ''certs'' collect
     \<lparr>d_toks = tokens (JObject [([], JNull), (''certs'', JArray [JString ''c1''])]), d_more = False\<rparr> [] =
   Some (Inr (), False, [])"
  by (simp add: StreamJSONArray_def StreamJSON_def bindF_def runF_def getToken_run getNextName_def bindE_def
      getSearchElement_def getE_def returnE_def Let_def)

end
