(* ===== verification/Client_World.thy ===== *)
theory Client_World
  imports Api_Types Crypto_Config Json_Streamer Go_Net
begin

text \<open>
  What the client library works on: files and directories, the keys of the cryptographic provider, the client object and
  the network, with the functions on files of \<open>util/util.go\<close> and on keys of \<open>util/csp.go\<close>.

  The record \<open>cenv\<close> collects what is outside of the program: the working directory, the outcome of
  system calls that create directories and write files, the parsers of certificates and keys, the providers (the one the client
  is initialised with and the default one), the Idemix library, JSON, the parser of URLs, TLS, and the
  exchange of one HTTP request for its response.  The keys held by the provider are the state \<open>w_keys\<close>, of any type, and the far side of
  the network is the state \<open>w_net\<close>, of any type.
\<close>

section \<open>Keys\<close>

datatype KeyGenOpts =
    ECDSAKeyGenOpts bool | ECDSAP256KeyGenOpts bool | ECDSAP384KeyGenOpts bool
  | RSA2048KeyGenOpts bool | RSA3072KeyGenOpts bool | RSA4096KeyGenOpts bool

text \<open>The provider: the operations on handles of keys, the subject key identifier of a key, finding a key by its identifier (with
  the information whether it is the private key), generating, importing, and making a signer.\<close>

record 'k provider =
  pv_csp :: bccsp
  pv_SKI :: "nat \<Rightarrow> string"
  pv_GetKey :: "'k \<Rightarrow> string \<Rightarrow> (nat \<times> bool) option"
  pv_KeyGen :: "KeyGenOpts \<Rightarrow> 'k \<Rightarrow> nat option \<times> 'k"
  pv_ImportPrivate :: "string \<Rightarrow> bool \<Rightarrow> 'k \<Rightarrow> nat option \<times> 'k"
  pv_newSigner :: "nat \<Rightarrow> bool"

text \<open>A private key read from a file.\<close>

datatype private_key = EcdsaPrivate nat | RsaPrivate nat | OtherPrivate nat

section \<open>Requests and responses\<close>

record http_request =
  hq_Method :: string
  hq_URL :: string
  hq_Query :: "(string \<times> string) list"
  hq_Authorization :: string
  hq_Body :: string

text \<open>A response; the body is undefined when it cannot be read.\<close>

record http_response =
  hs_StatusCode :: nat
  hs_Body :: "string option"

text \<open>\<open>Response\<close> of package \<open>cfssl/api\<close>.\<close>

record cfssl_Response =
  rs_Success :: bool
  rs_Result :: json
  rs_Errors :: "(int \<times> string) list"

text \<open>\<open>CAConfig\<close> of package \<open>cfssl/csr\<close>: what a request for a CA certificate asks for.\<close>

record csrCAConfig =
  cac_PathLength :: int
  cac_PathLenZero :: bool
  cac_Expiry :: string

record CSRInfo =
  csri_CN :: string
  csri_Names :: "csrName list option"
  csri_Hosts :: "string list option"
  csri_KeyRequest :: "(string \<times> int) option"
  csri_CA :: "csrCAConfig option"
  csri_SerialNumber :: string

text \<open>\<open>CertificateRequest\<close> of package \<open>cfssl/csr\<close>.\<close>

record CertificateRequest =
  cq_CN :: string
  cq_Names :: "csrName list"
  cq_Hosts :: "string list"
  cq_KeyRequest :: "(string \<times> int) option"
  cq_CA :: "csrCAConfig option"
  cq_SerialNumber :: string

text \<open>The bodies that the client sends; the name of the CA is part of each.\<close>

datatype wire =
    W_CAName string
  | W_Enroll EnrollmentRequestNet "string list option" string
  | W_Register RegistrationRequest string
  | W_Revoke RevocationRequest string
  | W_GenCRL GenCRLRequest string
  | W_AddIdentity AddIdentityRequest string
  | W_ModifyIdentity string ModifyIdentityRequest string
  | W_AddAffiliation AddAffiliationRequest bool string
  | W_ModifyAffiliation string ModifyAffiliationRequest bool string
  | W_TCert GetTCertBatchRequest string
  | W_Idemix "(string \<times> string) option" string

section \<open>The Idemix library and its signer configuration\<close>

record SignerConfig =
  sc_Cred :: string
  sc_Sk :: string
  sc_OrganizationalUnitIdentifier :: string
  sc_IsAdmin :: bool
  sc_EnrollmentID :: string
  sc_CRI :: string

record idemix_client =
  ic_GetRand :: bool
  ic_IssuerPublicKey :: "string \<Rightarrow> bool"
  ic_Credential :: "string \<Rightarrow> bool"
  ic_CRI :: "string \<Rightarrow> bool"
  ic_NewSignature :: "string \<Rightarrow> string \<Rightarrow> string \<Rightarrow> string \<Rightarrow> string \<Rightarrow> string option"
  ic_NewCredRequest :: "string \<Rightarrow> string \<Rightarrow> (string \<times> string) \<times> string"
  ic_Ver :: "string \<Rightarrow> string \<Rightarrow> string \<Rightarrow> bool"
  ic_Marshal :: "SignerConfig \<Rightarrow> string option"
  ic_Unmarshal :: "string \<Rightarrow> SignerConfig option"

section \<open>Results\<close>

text \<open>The responses of \<open>lib/common/serverresponses.go\<close>, as \<open>mapstructure\<close> decodes them.\<close>

record CAInfoResponseNet =
  cin_CAName :: string
  cin_CAChain :: string
  cin_Version :: string

record EnrollmentResponseNet =
  ern_Cert :: string
  ern_ServerInfo :: CAInfoResponseNet

record IdemixEnrollmentResponseNet =
  irn_Credential :: string
  irn_Attrs :: "(string \<times> string) list"
  irn_CRI :: string
  irn_Nonce :: string
  irn_CAInfo :: CAInfoResponseNet

text \<open>An Idemix response is decoded into a struct that is used twice: what the second response does not set is kept.\<close>

record result_decoders =
  rd_CAInfo :: "json \<Rightarrow> CAInfoResponseNet option"
  rd_Enrollment :: "json \<Rightarrow> EnrollmentResponseNet option"
  rd_Idemix :: "IdemixEnrollmentResponseNet option \<Rightarrow> json \<Rightarrow> IdemixEnrollmentResponseNet option"
  rd_Registration :: "json \<Rightarrow> string option"
  rd_Revocation :: "json \<Rightarrow> ((string \<times> string) list \<times> string) option"
  rd_CRL :: "json \<Rightarrow> string option"
  rd_CRI :: "json \<Rightarrow> string option"
  rd_Identity :: "json \<Rightarrow> IdentityResponse option"
  rd_Affiliation :: "json \<Rightarrow> (AffiliationInfo \<times> string) option"

section \<open>The world of the client\<close>

record Client_state =
  cl_HomeDir :: string
  cl_URL :: string
  cl_MSPDir :: string
  cl_initialized :: bool
  cl_keyFile :: string
  cl_certFile :: string
  cl_idemixCredFile :: string
  cl_idemixCredsDir :: string
  cl_ipkFile :: string
  cl_caCertsDir :: string
  cl_csp :: bool
  cl_TLS :: ClientTLSConfig
  cl_CSP :: "FactoryOpts option"

record ('k, 'n) world =
  w_files :: "string \<rightharpoonup> string"
  w_dirs :: "string list"
  w_keys :: 'k
  w_client :: Client_state
  w_net :: 'n

type_synonym ('k, 'n, 'a) cop = "(('k, 'n) world, go_error, 'a) em"

record url_ext = URL +
  u_Opaque :: string

record ('k, 'n) cenv =
  ce_Args :: "string list"
  ce_wd :: "string option"
  ce_MkdirAll :: "string \<Rightarrow> bool"
  ce_WriteFile :: "string \<Rightarrow> bool"
  ce_Hostname :: string
  ce_parse :: pem_parser
  ce_ParseCertificatePEM :: pem_parser
  ce_PEMtoPrivateKey :: "string \<Rightarrow> private_key option"
  ce_PrivateKeyToDER :: "nat \<Rightarrow> string option"
  ce_provider :: "'k provider"
  ce_default :: "'k provider"
  ce_factory :: bccsp_factory
  ce_now :: int
  ce_pemDecode :: "string \<Rightarrow> ((string \<times> string) \<times> string) option"
  ce_ParseCertificate :: "string \<Rightarrow> X509 option"
  ce_AppendCertsFromPEM :: "string \<Rightarrow> bool"
  ce_LoadX509KeyPair :: "string \<Rightarrow> string \<Rightarrow> bool"
  ce_csrGenerate :: "nat \<Rightarrow> CertificateRequest \<Rightarrow> string option"
  ce_idemix :: idemix_client
  ce_Marshal :: "wire \<Rightarrow> string option"
  ce_Unmarshal :: "string \<Rightarrow> cfssl_Response option"
  ce_results :: result_decoders
  ce_tokens :: "string \<Rightarrow> decoder"
  ce_message :: "(decoder, go_error, string) em"
  ce_urlParse :: "string \<Rightarrow> url_ext option"
  ce_urlString :: "url_ext \<Rightarrow> string"
  ce_NewRequest :: "string \<Rightarrow> string \<Rightarrow> bool"
  ce_Do :: "http_request \<Rightarrow> 'n \<Rightarrow> http_response option \<times> 'n"

section \<open>Files\<close>

definition ReadFile :: "string \<Rightarrow> ('k, 'n, string) cop" where
  "ReadFile file =
     bindE (getE (\<lambda>w. w_files w file)) (\<lambda>c.
     case c of None \<Rightarrow> throwE (PlainErr ''no such file or directory'') | Some buf \<Rightarrow> returnE buf)"

definition os_MkdirAll :: "('k, 'n) cenv \<Rightarrow> string \<Rightarrow> ('k, 'n, unit) cop" where
  "os_MkdirAll E dir =
     (if ce_MkdirAll E dir then modifyE (\<lambda>w. w\<lparr>w_dirs := dir # w_dirs w\<rparr>) else throwE (PlainErr ''mkdir''))"

definition WriteFile :: "('k, 'n) cenv \<Rightarrow> string \<Rightarrow> string \<Rightarrow> ('k, 'n, unit) cop" where
  "WriteFile E file buf =
     (let dir = path_Dir file in
      bindE (getE (\<lambda>w. dir \<in> set (w_dirs w))) (\<lambda>present.
      seqE (if present then returnE () else mapErrE WithCause (os_MkdirAll E dir))
      (if ce_WriteFile E file then modifyE (\<lambda>w. w\<lparr>w_files := (w_files w)(file \<mapsto> buf)\<rparr>)
       else throwE (PlainErr ''write''))))"

definition FileExists :: "string \<Rightarrow> ('k, 'n, bool) cop" where
  "FileExists name = getE (\<lambda>w. w_files w name \<noteq> None \<or> name \<in> set (w_dirs w))"

section \<open>Keys of the provider\<close>

text \<open>An operation on the keys.\<close>

definition keysOf :: "('k \<Rightarrow> 'a option \<times> 'k) \<Rightarrow> ('k, 'n, 'a option) cop" where
  "keysOf f w = (case f (w_keys w) of (r, k) \<Rightarrow> (Inr r, w\<lparr>w_keys := k\<rparr>))"

definition getBCCSPKeyOpts :: "(string \<times> int) option \<Rightarrow> bool \<Rightarrow> KeyGenOpts result" where
  "getBCCSPKeyOpts kr ephemeral =
     (case kr of
        None \<Rightarrow> Inr (ECDSAKeyGenOpts ephemeral)
      | Some (algo, sz) \<Rightarrow>
          if algo = ''rsa'' then
            (if sz = 2048 then Inr (RSA2048KeyGenOpts ephemeral)
             else if sz = 3072 then Inr (RSA3072KeyGenOpts ephemeral)
             else if sz = 4096 then Inr (RSA4096KeyGenOpts ephemeral)
             else Inl (PlainErr ''Invalid RSA key size''))
          else if algo = ''ecdsa'' then
            (if sz = 256 then Inr (ECDSAP256KeyGenOpts ephemeral)
             else if sz = 384 then Inr (ECDSAP384KeyGenOpts ephemeral)
             else if sz = 521 then Inl (PlainErr ''Unsupported ECDSA key size: 521'')
             else Inl (PlainErr ''Invalid ECDSA key size''))
          else Inl (PlainErr ''Invalid algorithm''))"

text \<open>The signer of a key is represented by the key.  The provider is not nil: the callers pass the one the client was
  initialised with, or the default one.\<close>

definition GetSignerFromCert :: "X509 \<Rightarrow> 'k provider \<Rightarrow> ('k, 'n, nat) cop" where
  "GetSignerFromCert cert p =
     (case csp_KeyImport (pv_csp p) cert of
        None \<Rightarrow> throwE (WithCause (PlainErr ''Failed to import certificate's public key''))
      | Some certPubK \<Rightarrow>
          bindE (getE (\<lambda>w. pv_GetKey p (w_keys w) (pv_SKI p certPubK))) (\<lambda>k.
          case k of
            None \<Rightarrow> throwE (WithCause (PlainErr ''Could not find matching private key for SKI''))
          | Some (privateKey, private) \<Rightarrow>
              if \<not> private then throwE (PlainErr ''The private key associated with the certificate was not found'')
              else if \<not> pv_newSigner p privateKey then throwE (WithCause (PlainErr ''Failed to load ski from bccsp''))
              else returnE privateKey))"

definition GetSignerFromCertFile ::
  "('k, 'n) cenv \<Rightarrow> string \<Rightarrow> 'k provider \<Rightarrow> ('k, 'n, nat \<times> X509) cop" where
  "GetSignerFromCertFile E certFile p =
     bindE (mapErrE WithCause (ReadFile certFile)) (\<lambda>certBytes.
     case ce_ParseCertificatePEM E certBytes of
       None \<Rightarrow> throwE (PlainErr ''Failed to parse certificate'')
     | Some parsedCa \<Rightarrow>
         bindE (GetSignerFromCert parsedCa p) (\<lambda>key. returnE (key, parsedCa)))"

definition ImportBCCSPKeyFromPEM ::
  "('k, 'n) cenv \<Rightarrow> string \<Rightarrow> 'k provider \<Rightarrow> bool \<Rightarrow> ('k, 'n, nat) cop" where
  "ImportBCCSPKeyFromPEM E keyFile p temporary =
     bindE (ReadFile keyFile) (\<lambda>keyBuff.
     case ce_PEMtoPrivateKey E keyBuff of
       None \<Rightarrow> throwE (WithCause (PlainErr ''Failed parsing private key''))
     | Some (EcdsaPrivate k) \<Rightarrow>
         (case ce_PrivateKeyToDER E k of
            None \<Rightarrow> throwE (WithCause (PlainErr ''Failed to convert ECDSA private key''))
          | Some priv \<Rightarrow>
              bindE (keysOf (pv_ImportPrivate p priv temporary)) (\<lambda>sk.
              case sk of
                None \<Rightarrow> throwE (WithCause (PlainErr ''Failed to import ECDSA private key''))
              | Some key \<Rightarrow> returnE key))
     | Some (RsaPrivate k) \<Rightarrow> throwE (PlainErr ''RSA private key import is not supported'')
     | Some (OtherPrivate k) \<Rightarrow> throwE (PlainErr ''invalid secret key type''))"

definition BCCSPKeyRequestGenerate :: "CertificateRequest \<Rightarrow> 'k provider \<Rightarrow> ('k, 'n, nat) cop" where
  "BCCSPKeyRequestGenerate req p =
     bindE (liftE (getBCCSPKeyOpts (cq_KeyRequest req) False)) (\<lambda>keyOpts.
     bindE (keysOf (pv_KeyGen p keyOpts)) (\<lambda>k.
     case k of
       None \<Rightarrow> throwE (PlainErr ''key generation failed'')
     | Some key \<Rightarrow>
         if \<not> pv_newSigner p key then throwE (WithCause (PlainErr ''Failed initializing CryptoSigner''))
         else returnE key))"

text \<open>The key found for a certificate file, in the key store or else in the key file, when a credential is loaded.  The first failure is a value that is looked at, a panic is not.\<close>

definition findKey :: "('k, 'n) cenv \<Rightarrow> string \<Rightarrow> string \<Rightarrow> 'k provider \<Rightarrow> bool \<Rightarrow> ('k, 'n, nat) cop" where
  "findKey E certFile keyFile p temporary =
     bindE (attemptE (GetSignerFromCertFile E certFile p)) (\<lambda>r.
     case r of
       Inr (key, _) \<Rightarrow> returnE key
     | Inl _ \<Rightarrow> mapErrE WithCause (ImportBCCSPKeyFromPEM E keyFile p temporary))"

section \<open>What these operations change\<close>

lemma ReadFile_run: "ReadFile file w = (case w_files w file of None \<Rightarrow> (Inl (PlainErr ''no such file or directory''), w) | Some b \<Rightarrow> (Inr b, w))"
  by (simp add: ReadFile_def bindE_def getE_def throwE_def returnE_def split: option.splits)

lemma GetSignerFromCert_same: "GetSignerFromCert cert p w = (r, v) \<Longrightarrow> v = w"
  by (auto simp: GetSignerFromCert_def bindE_def getE_def throwE_def returnE_def split: option.splits if_splits prod.splits)

lemma GetSignerFromCertFile_same: "GetSignerFromCertFile E f p w = (r, v) \<Longrightarrow> v = w"
  by (auto simp: GetSignerFromCertFile_def bindE_def mapErrE_def ReadFile_run throwE_def returnE_def
      split: option.splits sum.splits prod.splits dest: GetSignerFromCert_same)

text \<open>After a file was written it is there, with these contents, and no other file has changed.\<close>

lemma WriteFile_Inr:
  "WriteFile E file buf w = (Inr u, v) \<Longrightarrow>
     w_files v = (w_files w)(file \<mapsto> buf) \<and> w_keys v = w_keys w \<and> w_client v = w_client w \<and> w_net v = w_net w"
  by (auto simp: WriteFile_def os_MkdirAll_def em_simps Let_def split: if_splits)

end
