(* ===== verification/Client_Credential.thy ===== *)
theory Client_Credential
  imports Client_World
begin

text \<open>
  The credentials of an identity: X.509 (\<open>lib/client/credential/x509\<close>) and Idemix
  (\<open>lib/client/credential/idemix\<close>), with loading, storing and making tokens.
\<close>

section \<open>The signer\<close>

record Signer =
  sg_key :: nat
  sg_certBytes :: string
  sg_cert :: X509
  sg_name :: string

definition NewSigner :: "('k, 'n) cenv \<Rightarrow> nat \<Rightarrow> string \<Rightarrow> Signer result" where
  "NewSigner E key cert =
     bindR (mapErrR WithCause (GetX509CertificateFromPEM (ce_parse E) cert)) (\<lambda>c.
     Inr \<lparr>sg_key = key, sg_certBytes = cert, sg_cert = c, sg_name = GetEnrollmentIDFromX509Certificate c\<rparr>)"

section \<open>Credentials\<close>

record X509Credential =
  xc_certFile :: string
  xc_keyFile :: string
  xc_val :: "Signer option"

record IdemixCredential =
  ic_signerConfigFile :: string
  ic_val :: "SignerConfig option"

text \<open>The interface \<open>Credential\<close> of \<open>lib/client/credential/credential.go\<close>.\<close>

datatype Credential = X509Cred X509Credential | IdemixCred IdemixCredential

definition NewX509Credential :: "string \<Rightarrow> string \<Rightarrow> X509Credential" where
  "NewX509Credential certFile keyFile = \<lparr>xc_certFile = certFile, xc_keyFile = keyFile, xc_val = None\<rparr>"

definition NewIdemixCredential :: "string \<Rightarrow> IdemixCredential" where
  "NewIdemixCredential signerConfigFile = \<lparr>ic_signerConfigFile = signerConfigFile, ic_val = None\<rparr>"

fun cred_Type :: "Credential \<Rightarrow> string" where
  "cred_Type (X509Cred _) = ''X509''"
| "cred_Type (IdemixCred _) = ''Idemix''"

definition x509_EnrollmentID :: "X509Credential \<Rightarrow> string result" where
  "x509_EnrollmentID cred =
     (case xc_val cred of
        None \<Rightarrow> Inl (PlainErr ''X509 Credential value is not set'')
      | Some s \<Rightarrow> Inr (sg_name s))"

definition idemix_EnrollmentID :: "IdemixCredential \<Rightarrow> string result" where
  "idemix_EnrollmentID cred =
     (case ic_val cred of
        None \<Rightarrow> Inl (PlainErr ''Idemix credential value is not set'')
      | Some v \<Rightarrow> Inr (sc_EnrollmentID v))"

fun cred_EnrollmentID :: "Credential \<Rightarrow> string result" where
  "cred_EnrollmentID (X509Cred c) = x509_EnrollmentID c"
| "cred_EnrollmentID (IdemixCred c) = idemix_EnrollmentID c"

definition getCSP :: "('k, 'n) cenv \<Rightarrow> ('k, 'n, 'k provider) cop" where
  "getCSP E = getE (\<lambda>w. if cl_csp (w_client w) then ce_provider E else ce_default E)"

definition x509_Load :: "('k, 'n) cenv \<Rightarrow> X509Credential \<Rightarrow> ('k, 'n, X509Credential) cop" where
  "x509_Load E cred =
     bindE (ReadFile (xc_certFile cred)) (\<lambda>cert.
     bindE (getCSP E) (\<lambda>csp.
     bindE (findKey E (xc_certFile cred) (xc_keyFile cred) csp True) (\<lambda>key.
     bindE (liftE (NewSigner E key cert)) (\<lambda>s.
     returnE (cred\<lparr>xc_val := Some s\<rparr>)))))"

text \<open>The certificate is stored; the private key stays in the key store of the provider.\<close>

definition x509_Store :: "('k, 'n) cenv \<Rightarrow> X509Credential \<Rightarrow> ('k, 'n, unit) cop" where
  "x509_Store E cred =
     (case xc_val cred of
        None \<Rightarrow> throwE (PlainErr ''X509 Credential value is not set'')
      | Some s \<Rightarrow> mapErrE WithCause (WriteFile E (xc_certFile cred) (sg_certBytes s)))"

definition x509_CreateToken :: "('k, 'n) cenv \<Rightarrow> X509Credential \<Rightarrow> string \<Rightarrow> ('k, 'n, string) cop" where
  "x509_CreateToken E cred reqBody =
     bindE (getCSP E) (\<lambda>csp.
     case xc_val cred of
       None \<Rightarrow> throwE (GoPanic ''nil pointer dereference'')
     | Some s \<Rightarrow> liftE (CreateToken (ce_parse E) (pv_csp csp) (sg_certBytes s) (sg_key s) reqBody))"

text \<open>The request that revokes the credential's own certificate.\<close>

definition x509_revocation :: "X509Credential \<Rightarrow> RevocationRequest result" where
  "x509_revocation cred =
     (case xc_val cred of
        None \<Rightarrow> Inl (PlainErr ''X509 Credential value is not set'')
      | Some s \<Rightarrow>
          Inr \<lparr>rv_Name = [], rv_Serial = GetSerialAsHex (x_SerialNumber (sg_cert s)),
               rv_AKI = hex_EncodeToString (x_AuthorityKeyId (sg_cert s)),
               rv_Reason = [], rv_GenCRL = False\<rparr>)"

text \<open>The public key of the Idemix issuer: the bytes that are given, or those of the file.\<close>

definition getIssuerPubKey :: "('k, 'n) cenv \<Rightarrow> string \<Rightarrow> ('k, 'n, string) cop" where
  "getIssuerPubKey E ipkBytes =
     bindE (if ipkBytes = [] then
              bindE (getE (\<lambda>w. cl_ipkFile (w_client w))) (\<lambda>file. mapErrE WithCause (ReadFile file))
            else returnE ipkBytes) (\<lambda>ipk.
     if ic_IssuerPublicKey (ce_idemix E) ipk then returnE ipk else throwE (PlainErr ''proto: cannot parse''))"

definition idemix_Store :: "('k, 'n) cenv \<Rightarrow> IdemixCredential \<Rightarrow> ('k, 'n, unit) cop" where
  "idemix_Store E cred =
     (case ic_val cred of
        None \<Rightarrow> throwE (PlainErr ''Idemix credential value is not set'')
      | Some v \<Rightarrow>
          (case ic_Marshal (ce_idemix E) v of
             None \<Rightarrow> throwE (WithCause (PlainErr ''Failed to marshal SignerConfig''))
           | Some bytes \<Rightarrow> mapErrE WithCause (WriteFile E (ic_signerConfigFile cred) bytes)))"

definition idemix_Load :: "('k, 'n) cenv \<Rightarrow> IdemixCredential \<Rightarrow> ('k, 'n, IdemixCredential) cop" where
  "idemix_Load E cred =
     bindE (ReadFile (ic_signerConfigFile cred)) (\<lambda>bytes.
     case ic_Unmarshal (ce_idemix E) bytes of
       None \<Rightarrow> throwE (WithCause (PlainErr ''Failed to unmarshal SignerConfig bytes''))
     | Some v \<Rightarrow> returnE (cred\<lparr>ic_val := Some v\<rparr>))"

text \<open>The hash is asked of the client's own provider, which is nil before the client is initialised.\<close>

definition idemix_CreateToken :: "('k, 'n) cenv \<Rightarrow> IdemixCredential \<Rightarrow> string \<Rightarrow> ('k, 'n, string) cop" where
  "idemix_CreateToken E cred reqBody =
     bindE (liftE (idemix_EnrollmentID cred)) (\<lambda>enrollmentID.
     if \<not> ic_GetRand (ce_idemix E)
     then throwE (WithCause (PlainErr ''Failed to get a random number while creating token''))
     else
       (case ic_val cred of
          None \<Rightarrow> throwE (GoPanic ''nil pointer dereference'')
        | Some v \<Rightarrow>
            bindE (mapErrE WithCause (getIssuerPubKey E [])) (\<lambda>ipk.
            bindE (getE (\<lambda>w. cl_csp (w_client w))) (\<lambda>cspSet.
            seqE (unlessE cspSet (GoPanic ''nil pointer dereference''))
            (case csp_Hash (pv_csp (ce_provider E)) (B64Encode reqBody) of
               None \<Rightarrow> throwE (WithCause (PlainErr ''Failed to create token''))
             | Some digest \<Rightarrow>
                 if \<not> ic_Credential (ce_idemix E) (sc_Cred v)
                 then throwE (WithCause (PlainErr ''Failed to unmarshal Idemix credential while creating token''))
                 else if \<not> ic_CRI (ce_idemix E) (sc_CRI v)
                 then throwE (WithCause (PlainErr ''Failed to unmarshal Idemix CRI while creating token''))
                 else
                   (case ic_NewSignature (ce_idemix E) (sc_Sk v) ipk (sc_Cred v) (sc_CRI v) digest of
                      None \<Rightarrow> throwE (WithCause (PlainErr ''Failed to create signature while creating token''))
                    | Some sigBytes \<Rightarrow>
                        returnE (''idemix.'' @ ''1'' @ ''.'' @ enrollmentID @ ''.'' @ B64Encode sigBytes)))))))"

fun cred_Store :: "('k, 'n) cenv \<Rightarrow> Credential \<Rightarrow> ('k, 'n, unit) cop" where
  "cred_Store E (X509Cred c) = x509_Store E c"
| "cred_Store E (IdemixCred c) = idemix_Store E c"

fun cred_CreateToken :: "('k, 'n) cenv \<Rightarrow> Credential \<Rightarrow> string \<Rightarrow> ('k, 'n, string) cop" where
  "cred_CreateToken E (X509Cred c) = x509_CreateToken E c"
| "cred_CreateToken E (IdemixCred c) = idemix_CreateToken E c"

section \<open>Storing and loading\<close>

lemma findKey_store:
  assumes "GetSignerFromCertFile E certFile p w = (Inr (key, c), w)"
  shows "findKey E certFile keyFile p t w = (Inr key, w)"
  using assms by (simp add: findKey_def bindE_def attemptE_def returnE_def)

lemma GetSignerFromCertFile_found:
  assumes "w_files w f = Some pem" and "ce_ParseCertificatePEM E pem = Some c"
    and "csp_KeyImport (pv_csp p) c = Some pk" and "pv_GetKey p (w_keys w) (pv_SKI p pk) = Some (key, True)"
    and "pv_newSigner p key"
  shows "GetSignerFromCertFile E f p w = (Inr (key, c), w)"
  using assms
  by (simp add: GetSignerFromCertFile_def GetSignerFromCert_def bindE_def mapErrE_def ReadFile_run getE_def returnE_def)

text \<open>An X.509 credential that was stored is loaded again unchanged, from the certificate file and the provider's key
  store, as long as the provider finds the private key by the identifier of the certificate's public key.\<close>

lemma x509_Store_Load:
  assumes store: "x509_Store E cred w = (Inr u, v)"
    and signer: "NewSigner E key pem = Inr s" "xc_val cred = Some s"
    and parse: "ce_ParseCertificatePEM E pem = Some (sg_cert s)"
    and csp: "p = (if cl_csp (w_client w) then ce_provider E else ce_default E)"
    and pub: "csp_KeyImport (pv_csp p) (sg_cert s) = Some pk"
    and found: "pv_GetKey p (w_keys w) (pv_SKI p pk) = Some (key, True)" "pv_newSigner p key"
  shows "x509_Load E (NewX509Credential (xc_certFile cred) (xc_keyFile cred)) v = (Inr cred, v) \<and>
    w_files v = (w_files w)(xc_certFile cred \<mapsto> pem) \<and> w_keys v = w_keys w \<and> w_client v = w_client w"
proof -
  have pem: "sg_certBytes s = pem" using signer(1) by (auto simp: NewSigner_def)
  have v: "w_files v = (w_files w)(xc_certFile cred \<mapsto> pem)" "w_keys v = w_keys w" "w_client v = w_client w"
    using store signer(2) WriteFile_Inr [of E "xc_certFile cred" pem w u v]
    by (auto simp: x509_Store_def mapErrE_Inr pem)
  have "GetSignerFromCertFile E (xc_certFile cred) p v = (Inr (key, sg_cert s), v)"
    by (rule GetSignerFromCertFile_found [OF _ parse pub _ found(2)]) (use v found in simp_all)
  then have "findKey E (xc_certFile cred) (xc_keyFile cred) p True v = (Inr key, v)"
    by (rule findKey_store)
  then show ?thesis
    using v signer csp
    by (simp add: x509_Load_def NewX509Credential_def bindE_def ReadFile_run getCSP_def getE_def liftE_def returnE_def)
qed

text \<open>The Idemix credential: its round trip is that of the JSON of the signer configuration.\<close>

lemma idemix_Store_Load:
  assumes "idemix_Store E cred w = (Inr u, v)" and "ic_val cred = Some sc"
    and "\<And>b. ic_Marshal (ce_idemix E) sc = Some b \<Longrightarrow> ic_Unmarshal (ce_idemix E) b = Some sc"
  shows "idemix_Load E (NewIdemixCredential (ic_signerConfigFile cred)) v = (Inr cred, v)"
proof -
  obtain b where b: "ic_Marshal (ce_idemix E) sc = Some b" "WriteFile E (ic_signerConfigFile cred) b w = (Inr u, v)"
    using assms(1,2) by (auto simp: idemix_Store_def mapErrE_Inr split: option.splits)
  then show ?thesis
    using assms(2,3) WriteFile_Inr [OF b(2)]
    by (simp add: idemix_Load_def NewIdemixCredential_def bindE_def ReadFile_run returnE_def)
qed

text \<open>The contract of a credential that can be kept on disk: what was stored is loaded again, unchanged, when the condition
  \<open>kept\<close> holds of the credential and the world.\<close>

locale disk_credential =
  fixes store :: "'c \<Rightarrow> ('k, 'n, unit) cop" and load :: "'c \<Rightarrow> ('k, 'n, 'c) cop" and fresh :: "'c \<Rightarrow> 'c"
    and kept :: "'c \<Rightarrow> ('k, 'n) world \<Rightarrow> bool"
  assumes load_stored: "kept c w \<Longrightarrow> store c w = (Inr (), v) \<Longrightarrow> load (fresh c) v = (Inr c, v)"
    and store_files: "store c w = (Inr (), v) \<Longrightarrow> w_keys v = w_keys w \<and> w_client v = w_client w \<and> w_net v = w_net w"
begin

lemma attempt_load:
  assumes "kept c w" and "store c w = (Inr (), v)"
  shows "attemptE (load (fresh c)) v = (Inr (Inr c), v)"
  using load_stored [OF assms] by (simp add: attemptE_def)

lemma store_again:
  assumes "kept c w" and "store c w = (Inr (), v)" and "kept c v" and "store c v = (Inr (), x)"
  shows "load (fresh c) x = (Inr c, x) \<and> w_keys x = w_keys w"
  using load_stored [OF assms(3,4)] store_files [OF assms(2)] store_files [OF assms(4)] by simp

end

definition x509_kept :: "('k, 'n) cenv \<Rightarrow> X509Credential \<Rightarrow> ('k, 'n) world \<Rightarrow> bool" where
  "x509_kept E cred w \<longleftrightarrow>
     (let p = (if cl_csp (w_client w) then ce_provider E else ce_default E) in
      \<exists>s key pem pk. xc_val cred = Some s \<and> NewSigner E key pem = Inr s \<and> ce_ParseCertificatePEM E pem = Some (sg_cert s) \<and>
        csp_KeyImport (pv_csp p) (sg_cert s) = Some pk \<and> pv_GetKey p (w_keys w) (pv_SKI p pk) = Some (key, True) \<and>
        pv_newSigner p key)"

definition idemix_kept :: "('k, 'n) cenv \<Rightarrow> IdemixCredential \<Rightarrow> ('k, 'n) world \<Rightarrow> bool" where
  "idemix_kept E cred w \<longleftrightarrow>
     (\<exists>sc. ic_val cred = Some sc \<and> (\<forall>b. ic_Marshal (ce_idemix E) sc = Some b \<longrightarrow> ic_Unmarshal (ce_idemix E) b = Some sc))"

interpretation x509_disk: disk_credential "x509_Store E" "x509_Load E"
  "\<lambda>c. NewX509Credential (xc_certFile c) (xc_keyFile c)" "x509_kept E"
  for E :: "('k, 'n) cenv"
proof
  show "x509_kept E c w \<Longrightarrow> x509_Store E c w = (Inr (), v) \<Longrightarrow>
      x509_Load E (NewX509Credential (xc_certFile c) (xc_keyFile c)) v = (Inr c, v)" for c w v
    unfolding x509_kept_def Let_def using x509_Store_Load by blast
  show "x509_Store E c w = (Inr (), v) \<Longrightarrow> w_keys v = w_keys w \<and> w_client v = w_client w \<and> w_net v = w_net w" for c w v
    by (auto simp: x509_Store_def mapErrE_Inr dest: WriteFile_Inr split: option.splits)
qed

interpretation idemix_disk: disk_credential "idemix_Store E" "idemix_Load E"
  "\<lambda>c. NewIdemixCredential (ic_signerConfigFile c)" "idemix_kept E"
  for E :: "('k, 'n) cenv"
proof
  show "idemix_kept E c w \<Longrightarrow> idemix_Store E c w = (Inr (), v) \<Longrightarrow>
      idemix_Load E (NewIdemixCredential (ic_signerConfigFile c)) v = (Inr c, v)" for c w v
    unfolding idemix_kept_def using idemix_Store_Load by blast
  show "idemix_Store E c w = (Inr (), v) \<Longrightarrow> w_keys v = w_keys w \<and> w_client v = w_client w \<and> w_net v = w_net w" for c w v
    by (auto simp: idemix_Store_def mapErrE_Inr dest: WriteFile_Inr split: option.splits)
qed

text \<open>An Idemix token is recognised by the server only when the enrollment identifier has no dot.\<close>

lemma idemix_token_dots:
  assumes "idemix_CreateToken E cred body w = (Inr token, v)" and "ic_val cred = Some sc"
  shows "IsToken token \<longleftrightarrow> CHR ''.'' \<notin> set (sc_EnrollmentID sc)"
proof -
  obtain sig where t: "token = ''idemix'' @ CHR ''.'' # ''1'' @ CHR ''.'' # sc_EnrollmentID sc @ CHR ''.'' # B64Encode sig"
    using assms by (auto simp: idemix_CreateToken_def idemix_EnrollmentID_def em_simps unlessE_Inr split: if_splits option.splits)
  have "strings_Split token CHR ''.'' =
      [''idemix'', ''1''] @ strings_Split (sc_EnrollmentID sc) CHR ''.'' @ [B64Encode sig]"
    unfolding t
    by (subst strings_Split_append, simp, subst strings_Split_append, simp, subst strings_Split_append_sep)
      (simp add: strings_Split_single)
  moreover have "length (strings_Split xs CHR ''.'') = 1 \<longleftrightarrow> CHR ''.'' \<notin> set xs" for xs
  proof
    assume "length (strings_Split xs CHR ''.'') = 1"
    then obtain ys where ys: "strings_Split xs CHR ''.'' = [ys]" by (metis One_nat_def length_0_conv length_Suc_conv)
    then have "xs = ys" using strings_Join_Split [of xs "CHR ''.''"] by simp
    then show "CHR ''.'' \<notin> set xs" using strings_Split_no_sep [of ys xs "CHR ''.''"] ys by simp
  qed (simp add: strings_Split_single)
  ultimately show ?thesis
    by (simp add: IsToken_def getTokenParts_def Let_def)
qed

end
