(* ===== verification/Client_Tls.thy ===== *)
theory Client_Tls
  imports Client_World
begin

text \<open>
  The TLS configuration of a client: \<open>GetClientTLSConfig\<close> of \<open>lib/tls/tls.go\<close> with the check of the dates, and
  \<open>LoadX509KeyPair\<close> of \<open>util/csp.go\<close>.

  \<open>ce_pemDecode\<close> is Go's \<open>pem.Decode\<close>: the first block of a text, its type and contents, and the rest of
  the text.  The loop over the blocks has one unit of fuel per character and one more, which is enough since a block is
  never empty (lemma \<open>pemBlocks_enough\<close>).
\<close>

section \<open>Operations\<close>

text \<open>The contents of the certificates, and the types of the other blocks.\<close>

fun pemBlocks :: "(string \<Rightarrow> ((string \<times> string) \<times> string) option) \<Rightarrow> nat \<Rightarrow> string \<Rightarrow> (string list \<times> string list) option" where
  "pemBlocks dec 0 pem = None"
| "pemBlocks dec (Suc n) pem =
     (case dec pem of
        None \<Rightarrow> Some ([], [])
      | Some ((kind, bytes), rest) \<Rightarrow>
          map_option (\<lambda>(certs, skipped). if kind = ''CERTIFICATE'' then (bytes # certs, skipped) else (certs, kind # skipped))
            (pemBlocks dec n rest))"

text \<open>A TLS certificate, with its key in the provider or in a file.\<close>

datatype tls_Certificate = ProviderCert "string list" nat | FileCert string string

definition LoadX509KeyPair ::
  "('k, 'n) cenv \<Rightarrow> string \<Rightarrow> string \<Rightarrow> 'k provider \<Rightarrow> ('k, 'n, tls_Certificate) cop" where
  "LoadX509KeyPair E certFile keyFile p =
     bindE (ReadFile certFile) (\<lambda>certPEMBlock.
     case pemBlocks (ce_pemDecode E) (Suc (length certPEMBlock)) certPEMBlock of
       None \<Rightarrow> throwE (GoPanic ''no end of PEM blocks'')
     | Some ([], skipped) \<Rightarrow>
         throwE (PlainErr (case skipped of
           [] \<Rightarrow> ''Failed to find PEM block in file''
         | [kind] \<Rightarrow> if strings_HasSuffix kind ''PRIVATE KEY'' then ''did find a private key; PEM inputs may have been switched''
                   else ''Failed to find CERTIFICATE PEM block''
         | _ \<Rightarrow> ''Failed to find CERTIFICATE PEM block''))
     | Some (cert # certs, _) \<Rightarrow>
         (case ce_ParseCertificate E cert of
            None \<Rightarrow> throwE (PlainErr ''x509'')
          | Some x509Cert \<Rightarrow>
              bindE (attemptE (GetSignerFromCert x509Cert p)) (\<lambda>r.
              case r of
                Inr key \<Rightarrow> returnE (ProviderCert (cert # certs) key)
              | Inl err \<Rightarrow>
                  if keyFile \<noteq> [] then
                    bindE (mapErrE WithCause (ReadFile keyFile)) (\<lambda>keyPEM.
                    if ce_LoadX509KeyPair E certPEMBlock keyPEM then returnE (FileCert certPEMBlock keyPEM)
                    else throwE (WithCause (PlainErr ''Could not get the private key'')))
                  else throwE (WithCause err))))"

definition checkCertDates :: "('k, 'n) cenv \<Rightarrow> string \<Rightarrow> ('k, 'n, unit) cop" where
  "checkCertDates E certFile =
     bindE (mapErrE WithCause (ReadFile certFile)) (\<lambda>certPEM.
     bindE (liftE (GetX509CertificateFromPEM (ce_parse E) certPEM)) (\<lambda>cert.
     seqE (unlessE (\<not> x_NotAfter cert < ce_now E) (PlainErr ''Certificate provided has expired''))
     (unlessE (\<not> ce_now E < x_NotBefore cert) (PlainErr ''Certificate provided not valid until later date''))))"

fun rootPool :: "('k, 'n) cenv \<Rightarrow> string list \<Rightarrow> ('k, 'n, string list) cop" where
  "rootPool E [] = returnE []"
| "rootPool E (cacert # files) =
     bindE (mapErrE WithCause (ReadFile cacert)) (\<lambda>caCert.
     if \<not> ce_AppendCertsFromPEM E caCert then throwE (PlainErr ''Failed to process certificate from file'')
     else bindE (rootPool E files) (\<lambda>pool. returnE (caCert # pool)))"

record tls_Config =
  tc_Certificates :: "tls_Certificate list"
  tc_RootCAs :: "string list"

definition GetClientTLSConfig :: "('k, 'n) cenv \<Rightarrow> ClientTLSConfig \<Rightarrow> 'k provider \<Rightarrow> ('k, 'n, tls_Config) cop" where
  "GetClientTLSConfig E cfg p =
     bindE (if tls_CertFile cfg \<noteq> []
            then seqE (checkCertDates E (tls_CertFile cfg))
                 (bindE (LoadX509KeyPair E (tls_CertFile cfg) (tls_KeyFile cfg) p) (\<lambda>clientCert. returnE [clientCert]))
            else returnE []) (\<lambda>certs.
     if tls_CertFiles cfg = [] then throwE (PlainErr ''No TLS certificate files were provided'')
     else bindE (rootPool E (tls_CertFiles cfg)) (\<lambda>rootCAPool.
          returnE \<lparr>tc_Certificates = certs, tc_RootCAs = rootCAPool\<rparr>))"

section \<open>Reading blocks\<close>

lemma pemBlocks_enough:
  assumes "\<And>s b r. dec s = Some (b, r) \<Longrightarrow> length r < length s" and "length pem < n"
  shows "pemBlocks dec n pem \<noteq> None"
  using assms(2)
proof (induction n arbitrary: pem)
  case (Suc n)
  show ?case
  proof (cases "dec pem")
    case (Some b)
    then obtain kind bytes rest where b: "dec pem = Some ((kind, bytes), rest)" by (cases b) (metis prod.collapse)
    with assms(1) Suc.prems have "length rest < n" by force
    from Suc.IH [OF this] b show ?thesis by auto
  qed simp
qed simp

section \<open>What a configuration guarantees\<close>

lemma LoadX509KeyPair_same: "LoadX509KeyPair E c k p w = (r, v) \<Longrightarrow> v = w"
  by (auto simp: LoadX509KeyPair_def bindE_def mapErrE_def attemptE_def ReadFile_run throwE_def returnE_def
      split: option.splits sum.splits prod.splits list.splits if_splits dest: GetSignerFromCert_same)

lemma checkCertDates_Inr:
  "checkCertDates E f w = (Inr u, v) \<longleftrightarrow> v = w \<and>
     (\<exists>pem cert. w_files w f = Some pem \<and> ce_parse E pem = Some cert \<and>
        x_NotBefore cert \<le> ce_now E \<and> ce_now E \<le> x_NotAfter cert)"
proof (cases "w_files w f")
  case (Some pem)
  then show ?thesis
    by (cases "ce_parse E pem")
      (auto simp: checkCertDates_def bindE_Inr seqE_Inr mapErrE_Inr ReadFile_run GetX509CertificateFromPEM_def liftE_Inr unlessE_Inr not_less
        simp del: liftE_eq)
qed (auto simp: checkCertDates_def bindE_Inr mapErrE_Inr ReadFile_run)

lemma rootPool_Inr:
  "rootPool E files w = (Inr pool, v) \<longleftrightarrow> v = w \<and> map (w_files w) files = map Some pool \<and> (\<forall>pem \<in> set pool. ce_AppendCertsFromPEM E pem)"
proof (induction files arbitrary: pool v)
  case Nil
  then show ?case by (auto simp: returnE_def)
next
  case (Cons f fs)
  then show ?case
    by (cases pool; cases "w_files w f") (auto simp: bindE_Inr mapErrE_Inr ReadFile_run returnE_def throwE_def)
qed

lemma GetClientTLSConfig_same: "GetClientTLSConfig E cfg p w = (Inr c, v) \<Longrightarrow> v = w"
  by (auto simp: GetClientTLSConfig_def em_simps checkCertDates_Inr rootPool_Inr throwE_def returnE_def
      split: if_splits dest: LoadX509KeyPair_same)

text \<open>A configuration trusts exactly the files that are named, of which there is at least one, and presents a certificate
  exactly when one is named, which is then within its dates.\<close>

lemma GetClientTLSConfig_sound:
  assumes "GetClientTLSConfig E cfg p w = (Inr c, v)"
  shows "tc_RootCAs c \<noteq> [] \<and> map (w_files w) (tls_CertFiles cfg) = map Some (tc_RootCAs c) \<and>
    (\<forall>pem \<in> set (tc_RootCAs c). ce_AppendCertsFromPEM E pem) \<and>
    (if tls_CertFile cfg = [] then tc_Certificates c = []
     else \<exists>cert tc. ce_parse E (the (w_files w (tls_CertFile cfg))) = Some cert \<and> tc_Certificates c = [tc] \<and>
       x_NotBefore cert \<le> ce_now E \<and> ce_now E \<le> x_NotAfter cert)"
  using assms
  by (auto simp: GetClientTLSConfig_def em_simps checkCertDates_Inr rootPool_Inr throwE_def returnE_def
      split: if_splits dest: LoadX509KeyPair_same)

end
