(* ===== verification/Client_Library.thy ===== *)
theory Client_Library
  imports Client_Credential Client_Tls
begin

text \<open>
  The client object, \<open>lib/client.go\<close>: its initialisation, the requests it makes and how it reads
  the responses, enrollment, and the identity loaded from disk.  \<open>addQueryParm\<close> is that of \<open>lib/util.go\<close>.

  A request is made before it is sent: the operations that build one return it, and only \<open>SendReq\<close> and
  \<open>StreamResponse\<close> use the network.  The query of a request is the list of its parameters in the order
  of their addition; Go keeps them sorted by name.
\<close>

section \<open>Initialisation\<close>

abbreviation clientE :: "(Client_state \<Rightarrow> 'a) \<Rightarrow> ('k, 'n, 'a) cop" where
  "clientE f \<equiv> getE (\<lambda>w. f (w_client w))"

abbreviation setClient :: "(Client_state \<Rightarrow> Client_state) \<Rightarrow> ('k, 'n, unit) cop" where
  "setClient f \<equiv> modifyE (\<lambda>w. w\<lparr>w_client := f (w_client w)\<rparr>)"

definition initHTTPClient :: "('k, 'n) cenv \<Rightarrow> ('k, 'n, unit) cop" where
  "initHTTPClient E =
     bindE (clientE cl_TLS) (\<lambda>tls0.
     if \<not> tls_Enabled tls0 then returnE ()
     else
       bindE (clientE cl_HomeDir) (\<lambda>homeDir.
       seqE (zoomE (\<lambda>w. cl_TLS (w_client w)) (\<lambda>t w. w\<lparr>w_client := (w_client w)\<lparr>cl_TLS := t\<rparr>\<rparr>) (AbsTLSClient (ce_wd E) homeDir))
       (bindE (clientE cl_TLS) (\<lambda>tls.
        bindE (mapErrE (\<lambda>_. PlainErr ''Failed to get client TLS config'') (GetClientTLSConfig E tls (ce_provider E))) (\<lambda>_.
        returnE ())))))"

definition Init :: "('k, 'n) cenv \<Rightarrow> ('k, 'n, unit) cop" where
  "Init E =
     bindE (clientE cl_initialized) (\<lambda>done'.
     if done' then returnE ()
     else
       seqE (setClient (\<lambda>c. if cl_MSPDir c = [] then c\<lparr>cl_MSPDir := ''msp''\<rparr> else c))
       (bindE (clientE id) (\<lambda>c.
        bindE (liftE (MakeFileAbs (ce_wd E) (cl_MSPDir c) (cl_HomeDir c))) (\<lambda>mspDir.
        let keyDir = path_Join [mspDir, ''keystore'']; certDir = path_Join [mspDir, ''signcerts''];
            caDir = path_Join [mspDir, ''cacerts'']; userDir = path_Join [mspDir, ''user''] in
        seqE (setClient (\<lambda>c. c\<lparr>cl_MSPDir := mspDir\<rparr>))
        (seqE (mapErrE WithCause (os_MkdirAll E keyDir))
        (seqE (setClient (\<lambda>c. c\<lparr>cl_keyFile := path_Join [keyDir, ''key.pem'']\<rparr>))
        (seqE (mapErrE WithCause (os_MkdirAll E certDir))
        (seqE (setClient (\<lambda>c. c\<lparr>cl_certFile := path_Join [certDir, ''cert.pem''], cl_caCertsDir := caDir\<rparr>))
        (seqE (mapErrE WithCause (os_MkdirAll E caDir))
        (seqE (setClient (\<lambda>c. c\<lparr>cl_ipkFile := path_Join [mspDir, ''IssuerPublicKey''], cl_idemixCredsDir := userDir\<rparr>))
        (seqE (mapErrE WithCause (os_MkdirAll E userDir))
        (seqE (setClient (\<lambda>c. c\<lparr>cl_idemixCredFile := path_Join [userDir, ''SignerConfig'']\<rparr>))
        (seqE (zoomE (\<lambda>w. cl_CSP (w_client w)) (\<lambda>t w. w\<lparr>w_client := (w_client w)\<lparr>cl_CSP := t\<rparr>\<rparr>)
                (InitBCCSP (ce_factory E) (ce_wd E) mspDir (cl_HomeDir c)))
        (seqE (setClient (\<lambda>c. c\<lparr>cl_csp := True\<rparr>))
        (seqE (initHTTPClient E)
        (setClient (\<lambda>c. c\<lparr>cl_initialized := True\<rparr>)))))))))))))))))"

section \<open>Building requests\<close>

definition JoinHostPort :: "string \<Rightarrow> string \<Rightarrow> string" where
  "JoinHostPort host port =
     (if CHR '':'' \<in> set host \<or> CHR ''%'' \<in> set host then ''['' @ host @ '']:'' @ port else host @ '':'' @ port)"

text \<open>The arguments of the command line, \<open>util/args.go\<close>.\<close>

fun GetCommandLineOptValue :: "string \<Rightarrow> bool \<Rightarrow> string list \<Rightarrow> string \<times> string list" where
  "GetCommandLineOptValue optName remove (a # v # as) =
     (if a = optName then (v, if remove then as else a # v # as)
      else (case GetCommandLineOptValue optName remove (v # as) of (r, as') \<Rightarrow> (r, a # as')))"
| "GetCommandLineOptValue optName remove as = ([], as)"

definition GetServerProtocol :: "string list \<Rightarrow> string" where
  "GetServerProtocol args =
     (let protocol = fst (GetCommandLineOptValue ''-protocol'' False args) in if protocol \<noteq> [] then protocol else ''http'')"

definition GetServerAddr :: "string list \<Rightarrow> string" where
  "GetServerAddr args =
     (let addr = fst (GetCommandLineOptValue ''-address'' False args) in if addr \<noteq> [] then addr else ''localhost'')"

definition GetServerPort :: "string list \<Rightarrow> string" where
  "GetServerPort args =
     (let port = fst (GetCommandLineOptValue ''-port'' False args) in if port \<noteq> [] then port else ''7054'')"

definition GetServerURL :: "string list \<Rightarrow> string" where
  "GetServerURL args = GetServerProtocol args @ ''://'' @ GetServerAddr args @ '':'' @ GetServerPort args"

definition SetDefaultServerPort :: "string list \<Rightarrow> string list" where
  "SetDefaultServerPort args =
     (if 2 < length args \<and> fst (GetCommandLineOptValue ''-port'' False args) = [] then args @ [''-port'', ''7054''] else args)"

lemma opt_append_value:
  "a \<noteq> [] \<Longrightarrow> fst (GetCommandLineOptValue nm False args) = [] \<Longrightarrow> nm \<notin> set args \<Longrightarrow>
     fst (GetCommandLineOptValue nm False (args @ [nm, a])) = a"
proof (induction nm False args rule: GetCommandLineOptValue.induct)
  case (1 nm x v as)
  then show ?case by (auto split: prod.splits)
next
  case "2_2"
  then show ?case by auto
qed auto

definition NormalizeURL :: "('k, 'n) cenv \<Rightarrow> string \<Rightarrow> url_ext result" where
  "NormalizeURL E addr =
     (case ce_urlParse E (strings_TrimSpace addr) of
        None \<Rightarrow> Inl (PlainErr ''parse'')
      | Some u \<Rightarrow>
          let u1 = (if u_Opaque u \<noteq> [] then u\<lparr>u_Host := JoinHostPort (u_Scheme u) (u_Opaque u), u_Opaque := []\<rparr>
                    else if u_Path u \<noteq> [] \<and> CHR '':'' \<notin> set (u_Path u)
                    then u\<lparr>u_Host := JoinHostPort (u_Path u) (GetServerPort (ce_Args E)), u_Path := []\<rparr>
                    else if u_Scheme u = [] then u\<lparr>u_Host := u_Path u, u_Path := []\<rparr>
                    else u);
              u2 = (if u_Scheme u1 \<noteq> ''https'' then u1\<lparr>u_Scheme := ''http''\<rparr> else u1)
          in bindR (case SplitHostPort (u_Host u2) of
                      Some (_, port) \<Rightarrow> Inr port
                    | None \<Rightarrow>
                        (case SplitHostPort (u_Host u2 @ '':'' @ GetServerPort (ce_Args E)) of
                           None \<Rightarrow> Inl (PlainErr ''address'')
                         | Some (_, port) \<Rightarrow> Inr port)) (\<lambda>port.
             if port \<noteq> [] \<and> strconv_Atoi port = None then Inl (PlainErr ''strconv.Atoi'') else Inr u2))"

definition getURL :: "('k, 'n) cenv \<Rightarrow> string \<Rightarrow> ('k, 'n, string) cop" where
  "getURL E endpoint =
     bindE (clientE cl_URL) (\<lambda>u.
     bindE (liftE (NormalizeURL E u)) (\<lambda>nurl.
     returnE (ce_urlString E nurl @ ''/'' @ endpoint)))"

definition newRequest :: "('k, 'n) cenv \<Rightarrow> string \<Rightarrow> string \<Rightarrow> string \<Rightarrow> ('k, 'n, http_request) cop" where
  "newRequest E meth endpoint reqBody =
     bindE (getURL E endpoint) (\<lambda>curl.
     if ce_NewRequest E meth curl
     then returnE \<lparr>hq_Method = meth, hq_URL = curl, hq_Query = [], hq_Authorization = [], hq_Body = reqBody\<rparr>
     else throwE (WithCause (PlainErr (''Failed creating '' @ meth @ '' request''))))"

definition newGet :: "('k, 'n) cenv \<Rightarrow> string \<Rightarrow> ('k, 'n, http_request) cop" where
  "newGet E endpoint = newRequest E ''GET'' endpoint []"

definition newPut :: "('k, 'n) cenv \<Rightarrow> string \<Rightarrow> string \<Rightarrow> ('k, 'n, http_request) cop" where
  "newPut E endpoint reqBody = newRequest E ''PUT'' endpoint reqBody"

definition newDelete :: "('k, 'n) cenv \<Rightarrow> string \<Rightarrow> ('k, 'n, http_request) cop" where
  "newDelete E endpoint = newRequest E ''DELETE'' endpoint []"

definition newPost :: "('k, 'n) cenv \<Rightarrow> string \<Rightarrow> string \<Rightarrow> ('k, 'n, http_request) cop" where
  "newPost E endpoint reqBody = newRequest E ''POST'' endpoint reqBody"

definition addQueryParm :: "string \<Rightarrow> string \<Rightarrow> http_request \<Rightarrow> http_request" where
  "addQueryParm nm v req = req\<lparr>hq_Query := hq_Query req @ [(nm, v)]\<rparr>"

text \<open>\<open>Request.SetBasicAuth\<close>.\<close>

definition SetBasicAuth :: "string \<Rightarrow> string \<Rightarrow> http_request \<Rightarrow> http_request" where
  "SetBasicAuth username password req =
     req\<lparr>hq_Authorization := ''Basic '' @ B64Encode (username @ '':'' @ password)\<rparr>"

definition marshalE :: "('k, 'n) cenv \<Rightarrow> wire \<Rightarrow> ('k, 'n, string) cop" where
  "marshalE E b =
     (case ce_Marshal E b of None \<Rightarrow> throwE (WithCause (PlainErr ''Failed to marshal'')) | Some buf \<Rightarrow> returnE buf)"

section \<open>Sending requests\<close>

fun errorMsgs :: "string \<Rightarrow> (int \<times> string) list \<Rightarrow> string" where
  "errorMsgs errorMsg [] = errorMsg"
| "errorMsgs errorMsg ((code, message) # es) =
     (let msg = ''Response from server: Error Code: '' @ strconv_Itoa code @ '' - '' @ message @ [CHR 0x0A]
      in errorMsgs (if errorMsg = [] then msg else errorMsg @ [CHR 0x0A] @ msg) es)"

definition doE :: "('k, 'n) cenv \<Rightarrow> http_request \<Rightarrow> ('k, 'n, http_response) cop" where
  "doE E req w =
     (case ce_Do E req (w_net w) of
        (None, n) \<Rightarrow> (Inl (WithCause (PlainErr (hq_Method req @ '' failure of request''))), w\<lparr>w_net := n\<rparr>)
      | (Some resp, n) \<Rightarrow> (Inr resp, w\<lparr>w_net := n\<rparr>))"

text \<open>What is made of a response: the decoded result or an error.\<close>

definition readResponse :: "('k, 'n) cenv \<Rightarrow> (json \<Rightarrow> 'r option) \<Rightarrow> http_response \<Rightarrow> 'r result" where
  "readResponse E decode resp =
     (case hs_Body resp of
        None \<Rightarrow> Inl (WithCause (PlainErr ''Failed to read response of request''))
      | Some respBody \<Rightarrow>
          bindR (if respBody = [] then Inr None
                 else (case ce_Unmarshal E respBody of
                         None \<Rightarrow> Inl (WithCause (PlainErr ''Failed to parse response''))
                       | Some body \<Rightarrow>
                           if rs_Errors body \<noteq> [] then Inl (PlainErr (errorMsgs [] (rs_Errors body)))
                           else Inr (Some body))) (\<lambda>body.
          if 400 \<le> hs_StatusCode resp then Inl (PlainErr ''Failed with server status code'')
          else (case body of
                  None \<Rightarrow> Inl (PlainErr ''Empty response body'')
                | Some b \<Rightarrow>
                    if \<not> rs_Success b then Inl (PlainErr ''Server returned failure for request'')
                    else (case decode (rs_Result b) of
                            None \<Rightarrow> Inl (PlainErr ''mapstructure'')
                          | Some r \<Rightarrow> Inr r))))"

definition SendReq :: "('k, 'n) cenv \<Rightarrow> http_request \<Rightarrow> (json \<Rightarrow> 'r option) \<Rightarrow> ('k, 'n, 'r) cop" where
  "SendReq E req decode =
     seqE (Init E) (bindE (doE E req) (\<lambda>resp. liftE (readResponse E decode resp)))"

text \<open>A streamed response: the status and the flag of success are not looked at.  The result tells whether there was
  any element; the callback works on a state \<open>u\<close> of its own.  A callback that reads nothing never ends the call: undefined.\<close>

definition StreamResponse ::
  "('k, 'n) cenv \<Rightarrow> http_request \<Rightarrow> string \<Rightarrow> (decoder \<times> 'u, go_error, unit) em \<Rightarrow> 'u \<Rightarrow>
   ('k, 'n) world \<Rightarrow> ((go_error + bool \<times> 'u) \<times> ('k, 'n) world) option" where
  "StreamResponse E req path cb u w =
     (case seqE (Init E) (doE E req) w of
        (Inl e, v) \<Rightarrow> Some (Inl e, v)
      | (Inr resp, v) \<Rightarrow>
          (case StreamJSONArray (ce_message E) path cb
                  (ce_tokens E (case hs_Body resp of None \<Rightarrow> [] | Some b \<Rightarrow> b)) u of
             None \<Rightarrow> None
           | Some (Inl e, _, _) \<Rightarrow> Some (Inl e, v)
           | Some (Inr _, results, u') \<Rightarrow> Some (Inr (results, u'), v)))"

section \<open>Certificate requests\<close>

definition newCertificateRequest :: "('k, 'n) cenv \<Rightarrow> CSRInfo option \<Rightarrow> CertificateRequest" where
  "newCertificateRequest E req =
     \<lparr>cq_CN = [],
      cq_Names = (case req of None \<Rightarrow> [] | Some r \<Rightarrow> (case csri_Names r of None \<Rightarrow> [] | Some ns \<Rightarrow> ns)),
      cq_Hosts = (case Option.bind req csri_Hosts of
                    Some hs \<Rightarrow> hs
                  | None \<Rightarrow> if ce_Hostname E \<noteq> [] then [ce_Hostname E] else []),
      cq_KeyRequest = Option.bind req csri_KeyRequest,
      cq_CA = Option.bind req csri_CA,
      cq_SerialNumber = (case req of None \<Rightarrow> [] | Some r \<Rightarrow> csri_SerialNumber r)\<rparr>"

text \<open>\<open>api.NewBasicKeyRequest\<close>.\<close>

definition NewBasicKeyRequest :: "string \<times> int" where
  "NewBasicKeyRequest = (''ecdsa'', 256)"

definition GenCSR :: "('k, 'n) cenv \<Rightarrow> CSRInfo option \<Rightarrow> string \<Rightarrow> ('k, 'n, string \<times> nat) cop" where
  "GenCSR E req cn =
     seqE (Init E)
     (let cr0 = (newCertificateRequest E req)\<lparr>cq_CN := cn\<rparr>;
          cr = (if cq_KeyRequest cr0 = None then cr0\<lparr>cq_KeyRequest := Some NewBasicKeyRequest\<rparr> else cr0) in
      bindE (BCCSPKeyRequestGenerate cr (ce_provider E)) (\<lambda>key.
      case ce_csrGenerate E key cr of
        None \<Rightarrow> throwE (PlainErr ''failed generating CSR'')
      | Some csrPEM \<Rightarrow> returnE (csrPEM, key)))"

section \<open>Identities\<close>

record Identity =
  id_name :: string
  id_client :: bool
  id_creds :: "Credential list"

definition newIdentity :: "string \<Rightarrow> Credential list \<Rightarrow> Identity" where
  "newIdentity nm creds = \<lparr>id_name = nm, id_client = True, id_creds = creds\<rparr>"

text \<open>The token of the first credential; without credentials the header is empty.\<close>

definition addTokenAuthHdr :: "('k, 'n) cenv \<Rightarrow> Identity \<Rightarrow> string \<Rightarrow> http_request \<Rightarrow> ('k, 'n, http_request) cop" where
  "addTokenAuthHdr E i body req =
     bindE (case id_creds i of
              [] \<Rightarrow> returnE []
            | cred # _ \<Rightarrow> mapErrE WithCause (cred_CreateToken E cred body)) (\<lambda>token.
     returnE (req\<lparr>hq_Authorization := token\<rparr>))"

definition NewIdentity :: "Credential list \<Rightarrow> Identity result" where
  "NewIdentity creds =
     (case creds of
        [] \<Rightarrow> Inl (PlainErr ''No credentials spcified. Atleast one credential must be specified'')
      | c # _ \<Rightarrow> bindR (cred_EnrollmentID c) (\<lambda>nm. Inr (newIdentity nm creds)))"

definition LoadIdentity :: "('k, 'n) cenv \<Rightarrow> string \<Rightarrow> string \<Rightarrow> string \<Rightarrow> ('k, 'n, Identity) cop" where
  "LoadIdentity E keyFile certFile idemixCredFile =
     seqE (Init E)
     (bindE (attemptE (x509_Load E (NewX509Credential certFile keyFile))) (\<lambda>x.
      bindE (attemptE (idemix_Load E (NewIdemixCredential idemixCredFile))) (\<lambda>y.
      let creds = (case x of Inl _ \<Rightarrow> [] | Inr c \<Rightarrow> [X509Cred c]) @ (case y of Inl _ \<Rightarrow> [] | Inr c \<Rightarrow> [IdemixCred c]) in
      if creds = [] then throwE (PlainErr ''Identity does not posses any enrollment credentials'')
      else liftE (NewIdentity creds))))"

definition LoadMyIdentity :: "('k, 'n) cenv \<Rightarrow> ('k, 'n, Identity) cop" where
  "LoadMyIdentity E =
     seqE (Init E)
     (bindE (clientE id) (\<lambda>c. LoadIdentity E (cl_keyFile c) (cl_certFile c) (cl_idemixCredFile c)))"

section \<open>Is the client enrolled?\<close>

definition checkX509Enrollment :: "('k, 'n) cenv \<Rightarrow> ('k, 'n, unit) cop" where
  "checkX509Enrollment E =
     bindE (clientE id) (\<lambda>c.
     bindE (FileExists (cl_keyFile c)) (\<lambda>keyFileExists.
     bindE (FileExists (cl_certFile c)) (\<lambda>certFileExists.
     if keyFileExists \<and> certFileExists then returnE ()
     else if certFileExists then
       bindE (attemptE (GetSignerFromCertFile E (cl_certFile c) (ce_provider E))) (\<lambda>r.
       case r of
         Inr _ \<Rightarrow> returnE ()
       | Inl _ \<Rightarrow> throwE (PlainErr ''X509 enrollment information does not exist''))
     else throwE (PlainErr ''X509 enrollment information does not exist''))))"

definition verifyIdemixCredential :: "('k, 'n) cenv \<Rightarrow> ('k, 'n, unit) cop" where
  "verifyIdemixCredential E =
     bindE (getIssuerPubKey E []) (\<lambda>ipk.
     bindE (clientE cl_idemixCredFile) (\<lambda>file.
     bindE (mapErrE WithCause (ReadFile file)) (\<lambda>bytes.
     case ic_Unmarshal (ce_idemix E) bytes of
       None \<Rightarrow> throwE (WithCause (PlainErr ''Failed to unmarshal signer config''))
     | Some sc \<Rightarrow>
         if \<not> ic_Credential (ce_idemix E) (sc_Cred sc)
         then throwE (WithCause (PlainErr ''Failed to unmarshal Idemix credential from signer config''))
         else if \<not> ic_Ver (ce_idemix E) (sc_Sk sc) ipk (sc_Cred sc)
         then throwE (WithCause (PlainErr ''Idemix credential is not cryptographically valid''))
         else returnE ())))"

definition checkIdemixEnrollment :: "('k, 'n) cenv \<Rightarrow> ('k, 'n, unit) cop" where
  "checkIdemixEnrollment E =
     bindE (clientE id) (\<lambda>c.
     bindE (FileExists (cl_ipkFile c)) (\<lambda>idemixIssuerPubKeyExists.
     bindE (FileExists (cl_idemixCredFile c)) (\<lambda>idemixCredExists.
     if idemixIssuerPubKeyExists \<and> idemixCredExists
     then mapErrE WithCause (verifyIdemixCredential E)
     else throwE (PlainErr ''Idemix enrollment information does not exist''))))"

definition CheckEnrollment :: "('k, 'n) cenv \<Rightarrow> ('k, 'n, unit) cop" where
  "CheckEnrollment E =
     seqE (Init E)
     (bindE (attemptE (checkX509Enrollment E)) (\<lambda>x.
      bindE (attemptE (checkIdemixEnrollment E)) (\<lambda>y.
      if \<not> isl x \<or> \<not> isl y then returnE ()
      else throwE (PlainErr ''Enrollment information does not exist. Please execute enroll command first.''))))"

section \<open>Information about the CA\<close>

record GetCAInfoResponse =
  cai_CAName :: string
  cai_CAChain :: string
  cai_Version :: string

definition b64E :: "string \<Rightarrow> ('k, 'n, string) cop" where
  "b64E s = (case B64Decode s of None \<Rightarrow> throwE (PlainErr ''illegal base64 data'') | Some b \<Rightarrow> returnE b)"

definition net2LocalCAInfo :: "CAInfoResponseNet \<Rightarrow> ('k, 'n, GetCAInfoResponse) cop" where
  "net2LocalCAInfo net =
     bindE (mapErrE WithCause (b64E (cin_CAChain net))) (\<lambda>caChain.
     returnE \<lparr>cai_CAName = cin_CAName net, cai_CAChain = caChain, cai_Version = cin_Version net\<rparr>)"

definition GetCAInfo :: "('k, 'n) cenv \<Rightarrow> string \<Rightarrow> ('k, 'n, GetCAInfoResponse) cop" where
  "GetCAInfo E caname =
     seqE (Init E)
     (bindE (marshalE E (W_CAName caname)) (\<lambda>body.
      bindE (newPost E ''cainfo'' body) (\<lambda>cainforeq.
      bindE (SendReq E cainforeq (rd_CAInfo (ce_results E))) (\<lambda>netSI.
      net2LocalCAInfo netSI))))"

section \<open>Enrollment\<close>

record EnrollmentRequest =
  enr_Name :: string
  enr_Secret :: string
  enr_CAName :: string
  enr_AttrReqs :: "AttributeRequest list option"
  enr_Profile :: string
  enr_Label :: string
  enr_CSR :: "CSRInfo option"
  enr_Type :: string

record EnrollmentResponse =
  er_Identity :: Identity
  er_CAInfo :: GetCAInfoResponse

definition newEnrollmentResponse ::
  "('k, 'n) cenv \<Rightarrow> EnrollmentResponseNet \<Rightarrow> string \<Rightarrow> nat \<Rightarrow> ('k, 'n, EnrollmentResponse) cop" where
  "newEnrollmentResponse E result nm key =
     bindE (mapErrE WithCause (b64E (ern_Cert result))) (\<lambda>certByte.
     bindE (liftE (NewSigner E key certByte)) (\<lambda>signer.
     bindE (clientE id) (\<lambda>c.
     let x509Cred = (NewX509Credential (cl_certFile c) (cl_keyFile c))\<lparr>xc_val := Some signer\<rparr> in
     bindE (net2LocalCAInfo (ern_ServerInfo result)) (\<lambda>info.
     returnE \<lparr>er_Identity = newIdentity nm [X509Cred x509Cred], er_CAInfo = info\<rparr>))))"

text \<open>The body of an enrollment request.\<close>

definition enrollBody :: "string \<Rightarrow> string \<Rightarrow> string \<Rightarrow> CSRInfo option \<Rightarrow> AttributeRequest list option \<Rightarrow> string \<Rightarrow> wire" where
  "enrollBody csrPEM profile label csr attrReqs caname =
     W_Enroll \<lparr>sr_Request = csrPEM, sr_Subject = None, sr_Profile = profile, sr_Label = label, sr_NotAfter = 0,
               sr_Extensions = [], er_AttrReqs = attrReqs\<rparr>
       (Option.bind csr csri_Hosts) caname"

definition handleX509Enroll :: "('k, 'n) cenv \<Rightarrow> EnrollmentRequest \<Rightarrow> ('k, 'n, EnrollmentResponse) cop" where
  "handleX509Enroll E req =
     bindE (mapErrE WithCause (GenCSR E (enr_CSR req) (enr_Name req))) (\<lambda>(csrPEM, key).
     bindE (marshalE E (enrollBody csrPEM (enr_Profile req) (enr_Label req) (enr_CSR req) (enr_AttrReqs req) (enr_CAName req))) (\<lambda>body.
     bindE (newPost E ''enroll'' body) (\<lambda>post.
     bindE (SendReq E (SetBasicAuth (enr_Name req) (enr_Secret req) post) (rd_Enrollment (ce_results E))) (\<lambda>result.
     newEnrollmentResponse E result (enr_Name req) key))))"

text \<open>The identity that is loaded here is not passed back: the assignment to the parameter \<open>id\<close> is local, so that
  the caller's identity stays nil.\<close>

definition addAuthHeaderForIdemixEnroll ::
  "('k, 'n) cenv \<Rightarrow> EnrollmentRequest \<Rightarrow> Identity option \<Rightarrow> string \<Rightarrow> http_request \<Rightarrow> ('k, 'n, http_request) cop" where
  "addAuthHeaderForIdemixEnroll E req i body post =
     (if enr_Name req \<noteq> [] \<and> enr_Secret req \<noteq> [] then returnE (SetBasicAuth (enr_Name req) (enr_Secret req) post)
      else
        bindE (case i of
                 Some x \<Rightarrow> returnE x
               | None \<Rightarrow> seqE (checkX509Enrollment E) (LoadMyIdentity E)) (\<lambda>x.
        addTokenAuthHdr E x body post))"

definition newIdemixCredentialRequest :: "('k, 'n) cenv \<Rightarrow> string \<Rightarrow> string \<Rightarrow> ('k, 'n, (string \<times> string) \<times> string) cop" where
  "newIdemixCredentialRequest E nonce ipkBytes =
     seqE (unlessE (ic_GetRand (ce_idemix E)) (PlainErr ''error getting randomness''))
     (bindE (getIssuerPubKey E ipkBytes) (\<lambda>ipk.
      returnE (ic_NewCredRequest (ce_idemix E) nonce ipk)))"

definition newIdemixEnrollmentResponse ::
  "('k, 'n) cenv \<Rightarrow> Identity option \<Rightarrow> IdemixEnrollmentResponseNet \<Rightarrow> string \<Rightarrow> string \<Rightarrow> ('k, 'n, EnrollmentResponse) cop" where
  "newIdemixEnrollmentResponse E i result sk nm =
     bindE (mapErrE WithCause (b64E (irn_Credential result))) (\<lambda>credBytes.
     bindE (mapErrE WithCause (b64E (irn_CRI result))) (\<lambda>criBytes.
     let attr = (\<lambda>a. case map_of (irn_Attrs result) a of None \<Rightarrow> [] | Some v \<Rightarrow> v);
         isAdmin = (case strconv_ParseBool (attr ''Role'') of Some b \<Rightarrow> b | None \<Rightarrow> False);
         signerConfig = \<lparr>sc_Cred = credBytes, sc_Sk = sk, sc_OrganizationalUnitIdentifier = attr ''OU'', sc_IsAdmin = isAdmin,
                         sc_EnrollmentID = attr ''EnrollmentID'', sc_CRI = criBytes\<rparr> in
     bindE (clientE cl_idemixCredFile) (\<lambda>file.
     let cred = IdemixCred ((NewIdemixCredential file)\<lparr>ic_val := Some signerConfig\<rparr>);
         ident = (case i of None \<Rightarrow> newIdentity nm [cred] | Some x \<Rightarrow> x\<lparr>id_creds := id_creds x @ [cred]\<rparr>) in
     bindE (net2LocalCAInfo (irn_CAInfo result)) (\<lambda>info.
     returnE \<lparr>er_Identity = ident, er_CAInfo = info\<rparr>))))"

definition handleIdemixEnroll :: "('k, 'n) cenv \<Rightarrow> EnrollmentRequest \<Rightarrow> ('k, 'n, EnrollmentResponse) cop" where
  "handleIdemixEnroll E req =
     bindE (mapErrE WithCause (marshalE E (W_Idemix None (enr_CAName req)))) (\<lambda>body.
     bindE (mapErrE WithCause (newPost E ''idemix/credential'' body)) (\<lambda>post.
     bindE (mapErrE WithCause (addAuthHeaderForIdemixEnroll E req None body post)) (\<lambda>post.
     bindE (SendReq E post (rd_Idemix (ce_results E) None)) (\<lambda>result.
     bindE (mapErrE WithCause (b64E (irn_Nonce result))) (\<lambda>nonce.
     bindE (mapErrE WithCause (newIdemixCredentialRequest E nonce [])) (\<lambda>(credReq, sk).
     bindE (mapErrE WithCause (marshalE E (W_Idemix (Some credReq) (enr_CAName req)))) (\<lambda>body.
     bindE (mapErrE WithCause (newPost E ''idemix/credential'' body)) (\<lambda>post.
     bindE (mapErrE WithCause (addAuthHeaderForIdemixEnroll E req None body post)) (\<lambda>post.
     bindE (SendReq E post (rd_Idemix (ce_results E) (Some result))) (\<lambda>result.
     newIdemixEnrollmentResponse E None result sk (enr_Name req)))))))))))"

definition Enroll :: "('k, 'n) cenv \<Rightarrow> EnrollmentRequest \<Rightarrow> ('k, 'n, EnrollmentResponse) cop" where
  "Enroll E req =
     seqE (Init E)
     (if strings_ToLower (enr_Type req) = ''idemix'' then handleIdemixEnroll E req else handleX509Enroll E req)"

section \<open>Properties of the client object\<close>

definition same_outside :: "('k, 'n) world \<Rightarrow> ('k, 'n) world \<Rightarrow> bool" where
  "same_outside w v \<longleftrightarrow> w_files v = w_files w \<and> w_keys v = w_keys w \<and> w_net v = w_net w"

definition msp_layout :: "Client_state \<Rightarrow> bool" where
  "msp_layout c \<longleftrightarrow>
     cl_keyFile c = path_Join [path_Join [cl_MSPDir c, ''keystore''], ''key.pem''] \<and>
     cl_certFile c = path_Join [path_Join [cl_MSPDir c, ''signcerts''], ''cert.pem''] \<and>
     cl_caCertsDir c = path_Join [cl_MSPDir c, ''cacerts''] \<and>
     cl_ipkFile c = path_Join [cl_MSPDir c, ''IssuerPublicKey''] \<and>
     cl_idemixCredsDir c = path_Join [cl_MSPDir c, ''user''] \<and>
     cl_idemixCredFile c = path_Join [path_Join [cl_MSPDir c, ''user''], ''SignerConfig''] \<and> cl_csp c"

lemma os_MkdirAll_Inr: "os_MkdirAll E d w = (Inr u, v) \<longleftrightarrow> ce_MkdirAll E d \<and> v = w\<lparr>w_dirs := d # w_dirs w\<rparr>"
  by (auto simp: os_MkdirAll_def)

lemma os_MkdirAll_Inl: "os_MkdirAll E d w = (Inl e, v) \<longleftrightarrow> \<not> ce_MkdirAll E d \<and> e = PlainErr ''mkdir'' \<and> v = w"
  by (auto simp: os_MkdirAll_def)

lemma Init_again: "cl_initialized (w_client w) \<Longrightarrow> Init E w = (Inr (), w)"
  by (simp add: Init_def bindE_def getE_def returnE_def)

lemma initHTTPClient_Inr: "initHTTPClient E w = (Inr u, v) \<Longrightarrow> \<exists>t. v = w\<lparr>w_client := (w_client w)\<lparr>cl_TLS := t\<rparr>\<rparr>"
proof -
  assume run: "initHTTPClient E w = (Inr u, v)"
  have same: "v = w\<lparr>w_client := (w_client w)\<lparr>cl_TLS := cl_TLS (w_client w)\<rparr>\<rparr>" if "\<not> tls_Enabled (cl_TLS (w_client w))"
    using run that by (simp add: initHTTPClient_def bindE_Inr)
  have "\<exists>t. v = w\<lparr>w_client := (w_client w)\<lparr>cl_TLS := t\<rparr>\<rparr>" if "tls_Enabled (cl_TLS (w_client w))"
    using run that by (auto simp: initHTTPClient_def bindE_Inr seqE_Inr mapErrE_Inr zoomE_eq dest: GetClientTLSConfig_same)
  with same show ?thesis by blast
qed

lemma Init_Inr:
  assumes "Init E w = (Inr u, v)"
  shows "cl_initialized (w_client v) \<and> same_outside w v \<and> cl_URL (w_client v) = cl_URL (w_client w) \<and>
    (\<not> cl_initialized (w_client w) \<longrightarrow> msp_layout (w_client v))"
  using assms
  by (auto simp: Init_def em_simps os_MkdirAll_Inr same_outside_def msp_layout_def Let_def split: if_splits dest!: initHTTPClient_Inr)

lemma readResponse_Inr:
  "readResponse E decode resp = Inr r \<longleftrightarrow>
     (\<exists>body b. hs_Body resp = Some body \<and> body \<noteq> [] \<and> ce_Unmarshal E body = Some b \<and> rs_Errors b = [] \<and>
        hs_StatusCode resp < 400 \<and> rs_Success b \<and> decode (rs_Result b) = Some r)"
  by (auto simp: readResponse_def split: option.splits if_splits)

lemma doE_Inr:
  "doE E req w = (Inr resp, v) \<longleftrightarrow> ce_Do E req (w_net w) = (Some resp, w_net v) \<and> v = w\<lparr>w_net := w_net v\<rparr>"
  by (auto simp: doE_def split: prod.splits option.splits)

text \<open>When a request succeeds.  The client can be initialised, the request is exchanged once for
  a response, and that has a status below 400 and a body that is a message of success without errors, whose result can be
  decoded; in every other case an error is returned, and nothing but the far side of the network and the client's own
  paths and directories changes.\<close>

theorem SendReq_Inr:
  "SendReq E req decode w = (Inr r, v) \<longleftrightarrow>
     (\<exists>w1 resp body b. Init E w = (Inr (), w1) \<and> same_outside w w1 \<and>
        ce_Do E req (w_net w) = (Some resp, w_net v) \<and> v = w1\<lparr>w_net := w_net v\<rparr> \<and>
        hs_Body resp = Some body \<and> body \<noteq> [] \<and> ce_Unmarshal E body = Some b \<and> rs_Errors b = [] \<and>
        hs_StatusCode resp < 400 \<and> rs_Success b \<and> decode (rs_Result b) = Some r)"
proof -
  have same: "Init E w = (Inr (), w1) \<Longrightarrow> same_outside w w1 \<and> w_net w1 = w_net w" for w1
    using Init_Inr [of E w "()" w1] by (simp add: same_outside_def)
  have "SendReq E req decode w = (Inr r, v) \<longleftrightarrow>
      (\<exists>w1 resp. Init E w = (Inr (), w1) \<and> doE E req w1 = (Inr resp, v) \<and> readResponse E decode resp = Inr r)"
    by (auto simp: SendReq_def em_simps liftE_Inr)
  also have "\<dots> \<longleftrightarrow> (\<exists>w1 resp. Init E w = (Inr (), w1) \<and> same_outside w w1 \<and> ce_Do E req (w_net w) = (Some resp, w_net v) \<and>
      v = w1\<lparr>w_net := w_net v\<rparr> \<and> readResponse E decode resp = Inr r)"
    using same by (auto simp: doE_Inr)
  finally show ?thesis unfolding readResponse_Inr by blast
qed

lemma SendReq_run:
  assumes "SendReq E req decode w = (Inr r, v)" and "cl_initialized (w_client w)"
  shows "\<exists>resp. ce_Do E req (w_net w) = (Some resp, w_net v) \<and> v = w\<lparr>w_net := w_net v\<rparr> \<and> readResponse E decode resp = Inr r"
  using assms by (auto simp: SendReq_def em_simps liftE_Inr Init_again doE_Inr)

section \<open>Enrollment\<close>

lemma keysOf_eq: "keysOf f w = (r, v) \<longleftrightarrow> (\<exists>x k. f (w_keys w) = (x, k) \<and> r = Inr x \<and> v = w\<lparr>w_keys := k\<rparr>)"
  by (auto simp: keysOf_def split: prod.splits)

text \<open>The request for a certificate, with the default key.\<close>

definition csr_of :: "('k, 'n) cenv \<Rightarrow> CSRInfo option \<Rightarrow> string \<Rightarrow> CertificateRequest" where
  "csr_of E req cn =
     (let cr0 = (newCertificateRequest E req)\<lparr>cq_CN := cn\<rparr>
      in if cq_KeyRequest cr0 = None then cr0\<lparr>cq_KeyRequest := Some NewBasicKeyRequest\<rparr> else cr0)"

lemma GenCSR_Inr:
  assumes "GenCSR E req cn w = (Inr (csrPEM, key), v)" and "cl_initialized (w_client w)"
  shows "\<exists>opts k. getBCCSPKeyOpts (cq_KeyRequest (csr_of E req cn)) False = Inr opts \<and>
    pv_KeyGen (ce_provider E) opts (w_keys w) = (Some key, k) \<and> pv_newSigner (ce_provider E) key \<and>
    ce_csrGenerate E key (csr_of E req cn) = Some csrPEM \<and> v = w\<lparr>w_keys := k\<rparr>"
proof -
  have "bindE (BCCSPKeyRequestGenerate (csr_of E req cn) (ce_provider E)) (\<lambda>key.
      case ce_csrGenerate E key (csr_of E req cn) of
        None \<Rightarrow> throwE (PlainErr ''failed generating CSR'') | Some csrPEM \<Rightarrow> returnE (csrPEM, key)) w = (Inr (csrPEM, key), v)"
    using assms by (simp add: GenCSR_def seqE_Inr Init_again csr_of_def Let_def)
  then show ?thesis
    by (auto simp: bindE_Inr BCCSPKeyRequestGenerate_def liftE_Inr keysOf_eq case_option_run simp del: liftE_eq split: if_splits)
qed

lemma newRequest_Inr:
  "newRequest E meth endpoint body w = (Inr req, v) \<longleftrightarrow>
     v = w \<and> (\<exists>u. NormalizeURL E (cl_URL (w_client w)) = Inr u \<and>
       ce_NewRequest E meth (ce_urlString E u @ ''/'' @ endpoint) \<and>
       req = \<lparr>hq_Method = meth, hq_URL = ce_urlString E u @ ''/'' @ endpoint, hq_Query = [], hq_Authorization = [], hq_Body = body\<rparr>)"
  by (auto simp: newRequest_def getURL_def bindE_Inr liftE_Inr simp del: liftE_eq split: if_splits)

lemma marshalE_Inr: "marshalE E b w = (Inr buf, v) \<longleftrightarrow> ce_Marshal E b = Some buf \<and> v = w"
  by (auto simp: marshalE_def split: option.splits)

lemma b64E_Inr: "b64E x w = (Inr b, v) \<longleftrightarrow> B64Decode x = Some b \<and> v = w"
  by (auto simp: b64E_def split: option.splits)

lemma newEnrollmentResponse_Inr:
  "newEnrollmentResponse E result nm key w = (Inr resp, v) \<longleftrightarrow>
     v = w \<and> (\<exists>pem s chain. B64Decode (ern_Cert result) = Some pem \<and> NewSigner E key pem = Inr s \<and>
       B64Decode (cin_CAChain (ern_ServerInfo result)) = Some chain \<and>
       resp = \<lparr>er_Identity = newIdentity nm [X509Cred \<lparr>xc_certFile = cl_certFile (w_client w),
           xc_keyFile = cl_keyFile (w_client w), xc_val = Some s\<rparr>],
         er_CAInfo = \<lparr>cai_CAName = cin_CAName (ern_ServerInfo result), cai_CAChain = chain,
           cai_Version = cin_Version (ern_ServerInfo result)\<rparr>\<rparr>)"
  by (auto simp: newEnrollmentResponse_def net2LocalCAInfo_def bindE_Inr mapErrE_Inr liftE_Inr b64E_Inr NewX509Credential_def Let_def
      simp del: liftE_eq)

text \<open>C25: enrollment for an X.509 certificate.  When it succeeds, a new key was generated in the client's provider, a request
  for a certificate in the name that enrolls was made with that key, and exactly one request was sent: a POST to the
  endpoint \<open>enroll\<close> with the name and the secret as basic authentication.  The identity that is returned has the
  certificate of the response and the new key; no file is written.\<close>

theorem Enroll_X509:
  assumes "Enroll E req w = (Inr resp, v)" and "strings_ToLower (enr_Type req) \<noteq> ''idemix''"
    and "cl_initialized (w_client w)"
  shows "\<exists>opts key k csrPEM body u post result s pem.
    getBCCSPKeyOpts (cq_KeyRequest (csr_of E (enr_CSR req) (enr_Name req))) False = Inr opts \<and>
    pv_KeyGen (ce_provider E) opts (w_keys w) = (Some key, k) \<and>
    ce_csrGenerate E key (csr_of E (enr_CSR req) (enr_Name req)) = Some csrPEM \<and>
    ce_Marshal E (enrollBody csrPEM (enr_Profile req) (enr_Label req) (enr_CSR req) (enr_AttrReqs req) (enr_CAName req)) = Some body \<and>
    NormalizeURL E (cl_URL (w_client w)) = Inr u \<and>
    post = SetBasicAuth (enr_Name req) (enr_Secret req)
      \<lparr>hq_Method = ''POST'', hq_URL = ce_urlString E u @ ''/enroll'', hq_Query = [], hq_Authorization = [], hq_Body = body\<rparr> \<and>
    (\<exists>r. ce_Do E post (w_net w) = (Some r, w_net v) \<and> readResponse E (rd_Enrollment (ce_results E)) r = Inr result) \<and>
    B64Decode (ern_Cert result) = Some pem \<and> NewSigner E key pem = Inr s \<and>
    er_Identity resp = newIdentity (enr_Name req) [X509Cred \<lparr>xc_certFile = cl_certFile (w_client w),
      xc_keyFile = cl_keyFile (w_client w), xc_val = Some s\<rparr>] \<and>
    w_keys v = k \<and> w_files v = w_files w \<and> w_client v = w_client w"
proof -
  have run: "handleX509Enroll E req w = (Inr resp, v)"
    using assms by (simp add: Enroll_def seqE_Inr Init_again)
  then obtain csrPEM key w1 body post w2 result where
      gen: "GenCSR E (enr_CSR req) (enr_Name req) w = (Inr (csrPEM, key), w1)"
    and body: "ce_Marshal E (enrollBody csrPEM (enr_Profile req) (enr_Label req) (enr_CSR req) (enr_AttrReqs req) (enr_CAName req)) = Some body"
    and post: "newPost E ''enroll'' body w1 = (Inr post, w1)"
    and send: "SendReq E (SetBasicAuth (enr_Name req) (enr_Secret req) post) (rd_Enrollment (ce_results E)) w1 = (Inr result, w2)"
    and new: "newEnrollmentResponse E result (enr_Name req) key w2 = (Inr resp, v)"
    by (auto simp: handleX509Enroll_def bindE_Inr mapErrE_Inr marshalE_Inr newPost_def newRequest_Inr)
  obtain opts k where g: "getBCCSPKeyOpts (cq_KeyRequest (csr_of E (enr_CSR req) (enr_Name req))) False = Inr opts"
      "pv_KeyGen (ce_provider E) opts (w_keys w) = (Some key, k)"
      "ce_csrGenerate E key (csr_of E (enr_CSR req) (enr_Name req)) = Some csrPEM" "w1 = w\<lparr>w_keys := k\<rparr>"
    using GenCSR_Inr [OF gen assms(3)] by blast
  have "cl_initialized (w_client w1)" using assms(3) g(4) by simp
  from SendReq_run [OF send this] obtain r where
      r: "ce_Do E (SetBasicAuth (enr_Name req) (enr_Secret req) post) (w_net w1) = (Some r, w_net w2)"
      "w2 = w1\<lparr>w_net := w_net w2\<rparr>" "readResponse E (rd_Enrollment (ce_results E)) r = Inr result"
    by blast
  have w2: "w_client w2 = w_client w" "w_keys w2 = k" "w_files w2 = w_files w"
    by (subst r(2), simp add: g(4))+
  show ?thesis
    using g body post r new w2 unfolding newEnrollmentResponse_Inr newPost_def newRequest_Inr by auto
qed

section \<open>A small world\<close>

text \<open>One key in the provider, one certificate, and a server that answers every request in the same way and remembers it.\<close>

definition toy_provider :: "unit provider" where
  "toy_provider = \<lparr>pv_csp = toy_csp, pv_SKI = \<lambda>_. ''ski'', pv_GetKey = \<lambda>_ ski. if ski = ''ski'' then Some (3, True) else None,
     pv_KeyGen = \<lambda>_ k. (Some 3, k), pv_ImportPrivate = \<lambda>_ _ k. (None, k), pv_newSigner = \<lambda>_. True\<rparr>"

definition toy_idemix :: idemix_client where
  "toy_idemix = \<lparr>ic_GetRand = True, ic_IssuerPublicKey = \<lambda>_. True, ic_Credential = \<lambda>_. True, ic_CRI = \<lambda>_. True,
     ic_NewSignature = \<lambda>_ _ _ _ d. Some d, ic_NewCredRequest = \<lambda>n i. ((n, i), ''sk''), ic_Ver = \<lambda>_ _ _. True,
     ic_Marshal = \<lambda>_. None, ic_Unmarshal = \<lambda>_. None\<rparr>"

definition toy_info :: CAInfoResponseNet where
  "toy_info = \<lparr>cin_CAName = ''ca'', cin_CAChain = B64Encode ''chain'', cin_Version = ''1.2.0''\<rparr>"

definition toy_results :: result_decoders where
  "toy_results = \<lparr>rd_CAInfo = \<lambda>_. Some toy_info,
     rd_Enrollment = \<lambda>_. Some \<lparr>ern_Cert = B64Encode ''pem'', ern_ServerInfo = toy_info\<rparr>, rd_Idemix = \<lambda>_ _. None,
     rd_Registration = \<lambda>_. Some ''secret'', rd_Revocation = \<lambda>_. None, rd_CRL = \<lambda>_. None, rd_CRI = \<lambda>_. None,
     rd_Identity = \<lambda>_. None, rd_Affiliation = \<lambda>_. None\<rparr>"

definition toy_cenv :: "(unit, http_request list) cenv" where
  "toy_cenv = \<lparr>ce_Args = [], ce_wd = Some ''/home'', ce_MkdirAll = \<lambda>_. True, ce_WriteFile = \<lambda>_. True, ce_Hostname = ''host'',
     ce_parse = \<lambda>p. if p = ''pem'' then Some toy_cert else None,
     ce_ParseCertificatePEM = \<lambda>p. if p = ''pem'' then Some toy_cert else None,
     ce_PEMtoPrivateKey = \<lambda>_. None, ce_PrivateKeyToDER = \<lambda>_. None, ce_provider = toy_provider, ce_default = toy_provider,
     ce_factory = \<lparr>bf_InitFactories = \<lambda>_. Inr (), bf_GetBCCSPFromOpts = \<lambda>_. Inr ()\<rparr>, ce_now = 5, ce_pemDecode = \<lambda>_. None, ce_ParseCertificate = \<lambda>_. None, ce_AppendCertsFromPEM = \<lambda>_. False,
     ce_LoadX509KeyPair = \<lambda>_ _. False, ce_csrGenerate = \<lambda>_ _. Some ''csr'', ce_idemix = toy_idemix,
     ce_Marshal = \<lambda>_. Some ''{}'', ce_Unmarshal = \<lambda>_. Some \<lparr>rs_Success = True, rs_Result = JNull, rs_Errors = []\<rparr>,
     ce_results = toy_results, ce_tokens = \<lambda>_. \<lparr>d_toks = [], d_more = False\<rparr>, ce_message = string_message,
     ce_urlParse = \<lambda>_. Some \<lparr>u_Scheme = ''http'', u_Host = ''localhost:7054'', u_User = None, u_Path = [], u_Opaque = []\<rparr>,
     ce_urlString = \<lambda>u. u_Scheme u @ ''://'' @ u_Host u, ce_NewRequest = \<lambda>_ _. True,
     ce_Do = \<lambda>q n. (Some \<lparr>hs_StatusCode = 201, hs_Body = Some ''{}''\<rparr>, n @ [q])\<rparr>"

definition toy_world :: "(unit, http_request list) world" where
  "toy_world = \<lparr>w_files = Map.empty, w_dirs = [], w_keys = (),
     w_client = \<lparr>cl_HomeDir = ''/home'', cl_URL = ''localhost'', cl_MSPDir = ''/home/msp'', cl_initialized = True,
       cl_keyFile = ''/home/msp/keystore/key.pem'', cl_certFile = ''/home/msp/signcerts/cert.pem'',
       cl_idemixCredFile = ''/home/msp/user/SignerConfig'', cl_idemixCredsDir = ''/home/msp/user'',
       cl_ipkFile = ''/home/msp/IssuerPublicKey'', cl_caCertsDir = ''/home/msp/cacerts'', cl_csp = True,
       cl_TLS = \<lparr>tls_Enabled = False, tls_CertFiles = [], tls_CertFile = [], tls_KeyFile = []\<rparr>, cl_CSP = None\<rparr>,
     w_net = []\<rparr>"

definition toy_enroll :: EnrollmentRequest where
  "toy_enroll = \<lparr>enr_Name = ''alice'', enr_Secret = ''pw'', enr_CAName = [], enr_AttrReqs = None, enr_Profile = [], enr_Label = [],
     enr_CSR = None, enr_Type = ''x509''\<rparr>"

lemma toy_enroll_run: "\<not> isl (fst (Enroll toy_cenv toy_enroll toy_world))"
  by code_simp

theorem Enroll_X509_witness:
  "\<exists>resp v. Enroll toy_cenv toy_enroll toy_world = (Inr resp, v) \<and>
     w_net v = [SetBasicAuth ''alice'' ''pw'' \<lparr>hq_Method = ''POST'', hq_URL = ''http://localhost:7054/enroll'', hq_Query = [],
       hq_Authorization = [], hq_Body = ''{}''\<rparr>]"
proof -
  obtain resp v where run: "Enroll toy_cenv toy_enroll toy_world = (Inr resp, v)"
    using toy_enroll_run by (cases "Enroll toy_cenv toy_enroll toy_world"; cases "fst (Enroll toy_cenv toy_enroll toy_world)") auto
  have t: "strings_ToLower (enr_Type toy_enroll) \<noteq> ''idemix''" "cl_initialized (w_client toy_world)" by code_simp+
  have u: "NormalizeURL toy_cenv (cl_URL (w_client toy_world)) =
      Inr \<lparr>u_Scheme = ''http'', u_Host = ''localhost:7054'', u_User = None, u_Path = [], u_Opaque = []\<rparr>"
    by code_simp
  from Enroll_X509 [OF run t] show ?thesis
    using run u by (auto simp: toy_cenv_def toy_world_def toy_enroll_def)
qed

end
