(* ===== verification/Client_Identity.thy ===== *)
theory Client_Identity
  imports Client_Library
begin

text \<open>
  What an identity can ask of the server, \<open>lib/identity.go\<close>: each operation builds a request, adds the token of
  the identity's first credential and sends it.  The parameters of a query come from a Go map; the list gives them in the order
  in which the loop visits them.
\<close>

section \<open>Requests with a token\<close>

definition addQuery :: "(string \<times> string) list \<Rightarrow> http_request \<Rightarrow> http_request" where
  "addQuery queryParam req = fold (\<lambda>(key, v). addQueryParm key v) queryParam req"

definition Get :: "('k, 'n) cenv \<Rightarrow> Identity \<Rightarrow> string \<Rightarrow> string \<Rightarrow> (json \<Rightarrow> 'r option) \<Rightarrow> ('k, 'n, 'r) cop" where
  "Get E i endpoint caname decode =
     bindE (newGet E endpoint) (\<lambda>req.
     bindE (addTokenAuthHdr E i [] (if caname \<noteq> [] then addQueryParm ''ca'' caname req else req)) (\<lambda>req.
     SendReq E req decode))"

definition Put :: "('k, 'n) cenv \<Rightarrow> Identity \<Rightarrow> string \<Rightarrow> string \<Rightarrow> (string \<times> string) list \<Rightarrow> (json \<Rightarrow> 'r option) \<Rightarrow> ('k, 'n, 'r) cop" where
  "Put E i endpoint reqBody queryParam decode =
     bindE (newPut E endpoint reqBody) (\<lambda>req.
     bindE (addTokenAuthHdr E i reqBody (addQuery queryParam req)) (\<lambda>req.
     SendReq E req decode))"

definition Delete :: "('k, 'n) cenv \<Rightarrow> Identity \<Rightarrow> string \<Rightarrow> (string \<times> string) list \<Rightarrow> (json \<Rightarrow> 'r option) \<Rightarrow> ('k, 'n, 'r) cop" where
  "Delete E i endpoint queryParam decode =
     bindE (newDelete E endpoint) (\<lambda>req.
     bindE (addTokenAuthHdr E i [] (addQuery queryParam req)) (\<lambda>req.
     SendReq E req decode))"

definition Post :: "('k, 'n) cenv \<Rightarrow> Identity \<Rightarrow> string \<Rightarrow> string \<Rightarrow> (string \<times> string) list \<Rightarrow> (json \<Rightarrow> 'r option) \<Rightarrow> ('k, 'n, 'r) cop" where
  "Post E i endpoint reqBody queryParam decode =
     bindE (newPost E endpoint reqBody) (\<lambda>req.
     bindE (addTokenAuthHdr E i reqBody (addQuery queryParam req)) (\<lambda>req.
     SendReq E req decode))"

text \<open>Empty parameters are left out of a request whose response is streamed.\<close>

definition GetStreamResponse ::
  "('k, 'n) cenv \<Rightarrow> Identity \<Rightarrow> string \<Rightarrow> (string \<times> string) list \<Rightarrow> string \<Rightarrow> (decoder \<times> 'u, go_error, unit) em \<Rightarrow> 'u \<Rightarrow>
   ('k, 'n) world \<Rightarrow> ((go_error + bool \<times> 'u) \<times> ('k, 'n) world) option" where
  "GetStreamResponse E i endpoint queryParam path cb u w =
     (case bindE (newGet E endpoint) (\<lambda>req.
             addTokenAuthHdr E i [] (addQuery (filter (\<lambda>(key, v). v \<noteq> []) queryParam) req)) w of
        (Inl e, v) \<Rightarrow> Some (Inl e, v)
      | (Inr req, v) \<Rightarrow> StreamResponse E req path cb u v)"

section \<open>Operations\<close>

definition FormatBool :: "bool \<Rightarrow> string" where
  "FormatBool b = (if b then ''true'' else ''false'')"

definition GetIdemixCredential :: "Identity \<Rightarrow> Credential option" where
  "GetIdemixCredential i = find (\<lambda>c. cred_Type c = ''Idemix'') (id_creds i)"

definition GetX509Credential :: "Identity \<Rightarrow> Credential option" where
  "GetX509Credential i = find (\<lambda>c. cred_Type c = ''X509'') (id_creds i)"

fun ecertOf :: "Credential list \<Rightarrow> Signer option" where
  "ecertOf [] = None"
| "ecertOf (X509Cred c # cs) = (case xc_val c of Some s \<Rightarrow> Some s | None \<Rightarrow> ecertOf cs)"
| "ecertOf (IdemixCred c # cs) = ecertOf cs"

definition GetECert :: "Identity \<Rightarrow> Signer option" where
  "GetECert i = ecertOf (id_creds i)"

definition GetTCertBatch :: "('k, 'n) cenv \<Rightarrow> Identity \<Rightarrow> GetTCertBatchRequest \<Rightarrow> string \<Rightarrow> ('k, 'n, unit) cop" where
  "GetTCertBatch E i req caname =
     bindE (marshalE E (W_TCert req caname)) (\<lambda>reqBody.
     Post E i ''tcert'' reqBody [] (\<lambda>_. Some ()))"

definition Register :: "('k, 'n) cenv \<Rightarrow> Identity \<Rightarrow> RegistrationRequest \<Rightarrow> string \<Rightarrow> ('k, 'n, string) cop" where
  "Register E i req caname =
     (if rr_Name req = [] then throwE (PlainErr ''Register was called without a Name set'')
      else
        bindE (marshalE E (W_Register req caname)) (\<lambda>reqBody.
        Post E i ''register'' reqBody [] (rd_Registration (ce_results E))))"

definition RegisterAndEnroll :: "('k, 'n) cenv \<Rightarrow> Identity \<Rightarrow> RegistrationRequest \<Rightarrow> string \<Rightarrow> ('k, 'n, Identity) cop" where
  "RegisterAndEnroll E i req caname =
     seqE (unlessE (id_client i) (PlainErr ''No client is associated with this identity''))
     (bindE (mapErrE WithCause (Register E i req caname)) (\<lambda>secret.
      bindE (mapErrE WithCause (Enroll E
         \<lparr>enr_Name = rr_Name req, enr_Secret = secret, enr_CAName = [], enr_AttrReqs = None, enr_Profile = [], enr_Label = [],
          enr_CSR = None, enr_Type = []\<rparr>)) (\<lambda>eresp.
      returnE (er_Identity eresp))))"

record ReenrollmentRequest =
  ren_Profile :: string
  ren_Label :: string
  ren_CSR :: "CSRInfo option"
  ren_CAName :: string
  ren_AttrReqs :: "AttributeRequest list option"

definition Reenroll :: "('k, 'n) cenv \<Rightarrow> Identity \<Rightarrow> ReenrollmentRequest \<Rightarrow> ('k, 'n, EnrollmentResponse) cop" where
  "Reenroll E i req =
     bindE (GenCSR E (ren_CSR req) (id_name i)) (\<lambda>(csrPEM, key).
     bindE (marshalE E (enrollBody csrPEM (ren_Profile req) (ren_Label req) (ren_CSR req) (ren_AttrReqs req) (ren_CAName req))) (\<lambda>body.
     bindE (Post E i ''reenroll'' body [] (rd_Enrollment (ce_results E))) (\<lambda>result.
     newEnrollmentResponse E result (id_name i) key)))"

definition Identity_Revoke ::
  "('k, 'n) cenv \<Rightarrow> Identity \<Rightarrow> RevocationRequest \<Rightarrow> string \<Rightarrow> ('k, 'n, (string \<times> string) list \<times> string) cop" where
  "Identity_Revoke E i req caname =
     bindE (marshalE E (W_Revoke req caname)) (\<lambda>reqBody.
     bindE (Post E i ''revoke'' reqBody [] (rd_Revocation (ce_results E))) (\<lambda>(revoked, crl64).
     bindE (b64E crl64) (\<lambda>crl.
     returnE (revoked, crl))))"

definition RevokeSelf :: "('k, 'n) cenv \<Rightarrow> Identity \<Rightarrow> ('k, 'n, (string \<times> string) list \<times> string) cop" where
  "RevokeSelf E i =
     Identity_Revoke E i \<lparr>rv_Name = id_name i, rv_Serial = [], rv_AKI = [], rv_Reason = [], rv_GenCRL = False\<rparr> []"

text \<open>A credential revokes its own certificate as the identity that the certificate names.\<close>

definition x509_RevokeSelf :: "('k, 'n) cenv \<Rightarrow> X509Credential \<Rightarrow> ('k, 'n, (string \<times> string) list \<times> string) cop" where
  "x509_RevokeSelf E cred =
     bindE (liftE (x509_EnrollmentID cred)) (\<lambda>nm.
     bindE (liftE (x509_revocation cred)) (\<lambda>req.
     Identity_Revoke E (newIdentity nm [X509Cred cred]) req []))"

definition Identity_GenCRL :: "('k, 'n) cenv \<Rightarrow> Identity \<Rightarrow> GenCRLRequest \<Rightarrow> string \<Rightarrow> ('k, 'n, string) cop" where
  "Identity_GenCRL E i req caname =
     bindE (marshalE E (W_GenCRL req caname)) (\<lambda>reqBody.
     bindE (Post E i ''gencrl'' reqBody [] (rd_CRL (ce_results E))) (\<lambda>crl64. b64E crl64))"

definition Identity_GetCRI :: "('k, 'n) cenv \<Rightarrow> Identity \<Rightarrow> string \<Rightarrow> ('k, 'n, string) cop" where
  "Identity_GetCRI E i caname =
     bindE (marshalE E (W_CAName caname)) (\<lambda>reqBody.
     Post E i ''idemix/cri'' reqBody [] (rd_CRI (ce_results E)))"

definition GetIdentity :: "('k, 'n) cenv \<Rightarrow> Identity \<Rightarrow> string \<Rightarrow> string \<Rightarrow> ('k, 'n, IdentityResponse) cop" where
  "GetIdentity E i eid caname = Get E i (''identities/'' @ eid) caname (rd_Identity (ce_results E))"

definition GetAllIdentities ::
  "('k, 'n) cenv \<Rightarrow> Identity \<Rightarrow> string \<Rightarrow> (decoder \<times> 'u, go_error, unit) em \<Rightarrow> 'u \<Rightarrow>
   ('k, 'n) world \<Rightarrow> ((go_error + bool \<times> 'u) \<times> ('k, 'n) world) option" where
  "GetAllIdentities E i caname cb = GetStreamResponse E i ''identities'' [(''ca'', caname)] ''result.identities'' cb"

definition AddIdentity :: "('k, 'n) cenv \<Rightarrow> Identity \<Rightarrow> AddIdentityRequest \<Rightarrow> string \<Rightarrow> ('k, 'n, IdentityResponse) cop" where
  "AddIdentity E i req caname =
     (if air_ID req = [] then throwE (PlainErr ''Adding identity with no 'ID' set'')
      else
        bindE (marshalE E (W_AddIdentity req caname)) (\<lambda>reqBody.
        Post E i ''identities'' reqBody [] (rd_Identity (ce_results E))))"

definition ModifyIdentity :: "('k, 'n) cenv \<Rightarrow> Identity \<Rightarrow> string \<Rightarrow> ModifyIdentityRequest \<Rightarrow> string \<Rightarrow> ('k, 'n, IdentityResponse) cop" where
  "ModifyIdentity E i eid req caname =
     (if eid = [] then throwE (PlainErr ''Name of identity to be modified not specified'')
      else
        bindE (marshalE E (W_ModifyIdentity eid req caname)) (\<lambda>reqBody.
        Put E i (''identities/'' @ eid) reqBody [] (rd_Identity (ce_results E))))"

definition RemoveIdentity :: "('k, 'n) cenv \<Rightarrow> Identity \<Rightarrow> string \<Rightarrow> bool \<Rightarrow> string \<Rightarrow> ('k, 'n, IdentityResponse) cop" where
  "RemoveIdentity E i eid force caname =
     (if eid = [] then throwE (PlainErr ''Name of the identity to removed is required'')
      else
        Delete E i (''identities/'' @ eid) [(''force'', FormatBool force), (''ca'', caname)] (rd_Identity (ce_results E)))"

definition Identity_GetAffiliation :: "('k, 'n) cenv \<Rightarrow> Identity \<Rightarrow> string \<Rightarrow> string \<Rightarrow> ('k, 'n, AffiliationInfo \<times> string) cop" where
  "Identity_GetAffiliation E i affiliation caname =
     Get E i (''affiliations/'' @ affiliation) caname (rd_Affiliation (ce_results E))"

definition Identity_GetAllAffiliations :: "('k, 'n) cenv \<Rightarrow> Identity \<Rightarrow> string \<Rightarrow> ('k, 'n, AffiliationInfo \<times> string) cop" where
  "Identity_GetAllAffiliations E i caname = Get E i ''affiliations'' caname (rd_Affiliation (ce_results E))"

definition AddAffiliation ::
  "('k, 'n) cenv \<Rightarrow> Identity \<Rightarrow> AddAffiliationRequest \<Rightarrow> bool \<Rightarrow> string \<Rightarrow> ('k, 'n, AffiliationInfo \<times> string) cop" where
  "AddAffiliation E i req force caname =
     (if aar_Name req = [] then throwE (PlainErr ''Affiliation to add was not specified'')
      else
        bindE (marshalE E (W_AddAffiliation req force caname)) (\<lambda>reqBody.
        Post E i ''affiliations'' reqBody [(''force'', FormatBool force)] (rd_Affiliation (ce_results E))))"

definition Identity_ModifyAffiliation ::
  "('k, 'n) cenv \<Rightarrow> Identity \<Rightarrow> string \<Rightarrow> ModifyAffiliationRequest \<Rightarrow> bool \<Rightarrow> string \<Rightarrow> ('k, 'n, AffiliationInfo \<times> string) cop" where
  "Identity_ModifyAffiliation E i modifyAff req force caname =
     (if modifyAff = [] then throwE (PlainErr ''Affiliation to modify was not specified'')
      else if mar_NewName req = [] then throwE (PlainErr ''New affiliation not specified'')
      else
        bindE (marshalE E (W_ModifyAffiliation modifyAff req force caname)) (\<lambda>reqBody.
        Put E i (''affiliations/'' @ modifyAff) reqBody [(''force'', FormatBool force)] (rd_Affiliation (ce_results E))))"

definition RemoveAffiliation ::
  "('k, 'n) cenv \<Rightarrow> Identity \<Rightarrow> string \<Rightarrow> bool \<Rightarrow> string \<Rightarrow> ('k, 'n, AffiliationInfo \<times> string) cop" where
  "RemoveAffiliation E i removeAff force caname =
     (if removeAff = [] then throwE (PlainErr ''Affiliation to remove was not specified'')
      else
        Delete E i (''affiliations/'' @ removeAff) [(''force'', FormatBool force), (''ca'', caname)] (rd_Affiliation (ce_results E)))"

record GetCertificatesRequest =
  gcr_ID :: string
  gcr_AKI :: string
  gcr_Serial :: string
  gcr_Revoked :: "string \<times> string"
  gcr_Expired :: "string \<times> string"
  gcr_NotExpired :: bool
  gcr_NotRevoked :: bool
  gcr_CAName :: string

definition Identity_GetCertificates ::
  "('k, 'n) cenv \<Rightarrow> Identity \<Rightarrow> GetCertificatesRequest \<Rightarrow> (decoder \<times> 'u, go_error, unit) em \<Rightarrow> 'u \<Rightarrow>
   ('k, 'n) world \<Rightarrow> ((go_error + bool \<times> 'u) \<times> ('k, 'n) world) option" where
  "Identity_GetCertificates E i req cb =
     GetStreamResponse E i ''certificates''
       [(''id'', gcr_ID req), (''aki'', gcr_AKI req), (''serial'', gcr_Serial req),
        (''revoked_start'', fst (gcr_Revoked req)), (''revoked_end'', snd (gcr_Revoked req)),
        (''expired_start'', fst (gcr_Expired req)), (''expired_end'', snd (gcr_Expired req)),
        (''notrevoked'', FormatBool (gcr_NotRevoked req)), (''notexpired'', FormatBool (gcr_NotExpired req)),
        (''ca'', gcr_CAName req)] ''result.certs'' cb"

definition Identity_Store :: "('k, 'n) cenv \<Rightarrow> Identity \<Rightarrow> ('k, 'n, unit) cop" where
  "Identity_Store E i =
     seqE (unlessE (id_client i) (PlainErr ''An identity with no client may not be stored''))
     (forE (id_creds i) (cred_Store E))"

section \<open>Stored identities\<close>

lemma idemix_Load_quiet:
  "\<exists>r. attemptE (idemix_Load E c) w = (Inr r, w)"
  by (auto simp: idemix_Load_def attemptE_def bindE_def ReadFile_run throwE_def returnE_def split: option.splits)

lemma attemptE_ok: "m w = (Inr a, v) \<Longrightarrow> attemptE m w = (Inr (Inr a), v)"
  by (simp add: attemptE_def)

text \<open>C24: an identity that was enrolled and stored is found again.  The client then counts as enrolled, and loading its
  identity gives the stored credential first and the name of the certificate's subject, provided that the provider still
  finds the private key by the identifier of the certificate's public key.\<close>

theorem stored_identity_loads:
  assumes init: "cl_initialized (w_client w)" "cl_csp (w_client w)"
    and cred: "cred = \<lparr>xc_certFile = cl_certFile (w_client w), xc_keyFile = cl_keyFile (w_client w), xc_val = Some s\<rparr>"
    and signer: "NewSigner E key pem = Inr s"
    and store: "Identity_Store E (newIdentity nm [X509Cred cred]) w = (Inr u, v)"
    and parse: "ce_ParseCertificatePEM E pem = Some (sg_cert s)"
    and pub: "csp_KeyImport (pv_csp (ce_provider E)) (sg_cert s) = Some pk"
    and found: "pv_GetKey (ce_provider E) (w_keys w) (pv_SKI (ce_provider E) pk) = Some (key, True)"
      "pv_newSigner (ce_provider E) key"
  shows "\<exists>creds. LoadMyIdentity E v = (Inr (newIdentity (x_CommonName (sg_cert s)) (X509Cred cred # creds)), v) \<and>
    CheckEnrollment E v = (Inr (), v)"
proof -
  have st: "x509_Store E cred w = (Inr (), v)"
    using store by (auto simp: Identity_Store_def newIdentity_def em_simps)
  have "x509_kept E cred w"
    using init cred signer parse pub found by (auto simp: x509_kept_def)
  from x509_disk.attempt_load [OF this st]
  have load: "attemptE (x509_Load E (NewX509Credential (cl_certFile (w_client w)) (cl_keyFile (w_client w)))) v = (Inr (Inr cred), v)"
    by (simp add: cred)
  have "sg_certBytes s = pem" using signer by (auto simp: NewSigner_def)
  then have v: "w_files v = (w_files w)(cl_certFile (w_client w) \<mapsto> pem)" "w_keys v = w_keys w" "w_client v = w_client w"
    using x509_disk.store_files [OF st] st WriteFile_Inr [of E "cl_certFile (w_client w)" pem w "()" v]
    by (simp_all add: x509_Store_def mapErrE_Inr cred)
  have nm: "sg_name s = x_CommonName (sg_cert s)" using signer by (auto simp: NewSigner_def GetEnrollmentIDFromX509Certificate_def)
  obtain y where y: "attemptE (idemix_Load E (NewIdemixCredential (cl_idemixCredFile (w_client w)))) v = (Inr y, v)"
    using idemix_Load_quiet by blast
  have ini: "Init E v = (Inr (), v)" using Init_again [of v E] init v(3) by simp
  have "LoadMyIdentity E v = (Inr (newIdentity (x_CommonName (sg_cert s))
      (X509Cred cred # (case y of Inl _ \<Rightarrow> [] | Inr c \<Rightarrow> [IdemixCred c]))), v)"
    using load y v(3) nm cred
    by (simp add: LoadMyIdentity_def LoadIdentity_def seqE_def bindE_def ini getE_def NewIdentity_def x509_EnrollmentID_def liftE_def Let_def)
  moreover have "checkX509Enrollment E v = (Inr (), v)"
  proof -
    have "GetSignerFromCertFile E (cl_certFile (w_client w)) (ce_provider E) v = (Inr (key, sg_cert s), v)"
      by (rule GetSignerFromCertFile_found [OF _ parse pub _ found(2)]) (use v found in simp_all)
    from attemptE_ok [of "GetSignerFromCertFile E (cl_certFile (w_client w)) (ce_provider E)", OF this] show ?thesis
      using v by (simp add: checkX509Enrollment_def bindE_def getE_def FileExists_def returnE_def)
  qed
  then have "CheckEnrollment E v = (Inr (), v)"
  proof -
    have "\<exists>r. attemptE (checkIdemixEnrollment E) v = (Inr r, v)"
      by (auto simp: checkIdemixEnrollment_def verifyIdemixCredential_def getIssuerPubKey_def attemptE_def bindE_def getE_def
          FileExists_def mapErrE_def ReadFile_run throwE_def returnE_def split: option.splits)
    then show ?thesis
      using attemptE_ok [of "checkX509Enrollment E", OF \<open>checkX509Enrollment E v = (Inr (), v)\<close>] ini
      by (auto simp: CheckEnrollment_def seqE_def bindE_def returnE_def)
  qed
  ultimately show ?thesis by blast
qed

lemma toy_store:
  "\<not> isl (fst (Identity_Store toy_cenv (newIdentity ''alice'' [X509Cred \<lparr>xc_certFile = ''/home/msp/signcerts/cert.pem'',
     xc_keyFile = ''/home/msp/keystore/key.pem'',
     xc_val = Some \<lparr>sg_key = 3, sg_certBytes = ''pem'', sg_cert = toy_cert, sg_name = ''alice''\<rparr>\<rparr>]) toy_world))"
  by code_simp

theorem stored_identity_loads_witness:
  "\<exists>i v. LoadMyIdentity toy_cenv v = (Inr i, v) \<and> id_name i = ''alice'' \<and> CheckEnrollment toy_cenv v = (Inr (), v)"
proof -
  let ?s = "\<lparr>sg_key = 3, sg_certBytes = ''pem'', sg_cert = toy_cert, sg_name = ''alice''\<rparr>"
  let ?c = "\<lparr>xc_certFile = ''/home/msp/signcerts/cert.pem'', xc_keyFile = ''/home/msp/keystore/key.pem'', xc_val = Some ?s\<rparr>"
  obtain v where run: "Identity_Store toy_cenv (newIdentity ''alice'' [X509Cred ?c]) toy_world = (Inr (), v)"
    using toy_store
    by (cases "Identity_Store toy_cenv (newIdentity ''alice'' [X509Cred ?c]) toy_world";
        cases "fst (Identity_Store toy_cenv (newIdentity ''alice'' [X509Cred ?c]) toy_world)") auto
  have "\<exists>creds. LoadMyIdentity toy_cenv v = (Inr (newIdentity (x_CommonName (sg_cert ?s)) (X509Cred ?c # creds)), v) \<and>
      CheckEnrollment toy_cenv v = (Inr (), v)"
    by (rule stored_identity_loads [OF _ _ _ _ run, where key = 3 and pem = "''pem''" and pk = 7])
      (simp_all add: toy_world_def toy_cenv_def toy_provider_def toy_csp_def toy_cert_def NewSigner_def
        GetX509CertificateFromPEM_def GetEnrollmentIDFromX509Certificate_def)
  then obtain creds where "LoadMyIdentity toy_cenv v = (Inr (newIdentity (x_CommonName toy_cert) (X509Cred ?c # creds)), v)"
      "CheckEnrollment toy_cenv v = (Inr (), v)"
    by auto
  moreover have "id_name (newIdentity (x_CommonName toy_cert) (X509Cred ?c # creds)) = ''alice''"
    by (simp add: newIdentity_def toy_cert_def)
  ultimately show ?thesis by blast
qed

end
