(* ===== verification/Client_Server.thy ===== *)
theory Client_Server
  imports Client_Identity Server_Dispatch
begin

text \<open>
  The client library and the server together: what the client puts into a request is what the server's
  authentication looks for.
\<close>

section \<open>A request on its way\<close>

text \<open>The request of the client as the server's handlers see it; \<open>vars\<close> are the variables that the router found in the path.\<close>

definition served :: "http_request \<Rightarrow> (string \<times> string) list \<Rightarrow> request" where
  "served q vars = \<lparr>req_Method = hq_Method q, req_Authorization = hq_Authorization q, req_Query = hq_Query q,
     req_Vars = Some vars, req_Body = Some (hq_Body q)\<rparr>"

section \<open>Authentication by password\<close>

lemma strings_ToLower_Basic: "strings_ToLower ''Basic '' = ''basic ''"
  by code_simp

text \<open>Basic authentication.  The server reads back exactly the name and the password that the client put into the
  header, for every name without a colon and every password; a name with a colon is cut at its first colon.\<close>

theorem BasicAuth_SetBasicAuth:
  "BasicAuth (hq_Authorization (SetBasicAuth username password req)) =
     (if CHR '':'' \<in> set username
      then Some (takeWhile (\<lambda>c. c \<noteq> CHR '':'') username,
                 tl (dropWhile (\<lambda>c. c \<noteq> CHR '':'') username) @ CHR '':'' # password)
      else Some (username, password))"
proof -
  have hdr: "hq_Authorization (SetBasicAuth username password req) = ''Basic '' @ B64Encode (username @ CHR '':'' # password)"
    by (simp add: SetBasicAuth_def)
  have "BasicAuth (''Basic '' @ B64Encode (username @ CHR '':'' # password)) =
      Some (takeWhile (\<lambda>c. c \<noteq> CHR '':'') (username @ CHR '':'' # password),
            tl (dropWhile (\<lambda>c. c \<noteq> CHR '':'') (username @ CHR '':'' # password)))"
    using strings_ToLower_Basic by (simp add: BasicAuth_def)
  moreover have "takeWhile (\<lambda>c. c \<noteq> CHR '':'') (username @ CHR '':'' # password) = takeWhile (\<lambda>c. c \<noteq> CHR '':'') username"
    "dropWhile (\<lambda>c. c \<noteq> CHR '':'') (username @ CHR '':'' # password) =
       dropWhile (\<lambda>c. c \<noteq> CHR '':'') username @ CHR '':'' # password"
    by (induction username) auto
  moreover have "CHR '':'' \<in> set username \<Longrightarrow> dropWhile (\<lambda>c. c \<noteq> CHR '':'') username \<noteq> []"
    by (induction username) auto
  moreover have "CHR '':'' \<notin> set username \<Longrightarrow> takeWhile (\<lambda>c. c \<noteq> CHR '':'') username = username \<and> dropWhile (\<lambda>c. c \<noteq> CHR '':'') username = []"
    by (induction username) auto
  ultimately show ?thesis unfolding hdr
    by (cases "CHR '':'' \<in> set username") (auto simp: tl_append split: list.splits)
qed

section \<open>Authentication by token\<close>

text \<open>A token made with one provider and verified with another.\<close>

definition agrees :: "bccsp \<Rightarrow> nat \<Rightarrow> bccsp \<Rightarrow> X509 \<Rightarrow> bool" where
  "agrees csp key csp' cert \<longleftrightarrow>
     csp_Hash csp' = csp_Hash csp \<and>
     (\<exists>pk. csp_KeyImport csp' cert = Some pk \<and>
        (\<forall>digest sig. csp_Sign csp key digest = Some sig \<longrightarrow> csp_Verify csp' pk sig digest = Some True)) \<and>
     (\<exists>x. x_PublicKey cert = ECDSAKey x)"

lemma token_accepted:
  assumes ag: "agrees csp key csp' cert" and parse: "parse pem = Some cert"
    and token: "CreateToken parse csp pem key body = Inr token"
  shows "VerifyToken parse (Some csp') token body = Inr cert \<and> \<not> IsToken token \<and> token \<noteq> []"
proof -
  from token parse ag obtain digest sig where
      hash: "csp_Hash csp' (sigString body (B64Encode pem)) = Some digest"
    and sig: "csp_Sign csp key digest = Some sig"
    and tok: "token = B64Encode pem @ CHR ''.'' # B64Encode sig"
    by (auto simp: agrees_def CreateToken_def GetX509CertificateFromPEM_def GenECDSAToken_def sigString_def Let_def
        split: option.splits if_splits)
  obtain pk where pk: "csp_KeyImport csp' cert = Some pk" "csp_Verify csp' pk sig digest = Some True"
    using ag sig by (auto simp: agrees_def)
  have "DecodeToken parse token = Inr (cert, B64Encode pem, B64Encode sig)"
    using parse by (simp add: DecodeToken_Inr tok)
  then have "VerifyToken parse (Some csp') token body = Inr cert"
    unfolding VerifyToken_Inr using pk hash by (metis B64Decode_Encode)
  then show ?thesis
    by (simp add: IsToken_def getTokenParts_def tok split_token)
qed

lemma GetCA_found:
  assumes "ctx_ca (st_ctx s) = None" and name: "getCAName S s = (Inr n, t)" and "st_cas s n = Some ca" and "db_ready (ca_db ca)"
  shows "GetCA S s = (Inr (), t\<lparr>st_ctx := (st_ctx t)\<lparr>ctx_ca := Some n\<rparr>\<rparr>)"
proof -
  have t: "core t = core s" "ctx_ca (st_ctx t) = None"
    using same_getCAName [OF name] assms(1) by (auto simp: same_core_def)
  have "st_cas t n = Some ca" using core_fields(1) [OF t(1)] assms(3) by simp
  then show ?thesis
    using assms name t(2)
    by (simp add: GetCA_def getCA_def Server_GetCA_def caE_def db_ready_def em_defs)
qed

definition known_user :: "sqldb \<Rightarrow> string \<Rightarrow> UserRecord \<Rightarrow> bool" where
  "known_user d uid r \<longleftrightarrow> (\<exists>rs. filter (is_user uid) (db_users d) = r # rs)"

definition good_certificate :: "sqldb \<Rightarrow> X509 \<Rightarrow> bool" where
  "good_certificate d cert \<longleftrightarrow>
     (certSerial cert, certAKI cert) \<in> cert_key ` set (db_certificates d) - revoked_keys d"

lemma verifyX509Token_run:
  assumes vt: "VerifyToken (e_parse S) (e_csp S) hdr body = Inr cert"
    and cert: "e_VerifyCertificate S n cert" "e_revoke S cert = (False, True)" "x_CommonName cert \<noteq> []"
    and ca: "ctx_ca (st_ctx s) = Some n" "st_cas s n = Some ca" and ready: "db_ready (ca_db ca)" "no_faults (ca_db ca)"
    and good: "good_certificate (ca_db ca) cert" and user: "known_user (ca_db ca) (x_CommonName cert) r"
    and fresh: "ctx_caller (st_ctx s) = None"
  shows "\<exists>s' d. verifyX509Token S n hdr body s = (Inr (x_CommonName cert), s') \<and>
    serving s' n (ca\<lparr>ca_db := d\<rparr>) (newDBUser r) \<and> tables d = tables (ca_db ca) \<and>
    ctx_enrollmentID (st_ctx s') = x_CommonName cert \<and> ctx_enrollmentCert (st_ctx s') = Some cert"
proof -
  let ?certs = "filter (is_cert (certSerial cert) (certAKI cert)) (db_certificates (ca_db ca))"
  have "?certs \<noteq> []" using good by (auto simp: good_certificate_def filter_empty_conv)
  moreover have "cr_Status c \<noteq> ''revoked''" if "c \<in> set ?certs" for c
  proof
    assume "cr_Status c = ''revoked''"
    with that have "(certSerial cert, certAKI cert) \<in> revoked_keys (ca_db ca)" by (force simp: revoked_keys_def)
    then show False using good by (simp add: good_certificate_def)
  qed
  ultimately have certs: "?certs \<noteq> []" "\<forall>c \<in> set ?certs. cr_Status c \<noteq> ''revoked''" by blast+
  let ?d = "pop (ca_db ca)"
  let ?s1 = "s\<lparr>st_cas := (st_cas s)(n \<mapsto> ca\<lparr>ca_db := ?d\<rparr>)\<rparr>"
  let ?s2 = "?s1\<lparr>st_ctx := (st_ctx s)\<lparr>ctx_enrollmentID := x_CommonName cert, ctx_enrollmentCert := Some cert\<rparr>\<rparr>"
  let ?s3 = "?s2\<lparr>st_cas := (st_cas ?s2)(n \<mapsto> ca\<lparr>ca_db := pop ?d\<rparr>),
      st_ctx := (st_ctx ?s2)\<lparr>ctx_caller := Some (newDBUser r)\<rparr>\<rparr>"
  have get: "dbE (GetCertificate (certSerial cert) (certAKI cert)) s = (Inr ?certs, ?s1)"
    using ca ready by (auto simp: dbE_Inr GetCertificate_def em_simps db_ready_def)
  have "GetCA S ?s2 = (Inr (), ?s2)"
    using ca ready by (intro GetCA_ready [of _ n "ca\<lparr>ca_db := ?d\<rparr>"]) (simp_all add: db_ready_def)
  moreover have "dbE (GetUser (x_CommonName cert)) ?s2 = (Inr (newDBUser r), ?s2\<lparr>st_cas := (st_cas ?s2)(n \<mapsto> ca\<lparr>ca_db := pop ?d\<rparr>)\<rparr>)"
    using ca ready user by (auto simp: dbE_Inr GetUser_Inr db_ready_def known_user_def)
  ultimately have caller: "GetCaller S ?s2 = (Inr (newDBUser r), ?s3)"
    using fresh cert(3) by (simp add: GetCaller_def bindE_def seqE_def mapErrE_def getE_def modifyE_def returnE_def)
  have "verifyX509Token S n hdr body s = (Inr (x_CommonName cert), ?s3)"
    using vt cert get certs caller
    by (simp add: verifyX509Token_def bindE_def seqE_def mapErrE_def liftE_def unlessE_def modifyE_def returnE_def
        GetEnrollmentIDFromX509Certificate_def Let_def)
  then show ?thesis
    using ca by (intro exI [of _ ?s3] exI [of _ "pop ?d"]) (simp add: serving_def)
qed

text \<open>C8: a request of an enrolled identity is authenticated.  Take an identity whose first credential is an X.509
  credential, and a request to which the client adds the token for its body.  When the server parses certificates and verifies
  signatures as the client makes them, the targeted CA exists, its chain verifies the certificate, which is in its database and
  not revoked or expired, and the subject of the certificate is registered there, then the server's token authentication
  accepts the request and the caller is the identity that the certificate names.\<close>

theorem client_request_authenticated:
  assumes built: "addTokenAuthHdr E i (hq_Body req) req w = (Inr req', w')"
    and cred: "id_creds i = X509Cred c # cs" "xc_val c = Some s" "NewSigner E key pem = Inr s"
    and csp: "e_csp S = Some csp" "e_parse S = ce_parse E"
      "agrees (pv_csp (if cl_csp (w_client w) then ce_provider E else ce_default E)) key csp (sg_cert s)"
    and st: "st_ctx st = newServerRequestContext (served req' vars)"
    and ca: "getCAName S st = (Inr n, t)" "st_cas st n = Some ca" "db_ready (ca_db ca)" "no_faults (ca_db ca)"
    and cert: "e_VerifyCertificate S n (sg_cert s)" "e_revoke S (sg_cert s) = (False, True)" "x_CommonName (sg_cert s) \<noteq> []"
      "good_certificate (ca_db ca) (sg_cert s)" "known_user (ca_db ca) (x_CommonName (sg_cert s)) r"
  shows "\<exists>st' d. TokenAuthentication S st = (Inr (x_CommonName (sg_cert s)), st') \<and>
    serving st' n (ca\<lparr>ca_db := d\<rparr>) (newDBUser r) \<and> tables d = tables (ca_db ca) \<and>
    ctx_enrollmentCert (st_ctx st') = Some (sg_cert s)"
proof -
  let ?p = "if cl_csp (w_client w) then ce_provider E else ce_default E"
  have s: "ce_parse E pem = Some (sg_cert s)" "sg_certBytes s = pem" "sg_key s = key"
    using cred(3) by (auto simp: NewSigner_def GetX509CertificateFromPEM_def split: option.splits)
  obtain token where tok: "CreateToken (ce_parse E) (pv_csp ?p) pem key (hq_Body req) = Inr token"
    and req': "req' = req\<lparr>hq_Authorization := token\<rparr>"
    using built cred s
    by (auto simp: addTokenAuthHdr_def bindE_Inr mapErrE_Inr x509_CreateToken_def getCSP_def liftE_Inr simp del: liftE_eq)
  have v: "VerifyToken (e_parse S) (e_csp S) token (hq_Body req) = Inr (sg_cert s)" "\<not> IsToken token" "token \<noteq> []"
    using token_accepted [OF csp(3) s(1) tok] csp by simp_all
  let ?t = "t\<lparr>st_ctx := (st_ctx t)\<lparr>ctx_ca := Some n\<rparr>\<rparr>"
  have fresh: "ctx_ca (st_ctx st) = None" "ctx_ok (st_ctx st)" "ctx_caller (st_ctx st) = None"
    using st by (simp_all add: newServerRequestContext_def ctx_ok_def)
  have get: "GetCA S st = (Inr (), ?t)" by (rule GetCA_found [OF fresh(1) ca(1,2,3)])
  have core: "core ?t = core st" "ctx_ok (st_ctx ?t)"
    using same_getCAName [OF ca(1)] fresh(2) by (auto simp: same_core_def ctx_ok_def)
  note f = core_fields [OF core(1)]
  have body: "req_Body (ctx_req (st_ctx ?t)) = Some (hq_Body req)" using f(5) st req' by (simp add: served_def newServerRequestContext_def)
  let ?u = "?t\<lparr>st_ctx := (st_ctx ?t)\<lparr>ctx_body := Some (Some (hq_Body req))\<rparr>\<rparr>"
  have read: "ReadBodyBytes ?t = (Inr (hq_Body req), ?u)"
  proof -
    obtain b u where "ReadBodyBytes ?t = (Inr b, u)"
      using body core(2) by (cases "ctx_body (st_ctx ?t)") (auto simp: ReadBodyBytes_def em_defs ctx_ok_def)
    then show ?thesis using ReadBodyBytes_Inr [of ?t b u] core(2) body by simp
  qed
  have hdr: "req_Authorization (ctx_req (st_ctx st)) = token" using st req' by (simp add: served_def newServerRequestContext_def)
  obtain st' d where run: "verifyX509Token S n token (hq_Body req) ?u = (Inr (x_CommonName (sg_cert s)), st')"
    and st': "serving st' n (ca\<lparr>ca_db := d\<rparr>) (newDBUser r)" "tables d = tables (ca_db ca)"
      "ctx_enrollmentCert (st_ctx st') = Some (sg_cert s)"
    using verifyX509Token_run [OF v(1) cert(1,2,3) _ _ ca(3,4) cert(4,5), of ?u] f(1,6) ca(2) fresh(3) by auto
  have "TokenAuthentication S st = (Inr (x_CommonName (sg_cert s)), st')"
    using v(2,3) get read run
    by (simp add: TokenAuthentication_def bindE_def seqE_def getE_def unlessE_def returnE_def hdr)
  then show ?thesis using st' by blast
qed

section \<open>Witness\<close>

definition toy_identity :: Identity where
  "toy_identity = newIdentity ''alice'' [X509Cred \<lparr>xc_certFile = ''/home/msp/signcerts/cert.pem'',
     xc_keyFile = ''/home/msp/keystore/key.pem'',
     xc_val = Some \<lparr>sg_key = 3, sg_certBytes = ''pem'', sg_cert = toy_cert, sg_name = ''alice''\<rparr>\<rparr>]"

definition toy_request :: http_request where
  "toy_request = \<lparr>hq_Method = ''POST'', hq_URL = ''http://localhost:7054/register'', hq_Query = [], hq_Authorization = [], hq_Body = ''{}''\<rparr>"

lemma toy_built: "\<not> isl (fst (addTokenAuthHdr toy_cenv toy_identity (hq_Body toy_request) toy_request toy_world))"
  by code_simp

lemma example_CAName: "hq_Query q = [] \<Longrightarrow> hq_Body q = ''{}'' \<Longrightarrow>
  fst (getCAName example_env (example_state (served q vars))) = Inr ''ca''"
  by (simp add: getCAName_def GetQueryParm_def TryReadBody_def ReadBodyBytes_def em_defs example_state_def
      newServerRequestContext_def served_def example_env_def no_decoders_def)

theorem client_request_authenticated_witness:
  "\<exists>req' w'. addTokenAuthHdr toy_cenv toy_identity (hq_Body toy_request) toy_request toy_world = (Inr req', w') \<and>
     fst (TokenAuthentication example_env (example_state (served req' []))) = Inr ''alice''"
proof -
  obtain req' w' where built: "addTokenAuthHdr toy_cenv toy_identity (hq_Body toy_request) toy_request toy_world = (Inr req', w')"
    using toy_built
    by (cases "addTokenAuthHdr toy_cenv toy_identity (hq_Body toy_request) toy_request toy_world";
        cases "fst (addTokenAuthHdr toy_cenv toy_identity (hq_Body toy_request) toy_request toy_world)") auto
  then have q: "hq_Query req' = []" "hq_Body req' = ''{}''"
    by (auto simp: addTokenAuthHdr_def bindE_Inr toy_request_def)
  let ?st = "example_state (served req' [])"
  have name: "getCAName example_env ?st = (Inr ''ca'', snd (getCAName example_env ?st))"
    using example_CAName [OF q] by (simp add: prod_eq_iff)
  let ?s = "\<lparr>sg_key = 3, sg_certBytes = ''pem'', sg_cert = toy_cert, sg_name = ''alice''\<rparr>"
  have "\<exists>st' d. TokenAuthentication example_env ?st = (Inr (x_CommonName (sg_cert ?s)), st') \<and>
    serving st' ''ca'' (example_ca\<lparr>ca_db := d\<rparr>) (newDBUser alice) \<and> tables d = tables (ca_db example_ca) \<and>
    ctx_enrollmentCert (st_ctx st') = Some (sg_cert ?s)"
  proof (rule client_request_authenticated [OF built _ _ _ _ _ _ _ name, where key = 3 and pem = "''pem''" and csp = toy_csp and
        c = "\<lparr>xc_certFile = ''/home/msp/signcerts/cert.pem'', xc_keyFile = ''/home/msp/keystore/key.pem'', xc_val = Some ?s\<rparr>"])
    show "agrees (pv_csp (if cl_csp (w_client toy_world) then ce_provider toy_cenv else ce_default toy_cenv)) 3 toy_csp (sg_cert ?s)"
      by (simp add: agrees_def toy_cenv_def toy_provider_def toy_csp_def toy_cert_def)
    show "good_certificate (ca_db example_ca) (sg_cert ?s)" unfolding good_certificate_def by code_simp
    show "known_user (ca_db example_ca) (x_CommonName (sg_cert ?s)) alice"
      by (simp add: known_user_def example_ca_def example_db_def alice_def bob_def toy_cert_def)
  qed (simp_all add: toy_identity_def newIdentity_def NewSigner_def GetX509CertificateFromPEM_def toy_cenv_def toy_cert_def
      GetEnrollmentIDFromX509Certificate_def example_env_def example_parse_def example_state_def example_ca_def example_db_def empty_db_def db_ready_def no_faults_def fun_eq_iff)
  then show ?thesis using built by (auto simp: toy_cert_def)
qed

section \<open>Revoking one's own certificate\<close>

lemma char_ToLower_same:
  assumes "(of_char x :: nat) < 65"
  shows "char_ToLower c = x \<longleftrightarrow> c = x"
proof (cases "65 \<le> (of_char c :: nat) \<and> (of_char c :: nat) \<le> 90")
  case True
  have "char_ToLower c \<noteq> x"
  proof
    assume "char_ToLower c = x"
    then have "of_char (char_of ((of_char c :: nat) + 32)) = (of_char x :: nat)" using True by (simp add: char_ToLower_def)
    then show False using True assms by simp
  qed
  then show ?thesis using True assms by auto
qed (auto simp: char_ToLower_def)

lemma TrimLeft_ToLower: "strings_TrimLeft (strings_ToLower s) CHR ''0'' = strings_ToLower (strings_TrimLeft s CHR ''0'')"
  by (induction s) (simp_all add: strings_TrimLeft_def strings_ToLower_def char_ToLower_same)

lemma parseInput_plain:
  assumes "CHR '':'' \<notin> set s"
  shows "parseInput s = strings_ToLower (strings_TrimLeft s CHR ''0'')"
proof -
  have "CHR '':'' \<notin> set (strings_ToLower (strings_TrimLeft s CHR ''0''))"
    using assms set_dropWhileD [of "CHR '':''" "\<lambda>x. x = CHR ''0''" s]
    by (auto simp: strings_ToLower_def strings_TrimLeft_def char_ToLower_same dest!: sym [of "CHR '':''"])
  then show ?thesis by (auto simp: parseInput_def TrimLeft_ToLower strings_RemoveAll_def intro!: filter_True)
qed

lemma hex_digit_colon: "d < 16 \<Longrightarrow> hex_digit d \<noteq> CHR '':''"
proof
  assume "d < 16" and "hex_digit d = CHR '':''"
  then have "(of_char (hex_digit d) :: nat) = 58" by simp
  then show False using \<open>d < 16\<close> by (auto simp: hex_digit_def split: if_splits)
qed

lemma nat_hex_colon: "CHR '':'' \<notin> set (nat_hex n)"
  by (induction n rule: nat_hex.induct) (subst nat_hex.simps, auto simp: hex_digit_colon dest: sym)

lemma serial_colon: "CHR '':'' \<notin> set (GetSerialAsHex n)"
  by (simp add: GetSerialAsHex_def nat_hex_colon)

lemma hex_colon: "\<forall>b \<in> set bs. b < 256 \<Longrightarrow> CHR '':'' \<notin> set (hex_EncodeToString bs)"
  by (induction bs) (auto simp: hex_EncodeToString_def hex_byte_def dest!: sym [of "CHR '':''"] simp: hex_digit_colon less_mult_imp_div_less)

text \<open>What a client sends to revoke its own certificate names, for the server, the certificate that the request is authenticated with: no further
  authorisation is asked for.\<close>

lemma revoke_self_own_certificate:
  assumes "x509_revocation cred = Inr req" and "xc_val cred = Some s" and "\<forall>b \<in> set (x_AuthorityKeyId (sg_cert s)). b < 256"
  shows "(parseInput (rv_Serial req), parseInput (rv_AKI req)) = (certSerial (sg_cert s), certAKI (sg_cert s))"
  using assms by (auto simp: x509_revocation_def parseInput_plain serial_colon hex_colon certSerial_def certAKI_def)

lemma revoke_self_is_caller:
  assumes "x509_revocation cred = Inr req" and "xc_val cred = Some s" and "\<forall>b \<in> set (x_AuthorityKeyId (sg_cert s)). b < 256"
    and "ctx_enrollmentCert (st_ctx st) = Some (sg_cert s)"
  shows "callerKey st = (Inr (parseInput (rv_Serial req), parseInput (rv_AKI req)), st)"
  using revoke_self_own_certificate [OF assms(1-3)] assms(4) by (simp add: callerKey_def bindE_def getE_def returnE_def)

end
