(* ===== verification/CA_Material.thy ===== *)
theory CA_Material
  imports CA_Bootstrap Client_Identity
begin

text \<open>
  The configuration and the key material of a CA, \<open>lib/ca.go\<close>: the defaults of the configuration, the certificate of a
  root CA, which it signs itself, and of an intermediate CA, which enrolls with its parent server as a client
  (\<open>lib/clientconfig.go\<close>), the chain of certificates, and the certificates that the CA verifies others against.

  The state \<open>ca_boot\<close> is the CA while it starts: its home directory, its configuration, the remembered options of verification,
  and the files, keys and network of \<open>Client_World\<close>.  The part of the configuration that \<open>CA_Bootstrap\<close> uses is \<open>cs_CA\<close>.  The
  provider of the CA and that of its client are one, \<open>ce_provider\<close>.  The record \<open>caenv\<close> adds to the environment of
  a client what only a CA uses: CFSSL's creation of a root certificate, the environment variables, the parser of
  private key files, and the subject key identifier of a certificate.
\<close>

section \<open>Configuration\<close>

record CfgSigningProfile =
  csp_Usage :: "string list option"
  csp_Expiry :: int
  csp_IsCA :: bool
  csp_ExtensionWhitelist :: "string list option"

record Signing =
  sgn_Default :: "CfgSigningProfile option"
  sgn_Profiles :: "(string \<times> CfgSigningProfile) list option"

record ClientConfig =
  cc_URL :: string
  cc_MSPDir :: string
  cc_TLS :: ClientTLSConfig
  cc_Enrollment :: EnrollmentRequest
  cc_CSR :: CSRInfo
  cc_CAName :: string
  cc_CSP :: "FactoryOpts option"

record CASetup =
  cs_CA :: CAConfig
  cs_Certfile :: string
  cs_Keyfile :: string
  cs_Chainfile :: string
  cs_Signing :: "Signing option"
  cs_CSR :: CSRInfo
  cs_CSP :: "FactoryOpts option"
  cs_Client :: "ClientConfig option"
  cs_ParentURL :: string
  cs_ParentCAName :: string
  cs_IntermediateTLS :: ClientTLSConfig
  cs_Enrollment :: EnrollmentRequest
  cs_DBTLS :: ClientTLSConfig
  cs_LDAPTLS :: ClientTLSConfig

text \<open>The zero values.\<close>

definition no_TLS :: ClientTLSConfig where
  "no_TLS = \<lparr>tls_Enabled = False, tls_CertFiles = [], tls_CertFile = [], tls_KeyFile = []\<rparr>"

definition no_CSR :: CSRInfo where
  "no_CSR = \<lparr>csri_CN = [], csri_Names = None, csri_Hosts = None, csri_KeyRequest = None, csri_CA = None, csri_SerialNumber = []\<rparr>"

definition no_Enrollment :: EnrollmentRequest where
  "no_Enrollment = \<lparr>enr_Name = [], enr_Secret = [], enr_CAName = [], enr_AttrReqs = None, enr_Profile = [], enr_Label = [],
     enr_CSR = None, enr_Type = []\<rparr>"

definition no_ClientConfig :: ClientConfig where
  "no_ClientConfig = \<lparr>cc_URL = [], cc_MSPDir = [], cc_TLS = no_TLS, cc_Enrollment = no_Enrollment, cc_CSR = no_CSR,
     cc_CAName = [], cc_CSP = None\<rparr>"

definition new_CAConfig :: CASetup where
  "new_CAConfig = \<lparr>cs_CA = \<lparr>cfg_Version = [], cfg_Name = [], cfg_DBType = [], cfg_MaxEnrollments = - 1, cfg_Identities = [],
       cfg_Affiliations = AffNil, cfg_Identities_AllowRemove = False, cfg_Affiliations_AllowRemove = False, cfg_CRL_Expiry = 0\<rparr>,
     cs_Certfile = [], cs_Keyfile = [], cs_Chainfile = [], cs_Signing = None, cs_CSR = no_CSR, cs_CSP = None, cs_Client = None,
     cs_ParentURL = [], cs_ParentCAName = [], cs_IntermediateTLS = no_TLS, cs_Enrollment = no_Enrollment, cs_DBTLS = no_TLS, cs_LDAPTLS = no_TLS\<rparr>"

text \<open>The pools of root and intermediate certificates; a pool that was never made is undefined.\<close>

type_synonym pools = "X509 list option \<times> X509 list option"

record ('k, 'n) ca_boot =
  cb_HomeDir :: string
  cb_Config :: "CASetup option"
  cb_levels :: "Levels option"
  cb_verifyOptions :: "pools option"
  cb_world :: "('k, 'n) world"

record ('k, 'n) caenv =
  kv_client :: "('k, 'n) cenv"
  kv_NewFromSigner :: "nat \<Rightarrow> CertificateRequest \<Rightarrow> string option"
  kv_LookupEnv :: "string \<Rightarrow> string option"
  kv_privateKey :: "string \<Rightarrow> go_error + PublicKey"
  kv_SubjectKeyId :: "X509 \<Rightarrow> nat list"
  kv_serverVersion :: string

type_synonym ('k, 'n, 'a) caop = "(('k, 'n) ca_boot, go_error, 'a) em"

definition cfgE :: "(CASetup, go_error, 'a) em \<Rightarrow> ('k, 'n, 'a) caop" where
  "cfgE m s =
     (case cb_Config s of
        None \<Rightarrow> (Inl (GoPanic ''nil pointer''), s)
      | Some c \<Rightarrow> (case m c of (r, c') \<Rightarrow> (r, s\<lparr>cb_Config := Some c'\<rparr>)))"

definition worldE :: "('k, 'n, 'a) cop \<Rightarrow> ('k, 'n, 'a) caop" where
  "worldE = zoomE cb_world (\<lambda>w s. s\<lparr>cb_world := w\<rparr>)"

section \<open>Defaults\<close>

definition defaultRootCACertificateExpiration :: string where
  "defaultRootCACertificateExpiration = ''131400h''"

text \<open>Durations in nanoseconds.\<close>

definition defaultIntermediateCACertificateExpiration :: int where
  "defaultIntermediateCACertificateExpiration = 43800 * 3600 * 1000000000"

definition defaultIssuedCertificateExpiration :: int where
  "defaultIssuedCertificateExpiration = 8760 * 3600 * 1000000000"

definition initSigningProfile :: "CfgSigningProfile option \<Rightarrow> int \<Rightarrow> bool \<Rightarrow> CfgSigningProfile" where
  "initSigningProfile spp expiry isCA =
     (let sp = (case spp of
            None \<Rightarrow> \<lparr>csp_Usage = None, csp_Expiry = 0, csp_IsCA = isCA, csp_ExtensionWhitelist = None\<rparr> | Some sp \<Rightarrow> sp);
          sp1 = (if csp_Usage sp = None then sp\<lparr>csp_Usage := Some [''cert sign'', ''crl sign'']\<rparr> else sp);
          sp2 = (if csp_Expiry sp1 = 0 then sp1\<lparr>csp_Expiry := expiry\<rparr> else sp1);
          allowed = (case csp_ExtensionWhitelist sp2 of None \<Rightarrow> [] | Some l \<Rightarrow> l) in
      sp2\<lparr>csp_ExtensionWhitelist := Some (List.insert ''1.2.3.4.5.6.7.8.1'' allowed)\<rparr>)"

definition initSigning :: "Signing option \<Rightarrow> Signing" where
  "initSigning signing =
     (let cs = (case signing of None \<Rightarrow> \<lparr>sgn_Default = None, sgn_Profiles = None\<rparr> | Some s \<Rightarrow> s);
          profiles = (case sgn_Profiles cs of None \<Rightarrow> [] | Some ps \<Rightarrow> ps);
          profiles1 = AList.update ''ca'' (initSigningProfile (map_of profiles ''ca'') defaultIntermediateCACertificateExpiration True) profiles;
          profiles2 = AList.update ''tls'' (initSigningProfile (map_of profiles1 ''tls'') defaultIssuedCertificateExpiration False) profiles1 in
      cs\<lparr>sgn_Default := Some (initSigningProfile (sgn_Default cs) defaultIssuedCertificateExpiration False), sgn_Profiles := Some profiles2\<rparr>)"

definition orDefault :: "string \<Rightarrow> string \<Rightarrow> string" where
  "orDefault d f = (if f = [] then d else f)"

definition caCSR :: "CSRInfo \<Rightarrow> CSRInfo" where
  "caCSR csr =
     (let ca = (case csri_CA csr of None \<Rightarrow> \<lparr>cac_PathLength = 0, cac_PathLenZero = False, cac_Expiry = []\<rparr> | Some ca \<Rightarrow> ca) in
      csr\<lparr>csri_CA := Some (ca\<lparr>cac_Expiry := orDefault defaultRootCACertificateExpiration (cac_Expiry ca)\<rparr>)\<rparr>)"

definition configDefaults :: "CASetup \<Rightarrow> CASetup" where
  "configDefaults cfg =
     cfg\<lparr>cs_CA := (cs_CA cfg)\<lparr>cfg_Version := orDefault ''0'' (cfg_Version (cs_CA cfg))\<rparr>,
         cs_Certfile := orDefault ''ca-cert.pem'' (cs_Certfile cfg), cs_Keyfile := orDefault ''ca-key.pem'' (cs_Keyfile cfg),
         cs_Chainfile := orDefault ''ca-chain.pem'' (cs_Chainfile cfg), cs_CSR := caCSR (cs_CSR cfg),
         cs_Signing := Some (initSigning (cs_Signing cfg))\<rparr>"

text \<open>The slice that results from an empty one is nil.\<close>

definition normalizeSlice :: "string list option \<Rightarrow> string list option" where
  "normalizeSlice l = (case NormalizeStringSlice (case l of None \<Rightarrow> [] | Some l \<Rightarrow> l) of [] \<Rightarrow> None | l' \<Rightarrow> Some l')"

definition normalizeStringSlices :: "CASetup \<Rightarrow> CASetup" where
  "normalizeStringSlices cfg =
     cfg\<lparr>cs_CSR := (cs_CSR cfg)\<lparr>csri_Hosts := normalizeSlice (csri_Hosts (cs_CSR cfg))\<rparr>,
         cs_DBTLS := (cs_DBTLS cfg)\<lparr>tls_CertFiles := NormalizeStringSlice (tls_CertFiles (cs_DBTLS cfg))\<rparr>,
         cs_LDAPTLS := (cs_LDAPTLS cfg)\<lparr>tls_CertFiles := NormalizeStringSlice (tls_CertFiles (cs_LDAPTLS cfg))\<rparr>\<rparr>"

definition CA_initConfig :: "('k, 'n) caenv \<Rightarrow> ('k, 'n, unit) caop" where
  "CA_initConfig V =
     bindE (getE cb_HomeDir) (\<lambda>home.
     seqE (if home \<noteq> [] then returnE ()
           else (case ce_wd (kv_client V) of
                   None \<Rightarrow> throwE (WithCause (PlainErr ''getwd''))
                 | Some d \<Rightarrow> modifyE (\<lambda>s. s\<lparr>cb_HomeDir := d\<rparr>)))
     (seqE (modifyE (\<lambda>s. s\<lparr>cb_Config := Some (case cb_Config s of None \<Rightarrow> new_CAConfig | Some c \<Rightarrow> c)\<rparr>))
     (seqE (cfgE (modifyE configDefaults))
     (bindE (cfgE (getE (\<lambda>c. cfg_Version (cs_CA c)))) (\<lambda>version.
      bindE (liftE (checkConfigLevels (kv_serverVersion V) version)) (\<lambda>levels.
      seqE (modifyE (\<lambda>s. s\<lparr>cb_levels := levels\<rparr>))
      (cfgE (modifyE normalizeStringSlices))))))))"

definition absCAFiles :: "string option \<Rightarrow> string \<Rightarrow> (CASetup, go_error, unit) em" where
  "absCAFiles wd home cfg =
     (case MakeFileNamesAbsolute wd home [cs_Certfile cfg, cs_Keyfile cfg, cs_Chainfile cfg] of
        (r, [a, b, c]) \<Rightarrow> (r, cfg\<lparr>cs_Certfile := a, cs_Keyfile := b, cs_Chainfile := c\<rparr>)
      | (r, _) \<Rightarrow> (r, cfg))"

definition CA_makeFileNamesAbsolute :: "('k, 'n) caenv \<Rightarrow> ('k, 'n, unit) caop" where
  "CA_makeFileNamesAbsolute V =
     (let wd = ce_wd (kv_client V) in
      bindE (getE cb_HomeDir) (\<lambda>home.
      seqE (cfgE (absCAFiles wd home))
      (seqE (cfgE (zoomE cs_DBTLS (\<lambda>t c. c\<lparr>cs_DBTLS := t\<rparr>) (AbsTLSClient wd home)))
      (cfgE (zoomE cs_LDAPTLS (\<lambda>t c. c\<lparr>cs_LDAPTLS := t\<rparr>) (AbsTLSClient wd home))))))"

section \<open>The client of an intermediate CA\<close>

definition new_Client :: "ClientConfig \<Rightarrow> string \<Rightarrow> Client_state" where
  "new_Client c home =
     \<lparr>cl_HomeDir = home, cl_URL = cc_URL c, cl_MSPDir = cc_MSPDir c, cl_initialized = False, cl_keyFile = [], cl_certFile = [],
      cl_idemixCredFile = [], cl_idemixCredsDir = [], cl_ipkFile = [], cl_caCertsDir = [], cl_csp = False, cl_TLS = cc_TLS c, cl_CSP = cc_CSP c\<rparr>"

text \<open>The configuration is passed by value: every caller sets the fields that are changed here before it uses them again.\<close>

definition ClientConfig_Enroll :: "('k, 'n) cenv \<Rightarrow> ClientConfig \<Rightarrow> string \<Rightarrow> string \<Rightarrow> ('k, 'n, EnrollmentResponse) cop" where
  "ClientConfig_Enroll E c rawurl home =
     (case ce_urlParse E rawurl of
        None \<Rightarrow> throwE (PlainErr ''parse'')
      | Some purl \<Rightarrow>
          (let enr = (case u_User purl of
                 None \<Rightarrow> cc_Enrollment c
               | Some (user, secret) \<Rightarrow>
                   (cc_Enrollment c)\<lparr>enr_Name := user, enr_Secret := (case secret of None \<Rightarrow> [] | Some p \<Rightarrow> p)\<rparr>) in
           if enr_Name enr = [] then throwE (PlainErr ''The URL of the fabric CA server is missing the enrollment ID and secret'')
           else
             (let c' = c\<lparr>cc_URL := ce_urlString E (purl\<lparr>u_User := None\<rparr>), cc_TLS := (cc_TLS c)\<lparr>tls_Enabled := u_Scheme purl = ''https''\<rparr>\<rparr> in
              seqE (setClient (\<lambda>_. new_Client c' home))
              (Enroll E (enr\<lparr>enr_CAName := cc_CAName c, enr_CSR := Some (cc_CSR c)\<rparr>)))))"

definition ClientConfig_GenCSR :: "('k, 'n) cenv \<Rightarrow> ClientConfig \<Rightarrow> string \<Rightarrow> ('k, 'n, unit) cop" where
  "ClientConfig_GenCSR E c home =
     seqE (setClient (\<lambda>_. new_Client c home))
     (seqE (Init E)
     (seqE (unlessE (csri_CN (cc_CSR c) \<noteq> []) (PlainErr ''CSR common name not specified''))
     (bindE (GenCSR E (Some (cc_CSR c)) (csri_CN (cc_CSR c))) (\<lambda>(csrPEM, key).
      bindE (clientE cl_MSPDir) (\<lambda>mspDir.
      mapErrE WithCause (WriteFile E (path_Join [mspDir, ''signcerts'', csri_CN (cc_CSR c) @ ''.csr'']) csrPEM))))))"

section \<open>Certificates and chains\<close>

definition concatChain :: "('k, 'n) caenv \<Rightarrow> string \<Rightarrow> string \<Rightarrow> string result" where
  "concatChain V chain cert =
     (case kv_LookupEnv V ''CA_CHAIN_PARENT_FIRST'' of
        None \<Rightarrow> Inr (cert @ chain)
      | Some parentFirst \<Rightarrow>
          (case strconv_ParseBool parentFirst of
             None \<Rightarrow> Inl (WithCause (PlainErr ''failed to parse the environment variable''))
           | Some b \<Rightarrow> Inr (if b then chain @ cert else cert @ chain)))"

definition getCAChain :: "('k, 'n, string) caop" where
  "getCAChain =
     bindE (getE cb_Config) (\<lambda>config.
     case config of
       None \<Rightarrow> throwE (PlainErr ''The server has no configuration'')
     | Some cfg \<Rightarrow>
         bindE (worldE (FileExists (cs_Chainfile cfg))) (\<lambda>present.
         if present then worldE (ReadFile (cs_Chainfile cfg))
         else if cs_ParentURL cfg = [] then worldE (ReadFile (cs_Certfile cfg))
         else throwE (PlainErr ''Chain file does not exist'')))"

definition GetKeyRequest :: "CASetup \<Rightarrow> (string \<times> int) result" where
  "GetKeyRequest cfg =
     (case cs_CSP cfg of
        None \<Rightarrow> Inl (GoPanic ''nil pointer'')
      | Some opts \<Rightarrow>
          Inr (case fo_SwOpts opts of
                 Some sw \<Rightarrow> (''ecdsa'', so_SecLevel sw)
               | None \<Rightarrow> (case fo_Pkcs11SecLevel opts of Some n \<Rightarrow> (''ecdsa'', n) | None \<Rightarrow> NewBasicKeyRequest)))"

text \<open>The request of a root CA.\<close>

definition rootCSR :: "CASetup \<Rightarrow> CSRInfo result" where
  "rootCSR cfg =
     (let csr = caCSR ((cs_CSR cfg)\<lparr>csri_CN := orDefault ''fabric-ca-server'' (csri_CN (cs_CSR cfg))\<rparr>) in
      case csri_KeyRequest csr of
        Some kr \<Rightarrow> Inr csr
      | None \<Rightarrow> bindR (GetKeyRequest cfg) (\<lambda>kr. Inr (csr\<lparr>csri_KeyRequest := Some kr\<rparr>)))"

definition rootRequest :: "CSRInfo \<Rightarrow> CertificateRequest" where
  "rootRequest csr =
     \<lparr>cq_CN = csri_CN csr, cq_Names = (case csri_Names csr of None \<Rightarrow> [] | Some l \<Rightarrow> l),
      cq_Hosts = (case csri_Hosts csr of None \<Rightarrow> [] | Some l \<Rightarrow> l), cq_KeyRequest = csri_KeyRequest csr,
      cq_CA = csri_CA csr, cq_SerialNumber = csri_SerialNumber csr\<rparr>"

definition rootCACert :: "('k, 'n) caenv \<Rightarrow> ('k, 'n, string) caop" where
  "rootCACert V =
     bindE (cfgE (bindE (getE rootCSR) (\<lambda>r. bindE (liftE r) (\<lambda>csr. seqE (modifyE (\<lambda>c. c\<lparr>cs_CSR := csr\<rparr>)) (returnE csr))))) (\<lambda>csr.
     let req = rootRequest csr in
     bindE (worldE (BCCSPKeyRequestGenerate req (ce_provider (kv_client V)))) (\<lambda>key.
     case kv_NewFromSigner V key req of
       None \<Rightarrow> throwE (WithCause (PlainErr ''Failed to create new CA certificate''))
     | Some cert \<Rightarrow> returnE cert))"

text \<open>The client works on the options of the provider that the CA has, through the same pointer.\<close>

definition enrollWithParent ::
  "('k, 'n) caenv \<Rightarrow> ClientConfig \<Rightarrow> string \<Rightarrow> ('k, 'n, EnrollmentResponse) caop" where
  "enrollWithParent V clientCfg url s =
     (let w = cb_world s in
      case ClientConfig_Enroll (kv_client V) clientCfg url (cb_HomeDir s) (w\<lparr>w_client := (w_client w)\<lparr>cl_CSP := cc_CSP clientCfg\<rparr>\<rparr>) of
        (r, v) \<Rightarrow> (r, s\<lparr>cb_world := v, cb_Config := map_option (\<lambda>c. c\<lparr>cs_CSP := cl_CSP (w_client v)\<rparr>) (cb_Config s)\<rparr>))"

definition parentClientConfig :: "CASetup \<Rightarrow> ClientConfig" where
  "parentClientConfig cfg =
     (let c = (case cs_Client cfg of None \<Rightarrow> no_ClientConfig | Some c \<Rightarrow> c);
          enr = (cs_Enrollment cfg)\<lparr>enr_Profile := orDefault ''ca'' (enr_Profile (cs_Enrollment cfg))\<rparr>;
          csr = (case enr_CSR enr of None \<Rightarrow> no_CSR | Some csr \<Rightarrow> csr);
          csr' = (if csri_CA csr = None
                  then csr\<lparr>csri_CA := Some \<lparr>cac_PathLength = 0, cac_PathLenZero = True, cac_Expiry = []\<rparr>\<rparr> else csr) in
      c\<lparr>cc_TLS := cs_IntermediateTLS cfg, cc_Enrollment := enr\<lparr>enr_CSR := Some csr'\<rparr>, cc_CAName := cs_ParentCAName cfg,
        cc_CSP := cs_CSP cfg, cc_CSR := cs_CSR cfg\<rparr>)"

definition intermediateCACert :: "('k, 'n) caenv \<Rightarrow> ('k, 'n, string) caop" where
  "intermediateCACert V =
     (let E = kv_client V in
      bindE (cfgE (getE id)) (\<lambda>cfg.
      seqE (unlessE (csri_CN (cs_CSR cfg) = []) (PlainErr ''CN cannot be specified for an intermediate CA''))
      (bindE (enrollWithParent V (parentClientConfig cfg) (cs_ParentURL cfg)) (\<lambda>resp.
       seqE (cfgE (modifyE (\<lambda>c. c\<lparr>cs_CSR := (cs_CSR c)\<lparr>csri_CN := id_name (er_Identity resp)\<rparr>\<rparr>)))
       (case GetECert (er_Identity resp) of
          None \<Rightarrow> throwE (PlainErr ''No enrollment certificate returned by parent server'')
        | Some ecert \<Rightarrow>
            (let cert = sg_certBytes ecert; chainPath = cs_Chainfile cfg in
             bindE (liftE (concatChain V (cai_CAChain (er_CAInfo resp)) cert)) (\<lambda>chain.
             seqE (worldE (mapErrE WithCause (os_MkdirAll E (path_Dir chainPath))))
             (seqE (worldE (mapErrE WithCause (WriteFile E chainPath chain)))
             (returnE cert))))))))) "

definition getCACert :: "('k, 'n) caenv \<Rightarrow> ('k, 'n, string) caop" where
  "getCACert V =
     bindE (cfgE (getE cs_ParentURL)) (\<lambda>url. if url \<noteq> [] then intermediateCACert V else rootCACert V)"

section \<open>Key material\<close>

definition ca_writeFile :: "('k, 'n) cenv \<Rightarrow> string \<Rightarrow> string \<Rightarrow> ('k, 'n, unit) cop" where
  "ca_writeFile E file buf =
     seqE (os_MkdirAll E (path_Dir file))
     (if ce_WriteFile E file then modifyE (\<lambda>w. w\<lparr>w_files := (w_files w)(file \<mapsto> buf)\<rparr>) else throwE (PlainErr ''write''))"

definition loadCNFromEnrollmentInfo :: "('k, 'n) cenv \<Rightarrow> string \<Rightarrow> ('k, 'n, string) cop" where
  "loadCNFromEnrollmentInfo E certFile =
     bindE (ReadFile certFile) (\<lambda>cert. liftE (GetEnrollmentIDFromPEM (ce_parse E) cert))"

text \<open>The common name of the configuration becomes that of the certificate; it is emptied when that cannot be read.\<close>

definition setCN :: "('k, 'n) caenv \<Rightarrow> string \<Rightarrow> ('k, 'n, unit) caop" where
  "setCN V certFile =
     bindE (attemptE (worldE (loadCNFromEnrollmentInfo (kv_client V) certFile))) (\<lambda>r.
     seqE (cfgE (modifyE (\<lambda>c. c\<lparr>cs_CSR := (cs_CSR c)\<lparr>csri_CN := (case r of Inl _ \<Rightarrow> [] | Inr cn \<Rightarrow> cn)\<rparr>\<rparr>)))
     (case r of Inl e \<Rightarrow> throwE e | Inr _ \<Rightarrow> returnE ()))"

definition validateFiles :: "('k, 'n) caenv \<Rightarrow> string \<Rightarrow> string \<Rightarrow> ('k, 'n, unit) cop" where
  "validateFiles V certFile keyFile =
     bindE (getE w_files) (\<lambda>files.
     liftE (validateCertAndKey (ce_parse (kv_client V)) (ce_now (kv_client V)) (files certFile)
       (case files keyFile of None \<Rightarrow> Inl (PlainErr ''no such file or directory'') | Some pem \<Rightarrow> kv_privateKey V pem)))"

text \<open>The result tells whether the CA has its certificate already.\<close>

definition existingMaterial :: "('k, 'n) caenv \<Rightarrow> string \<Rightarrow> string \<Rightarrow> ('k, 'n, bool) caop" where
  "existingMaterial V certFile keyFile =
     bindE (worldE (FileExists keyFile)) (\<lambda>keyFileExists.
     bindE (worldE (FileExists certFile)) (\<lambda>certFileExists.
     if keyFileExists \<and> certFileExists then
       seqE (mapErrE WithCause (worldE (validateFiles V certFile keyFile))) (seqE (setCN V certFile) (returnE True))
     else if certFileExists then
       seqE (mapErrE WithCause (worldE (GetSignerFromCertFile (kv_client V) certFile (ce_provider (kv_client V)))))
       (seqE (mapErrE WithCause (setCN V certFile)) (returnE True))
     else returnE False))"

definition initKeyMaterial :: "('k, 'n) caenv \<Rightarrow> bool \<Rightarrow> ('k, 'n, unit) caop" where
  "initKeyMaterial V renew =
     seqE (CA_makeFileNamesAbsolute V)
     (bindE (cfgE (getE id)) (\<lambda>cfg.
      bindE (if renew then returnE False else existingMaterial V (cs_Certfile cfg) (cs_Keyfile cfg)) (\<lambda>present.
      if present then returnE ()
      else bindE (getCACert V) (\<lambda>cert.
           mapErrE WithCause (worldE (ca_writeFile (kv_client V) (cs_Certfile cfg) cert))))))"

section \<open>Verification options\<close>

definition addCert :: "X509 \<Rightarrow> X509 list option \<Rightarrow> X509 list option" where
  "addCert cert pool = Some ((case pool of None \<Rightarrow> [] | Some l \<Rightarrow> l) @ [cert])"

definition selfIssued :: "('k, 'n) caenv \<Rightarrow> X509 \<Rightarrow> bool" where
  "selfIssued V cert \<longleftrightarrow> x_AuthorityKeyId cert = [] \<or> x_AuthorityKeyId cert = kv_SubjectKeyId V cert"

text \<open>The loop over the blocks of the chain, with one unit of fuel per character and one more.\<close>

fun chainPools :: "('k, 'n) caenv \<Rightarrow> nat \<Rightarrow> string \<Rightarrow> pools \<Rightarrow> pools result option" where
  "chainPools V 0 chain pools = None"
| "chainPools V (Suc n) chain (roots, ints) =
     (if chain = [] then Some (Inr (roots, ints))
      else (case ce_pemDecode (kv_client V) chain of
              None \<Rightarrow> Some (Inr (roots, ints))
            | Some ((kind, bytes), rest) \<Rightarrow>
                if kind \<noteq> ''CERTIFICATE'' then chainPools V n rest (roots, ints)
                else (case ce_ParseCertificate (kv_client V) bytes of
                        None \<Rightarrow> Some (Inl (WithCause (PlainErr ''Failed to parse CA chain certificate'')))
                      | Some cert \<Rightarrow>
                          if \<not> x_IsCA cert then Some (Inl (PlainErr ''A certificate in the CA chain is not a CA certificate''))
                          else if selfIssued V cert then chainPools V n rest (addCert cert roots, ints)
                          else chainPools V n rest (roots, addCert cert ints))))"

definition getVerifyOptions :: "('k, 'n) caenv \<Rightarrow> ('k, 'n, pools) caop" where
  "getVerifyOptions V =
     bindE (getE cb_verifyOptions) (\<lambda>known.
     case known of
       Some opts \<Rightarrow> returnE opts
     | None \<Rightarrow>
         bindE getCAChain (\<lambda>chain.
         bindE (case chainPools V (Suc (length chain)) chain (None, None) of
                  None \<Rightarrow> throwE (GoPanic ''no end of PEM blocks'')
                | Some r \<Rightarrow> liftE r) (\<lambda>opts.
         seqE (modifyE (\<lambda>s. s\<lparr>cb_verifyOptions := Some opts\<rparr>)) (returnE opts))))"

section \<open>Defaults once more\<close>

lemma update_same: "map_of al k = Some v \<Longrightarrow> AList.update k v al = al"
  by (induction al) (auto split: if_splits)

lemma initSigningProfile_again:
  "expiry \<noteq> 0 \<Longrightarrow> initSigningProfile (Some (initSigningProfile spp expiry isCA)) expiry isCA = initSigningProfile spp expiry isCA"
  by (auto simp: initSigningProfile_def Let_def split: option.splits)

text \<open>The profiles \<open>ca\<close> and \<open>tls\<close> are made when they are missing and allow the attribute extension; all other profiles are as they were
  configured.\<close>

lemma initSigning_profiles:
  "map_of (the (sgn_Profiles (initSigning s))) n =
     (let ps = (case Option.bind s sgn_Profiles of None \<Rightarrow> [] | Some ps \<Rightarrow> ps) in
      if n = ''ca'' then Some (initSigningProfile (map_of ps ''ca'') defaultIntermediateCACertificateExpiration True)
      else if n = ''tls'' then Some (initSigningProfile (map_of ps ''tls'') defaultIssuedCertificateExpiration False)
      else map_of ps n)"
  by (cases s) (auto simp: initSigning_def Let_def AList.update_conv' split: option.splits)

lemma initSigning_again: "initSigning (Some (initSigning s)) = initSigning s"
proof -
  obtain qs d where q: "sgn_Profiles (initSigning s) = Some qs"
      "sgn_Default (initSigning s) = Some (initSigningProfile d defaultIssuedCertificateExpiration False)"
    by (auto simp: initSigning_def Let_def)
  have e: "defaultIntermediateCACertificateExpiration \<noteq> 0" "defaultIssuedCertificateExpiration \<noteq> 0"
    by (simp_all add: defaultIntermediateCACertificateExpiration_def defaultIssuedCertificateExpiration_def)
  obtain ca tls where p: "map_of qs ''ca'' = Some (initSigningProfile ca defaultIntermediateCACertificateExpiration True)"
      "map_of qs ''tls'' = Some (initSigningProfile tls defaultIssuedCertificateExpiration False)"
    using initSigning_profiles [of s "''ca''"] initSigning_profiles [of s "''tls''"] q(1) by (auto simp: Let_def)
  have "AList.update ''ca'' (initSigningProfile (map_of qs ''ca'') defaultIntermediateCACertificateExpiration True) qs = qs"
      "AList.update ''tls'' (initSigningProfile (map_of qs ''tls'') defaultIssuedCertificateExpiration False) qs = qs"
    using p e by (simp_all add: initSigningProfile_again update_same)
  then have "initSigning (Some (initSigning s)) = (initSigning s)\<lparr>sgn_Default := sgn_Default (initSigning s), sgn_Profiles := Some qs\<rparr>"
    unfolding initSigning_def [of "Some (initSigning s)"] using q e by (simp add: Let_def initSigningProfile_again)
  then show ?thesis using q(1) by simp
qed

lemma configDefaults_again: "configDefaults (configDefaults c) = configDefaults c"
  by (simp add: configDefaults_def initSigning_again caCSR_def orDefault_def defaultRootCACertificateExpiration_def Let_def)

section \<open>What the operations leave alone\<close>

lemma cfgE_eq:
  "cfgE m s = (r, t) \<longleftrightarrow>
     (case cb_Config s of
        None \<Rightarrow> r = Inl (GoPanic ''nil pointer'') \<and> t = s
      | Some c \<Rightarrow> \<exists>c'. m c = (r, c') \<and> t = s\<lparr>cb_Config := Some c'\<rparr>)"
  by (auto simp: cfgE_def split: option.splits prod.splits)

lemma cfgE_get: "cfgE (getE f) s = (Inr a, t) \<longleftrightarrow> t = s \<and> (\<exists>c. cb_Config s = Some c \<and> a = f c)"
  by (auto simp: cfgE_eq split: option.splits)

lemma cfgE_world: "cfgE m s = (r, t) \<Longrightarrow> cb_world t = cb_world s \<and> cb_HomeDir t = cb_HomeDir s"
  by (auto simp: cfgE_eq split: option.splits)

lemma worldE_eq: "worldE m s = (r, t) \<longleftrightarrow> (\<exists>w. m (cb_world s) = (r, w) \<and> t = s\<lparr>cb_world := w\<rparr>)"
  by (auto simp: worldE_def zoomE_eq)

lemma worldE_same: "(\<And>r w. m (cb_world s) = (r, w) \<Longrightarrow> w = cb_world s) \<Longrightarrow> worldE m s = (r, t) \<Longrightarrow> t = s"
  by (auto simp: worldE_eq)

lemma loadCN_same: "loadCNFromEnrollmentInfo E f w = (r, v) \<Longrightarrow> v = w"
  by (auto simp: loadCNFromEnrollmentInfo_def bindE_def ReadFile_run split: option.splits)

lemma setCN_world:
  assumes "setCN V f s = (r, t)"
  shows "cb_world t = cb_world s"
proof -
  obtain q where "loadCNFromEnrollmentInfo (kv_client V) f (cb_world s) = (q, cb_world s)"
    by (cases "loadCNFromEnrollmentInfo (kv_client V) f (cb_world s)") (auto dest: loadCN_same)
  then have "worldE (loadCNFromEnrollmentInfo (kv_client V) f) s = (q, s)" by (simp add: worldE_eq)
  with assms show ?thesis
    by (cases q; cases r) (auto simp: setCN_def bindE_def attemptE_def seqE_Inr seqE_Inl throwE_def returnE_def
        dest: cfgE_world split: if_splits prod.splits sum.splits)
qed

lemma makeFileNamesAbsolute_world:
  "CA_makeFileNamesAbsolute V s = (r, t) \<Longrightarrow> cb_world t = cb_world s \<and> cb_HomeDir t = cb_HomeDir s"
  by (cases r) (auto simp: CA_makeFileNamesAbsolute_def em_simps Let_def dest!: cfgE_world)

lemma absCAFiles_Inr:
  "absCAFiles wd home c = (Inr u, d) \<longleftrightarrow>
     (\<exists>f k h. MakeFileAbs wd (cs_Certfile c) home = Inr f \<and> MakeFileAbs wd (cs_Keyfile c) home = Inr k \<and>
        MakeFileAbs wd (cs_Chainfile c) home = Inr h \<and> d = c\<lparr>cs_Certfile := f, cs_Keyfile := k, cs_Chainfile := h\<rparr>)"
  by (auto simp: absCAFiles_def split: sum.splits prod.splits)

lemma makeFileNamesAbsolute_Inr:
  assumes "CA_makeFileNamesAbsolute V s = (Inr u, t)" and "cb_Config s = Some c"
  obtains f k h db ld where
    "MakeFileAbs (ce_wd (kv_client V)) (cs_Certfile c) (cb_HomeDir s) = Inr f"
    "MakeFileAbs (ce_wd (kv_client V)) (cs_Keyfile c) (cb_HomeDir s) = Inr k"
    "MakeFileAbs (ce_wd (kv_client V)) (cs_Chainfile c) (cb_HomeDir s) = Inr h"
    "AbsTLSClient (ce_wd (kv_client V)) (cb_HomeDir s) (cs_DBTLS c) = (Inr (), db)"
    "AbsTLSClient (ce_wd (kv_client V)) (cb_HomeDir s) (cs_LDAPTLS c) = (Inr (), ld)"
    "t = s\<lparr>cb_Config := Some (c\<lparr>cs_Certfile := f, cs_Keyfile := k, cs_Chainfile := h, cs_DBTLS := db, cs_LDAPTLS := ld\<rparr>)\<rparr>"
  using assms
  by (auto simp: CA_makeFileNamesAbsolute_def em_simps Let_def cfgE_eq absCAFiles_Inr)

text \<open>A second time the names stay as they are.\<close>

lemma makeFileNamesAbsolute_again:
  assumes "CA_makeFileNamesAbsolute V s = (Inr u, t)" and "cb_Config s = Some c" and "good_wd (ce_wd (kv_client V))"
    and "cb_Config t' = Some c'" and "cb_Config t = Some d"
    and "cs_Certfile c' = cs_Certfile d" "cs_Keyfile c' = cs_Keyfile d" "cs_Chainfile c' = cs_Chainfile d"
      "cs_DBTLS c' = cs_DBTLS d" "cs_LDAPTLS c' = cs_LDAPTLS d"
  shows "CA_makeFileNamesAbsolute V t' = (Inr (), t')"
proof -
  let ?wd = "ce_wd (kv_client V)"
  obtain f k h db ld where
      m: "MakeFileAbs ?wd (cs_Certfile c) (cb_HomeDir s) = Inr f" "MakeFileAbs ?wd (cs_Keyfile c) (cb_HomeDir s) = Inr k"
        "MakeFileAbs ?wd (cs_Chainfile c) (cb_HomeDir s) = Inr h"
    and a: "AbsTLSClient ?wd (cb_HomeDir s) (cs_DBTLS c) = (Inr (), db)" "AbsTLSClient ?wd (cb_HomeDir s) (cs_LDAPTLS c) = (Inr (), ld)"
    and t: "t = s\<lparr>cb_Config := Some (c\<lparr>cs_Certfile := f, cs_Keyfile := k, cs_Chainfile := h, cs_DBTLS := db, cs_LDAPTLS := ld\<rparr>)\<rparr>"
    by (rule makeFileNamesAbsolute_Inr [OF assms(1,2)]) blast
  have wd: "\<forall>d. ?wd = Some d \<longrightarrow> path_IsAbs d" using assms(3) by (simp add: good_wd_def)
  have same: "MakeFileAbs ?wd f dir = Inr f" "MakeFileAbs ?wd k dir = Inr k" "MakeFileAbs ?wd h dir = Inr h"
      "AbsTLSClient ?wd dir db = (Inr (), db)" "AbsTLSClient ?wd dir ld = (Inr (), ld)" for dir
    using MakeFileAbs_absolute [OF m(1) wd] MakeFileAbs_absolute [OF m(2) wd] MakeFileAbs_absolute [OF m(3) wd]
      AbsTLSClient_Inr(2) [OF a(1) assms(3)] AbsTLSClient_Inr(2) [OF a(2) assms(3)] by blast+
  have d: "cs_Certfile c' = f" "cs_Keyfile c' = k" "cs_Chainfile c' = h" "cs_DBTLS c' = db" "cs_LDAPTLS c' = ld"
    using assms(5-10) t by auto
  have "c'\<lparr>cs_Certfile := f, cs_Keyfile := k, cs_Chainfile := h\<rparr> = c'" "c'\<lparr>cs_DBTLS := db\<rparr> = c'" "c'\<lparr>cs_LDAPTLS := ld\<rparr> = c'"
    using d by auto
  moreover have "t'\<lparr>cb_Config := Some c'\<rparr> = t'" using assms(4) by simp
  ultimately show ?thesis
    using assms(4) d same
    by (simp add: CA_makeFileNamesAbsolute_def bindE_Inr seqE_Inr Let_def cfgE_eq absCAFiles_Inr zoomE_eq)
qed

section \<open>Material that is there is kept\<close>

lemma validateFiles_same: "validateFiles V f k w = (r, v) \<Longrightarrow> v = w"
  by (simp add: validateFiles_def bindE_def getE_def)

definition there :: "('k, 'n) world \<Rightarrow> string \<Rightarrow> bool" where
  "there w f \<longleftrightarrow> w_files w f \<noteq> None \<or> f \<in> set (w_dirs w)"

lemma worldE_FileExists: "worldE (FileExists f) s = (Inr (there (cb_world s) f), s)"
  by (simp add: worldE_eq FileExists_def there_def)

lemma existingMaterial_run:
  "existingMaterial V f k s =
     (if there (cb_world s) k \<and> there (cb_world s) f then
       seqE (mapErrE WithCause (worldE (validateFiles V f k))) (seqE (setCN V f) (returnE True))
     else if there (cb_world s) f then
       seqE (mapErrE WithCause (worldE (GetSignerFromCertFile (kv_client V) f (ce_provider (kv_client V)))))
       (seqE (mapErrE WithCause (setCN V f)) (returnE True))
     else returnE False) s"
  by (simp add: existingMaterial_def bindE_def worldE_FileExists)

lemma step_setCN_world:
  assumes "seqE (mapErrE WithCause (worldE m)) (seqE n (returnE True)) s = (q, t)"
    and "\<And>r w. m (cb_world s) = (r, w) \<Longrightarrow> w = cb_world s" and "\<And>s r t. n s = (r, t) \<Longrightarrow> cb_world t = cb_world s"
  shows "cb_world t = cb_world s"
proof -
  obtain r u where u: "worldE m s = (r, u)" by (cases "worldE m s")
  then have "cb_world u = cb_world s" using assms(2) by (auto simp: worldE_eq)
  then show ?thesis using assms(1,3) u by (cases r; cases q) (auto simp: seqE_Inr seqE_Inl mapErrE_Inr mapErrE_Inl)
qed

lemma mapErrE_world: "(\<And>r t. n s = (r, t) \<Longrightarrow> cb_world t = cb_world s) \<Longrightarrow> mapErrE g n s = (r, t) \<Longrightarrow> cb_world t = cb_world s"
  by (cases r) (auto simp: mapErrE_Inr mapErrE_Inl)

lemma existingMaterial_keeps:
  assumes "existingMaterial V f k s = (q, t)"
  shows "cb_world t = cb_world s" and "there (cb_world s) f \<Longrightarrow> q \<noteq> Inr False"
proof -
  consider "there (cb_world s) k" "there (cb_world s) f" | "\<not> there (cb_world s) k" "there (cb_world s) f" | "\<not> there (cb_world s) f" by blast
  then show "cb_world t = cb_world s"
  proof cases
    case 1
    then show ?thesis using assms step_setCN_world [OF _ validateFiles_same setCN_world] unfolding existingMaterial_run by simp
  next
    case 2
    then show ?thesis
      using assms step_setCN_world [OF _ GetSignerFromCertFile_same mapErrE_world [OF setCN_world]] unfolding existingMaterial_run by simp
  qed (use assms in \<open>simp add: existingMaterial_run\<close>)
  show "q \<noteq> Inr False" if "there (cb_world s) f"
    using assms that by (auto simp: existingMaterial_run seqE_Inr split: if_splits)
qed

text \<open>Starting a CA does not touch the material that is there: when the certificate file exists and renewal is not asked for, then, whatever the
  outcome, no file is written, no key generated and nothing sent.\<close>

theorem existing_material_kept:
  assumes "initKeyMaterial V False s = (r, t)" and "cb_Config s = Some c"
    and "MakeFileAbs (ce_wd (kv_client V)) (cs_Certfile c) (cb_HomeDir s) = Inr f" and "w_files (cb_world s) f \<noteq> None"
  shows "cb_world t = cb_world s"
proof -
  obtain q s1 where abs: "CA_makeFileNamesAbsolute V s = (q, s1)" by (cases "CA_makeFileNamesAbsolute V s")
  have s1: "cb_world s1 = cb_world s" using makeFileNamesAbsolute_world [OF abs] by simp
  show ?thesis
  proof (cases q)
    case (Inl e)
    then show ?thesis using assms(1) abs s1 by (auto simp: initKeyMaterial_def seqE_def bindE_def)
  next
    case (Inr u)
    obtain c1 where c1: "cb_Config s1 = Some c1" "cs_Certfile c1 = f"
      by (rule makeFileNamesAbsolute_Inr [OF abs [unfolded Inr] assms(2)]) (use assms(3) in simp)
    obtain q2 s2 where ex: "existingMaterial V f (cs_Keyfile c1) s1 = (q2, s2)" by (cases "existingMaterial V f (cs_Keyfile c1) s1")
    have "cfgE (getE id) s1 = (Inr c1, s1)" using c1 by (simp add: cfgE_get)
    then have "(case q2 of Inl e \<Rightarrow> (Inl e, s2) | Inr present \<Rightarrow>
        (if present then returnE () else bindE (getCACert V) (\<lambda>cert. mapErrE WithCause (worldE (ca_writeFile (kv_client V) (cs_Certfile c1) cert)))) s2) = (r, t)"
      using assms(1) abs Inr ex c1 by (simp add: initKeyMaterial_def seqE_def bindE_def)
    then have "t = s2" using existingMaterial_keeps(2) [OF ex] assms(4) s1 there_def by (auto simp: returnE_def split: sum.splits if_splits)
    then show ?thesis using existingMaterial_keeps(1) [OF ex] s1 by simp
  qed
qed

text \<open>A client, a provider and CFSSL that behave as documented: a key that was generated is found by its identifier, and a certificate that
  was created for a key and a request parses, names the subject of the request, and carries the public key.\<close>

definition ca_laws :: "('k, 'n) caenv \<Rightarrow> bool" where
  "ca_laws V \<longleftrightarrow>
     (let E = kv_client V; p = ce_provider E in
      (\<forall>opts k key k'. pv_KeyGen p opts k = (Some key, k') \<longrightarrow> pv_GetKey p k' (pv_SKI p key) = Some (key, True)) \<and>
      (\<forall>key req pem. kv_NewFromSigner V key req = Some pem \<longrightarrow>
         (\<exists>cert pub. ce_parse E pem = Some cert \<and> ce_ParseCertificatePEM E pem = Some cert \<and> x_CommonName cert = cq_CN req \<and>
            csp_KeyImport (pv_csp p) cert = Some pub \<and> pv_SKI p pub = pv_SKI p key)))"

lemma BCCSPKeyRequestGenerate_Inr:
  "BCCSPKeyRequestGenerate req p w = (Inr key, v) \<longleftrightarrow>
     (\<exists>opts k. getBCCSPKeyOpts (cq_KeyRequest req) False = Inr opts \<and> pv_KeyGen p opts (w_keys w) = (Some key, k) \<and>
        pv_newSigner p key \<and> v = w\<lparr>w_keys := k\<rparr>)"
  by (auto simp: bindE_Inr BCCSPKeyRequestGenerate_def liftE_Inr keysOf_eq case_option_run simp del: liftE_eq split: if_splits)

lemma rootCACert_Inr:
  assumes "rootCACert V s = (Inr cert, t)" and "cb_Config s = Some c"
  obtains csr opts key k where "rootCSR c = Inr csr"
    "pv_KeyGen (ce_provider (kv_client V)) opts (w_keys (cb_world s)) = (Some key, k)" "pv_newSigner (ce_provider (kv_client V)) key"
    "kv_NewFromSigner V key (rootRequest csr) = Some cert"
    "t = s\<lparr>cb_Config := Some (c\<lparr>cs_CSR := csr\<rparr>), cb_world := (cb_world s)\<lparr>w_keys := k\<rparr>\<rparr>"
  using assms
  by (auto simp: rootCACert_def bindE_Inr seqE_Inr liftE_Inr cfgE_eq worldE_eq BCCSPKeyRequestGenerate_Inr Let_def
      simp del: liftE_eq split: option.splits)

lemma ca_writeFile_Inr:
  "ca_writeFile E f buf w = (Inr u, v) \<Longrightarrow>
     w_files v = (w_files w)(f \<mapsto> buf) \<and> w_keys v = w_keys w \<and> w_dirs v = path_Dir f # w_dirs w"
  by (auto simp: ca_writeFile_def os_MkdirAll_def em_simps split: if_splits)

text \<open>The material of a root CA is found when it starts again.\<close>

lemma setCN_again:
  assumes "w_files (cb_world s) f = Some pem" and "ce_parse (kv_client V) pem = Some cert" and "cb_Config s = Some c"
    and "csri_CN (cs_CSR c) = x_CommonName cert"
  shows "setCN V f s = (Inr (), s)"
proof -
  have "loadCNFromEnrollmentInfo (kv_client V) f (cb_world s) = (Inr (x_CommonName cert), cb_world s)"
    using assms(1,2) by (simp add: loadCNFromEnrollmentInfo_def bindE_def ReadFile_run GetEnrollmentIDFromPEM_def
        GetEnrollmentIDFromX509Certificate_def liftE_def)
  then have "attemptE (worldE (loadCNFromEnrollmentInfo (kv_client V) f)) s = (Inr (Inr (x_CommonName cert)), s)"
    by (simp add: attemptE_def worldE_def zoomE_def)
  moreover have "c\<lparr>cs_CSR := (cs_CSR c)\<lparr>csri_CN := x_CommonName cert\<rparr>\<rparr> = c" using assms(4) [symmetric] by simp
  moreover have "s\<lparr>cb_Config := Some c\<rparr> = s" using assms(3) by simp
  ultimately show ?thesis
    using assms(3) by (simp add: setCN_def bindE_def seqE_def cfgE_def modifyE_def returnE_def)
qed

lemma existingMaterial_again:
  assumes "w_files (cb_world s) f = Some pem" and "ce_parse (kv_client V) pem = Some cert"
    and "ce_ParseCertificatePEM (kv_client V) pem = Some cert" and "cb_Config s = Some c"
    and "csri_CN (cs_CSR c) = x_CommonName cert" and "\<not> there (cb_world s) k"
    and "csp_KeyImport (pv_csp (ce_provider (kv_client V))) cert = Some pub"
    and "pv_GetKey (ce_provider (kv_client V)) (w_keys (cb_world s)) (pv_SKI (ce_provider (kv_client V)) pub) = Some (key, True)"
    and "pv_newSigner (ce_provider (kv_client V)) key"
  shows "existingMaterial V f k s = (Inr True, s)"
proof -
  have "GetSignerFromCertFile (kv_client V) f (ce_provider (kv_client V)) (cb_world s) = (Inr (key, cert), cb_world s)"
    using assms by (simp add: GetSignerFromCertFile_def GetSignerFromCert_def bindE_def mapErrE_def ReadFile_run getE_def returnE_def)
  then have "worldE (GetSignerFromCertFile (kv_client V) f (ce_provider (kv_client V))) s = (Inr (key, cert), s)"
    by (simp add: worldE_eq)
  moreover have "there (cb_world s) f" using assms(1) by (simp add: there_def)
  ultimately show ?thesis
    using assms(6) setCN_again [OF assms(1,2,4,5)] by (simp add: existingMaterial_run seqE_Inr mapErrE_Inr)
qed


section \<open>Chains\<close>

text \<open>The chain file of an intermediate CA is written last, and is the chain that the CA hands out.\<close>

lemma enrollWithParent_config:
  "enrollWithParent V cc url s = (r, t) \<Longrightarrow> cb_Config s = Some c \<Longrightarrow> \<exists>o'. cb_Config t = Some (c\<lparr>cs_CSP := o'\<rparr>)"
  by (auto simp: enrollWithParent_def Let_def split: prod.splits)

lemma intermediate_chain:
  assumes "intermediateCACert V s = (Inr cert, t)" and "cb_Config s = Some c"
  shows "\<exists>chain d. concatChain V chain cert = Inr (the (w_files (cb_world t) (cs_Chainfile c))) \<and>
    cb_Config t = Some d \<and> cs_Chainfile d = cs_Chainfile c \<and>
    getCAChain t = (Inr (the (w_files (cb_world t) (cs_Chainfile c))), t)"
proof -
  obtain resp s1 where enr: "enrollWithParent V (parentClientConfig c) (cs_ParentURL c) s = (Inr resp, s1)"
    and rest: "seqE (cfgE (modifyE (\<lambda>c. c\<lparr>cs_CSR := (cs_CSR c)\<lparr>csri_CN := id_name (er_Identity resp)\<rparr>\<rparr>)))
       (case GetECert (er_Identity resp) of
          None \<Rightarrow> throwE (PlainErr ''No enrollment certificate returned by parent server'')
        | Some ecert \<Rightarrow>
             bindE (liftE (concatChain V (cai_CAChain (er_CAInfo resp)) (sg_certBytes ecert))) (\<lambda>chain.
             seqE (worldE (mapErrE WithCause (os_MkdirAll (kv_client V) (path_Dir (cs_Chainfile c)))))
             (seqE (worldE (mapErrE WithCause (WriteFile (kv_client V) (cs_Chainfile c) chain)))
             (returnE (sg_certBytes ecert))))) s1 = (Inr cert, t)"
    using assms unfolding intermediateCACert_def Let_def by (auto simp: bindE_Inr seqE_Inr cfgE_get)
  obtain o' where s1: "cb_Config s1 = Some (c\<lparr>cs_CSP := o'\<rparr>)" using enrollWithParent_config [OF enr assms(2)] by blast
  obtain chain w v where e: "concatChain V (cai_CAChain (er_CAInfo resp)) cert = Inr chain"
    and wr: "WriteFile (kv_client V) (cs_Chainfile c) chain w = (Inr (), v)" and tw: "cb_world t = v"
    and tc: "\<exists>d. cb_Config t = Some d \<and> cs_Chainfile d = cs_Chainfile c"
    using rest s1 by (auto simp: seqE_Inr bindE_Inr liftE_Inr cfgE_eq worldE_eq mapErrE_Inr case_option_run simp del: liftE_eq)
  then obtain d where d: "cb_Config t = Some d" "cs_Chainfile d = cs_Chainfile c" by blast
  have written: "w_files (cb_world t) (cs_Chainfile c) = Some chain" using WriteFile_Inr [OF wr] tw by simp
  then have "getCAChain t = (Inr chain, t)"
    using d by (simp add: getCAChain_def bindE_def getE_def worldE_FileExists there_def worldE_eq ReadFile_run)
  then show ?thesis using e d written by auto
qed

text \<open>What the section on enrollment says about the certificate request, and the limit on the path length that is set there by
  default, is never used: the request is that of the CA's own section.\<close>

lemma parent_csr_unused:
  "ClientConfig_Enroll E (c\<lparr>cc_Enrollment := (cc_Enrollment c)\<lparr>enr_CSR := csr\<rparr>\<rparr>) url home = ClientConfig_Enroll E c url home"
  by (simp add: ClientConfig_Enroll_def new_Client_def Let_def split: option.splits prod.splits)

definition pem_laws :: "(string \<Rightarrow> ((string \<times> string) \<times> string) option) \<Rightarrow> bool" where
  "pem_laws dec \<longleftrightarrow> (\<forall>s b r. dec s = Some (b, r) \<longrightarrow> length r < length s)"

definition pool :: "X509 list option \<Rightarrow> X509 list" where
  "pool p = (case p of None \<Rightarrow> [] | Some l \<Rightarrow> l)"

lemma pool_addCert [simp]: "pool (addCert c p) = pool p @ [c]" "pool None = []"
  by (simp_all add: pool_def addCert_def)

lemma chainPools_ends:
  assumes "pem_laws (ce_pemDecode (kv_client V))" and "length chain < n"
  shows "chainPools V n chain p \<noteq> None"
  using assms(2)
proof (induction n arbitrary: chain p)
  case (Suc n)
  show ?case
  proof (cases "ce_pemDecode (kv_client V) chain")
    case (Some b)
    then obtain kind bytes rest where b: "ce_pemDecode (kv_client V) chain = Some ((kind, bytes), rest)" by (cases b) (metis prod.collapse)
    then have "length rest < n" using assms(1) Suc.prems unfolding pem_laws_def by fastforce
    then show ?thesis using Suc.IH b by (cases p) (simp split: option.splits)
  qed (cases p; simp)
qed simp

lemma chainPools_partition:
  assumes "pem_laws (ce_pemDecode (kv_client V))" and "chainPools V n chain (r0, i0) = Some (Inr (roots, ints))"
  shows "\<exists>blocks skipped certs. pemBlocks (ce_pemDecode (kv_client V)) n chain = Some (blocks, skipped) \<and>
    map (ce_ParseCertificate (kv_client V)) blocks = map Some certs \<and> (\<forall>c \<in> set certs. x_IsCA c) \<and>
    pool roots = pool r0 @ filter (selfIssued V) certs \<and> pool ints = pool i0 @ filter (\<lambda>c. \<not> selfIssued V c) certs"
  using assms(2)
proof (induction n arbitrary: chain r0 i0)
  case (Suc n)
  let ?dec = "ce_pemDecode (kv_client V)"
  show ?case
  proof (cases "?dec chain")
    case None
    then show ?thesis using Suc.prems by (auto split: if_splits intro: exI [of _ "[]"])
  next
    case (Some b)
    then obtain kind bytes rest where b: "?dec chain = Some ((kind, bytes), rest)" by (cases b) (metis prod.collapse)
    then have ne: "chain \<noteq> []" using assms(1) unfolding pem_laws_def by fastforce
    show ?thesis
    proof (cases "kind = ''CERTIFICATE''")
      case False
      then show ?thesis using Suc.IH [of rest r0 i0] Suc.prems b ne by fastforce
    next
      case True
      then obtain c where c: "ce_ParseCertificate (kv_client V) bytes = Some c" "x_IsCA c"
        using Suc.prems b ne by (auto split: option.splits if_splits)
      let ?r = "if selfIssued V c then addCert c r0 else r0" and ?i = "if selfIssued V c then i0 else addCert c i0"
      have "chainPools V n rest (?r, ?i) = Some (Inr (roots, ints))"
        using Suc.prems b ne True c by (simp split: if_splits)
      from Suc.IH [OF this] obtain blocks skipped certs where
        "pemBlocks ?dec n rest = Some (blocks, skipped)" "map (ce_ParseCertificate (kv_client V)) blocks = map Some certs"
        "\<forall>c \<in> set certs. x_IsCA c" "pool roots = pool ?r @ filter (selfIssued V) certs"
        "pool ints = pool ?i @ filter (\<lambda>c. \<not> selfIssued V c) certs" by blast
      then show ?thesis using b True c by (intro exI [of _ "bytes # blocks"] exI [of _ skipped] exI [of _ "c # certs"]) simp
    qed
  qed
qed simp

lemma getCAChain_same: "getCAChain s = (r, t) \<Longrightarrow> t = s"
  by (auto simp: getCAChain_def bindE_def getE_def worldE_FileExists worldE_eq ReadFile_run throwE_def
      split: option.splits if_splits)

text \<open>C36: the certificates that others are verified against.  The options, once made, split the certificates of the CA's chain:
  exactly the self-issued ones are roots and the others are intermediate, all of them are CA certificates, and the second call returns what the first did.\<close>

theorem getVerifyOptions_partition:
  assumes "getVerifyOptions V s = (Inr (roots, ints), t)" and "cb_verifyOptions s = None"
    and "pem_laws (ce_pemDecode (kv_client V))"
  shows "(\<exists>chain blocks skipped certs. getCAChain s = (Inr chain, s) \<and>
      pemBlocks (ce_pemDecode (kv_client V)) (Suc (length chain)) chain = Some (blocks, skipped) \<and>
      map (ce_ParseCertificate (kv_client V)) blocks = map Some certs \<and> (\<forall>c \<in> set certs. x_IsCA c) \<and>
      pool roots = filter (selfIssued V) certs \<and> pool ints = filter (\<lambda>c. \<not> selfIssued V c) certs) \<and>
    t = s\<lparr>cb_verifyOptions := Some (roots, ints)\<rparr> \<and> getVerifyOptions V t = (Inr (roots, ints), t)"
proof -
  obtain chain where chain: "getCAChain s = (Inr chain, s)"
      "chainPools V (Suc (length chain)) chain (None, None) = Some (Inr (roots, ints))" "t = s\<lparr>cb_verifyOptions := Some (roots, ints)\<rparr>"
    using assms(1,2) getCAChain_same
    by (fastforce simp: getVerifyOptions_def bindE_Inr seqE_Inr liftE_Inr case_option_run simp del: liftE_eq)
  then have "getVerifyOptions V t = (Inr (roots, ints), t)" by (simp add: getVerifyOptions_def bindE_def getE_def)
  then show ?thesis using chain chainPools_partition [OF assms(3) chain(2)] by auto
qed

section \<open>A small CA\<close>

definition toy_caenv :: "(unit, http_request list) caenv" where
  "toy_caenv =
     \<lparr>kv_client = toy_cenv\<lparr>ce_pemDecode := \<lambda>s. if s = ''pem'' then Some ((''CERTIFICATE'', ''der''), []) else None,
        ce_ParseCertificate := \<lambda>_. Some (toy_cert\<lparr>x_IsCA := True\<rparr>)\<rparr>,
      kv_NewFromSigner = \<lambda>_ req. if cq_CN req = ''alice'' then Some ''pem'' else None, kv_LookupEnv = \<lambda>_. None,
      kv_privateKey = \<lambda>_. Inl (PlainErr ''key''), kv_SubjectKeyId = \<lambda>_. [1], kv_serverVersion = ''1.3.0''\<rparr>"

definition toy_boot :: "(unit, http_request list) ca_boot" where
  "toy_boot =
     \<lparr>cb_HomeDir = ''/home'',
      cb_Config = Some (configDefaults (new_CAConfig\<lparr>cs_CSR := no_CSR\<lparr>csri_CN := ''alice'', csri_KeyRequest := Some (''ecdsa'', 256)\<rparr>\<rparr>)),
      cb_levels = None, cb_verifyOptions = None, cb_world = toy_world\<rparr>"

lemma toy_ca_laws: "ca_laws toy_caenv" "good_wd (ce_wd (kv_client toy_caenv))" "pem_laws (ce_pemDecode (kv_client toy_caenv))"
  by (auto simp: ca_laws_def toy_caenv_def toy_cenv_def toy_provider_def toy_csp_def toy_cert_def good_wd_def path_IsAbs_def
      strings_HasPrefix_def pem_laws_def split: if_splits)

lemma toy_boot_run:
  "\<not> isl (fst (initKeyMaterial toy_caenv False toy_boot))"
  "cs_ParentURL (the (cb_Config toy_boot)) = []"
  "MakeFileAbs (ce_wd (kv_client toy_caenv)) (cs_Certfile (the (cb_Config toy_boot))) (cb_HomeDir toy_boot) = Inr ''/home/ca-cert.pem''"
  "MakeFileAbs (ce_wd (kv_client toy_caenv)) (cs_Keyfile (the (cb_Config toy_boot))) (cb_HomeDir toy_boot) = Inr ''/home/ca-key.pem''"
  "w_files (cb_world (snd (initKeyMaterial toy_caenv False toy_boot))) ''/home/ca-key.pem'' = None"
  "w_dirs (cb_world (snd (initKeyMaterial toy_caenv False toy_boot))) = [''/home'']"
  by code_simp+

lemma toy_boot_there: "\<not> there (cb_world toy_boot) ''/home/ca-cert.pem''" "cb_Config toy_boot = Some (the (cb_Config toy_boot))"
  by (simp_all add: there_def toy_boot_def toy_world_def)


theorem existing_material_kept_witness:
  "cb_world (snd (initKeyMaterial toy_caenv False (toy_boot\<lparr>cb_world := toy_world\<lparr>w_files := [''/home/ca-cert.pem'' \<mapsto> ''x'']\<rparr>\<rparr>))) =
     toy_world\<lparr>w_files := [''/home/ca-cert.pem'' \<mapsto> ''x'']\<rparr>"
proof -
  let ?s = "toy_boot\<lparr>cb_world := toy_world\<lparr>w_files := [''/home/ca-cert.pem'' \<mapsto> ''x'']\<rparr>\<rparr>"
  have run: "initKeyMaterial toy_caenv False ?s = (fst (initKeyMaterial toy_caenv False ?s), snd (initKeyMaterial toy_caenv False ?s))" by simp
  from existing_material_kept [OF run, of "the (cb_Config toy_boot)" "''/home/ca-cert.pem''"] show ?thesis
    using toy_boot_run(3) toy_boot_there(2) by simp
qed

theorem getVerifyOptions_partition_witness:
  "\<exists>t. getVerifyOptions toy_caenv (toy_boot\<lparr>cb_world := toy_world\<lparr>w_files := [''ca-chain.pem'' \<mapsto> ''pem'']\<rparr>\<rparr>) =
     (Inr (None, Some [toy_cert\<lparr>x_IsCA := True\<rparr>]), t) \<and> getVerifyOptions toy_caenv t = (Inr (None, Some [toy_cert\<lparr>x_IsCA := True\<rparr>]), t)"
proof -
  let ?s = "toy_boot\<lparr>cb_world := toy_world\<lparr>w_files := [''ca-chain.pem'' \<mapsto> ''pem'']\<rparr>\<rparr>"
  have "fst (getVerifyOptions toy_caenv ?s) = Inr (None, Some [toy_cert\<lparr>x_IsCA := True\<rparr>])" by code_simp
  then obtain t where run: "getVerifyOptions toy_caenv ?s = (Inr (None, Some [toy_cert\<lparr>x_IsCA := True\<rparr>]), t)"
    by (cases "getVerifyOptions toy_caenv ?s") simp
  moreover have "cb_verifyOptions ?s = None" by (simp add: toy_boot_def)
  ultimately show ?thesis using getVerifyOptions_partition [OF run _ toy_ca_laws(3)] by blast
qed

end
