(* ===== verification/Server_Lifecycle.thy ===== *)
theory Server_Lifecycle
  imports Error_Monad
begin

text \<open>
  Starting and stopping a server, \<open>lib/server.go\<close>: the thread that calls \<open>Start\<close>, the goroutine that serves, and the
  thread that calls \<open>Stop\<close> share the listener, the channel \<open>wait\<close> and the databases of the CAs, and are interleaved in any order.

  One step is what one thread does between two points where another may run.  \<open>Start\<close> listens, and then makes the channel and starts
  the goroutine, or serves itself when it is blocking.  \<open>http.Serve\<close> ends at any time once it runs, as it does when the listener fails or is
  closed.  The channel has no buffer: a message is handed over when one thread sends and the other receives, and \<open>Stop\<close> looks for one ten
  times.  A database is open or not, with the information whether closing it fails; the first failure ends \<open>closeDB\<close>.

  Starting a server again is a step only when its former goroutine has ended or waits to send, and \<open>Stop\<close> does not wait.
\<close>

section \<open>State\<close>

text \<open>Where the serving goroutine is: before it is started, started but not running, in \<open>http.Serve\<close>, behind it, behind \<open>closeListener\<close>, behind
  \<open>closeDB\<close> and sending, ended.\<close>

datatype serve_pc = S_None | S_Listening | S_Ready | S_Serving | S_Ended | S_Closed | S_Sending | S_Done

text \<open>Where \<open>Stop\<close> is: not called, with so many attempts left, returned after waiting, returned at once since there was no channel, returned
  an error.\<close>

datatype stop_pc = P_None | P_Waiting nat | P_Done | P_Quick | P_Failed

fun waits :: "stop_pc \<Rightarrow> bool" where
  "waits (P_Waiting _) = True"
| "waits _ = False"

record Lifecycle =
  lf_listener :: bool
  lf_wait :: bool
  lf_dbs :: "(bool \<times> bool) list"
  lf_serve :: serve_pc
  lf_stop :: stop_pc

section \<open>Operations\<close>

fun closeDBs :: "(bool \<times> bool) list \<Rightarrow> bool \<times> (bool \<times> bool) list" where
  "closeDBs [] = (True, [])"
| "closeDBs ((isOpen, fails) # dbs) =
     (if isOpen \<and> fails then (False, (False, fails) # dbs)
      else (case closeDBs dbs of (ok, dbs') \<Rightarrow> (ok, (False, fails) # dbs')))"

definition Server_closeDB :: "(Lifecycle, go_error, unit) em" where
  "Server_closeDB s =
     (case closeDBs (lf_dbs s) of (ok, dbs) \<Rightarrow> (if ok then Inr () else Inl (WithCause (PlainErr ''Failed to close CA database'')), s\<lparr>lf_dbs := dbs\<rparr>))"

text \<open>Closing the listener may fail; it is forgotten all the same.\<close>

definition closeListener :: "bool \<Rightarrow> (Lifecycle, go_error, unit) em" where
  "closeListener fails s =
     (if \<not> lf_listener s then (Inl (PlainErr ''Stop: listener was already closed''), s)
      else (if fails then Inl (PlainErr ''close'') else Inr (), s\<lparr>lf_listener := False\<rparr>))"

text \<open>\<open>Start\<close> up to the listener: \<open>dbs\<close> are the databases that the initialisation opened, or \<open>initFails\<close>; \<open>listenFails\<close> when the
  port cannot be listened on.\<close>

definition Start :: "(bool \<times> bool) list \<Rightarrow> bool \<Rightarrow> bool \<Rightarrow> (Lifecycle, go_error, unit) em" where
  "Start dbs initFails listenFails =
     bindE (getE lf_listener) (\<lambda>started.
     if started then throwE (PlainErr ''server is already started'')
     else
       seqE (modifyE (\<lambda>s. s\<lparr>lf_dbs := dbs\<rparr>))
       (if initFails \<or> listenFails then
          bindE (attemptE Server_closeDB) (\<lambda>_. throwE (PlainErr ''start''))
        else modifyE (\<lambda>s. s\<lparr>lf_listener := True, lf_serve := S_Listening, lf_stop := P_None\<rparr>)))"

definition Stop_begin :: "bool \<Rightarrow> Lifecycle \<Rightarrow> Lifecycle" where
  "Stop_begin fails s =
     (case closeListener fails s of
        (Inl _, t) \<Rightarrow> t\<lparr>lf_stop := P_Failed\<rparr>
      | (Inr _, t) \<Rightarrow> t\<lparr>lf_stop := if lf_wait t then P_Waiting 10 else P_Quick\<rparr>)"

text \<open>One turn of the loop: a message that is there is taken, else a second passes; after the last turn the databases are closed.\<close>

fun Stop_turn :: "nat \<Rightarrow> Lifecycle \<Rightarrow> Lifecycle" where
  "Stop_turn 0 s = (snd (Server_closeDB s))\<lparr>lf_stop := P_Done\<rparr>"
| "Stop_turn (Suc n) s =
     (if lf_serve s = S_Sending then s\<lparr>lf_wait := False, lf_serve := S_Done, lf_stop := P_Done\<rparr>
      else s\<lparr>lf_stop := P_Waiting n\<rparr>)"

text \<open>The goroutine.  \<open>blocking\<close> is the flag of the server; when it is set, \<open>Start\<close> serves itself, gets the error that ended the service, and
  closes the databases once more.\<close>

definition serve_step :: "bool \<Rightarrow> bool \<Rightarrow> Lifecycle \<Rightarrow> Lifecycle option" where
  "serve_step blocking fails s =
     (case lf_serve s of
        S_Listening \<Rightarrow> Some (if blocking then s\<lparr>lf_serve := S_Ready\<rparr> else s\<lparr>lf_wait := True, lf_serve := S_Ready\<rparr>)
      | S_Ready \<Rightarrow> Some (s\<lparr>lf_serve := if lf_listener s then S_Serving else S_Done\<rparr>)
      | S_Serving \<Rightarrow> Some (s\<lparr>lf_serve := S_Ended\<rparr>)
      | S_Ended \<Rightarrow> Some ((snd (closeListener fails s))\<lparr>lf_serve := S_Closed\<rparr>)
      | S_Closed \<Rightarrow>
          (let t = snd (Server_closeDB s) in
           Some (if lf_wait s then t\<lparr>lf_serve := S_Sending\<rparr>
                 else (if blocking then snd (Server_closeDB t) else t)\<lparr>lf_serve := S_Done\<rparr>))
      | _ \<Rightarrow> None)"

inductive lifecycle_step :: "bool \<Rightarrow> Lifecycle \<Rightarrow> Lifecycle \<Rightarrow> bool" for blocking where
  start: "Start dbs initFails listenFails s = (r, t) \<Longrightarrow> lf_serve s \<in> {S_None, S_Done, S_Sending} \<Longrightarrow> \<not> waits (lf_stop s) \<Longrightarrow>
     lifecycle_step blocking s t"
| serve: "serve_step blocking fails s = Some t \<Longrightarrow> lifecycle_step blocking s t"
| stop: "\<not> waits (lf_stop s) \<Longrightarrow> lifecycle_step blocking s (Stop_begin fails s)"
| turn: "lf_stop s = P_Waiting n \<Longrightarrow> lifecycle_step blocking s (Stop_turn n s)"

inductive_cases lifecycle_stepE: "lifecycle_step blocking s t"

definition new_server :: Lifecycle where
  "new_server = \<lparr>lf_listener = False, lf_wait = False, lf_dbs = [], lf_serve = S_None, lf_stop = P_None\<rparr>"

definition lifecycle :: "bool \<Rightarrow> Lifecycle \<Rightarrow> bool" where
  "lifecycle blocking s \<longleftrightarrow> (lifecycle_step blocking)\<^sup>*\<^sup>* new_server s"

section \<open>Databases\<close>

definition db_left :: "(bool \<times> bool) list \<Rightarrow> bool" where
  "db_left dbs \<longleftrightarrow> (\<exists>d \<in> set dbs. fst d)"

definition db_failing :: "(bool \<times> bool) list \<Rightarrow> bool" where
  "db_failing dbs \<longleftrightarrow> (\<exists>d \<in> set dbs. snd d)"

lemma closeDBs_flags: "map snd (snd (closeDBs dbs)) = map snd dbs"
  by (induction dbs rule: closeDBs.induct) (auto split: prod.splits)

lemma db_failing_flags: "db_failing dbs \<longleftrightarrow> True \<in> set (map snd dbs)"
  by (force simp: db_failing_def)

lemma closeDBs_failing [simp]: "db_failing (snd (closeDBs dbs)) = db_failing dbs"
  by (simp only: db_failing_flags closeDBs_flags)

lemma closeDBs_closes: "\<not> db_failing dbs \<Longrightarrow> \<not> db_left (snd (closeDBs dbs))"
  by (induction dbs rule: closeDBs.induct) (auto simp: db_failing_def db_left_def split: prod.splits)

lemma Server_closeDB_simps [simp]:
  "lf_listener (snd (Server_closeDB s)) = lf_listener s" "lf_wait (snd (Server_closeDB s)) = lf_wait s"
  "lf_serve (snd (Server_closeDB s)) = lf_serve s" "lf_stop (snd (Server_closeDB s)) = lf_stop s"
  "lf_dbs (snd (Server_closeDB s)) = snd (closeDBs (lf_dbs s))"
  by (simp_all add: Server_closeDB_def split: prod.splits)

lemma closeListener_simps [simp]:
  "lf_listener (snd (closeListener fails s)) = False" "lf_wait (snd (closeListener fails s)) = lf_wait s"
  "lf_serve (snd (closeListener fails s)) = lf_serve s" "lf_stop (snd (closeListener fails s)) = lf_stop s"
  "lf_dbs (snd (closeListener fails s)) = lf_dbs s"
  by (simp_all add: closeListener_def)

text \<open>When the database of one CA cannot be closed, those of the CAs behind it stay open.\<close>

lemma closeDBs_stops: "closeDBs [(True, True), (True, False)] = (False, [(False, True), (True, False)])"
  by simp

section \<open>Stopping\<close>

text \<open>The invariant: while the goroutine serves, \<open>Stop\<close> is the only one that takes the listener away; the databases are closed once the goroutine is behind \<open>closeDB\<close>; and
  once \<open>Stop\<close> has waited, the listener is gone and the databases are closed or the goroutine is about to close them.\<close>

definition lifecycle_inv :: "Lifecycle \<Rightarrow> bool" where
  "lifecycle_inv s \<longleftrightarrow>
     (lf_serve s \<in> {S_None, S_Closed, S_Sending, S_Done} \<longrightarrow> \<not> lf_listener s) \<and>
     (lf_stop s \<in> {P_Done, P_Quick, P_Failed} \<or> waits (lf_stop s) \<longrightarrow> \<not> lf_listener s) \<and>
     (lf_serve s = S_Sending \<longrightarrow> db_left (lf_dbs s) \<longrightarrow> db_failing (lf_dbs s)) \<and>
     (lf_stop s = P_Done \<longrightarrow> db_left (lf_dbs s) \<longrightarrow> db_failing (lf_dbs s))"

lemma left_after_close: "db_left (snd (closeDBs dbs)) \<Longrightarrow> db_failing dbs"
  using closeDBs_closes by blast

lemma Start_inv:
  assumes "Start dbs initFails listenFails s = (r, t)" and "lifecycle_inv s"
  shows "lifecycle_inv t"
proof (cases "lf_listener s")
  case True
  then show ?thesis using assms by (simp add: Start_def bindE_def getE_def throwE_def)
next
  case False
  have close: "\<exists>q. attemptE Server_closeDB (s\<lparr>lf_dbs := dbs\<rparr>) = (Inr q, s\<lparr>lf_dbs := snd (closeDBs dbs)\<rparr>)"
    by (auto simp: attemptE_def Server_closeDB_def split: prod.splits)
  show ?thesis
  proof (cases "initFails \<or> listenFails")
    case True
    then have "t = s\<lparr>lf_dbs := snd (closeDBs dbs)\<rparr>"
      using assms(1) False close by (auto simp: Start_def bindE_def seqE_def getE_def modifyE_def throwE_def)
    then show ?thesis using assms(2) left_after_close [of dbs] by (simp add: lifecycle_inv_def)
  next
    case False
    then have "t = s\<lparr>lf_dbs := dbs, lf_listener := True, lf_serve := S_Listening, lf_stop := P_None\<rparr>"
      using assms(1) \<open>\<not> lf_listener s\<close> by (simp add: Start_def bindE_def seqE_def getE_def modifyE_def)
    then show ?thesis by (auto simp: lifecycle_inv_def)
  qed
qed

lemma serve_inv:
  assumes "serve_step blocking fails s = Some t" and "lifecycle_inv s"
  shows "lifecycle_inv t"
proof (cases "lf_serve s")
  case S_Closed
  let ?t = "snd (Server_closeDB s)"
  have "t = (if lf_wait s then ?t\<lparr>lf_serve := S_Sending\<rparr>
      else (if blocking then snd (Server_closeDB ?t) else ?t)\<lparr>lf_serve := S_Done\<rparr>)"
    using assms(1) S_Closed by (simp add: serve_step_def Let_def)
  moreover have "db_left (snd (closeDBs (snd (closeDBs (lf_dbs s))))) \<Longrightarrow> db_failing (lf_dbs s)"
    using left_after_close [of "snd (closeDBs (lf_dbs s))"] by simp
  ultimately show ?thesis using assms(2) S_Closed left_after_close [of "lf_dbs s"] by (simp add: lifecycle_inv_def)
next
  case S_Ended
  then have "t = (snd (closeListener fails s))\<lparr>lf_serve := S_Closed\<rparr>" using assms(1) by (simp add: serve_step_def)
  then show ?thesis using assms(2) S_Ended by (simp add: lifecycle_inv_def)
next
  case S_Ready
  then have "t = s\<lparr>lf_serve := if lf_listener s then S_Serving else S_Done\<rparr>" using assms(1) by (simp add: serve_step_def)
  then show ?thesis using assms(2) S_Ready by (simp add: lifecycle_inv_def)
next
  case S_Listening
  then have "t = (if blocking then s\<lparr>lf_serve := S_Ready\<rparr> else s\<lparr>lf_wait := True, lf_serve := S_Ready\<rparr>)" using assms(1) by (simp add: serve_step_def)
  then show ?thesis using assms(2) S_Listening by (simp add: lifecycle_inv_def)
next
  case S_Serving
  then have "t = s\<lparr>lf_serve := S_Ended\<rparr>" using assms(1) by (simp add: serve_step_def)
  then show ?thesis using assms(2) S_Serving by (simp add: lifecycle_inv_def)
qed (use assms(1) in \<open>simp_all add: serve_step_def\<close>)

lemma Stop_begin_eq:
  "Stop_begin fails s = s\<lparr>lf_listener := False,
     lf_stop := if \<not> lf_listener s \<or> fails then P_Failed else if lf_wait s then P_Waiting 10 else P_Quick\<rparr>"
  by (auto simp: Stop_begin_def closeListener_def)

lemma Stop_turn_inv: "lf_stop s = P_Waiting n \<Longrightarrow> lifecycle_inv s \<Longrightarrow> lifecycle_inv (Stop_turn n s)"
  by (cases n) (auto simp: lifecycle_inv_def dest: left_after_close)

lemma Stop_begin_inv: "lifecycle_inv s \<Longrightarrow> lifecycle_inv (Stop_begin fails s)"
  by (simp add: lifecycle_inv_def Stop_begin_eq)

lemma lifecycle_step_inv: "lifecycle_step blocking s t \<Longrightarrow> lifecycle_inv s \<Longrightarrow> lifecycle_inv t"
  by (induction rule: lifecycle_step.induct) (rule Start_inv serve_inv Stop_begin_inv Stop_turn_inv; assumption)+

lemma lifecycle_inv_holds: "lifecycle blocking s \<Longrightarrow> lifecycle_inv s"
  unfolding lifecycle_def
proof (induction rule: rtranclp_induct)
  case base
  then show ?case by (simp add: lifecycle_inv_def new_server_def db_left_def)
next
  case (step s t)
  then show ?case using lifecycle_step_inv by blast
qed

text \<open>\<open>Stop\<close> always returns: a turn of its loop uses up an attempt, and no step of another thread gives one back.\<close>

lemma Stop_progress:
  assumes "lifecycle_step blocking s t" and "lf_stop s = P_Waiting n"
  shows "lf_stop t = P_Waiting n \<or> (\<exists>m < n. lf_stop t = P_Waiting m) \<or> lf_stop t = P_Done"
    and "(\<exists>m < n. lf_stop (Stop_turn n s) = P_Waiting m) \<or> lf_stop (Stop_turn n s) = P_Done"
proof -
  show *: "(\<exists>m < n. lf_stop (Stop_turn n s) = P_Waiting m) \<or> lf_stop (Stop_turn n s) = P_Done" by (cases n) auto
  show "lf_stop t = P_Waiting n \<or> (\<exists>m < n. lf_stop t = P_Waiting m) \<or> lf_stop t = P_Done"
    using assms(1)
  proof cases
    case (serve fails)
    then show ?thesis using assms(2) by (cases "lf_serve s") (auto simp: serve_step_def Let_def split: if_splits)
  qed (use assms(2) * in auto)
qed


section \<open>Runs\<close>

definition listening :: Lifecycle where
  "listening = new_server\<lparr>lf_dbs := [(True, False)], lf_listener := True, lf_serve := S_Listening\<rparr>"

lemma run_start: "lifecycle blocking listening"
proof -
  have "Start [(True, False)] False False new_server = (Inr (), listening)"
    by (simp add: Start_def new_server_def listening_def bindE_def seqE_def getE_def modifyE_def)
  then have "lifecycle_step blocking new_server listening"
    by (rule lifecycle_step.start) (auto simp: new_server_def)
  then show ?thesis by (simp add: lifecycle_def)
qed

lemma run_serve: "lifecycle blocking s \<Longrightarrow> serve_step blocking False s = Some t \<Longrightarrow> lifecycle blocking t"
  unfolding lifecycle_def using lifecycle_step.serve by (metis rtranclp.simps)

lemma run_stop: "lifecycle blocking s \<Longrightarrow> lf_stop s = P_None \<Longrightarrow> lifecycle blocking (Stop_begin False s)"
  unfolding lifecycle_def using lifecycle_step.stop by (metis rtranclp.simps waits.simps(2))

lemma run_turn: "lifecycle blocking s \<Longrightarrow> lf_stop s = P_Waiting n \<Longrightarrow> lifecycle blocking (Stop_turn n s)"
  unfolding lifecycle_def using lifecycle_step.turn by (metis rtranclp.simps)

definition running :: Lifecycle where
  "running = listening\<lparr>lf_wait := True, lf_serve := S_Serving\<rparr>"

lemma run_running: "lifecycle False running"
proof -
  have "lifecycle False (listening\<lparr>lf_wait := True, lf_serve := S_Ready\<rparr>)"
    using run_serve [OF run_start, of False] by (simp add: serve_step_def listening_def)
  from run_serve [OF this] show ?thesis by (simp add: serve_step_def running_def listening_def)
qed

text \<open>The goroutine ends and its message is received.\<close>

lemma run_handover:
  "lifecycle False (running\<lparr>lf_listener := False, lf_dbs := [(False, False)], lf_wait := False, lf_serve := S_Done, lf_stop := P_Done\<rparr>)"
proof -
  have "lifecycle False (running\<lparr>lf_listener := False, lf_stop := P_Waiting 10\<rparr>)"
    using run_stop [OF run_running] by (simp add: Stop_begin_eq running_def listening_def new_server_def)
  from run_serve [OF this] have "lifecycle False (running\<lparr>lf_listener := False, lf_stop := P_Waiting 10, lf_serve := S_Ended\<rparr>)"
    by (simp add: serve_step_def running_def)
  from run_serve [OF this] have "lifecycle False (running\<lparr>lf_listener := False, lf_stop := P_Waiting 10, lf_serve := S_Closed\<rparr>)"
    by (simp add: serve_step_def closeListener_def)
  from run_serve [OF this] have "lifecycle False (running\<lparr>lf_listener := False, lf_stop := P_Waiting 10, lf_dbs := [(False, False)], lf_serve := S_Sending\<rparr>)"
    by (simp add: serve_step_def Server_closeDB_def running_def listening_def)
  from run_turn [OF this] show ?thesis by (simp add: numeral_eq_Suc)
qed


text \<open>A server that is stopped before its channel is made.  \<open>Stop\<close> returns success at once, the goroutine finds no listener and ends, and the databases stay
  open, although none of them fails to close.\<close>

theorem early_stop_leaves_databases:
  "\<exists>s. lifecycle False s \<and> lf_stop s = P_Quick \<and> lf_serve s = S_Done \<and> \<not> db_failing (lf_dbs s) \<and> db_left (lf_dbs s)"
proof -
  have "lifecycle False (listening\<lparr>lf_listener := False, lf_stop := P_Quick\<rparr>)"
    using run_stop [OF run_start] by (simp add: Stop_begin_eq listening_def new_server_def)
  from run_serve [OF this] have "lifecycle False (listening\<lparr>lf_listener := False, lf_stop := P_Quick, lf_wait := True, lf_serve := S_Ready\<rparr>)"
    by (simp add: serve_step_def listening_def)
  from run_serve [OF this] have "lifecycle False (listening\<lparr>lf_listener := False, lf_stop := P_Quick, lf_wait := True, lf_serve := S_Done\<rparr>)"
    by (simp add: serve_step_def)
  moreover have "db_left (lf_dbs listening)" "\<not> db_failing (lf_dbs listening)" by (simp_all add: listening_def db_failing_def db_left_def)
  ultimately show ?thesis by force
qed

text \<open>A goroutine whose server failed by itself waits for a receiver that never comes: from then on \<open>Stop\<close> only reports that the listener was closed.\<close>

lemma sender_waits_forever:
  assumes "lifecycle_step blocking s t" and "lf_serve s = S_Sending" "\<not> lf_listener s" "\<not> waits (lf_stop s)"
  shows "lf_serve t = S_Listening \<or> (lf_serve t = S_Sending \<and> \<not> lf_listener t \<and> \<not> waits (lf_stop t))"
  using assms(1)
proof cases
  case (start dbs i l r)
  then show ?thesis using assms(2-4)
    by (auto simp: Start_def bindE_def seqE_def getE_def modifyE_def throwE_def attemptE_def Server_closeDB_def split: if_splits prod.splits sum.splits)
qed (use assms(2-4) in \<open>auto simp: serve_step_def Stop_begin_eq\<close>)

lemma failed_server_sends: "\<exists>s. lifecycle False s \<and> lf_serve s = S_Sending \<and> \<not> lf_listener s \<and> lf_stop s = P_None"
proof -
  from run_serve [OF run_running] have "lifecycle False (running\<lparr>lf_serve := S_Ended\<rparr>)" by (simp add: serve_step_def running_def)
  from run_serve [OF this] have "lifecycle False (running\<lparr>lf_listener := False, lf_serve := S_Closed\<rparr>)"
    by (simp add: serve_step_def closeListener_def running_def listening_def)
  from run_serve [OF this] have "lifecycle False (running\<lparr>lf_listener := False, lf_dbs := [(False, False)], lf_serve := S_Sending\<rparr>)"
    by (simp add: serve_step_def Server_closeDB_def running_def listening_def)
  moreover have "lf_stop running = P_None" by (simp add: running_def listening_def new_server_def)
  ultimately show ?thesis by force
qed

end
