(* ===== verification/Struct_Copy.thy ===== *)
theory Struct_Copy
  imports Fabric_Util
begin

text \<open>
  \<open>CopyMissingValues\<close> of \<open>util/struct.go\<close>, which fills the missing values of the configuration of an additional CA with those
  of the default CA, on values as package \<open>reflect\<close> sees them.

  A leaf is a number, a flag or a text, written out, with the empty text for the zero value.  A map is the list of its entries.
  \<open>settable\<close> tells whether the destination can be assigned: fields, elements of slices and what a pointer leads to can, entries of a map and
  the contents of an interface cannot.  An assignment to a destination that cannot be assigned, and an operation on a value of another kind, is a panic.
\<close>

section \<open>Values\<close>

datatype gval =
    GLeaf string
  | GTime int
  | GPtr "gval option"
  | GIface "gval option"
  | GStruct "gval list"
  | GSlice "gval list option"
  | GMap "(string \<times> gval) list option"

fun zero_val :: "gval \<Rightarrow> gval" where
  "zero_val (GLeaf _) = GLeaf []"
| "zero_val (GTime _) = GTime 0"
| "zero_val (GPtr _) = GPtr None"
| "zero_val (GIface _) = GIface None"
| "zero_val (GStruct vs) = GStruct (map zero_val vs)"
| "zero_val (GSlice _) = GSlice None"
| "zero_val (GMap _) = GMap None"

text \<open>A value of a kind that can be nil, and is not.\<close>

fun not_nil :: "gval \<Rightarrow> bool" where
  "not_nil (GPtr v) = (v \<noteq> None)"
| "not_nil (GIface v) = (v \<noteq> None)"
| "not_nil (GSlice v) = (v \<noteq> None)"
| "not_nil (GMap v) = (v \<noteq> None)"
| "not_nil _ = False"

definition assign :: "bool \<Rightarrow> gval \<Rightarrow> gval result" where
  "assign settable v = (if settable then Inr v else Inl (GoPanic ''reflect.Set using unaddressable value''))"

definition mapR :: "('a \<Rightarrow> 'b) \<Rightarrow> 'a result \<Rightarrow> 'b result" where
  "mapR f r = bindR r (\<lambda>a. Inr (f a))"

definition kindPanic :: "'a result" where
  "kindPanic = Inl (GoPanic ''reflect: call on value of another kind'')"

section \<open>Copying\<close>

text \<open>What copies a source value: a function of the flag and of the destination.  The steps for the parts of a value take the copiers of the
  parts, together with the zero values of their types.\<close>

type_synonym copier = "bool \<Rightarrow> gval \<Rightarrow> gval result"

definition copyPtr :: "(copier \<times> gval) option \<Rightarrow> copier" where
  "copyPtr src settable dst =
     (case src of
        None \<Rightarrow> Inr dst
      | Some (copy, zero) \<Rightarrow>
          (case dst of
             GPtr None \<Rightarrow> bindR (assign settable zero) (\<lambda>v. mapR (\<lambda>v. GPtr (Some v)) (copy True v))
           | GPtr (Some d) \<Rightarrow> mapR (\<lambda>v. GPtr (Some v)) (copy True d)
           | _ \<Rightarrow> kindPanic))"

definition copyIface :: "(copier \<times> gval) option \<Rightarrow> copier" where
  "copyIface src settable dst =
     (case src of
        None \<Rightarrow> Inr dst
      | Some (copy, zero) \<Rightarrow>
          (case dst of
             GIface None \<Rightarrow> bindR (copy True zero) (\<lambda>v. assign settable (GIface (Some v)))
           | GIface (Some d) \<Rightarrow> mapR (\<lambda>v. GIface (Some v)) (copy False d)
           | _ \<Rightarrow> kindPanic))"

fun copyFields :: "copier list \<Rightarrow> bool \<Rightarrow> gval list \<Rightarrow> gval list result" where
  "copyFields [] settable ds = Inr ds"
| "copyFields (s # ss) settable [] = kindPanic"
| "copyFields (s # ss) settable (d # ds) =
     bindR (s settable d) (\<lambda>v. bindR (copyFields ss settable ds) (\<lambda>vs. Inr (v # vs)))"

fun copyElements :: "(copier \<times> gval) list \<Rightarrow> gval list result" where
  "copyElements [] = Inr []"
| "copyElements ((copy, zero) # ss) = bindR (copy True zero) (\<lambda>v. bindR (copyElements ss) (\<lambda>vs. Inr (v # vs)))"

definition copySlice :: "(copier \<times> gval) list \<Rightarrow> copier" where
  "copySlice src settable dst =
     (if not_nil dst then Inr dst
      else (case dst of
              GSlice _ \<Rightarrow> bindR (copyElements src) (\<lambda>l. assign settable (GSlice (Some l)))
            | _ \<Rightarrow> kindPanic))"

fun copyEntries :: "(string \<times> copier \<times> gval) list \<Rightarrow> (string \<times> gval) list \<Rightarrow> (string \<times> gval) list result" where
  "copyEntries [] m = Inr m"
| "copyEntries ((key, copy, zero) # es) m =
     bindR (case map_of m key of None \<Rightarrow> copy True zero | Some dval \<Rightarrow> copy False dval) (\<lambda>v.
     copyEntries es (AList.update key v m))"

definition copyMap :: "(string \<times> copier \<times> gval) list \<Rightarrow> copier" where
  "copyMap src settable dst =
     (case dst of
        GMap None \<Rightarrow> bindR (assign settable (GMap (Some []))) (\<lambda>_. mapR (\<lambda>m. GMap (Some m)) (copyEntries src []))
      | GMap (Some m) \<Rightarrow> mapR (\<lambda>m. GMap (Some m)) (copyEntries src m)
      | _ \<Rightarrow> if not_nil dst \<and> src = [] then Inr dst else kindPanic)"

definition copyLeaf :: "string \<Rightarrow> copier" where
  "copyLeaf src settable dst =
     (if dst = zero_val dst then (case dst of GLeaf _ \<Rightarrow> assign settable (GLeaf src) | _ \<Rightarrow> kindPanic) else Inr dst)"

text \<open>A nil slice or map is copied as an empty one, and a time is copied whether or not the destination has one.\<close>

fun copyMissingValues :: "gval \<Rightarrow> copier" where
  "copyMissingValues (GPtr src) = copyPtr (map_option (\<lambda>v. (copyMissingValues v, zero_val v)) src)"
| "copyMissingValues (GIface src) = copyIface (map_option (\<lambda>v. (copyMissingValues v, zero_val v)) src)"
| "copyMissingValues (GTime t) = (\<lambda>settable dst. case dst of GTime _ \<Rightarrow> assign settable (GTime t) | _ \<Rightarrow> kindPanic)"
| "copyMissingValues (GStruct src) =
     (\<lambda>settable dst. case dst of GStruct ds \<Rightarrow> mapR GStruct (copyFields (map copyMissingValues src) settable ds) | _ \<Rightarrow> kindPanic)"
| "copyMissingValues (GSlice src) =
     copySlice (case src of None \<Rightarrow> [] | Some l \<Rightarrow> map (\<lambda>v. (copyMissingValues v, zero_val v)) l)"
| "copyMissingValues (GMap src) =
     copyMap (case src of None \<Rightarrow> [] | Some m \<Rightarrow> map (\<lambda>e. (fst e, copyMissingValues (snd e), zero_val (snd e))) m)"
| "copyMissingValues (GLeaf src) = copyLeaf src"

definition CopyMissingValues :: "gval \<Rightarrow> gval \<Rightarrow> gval result" where
  "CopyMissingValues src dst = copyMissingValues src True dst"

section \<open>What is copied\<close>

text \<open>Values without times, interfaces and maps, and destinations of the type of the source.\<close>

fun plain :: "gval \<Rightarrow> bool" where
  "plain (GLeaf _) = True"
| "plain (GPtr v) = (case v of None \<Rightarrow> True | Some v \<Rightarrow> plain v)"
| "plain (GStruct vs) = list_all plain vs"
| "plain (GSlice vs) = (case vs of None \<Rightarrow> True | Some vs \<Rightarrow> list_all plain vs)"
| "plain _ = False"

fun fits :: "gval \<Rightarrow> gval \<Rightarrow> bool" where
  "fits (GLeaf _) (GLeaf _) = True"
| "fits (GPtr (Some s)) (GPtr (Some d)) = fits s d"
| "fits (GPtr _) (GPtr _) = True"
| "fits (GStruct ss) (GStruct ds) = list_all2 fits ss ds"
| "fits (GSlice _) (GSlice _) = True"
| "fits _ _ = False"

text \<open>\<open>extends d v\<close>: all that is set in \<open>d\<close> has the same value in \<open>v\<close>.  \<open>covers s v\<close>: all that is set in \<open>s\<close> is set in \<open>v\<close>.\<close>

fun extends :: "gval \<Rightarrow> gval \<Rightarrow> bool" where
  "extends (GLeaf d) (GLeaf v) = (d = [] \<or> v = d)"
| "extends (GPtr None) (GPtr v) = True"
| "extends (GPtr (Some d)) (GPtr (Some v)) = extends d v"
| "extends (GStruct ds) (GStruct vs) = list_all2 extends ds vs"
| "extends (GSlice d) (GSlice v) = (d = None \<or> v = d)"
| "extends _ _ = False"

fun covers :: "gval \<Rightarrow> gval \<Rightarrow> bool" where
  "covers (GLeaf s) (GLeaf v) = (s = [] \<or> v \<noteq> [])"
| "covers (GPtr None) (GPtr v) = True"
| "covers (GPtr (Some s)) (GPtr (Some v)) = covers s v"
| "covers (GStruct ss) (GStruct vs) = list_all2 covers ss vs"
| "covers (GSlice _) (GSlice v) = (v \<noteq> None)"
| "covers _ _ = False"

lemma extends_refl: "plain d \<Longrightarrow> extends d d"
  by (induction d) (auto simp: list_all_iff list.rel_refl_strong split: option.splits)

lemma fits_zero: "plain s \<Longrightarrow> fits s (zero_val s)"
proof (induction s)
  case (GPtr s)
  then show ?case by (cases s) auto
next
  case (GStruct ss)
  then show ?case by (auto simp: list_all_iff list_all2_map2 intro: list.rel_refl_strong)
qed auto

text \<open>What one copy achieves.\<close>

definition copied :: "gval \<Rightarrow> gval \<Rightarrow> gval \<Rightarrow> bool" where
  "copied s d v \<longleftrightarrow> copyMissingValues s True d = Inr v \<and> extends d v \<and> covers s v \<and> fits s v \<and> copyMissingValues s True v = Inr v"

lemma copyFields_copied:
  assumes "\<And>s d. s \<in> set ss \<Longrightarrow> fits s d \<Longrightarrow> plain d \<Longrightarrow> \<exists>v. copied s d v" and "list_all2 fits ss ds" and "list_all plain ds"
  shows "\<exists>vs. copyFields (map copyMissingValues ss) True ds = Inr vs \<and> list_all2 extends ds vs \<and> list_all2 covers ss vs \<and>
    list_all2 fits ss vs \<and> copyFields (map copyMissingValues ss) True vs = Inr vs"
  using assms(2,3,1)
proof (induction rule: list_all2_induct)
  case (Cons s ss d ds)
  obtain v where v: "copied s d v" using Cons.prems Cons.hyps(1) by auto
  obtain vs where "copyFields (map copyMissingValues ss) True ds = Inr vs" "list_all2 extends ds vs" "list_all2 covers ss vs"
      "list_all2 fits ss vs" "copyFields (map copyMissingValues ss) True vs = Inr vs"
    using Cons.IH Cons.prems by auto
  then show ?case using v by (intro exI [of _ "v # vs"]) (simp add: copied_def)
qed simp

lemma copyElements_Inr:
  assumes "\<And>s. s \<in> set ss \<Longrightarrow> \<exists>v. copyMissingValues s True (zero_val s) = Inr v"
  shows "\<exists>vs. copyElements (map (\<lambda>v. (copyMissingValues v, zero_val v)) ss) = Inr vs"
  using assms
proof (induction ss)
  case (Cons s ss)
  obtain v where "copyMissingValues s True (zero_val s) = Inr v" using Cons.prems by auto
  moreover obtain vs where "copyElements (map (\<lambda>v. (copyMissingValues v, zero_val v)) ss) = Inr vs" using Cons by auto
  ultimately show ?case by simp
qed simp

lemma plain_zero: "plain s \<Longrightarrow> plain (zero_val s)"
  by (induction s) (auto simp: list_all_iff)

lemma copies: "plain s \<Longrightarrow> fits s d \<Longrightarrow> plain d \<Longrightarrow> \<exists>v. copied s d v"
proof (induction s arbitrary: d)
  case (GLeaf s)
  then obtain x where "d = GLeaf x" by (cases d) auto
  then show ?case by (intro exI [of _ "GLeaf (if x = [] then s else x)"]) (simp add: copied_def copyLeaf_def assign_def)
next
  case (GPtr s)
  then obtain x where d: "d = GPtr x" by (cases d) (auto split: option.splits)
  show ?case
  proof (cases s)
    case None
    then show ?thesis using d GPtr.prems(3)
      by (intro exI [of _ "GPtr x"]) (auto simp: copied_def copyPtr_def extends_refl split: option.splits)
  next
    case (Some s')
    let ?x = "case x of None \<Rightarrow> zero_val s' | Some y \<Rightarrow> y"
    have "fits s' ?x" "plain ?x" "plain s'" using GPtr.prems d Some fits_zero plain_zero by (auto split: option.splits)
    then obtain v where "copied s' ?x v" using GPtr.IH Some by auto
    then show ?thesis using d Some
      by (intro exI [of _ "GPtr (Some v)"]) (cases x; simp add: copied_def copyPtr_def assign_def mapR_def)
  qed
next
  case (GStruct ss)
  then obtain ds where d: "d = GStruct ds" "list_all2 fits ss ds" "list_all plain ds" by (cases d) auto
  obtain vs where "copyFields (map copyMissingValues ss) True ds = Inr vs" "list_all2 extends ds vs" "list_all2 covers ss vs"
      "list_all2 fits ss vs" "copyFields (map copyMissingValues ss) True vs = Inr vs"
    using copyFields_copied [of ss ds] GStruct d by (auto simp: list_all_iff)
  then show ?case using d by (intro exI [of _ "GStruct vs"]) (simp add: copied_def mapR_def)
next
  case (GSlice s)
  then obtain x where d: "d = GSlice x" by (cases d) auto
  let ?l = "case s of None \<Rightarrow> [] | Some l \<Rightarrow> l"
  have "\<exists>v. copyMissingValues e True (zero_val e) = Inr v" if "e \<in> set ?l" for e
    using that GSlice.IH [of _ e "zero_val e"] GSlice.prems(1) fits_zero plain_zero
    by (auto simp: list_all_iff copied_def split: option.splits)
  then obtain vs where "copyElements (map (\<lambda>v. (copyMissingValues v, zero_val v)) ?l) = Inr vs" using copyElements_Inr by blast
  then show ?case using d
    by (intro exI [of _ "GSlice (Some (case x of None \<Rightarrow> vs | Some y \<Rightarrow> y))"])
      (cases x; cases s; simp add: copied_def copySlice_def assign_def)
qed (auto)



text \<open>An entry of a map that is there but empty cannot be filled: the operation panics.  A time is replaced though it is set.\<close>

lemma empty_entry_panics:
  "CopyMissingValues (GMap (Some [(''a'', GLeaf ''x'')])) (GMap (Some [(''a'', GLeaf [])])) = Inl (GoPanic ''reflect.Set using unaddressable value'')"
  by (simp add: CopyMissingValues_def copyMap_def copyLeaf_def assign_def mapR_def)

lemma time_is_replaced: "CopyMissingValues (GTime 1) (GTime 2) = Inr (GTime 1)"
  by (simp add: CopyMissingValues_def assign_def)

end
