(* ===== verification/Spec2Isabelle.thy ===== *)
theory Spec2Isabelle
  imports Affiliation_Handlers Certificate_Handlers Idemix_Handlers Revocation Server_Dispatch Enroll_Sessions Ldap_Client
    Client_Server CA_Material Server_Lifecycle Struct_Copy
begin

text \<open>
  \<^bold>\<open>Fabric CA: the certificate authority of Hyperledger Fabric, its server and its client library.\<close>

  A Fabric CA server holds one or more certificate authorities.  Each keeps a database of identities, affiliations, certificates and
  Idemix credentials.  Clients register identities, enroll them (a certificate signing request is answered with a certificate),
  revoke certificates and identities, and read lists.  Every request but those for an enrollment and for information carries a token, a
  signature over the body made with the sender's certificate; what a sender may do follows from the attributes and the affiliation in
  the row of its identity.  The source is below \<open>src/\<close>: \<open>lib\<close> (server, CA, client, database),
  \<open>util\<close>, \<open>api\<close>.  All file names in this library are relative to \<open>src/\<close>.

  \<^bold>\<open>How the code is modelled.\<close>
  Go functions are HOL functions.  An operation with effects is a function from a state to a result and a state (type \<open>em\<close>, theory
  \<open>Error_Monad\<close>); the result is an error or a value.  Structs are records whose fields have a short prefix and the name of the Go
  field; package-private helpers that clash with another name have the name of their package or receiver in front.  Errors are values of
  \<open>go_error\<close>: an HTTP error with its codes, a wrapped error, an SQL error, an error with a text; texts are abbreviated, since no decision depends on
  them except where a text is compared, and there it is the one of the source.  A panic is the error \<open>GoPanic\<close>: it passes through the code that
  handles errors (\<open>mapErrE\<close>, \<open>attemptE\<close>) and ends a request without an answer.  Integers are unbounded, except where the width
  matters (the bytes and blocks of \<open>TCert_Crypto\<close>, the parsing of numbers in \<open>Certificate_Handlers\<close>).  The present time is an
  argument or a field of an environment, and so is the list of random bytes.
  Code that is not part of the repository is a parameter: the fields of the records \<open>env\<close>, \<open>services\<close>,
  \<open>ca_keys\<close>, \<open>tc_lib\<close>, \<open>cenv\<close>, \<open>caenv\<close>, \<open>idemix_lib\<close> and others are functions for bcrypt, hashing, signing, X.509 and
  JSON parsers, CFSSL, the LDAP directory, HTTP and so on.  What a theorem needs of them is an explicit hypothesis of documented behaviour (a signature that was made verifies, a PEM
  block is not empty), and its witness instantiates them with concrete functions.

  \<^bold>\<open>Foundations.\<close>
  \<open>Go_Prelude\<close>: strings and results.  \<open>Server_Error\<close>: \<open>lib/servererror.go\<close>.  \<open>Error_Monad\<close>: the
  monad, its rules (collection \<open>em_simps\<close>) and invariants of operations (\<open>keeps\<close>, collection \<open>keeps_intros\<close>).
  \<open>Fabric_Util\<close>, \<open>File_Paths\<close>, \<open>Struct_Copy\<close>: \<open>util/util.go\<close> and \<open>util/struct.go\<close>; the copy of missing values keeps what
  is set and is idempotent.  \<open>Go_Net\<close>: hosts, ports and URLs.  \<open>Tls_Files\<close>, \<open>Crypto_Config\<close>: \<open>lib/tls/tls.go\<close>, \<open>util/configurebccsp.go\<close>.

  \<^bold>\<open>Database.\<close>
  \<open>SQL_Store\<close> has the tables as lists of rows of the present layout and the statements on them; a statement consults the list \<open>db_faults\<close> of
  failures to come, so that every theorem covers databases that fail at any statement, and a transaction that fails is rolled back.
  \<open>User_Registry\<close>, \<open>Affiliation_Registry\<close>: \<open>lib/dbaccessor.go\<close>.  \<open>Cert_Store\<close>: \<open>lib/certdbaccessor.go\<close>.
  \<open>Version_Levels\<close>: \<open>lib/metadata/version.go\<close>.  \<open>Db_Source\<close>, \<open>Db_Tables\<close>, \<open>Db_Schema\<close>: \<open>lib/dbutil/dbutil.go\<close>, on tables
  with named and typed columns, for SQLite, PostgreSQL and MySQL: the creation of all tables, and the update of an older layout, which keeps all data and refines the
  operation on rows that the server runs (hypothesis \<open>updates_layout\<close> of \<open>Server_Dispatch\<close>).  In \<open>CA_Bootstrap\<close> opening the database is one statement that fails or
  succeeds.  \<open>Ldap_Client\<close>: \<open>lib/ldap/client.go\<close>, the other kind of registry; it is not plugged into the handlers, which are modelled with
  the database as registry; the locale \<open>identity_registry\<close> states what both promise to the code that authenticates.

  \<^bold>\<open>Certificate authority.\<close>
  \<open>Attribute_Control\<close>: \<open>lib/attr/attribute.go\<close>.  \<open>CA_Bootstrap\<close>: loading of the registry, migration, levels, validation of the CA's certificate
  (\<open>lib/ca.go\<close>).  \<open>CA_Material\<close>: configuration, key material and chains (\<open>lib/ca.go\<close>, \<open>lib/clientconfig.go\<close>); an intermediate CA
  enrolls through the client library.  \<open>Auth_Token\<close>: tokens.  \<open>Key_Tree\<close>, \<open>TCert_Crypto\<close>, \<open>TCert_Batch\<close>: \<open>lib/tcert\<close>.
  \<open>Idemix_Issuer\<close>: \<open>lib/server/idemix\<close>, for SQLite and MySQL (two of its statements are not valid in PostgreSQL).

  \<^bold>\<open>Server.\<close>
  \<open>Api_Types\<close>: \<open>api\<close>.  \<open>Server_Endpoint\<close>: \<open>lib/serverendpoint.go\<close>.  \<open>Request_Context\<close>:
  \<open>lib/serverrequestcontext.go\<close>; its state \<open>reqst\<close> is the server while it handles one request: the CAs with their databases, the context of the request, the response
  writer.  Handlers: \<open>Identity_Handlers\<close> (\<open>lib/serverregister.go\<close>, \<open>lib/serveridentities.go\<close>), \<open>Affiliation_Handlers\<close> (\<open>lib/serveraffiliations.go\<close>),
  \<open>Enrollment\<close> (\<open>lib/serverenroll.go\<close>), \<open>Revocation\<close> (\<open>lib/serverrevoke.go\<close>, \<open>lib/servergencrl.go\<close>), \<open>Certificate_Handlers\<close>
  (\<open>lib/servercertificates.go\<close>, \<open>lib/server/certificaterequest.go\<close>), \<open>Idemix_Handlers\<close> (\<open>lib/serveridemix*.go\<close>).  The theorems say, for each handler
  that changes something, what authorised it and exactly which rows it changed, on every branch.  \<open>Server_Dispatch\<close> (\<open>lib/server.go\<close>): routes, endpoints and
  the serving of whole requests, with the invariants that hold over every sequence of requests.  \<open>Enroll_Sessions\<close>: the database accesses of concurrent enrollments as a
  step relation.  \<open>Server_Lifecycle\<close>: starting, serving and stopping as a step relation of three threads.

  \<^bold>\<open>Client.\<close>
  \<open>Json_Streamer\<close>: \<open>lib/streamer/jsonstreamer.go\<close>, with a walk over JSON documents as its specification.  \<open>Client_World\<close>: files,
  keys, network and the client object; \<open>Client_Tls\<close>, \<open>Client_Credential\<close>, \<open>Client_Library\<close>, \<open>Client_Identity\<close>: \<open>lib/client.go\<close>,
  \<open>lib/identity.go\<close>, \<open>lib/client/credential\<close>, \<open>util/csp.go\<close>.  \<open>Client_Server\<close> puts both sides together: a request that the client signs is accepted by
  the server, its basic authentication is read back, and the certificate that a client asks to have revoked as its own is the one the server sees as the caller's.

  \<^bold>\<open>Interfaces.\<close>
  \<open>db_invariant\<close>, \<open>cert_invariant\<close>, \<open>idemix_invariant\<close>, \<open>server_invariant\<close>, \<open>server_env\<close>: a predicate on databases that every statement keeps is kept by every accessor, by every
  Idemix operation, by every handler and by the server; interpreted for the uniqueness of certificate keys and for the permanence of revocation.
  \<open>request_invariant\<close>, \<open>endpoint_invariant\<close>: predicates on the state of a request, interpreted for the response writer and for the endpoints.
  \<open>attribute_owner\<close>: what the attribute checks need of an identity.  \<open>identity_registry\<close>: what authentication needs of a registry, interpreted for the database and for LDAP.
  \<open>disk_credential\<close>: what is stored can be loaded, for both kinds of credentials.

  \<^bold>\<open>Fuel.\<close>
  Recursion is structural or has a termination proof, except in three places.  The streamer reads from a source that callbacks advance: it has one unit of fuel per token and one
  more, which is enough when every callback reads something (theorem \<open>StreamJSON_ends\<close>; a callback that reads nothing never ends it, in the code too).  The loops over PEM
  blocks (\<open>pemBlocks\<close>, \<open>chainPools\<close>) have one unit per character and one more, which is enough since a block is not empty (\<open>pemBlocks_enough\<close>, \<open>chainPools_ends\<close>).

  \<^bold>\<open>Not modelled.\<close>
  The commands (\<open>cmd\<close>) with their flags and configuration templates, and the reflection that registers flags and prints structs with secrets masked; log messages; the loading of additional CAs
  from their configuration files, the choice of the listener and profiling (\<open>lib/server.go\<close>); HTTP, TLS and the cryptography itself; the files of the Idemix keys; the OCSP records, which CFSSL
  writes; RSA tokens, which the code has disabled; the header \<open>Location\<close> of responses.  The router gets cleaned paths.  The query parameters of a client's request are in the order of their addition.
\<close>

end
